(* ===== verification/Attachment_Prelude.thy ===== *)
theory Attachment_Prelude
  imports Main "HOL-Library.Word"
begin

text \<open>
  What the components of the development share: the C integer types as words, the byte
  memory of a shared mapping with its 16-bit little-endian accesses and \<open>memcpy\<close>, C
  strings, and the fact collections \<open>ring_simps\<close> (how the loops and the memory accesses
  read back) and \<open>nano_defs\<close> (the handlers of the nano attachment, unfolded together).
  Bytes are laid out little endian, as on every target the attachment is built for.
\<close>

unbundle bit_operations_syntax

named_theorems ring_simps \<open>how the management array and the data bytes read back after a write\<close>
named_theorems nano_defs \<open>the definitions of the nano attachment's handlers\<close>

section \<open>C integers\<close>

type_synonym u8 = "8 word"
type_synonym u16 = "16 word"
type_synonym u32 = "32 word"
type_synonym u64 = "64 word"

type_synonym bytes = "u8 list"

lemma unat_u16_less: "unat (w :: u16) < 65536"
  using unsigned_less [of w] by simp

lemma unat_u8_less: "unat (w :: u8) < 256"
  using unsigned_less [of w] by simp

lemma unat_of_nat_u16 [simp]: "n < 65536 \<Longrightarrow> unat (of_nat n :: u16) = n"
  by (simp add: unat_of_nat take_bit_nat_eq_self)

lemma unat_of_nat_u8 [simp]: "n < 256 \<Longrightarrow> unat (of_nat n :: u8) = n"
  by (simp add: unat_of_nat take_bit_nat_eq_self)

lemma unat_of_nat_u64: "n < 2 ^ 64 \<Longrightarrow> unat (of_nat n :: u64) = n"
  by (simp add: unat_of_nat take_bit_nat_eq_self)

lemma of_nat_u16_eq_iff:
  "m < 65536 \<Longrightarrow> n < 65536 \<Longrightarrow> (of_nat m :: u16) = of_nat n \<longleftrightarrow> m = n"
  by (metis unat_of_nat_u16)

lemma unat_u16_eqI: "unat (a :: u16) = n \<Longrightarrow> a = of_nat n"
  by (metis of_nat_unat ucast_id)

section \<open>Byte memory\<close>

text \<open>
  The memory behind a pointer is a function from offsets to bytes. \<open>get16\<close> and
  \<open>put16\<close> are an access through a \<open>uint16_t *\<close>, \<open>memcpy\<close> is the C library's.
\<close>

type_synonym memory = "nat \<Rightarrow> u8"

definition get16 :: "memory \<Rightarrow> nat \<Rightarrow> u16" where
  "get16 p a = ucast (p a) OR push_bit 8 (ucast (p (Suc a)))"

definition put16 :: "memory \<Rightarrow> nat \<Rightarrow> u16 \<Rightarrow> memory" where
  "put16 p a w = p(a := ucast w, Suc a := ucast (drop_bit 8 w))"

definition memcpy :: "memory \<Rightarrow> nat \<Rightarrow> bytes \<Rightarrow> memory" where
  "memcpy p d bs = (\<lambda>a. if d \<le> a \<and> a < d + length bs then bs ! (a - d) else p a)"

definition read_bytes :: "memory \<Rightarrow> nat \<Rightarrow> nat \<Rightarrow> bytes" where
  "read_bytes p a n = map (\<lambda>i. p (a + i)) [0..<n]"

lemma get16_put16_same [simp]: "get16 (put16 p a w) a = w"
proof -
  have "(ucast (ucast w :: u8) OR push_bit 8 (ucast (ucast (drop_bit 8 w) :: u8)) :: u16) = w"
    by (rule bit_word_eqI)
      (auto simp: bit_simps)
  then show ?thesis by (simp add: get16_def put16_def)
qed

lemma get16_put16_other: "b + 1 < a \<or> a + 1 < b \<Longrightarrow> get16 (put16 p a w) b = get16 p b"
  by (auto simp: get16_def put16_def)

lemma put16_frame: "b \<noteq> a \<Longrightarrow> b \<noteq> Suc a \<Longrightarrow> put16 p a w b = p b"
  by (simp add: put16_def)

lemma memcpy_inside: "i < length bs \<Longrightarrow> memcpy p d bs (d + i) = bs ! i"
  by (simp add: memcpy_def)

lemma memcpy_outside: "a < d \<or> d + length bs \<le> a \<Longrightarrow> memcpy p d bs a = p a"
  by (auto simp: memcpy_def)

lemma memcpy_Nil [simp]: "memcpy p d [] = p"
  by (rule ext) (auto simp: memcpy_def)

lemma memcpy_append: "memcpy (memcpy p d xs) (d + length xs) ys = memcpy p d (xs @ ys)"
proof (rule ext)
  fix a
  consider "a < d" | "d \<le> a" "a < d + length xs" | "d + length xs \<le> a" by linarith
  then show "memcpy (memcpy p d xs) (d + length xs) ys a = memcpy p d (xs @ ys) a"
    by cases (auto simp: memcpy_def nth_append)
qed

lemma get16_memcpy_outside:
  "Suc a < d \<or> d + length bs \<le> a \<Longrightarrow> get16 (memcpy p d bs) a = get16 p a"
  by (auto simp: get16_def memcpy_def)

lemma read_bytes_eqI:
  "length bs = n \<Longrightarrow> (\<And>i. i < n \<Longrightarrow> p (a + i) = bs ! i) \<Longrightarrow> read_bytes p a n = bs"
  by (auto simp: read_bytes_def intro: nth_equalityI)

text \<open>Wider little-endian reads, and the bytes a store of a 16-bit or 32-bit value leaves.\<close>

definition get32 :: "memory \<Rightarrow> nat \<Rightarrow> u32" where
  "get32 p a = ucast (get16 p a) OR push_bit 16 (ucast (get16 p (a + 2)))"

definition get64 :: "memory \<Rightarrow> nat \<Rightarrow> u64" where
  "get64 p a = ucast (get32 p a) OR push_bit 32 (ucast (get32 p (a + 4)))"

definition le16 :: "u16 \<Rightarrow> bytes" where
  "le16 w = [ucast w, ucast (drop_bit 8 w)]"

definition le32 :: "u32 \<Rightarrow> bytes" where
  "le32 w = le16 (ucast w) @ le16 (ucast (drop_bit 16 w))"

definition le64 :: "u64 \<Rightarrow> bytes" where
  "le64 w = le32 (ucast w) @ le32 (ucast (drop_bit 32 w))"

lemma length_le [simp]: "length (le16 w) = 2" "length (le32 v) = 4" "length (le64 u) = 8"
  by (simp_all add: le16_def le32_def le64_def)

text \<open>\<open>bytes_at p a bs\<close>: the bytes \<open>bs\<close> are in memory from \<open>a\<close> on.\<close>

definition bytes_at :: "memory \<Rightarrow> nat \<Rightarrow> bytes \<Rightarrow> bool" where
  "bytes_at p a bs = (read_bytes p a (length bs) = bs)"

lemma length_read_bytes [simp]: "length (read_bytes p a n) = n"
  by (simp add: read_bytes_def)

lemma read_bytes_append: "read_bytes p a (m + n) = read_bytes p a m @ read_bytes p (a + m) n"
  by (rule nth_equalityI) (auto simp: read_bytes_def nth_append)

lemma bytes_at_append [simp]: "bytes_at p a (xs @ ys) \<longleftrightarrow> bytes_at p a xs \<and> bytes_at p (a + length xs) ys"
  by (simp add: bytes_at_def read_bytes_append)

lemma bytes_at_Nil [simp]: "bytes_at p a []"
  by (simp add: bytes_at_def read_bytes_def)

lemma bytes_at_Cons [simp]: "bytes_at p a (x # xs) \<longleftrightarrow> p a = x \<and> bytes_at p (Suc a) xs"
  using bytes_at_append [of p a "[x]" xs] by (simp add: bytes_at_def read_bytes_def)

lemma bytes_at_read: "bytes_at p a bs \<Longrightarrow> n = length bs \<Longrightarrow> read_bytes p a n = bs"
  by (simp add: bytes_at_def)

lemma get16_at: "bytes_at p a (le16 w) \<Longrightarrow> get16 p a = w"
  using get16_put16_same [of p a w] by (simp add: le16_def get16_def put16_def)

lemma get32_at:
  assumes "bytes_at p a (le32 w)"
  shows "get32 p a = w"
proof -
  have "get16 p a = ucast w" "get16 p (a + 2) = ucast (drop_bit 16 w)"
    using assms by (simp_all add: le32_def get16_at)
  moreover have "(ucast (ucast w :: u16) OR push_bit 16 (ucast (ucast (drop_bit 16 w) :: u16)) :: u32) = w"
    by (rule bit_word_eqI) (auto simp: bit_simps)
  ultimately show ?thesis by (simp add: get32_def)
qed

lemma get64_at:
  assumes "bytes_at p a (le64 w)"
  shows "get64 p a = w"
proof -
  have "get32 p a = ucast w" "get32 p (a + 4) = ucast (drop_bit 32 w)"
    using assms by (simp_all add: le64_def get32_at)
  moreover have "(ucast (ucast w :: u32) OR push_bit 32 (ucast (ucast (drop_bit 32 w) :: u32)) :: u64) = w"
    by (rule bit_word_eqI) (auto simp: bit_simps)
  ultimately show ?thesis by (simp add: get64_def)
qed

section \<open>C strings\<close>

text \<open>
  A NUL-terminated string is the list of the characters before its terminator.
  \<open>cstr_trunc n s\<close> is what \<open>snprintf(buf, n, "%s", s)\<close> leaves in \<open>buf\<close>: at
  most \<open>n - 1\<close> characters, for \<open>n > 0\<close>.
\<close>

definition cstr_trunc :: "nat \<Rightarrow> string \<Rightarrow> string" where
  "cstr_trunc n s = take (n - 1) s"

lemma cstr_trunc_short [simp]: "length s < n \<Longrightarrow> cstr_trunc n s = s"
  by (simp add: cstr_trunc_def)

lemma length_cstr_trunc: "0 < n \<Longrightarrow> length (cstr_trunc n s) < n"
  by (auto simp: cstr_trunc_def)

fun atoi_digits :: "string \<Rightarrow> int \<Rightarrow> int" where
  "atoi_digits [] acc = acc"
| "atoi_digits (c # cs) acc =
     (if 48 \<le> (of_char c :: int) \<and> (of_char c :: int) \<le> 57
      then atoi_digits cs (10 * acc + (of_char c - 48))
      else acc)"

text \<open>
  \<open>atoi\<close>: white space, an optional sign, digits; 0 when there is no digit. (A number
  outside \<open>int\<close> is undefined behaviour in C; here it is the number.)
\<close>

definition atoi_signed :: "string \<Rightarrow> int" where
  "atoi_signed s =
     (case s of
        [] \<Rightarrow> 0
      | c # cs \<Rightarrow>
          if c = CHR ''-'' then - atoi_digits cs 0
          else if c = CHR ''+'' then atoi_digits cs 0
          else atoi_digits s 0)"

definition is_space :: "char \<Rightarrow> bool" where
  "is_space c = (c = CHR '' '' \<or> (9 \<le> (of_char c :: int) \<and> (of_char c :: int) \<le> 13))"

definition atoi :: "string \<Rightarrow> int" where
  "atoi s = atoi_signed (dropWhile is_space s)"

end
