(* ===== verification/Ring_Core.thy ===== *)
theory Ring_Core
  imports Attachment_Prelude
begin

text \<open>
  The shared ring queue of \<open>core/shmem_ipc\<close> and \<open>core/shmem_ipc_2\<close>: the structure both
  libraries map into shared memory, the loops over its management array and the part of
  peek, push and pop that follows the position checks, which the two files have in common.
  The last section says what the loops do to the marks and to the bytes.
\<close>

section \<open>The queue structure\<close>

text \<open>
  The fields of the packed struct before \<open>mgmt_segment\<close> are record fields; \<open>payload\<close> is
  the memory from \<open>mgmt_segment\<close> on, so that an access past the management segment falls
  into the data segments, as it does in the mapping.
\<close>

record SharedRingQueue =
  shared_location_name :: string
  owner_fd :: int
  user_fd :: int
  size_of_memory :: int
  write_pos :: u16
  read_pos :: u16
  num_of_data_segments :: u16
  payload :: memory

definition SHARED_MEMORY_SEGMENT_ENTRY_SIZE :: nat where
  "SHARED_MEMORY_SEGMENT_ENTRY_SIZE = 4096"

definition SHARED_MEMORY_SEGMENT_ENTRY_SIZE_BC :: nat where
  "SHARED_MEMORY_SEGMENT_ENTRY_SIZE_BC = 1024"

definition MAX_ONE_WAY_QUEUE_NAME_LENGTH :: nat where
  "MAX_ONE_WAY_QUEUE_NAME_LENGTH = 64"

definition CORRUPTED_SHMEM_ERROR :: int where
  "CORRUPTED_SHMEM_ERROR = -2"

text \<open>\<open>offsetof(SharedRingQueue, mgmt_segment)\<close>: a 64-byte name, three \<open>int32_t\<close>, three \<open>uint16_t\<close>.\<close>

definition SHARED_RING_QUEUE_HEADER_PREFIX_SIZE :: nat where
  "SHARED_RING_QUEUE_HEADER_PREFIX_SIZE = 64 + 3 * 4 + 3 * 2"

definition empty_buff_mgmt_magic :: u16 where
  "empty_buff_mgmt_magic = 0xfffe"

definition skip_buff_mgmt_magic :: u16 where
  "skip_buff_mgmt_magic = 0xfffd"

definition max_write_size :: nat where
  "max_write_size = 0xfffc"

definition max_num_of_data_segments :: u16 where
  "max_num_of_data_segments = of_nat (SHARED_MEMORY_SEGMENT_ENTRY_SIZE div 2)"

lemmas ring_constants =
  SHARED_MEMORY_SEGMENT_ENTRY_SIZE_def SHARED_MEMORY_SEGMENT_ENTRY_SIZE_BC_def
  SHARED_RING_QUEUE_HEADER_PREFIX_SIZE_def max_num_of_data_segments_def

section \<open>Loops over the management array and the data\<close>

text \<open>\<open>buffer_mgmt[i]\<close>: the management segment as an array of \<open>uint16_t\<close>, read and written.\<close>

definition buffer_mgmt :: "memory \<Rightarrow> nat \<Rightarrow> u16" where
  "buffer_mgmt p i = get16 p (2 * i)"

definition set_buffer_mgmt :: "memory \<Rightarrow> nat \<Rightarrow> u16 \<Rightarrow> memory" where
  "set_buffer_mgmt p i v = put16 p (2 * i) v"

text \<open>\<open>for ( ; i < n; ++i) buffer_mgmt[i] = v;\<close>. The loop ends with \<open>i\<close> at \<open>max i n\<close>.\<close>

function fill_mgmt :: "memory \<Rightarrow> nat \<Rightarrow> nat \<Rightarrow> u16 \<Rightarrow> memory" where
  "fill_mgmt p i n v = (if i < n then fill_mgmt (set_buffer_mgmt p i v) (Suc i) n v else p)"
  by pat_completeness auto
termination
  by (relation "measure (\<lambda>(p, i, n, v). n - i)") auto

declare fill_mgmt.simps [simp del]

text \<open>The loop of \<open>peekToQueue\<close> that clears a run of skip marks and stops after it.\<close>

function skip_run :: "memory \<Rightarrow> nat \<Rightarrow> nat \<Rightarrow> memory \<times> nat" where
  "skip_run p i n =
     (if i < n \<and> buffer_mgmt p i = skip_buff_mgmt_magic
      then skip_run (set_buffer_mgmt p i empty_buff_mgmt_magic) (Suc i) n
      else (p, i))"
  by pat_completeness auto
termination
  by (relation "measure (\<lambda>(p, i, n). n - i)") auto

declare skip_run.simps [simp del]

text \<open>
  \<open>getDataSegmentAddress\<close>, as an offset into \<open>payload\<close>: the data segments follow the
  management segment, which is as long as one of them. For the full segment size this is
  \<open>queue->data_segment[segment_idx].data\<close>.
\<close>

definition getDataSegmentAddress :: "nat \<Rightarrow> nat \<Rightarrow> nat" where
  "getDataSegmentAddress effective_segment_size segment_idx =
     effective_segment_size + segment_idx * effective_segment_size"

definition getNumOfDataSegmentsNeeded :: "nat \<Rightarrow> nat \<Rightarrow> nat" where
  "getNumOfDataSegmentsNeeded effective_entry_size data_size =
     (data_size + effective_entry_size - 1) div effective_entry_size"

text \<open>The \<open>memcpy\<close> loop of \<open>pushBuffersToQueue\<close>; an input buffer and its size are one byte list.\<close>

fun copy_buffers :: "memory \<Rightarrow> nat \<Rightarrow> bytes list \<Rightarrow> memory" where
  "copy_buffers p current_copy_pos [] = p"
| "copy_buffers p current_copy_pos (b # bs) =
     copy_buffers (memcpy p current_copy_pos b) (current_copy_pos + length b) bs"

text \<open>The loop that adds the sizes up and gives up at the write limit (\<open>None\<close>).\<close>

fun total_elem_size :: "nat \<Rightarrow> bytes list \<Rightarrow> nat option" where
  "total_elem_size acc [] = Some acc"
| "total_elem_size acc (b # bs) =
     (if acc + length b > max_write_size then None else total_elem_size (acc + length b) bs)"

section \<open>The operations, after the position checks\<close>

text \<open>
  The free-space check. \<open>num_of_elem_to_push\<close> is a \<open>uint8_t\<close> and \<open>read_pos\<close> a
  \<open>uint16_t\<close>, so their updates wrap; the sums in the comparisons are C \<open>int\<close>s and do not.
\<close>

definition isThereEnoughMemoryInQueue :: "u16 \<Rightarrow> u16 \<Rightarrow> u16 \<Rightarrow> u8 \<Rightarrow> bool" where
  "isThereEnoughMemoryInQueue n wp rp num_of_elem_to_push =
     (if unat num_of_elem_to_push \<ge> unat n then False
      else
        let k = (if unat wp + unat num_of_elem_to_push > unat n
                 then num_of_elem_to_push + ucast (n - wp) else num_of_elem_to_push);
            r = (if unat wp + unat k \<ge> unat n then rp + n else rp)
        in unat wp + unat k < unat r \<or> unat wp \<ge> unat r)"

definition positions_ok :: "SharedRingQueue \<Rightarrow> u16 \<Rightarrow> int \<Rightarrow> bool" where
  "positions_ok q n mem_size =
     (n \<noteq> 0 \<and> num_of_data_segments q = n \<and> size_of_memory q = mem_size
      \<and> read_pos q \<le> n \<and> write_pos q \<le> n)"

text \<open>A successful peek yields the payload offset of the message and its size.\<close>

definition peek_core ::
    "nat \<Rightarrow> u16 \<Rightarrow> SharedRingQueue \<Rightarrow> int \<times> (nat \<times> u16) option \<times> SharedRingQueue" where
  "peek_core seg n q =
     (if read_pos q = write_pos q then (-1, None, q)
      else if read_pos q \<ge> n then (CORRUPTED_SHMEM_ERROR, None, q)
      else
        let p0 = payload q; r0 = unat (read_pos q);
            (p, r1) = (if buffer_mgmt p0 r0 = skip_buff_mgmt_magic
                       then skip_run p0 r0 (unat n) else (p0, r0));
            r = (if r1 = unat n then 0 else r1)
        in (0, Some (getDataSegmentAddress seg r, buffer_mgmt p r),
            q\<lparr>payload := p, read_pos := of_nat r\<rparr>))"

definition push_core ::
    "nat \<Rightarrow> nat \<Rightarrow> u16 \<Rightarrow> SharedRingQueue \<Rightarrow> bytes list \<Rightarrow> int \<times> SharedRingQueue" where
  "push_core seg ent n q input_buffers =
     (case total_elem_size 0 input_buffers of
        None \<Rightarrow> (-2, q)
      | Some tsize \<Rightarrow>
          let k = (of_nat (getNumOfDataSegmentsNeeded ent tsize) :: u16) in
          if \<not> isThereEnoughMemoryInQueue n (write_pos q) (read_pos q) (ucast k) then (-3, q)
          else if write_pos q \<ge> n then (-4, q)
          else
            let p0 = payload q; w0 = unat (write_pos q);
                (p1, w1) = (if w0 + unat k > unat n
                            then (fill_mgmt p0 w0 (unat n) skip_buff_mgmt_magic, 0)
                            else (p0, w0));
                p2 = set_buffer_mgmt p1 w1 (of_nat tsize);
                p3 = copy_buffers p2 (getDataSegmentAddress seg w1) input_buffers;
                w2 = w1 + 1;
                end_pos = unat (of_nat w2 + k - 1 :: u16);
                p4 = fill_mgmt p3 w2 end_pos skip_buff_mgmt_magic;
                w3 = max w2 end_pos;
                w4 = (if w3 \<ge> unat n then 0 else w3)
            in (0, q\<lparr>payload := p4, write_pos := of_nat w4\<rparr>))"

definition pop_core :: "nat \<Rightarrow> u16 \<Rightarrow> SharedRingQueue \<Rightarrow> int \<times> SharedRingQueue" where
  "pop_core ent n q =
     (if read_pos q = write_pos q then (-1, q)
      else
        let p0 = payload q; r0 = unat (read_pos q);
            k = (of_nat (getNumOfDataSegmentsNeeded ent (unat (buffer_mgmt p0 r0))) :: u16);
            (p1, r1) = (if r0 + unat k > unat n
                        then (fill_mgmt p0 r0 (unat n) empty_buff_mgmt_magic, 0)
                        else (p0, r0));
            end_pos = unat (of_nat r1 + k :: u16);
            p2 = fill_mgmt p1 r1 end_pos empty_buff_mgmt_magic;
            r2 = max r1 end_pos;
            (p3, r3) = (if r2 < unat n \<and> buffer_mgmt p2 r2 = skip_buff_mgmt_magic
                        then (fill_mgmt p2 r2 (unat n) empty_buff_mgmt_magic, unat n)
                        else (p2, r2));
            r4 = (if r3 = unat n then 0 else r3)
        in (0, q\<lparr>payload := p3, read_pos := of_nat r4\<rparr>))"

text \<open>\<open>resetRingQueue\<close> on the queue itself: both positions 0 and every mark empty.\<close>

definition reset_core :: "SharedRingQueue \<Rightarrow> u16 \<Rightarrow> SharedRingQueue" where
  "reset_core q n =
     q\<lparr>read_pos := 0, write_pos := 0, num_of_data_segments := n,
       payload := fill_mgmt (payload q) 0 (unat n) empty_buff_mgmt_magic\<rparr>"

definition isQueueEmpty :: "SharedRingQueue \<Rightarrow> bool" where
  "isQueueEmpty q = (read_pos q = write_pos q)"

section \<open>What the loops do\<close>

lemma buffer_mgmt_set [ring_simps]:
  "buffer_mgmt (set_buffer_mgmt p j v) i = (if i = j then v else buffer_mgmt p i)"
proof (cases "i = j")
  case False
  then have "2 * i + 1 < 2 * j \<or> 2 * j + 1 < 2 * i" by linarith
  with False show ?thesis by (simp add: buffer_mgmt_def set_buffer_mgmt_def get16_put16_other)
qed (simp add: buffer_mgmt_def set_buffer_mgmt_def)

lemma set_buffer_mgmt_frame: "a < 2 * i \<or> 2 * i + 2 \<le> a \<Longrightarrow> set_buffer_mgmt p i v a = p a"
  by (auto simp: set_buffer_mgmt_def put16_frame)

lemma buffer_mgmt_fill [ring_simps]:
  "buffer_mgmt (fill_mgmt p lo hi v) i = (if lo \<le> i \<and> i < hi then v else buffer_mgmt p i)"
proof (induction p lo hi v rule: fill_mgmt.induct)
  case (1 p lo hi v)
  then show ?case
    by (cases "lo < hi") (auto simp: fill_mgmt.simps [of p lo hi v] buffer_mgmt_set)
qed

lemma fill_mgmt_frame: "a < 2 * lo \<or> 2 * hi \<le> a \<Longrightarrow> fill_mgmt p lo hi v a = p a"
proof (induction p lo hi v rule: fill_mgmt.induct)
  case (1 p lo hi v)
  then show ?case
    by (cases "lo < hi") (auto simp: fill_mgmt.simps [of p lo hi v] set_buffer_mgmt_frame)
qed

lemma buffer_mgmt_memcpy: "2 * i + 2 \<le> d \<Longrightarrow> buffer_mgmt (memcpy p d bs) i = buffer_mgmt p i"
  by (simp add: buffer_mgmt_def get16_memcpy_outside)

lemma copy_buffers_memcpy: "copy_buffers p d bs = memcpy p d (concat bs)"
  by (induction p d bs rule: copy_buffers.induct) (simp_all add: memcpy_append)

lemma total_elem_size_Some:
  "acc \<le> max_write_size \<Longrightarrow>
   total_elem_size acc bs =
     (if acc + length (concat bs) \<le> max_write_size then Some (acc + length (concat bs)) else None)"
  by (induction acc bs rule: total_elem_size.induct) (auto simp: add.assoc)

text \<open>A run of skip marks is cleared, and nothing else.\<close>

lemma skip_run_spec:
  assumes "i \<le> t" "t \<le> n"
    and "\<forall>j. i \<le> j \<and> j < t \<longrightarrow> buffer_mgmt p j = skip_buff_mgmt_magic"
    and "t = n \<or> buffer_mgmt p t \<noteq> skip_buff_mgmt_magic"
  shows "skip_run p i n = (fill_mgmt p i t empty_buff_mgmt_magic, t)"
  using assms
proof (induction p i n rule: skip_run.induct)
  case (1 p i n)
  show ?case
  proof (cases "i < t")
    case True
    let ?p = "set_buffer_mgmt p i empty_buff_mgmt_magic"
    from True 1(2-5) have "i < n \<and> buffer_mgmt p i = skip_buff_mgmt_magic" by simp
    moreover from this True 1(2-5) have "skip_run ?p (Suc i) n = (fill_mgmt ?p (Suc i) t empty_buff_mgmt_magic, t)"
      by (intro 1(1)) (auto simp: ring_simps)
    ultimately show ?thesis
      using True by (simp add: skip_run.simps [of p i n] fill_mgmt.simps [of p i t])
  next
    case False
    with 1(2) have "i = t" by simp
    with 1(5) show ?thesis
      by (auto simp: skip_run.simps [of p t n] fill_mgmt.simps [of p t t])
  qed
qed

end
