(* ===== verification/Ring_Fifo.thy ===== *)
theory Ring_Fifo
  imports Ring_Core
begin

text \<open>
  The ring as a list of messages. \<open>ring_rep\<close> says which messages a queue holds: a chain of
  stored messages from the read position to the write position, either without wrapping or
  around the end over a run of skip marks, with every free mark empty. Push, peek and pop
  are append, head and tail of that list as long as the free-space check is sound, and the
  check is characterised exactly.
\<close>

section \<open>The free-space check\<close>

text \<open>
  On the positions the queue can have, the check is one arithmetic condition: the 8-bit and
  16-bit updates do not wrap for the message sizes and segment counts in use.
\<close>

lemma isThereEnoughMemoryInQueue_arith:
  assumes "unat n \<le> 2048" "unat wp < unat n" "unat rp < unat n" "unat k = elems" "elems \<le> 64"
  shows "isThereEnoughMemoryInQueue n wp rp k \<longleftrightarrow>
    elems < unat n \<and>
    (if unat wp + elems > unat n then elems < unat rp
     else if unat wp + elems = unat n then 0 < unat rp
     else unat wp + elems < unat rp \<or> unat rp \<le> unat wp)"
proof -
  have sum16: "unat (rp + n) = unat rp + unat n"
    using assms by (simp add: unat_word_ariths)
  have diff16: "unat (n - wp) = unat n - unat wp"
    using assms by (simp add: unat_sub_if_size word_le_nat_alt)
  have sum8: "unat (k + ucast (n - wp)) = unat k + (unat n - unat wp)"
    if "unat n < unat wp + unat k"
  proof -
    from that assms have less: "unat n - unat wp < 64" by linarith
    then have "unat (ucast (n - wp) :: u8) = unat n - unat wp"
      by (simp add: diff16 unsigned_ucast_eq take_bit_nat_eq_self)
    with assms(4,5) less show ?thesis by (simp add: unat_word_ariths)
  qed
  show ?thesis
    using assms sum16 sum8
    by (auto simp: isThereEnoughMemoryInQueue_def Let_def)
qed

section \<open>Stored messages\<close>

definition valid_msg :: "bytes \<Rightarrow> bool" where
  "valid_msg m = (0 < length m \<and> length m \<le> max_write_size)"

abbreviation nsegs :: "nat \<Rightarrow> bytes \<Rightarrow> nat" where
  "nsegs ent m \<equiv> getNumOfDataSegmentsNeeded ent (length m)"

text \<open>
  The geometry under which the ring works: entries are not longer than segments, the
  management array of \<open>n\<close> marks fits into the management segment, and an entry holds at
  least 1024 bytes, so that no message needs more than 64 segments.
\<close>

definition geometry_ok :: "nat \<Rightarrow> nat \<Rightarrow> u16 \<Rightarrow> bool" where
  "geometry_ok seg ent n = (1024 \<le> ent \<and> ent \<le> seg \<and> n \<noteq> 0 \<and> n \<le> max_num_of_data_segments \<and> 2 * unat n \<le> seg)"

definition stored :: "memory \<Rightarrow> nat \<Rightarrow> nat \<Rightarrow> nat \<Rightarrow> bytes \<Rightarrow> bool" where
  "stored p seg ent s m =
     (buffer_mgmt p s = of_nat (length m) \<and>
      (\<forall>i. s < i \<and> i < s + nsegs ent m \<longrightarrow> buffer_mgmt p i = skip_buff_mgmt_magic) \<and>
      (\<forall>i < length m. p (getDataSegmentAddress seg s + i) = m ! i))"

fun chain :: "memory \<Rightarrow> nat \<Rightarrow> nat \<Rightarrow> nat \<Rightarrow> nat \<Rightarrow> bytes list \<Rightarrow> bool" where
  "chain p seg ent s e [] = (s = e)"
| "chain p seg ent s e (m # ms) =
     (valid_msg m \<and> stored p seg ent s m \<and> chain p seg ent (s + nsegs ent m) e ms)"

definition marked :: "memory \<Rightarrow> nat \<Rightarrow> nat \<Rightarrow> u16 \<Rightarrow> bool" where
  "marked p lo hi v = (\<forall>i. lo \<le> i \<and> i < hi \<longrightarrow> buffer_mgmt p i = v)"

definition linear_rep :: "memory \<Rightarrow> nat \<Rightarrow> nat \<Rightarrow> nat \<Rightarrow> nat \<Rightarrow> nat \<Rightarrow> bytes list \<Rightarrow> bool" where
  "linear_rep p seg ent n r w ms =
     (r \<le> w \<and> w < n \<and> chain p seg ent r w ms
      \<and> marked p 0 r empty_buff_mgmt_magic \<and> marked p w n empty_buff_mgmt_magic)"

definition wrapped_rep ::
    "memory \<Rightarrow> nat \<Rightarrow> nat \<Rightarrow> nat \<Rightarrow> nat \<Rightarrow> nat \<Rightarrow> nat \<Rightarrow> bytes list \<Rightarrow> bytes list \<Rightarrow> bool" where
  "wrapped_rep p seg ent n r w t as bs =
     (w < r \<and> r < n \<and> r \<le> t \<and> t \<le> n \<and> chain p seg ent r t as
      \<and> marked p t n skip_buff_mgmt_magic \<and> chain p seg ent 0 w bs
      \<and> (t < n \<longrightarrow> bs \<noteq> []) \<and> marked p w r empty_buff_mgmt_magic)"

definition ring_rep :: "nat \<Rightarrow> nat \<Rightarrow> u16 \<Rightarrow> SharedRingQueue \<Rightarrow> bytes list \<Rightarrow> bool" where
  "ring_rep seg ent n q ms =
     (geometry_ok seg ent n \<and>
      (let p = payload q; r = unat (read_pos q); w = unat (write_pos q) in
       linear_rep p seg ent (unat n) r w ms \<or>
       (\<exists>t as bs. ms = as @ bs \<and> wrapped_rep p seg ent (unat n) r w t as bs)))"

text \<open>The read position stands on a message, as it does after every peek and pop.\<close>

definition at_message :: "SharedRingQueue \<Rightarrow> bool" where
  "at_message q = (buffer_mgmt (payload q) (unat (read_pos q)) \<noteq> skip_buff_mgmt_magic)"

section \<open>Sizes\<close>

lemma geometry_okD:
  assumes "geometry_ok seg ent n"
  shows "1024 \<le> ent" "ent \<le> seg" "0 < unat n" "unat n \<le> 2048" "2 * unat n \<le> seg"
proof -
  have "0 < unat n"
    using assms by (metis geometry_ok_def neq0_conv unat_eq_zero)
  with assms show "1024 \<le> ent" "ent \<le> seg" "0 < unat n" "unat n \<le> 2048" "2 * unat n \<le> seg"
    by (simp_all add: geometry_ok_def max_num_of_data_segments_def
        SHARED_MEMORY_SEGMENT_ENTRY_SIZE_def word_le_nat_alt)
qed

lemma nsegs_bounds:
  assumes "1024 \<le> ent" "0 < sz" "sz \<le> max_write_size"
  shows "0 < getNumOfDataSegmentsNeeded ent sz" "getNumOfDataSegmentsNeeded ent sz \<le> 64"
    and "sz \<le> getNumOfDataSegmentsNeeded ent sz * ent"
proof -
  let ?k = "(sz + ent - 1) div ent"
  from assms have ent: "0 < ent" by simp
  show "0 < getNumOfDataSegmentsNeeded ent sz"
    using assms ent by (simp add: getNumOfDataSegmentsNeeded_def div_greater_zero_iff)
  have "sz + ent - 1 < 65 * ent"
    using assms by (simp add: max_write_size_def)
  then show "getNumOfDataSegmentsNeeded ent sz \<le> 64"
    using less_mult_imp_div_less [of "sz + ent - 1" 65 ent] by (simp add: getNumOfDataSegmentsNeeded_def)
  have "sz + ent - 1 < ent * ?k + ent"
    using ent by (metis add_strict_left_mono mod_less_divisor mult_div_mod_eq)
  then show "sz \<le> getNumOfDataSegmentsNeeded ent sz * ent"
    using ent by (simp add: getNumOfDataSegmentsNeeded_def mult.commute)
qed

lemma valid_msg_nsegs:
  assumes "1024 \<le> ent" "valid_msg m"
  shows "0 < nsegs ent m" "nsegs ent m \<le> 64" "length m \<le> nsegs ent m * ent"
  using nsegs_bounds [OF assms(1), of "length m"] assms(2) by (simp_all add: valid_msg_def)

lemma length_mark_not_magic:
  assumes "valid_msg m"
  shows "of_nat (length m) \<noteq> skip_buff_mgmt_magic" "of_nat (length m) \<noteq> empty_buff_mgmt_magic"
    and "unat (of_nat (length m) :: u16) = length m"
proof -
  from assms have len: "length m \<le> 65532" by (simp add: valid_msg_def max_write_size_def)
  then show eq: "unat (of_nat (length m) :: u16) = length m" by simp
  have "unat skip_buff_mgmt_magic = 65533" "unat empty_buff_mgmt_magic = 65534"
    by (simp_all add: skip_buff_mgmt_magic_def empty_buff_mgmt_magic_def)
  with eq len show "of_nat (length m) \<noteq> skip_buff_mgmt_magic" "of_nat (length m) \<noteq> empty_buff_mgmt_magic"
    by fastforce+
qed

lemma empty_neq_skip [simp]: "empty_buff_mgmt_magic \<noteq> skip_buff_mgmt_magic"
  by (simp add: skip_buff_mgmt_magic_def empty_buff_mgmt_magic_def)

lemma getDataSegmentAddress_add:
  "getDataSegmentAddress seg (s + k) = getDataSegmentAddress seg s + k * seg"
  by (simp add: getDataSegmentAddress_def algebra_simps)

lemma getDataSegmentAddress_mono:
  "s \<le> e \<Longrightarrow> getDataSegmentAddress seg s \<le> getDataSegmentAddress seg e"
  by (simp add: getDataSegmentAddress_def)

text \<open>A message ends inside its last segment.\<close>

lemma message_fits:
  assumes "1024 \<le> ent" "ent \<le> seg" "valid_msg m"
  shows "getDataSegmentAddress seg s + length m \<le> getDataSegmentAddress seg (s + nsegs ent m)"
proof -
  have "length m \<le> nsegs ent m * ent" by (rule valid_msg_nsegs [OF assms(1,3)])
  also have "\<dots> \<le> nsegs ent m * seg" using assms(2) by simp
  finally show ?thesis by (simp add: getDataSegmentAddress_add)
qed

section \<open>Chains\<close>

lemma chain_le: "1024 \<le> ent \<Longrightarrow> chain p seg ent s e ms \<Longrightarrow> s \<le> e"
proof (induction ms arbitrary: s)
  case (Cons m ms)
  then show ?case by (fastforce dest: add_leD1)
qed simp

lemma chain_less: "1024 \<le> ent \<Longrightarrow> chain p seg ent s e (m # ms) \<Longrightarrow> s < e"
  using chain_le [of ent p seg "s + nsegs ent m" e ms] valid_msg_nsegs(1) [of ent m] by auto

lemma chain_append: "chain p seg ent s e (ms @ ms') \<longleftrightarrow> (\<exists>t. chain p seg ent s t ms \<and> chain p seg ent t e ms')"
  by (induction ms arbitrary: s) auto

lemma chain_snocI:
  "chain p seg ent s t ms \<Longrightarrow> valid_msg m \<Longrightarrow> stored p seg ent t m \<Longrightarrow> e = t + nsegs ent m \<Longrightarrow>
   chain p seg ent s e (ms @ [m])"
  by (auto simp: chain_append)

lemma marked_subset: "marked p lo hi v \<Longrightarrow> lo \<le> lo' \<Longrightarrow> hi' \<le> hi \<Longrightarrow> marked p lo' hi' v"
  by (auto simp: marked_def)

text \<open>The chain between two positions depends on their marks and segments only.\<close>

lemma stored_frame:
  assumes "stored p seg ent s m" "1024 \<le> ent" "ent \<le> seg" "valid_msg m" "s + nsegs ent m \<le> e"
    and marks: "\<And>i. s \<le> i \<Longrightarrow> i < e \<Longrightarrow> buffer_mgmt p' i = buffer_mgmt p i"
    and data: "\<And>a. getDataSegmentAddress seg s \<le> a \<Longrightarrow> a < getDataSegmentAddress seg e \<Longrightarrow> p' a = p a"
  shows "stored p' seg ent s m"
proof -
  have pos: "0 < nsegs ent m" by (rule valid_msg_nsegs(1) [OF assms(2,4)])
  have "getDataSegmentAddress seg s + length m \<le> getDataSegmentAddress seg e"
    using message_fits [OF assms(2-4), of s] getDataSegmentAddress_mono [OF assms(5), of seg] by linarith
  then have "p' (getDataSegmentAddress seg s + i) = p (getDataSegmentAddress seg s + i)" if "i < length m" for i
    using data [of "getDataSegmentAddress seg s + i"] that by simp
  then show ?thesis
    using assms(1,5) pos marks by (auto simp: stored_def)
qed

lemma chain_frame:
  assumes "chain p seg ent s e ms" "1024 \<le> ent" "ent \<le> seg"
    and "\<And>i. s \<le> i \<Longrightarrow> i < e \<Longrightarrow> buffer_mgmt p' i = buffer_mgmt p i"
    and "\<And>a. getDataSegmentAddress seg s \<le> a \<Longrightarrow> a < getDataSegmentAddress seg e \<Longrightarrow> p' a = p a"
  shows "chain p' seg ent s e ms"
  using assms
proof (induction ms arbitrary: s)
  case (Cons m ms)
  let ?s = "s + nsegs ent m"
  from Cons.prems(1,2) have le: "?s \<le> e" using chain_le by auto
  from Cons.prems le have "stored p' seg ent s m"
    by (intro stored_frame [of p seg ent s m e p']) auto
  moreover from Cons.prems getDataSegmentAddress_mono [of s ?s seg] have "chain p' seg ent ?s e ms"
    by (intro Cons.IH) auto
  ultimately show ?case using Cons.prems(1) by simp
qed simp


lemma chain_fill:
  assumes "chain p seg ent s e ms" "1024 \<le> ent" "ent \<le> seg" "2 * n \<le> seg" "hi \<le> n" "hi \<le> s \<or> e \<le> lo"
  shows "chain (fill_mgmt p lo hi v) seg ent s e ms"
proof (rule chain_frame [OF assms(1-3)])
  fix i assume "s \<le> i" "i < e"
  with assms(6) show "buffer_mgmt (fill_mgmt p lo hi v) i = buffer_mgmt p i"
    by (auto simp: ring_simps)
next
  fix a assume "getDataSegmentAddress seg s \<le> a"
  then have "2 * hi \<le> a" using assms(4,5) by (simp add: getDataSegmentAddress_def)
  then show "fill_mgmt p lo hi v a = p a" by (simp add: fill_mgmt_frame)
qed

lemma marked_fill:
  "marked (fill_mgmt p lo hi v) a b u \<longleftrightarrow> (\<forall>i. a \<le> i \<and> i < b \<longrightarrow> (if lo \<le> i \<and> i < hi then v else buffer_mgmt p i) = u)"
  by (simp add: marked_def ring_simps)

section \<open>Push\<close>

text \<open>What push writes for one message at segment \<open>s\<close>: its mark, its bytes, its skip marks.\<close>

definition store_msg :: "memory \<Rightarrow> nat \<Rightarrow> nat \<Rightarrow> nat \<Rightarrow> bytes \<Rightarrow> memory" where
  "store_msg p seg ent s m =
     fill_mgmt (memcpy (set_buffer_mgmt p s (of_nat (length m))) (getDataSegmentAddress seg s) m)
       (s + 1) (s + nsegs ent m) skip_buff_mgmt_magic"

lemma store_msg_marks:
  assumes "2 * n \<le> seg" "i < n"
  shows "buffer_mgmt (store_msg p seg ent s m) i =
    (if s < i \<and> i < s + nsegs ent m then skip_buff_mgmt_magic
     else if i = s then of_nat (length m) else buffer_mgmt p i)"
  using assms by (simp add: store_msg_def ring_simps buffer_mgmt_memcpy getDataSegmentAddress_def)

lemma store_msg_data:
  assumes "2 * n \<le> seg" "s + nsegs ent m \<le> n" "s < n" "seg \<le> a"
    and "a < getDataSegmentAddress seg s \<or> getDataSegmentAddress seg s + length m \<le> a"
  shows "store_msg p seg ent s m a = p a"
  using assms by (simp add: store_msg_def fill_mgmt_frame memcpy_outside set_buffer_mgmt_frame)

lemma stored_store_msg:
  assumes "2 * n \<le> seg" "s + nsegs ent m \<le> n" "s < n"
  shows "stored (store_msg p seg ent s m) seg ent s m"
proof -
  have "store_msg p seg ent s m (getDataSegmentAddress seg s + i) = m ! i" if "i < length m" for i
    using that assms by (simp add: store_msg_def fill_mgmt_frame memcpy_inside getDataSegmentAddress_def)
  then show ?thesis
    using assms by (simp add: stored_def store_msg_marks)
qed

lemma chain_store_msg:
  assumes "chain p seg ent s' e' ms" "1024 \<le> ent" "ent \<le> seg" "2 * n \<le> seg" "valid_msg m"
    and "s + nsegs ent m \<le> n" "s < n" "e' \<le> n" "e' \<le> s \<or> s + nsegs ent m \<le> s'"
  shows "chain (store_msg p seg ent s m) seg ent s' e' ms"
proof (rule chain_frame [OF assms(1-3)])
  fix i assume "s' \<le> i" "i < e'"
  with assms valid_msg_nsegs(1) [OF assms(2,5)] show "buffer_mgmt (store_msg p seg ent s m) i = buffer_mgmt p i"
    by (simp add: store_msg_marks) linarith
next
  fix a assume a: "getDataSegmentAddress seg s' \<le> a" "a < getDataSegmentAddress seg e'"
  have "getDataSegmentAddress seg s + length m \<le> getDataSegmentAddress seg (s + nsegs ent m)"
    by (rule message_fits [OF assms(2,3,5)])
  with a assms(9) getDataSegmentAddress_mono [of e' s seg] getDataSegmentAddress_mono [of "s + nsegs ent m" s' seg]
  have "a < getDataSegmentAddress seg s \<or> getDataSegmentAddress seg s + length m \<le> a" by linarith
  moreover from a(1) have "seg \<le> a" by (simp add: getDataSegmentAddress_def)
  ultimately show "store_msg p seg ent s m a = p a"
    using assms by (simp add: store_msg_data)
qed

lemma marked_store_msg:
  assumes "2 * n \<le> seg" "b \<le> n" "b \<le> s \<or> s + nsegs ent m \<le> a" "0 < nsegs ent m"
  shows "marked (store_msg p seg ent s m) a b v \<longleftrightarrow> marked p a b v"
proof -
  have "buffer_mgmt (store_msg p seg ent s m) i = buffer_mgmt p i" if "a \<le> i" "i < b" for i
    using assms that by (simp add: store_msg_marks) linarith
  then show ?thesis by (auto simp: marked_def)
qed

text \<open>Where push puts the message and what it leaves behind, in unbounded arithmetic.\<close>

lemma push_core_eq:
  assumes "geometry_ok seg ent n" "valid_msg (concat bufs)" "unat (write_pos q) < unat n"
    and "isThereEnoughMemoryInQueue n (write_pos q) (read_pos q) (of_nat (nsegs ent (concat bufs)))"
  defines "k \<equiv> nsegs ent (concat bufs)" and "w \<equiv> unat (write_pos q)" and "p \<equiv> payload q"
  shows "push_core seg ent n q bufs = (0,
    if w + k > unat n
    then q\<lparr>payload := store_msg (fill_mgmt p w (unat n) skip_buff_mgmt_magic) seg ent 0 (concat bufs),
           write_pos := of_nat k\<rparr>
    else q\<lparr>payload := store_msg p seg ent w (concat bufs),
           write_pos := of_nat (if w + k = unat n then 0 else w + k)\<rparr>)"
    and "k < unat n"
proof -
  note g = geometry_okD [OF assms(1)]
  have k: "0 < k" "k \<le> 64" using valid_msg_nsegs [OF g(1) assms(2)] by (simp_all add: k_def)
  then have kw: "unat (of_nat k :: u16) = k" "unat (of_nat k :: u8) = k" by simp_all
  have ucast: "(ucast (of_nat k :: u16) :: u8) = of_nat k"
    using k by (simp add: word_unat_eq_iff unsigned_ucast_eq take_bit_nat_eq_self)
  have tot: "total_elem_size 0 bufs = Some (length (concat bufs))"
    using assms(2) by (simp add: total_elem_size_Some valid_msg_def)
  show kn: "k < unat n"
    using assms(4) kw by (auto simp: isThereEnoughMemoryInQueue_def k_def [symmetric] split: if_splits)
  have end_pos: "unat (of_nat s + of_nat k :: u16) = s + k" if "s \<le> 2048" for s
    using that k by (simp flip: of_nat_add)
  have wn: "\<not> n \<le> write_pos q" using assms(3) by (simp add: word_le_nat_alt)
  show "push_core seg ent n q bufs = (0,
    if w + k > unat n
    then q\<lparr>payload := store_msg (fill_mgmt p w (unat n) skip_buff_mgmt_magic) seg ent 0 (concat bufs),
           write_pos := of_nat k\<rparr>
    else q\<lparr>payload := store_msg p seg ent w (concat bufs),
           write_pos := of_nat (if w + k = unat n then 0 else w + k)\<rparr>)"
    using assms(3,4) wn kn k g kw end_pos [of 0] end_pos [of w]
    by (auto simp: push_core_def tot Let_def ucast copy_buffers_memcpy store_msg_def max_def
        k_def [symmetric] w_def [symmetric] p_def [symmetric])
qed


lemma linear_rep_push:
  assumes "geometry_ok seg ent n" "valid_msg m" "linear_rep p seg ent (unat n) r w ms"
    and "w + nsegs ent m < unat n"
  shows "linear_rep (store_msg p seg ent w m) seg ent (unat n) r (w + nsegs ent m) (ms @ [m])"
proof -
  note g = geometry_okD [OF assms(1)]
  note k = valid_msg_nsegs [OF g(1) assms(2)]
  from assms have "chain (store_msg p seg ent w m) seg ent r w ms"
    by (intro chain_store_msg [OF _ g(1,2,5)]) (auto simp: linear_rep_def)
  moreover have "stored (store_msg p seg ent w m) seg ent w m"
    using assms by (intro stored_store_msg [OF g(5)]) auto
  ultimately show ?thesis
    using assms k marked_store_msg [OF g(5)] by (auto simp: linear_rep_def intro!: chain_snocI elim: marked_subset)
qed

lemma wrapped_rep_push:
  assumes "geometry_ok seg ent n" "valid_msg m" "wrapped_rep p seg ent (unat n) r w t as bs"
    and "w + nsegs ent m < r"
  shows "wrapped_rep (store_msg p seg ent w m) seg ent (unat n) r (w + nsegs ent m) t as (bs @ [m])"
proof -
  note g = geometry_okD [OF assms(1)]
  note k = valid_msg_nsegs [OF g(1) assms(2)]
  from assms have "chain (store_msg p seg ent w m) seg ent 0 w bs"
    and "chain (store_msg p seg ent w m) seg ent r t as"
    by (intro chain_store_msg [OF _ g(1,2,5)]; auto simp: wrapped_rep_def)+
  moreover have "stored (store_msg p seg ent w m) seg ent w m"
    using assms by (intro stored_store_msg [OF g(5)]) (auto simp: wrapped_rep_def)
  ultimately show ?thesis
    using assms k marked_store_msg [OF g(5)]
    by (auto simp: wrapped_rep_def intro!: chain_snocI elim: marked_subset)
qed

text \<open>The message ends exactly at the end of the ring: the write position becomes 0.\<close>

lemma linear_rep_push_to_end:
  assumes "geometry_ok seg ent n" "valid_msg m" "linear_rep p seg ent (unat n) r w ms"
    and "w + nsegs ent m = unat n" "0 < r"
  shows "wrapped_rep (store_msg p seg ent w m) seg ent (unat n) r 0 (unat n) (ms @ [m]) []"
proof -
  note g = geometry_okD [OF assms(1)]
  note k = valid_msg_nsegs [OF g(1) assms(2)]
  from assms have "chain (store_msg p seg ent w m) seg ent r w ms"
    by (intro chain_store_msg [OF _ g(1,2,5)]) (auto simp: linear_rep_def)
  moreover have "stored (store_msg p seg ent w m) seg ent w m"
    using assms by (intro stored_store_msg [OF g(5)]) (auto simp: linear_rep_def)
  moreover have "marked (store_msg p seg ent w m) 0 r empty_buff_mgmt_magic"
    using assms k by (simp add: marked_store_msg [OF g(5)] linear_rep_def)
  ultimately show ?thesis
    using assms by (auto simp: wrapped_rep_def linear_rep_def marked_def intro!: chain_snocI)
qed

text \<open>The message does not fit before the end: skip marks to the end, the message at 0.\<close>

lemma linear_rep_push_around:
  assumes "geometry_ok seg ent n" "valid_msg m" "linear_rep p seg ent (unat n) r w ms"
    and "nsegs ent m < r"
  defines "p' \<equiv> store_msg (fill_mgmt p w (unat n) skip_buff_mgmt_magic) seg ent 0 m"
  shows "wrapped_rep p' seg ent (unat n) r (nsegs ent m) w ms [m]"
proof -
  note g = geometry_okD [OF assms(1)]
  note k = valid_msg_nsegs [OF g(1) assms(2)]
  let ?pf = "fill_mgmt p w (unat n) skip_buff_mgmt_magic"
  from assms(3) have lin: "r \<le> w" "w < unat n" "chain p seg ent r w ms" "marked p 0 r empty_buff_mgmt_magic"
    by (simp_all add: linear_rep_def)
  have "chain ?pf seg ent r w ms"
    using lin by (intro chain_fill [OF _ g(1,2,5)]) auto
  then have "chain p' seg ent r w ms"
    unfolding p'_def using assms(2,4) lin by (intro chain_store_msg [OF _ g(1,2,5)]) auto
  moreover have "stored p' seg ent 0 m"
    unfolding p'_def using assms(4) lin by (intro stored_store_msg [OF g(5)]) auto
  moreover have "marked p' w (unat n) skip_buff_mgmt_magic" "marked p' (nsegs ent m) r empty_buff_mgmt_magic"
    using assms(4) lin k by (auto simp: p'_def marked_def store_msg_marks [OF g(5)] ring_simps)
  ultimately show ?thesis
    using assms(2,4) lin by (simp add: wrapped_rep_def)
qed

lemma ring_rep_linearI:
  "geometry_ok seg ent n \<Longrightarrow>
   linear_rep (payload q) seg ent (unat n) (unat (read_pos q)) (unat (write_pos q)) ms \<Longrightarrow>
   ring_rep seg ent n q ms"
  by (simp add: ring_rep_def)

lemma ring_rep_wrappedI:
  "geometry_ok seg ent n \<Longrightarrow>
   wrapped_rep (payload q) seg ent (unat n) (unat (read_pos q)) (unat (write_pos q)) t as bs \<Longrightarrow>
   ms = as @ bs \<Longrightarrow> ring_rep seg ent n q ms"
  by (auto simp: ring_rep_def Let_def)

lemma ring_rep_cases [consumes 1, case_names linear wrapped]:
  assumes "ring_rep seg ent n q ms"
  obtains "linear_rep (payload q) seg ent (unat n) (unat (read_pos q)) (unat (write_pos q)) ms"
  | t as bs where "ms = as @ bs"
      "wrapped_rep (payload q) seg ent (unat n) (unat (read_pos q)) (unat (write_pos q)) t as bs"
  using assms by (auto simp: ring_rep_def Let_def)

lemma ring_rep_positions:
  assumes "ring_rep seg ent n q ms"
  shows "unat (read_pos q) < unat n" "unat (write_pos q) < unat n" "geometry_ok seg ent n"
  using assms by (auto simp: ring_rep_def Let_def linear_rep_def wrapped_rep_def)

lemma chain_valid: "chain p seg ent s e ms \<Longrightarrow> list_all valid_msg ms"
  by (induction ms arbitrary: s) auto

lemma ring_rep_valid: "ring_rep seg ent n q ms \<Longrightarrow> list_all valid_msg ms"
  by (auto simp: ring_rep_def Let_def linear_rep_def wrapped_rep_def dest: chain_valid)

theorem push_core_appends:
  assumes rep: "ring_rep seg ent n q ms" and msg: "valid_msg (concat bufs)"
    and enough: "isThereEnoughMemoryInQueue n (write_pos q) (read_pos q) (of_nat (nsegs ent (concat bufs)))"
    and safe: "read_pos q \<le> write_pos q \<or> unat (write_pos q) + nsegs ent (concat bufs) < unat n"
  shows "\<exists>q'. push_core seg ent n q bufs = (0, q') \<and> ring_rep seg ent n q' (ms @ [concat bufs])"
proof -
  let ?m = "concat bufs" and ?k = "nsegs ent (concat bufs)" and ?p = "payload q"
  let ?r = "unat (read_pos q)" and ?w = "unat (write_pos q)"
  note pos = ring_rep_positions [OF rep]
  note g = geometry_okD [OF pos(3)]
  note k = valid_msg_nsegs [OF g(1) msg]
  note eq = push_core_eq [OF pos(3) msg pos(2) enough]
  have arith: "if ?w + ?k > unat n then ?k < ?r else if ?w + ?k = unat n then 0 < ?r
      else ?w + ?k < ?r \<or> ?r \<le> ?w"
    using enough isThereEnoughMemoryInQueue_arith [OF g(4) pos(2,1) unat_of_nat_u8 k(2)] k by simp
  have w': "unat (write_pos q + of_nat ?k) = ?w + ?k" "unat (of_nat ?k :: u16) = ?k"
    using pos(2) g(4) k by (simp_all add: unat_word_ariths)
  from rep show ?thesis
  proof (cases rule: ring_rep_cases)
    case linear
    consider "?w + ?k > unat n" | "?w + ?k = unat n" | "?w + ?k < unat n" by linarith
    then show ?thesis
    proof cases
      case 1
      with arith linear_rep_push_around [OF pos(3) msg linear] show ?thesis
        by (auto simp: eq w' pos intro!: ring_rep_wrappedI)
    next
      case 2
      with arith linear_rep_push_to_end [OF pos(3) msg linear] show ?thesis
        by (auto simp: eq pos intro!: ring_rep_wrappedI)
    next
      case 3
      with linear_rep_push [OF pos(3) msg linear] show ?thesis
        by (auto simp: eq w' pos intro!: ring_rep_linearI)
    qed
  next
    case (wrapped t as bs)
    then have "?w < ?r" by (simp add: wrapped_rep_def)
    with safe arith have "?w + ?k < ?r" "?w + ?k < unat n"
      by (auto simp: word_le_nat_alt split: if_splits)
    with wrapped_rep_push [OF pos(3) msg wrapped(2)] wrapped(1) show ?thesis
      by (auto simp: eq w' pos intro!: ring_rep_wrappedI)
  qed
qed


section \<open>Peek\<close>

lemma chain_Cons_mark:
  assumes "chain p seg ent s e (m # ms)"
  shows "buffer_mgmt p s = of_nat (length m)" "valid_msg m" "buffer_mgmt p s \<noteq> skip_buff_mgmt_magic"
    and "buffer_mgmt p s \<noteq> empty_buff_mgmt_magic"
    and "read_bytes p (getDataSegmentAddress seg s) (length m) = m"
  using assms length_mark_not_magic [of m] by (auto simp: stored_def intro: read_bytes_eqI)

lemma ring_rep_Nil_iff:
  assumes "ring_rep seg ent n q ms"
  shows "ms = [] \<longleftrightarrow> read_pos q = write_pos q"
proof -
  note g = geometry_okD [OF ring_rep_positions(3) [OF assms]]
  from assms show ?thesis
  proof (cases rule: ring_rep_cases)
    case linear
    then have ch: "chain (payload q) seg ent (unat (read_pos q)) (unat (write_pos q)) ms"
      by (simp add: linear_rep_def)
    show ?thesis
    proof (cases ms)
      case Nil
      with ch show ?thesis by (simp add: word_unat_eq_iff)
    next
      case (Cons m ms')
      with ch chain_less [OF g(1)] show ?thesis by fastforce
    qed
  next
    case (wrapped t as bs)
    then show ?thesis by (cases as) (auto simp: wrapped_rep_def)
  qed
qed

lemma linear_rep_at_message:
  assumes "linear_rep p seg ent n r w ms"
  shows "buffer_mgmt p r \<noteq> skip_buff_mgmt_magic"
proof (cases ms)
  case Nil
  with assms show ?thesis by (auto simp: linear_rep_def marked_def)
next
  case (Cons m ms')
  with assms show ?thesis by (metis chain_Cons_mark(3) linear_rep_def)
qed

lemma wrapped_rep_at_message:
  assumes "wrapped_rep p seg ent n r w t as bs"
  shows "buffer_mgmt p r \<noteq> skip_buff_mgmt_magic \<longleftrightarrow> as \<noteq> []"
proof (cases as)
  case Nil
  with assms show ?thesis by (auto simp: wrapped_rep_def marked_def)
next
  case (Cons m ms')
  with assms show ?thesis by (metis chain_Cons_mark(3) list.distinct(1) wrapped_rep_def)
qed

text \<open>The messages when the read position stands on one.\<close>

lemma at_message_chain:
  assumes "ring_rep seg ent n q (m # ms)" "at_message q"
  obtains e ms' where "chain (payload q) seg ent (unat (read_pos q)) e (m # ms')" "e \<le> unat n"
  using assms(1)
proof (cases rule: ring_rep_cases)
  case linear
  then show ?thesis by (intro that [of "unat (write_pos q)" ms]) (auto simp: linear_rep_def)
next
  case (wrapped t as bs)
  then have "as \<noteq> []"
    using assms(2) wrapped_rep_at_message by (auto simp: at_message_def)
  then obtain as' where "as = m # as'" using wrapped(1) by (cases as) auto
  with wrapped(2) show ?thesis by (intro that [of t as']) (auto simp: wrapped_rep_def)
qed

lemma wrapped_rep_skip_to_start:
  assumes "geometry_ok seg ent n" "wrapped_rep p seg ent (unat n) r w r [] bs"
  shows "linear_rep (fill_mgmt p r (unat n) empty_buff_mgmt_magic) seg ent (unat n) 0 w bs"
proof -
  note g = geometry_okD [OF assms(1)]
  from assms(2) have "chain (fill_mgmt p r (unat n) empty_buff_mgmt_magic) seg ent 0 w bs"
    by (intro chain_fill [OF _ g(1,2,5)]) (auto simp: wrapped_rep_def)
  with assms(2) show ?thesis
    by (auto simp: linear_rep_def wrapped_rep_def marked_def ring_simps)
qed

theorem peek_core_head:
  assumes rep: "ring_rep seg ent n q (m # ms)"
  shows "\<exists>addr q'. peek_core seg n q = (0, Some (addr, of_nat (length m)), q')
    \<and> read_bytes (payload q') addr (length m) = m
    \<and> ring_rep seg ent n q' (m # ms) \<and> at_message q'"
proof -
  note pos = ring_rep_positions [OF rep]
  have ne: "read_pos q \<noteq> write_pos q" "\<not> n \<le> read_pos q"
    using ring_rep_Nil_iff [OF rep] pos by (auto simp: word_le_nat_alt)
  show ?thesis
  proof (cases "at_message q")
    case True
    then obtain e ms' where "chain (payload q) seg ent (unat (read_pos q)) e (m # ms')"
      using at_message_chain [OF rep] by metis
    note mark = chain_Cons_mark [OF this]
    have "peek_core seg n q =
      (0, Some (getDataSegmentAddress seg (unat (read_pos q)), of_nat (length m)), q)"
      using ne mark pos by (simp add: peek_core_def)
    with mark rep True show ?thesis by auto
  next
    case False
    let ?r = "unat (read_pos q)"
    let ?p = "fill_mgmt (payload q) ?r (unat n) empty_buff_mgmt_magic"
    from rep have wr: "wrapped_rep (payload q) seg ent (unat n) ?r (unat (write_pos q)) ?r [] (m # ms)"
    proof (cases rule: ring_rep_cases)
      case linear
      with False show ?thesis by (auto simp: at_message_def dest: linear_rep_at_message)
    next
      case (wrapped t as bs)
      with False have "as = []" by (auto simp: at_message_def dest: wrapped_rep_at_message)
      with wrapped show ?thesis by (auto simp: wrapped_rep_def)
    qed
    then have "skip_run (payload q) ?r (unat n) = (?p, unat n)"
      by (intro skip_run_spec) (auto simp: wrapped_rep_def marked_def)
    then have eq: "peek_core seg n q =
      (0, Some (getDataSegmentAddress seg 0, buffer_mgmt ?p 0), q\<lparr>payload := ?p, read_pos := 0\<rparr>)"
      using ne False by (simp add: peek_core_def at_message_def Let_def)
    have lin: "linear_rep ?p seg ent (unat n) 0 (unat (write_pos q)) (m # ms)"
      by (rule wrapped_rep_skip_to_start [OF pos(3) wr])
    then have "chain ?p seg ent 0 (unat (write_pos q)) (m # ms)" by (simp add: linear_rep_def)
    note mark = chain_Cons_mark [OF this]
    show ?thesis
      using mark lin pos(3) by (auto simp: eq at_message_def intro!: ring_rep_linearI)
  qed
qed

lemma peek_core_empty: "ring_rep seg ent n q [] \<Longrightarrow> peek_core seg n q = (-1, None, q)"
  using ring_rep_Nil_iff [of seg ent n q "[]"] by (simp add: peek_core_def)

section \<open>Pop\<close>

lemma pop_core_eq:
  assumes "geometry_ok seg ent n" "read_pos q \<noteq> write_pos q"
    and "chain (payload q) seg ent (unat (read_pos q)) e (m # ms)" "e \<le> unat n"
  defines "r \<equiv> unat (read_pos q)" and "k \<equiv> nsegs ent m"
  shows "pop_core ent n q = (0,
    if r + k < unat n \<and> buffer_mgmt (payload q) (r + k) = skip_buff_mgmt_magic
    then q\<lparr>payload := fill_mgmt (fill_mgmt (payload q) r (r + k) empty_buff_mgmt_magic)
             (r + k) (unat n) empty_buff_mgmt_magic, read_pos := 0\<rparr>
    else q\<lparr>payload := fill_mgmt (payload q) r (r + k) empty_buff_mgmt_magic,
           read_pos := (if r + k = unat n then 0 else read_pos q + of_nat k)\<rparr>)"
proof -
  note g = geometry_okD [OF assms(1)]
  note mark = chain_Cons_mark [OF assms(3)]
  from assms(3,4) have le: "r + k \<le> unat n"
    using chain_le [OF g(1), of "payload q" seg "r + k" e ms] by (simp add: r_def k_def)
  have k: "k \<le> 64" using valid_msg_nsegs [OF g(1) mark(2)] by (simp add: k_def)
  have size: "unat (buffer_mgmt (payload q) r) = length m"
    using mark(1,2) length_mark_not_magic(3) by (simp add: r_def)
  have kw: "unat (of_nat k :: u16) = k" using k by simp
  have sum: "unat (read_pos q + of_nat k) = r + k"
    using k le g(4) by (simp add: unat_word_ariths r_def)
  have fold: "of_nat r = read_pos q" by (simp add: r_def)
  show ?thesis
    using assms(2) le
    by (simp add: pop_core_def Let_def size kw sum fold ring_simps flip: r_def k_def)
qed

lemma linear_rep_pop:
  assumes "geometry_ok seg ent n" "linear_rep p seg ent (unat n) r w (m # ms)"
  defines "r' \<equiv> r + nsegs ent m"
  shows "linear_rep (fill_mgmt p r r' empty_buff_mgmt_magic) seg ent (unat n) r' w ms"
    and "r' < unat n" "buffer_mgmt p r' \<noteq> skip_buff_mgmt_magic"
proof -
  note g = geometry_okD [OF assms(1)]
  from assms(2) have ch: "chain p seg ent r' w ms" "w < unat n" by (simp_all add: linear_rep_def r'_def)
  with chain_le [OF g(1)] have r': "r' \<le> w" by blast
  with ch show "r' < unat n" by simp
  show "buffer_mgmt p r' \<noteq> skip_buff_mgmt_magic"
  proof (cases ms)
    case Nil
    with ch assms(2) show ?thesis by (auto simp: linear_rep_def marked_def)
  next
    case (Cons m' ms')
    with ch show ?thesis using chain_Cons_mark(3) by blast
  qed
  have "chain (fill_mgmt p r r' empty_buff_mgmt_magic) seg ent r' w ms"
    using ch r' by (intro chain_fill [OF _ g(1,2,5)]) auto
  with assms(2) r' show "linear_rep (fill_mgmt p r r' empty_buff_mgmt_magic) seg ent (unat n) r' w ms"
    by (auto simp: linear_rep_def marked_def ring_simps)
qed

lemma wrapped_rep_pop_inner:
  assumes "geometry_ok seg ent n" "wrapped_rep p seg ent (unat n) r w t (m # as) bs" "as \<noteq> []"
  defines "r' \<equiv> r + nsegs ent m"
  shows "wrapped_rep (fill_mgmt p r r' empty_buff_mgmt_magic) seg ent (unat n) r' w t as bs"
    and "r' < unat n" "buffer_mgmt p r' \<noteq> skip_buff_mgmt_magic"
proof -
  note g = geometry_okD [OF assms(1)]
  obtain m' as' where as: "as = m' # as'" using assms(3) by (cases as) auto
  from assms(2) have ch: "chain p seg ent r' t as" "t \<le> unat n" "chain p seg ent 0 w bs" "w < r"
    by (simp_all add: wrapped_rep_def r'_def)
  then have r': "r' < t" using chain_less [OF g(1)] as by blast
  with ch show "r' < unat n" by simp
  show "buffer_mgmt p r' \<noteq> skip_buff_mgmt_magic" using ch(1) as chain_Cons_mark(3) by blast
  have "chain (fill_mgmt p r r' empty_buff_mgmt_magic) seg ent r' t as"
    and "chain (fill_mgmt p r r' empty_buff_mgmt_magic) seg ent 0 w bs"
    using ch r' by (auto intro: chain_fill [OF _ g(1,2,5)])
  with assms(2) r' ch show "wrapped_rep (fill_mgmt p r r' empty_buff_mgmt_magic) seg ent (unat n) r' w t as bs"
    by (auto simp: wrapped_rep_def marked_def ring_simps r'_def)
qed

text \<open>The last message before the end: the read position goes to the start of the ring.\<close>

lemma wrapped_rep_pop_last:
  assumes "geometry_ok seg ent n" "wrapped_rep p seg ent (unat n) r w t [m] bs"
  shows "linear_rep (fill_mgmt (fill_mgmt p r t empty_buff_mgmt_magic) t (unat n) empty_buff_mgmt_magic)
           seg ent (unat n) 0 w bs"
    and "t = r + nsegs ent m"
proof -
  note g = geometry_okD [OF assms(1)]
  from assms(2) have ch: "chain p seg ent 0 w bs" "w < r" "r \<le> t" "t \<le> unat n"
    by (simp_all add: wrapped_rep_def)
  then have "chain (fill_mgmt (fill_mgmt p r t empty_buff_mgmt_magic) t (unat n) empty_buff_mgmt_magic)
      seg ent 0 w bs"
    by (intro chain_fill [OF _ g(1,2,5)]) auto
  with assms(2) show "linear_rep (fill_mgmt (fill_mgmt p r t empty_buff_mgmt_magic) t (unat n) empty_buff_mgmt_magic)
      seg ent (unat n) 0 w bs"
    by (auto simp: linear_rep_def wrapped_rep_def marked_def ring_simps)
  show "t = r + nsegs ent m" using assms(2) by (simp add: wrapped_rep_def)
qed

theorem pop_core_tail:
  assumes rep: "ring_rep seg ent n q (m # ms)" and at: "at_message q"
  shows "\<exists>q'. pop_core ent n q = (0, q') \<and> ring_rep seg ent n q' ms \<and> at_message q'"
proof -
  note pos = ring_rep_positions [OF rep]
  note g = geometry_okD [OF pos(3)]
  let ?p = "payload q" and ?r = "unat (read_pos q)" and ?w = "unat (write_pos q)"
  let ?r' = "?r + nsegs ent m"
  have ne: "read_pos q \<noteq> write_pos q" using ring_rep_Nil_iff [OF rep] by auto
  have r16: "unat (read_pos q + of_nat (nsegs ent m)) = ?r'" if "?r' < unat n"
    using that g(4) by (simp add: unat_word_ariths)
  from rep show ?thesis
  proof (cases rule: ring_rep_cases)
    case linear
    then have "chain ?p seg ent ?r ?w (m # ms)" by (simp add: linear_rep_def)
    note eq = pop_core_eq [OF pos(3) ne this less_imp_le [OF pos(2)]]
    note lin = linear_rep_pop [OF pos(3) linear]
    then show ?thesis
      using linear_rep_at_message [OF lin(1)] pos(3)
      by (auto simp: eq r16 at_message_def intro!: ring_rep_linearI)
  next
    case (wrapped t as bs)
    then obtain as' where as: "as = m # as'" and ms: "ms = as' @ bs"
      using at wrapped_rep_at_message by (cases as) (auto simp: at_message_def)
    note wr = wrapped(2) [unfolded as]
    from wr have "chain ?p seg ent ?r t (m # as')" "t \<le> unat n" by (simp_all add: wrapped_rep_def)
    note eq = pop_core_eq [OF pos(3) ne this]
    show ?thesis
    proof (cases "as' = []")
      case True
      note lst = wrapped_rep_pop_last [OF pos(3) wr [unfolded True]]
      from wr have "t < unat n \<Longrightarrow> buffer_mgmt ?p t = skip_buff_mgmt_magic"
        by (simp add: wrapped_rep_def marked_def)
      with lst \<open>t \<le> unat n\<close> True ms linear_rep_at_message [OF lst(1)] pos(3) show ?thesis
        by (cases "t < unat n") (auto simp: eq at_message_def fill_mgmt.simps [of _ "unat n" "unat n"] intro!: ring_rep_linearI)
    next
      case False
      note inner = wrapped_rep_pop_inner [OF pos(3) wr False]
      then show ?thesis
        using wrapped_rep_at_message [OF inner(1)] False ms pos(3)
        by (auto simp: eq r16 at_message_def intro!: ring_rep_wrappedI)
    qed
  qed
qed

lemma pop_core_empty: "ring_rep seg ent n q [] \<Longrightarrow> pop_core ent n q = (-1, q)"
  using ring_rep_Nil_iff [of seg ent n q "[]"] by (simp add: pop_core_def)

text \<open>Popping clears marks only: the bytes of the message stay where they are.\<close>

lemma front_chain:
  assumes "ring_rep seg ent n q (m # ms)" "at_message q"
  obtains e ms' where "chain (payload q) seg ent (unat (read_pos q)) e (m # ms')" "e \<le> unat n"
  using assms(1)
proof (cases rule: ring_rep_cases)
  case linear
  then show ?thesis by (intro that [of "unat (write_pos q)" ms]) (simp_all add: linear_rep_def)
next
  case (wrapped t as bs)
  then obtain as' where "as = m # as'"
    using assms(2) wrapped_rep_at_message by (cases as) (auto simp: at_message_def)
  with wrapped show ?thesis by (intro that [of t as']) (simp_all add: wrapped_rep_def)
qed

lemma pop_core_data:
  assumes "ring_rep seg ent n q (m # ms)" "at_message q" "seg \<le> a"
  shows "payload (snd (pop_core ent n q)) a = payload q a"
proof -
  note pos = ring_rep_positions [OF assms(1)]
  note g = geometry_okD [OF pos(3)]
  have ne: "read_pos q \<noteq> write_pos q" using ring_rep_Nil_iff [OF assms(1)] by auto
  obtain e ms' where ch: "chain (payload q) seg ent (unat (read_pos q)) e (m # ms')" "e \<le> unat n"
    using front_chain [OF assms(1,2)] .
  then have "unat (read_pos q) + nsegs ent m \<le> unat n"
    using chain_le [OF g(1), of "payload q" seg "unat (read_pos q) + nsegs ent m" e ms'] by simp
  with g(5) assms(3) show ?thesis by (simp add: pop_core_eq [OF pos(3) ne ch] fill_mgmt_frame)
qed

lemma peek_core_addr: "peek_core seg n q = (r, Some (addr, sz), q') \<Longrightarrow> seg \<le> addr"
  by (auto simp: peek_core_def getDataSegmentAddress_def Let_def split: if_splits prod.splits)

section \<open>Reset\<close>

theorem reset_core_empty:
  assumes "geometry_ok seg ent n"
  shows "ring_rep seg ent n (reset_core q n) []" "at_message (reset_core q n)"
  using geometry_okD(3) [OF assms] assms
  by (auto simp: reset_core_def at_message_def linear_rep_def marked_def ring_simps intro!: ring_rep_linearI)

section \<open>Capacity\<close>

text \<open>
  Room for a message of \<open>k\<close> segments: the free-space check passes and, with the writer
  behind the reader, the message ends before the last segment. The check alone is not enough.
\<close>

definition room_for :: "u16 \<Rightarrow> SharedRingQueue \<Rightarrow> nat \<Rightarrow> bool" where
  "room_for n q k =
     (isThereEnoughMemoryInQueue n (write_pos q) (read_pos q) (of_nat k)
      \<and> (read_pos q \<le> write_pos q \<or> unat (write_pos q) + k < unat n))"

text \<open>A message that fits before the end of the array needs no wrap.\<close>

lemma room_before_end:
  assumes "ring_rep seg ent n q ms" "valid_msg (concat bufs)" "read_pos q \<le> write_pos q"
    and "unat (write_pos q) + nsegs ent (concat bufs) < unat n"
  shows "room_for n q (nsegs ent (concat bufs))"
    and "write_pos (snd (push_core seg ent n q bufs)) = of_nat (unat (write_pos q) + nsegs ent (concat bufs))"
proof -
  note pos = ring_rep_positions [OF assms(1)]
  note g = geometry_okD [OF pos(3)] and k = valid_msg_nsegs [OF geometry_okD(1) [OF pos(3)] assms(2)]
  have "isThereEnoughMemoryInQueue n (write_pos q) (read_pos q) (of_nat (nsegs ent (concat bufs)))"
    using assms(3,4) k pos(1,2) g
    by (subst isThereEnoughMemoryInQueue_arith [where elems = "nsegs ent (concat bufs)"])
      (auto simp: word_le_nat_alt)
  with assms(3) push_core_eq(1) [OF pos(3) assms(2) pos(2)] assms(4)
  show "room_for n q (nsegs ent (concat bufs))"
    and "write_pos (snd (push_core seg ent n q bufs)) = of_nat (unat (write_pos q) + nsegs ent (concat bufs))"
    by (simp_all add: room_for_def)
qed

section \<open>Results and reach of a push\<close>

lemma push_core_results:
  fixes bufs :: "bytes list"
  assumes "ring_rep seg ent n q ms"
  defines "out \<equiv> push_core seg ent n q bufs"
  shows "fst out = -2 \<longleftrightarrow> max_write_size < length (concat bufs)"
    and "fst out = -3 \<longleftrightarrow> length (concat bufs) \<le> max_write_size
      \<and> \<not> isThereEnoughMemoryInQueue n (write_pos q) (read_pos q) (of_nat (nsegs ent (concat bufs)))"
    and "fst out \<in> {0, -2, -3}" "fst out \<noteq> 0 \<Longrightarrow> snd out = q"
proof -
  note pos = ring_rep_positions [OF assms(1)]
  then have "write_pos q < n" by (simp add: word_less_nat_alt)
  then have w: "\<not> n \<le> write_pos q" by simp
  have size: "total_elem_size 0 bufs =
      (if length (concat bufs) \<le> max_write_size then Some (length (concat bufs)) else None)"
    using total_elem_size_Some [of 0 bufs] by simp
  have k: "ucast (of_nat k :: u16) = (of_nat k :: u8)" for k
    by transfer (simp add: take_bit_take_bit)
  show "fst out = -2 \<longleftrightarrow> max_write_size < length (concat bufs)"
    "fst out = -3 \<longleftrightarrow> length (concat bufs) \<le> max_write_size
      \<and> \<not> isThereEnoughMemoryInQueue n (write_pos q) (read_pos q) (of_nat (nsegs ent (concat bufs)))"
    "fst out \<in> {0, -2, -3}" "fst out \<noteq> 0 \<Longrightarrow> snd out = q"
    unfolding out_def push_core_def size using w by (auto simp: Let_def k split: prod.splits)
qed

lemma fill_mgmt_none: "hi \<le> lo \<Longrightarrow> fill_mgmt p lo hi v = p"
  by (simp add: fill_mgmt.simps [of p lo hi v])

lemma push_core_empty_message:
  assumes "geometry_ok seg ent n" "unat (write_pos q) < unat n" "concat bufs = []"
    and "isThereEnoughMemoryInQueue n (write_pos q) (read_pos q) 0"
  shows "push_core seg ent n q bufs =
    (0, q\<lparr>payload := set_buffer_mgmt (payload q) (unat (write_pos q)) 0,
          write_pos := of_nat (if unat (write_pos q) + 1 \<ge> unat n then 0 else unat (write_pos q) + 1)\<rparr>)"
proof -
  have k: "getNumOfDataSegmentsNeeded ent 0 = 0"
    using geometry_okD(1) [OF assms(1)] by (simp add: getNumOfDataSegmentsNeeded_def)
  have "unat (of_nat (unat (write_pos q) + 1) + 0 - 1 :: u16) = unat (write_pos q)" by simp
  moreover have "\<not> n \<le> write_pos q" using assms(2) by (simp add: word_le_nat_alt)
  moreover have "total_elem_size 0 bufs = Some 0"
    using total_elem_size_Some [of 0 bufs] unfolding assms(3) by simp
  ultimately show ?thesis
    using assms(2,4) by (simp add: push_core_def k Let_def fill_mgmt_none copy_buffers_memcpy assms(3) max_def)
qed

lemma push_core_inside:
  assumes "ring_rep seg ent n q ms" "seg * (1 + unat n) \<le> a"
  shows "payload (snd (push_core seg ent n q bufs)) a = payload q a"
proof (cases "fst (push_core seg ent n q bufs) = 0")
  case False
  then show ?thesis using push_core_results(4) [OF assms(1)] by simp
next
  case True
  note pos = ring_rep_positions [OF assms(1)] and geom = geometry_okD [OF ring_rep_positions(3) [OF assms(1)]]
  note res = push_core_results(1,2) [OF assms(1), where bufs = bufs]
  have enough: "isThereEnoughMemoryInQueue n (write_pos q) (read_pos q) (of_nat (nsegs ent (concat bufs)))"
    and len: "length (concat bufs) \<le> max_write_size" using True res by auto
  have far: "2 * unat n \<le> a" "seg \<le> a" using geom(5) assms(2) by (auto intro: order_trans)
  show ?thesis
  proof (cases "concat bufs = []")
    case True
    with push_core_empty_message [OF pos(3,2) True] enough geom(1) far pos(2) show ?thesis
      by (simp add: getNumOfDataSegmentsNeeded_def set_buffer_mgmt_frame)
  next
    case False
    with len have valid: "valid_msg (concat bufs)" by (simp add: valid_msg_def)
    note eq = push_core_eq [OF pos(3) valid pos(2) enough]
    have store: "store_msg p seg ent s (concat bufs) a = p a"
      if "s + nsegs ent (concat bufs) \<le> unat n" "s < unat n" for p s
    proof (rule store_msg_data [OF geom(5) that far(2)])
      have "getDataSegmentAddress seg (s + nsegs ent (concat bufs)) \<le> getDataSegmentAddress seg (unat n)"
        using that(1) by (rule getDataSegmentAddress_mono)
      with message_fits [OF geom(1,2) valid, of s] assms(2)
      show "a < getDataSegmentAddress seg s \<or> getDataSegmentAddress seg s + length (concat bufs) \<le> a"
        by (simp add: getDataSegmentAddress_def algebra_simps)
    qed
    show ?thesis
      using eq(2) pos(2) far by (simp add: eq(1) store fill_mgmt_frame)
  qed
qed

end
