(* ===== verification/Message_Queue.thy ===== *)
theory Message_Queue
  imports Ring_Fifo
begin

text \<open>
  The contract a one-way queue gives its clients, as a locale: push appends a message when
  there is room, peek returns the oldest message and leaves the contents alone, pop removes
  it. The client lemmas (draining the queue yields the messages in the order they were
  pushed) are proved once here; the two shared-memory libraries interpret the locale.
\<close>

text \<open>Pushing a list of messages, each given as the buffers \<open>sendChunkedData\<close> takes.\<close>

fun push_all :: "('q \<Rightarrow> bytes list \<Rightarrow> int \<times> 'q) \<Rightarrow> 'q \<Rightarrow> bytes list list \<Rightarrow> int list \<times> 'q" where
  "push_all push q [] = ([], q)"
| "push_all push q (bufs # rest) =
     (let (r, q1) = push q bufs; (rs, q2) = push_all push q1 rest in (r # rs, q2))"

lemma push_all_append:
  "push_all push q (xs @ ys) =
     (let (rs, q1) = push_all push q xs; (rs', q2) = push_all push q1 ys in (rs @ rs', q2))"
  by (induction xs arbitrary: q) (simp_all add: split_beta Let_def)

text \<open>Each message finds room when its turn comes.\<close>

fun all_fit :: "('q \<Rightarrow> bytes \<Rightarrow> bool) \<Rightarrow> ('q \<Rightarrow> bytes list \<Rightarrow> int \<times> 'q) \<Rightarrow> 'q \<Rightarrow> bytes list list \<Rightarrow> bool" where
  "all_fit room push q [] = True"
| "all_fit room push q (bufs # rest) = (room q (concat bufs) \<and> all_fit room push (snd (push q bufs)) rest)"

text \<open>Receiving and popping until \<open>n\<close> messages are read or a receive fails.\<close>

fun drain ::
    "('q \<Rightarrow> int \<times> bytes option \<times> 'q) \<Rightarrow> ('q \<Rightarrow> int \<times> 'q) \<Rightarrow> nat \<Rightarrow> 'q \<Rightarrow> bytes list \<times> 'q" where
  "drain peek pop 0 q = ([], q)"
| "drain peek pop (Suc n) q =
     (case peek q of
        (_, None, q1) \<Rightarrow> ([], q1)
      | (_, Some m, q1) \<Rightarrow> (let (ms, q2) = drain peek pop n (snd (pop q1)) in (m # ms, q2)))"

locale message_queue =
  fixes rep :: "'q \<Rightarrow> bytes list \<Rightarrow> bool"
    and ready :: "'q \<Rightarrow> bool"
    and room :: "'q \<Rightarrow> bytes \<Rightarrow> bool"
    and push :: "'q \<Rightarrow> bytes list \<Rightarrow> int \<times> 'q"
    and peek :: "'q \<Rightarrow> int \<times> bytes option \<times> 'q"
    and pop :: "'q \<Rightarrow> int \<times> 'q"
  assumes push_appends: "rep q ms \<Longrightarrow> valid_msg (concat bufs) \<Longrightarrow> room q (concat bufs) \<Longrightarrow>
      \<exists>q'. push q bufs = (0, q') \<and> rep q' (ms @ [concat bufs])"
    and peek_head: "rep q (m # ms) \<Longrightarrow> \<exists>q'. peek q = (0, Some m, q') \<and> rep q' (m # ms) \<and> ready q'"
    and peek_empty: "rep q [] \<Longrightarrow> peek q = (-1, None, q)"
    and pop_tail: "rep q (m # ms) \<Longrightarrow> ready q \<Longrightarrow> \<exists>q'. pop q = (0, q') \<and> rep q' ms"
    and pop_empty: "rep q [] \<Longrightarrow> pop q = (-1, q)"
begin

lemma peek_then_pop:
  assumes "rep q (m # ms)"
  shows "\<exists>q1 q2. peek q = (0, Some m, q1) \<and> pop q1 = (0, q2) \<and> rep q2 ms"
  using peek_head [OF assms] pop_tail by blast

lemma peek_idempotent:
  assumes "rep q (m # ms)"
  shows "\<exists>q1 q2. peek q = (0, Some m, q1) \<and> peek q1 = (0, Some m, q2) \<and> rep q2 (m # ms)"
  using peek_head [OF assms] peek_head by blast

lemma drain_all: "rep q ms \<Longrightarrow> \<exists>q'. drain peek pop (length ms) q = (ms, q') \<and> rep q' []"
proof (induction ms arbitrary: q)
  case (Cons m ms)
  then obtain q1 q2 where step: "peek q = (0, Some m, q1)" "pop q1 = (0, q2)" "rep q2 ms"
    using peek_then_pop by blast
  with Cons.IH obtain q' where "drain peek pop (length ms) q2 = (ms, q')" "rep q' []" by blast
  with step show ?case by simp
qed simp

text \<open>No message is invented: reading on after the last message fails and changes nothing.\<close>

lemma drain_stops: "rep q [] \<Longrightarrow> drain peek pop n q = ([], q)"
  by (cases n) (simp_all add: peek_empty)

lemma drain_more:
  assumes "rep q ms" "length ms \<le> n"
  shows "\<exists>q'. drain peek pop n q = (ms, q') \<and> rep q' []"
  using assms
proof (induction ms arbitrary: q n)
  case Nil
  then show ?case by (simp add: drain_stops)
next
  case (Cons m ms)
  then obtain n' where n: "n = Suc n'" "length ms \<le> n'" by (cases n) auto
  from Cons.prems(1) obtain q1 q2 where "peek q = (0, Some m, q1)" "pop q1 = (0, q2)" "rep q2 ms"
    using peek_then_pop by blast
  with Cons.IH [OF _ n(2)] show ?case by (fastforce simp: n)
qed

text \<open>Messages pushed one after the other are read in that order, after those already there.\<close>

lemma push_all_appends:
  assumes "rep q ms" "list_all (\<lambda>bufs. valid_msg (concat bufs)) bss" "all_fit room push q bss"
  shows "\<exists>q'. push_all push q bss = (replicate (length bss) 0, q') \<and> rep q' (ms @ map concat bss)"
  using assms
proof (induction bss arbitrary: q ms)
  case (Cons bufs bss)
  then obtain q1 where q1: "push q bufs = (0, q1)" "rep q1 (ms @ [concat bufs])"
    using push_appends [OF Cons.prems(1), of bufs] by auto
  moreover have "list_all (\<lambda>bufs. valid_msg (concat bufs)) bss" "all_fit room push q1 bss"
    using Cons.prems q1(1) by simp_all
  ultimately show ?case
    using Cons.IH [of q1 "ms @ [concat bufs]"] by auto
qed simp

lemma push_all_drain:
  assumes "rep q []" "list_all (\<lambda>bufs. valid_msg (concat bufs)) bss" "all_fit room push q bss"
  shows "\<exists>q' q''. push_all push q bss = (replicate (length bss) 0, q')
    \<and> drain peek pop (length bss) q' = (map concat bss, q'') \<and> rep q'' []"
  using push_all_appends [OF assms] drain_all [of _ "map concat bss"] by fastforce

end

end
