(* ===== verification/Param_Table.thy ===== *)
theory Param_Table
  imports Main
begin

text \<open>
  The contract of a table with a fixed number of slots that maps keys to parameters: what a
  lookup returns after an insertion and after a removal. The client lemmas concern a whole
  sequence of insertions and removals. The queue table of the shared-memory library
  interprets the locale.
\<close>

datatype ('k, 'w) table_op = Add 'k 'w | Remove 'k

fun op_key :: "('k, 'w) table_op \<Rightarrow> 'k" where
  "op_key (Add k w) = k"
| "op_key (Remove k) = k"

fun run_ops ::
    "('s \<Rightarrow> 'k \<Rightarrow> 'w \<Rightarrow> 'v option \<times> 's) \<Rightarrow> ('s \<Rightarrow> 'k \<Rightarrow> 's) \<Rightarrow> 's \<Rightarrow> ('k, 'w) table_op list \<Rightarrow> 's" where
  "run_ops add remove s [] = s"
| "run_ops add remove s (Add k w # ops) = run_ops add remove (snd (add s k w)) ops"
| "run_ops add remove s (Remove k # ops) = run_ops add remove (remove s k) ops"

locale param_table =
  fixes ok :: "'s \<Rightarrow> bool"
    and good_key :: "'k \<Rightarrow> bool"
    and lookup :: "'s \<Rightarrow> 'k \<Rightarrow> 'v option"
    and add :: "'s \<Rightarrow> 'k \<Rightarrow> 'w \<Rightarrow> 'v option \<times> 's"
    and remove :: "'s \<Rightarrow> 'k \<Rightarrow> 's"
  assumes add_ok: "ok s \<Longrightarrow> good_key k \<Longrightarrow> ok (snd (add s k w))"
    and remove_ok: "ok s \<Longrightarrow> ok (remove s k)"
    and lookup_add_same: "ok s \<Longrightarrow> good_key k \<Longrightarrow> fst (add s k w) = Some v \<Longrightarrow> lookup (snd (add s k w)) k = Some v"
    and lookup_add_other: "ok s \<Longrightarrow> good_key k \<Longrightarrow> k' \<noteq> k \<Longrightarrow> lookup (snd (add s k w)) k' = lookup s k'"
    and lookup_remove_same: "ok s \<Longrightarrow> lookup (remove s k) k = None"
    and lookup_remove_other: "ok s \<Longrightarrow> k' \<noteq> k \<Longrightarrow> lookup (remove s k) k' = lookup s k'"
begin

lemma add_then_remove:
  assumes "ok s" "good_key k"
  shows "lookup (remove (snd (add s k w)) k) k' = (if k' = k then None else lookup s k')"
  using assms add_ok lookup_remove_same lookup_remove_other lookup_add_other by simp

lemma run_ops_ok:
  "ok s \<Longrightarrow> list_all (good_key \<circ> op_key) ops \<Longrightarrow> ok (run_ops add remove s ops)"
proof (induction ops arbitrary: s)
  case (Cons x ops)
  then show ?case by (cases x) (simp_all add: add_ok remove_ok)
qed simp

text \<open>What happens to other keys does not change the parameters of a key.\<close>

lemma run_ops_other:
  "ok s \<Longrightarrow> list_all (good_key \<circ> op_key) ops \<Longrightarrow> k \<notin> op_key ` set ops \<Longrightarrow>
   lookup (run_ops add remove s ops) k = lookup s k"
proof (induction ops arbitrary: s)
  case (Cons x ops)
  then show ?case by (cases x) (simp_all add: add_ok remove_ok lookup_add_other lookup_remove_other)
qed simp

lemma added_survives:
  assumes "ok s" "good_key k" "fst (add s k w) = Some v"
    and "list_all (good_key \<circ> op_key) ops" "k \<notin> op_key ` set ops"
  shows "lookup (run_ops add remove (snd (add s k w)) ops) k = Some v"
  using assms run_ops_other [OF add_ok] lookup_add_same by simp

end

end
