(* ===== verification/Segment_Size.thy ===== *)
theory Segment_Size
  imports Ring_Core Param_Table
begin

text \<open>
  The process state of \<open>core/shmem_ipc/shared_ring_queue.c\<close> that is not in shared memory:
  the table of the queues this process opened and the negotiation of the segment size from
  the environment, the agent's metadata file and the header of an existing queue.
\<close>

section \<open>Process state\<close>

record QueueParams =
  location_name :: string
  qp_num_of_data_segments :: u16
  qp_memory_size :: int
  qp_fd :: int
  in_use :: bool

definition MAX_QUEUES :: nat where
  "MAX_QUEUES = 4"

text \<open>
  The static variables of the file, and the environment of the process, which the file
  reads with \<open>getenv\<close> and writes with \<open>setenv\<close>.
\<close>

record ring_globals =
  g_queue_params :: "QueueParams list"
  g_queue_params_initialized :: bool
  g_effective_segment_size :: u16
  g_effective_entry_size :: u16
  g_effective_size_initialized :: bool
  is_dual_docker_nginx_env :: bool
  is_dual_docker_env :: bool
  g_docker_env_initialized :: bool
  environ :: "string \<rightharpoonup> string"

text \<open>
  What the file system shows: whether the marker file exists, whether \<open>stat\<close> finds the
  agent's metadata file, and its lines when \<open>fopen\<close> opens it.
\<close>

record host_files =
  dual_docker_nginx_file :: bool
  agent_metadata_stat :: bool
  agent_metadata_lines :: "string list option"

definition effective_size_var :: string where
  "effective_size_var = ''EFFECTIVE_SHM_SEGMENT_SIZE''"

definition nano_agent_var :: string where
  "nano_agent_var = ''INFINITY_NEXT_NANO_AGENT''"

definition initializeDockerEnvironment :: "host_files \<Rightarrow> ring_globals \<Rightarrow> ring_globals" where
  "initializeDockerEnvironment h G =
     (if \<not> g_docker_env_initialized G
      then G\<lparr>g_docker_env_initialized := True,
             is_dual_docker_nginx_env := dual_docker_nginx_file h,
             is_dual_docker_env := (environ G nano_agent_var \<noteq> None)\<rparr>
      else G)"

section \<open>The queue table\<close>

definition free_params :: QueueParams where
  "free_params = \<lparr>location_name = [], qp_num_of_data_segments = 0, qp_memory_size = -1,
                  qp_fd = -1, in_use = False\<rparr>"

definition initializeQueueParams :: "ring_globals \<Rightarrow> ring_globals" where
  "initializeQueueParams G =
     (if \<not> g_queue_params_initialized G
      then G\<lparr>g_queue_params := replicate MAX_QUEUES free_params, g_queue_params_initialized := True\<rparr>
      else G)"

text \<open>The loops over the table look for the first slot that satisfies a condition.\<close>

fun first_slot :: "(QueueParams \<Rightarrow> bool) \<Rightarrow> QueueParams list \<Rightarrow> nat option" where
  "first_slot P [] = None"
| "first_slot P (x # xs) = (if P x then Some 0 else map_option Suc (first_slot P xs))"

definition slot_named :: "string \<Rightarrow> QueueParams \<Rightarrow> bool" where
  "slot_named name x = (in_use x \<and> location_name x = name)"

definition getQueueParams :: "ring_globals \<Rightarrow> string \<Rightarrow> QueueParams option" where
  "getQueueParams G name =
     (let ps = g_queue_params (initializeQueueParams G)
      in map_option (\<lambda>i. ps ! i) (first_slot (slot_named name) ps))"

definition addQueueParams ::
    "ring_globals \<Rightarrow> string \<Rightarrow> u16 \<Rightarrow> int \<Rightarrow> int \<Rightarrow> QueueParams option \<times> ring_globals" where
  "addQueueParams G0 name n mem_size fd =
     (let G = initializeQueueParams G0; ps = g_queue_params G in
      case first_slot (slot_named name) ps of
        Some i \<Rightarrow>
          let x = (ps ! i)\<lparr>qp_num_of_data_segments := n, qp_memory_size := mem_size, qp_fd := fd\<rparr>
          in (Some x, G\<lparr>g_queue_params := ps[i := x]\<rparr>)
      | None \<Rightarrow>
          (case first_slot (\<lambda>x. \<not> in_use x) ps of
             Some i \<Rightarrow>
               let x = \<lparr>location_name = cstr_trunc MAX_ONE_WAY_QUEUE_NAME_LENGTH name,
                        qp_num_of_data_segments = n, qp_memory_size = mem_size, qp_fd = fd, in_use = True\<rparr>
               in (Some x, G\<lparr>g_queue_params := ps[i := x]\<rparr>)
           | None \<Rightarrow> (None, G)))"

definition removeQueueParams :: "ring_globals \<Rightarrow> string \<Rightarrow> ring_globals" where
  "removeQueueParams G0 name =
     (let G = initializeQueueParams G0; ps = g_queue_params G in
      case first_slot (slot_named name) ps of
        Some i \<Rightarrow> G\<lparr>g_queue_params := ps[i := free_params]\<rparr>
      | None \<Rightarrow> G)"

section \<open>The segment size\<close>

text \<open>One line of the metadata file: \<open>key=value\<close> with both parts non-empty is put into the environment.\<close>

definition metadata_line :: "(string \<rightharpoonup> string) \<Rightarrow> string \<Rightarrow> (string \<rightharpoonup> string)" where
  "metadata_line env l0 =
     (let l = (if l0 \<noteq> [] \<and> last l0 = CHR ''\<newline>'' then butlast l0 else l0);
          key = takeWhile (\<lambda>c. c \<noteq> CHR ''='') l;
          rest = dropWhile (\<lambda>c. c \<noteq> CHR ''='') l
      in if rest \<noteq> [] \<and> key \<noteq> [] \<and> tl rest \<noteq> [] then env(key \<mapsto> tl rest) else env)"

definition larger_than_bc :: "string \<Rightarrow> bool" where
  "larger_than_bc s = (atoi s > int SHARED_MEMORY_SEGMENT_ENTRY_SIZE_BC)"

definition isLargerDataSegmentSupported :: "host_files \<Rightarrow> ring_globals \<Rightarrow> bool \<times> ring_globals" where
  "isLargerDataSegmentSupported h G0 =
     (let G = initializeDockerEnvironment h G0 in
      if \<not> is_dual_docker_env G \<and> \<not> is_dual_docker_nginx_env G then (True, G)
      else
        case environ G effective_size_var of
          Some s \<Rightarrow> (larger_than_bc s, G)
        | None \<Rightarrow>
            if \<not> agent_metadata_stat h then (False, G)
            else
              (case agent_metadata_lines h of
                 None \<Rightarrow> (False, G)
               | Some lns \<Rightarrow>
                   let G' = G\<lparr>environ := foldl metadata_line (environ G) lns\<rparr> in
                   (case environ G' effective_size_var of
                      Some s \<Rightarrow> (larger_than_bc s, G')
                    | None \<Rightarrow> (False, G'))))"

definition negotiated_size :: "bool \<Rightarrow> u16" where
  "negotiated_size larger =
     of_nat (if larger then SHARED_MEMORY_SEGMENT_ENTRY_SIZE else SHARED_MEMORY_SEGMENT_ENTRY_SIZE_BC)"

definition getEffectiveSegmentSize :: "host_files \<Rightarrow> ring_globals \<Rightarrow> u16 \<times> ring_globals" where
  "getEffectiveSegmentSize h G0 =
     (if g_effective_size_initialized G0 then (g_effective_segment_size G0, G0)
      else
        let G = G0\<lparr>g_effective_size_initialized := True\<rparr>;
            from_env = (case environ G effective_size_var of None \<Rightarrow> 0 | Some s \<Rightarrow> atoi s)
        in if from_env > 0
           then (of_int from_env, G\<lparr>g_effective_segment_size := of_int from_env\<rparr>)
           else
             let (larger, G') = isLargerDataSegmentSupported h G
             in (negotiated_size larger, G'\<lparr>g_effective_segment_size := negotiated_size larger\<rparr>))"

definition getEffectiveEntrySize :: "host_files \<Rightarrow> ring_globals \<Rightarrow> u16 \<times> ring_globals" where
  "getEffectiveEntrySize h G =
     (if g_effective_entry_size G \<noteq> 0 then (g_effective_entry_size G, G)
      else
        let (larger, G') = isLargerDataSegmentSupported h G
        in (negotiated_size larger, G'\<lparr>g_effective_entry_size := negotiated_size larger\<rparr>))"

text \<open>
  The segment size an existing queue was built with, from its header; 0 when the header does
  not reconstruct the stamped memory size with one of the two released sizes. The size of
  the file is \<open>None\<close> when \<open>fstat\<close> fails, the header \<open>None\<close> when \<open>pread\<close> falls short.
\<close>

definition deriveSegmentSizeFromExistingQueue :: "nat option \<Rightarrow> SharedRingQueue option \<Rightarrow> u16" where
  "deriveSegmentSizeFromExistingQueue st_size header =
     (case st_size of
        None \<Rightarrow> 0
      | Some sz \<Rightarrow>
          if sz < SHARED_RING_QUEUE_HEADER_PREFIX_SIZE then 0
          else
            (case header of
               None \<Rightarrow> 0
             | Some hdr \<Rightarrow>
                 if num_of_data_segments hdr = 0 \<or> num_of_data_segments hdr > max_num_of_data_segments then 0
                 else if size_of_memory hdr \<le> int SHARED_RING_QUEUE_HEADER_PREFIX_SIZE then 0
                 else
                   let payload_size = nat (size_of_memory hdr) - SHARED_RING_QUEUE_HEADER_PREFIX_SIZE;
                       divisor = unat (num_of_data_segments hdr) + 1;
                       derived_size = payload_size div divisor
                   in if derived_size * divisor \<noteq> payload_size then 0
                      else if derived_size \<noteq> SHARED_MEMORY_SEGMENT_ENTRY_SIZE
                           \<and> derived_size \<noteq> SHARED_MEMORY_SEGMENT_ENTRY_SIZE_BC then 0
                      else of_nat derived_size))"

definition getEffectiveSharedRingQueueSize :: "host_files \<Rightarrow> ring_globals \<Rightarrow> nat \<times> ring_globals" where
  "getEffectiveSharedRingQueueSize h G =
     (let (eff, G') = getEffectiveSegmentSize h G
      in (SHARED_RING_QUEUE_HEADER_PREFIX_SIZE + unat eff, G'))"

section \<open>The table is a map from names to parameters\<close>

lemma first_slot_Some:
  "first_slot P xs = Some i \<Longrightarrow> i < length xs \<and> P (xs ! i) \<and> (\<forall>j < i. \<not> P (xs ! j))"
proof (induction xs arbitrary: i)
  case (Cons x xs)
  show ?case
  proof (cases "P x")
    case False
    with Cons.prems obtain j where j: "first_slot P xs = Some j" "i = Suc j" by auto
    have "\<not> P ((x # xs) ! k)" if "k < i" for k
      using that Cons.IH [OF j(1)] False j(2) by (cases k) simp_all
    with Cons.IH [OF j(1)] j(2) show ?thesis by simp
  qed (use Cons.prems in simp)
qed simp

lemma first_slot_None: "first_slot P xs = None \<longleftrightarrow> (\<forall>x \<in> set xs. \<not> P x)"
  by (induction xs) simp_all

lemma first_slot_unique:
  assumes "i < length xs" "P (xs ! i)" "\<And>j. j < length xs \<Longrightarrow> P (xs ! j) \<Longrightarrow> j = i"
  shows "first_slot P xs = Some i"
proof (cases "first_slot P xs")
  case None
  with nth_mem [OF assms(1)] assms(2) show ?thesis by (simp add: first_slot_None)
next
  case (Some j)
  moreover have "j = i" using first_slot_Some [OF Some] by (intro assms(3)) simp_all
  ultimately show ?thesis by simp
qed

text \<open>The table proper, after the lazy initialisation, and its invariant: names are not repeated.\<close>

definition table :: "ring_globals \<Rightarrow> QueueParams list" where
  "table G = g_queue_params (initializeQueueParams G)"

definition table_ok :: "ring_globals \<Rightarrow> bool" where
  "table_ok G =
     (length (table G) = MAX_QUEUES \<and>
      (\<forall>i < MAX_QUEUES. \<forall>j < MAX_QUEUES.
         in_use (table G ! i) \<and> in_use (table G ! j) \<and> location_name (table G ! i) = location_name (table G ! j)
         \<longrightarrow> i = j))"

lemma initializeQueueParams_idem [simp]:
  "initializeQueueParams (initializeQueueParams G) = initializeQueueParams G"
  by (simp add: initializeQueueParams_def)

lemma initializeQueueParams_initialized [simp]: "g_queue_params_initialized (initializeQueueParams G)"
  by (simp add: initializeQueueParams_def)

lemma initializeQueueParams_id [simp]: "g_queue_params_initialized G \<Longrightarrow> initializeQueueParams G = G"
  by (simp add: initializeQueueParams_def)

lemma table_update [simp]:
  "table ((initializeQueueParams G)\<lparr>g_queue_params := ps\<rparr>) = ps"
  "table (initializeQueueParams G) = table G"
  by (simp_all add: table_def initializeQueueParams_def)

lemma getQueueParams_table:
  "getQueueParams G name = map_option (\<lambda>i. table G ! i) (first_slot (slot_named name) (table G))"
  by (simp add: getQueueParams_def table_def Let_def)

lemma getQueueParams_initialize [simp]: "getQueueParams (initializeQueueParams G) = getQueueParams G"
  by (rule ext) (simp add: getQueueParams_def)

text \<open>In a table with distinct names, a lookup finds exactly the slot of that name.\<close>

lemma getQueueParams_iff:
  assumes "table_ok G"
  shows "getQueueParams G name = Some x \<longleftrightarrow>
    (\<exists>i < MAX_QUEUES. x = table G ! i \<and> in_use x \<and> location_name x = name)"
proof
  assume "getQueueParams G name = Some x"
  then show "\<exists>i < MAX_QUEUES. x = table G ! i \<and> in_use x \<and> location_name x = name"
    using assms first_slot_Some
    by (fastforce simp: getQueueParams_table slot_named_def table_ok_def)
next
  assume "\<exists>i < MAX_QUEUES. x = table G ! i \<and> in_use x \<and> location_name x = name"
  then obtain i where i: "i < MAX_QUEUES" "x = table G ! i" "in_use x" "location_name x = name" by blast
  with assms have "first_slot (slot_named name) (table G) = Some i"
    by (intro first_slot_unique) (auto simp: slot_named_def table_ok_def)
  with i show "getQueueParams G name = Some x" by (simp add: getQueueParams_table)
qed

lemma getQueueParams_eqI:
  assumes "table_ok G" "table_ok G'"
    and "\<And>i. i < MAX_QUEUES \<Longrightarrow> in_use (table G ! i) \<and> location_name (table G ! i) = name
           \<or> in_use (table G' ! i) \<and> location_name (table G' ! i) = name \<Longrightarrow> table G ! i = table G' ! i"
  shows "getQueueParams G name = getQueueParams G' name"
proof -
  have "getQueueParams G name = Some x \<longleftrightarrow> getQueueParams G' name = Some x" for x
    unfolding getQueueParams_iff [OF assms(1)] getQueueParams_iff [OF assms(2)]
    using assms(3) by metis
  then show ?thesis by (metis not_Some_eq)
qed

lemma table_ok_initial: "\<not> g_queue_params_initialized G \<Longrightarrow> table_ok G"
  by (simp add: table_ok_def table_def initializeQueueParams_def free_params_def)

text \<open>Replacing one slot by one whose name no other slot has keeps the names distinct.\<close>

lemma table_ok_upd:
  assumes "table_ok G" "i < MAX_QUEUES" "table G' = (table G)[i := x]"
    and "in_use x \<Longrightarrow> \<forall>j < MAX_QUEUES. j \<noteq> i \<longrightarrow> \<not> slot_named (location_name x) (table G ! j)"
  shows "table_ok G'"
  using assms by (auto simp: table_ok_def nth_list_update slot_named_def)

lemma lookup_upd_same:
  assumes "table_ok G'" "i < MAX_QUEUES" "table G' = (table G)[i := x]" "length (table G) = MAX_QUEUES"
    and "in_use x"
  shows "getQueueParams G' (location_name x) = Some x"
  using assms by (auto simp: getQueueParams_iff intro!: exI [of _ i])

lemma lookup_upd_other:
  assumes "table_ok G" "table_ok G'" "i < MAX_QUEUES" "table G' = (table G)[i := x]"
    and "\<not> slot_named name (table G ! i)" "\<not> slot_named name x"
  shows "getQueueParams G' name = getQueueParams G name"
proof (rule getQueueParams_eqI)
  fix j
  assume "j < MAX_QUEUES" "in_use (table G' ! j) \<and> location_name (table G' ! j) = name
      \<or> in_use (table G ! j) \<and> location_name (table G ! j) = name"
  with assms(3-) show "table G' ! j = table G ! j"
    using assms(1) by (cases "j = i") (simp_all add: slot_named_def table_ok_def, blast)
qed (use assms in simp_all)

lemma addQueueParams_cases:
  assumes "table_ok G" "length name < MAX_ONE_WAY_QUEUE_NAME_LENGTH"
  obtains (full) "addQueueParams G name n m fd = (None, initializeQueueParams G)"
      "getQueueParams G name = None" "\<forall>i < MAX_QUEUES. in_use (table G ! i)"
    | (slot) i x G' where "addQueueParams G name n m fd = (Some x, G')" "i < MAX_QUEUES"
      "table G' = (table G)[i := x]" "x = \<lparr>location_name = name, qp_num_of_data_segments = n, qp_memory_size = m,
         qp_fd = fd, in_use = True\<rparr>"
      "slot_named name (table G ! i) \<or> \<not> in_use (table G ! i) \<and> getQueueParams G name = None"
      "G' = (initializeQueueParams G)\<lparr>g_queue_params := table G'\<rparr>"
proof (cases "first_slot (slot_named name) (table G)")
  case (Some i)
  note s = first_slot_Some [OF Some]
  let ?x = "(table G ! i)\<lparr>qp_num_of_data_segments := n, qp_memory_size := m, qp_fd := fd\<rparr>"
  let ?G' = "(initializeQueueParams G)\<lparr>g_queue_params := (table G)[i := ?x]\<rparr>"
  have "addQueueParams G name n m fd = (Some ?x, ?G')"
    using Some by (simp add: addQueueParams_def Let_def table_def)
  with s assms show ?thesis
    by (intro slot [of ?x ?G' i]) (auto simp: slot_named_def table_ok_def)
next
  case named: None
  show ?thesis
  proof (cases "first_slot (\<lambda>x. \<not> in_use x) (table G)")
    case None
    show ?thesis
    proof (rule full)
      show "addQueueParams G name n m fd = (None, initializeQueueParams G)"
        using named None by (simp add: addQueueParams_def Let_def table_def)
      show "getQueueParams G name = None" using named by (simp add: getQueueParams_table)
      show "\<forall>i < MAX_QUEUES. in_use (table G ! i)"
        using None assms(1) by (simp add: first_slot_None table_ok_def)
    qed
  next
    case (Some i)
    note s = first_slot_Some [OF Some]
    let ?x = "\<lparr>location_name = name, qp_num_of_data_segments = n, qp_memory_size = m, qp_fd = fd, in_use = True\<rparr>"
    let ?G' = "(initializeQueueParams G)\<lparr>g_queue_params := (table G)[i := ?x]\<rparr>"
    have "addQueueParams G name n m fd = (Some ?x, ?G')"
      using Some named assms(2) by (simp add: addQueueParams_def Let_def table_def)
    with s named assms show ?thesis
      by (intro slot [of ?x ?G' i]) (auto simp: getQueueParams_table table_ok_def)
  qed
qed

text \<open>The operations in the form of the contract: a name, and its three parameters.\<close>

definition add_params :: "ring_globals \<Rightarrow> string \<Rightarrow> u16 \<times> int \<times> int \<Rightarrow> QueueParams option \<times> ring_globals" where
  "add_params G name w = (case w of (n, m, fd) \<Rightarrow> addQueueParams G name n m fd)"

lemma add_params_table_ok:
  assumes "table_ok G" "length name < MAX_ONE_WAY_QUEUE_NAME_LENGTH"
  shows "table_ok (snd (addQueueParams G name n m fd))"
  using assms
proof (cases rule: addQueueParams_cases [where n = n and m = m and fd = fd])
  case full
  with assms show ?thesis by (simp add: table_ok_def)
next
  case (slot i x G')
  have "\<forall>j < MAX_QUEUES. j \<noteq> i \<longrightarrow> \<not> slot_named name (table G ! j)"
  proof (intro allI impI notI)
    fix j
    assume j: "j < MAX_QUEUES" "j \<noteq> i" "slot_named name (table G ! j)"
    then have "getQueueParams G name = Some (table G ! j)"
      using getQueueParams_iff [OF assms(1)] by (auto simp: slot_named_def)
    with slot(5) j slot(2) assms(1) show False by (auto simp: slot_named_def table_ok_def)
  qed
  with slot(4) have "table_ok G'" by (intro table_ok_upd [OF assms(1) slot(2,3)]) simp
  with slot(1) show ?thesis by simp
qed

lemma add_params_lookup:
  assumes "table_ok G" "length name < MAX_ONE_WAY_QUEUE_NAME_LENGTH"
  shows "fst (addQueueParams G name n m fd) = Some v
      \<Longrightarrow> getQueueParams (snd (addQueueParams G name n m fd)) name = Some v"
    and "name' \<noteq> name \<Longrightarrow> getQueueParams (snd (addQueueParams G name n m fd)) name' = getQueueParams G name'"
proof -
  note ok' = add_params_table_ok [OF assms, of n m fd]
  have len: "length (table G) = MAX_QUEUES" using assms(1) by (simp add: table_ok_def)
  show "getQueueParams (snd (addQueueParams G name n m fd)) name = Some v"
    if "fst (addQueueParams G name n m fd) = Some v"
    using assms
  proof (cases rule: addQueueParams_cases [where n = n and m = m and fd = fd])
    case (slot i x G')
    with ok' len have "getQueueParams G' (location_name x) = Some x"
      by (intro lookup_upd_same [of G' i G x]) simp_all
    with slot(1,4) that show ?thesis by auto
  qed (use that in simp)
  show "getQueueParams (snd (addQueueParams G name n m fd)) name' = getQueueParams G name'"
    if "name' \<noteq> name"
    using assms
  proof (cases rule: addQueueParams_cases [where n = n and m = m and fd = fd])
    case (slot i x G')
    with that ok' lookup_upd_other [of G G' i x name'] assms(1) show ?thesis
      by (auto simp: slot_named_def)
  qed simp
qed

lemma removeQueueParams_table:
  "removeQueueParams G name =
     (case first_slot (slot_named name) (table G) of
        None \<Rightarrow> initializeQueueParams G
      | Some i \<Rightarrow> (initializeQueueParams G)\<lparr>g_queue_params := (table G)[i := free_params]\<rparr>)"
  by (simp add: removeQueueParams_def table_def Let_def cong: option.case_cong)

lemma remove_params_table_ok:
  assumes "table_ok G"
  shows "table_ok (removeQueueParams G name)"
proof (cases "first_slot (slot_named name) (table G)")
  case None
  with assms show ?thesis by (simp add: removeQueueParams_table table_ok_def)
next
  case (Some i)
  with first_slot_Some [OF Some] assms show ?thesis
    by (intro table_ok_upd [OF assms, of i _ free_params])
      (simp_all add: removeQueueParams_table table_ok_def free_params_def)
qed

lemma remove_params_lookup:
  assumes "table_ok G"
  shows "getQueueParams (removeQueueParams G name) name = None"
    and "name' \<noteq> name \<Longrightarrow> getQueueParams (removeQueueParams G name) name' = getQueueParams G name'"
proof -
  let ?G' = "removeQueueParams G name"
  have len: "length (table G) = MAX_QUEUES" using assms by (simp add: table_ok_def)
  note ok' = remove_params_table_ok [OF assms, of name]
  show "getQueueParams ?G' name = None"
  proof (cases "first_slot (slot_named name) (table G)")
    case (Some i)
    note s = first_slot_Some [OF Some]
    have "\<not> slot_named name (table ?G' ! j)" if "j < MAX_QUEUES" for j
      using Some s that assms
      by (cases "j = i") (auto simp: removeQueueParams_table slot_named_def free_params_def table_ok_def)
    then show ?thesis
      using getQueueParams_iff [OF ok', of name] by (metis not_Some_eq slot_named_def)
  qed (simp add: removeQueueParams_table getQueueParams_table)
  show "getQueueParams ?G' name' = getQueueParams G name'" if "name' \<noteq> name"
  proof (cases "first_slot (slot_named name) (table G)")
    case (Some i)
    note s = first_slot_Some [OF Some]
    have "table ?G' = (table G)[i := free_params]" using Some by (simp add: removeQueueParams_table)
    with s that len show ?thesis
      by (intro lookup_upd_other [OF assms ok', of i free_params]) (auto simp: slot_named_def free_params_def)
  qed (simp add: removeQueueParams_table)
qed

interpretation queue_table: param_table table_ok "\<lambda>name. length name < MAX_ONE_WAY_QUEUE_NAME_LENGTH"
  getQueueParams add_params removeQueueParams
  by unfold_locales
    (auto simp: add_params_def add_params_table_ok remove_params_table_ok remove_params_lookup
      intro: add_params_lookup split: prod.splits)

end
