(* ===== verification/Shared_Ring_Queue.thy ===== *)
theory Shared_Ring_Queue
  imports Message_Queue Segment_Size
begin

text \<open>
  The queue of \<open>core/shmem_ipc/shared_ring_queue.c\<close>: creation, attachment, destruction,
  reset, peek, push, pop and the corruption test, over the process state of
  \<open>Segment_Size\<close> and one mapped queue. The lemmas show that the operations implement the
  contract of \<open>Message_Queue\<close> and that the queue table behaves as a map.
\<close>

section \<open>Operations\<close>

definition isGetPossitionSucceccful :: "ring_globals \<Rightarrow> SharedRingQueue \<Rightarrow> bool" where
  "isGetPossitionSucceccful G q =
     (case getQueueParams G (shared_location_name q) of
        None \<Rightarrow> False
      | Some x \<Rightarrow> positions_ok q (qp_num_of_data_segments x) (qp_memory_size x))"

definition resetRingQueue ::
    "ring_globals \<Rightarrow> SharedRingQueue \<Rightarrow> u16 \<Rightarrow> ring_globals \<times> SharedRingQueue" where
  "resetRingQueue G0 q n =
     (let G = initializeQueueParams G0; ps = g_queue_params G;
          G' = (case first_slot (slot_named (shared_location_name q)) ps of
                  None \<Rightarrow> G
                | Some i \<Rightarrow> G\<lparr>g_queue_params := ps[i := (ps ! i)\<lparr>qp_num_of_data_segments := n\<rparr>]\<rparr>)
      in (G', reset_core q n))"

text \<open>
  What the system calls of \<open>createSharedRingQueue\<close> answer. \<open>mmap\<close> reports a failure as
  \<open>MAP_FAILED\<close>, which is not \<open>NULL\<close>; a mapping shows the bytes the object holds.
\<close>

datatype mmap_result = MapNull | MAP_FAILED | Mapped SharedRingQueue

record shm_calls =
  shm_open :: "string \<Rightarrow> bool \<Rightarrow> int"
  fstat_size :: "nat option"
  pread_header :: "SharedRingQueue option"
  ftruncate :: "nat \<Rightarrow> bool"
  mmap :: "nat \<Rightarrow> mmap_result"

text \<open>The queue, \<open>NULL\<close>, or the fault of a write through \<open>MAP_FAILED\<close>.\<close>

datatype create_result = CreateNull | CreateFault | Created SharedRingQueue

text \<open>A process that attaches adopts the geometry stamped in the header, if it is a released one.\<close>

definition adopt_segment_size :: "shm_calls \<Rightarrow> host_files \<Rightarrow> ring_globals \<Rightarrow> ring_globals" where
  "adopt_segment_size os h G =
     (let adopted_size = deriveSegmentSizeFromExistingQueue (fstat_size os) (pread_header os) in
      if adopted_size = 0 then G
      else
        let (eff, G') = getEffectiveSegmentSize h G in
        if adopted_size \<noteq> eff
        then G'\<lparr>g_effective_segment_size := adopted_size, g_effective_entry_size := adopted_size,
                g_effective_size_initialized := True\<rparr>
        else G')"

text \<open>The initialisation of the mapped queue by its owner, and the one write of a user.\<close>

definition stamp_queue ::
    "SharedRingQueue \<Rightarrow> string \<Rightarrow> u16 \<Rightarrow> nat \<Rightarrow> int \<Rightarrow> bool \<Rightarrow> SharedRingQueue" where
  "stamp_queue q name n memsize fd is_owner =
     (if is_owner
      then q\<lparr>shared_location_name := cstr_trunc MAX_ONE_WAY_QUEUE_NAME_LENGTH name,
             num_of_data_segments := n, read_pos := 0, write_pos := 0, size_of_memory := int memsize,
             payload := fill_mgmt (payload q) 0 (unat n) empty_buff_mgmt_magic, owner_fd := fd\<rparr>
      else q\<lparr>user_fd := fd\<rparr>)"

definition createSharedRingQueue ::
    "shm_calls \<Rightarrow> host_files \<Rightarrow> ring_globals \<Rightarrow> string \<Rightarrow> u16 \<Rightarrow> bool \<Rightarrow> create_result \<times> ring_globals" where
  "createSharedRingQueue os h G0 name n is_owner =
     (let G1 = G0\<lparr>g_effective_size_initialized := False, g_effective_entry_size := 0\<rparr> in
      if n > max_num_of_data_segments then (CreateNull, G1)
      else
        let fd = shm_open os name is_owner in
        if fd = -1 then (CreateNull, G1)
        else
          let G2 = (if is_owner then G1 else adopt_segment_size os h G1);
              (eff, G3) = getEffectiveSegmentSize h G2;
              (queue_size, G4) = getEffectiveSharedRingQueueSize h G3;
              memsize = queue_size + unat n * unat eff
          in if is_owner \<and> \<not> ftruncate os (memsize + 1) then (CreateNull, G4)
             else
               (case mmap os memsize of
                  MapNull \<Rightarrow> (CreateNull, G4)
                | MAP_FAILED \<Rightarrow> (CreateFault, G4)
                | Mapped q0 \<Rightarrow>
                    let q = stamp_queue q0 name n memsize fd is_owner;
                        (slot, G5) = addQueueParams G4 name n (int memsize) fd
                    in (case slot of None \<Rightarrow> (CreateNull, G5) | Some _ \<Rightarrow> (Created q, G5))))"

text \<open>
  Destruction: \<open>None\<close> when the table does not know the queue, otherwise the size it unmaps,
  the descriptor it closes and the name it unlinks.
\<close>

definition destroySharedRingQueue ::
    "ring_globals \<Rightarrow> SharedRingQueue \<Rightarrow> bool
     \<Rightarrow> (int \<times> int option \<times> string option) option \<times> SharedRingQueue \<times> ring_globals" where
  "destroySharedRingQueue G0 q is_owner =
     (let G = initializeQueueParams G0;
          name = cstr_trunc MAX_ONE_WAY_QUEUE_NAME_LENGTH (shared_location_name q)
      in (case getQueueParams G name of
           None \<Rightarrow> (None, q, G)
         | Some x \<Rightarrow>
             (Some (qp_memory_size x, if qp_fd x > 0 then Some (qp_fd x) else None,
                    if is_owner then Some name else None),
              if is_owner then q\<lparr>owner_fd := 0\<rparr> else q\<lparr>user_fd := 0\<rparr>,
              removeQueueParams G name)))"

definition peekToQueue ::
    "host_files \<Rightarrow> ring_globals \<Rightarrow> SharedRingQueue
     \<Rightarrow> int \<times> (nat \<times> u16) option \<times> ring_globals \<times> SharedRingQueue" where
  "peekToQueue h G0 q =
     (let G = initializeQueueParams G0 in
      if \<not> isGetPossitionSucceccful G q then (-1, None, G, q)
      else
        (case getQueueParams G (shared_location_name q) of
           None \<Rightarrow> (-1, None, G, q)
         | Some x \<Rightarrow>
             let (eff, G') = getEffectiveSegmentSize h G;
                 (r, out, q') = peek_core (unat eff) (qp_num_of_data_segments x) q
             in (r, out, if r = 0 then G' else G, q')))"

text \<open>
  Push: the entry size is looked up once the size limit is passed, the segment size only when
  data is written.
\<close>

definition pushBuffersToQueue ::
    "host_files \<Rightarrow> ring_globals \<Rightarrow> SharedRingQueue \<Rightarrow> bytes list \<Rightarrow> int \<times> ring_globals \<times> SharedRingQueue" where
  "pushBuffersToQueue h G0 q input_buffers =
     (let G = initializeQueueParams G0 in
      if \<not> isGetPossitionSucceccful G q then (-1, G, q)
      else
        (case getQueueParams G (shared_location_name q) of
           None \<Rightarrow> (-1, G, q)
         | Some x \<Rightarrow>
             let (ent, G1) = getEffectiveEntrySize h G;
                 (eff, G2) = getEffectiveSegmentSize h G1;
                 (r, q') = push_core (unat eff) (unat ent) (qp_num_of_data_segments x) q input_buffers
             in (r, if r = 0 then G2 else if r = -2 then G else G1, q')))"

definition pushToQueue ::
    "host_files \<Rightarrow> ring_globals \<Rightarrow> SharedRingQueue \<Rightarrow> bytes \<Rightarrow> int \<times> ring_globals \<times> SharedRingQueue" where
  "pushToQueue h G q input_buffer = pushBuffersToQueue h G q [input_buffer]"

definition popFromQueue ::
    "host_files \<Rightarrow> ring_globals \<Rightarrow> SharedRingQueue \<Rightarrow> int \<times> ring_globals \<times> SharedRingQueue" where
  "popFromQueue h G0 q =
     (let G = initializeQueueParams G0 in
      if \<not> isGetPossitionSucceccful G q then (-1, G, q)
      else
        (case getQueueParams G (shared_location_name q) of
           None \<Rightarrow> (-1, G, q)
         | Some x \<Rightarrow>
             let (ent, G') = getEffectiveEntrySize h G;
                 (r, q') = pop_core (unat ent) (qp_num_of_data_segments x) q
             in (r, if r = 0 then G' else G, q')))"

definition isCorruptedQueue :: "ring_globals \<Rightarrow> SharedRingQueue \<Rightarrow> bool" where
  "isCorruptedQueue G q =
     (case getQueueParams G (shared_location_name q) of
        None \<Rightarrow> False
      | Some x \<Rightarrow>
          qp_num_of_data_segments x \<noteq> 0 \<and>
          (num_of_data_segments q \<noteq> qp_num_of_data_segments x
           \<or> size_of_memory q \<noteq> qp_memory_size x
           \<or> read_pos q > qp_num_of_data_segments x
           \<or> write_pos q > qp_num_of_data_segments x
           \<or> shared_location_name q \<noteq> location_name x))"

section \<open>What the size negotiation keeps\<close>

lemma isLarger_frame [simp]:
  "g_queue_params (snd (isLargerDataSegmentSupported h G)) = g_queue_params G"
  "g_queue_params_initialized (snd (isLargerDataSegmentSupported h G)) = g_queue_params_initialized G"
  "g_effective_segment_size (snd (isLargerDataSegmentSupported h G)) = g_effective_segment_size G"
  "g_effective_size_initialized (snd (isLargerDataSegmentSupported h G)) = g_effective_size_initialized G"
  "g_effective_entry_size (snd (isLargerDataSegmentSupported h G)) = g_effective_entry_size G"
  by (auto simp: isLargerDataSegmentSupported_def initializeDockerEnvironment_def Let_def split: option.split)

lemma getQueueParams_cong:
  "g_queue_params G' = g_queue_params G \<Longrightarrow> g_queue_params_initialized G' = g_queue_params_initialized G \<Longrightarrow>
   getQueueParams G' = getQueueParams G"
  by (rule ext) (simp add: getQueueParams_def initializeQueueParams_def)

lemma negotiated_size_nonzero [simp]: "negotiated_size b \<noteq> 0"
  by (simp add: negotiated_size_def ring_constants)

lemma entry_size_frame [simp]:
  "g_queue_params (snd (getEffectiveEntrySize h G)) = g_queue_params G"
  "g_queue_params_initialized (snd (getEffectiveEntrySize h G)) = g_queue_params_initialized G"
  "g_effective_segment_size (snd (getEffectiveEntrySize h G)) = g_effective_segment_size G"
  "g_effective_size_initialized (snd (getEffectiveEntrySize h G)) = g_effective_size_initialized G"
  "fst (getEffectiveEntrySize h (snd (getEffectiveEntrySize h G))) = fst (getEffectiveEntrySize h G)"
  by (simp_all add: getEffectiveEntrySize_def split_beta)

lemma segment_size_initialized [simp]:
  "g_effective_size_initialized G \<Longrightarrow> getEffectiveSegmentSize h G = (g_effective_segment_size G, G)"
  by (simp add: getEffectiveSegmentSize_def)

lemma segment_size_frame [simp]:
  "g_queue_params (snd (getEffectiveSegmentSize h G)) = g_queue_params G"
  "g_queue_params_initialized (snd (getEffectiveSegmentSize h G)) = g_queue_params_initialized G"
  "g_effective_entry_size (snd (getEffectiveSegmentSize h G)) = g_effective_entry_size G"
  "g_effective_size_initialized (snd (getEffectiveSegmentSize h G))"
  "g_effective_segment_size (snd (getEffectiveSegmentSize h G)) = fst (getEffectiveSegmentSize h G)"
  by (simp_all add: getEffectiveSegmentSize_def Let_def split_beta)

section \<open>Refinement: the operations implement a list of messages\<close>

text \<open>
  The queue is bound to its process when the table knows it with the stamped number of
  segments and memory size and the segment size is negotiated, as after
  \<open>createSharedRingQueue\<close>.
\<close>

definition queue_bound :: "ring_globals \<Rightarrow> SharedRingQueue \<Rightarrow> bool" where
  "queue_bound G q =
     (g_queue_params_initialized G \<and> g_effective_size_initialized G \<and>
      (case getQueueParams G (shared_location_name q) of
         None \<Rightarrow> False
       | Some x \<Rightarrow> qp_num_of_data_segments x = num_of_data_segments q \<and> qp_memory_size x = size_of_memory q))"

abbreviation segment_size :: "ring_globals \<Rightarrow> nat" where
  "segment_size G \<equiv> unat (g_effective_segment_size G)"

abbreviation entry_size :: "host_files \<Rightarrow> ring_globals \<Rightarrow> nat" where
  "entry_size h G \<equiv> unat (fst (getEffectiveEntrySize h G))"

definition holds :: "host_files \<Rightarrow> ring_globals \<times> SharedRingQueue \<Rightarrow> bytes list \<Rightarrow> bool" where
  "holds h s ms =
     (case s of (G, q) \<Rightarrow>
        queue_bound G q \<and> ring_rep (segment_size G) (entry_size h G) (num_of_data_segments q) q ms)"

definition room_v1 :: "host_files \<Rightarrow> ring_globals \<times> SharedRingQueue \<Rightarrow> bytes \<Rightarrow> bool" where
  "room_v1 h s m = (case s of (G, q) \<Rightarrow> room_for (num_of_data_segments q) q (nsegs (entry_size h G) m))"

definition push_v1 where
  "push_v1 h s bufs = (case s of (G, q) \<Rightarrow> pushBuffersToQueue h G q bufs)"

text \<open>Peek as its callers use it: the bytes at the returned address, of the returned size.\<close>

definition peek_v1 ::
    "host_files \<Rightarrow> ring_globals \<times> SharedRingQueue \<Rightarrow> int \<times> bytes option \<times> ring_globals \<times> SharedRingQueue" where
  "peek_v1 h s =
     (case s of (G, q) \<Rightarrow>
        (case peekToQueue h G q of (r, out, G', q') \<Rightarrow>
           (r, map_option (\<lambda>(addr, sz). read_bytes (payload q') addr (unat sz)) out, G', q')))"

definition pop_v1 where
  "pop_v1 h s = (case s of (G, q) \<Rightarrow> popFromQueue h G q)"

definition ready_v1 :: "ring_globals \<times> SharedRingQueue \<Rightarrow> bool" where
  "ready_v1 s = at_message (snd s)"

lemma core_frame:
  assumes "shared_location_name q' = shared_location_name q" "num_of_data_segments q' = num_of_data_segments q"
    and "size_of_memory q' = size_of_memory q"
  shows "queue_bound G q' = queue_bound G q"
  using assms by (simp add: queue_bound_def cong: option.case_cong)

lemma peek_core_frame:
  assumes "peek_core seg n q = (r, out, q')"
  shows "shared_location_name q' = shared_location_name q" "num_of_data_segments q' = num_of_data_segments q"
    "size_of_memory q' = size_of_memory q" "write_pos q' = write_pos q"
  using assms by (auto simp: peek_core_def Let_def split: if_splits prod.splits)

lemma push_core_frame:
  assumes "push_core seg ent n q bufs = (r, q')"
  shows "shared_location_name q' = shared_location_name q" "num_of_data_segments q' = num_of_data_segments q"
    "size_of_memory q' = size_of_memory q" "read_pos q' = read_pos q"
  using assms by (auto simp: push_core_def Let_def split: if_splits prod.splits option.splits)

lemma pop_core_frame:
  assumes "pop_core ent n q = (r, q')"
  shows "shared_location_name q' = shared_location_name q" "num_of_data_segments q' = num_of_data_segments q"
    "size_of_memory q' = size_of_memory q" "write_pos q' = write_pos q"
  using assms by (auto simp: pop_core_def Let_def split: if_splits prod.splits)

text \<open>On a bound queue the operations are the common core.\<close>

lemma queue_boundD:
  assumes "queue_bound G q"
  obtains x where "getQueueParams G (shared_location_name q) = Some x"
    "qp_num_of_data_segments x = num_of_data_segments q" "qp_memory_size x = size_of_memory q"
    "initializeQueueParams G = G" "g_effective_size_initialized G"
  using assms by (auto simp: queue_bound_def split: option.splits)

lemma bound_position:
  assumes "queue_bound G q" "ring_rep seg ent (num_of_data_segments q) q ms"
  shows "isGetPossitionSucceccful G q"
proof -
  note pos = ring_rep_positions [OF assms(2)]
  then have "num_of_data_segments q \<noteq> 0" by (simp add: geometry_ok_def)
  with assms(1) pos(1,2) show ?thesis
    by (auto simp: isGetPossitionSucceccful_def positions_ok_def word_le_nat_alt elim: queue_boundD)
qed

lemma peekToQueue_bound:
  assumes "queue_bound G q" "ring_rep seg ent (num_of_data_segments q) q ms"
  shows "peekToQueue h G q =
    (case peek_core (segment_size G) (num_of_data_segments q) q of (r, out, q') \<Rightarrow> (r, out, G, q'))"
  using bound_position [OF assms] assms(1)
  by (auto simp: peekToQueue_def split: prod.splits elim!: queue_boundD)

lemma pushBuffersToQueue_bound:
  assumes "queue_bound G q" "ring_rep seg ent (num_of_data_segments q) q ms"
  shows "pushBuffersToQueue h G q bufs =
    (case push_core (segment_size G) (entry_size h G) (num_of_data_segments q) q bufs of
       (r, q') \<Rightarrow> (r, if r = -2 then G else snd (getEffectiveEntrySize h G), q'))"
  using bound_position [OF assms] assms(1)
  by (auto simp: pushBuffersToQueue_def Let_def split_beta elim!: queue_boundD)

lemma popFromQueue_bound:
  assumes "queue_bound G q" "ring_rep seg ent (num_of_data_segments q) q ms"
  shows "popFromQueue h G q =
    (case pop_core (entry_size h G) (num_of_data_segments q) q of
       (r, q') \<Rightarrow> (r, if r = 0 then snd (getEffectiveEntrySize h G) else G, q'))"
  using bound_position [OF assms] assms(1)
  by (auto simp: popFromQueue_def Let_def split_beta elim!: queue_boundD)

lemma queue_bound_entry [simp]: "queue_bound (snd (getEffectiveEntrySize h G)) q = queue_bound G q"
  by (simp add: queue_bound_def getQueueParams_cong [of "snd (getEffectiveEntrySize h G)" G])

lemma push_v1_appends:
  assumes "holds h s ms" "valid_msg (concat bufs)" "room_v1 h s (concat bufs)"
  shows "\<exists>s'. push_v1 h s bufs = (0, s') \<and> holds h s' (ms @ [concat bufs])"
proof -
  obtain G q where s: "s = (G, q)" by (cases s)
  with assms have bound: "queue_bound G q"
    and rep: "ring_rep (segment_size G) (entry_size h G) (num_of_data_segments q) q ms"
    by (simp_all add: holds_def)
  from push_core_appends [OF rep assms(2)] assms(3)
  obtain q' where q': "push_core (segment_size G) (entry_size h G) (num_of_data_segments q) q bufs = (0, q')"
    "ring_rep (segment_size G) (entry_size h G) (num_of_data_segments q) q' (ms @ [concat bufs])"
    by (auto simp: s room_v1_def room_for_def)
  note frame = push_core_frame [OF q'(1)]
  from q' frame bound show ?thesis
    by (auto simp: s push_v1_def pushBuffersToQueue_bound [OF bound rep] holds_def core_frame [OF frame(1-3)])
qed

lemma peek_v1_head:
  assumes "holds h s (m # ms)"
  shows "\<exists>s'. peek_v1 h s = (0, Some m, s') \<and> holds h s' (m # ms) \<and> ready_v1 s'"
proof -
  obtain G q where s: "s = (G, q)" by (cases s)
  with assms have bound: "queue_bound G q"
    and rep: "ring_rep (segment_size G) (entry_size h G) (num_of_data_segments q) q (m # ms)"
    by (simp_all add: holds_def)
  from peek_core_head [OF rep] obtain addr q' where
    q': "peek_core (segment_size G) (num_of_data_segments q) q = (0, Some (addr, of_nat (length m)), q')"
    "read_bytes (payload q') addr (length m) = m" "at_message q'"
    "ring_rep (segment_size G) (entry_size h G) (num_of_data_segments q) q' (m # ms)" by blast
  have "valid_msg m" using ring_rep_valid [OF rep] by simp
  note frame = peek_core_frame [OF q'(1)] and len = length_mark_not_magic(3) [OF this]
  from q' frame bound len show ?thesis
    by (simp add: s peek_v1_def peekToQueue_bound [OF bound rep] holds_def ready_v1_def core_frame [OF frame(1-3)])
qed

lemma peek_v1_empty: "holds h s [] \<Longrightarrow> peek_v1 h s = (-1, None, s)"
  by (auto simp: holds_def peek_v1_def peekToQueue_bound peek_core_empty split: prod.splits)

lemma pop_v1_tail:
  assumes "holds h s (m # ms)" "ready_v1 s"
  shows "\<exists>s'. pop_v1 h s = (0, s') \<and> holds h s' ms"
proof -
  obtain G q where s: "s = (G, q)" by (cases s)
  with assms have bound: "queue_bound G q"
    and rep: "ring_rep (segment_size G) (entry_size h G) (num_of_data_segments q) q (m # ms)"
    and "at_message q"
    by (simp_all add: holds_def ready_v1_def)
  from pop_core_tail [OF rep this(3)] obtain q' where
    q': "pop_core (entry_size h G) (num_of_data_segments q) q = (0, q')"
    "ring_rep (segment_size G) (entry_size h G) (num_of_data_segments q) q' ms" by blast
  note frame = pop_core_frame [OF q'(1)]
  from q' frame bound show ?thesis
    by (auto simp: s pop_v1_def popFromQueue_bound [OF bound rep] holds_def core_frame [OF frame(1-3)])
qed

lemma pop_v1_empty: "holds h s [] \<Longrightarrow> pop_v1 h s = (-1, s)"
  by (auto simp: holds_def pop_v1_def popFromQueue_bound pop_core_empty split: prod.splits)

interpretation ring_v1: message_queue "holds h" ready_v1 "room_v1 h" "push_v1 h" "peek_v1 h" "pop_v1 h"
  for h
  by unfold_locales (blast intro: push_v1_appends peek_v1_head pop_v1_tail peek_v1_empty pop_v1_empty)+

section \<open>Segment and entry size\<close>

text \<open>The answer of the negotiation depends on the environment and the docker flags alone.\<close>

lemma isLarger_fst_cong:
  assumes "environ G' = environ G" "g_docker_env_initialized G' = g_docker_env_initialized G"
    and "is_dual_docker_env G' = is_dual_docker_env G" "is_dual_docker_nginx_env G' = is_dual_docker_nginx_env G"
  shows "fst (isLargerDataSegmentSupported h G') = fst (isLargerDataSegmentSupported h G)"
  using assms
  by (simp add: isLargerDataSegmentSupported_def initializeDockerEnvironment_def Let_def split: option.split)

lemma entry_size_fst_cong:
  assumes "environ G' = environ G" "g_docker_env_initialized G' = g_docker_env_initialized G"
    and "is_dual_docker_env G' = is_dual_docker_env G" "is_dual_docker_nginx_env G' = is_dual_docker_nginx_env G"
    and "g_effective_entry_size G' = g_effective_entry_size G"
  shows "fst (getEffectiveEntrySize h G') = fst (getEffectiveEntrySize h G)"
  using assms isLarger_fst_cong [OF assms(1-4)] by (simp add: getEffectiveEntrySize_def split_beta)

text \<open>Reading the metadata file a second time changes no variable.\<close>

lemma metadata_default:
  "foldl metadata_line env lns k =
     (case foldl metadata_line (\<lambda>_. None) lns k of None \<Rightarrow> env k | Some v \<Rightarrow> Some v)"
  by (induction lns rule: rev_induct) (auto simp: metadata_line_def Let_def split: option.split)

lemma metadata_again [simp]:
  "foldl metadata_line (foldl metadata_line env lns) lns = foldl metadata_line env lns"
proof
  fix k
  show "foldl metadata_line (foldl metadata_line env lns) lns k = foldl metadata_line env lns k"
    using metadata_default [of "foldl metadata_line env lns" lns k] metadata_default [of env lns k]
    by (auto split: option.splits)
qed

lemma isLarger_again:
  "fst (isLargerDataSegmentSupported h (snd (isLargerDataSegmentSupported h G)))
     = fst (isLargerDataSegmentSupported h G)"
proof -
  have init: "isLargerDataSegmentSupported h (initializeDockerEnvironment h G) = isLargerDataSegmentSupported h G"
    by (simp add: isLargerDataSegmentSupported_def initializeDockerEnvironment_def)
  have id: "initializeDockerEnvironment h I = I" if "g_docker_env_initialized I" for I
    using that by (simp add: initializeDockerEnvironment_def)
  have again: "fst (isLargerDataSegmentSupported h (snd (isLargerDataSegmentSupported h I)))
      = fst (isLargerDataSegmentSupported h I)" if "g_docker_env_initialized I" for I
    using that
    by (cases "environ I effective_size_var"; cases "agent_metadata_lines h")
      (simp_all add: isLargerDataSegmentSupported_def id Let_def split: option.split)
  have "g_docker_env_initialized (initializeDockerEnvironment h G)"
    by (simp add: initializeDockerEnvironment_def)
  from again [OF this] show ?thesis by (simp add: init)
qed

text \<open>
  Unless the variable is set when the process negotiates, the segments hold exactly one
  entry; every queue operation of the process then uses one size, a released one.
\<close>

lemma sizes_agree:
  assumes "environ G effective_size_var = None" "\<not> g_effective_size_initialized G" "g_effective_entry_size G = 0"
  shows "fst (getEffectiveEntrySize h (snd (getEffectiveSegmentSize h G))) = fst (getEffectiveSegmentSize h G)"
    and "unat (fst (getEffectiveSegmentSize h G)) \<in> {SHARED_MEMORY_SEGMENT_ENTRY_SIZE, SHARED_MEMORY_SEGMENT_ENTRY_SIZE_BC}"
proof -
  let ?G = "G\<lparr>g_effective_size_initialized := True\<rparr>"
  let ?L = "isLargerDataSegmentSupported h ?G"
  have seg: "getEffectiveSegmentSize h G =
      (negotiated_size (fst ?L), (snd ?L)\<lparr>g_effective_segment_size := negotiated_size (fst ?L)\<rparr>)"
    using assms by (simp add: getEffectiveSegmentSize_def split_beta Let_def)
  have "fst (isLargerDataSegmentSupported h ((snd ?L)\<lparr>g_effective_segment_size := negotiated_size (fst ?L)\<rparr>)) = fst ?L"
    using isLarger_again [of h ?G] by (subst isLarger_fst_cong [of _ "snd ?L"]) simp_all
  with assms(3) show "fst (getEffectiveEntrySize h (snd (getEffectiveSegmentSize h G))) = fst (getEffectiveSegmentSize h G)"
    by (simp add: seg getEffectiveEntrySize_def split_beta)
  show "unat (fst (getEffectiveSegmentSize h G)) \<in> {SHARED_MEMORY_SEGMENT_ENTRY_SIZE, SHARED_MEMORY_SEGMENT_ENTRY_SIZE_BC}"
    by (simp add: seg negotiated_size_def ring_constants)
qed

text \<open>A header with the size an owner stamps yields the segment size the owner used.\<close>

lemma derive_stamped:
  assumes "seg \<in> {SHARED_MEMORY_SEGMENT_ENTRY_SIZE, SHARED_MEMORY_SEGMENT_ENTRY_SIZE_BC}"
    and "SHARED_RING_QUEUE_HEADER_PREFIX_SIZE \<le> sz"
    and "num_of_data_segments hdr \<noteq> 0" "num_of_data_segments hdr \<le> max_num_of_data_segments"
    and "size_of_memory hdr = int (SHARED_RING_QUEUE_HEADER_PREFIX_SIZE + seg + unat (num_of_data_segments hdr) * seg)"
  shows "deriveSegmentSizeFromExistingQueue (Some sz) (Some hdr) = of_nat seg"
proof -
  let ?d = "unat (num_of_data_segments hdr) + 1"
  have "nat (size_of_memory hdr) = SHARED_RING_QUEUE_HEADER_PREFIX_SIZE + seg + unat (num_of_data_segments hdr) * seg"
    unfolding assms(5) by (rule nat_int)
  then have pay: "nat (size_of_memory hdr) - SHARED_RING_QUEUE_HEADER_PREFIX_SIZE = seg * ?d" by simp
  then have "(nat (size_of_memory hdr) - SHARED_RING_QUEUE_HEADER_PREFIX_SIZE) div ?d = seg"
    by (simp only: nonzero_mult_div_cancel_right add_is_0 one_neq_zero simp_thms not_False_eq_True)
  with pay assms show ?thesis
    by (auto simp: deriveSegmentSizeFromExistingQueue_def Let_def not_less ring_constants)
qed

section \<open>Creation and attachment\<close>

lemma add_params_slot:
  assumes "table_ok G" "length name < MAX_ONE_WAY_QUEUE_NAME_LENGTH"
    and "getQueueParams G name \<noteq> None \<or> (\<exists>i < MAX_QUEUES. \<not> in_use (table G ! i))"
  shows "\<exists>x ps. addQueueParams G name n m fd = (Some x, (initializeQueueParams G)\<lparr>g_queue_params := ps\<rparr>)
    \<and> getQueueParams (snd (addQueueParams G name n m fd)) name = Some x
    \<and> qp_num_of_data_segments x = n \<and> qp_memory_size x = m"
  using assms(1,2)
proof (cases rule: addQueueParams_cases [where n = n and m = m and fd = fd])
  case full
  with assms(3) show ?thesis by blast
next
  case (slot i x G')
  have "fst (addQueueParams G name n m fd) = Some x" using slot(1) by simp
  from add_params_lookup(1) [OF assms(1,2) this] slot show ?thesis by auto
qed

text \<open>What the system calls have to answer for a creation to succeed, given the mapped object.\<close>

definition calls_succeed :: "shm_calls \<Rightarrow> string \<Rightarrow> bool \<Rightarrow> SharedRingQueue \<Rightarrow> bool" where
  "calls_succeed os name is_owner q0 =
     (shm_open os name is_owner \<noteq> -1 \<and> (\<forall>sz. ftruncate os sz) \<and> (\<forall>sz. mmap os sz = Mapped q0))"

definition slot_available :: "ring_globals \<Rightarrow> string \<Rightarrow> bool" where
  "slot_available G name =
     (table_ok G \<and> length name < MAX_ONE_WAY_QUEUE_NAME_LENGTH
      \<and> (getQueueParams G name \<noteq> None \<or> (\<exists>i < MAX_QUEUES. \<not> in_use (table G ! i))))"

text \<open>The process state in which the sizes of a new queue are settled.\<close>

definition negotiated :: "shm_calls \<Rightarrow> host_files \<Rightarrow> ring_globals \<Rightarrow> bool \<Rightarrow> ring_globals" where
  "negotiated os h G is_owner =
     (let G1 = G\<lparr>g_effective_size_initialized := False, g_effective_entry_size := 0\<rparr>
      in snd (getEffectiveSegmentSize h (if is_owner then G1 else adopt_segment_size os h G1)))"

lemma adopt_frame [simp]:
  "g_queue_params (adopt_segment_size os h G) = g_queue_params G"
  "g_queue_params_initialized (adopt_segment_size os h G) = g_queue_params_initialized G"
  by (simp_all add: adopt_segment_size_def Let_def split_beta)

lemma negotiated_frame [simp]:
  "g_queue_params (negotiated os h G b) = g_queue_params G"
  "g_queue_params_initialized (negotiated os h G b) = g_queue_params_initialized G"
  "g_effective_size_initialized (negotiated os h G b)"
  by (simp_all add: negotiated_def Let_def)

lemma table_cong:
  "g_queue_params G' = g_queue_params G \<Longrightarrow> g_queue_params_initialized G' = g_queue_params_initialized G \<Longrightarrow>
   table G' = table G"
  by (simp add: table_def initializeQueueParams_def)

lemma createSharedRingQueue_created:
  fixes h :: host_files
  assumes "n \<le> max_num_of_data_segments" "calls_succeed os name is_owner q0" "slot_available G name"
  defines "N \<equiv> negotiated os h G is_owner"
  defines "memsize \<equiv> SHARED_RING_QUEUE_HEADER_PREFIX_SIZE + segment_size N + unat n * segment_size N"
  shows "\<exists>G'. createSharedRingQueue os h G name n is_owner =
      (Created (stamp_queue q0 name n memsize (shm_open os name is_owner) is_owner), G')
    \<and> segment_size G' = segment_size N \<and> entry_size h G' = entry_size h N
    \<and> g_queue_params_initialized G' \<and> g_effective_size_initialized G'
    \<and> (\<exists>x. getQueueParams G' name = Some x \<and> qp_num_of_data_segments x = n \<and> qp_memory_size x = int memsize)"
proof -
  have N: "table N = table G" "getQueueParams N = getQueueParams G" "g_effective_size_initialized N"
    unfolding N_def by (intro table_cong getQueueParams_cong negotiated_frame)+
  with assms(3) have "table_ok N" "length name < MAX_ONE_WAY_QUEUE_NAME_LENGTH"
    "getQueueParams N name \<noteq> None \<or> (\<exists>i < MAX_QUEUES. \<not> in_use (table N ! i))"
    by (auto simp: slot_available_def table_ok_def)
  from add_params_slot [OF this, of n "int memsize" "shm_open os name is_owner"] obtain x ps where
    x: "addQueueParams N name n (int memsize) (shm_open os name is_owner)
      = (Some x, (initializeQueueParams N)\<lparr>g_queue_params := ps\<rparr>)"
    "getQueueParams ((initializeQueueParams N)\<lparr>g_queue_params := ps\<rparr>) name = Some x"
    "qp_num_of_data_segments x = n" "qp_memory_size x = int memsize" by auto
  let ?G' = "(initializeQueueParams N)\<lparr>g_queue_params := ps\<rparr>"
  have size: "getEffectiveSegmentSize h (if is_owner
      then G\<lparr>g_effective_size_initialized := False, g_effective_entry_size := 0\<rparr>
      else adopt_segment_size os h (G\<lparr>g_effective_size_initialized := False, g_effective_entry_size := 0\<rparr>))
    = (g_effective_segment_size N, N)" (is "?S = _")
  proof (rule prod_eqI)
    show "snd ?S = snd (g_effective_segment_size N, N)" by (simp add: N_def negotiated_def)
    show "fst ?S = fst (g_effective_segment_size N, N)"
      unfolding N_def negotiated_def Let_def segment_size_frame(5) by simp
  qed
  have "createSharedRingQueue os h G name n is_owner =
      (Created (stamp_queue q0 name n memsize (shm_open os name is_owner) is_owner), ?G')"
    using assms(1,2) x(1) N(3) size
    by (simp add: createSharedRingQueue_def calls_succeed_def getEffectiveSharedRingQueueSize_def Let_def
        memsize_def not_less del: if_split)
  moreover have "g_effective_size_initialized ?G'" "g_effective_segment_size ?G' = g_effective_segment_size N"
    using N(3) by (simp_all add: initializeQueueParams_def)
  moreover have "fst (getEffectiveEntrySize h ?G') = fst (getEffectiveEntrySize h N)"
    by (rule entry_size_fst_cong) (simp_all add: initializeQueueParams_def)
  ultimately show ?thesis
    using x by (intro exI [of _ ?G']) (simp del: entry_size_frame)
qed

text \<open>From a queue that has not wrapped, messages that fit into the segments up to the end all find room.\<close>

lemma all_fit_before_end:
  assumes "holds h (G, q) ms" "read_pos q \<le> write_pos q" "list_all (\<lambda>bufs. valid_msg (concat bufs)) bss"
    and "unat (write_pos q) + (\<Sum>bufs\<leftarrow>bss. nsegs (entry_size h G) (concat bufs)) < unat (num_of_data_segments q)"
  shows "all_fit (room_v1 h) (push_v1 h) (G, q) bss"
  using assms
proof (induction bss arbitrary: G q ms)
  case (Cons bufs bss)
  let ?k = "nsegs (entry_size h G) (concat bufs)" and ?n = "num_of_data_segments q"
  from Cons.prems have bound: "queue_bound G q"
    and rep: "ring_rep (segment_size G) (entry_size h G) ?n q ms"
    and valid: "valid_msg (concat bufs)" and fits: "unat (write_pos q) + ?k < unat ?n"
    by (simp_all add: holds_def)
  note room = room_before_end [OF rep valid Cons.prems(2) fits]
  then have r: "room_v1 h (G, q) (concat bufs)" by (simp add: room_v1_def)
  from push_v1_appends [OF Cons.prems(1) valid r] obtain G' q' where
    push: "push_v1 h (G, q) bufs = (0, G', q')" and rep': "holds h (G', q') (ms @ [concat bufs])" by force
  have q': "push_core (segment_size G) (entry_size h G) ?n q bufs = (0, q')"
    and G': "G' = snd (getEffectiveEntrySize h G)"
    using push by (auto simp: push_v1_def pushBuffersToQueue_bound [OF bound rep] split: prod.splits)
  note frame = push_core_frame [OF q']
  have n: "unat ?n < 65536" by (rule unat_u16_less)
  have "write_pos q' = of_nat (unat (write_pos q) + ?k)"
    using room(2) unfolding q' snd_conv .
  then have wp: "unat (write_pos q') = unat (write_pos q) + ?k"
    using fits n by (simp only: unat_of_nat_u16)
  have "all_fit (room_v1 h) (push_v1 h) (G', q') bss"
  proof (rule Cons.IH [OF rep'])
    show "read_pos q' \<le> write_pos q'" using Cons.prems(2) frame(4) wp by (simp add: word_le_nat_alt)
    show "list_all (\<lambda>bufs. valid_msg (concat bufs)) bss" using Cons.prems(3) by simp
    show "unat (write_pos q') + (\<Sum>bufs\<leftarrow>bss. nsegs (entry_size h G') (concat bufs)) < unat (num_of_data_segments q')"
      using Cons.prems(4) frame(2) wp by (simp add: G')
  qed
  with r push show ?case by simp
qed simp

text \<open>The owner of a new queue starts with no message.\<close>

lemma created_owner_holds:
  assumes "n \<le> max_num_of_data_segments" "calls_succeed os name True q0" "slot_available G name"
    and "geometry_ok (segment_size (negotiated os h G True)) (entry_size h (negotiated os h G True)) n"
  shows "\<exists>q G'. createSharedRingQueue os h G name n True = (Created q, G') \<and> holds h (G', q) [] \<and> ready_v1 (G', q)
    \<and> segment_size G' = segment_size (negotiated os h G True) \<and> entry_size h G' = entry_size h (negotiated os h G True)
    \<and> shared_location_name q = name \<and> num_of_data_segments q = n \<and> read_pos q = 0 \<and> write_pos q = 0
    \<and> size_of_memory q = int (SHARED_RING_QUEUE_HEADER_PREFIX_SIZE + segment_size G' + unat n * segment_size G')"
proof -
  let ?N = "negotiated os h G True"
  let ?sz = "SHARED_RING_QUEUE_HEADER_PREFIX_SIZE + segment_size ?N + unat n * segment_size ?N"
  let ?q = "stamp_queue q0 name n ?sz (shm_open os name True) True"
  from createSharedRingQueue_created [OF assms(1-3), of h] obtain G' x where
    G': "createSharedRingQueue os h G name n True = (Created ?q, G')"
    "segment_size G' = segment_size ?N" "entry_size h G' = entry_size h ?N"
    "g_queue_params_initialized G'" "g_effective_size_initialized G'"
    "getQueueParams G' name = Some x" "qp_num_of_data_segments x = n" "qp_memory_size x = int ?sz" by blast
  have "length name < MAX_ONE_WAY_QUEUE_NAME_LENGTH" using assms(3) by (simp add: slot_available_def)
  then have q: "shared_location_name ?q = name" "num_of_data_segments ?q = n" "size_of_memory ?q = int ?sz"
    by (simp_all add: stamp_queue_def)
  then have "queue_bound G' ?q" using G' by (simp add: queue_bound_def)
  moreover have "ring_rep (segment_size ?N) (entry_size h ?N) n ?q []" "at_message ?q"
    using geometry_okD(3) [OF assms(4)] assms(4)
    by (auto simp: stamp_queue_def at_message_def linear_rep_def marked_def ring_simps intro!: ring_rep_linearI)
  ultimately have "holds h (G', ?q) []" "ready_v1 (G', ?q)"
    using G'(2,3) q(2) by (simp_all add: holds_def ready_v1_def)
  moreover have "read_pos ?q = 0" "write_pos ?q = 0" by (simp_all add: stamp_queue_def)
  ultimately show ?thesis
    by (intro exI [of _ ?q] exI [of _ G'] conjI G'(1-3) q(1,2)) (simp_all only: G'(2) q(3))
qed

text \<open>A process that attaches settles on the stamped size.\<close>

lemma adopted_sizes:
  assumes "deriveSegmentSizeFromExistingQueue (fstat_size os) (pread_header os) = sz" "sz \<noteq> 0"
    and "environ G effective_size_var = None"
  shows "g_effective_segment_size (negotiated os h G False) = sz"
    and "fst (getEffectiveEntrySize h (negotiated os h G False)) = sz"
proof -
  let ?G1 = "G\<lparr>g_effective_size_initialized := False, g_effective_entry_size := 0\<rparr>"
  let ?S = "getEffectiveSegmentSize h ?G1"
  have agree: "fst (getEffectiveEntrySize h (snd ?S)) = fst ?S"
    using assms(3) by (intro sizes_agree) simp_all
  have N: "negotiated os h G False =
      (if sz \<noteq> fst ?S then (snd ?S)\<lparr>g_effective_segment_size := sz, g_effective_entry_size := sz,
           g_effective_size_initialized := True\<rparr> else snd ?S)"
    using assms(1,2) by (simp add: negotiated_def adopt_segment_size_def split_beta Let_def)
  show "g_effective_segment_size (negotiated os h G False) = sz"
    "fst (getEffectiveEntrySize h (negotiated os h G False)) = sz"
    using agree assms(2) by (simp_all add: N getEffectiveEntrySize_def)
qed

lemma created_user_holds:
  assumes "calls_succeed os name False q0" "slot_available G name"
    and "shared_location_name q0 = name" "num_of_data_segments q0 = n"
    and "size_of_memory q0 = int (SHARED_RING_QUEUE_HEADER_PREFIX_SIZE + seg + unat n * seg)"
    and "seg \<in> {SHARED_MEMORY_SEGMENT_ENTRY_SIZE, SHARED_MEMORY_SEGMENT_ENTRY_SIZE_BC}"
    and "fstat_size os = Some sz" "SHARED_RING_QUEUE_HEADER_PREFIX_SIZE \<le> sz" "pread_header os = Some q0"
    and "environ G effective_size_var = None" "ring_rep seg seg n q0 ms"
  shows "\<exists>G'. createSharedRingQueue os h G name n False = (Created (q0\<lparr>user_fd := shm_open os name False\<rparr>), G')
    \<and> holds h (G', q0\<lparr>user_fd := shm_open os name False\<rparr>) ms
    \<and> segment_size G' = seg \<and> entry_size h G' = seg"
proof -
  let ?N = "negotiated os h G False" and ?q = "q0\<lparr>user_fd := shm_open os name False\<rparr>"
  have n: "n \<le> max_num_of_data_segments" "n \<noteq> 0"
    using ring_rep_positions(3) [OF assms(11)] by (simp_all add: geometry_ok_def)
  have "deriveSegmentSizeFromExistingQueue (fstat_size os) (pread_header os) = of_nat seg"
    using n assms(4-9) derive_stamped [of seg sz q0] by simp
  moreover have seg: "unat (of_nat seg :: u16) = seg" "(of_nat seg :: u16) \<noteq> 0"
    using assms(6) by (auto simp: ring_constants)
  ultimately have N: "segment_size ?N = seg" "entry_size h ?N = seg"
    using adopted_sizes [of os "of_nat seg" G h] assms(10) by simp_all
  from createSharedRingQueue_created [OF n(1) assms(1,2), of h] obtain G' x where
    G': "createSharedRingQueue os h G name n False = (Created ?q, G')"
    "segment_size G' = seg" "entry_size h G' = seg"
    "g_queue_params_initialized G'" "g_effective_size_initialized G'"
    "getQueueParams G' name = Some x" "qp_num_of_data_segments x = n"
    "qp_memory_size x = int (SHARED_RING_QUEUE_HEADER_PREFIX_SIZE + seg + unat n * seg)"
    unfolding N stamp_queue_def by auto
  have "queue_bound G' ?q" using G' assms(3-5) by (simp add: queue_bound_def)
  moreover have "ring_rep seg seg n ?q ms" using assms(11) by (simp add: ring_rep_def Let_def)
  ultimately show ?thesis using G' assms(4) by (simp add: holds_def)
qed

text \<open>Pushing keeps the identity of the queue and the sizes of the process.\<close>

definition same_queue :: "SharedRingQueue \<Rightarrow> SharedRingQueue \<Rightarrow> bool" where
  "same_queue q q' =
     (shared_location_name q' = shared_location_name q \<and> num_of_data_segments q' = num_of_data_segments q
      \<and> size_of_memory q' = size_of_memory q)"

lemma push_v1_same:
  assumes "holds h (G, q) ms" "push_v1 h (G, q) bufs = (r, G', q')"
  shows "same_queue q q'" "segment_size G' = segment_size G" "entry_size h G' = entry_size h G"
proof -
  from assms(1) have bound: "queue_bound G q"
    and rep: "ring_rep (segment_size G) (entry_size h G) (num_of_data_segments q) q ms" by (simp_all add: holds_def)
  obtain r' q'' where core: "push_core (segment_size G) (entry_size h G) (num_of_data_segments q) q bufs = (r', q'')"
    by (cases "push_core (segment_size G) (entry_size h G) (num_of_data_segments q) q bufs")
  with assms(2) have eq: "q' = q''" "G' = (if r' = -2 then G else snd (getEffectiveEntrySize h G))"
    by (auto simp: push_v1_def pushBuffersToQueue_bound [OF bound rep])
  from push_core_frame [OF core] show "same_queue q q'" by (simp add: eq same_queue_def)
  show "segment_size G' = segment_size G" "entry_size h G' = entry_size h G" by (simp_all add: eq)
qed

lemma push_all_v1:
  assumes "holds h (G, q) ms" "list_all (\<lambda>bufs. valid_msg (concat bufs)) bss"
    and "all_fit (room_v1 h) (push_v1 h) (G, q) bss"
  shows "\<exists>G' q'. push_all (push_v1 h) (G, q) bss = (replicate (length bss) 0, G', q')
    \<and> holds h (G', q') (ms @ map concat bss) \<and> same_queue q q'
    \<and> segment_size G' = segment_size G \<and> entry_size h G' = entry_size h G"
  using assms
proof (induction bss arbitrary: G q ms)
  case (Cons bufs bss)
  then obtain G1 q1 where step: "push_v1 h (G, q) bufs = (0, G1, q1)" "holds h (G1, q1) (ms @ [concat bufs])"
    using push_v1_appends [OF Cons.prems(1), of bufs] by auto
  note same = push_v1_same [OF Cons.prems(1) step(1)]
  from Cons.IH [OF step(2)] Cons.prems(2,3) step(1) obtain G' q' where
    rest: "push_all (push_v1 h) (G1, q1) bss = (replicate (length bss) 0, G', q')"
    "holds h (G', q') ((ms @ [concat bufs]) @ map concat bss)" "same_queue q1 q'"
    "segment_size G' = segment_size G1" "entry_size h G' = entry_size h G1" by auto
  with same step(1) show ?case by (auto simp: same_queue_def)
qed (simp add: same_queue_def)

text \<open>A process bound to the same queue with the same sizes sees the same messages.\<close>

lemma holds_other_process:
  assumes "holds h (G, q) ms" "queue_bound G2 q" "segment_size G2 = segment_size G" "entry_size h2 G2 = entry_size h G"
  shows "holds h2 (G2, q) ms"
  using assms by (simp add: holds_def)

end
