(* ===== verification/Shmem_Ipc.thy ===== *)
theory Shmem_Ipc
  imports Shared_Ring_Queue
begin

text \<open>
  The two-way channel of \<open>core/shmem_ipc/shmem_ipc.c\<close>: a pair of one-way queues whose names
  are chosen so that what one side sends is what the other side receives. A \<open>NULL\<close> pointer
  is \<open>None\<close>; where the code follows a queue pointer without testing it, the outcome of the
  operation is \<open>None\<close> when the pointer is \<open>NULL\<close>.
\<close>

section \<open>Operations\<close>

record SharedMemoryIPC =
  shm_name :: string
  rx_queue :: "SharedRingQueue option"
  tx_queue :: "SharedRingQueue option"

definition isTowardsOwner :: "bool \<Rightarrow> bool \<Rightarrow> bool" where
  "isTowardsOwner is_owner is_tx = (if is_owner then \<not> is_tx else is_tx)"

definition direction_name :: "bool \<Rightarrow> bool \<Rightarrow> string" where
  "direction_name is_owner is_tx = (if isTowardsOwner is_owner is_tx then ''rx'' else ''tx'')"

text \<open>\<open>snprintf(queue_name, sizeof(queue_name) - 1, ...)\<close> with a 64-byte buffer.\<close>

definition one_way_queue_name :: "bool \<Rightarrow> bool \<Rightarrow> string \<Rightarrow> string" where
  "one_way_queue_name is_owner is_tx name =
     cstr_trunc (MAX_ONE_WAY_QUEUE_NAME_LENGTH - 1)
       (''__cp_nano_'' @ direction_name is_owner is_tx @ ''_shared_memory_'' @ name @ ''__'')"

text \<open>
  One queue of the pair. \<open>chmod_ok\<close> says whether \<open>chmod\<close> succeeds; the path length is what
  \<open>snprintf\<close> reports for \<open>/dev/shm/\<close> and the queue name.
\<close>

definition createOneWayIPCQueue ::
    "shm_calls \<Rightarrow> bool \<Rightarrow> host_files \<Rightarrow> ring_globals \<Rightarrow> string \<Rightarrow> bool \<Rightarrow> bool \<Rightarrow> u16
     \<Rightarrow> create_result \<times> ring_globals" where
  "createOneWayIPCQueue os chmod_ok h G name is_tx_queue is_owner num_of_queue_elem =
     (let queue_name = one_way_queue_name is_owner is_tx_queue name;
          (res, G1) = createSharedRingQueue os h G queue_name num_of_queue_elem is_owner
      in case res of
           CreateNull \<Rightarrow> (CreateNull, G1)
         | CreateFault \<Rightarrow> (CreateFault, G1)
         | Created q \<Rightarrow>
             if length ''/dev/shm/'' + length queue_name < length (direction_name is_owner is_tx_queue) + length name
             then (CreateNull, G1)
             else if is_owner \<and> \<not> chmod_ok
             then (CreateNull, snd (snd (destroySharedRingQueue G1 q is_owner)))
             else (Created q, G1))"

text \<open>Destruction reports what was released, the receiving queue first.\<close>

definition destroy_queue ::
    "ring_globals \<Rightarrow> SharedRingQueue option \<Rightarrow> bool \<Rightarrow> (int \<times> int option \<times> string option) list \<times> ring_globals" where
  "destroy_queue G q is_owner =
     (case q of
        None \<Rightarrow> ([], G)
      | Some x \<Rightarrow>
          (case destroySharedRingQueue G x is_owner of
             (None, _, G') \<Rightarrow> ([], G')
           | (Some e, _, G') \<Rightarrow> ([e], G')))"

definition destroyIpc ::
    "ring_globals \<Rightarrow> SharedMemoryIPC option \<Rightarrow> bool \<Rightarrow> (int \<times> int option \<times> string option) list \<times> ring_globals" where
  "destroyIpc G shmem is_owner =
     (case shmem of
        None \<Rightarrow> ([], G)
      | Some ipc \<Rightarrow>
          let (e1, G1) = destroy_queue G (rx_queue ipc) is_owner;
              (e2, G2) = destroy_queue G1 (tx_queue ipc) is_owner
          in (e1 @ e2, G2))"

text \<open>What the system calls answer while both queues are made.\<close>

record ipc_calls =
  malloc_ok :: bool
  rx_calls :: shm_calls
  rx_chmod :: bool
  tx_calls :: shm_calls
  tx_chmod :: bool

datatype init_result = InitNull | InitFault | InitOk SharedMemoryIPC

definition initIpc ::
    "ipc_calls \<Rightarrow> host_files \<Rightarrow> ring_globals \<Rightarrow> string \<Rightarrow> bool \<Rightarrow> u16 \<Rightarrow> init_result \<times> ring_globals" where
  "initIpc os h G queue_name is_owner num_of_queue_elem =
     (if \<not> malloc_ok os then (InitNull, G)
      else
        (case createOneWayIPCQueue (rx_calls os) (rx_chmod os) h G queue_name False is_owner num_of_queue_elem of
           (CreateFault, G1) \<Rightarrow> (InitFault, G1)
         | (CreateNull, G1) \<Rightarrow>
             (InitNull, snd (destroyIpc G1 (Some \<lparr>shm_name = [], rx_queue = None, tx_queue = None\<rparr>) is_owner))
         | (Created rx, G1) \<Rightarrow>
             (case createOneWayIPCQueue (tx_calls os) (tx_chmod os) h G1 queue_name True is_owner num_of_queue_elem of
                (CreateFault, G2) \<Rightarrow> (InitFault, G2)
              | (CreateNull, G2) \<Rightarrow>
                  (InitNull,
                   snd (destroyIpc G2 (Some \<lparr>shm_name = [], rx_queue = Some rx, tx_queue = None\<rparr>) is_owner))
              | (Created tx, G2) \<Rightarrow>
                  (InitOk \<lparr>shm_name = take 32 queue_name, rx_queue = Some rx, tx_queue = Some tx\<rparr>, G2))))"

definition resetIpc ::
    "ring_globals \<Rightarrow> SharedMemoryIPC option \<Rightarrow> u16 \<Rightarrow> ring_globals \<times> SharedMemoryIPC option" where
  "resetIpc G ipc n =
     (case ipc of
        None \<Rightarrow> (G, None)
      | Some i \<Rightarrow>
          (case (rx_queue i, tx_queue i) of
             (Some rx, Some tx) \<Rightarrow>
               let (G1, rx') = resetRingQueue G rx n; (G2, tx') = resetRingQueue G1 tx n
               in (G2, Some (i\<lparr>rx_queue := Some rx', tx_queue := Some tx'\<rparr>))
           | _ \<Rightarrow> (G, ipc)))"

definition sendData ::
    "host_files \<Rightarrow> ring_globals \<Rightarrow> SharedMemoryIPC option \<Rightarrow> bytes
     \<Rightarrow> int \<times> ring_globals \<times> SharedMemoryIPC option" where
  "sendData h G ipc data_to_send =
     (case ipc of
        None \<Rightarrow> (-1, G, None)
      | Some i \<Rightarrow>
          (case tx_queue i of
             None \<Rightarrow> (-1, G, Some i)
           | Some q \<Rightarrow>
               (case pushToQueue h G q data_to_send of
                  (r, G', q') \<Rightarrow> (r, G', Some (i\<lparr>tx_queue := Some q'\<rparr>)))))"

definition sendChunkedData ::
    "host_files \<Rightarrow> ring_globals \<Rightarrow> SharedMemoryIPC option \<Rightarrow> bytes list
     \<Rightarrow> (int \<times> ring_globals \<times> SharedMemoryIPC option) option" where
  "sendChunkedData h G ipc data_elem_to_send =
     (case ipc of
        None \<Rightarrow> Some (-1, G, None)
      | Some i \<Rightarrow>
          map_option
            (\<lambda>q. case pushBuffersToQueue h G q data_elem_to_send of
                    (r, G', q') \<Rightarrow> (r, G', Some (i\<lparr>tx_queue := Some q'\<rparr>)))
            (tx_queue i))"

definition receiveData ::
    "host_files \<Rightarrow> ring_globals \<Rightarrow> SharedMemoryIPC option
     \<Rightarrow> (int \<times> (nat \<times> u16) option \<times> ring_globals \<times> SharedMemoryIPC option) option" where
  "receiveData h G ipc =
     (case ipc of
        None \<Rightarrow> Some (-1, None, G, None)
      | Some i \<Rightarrow>
          map_option
            (\<lambda>q. case peekToQueue h G q of
                    (r, out, G', q') \<Rightarrow> (r, out, G', Some (i\<lparr>rx_queue := Some q'\<rparr>)))
            (rx_queue i))"

definition popData ::
    "host_files \<Rightarrow> ring_globals \<Rightarrow> SharedMemoryIPC option
     \<Rightarrow> (int \<times> ring_globals \<times> SharedMemoryIPC option) option" where
  "popData h G ipc =
     (case ipc of
        None \<Rightarrow> Some (-1, G, None)
      | Some i \<Rightarrow>
          map_option
            (\<lambda>q. case popFromQueue h G q of
                    (r, G', q') \<Rightarrow> (r, G', Some (i\<lparr>rx_queue := Some q'\<rparr>)))
            (rx_queue i))"

definition isDataAvailable :: "SharedMemoryIPC option \<Rightarrow> bool option" where
  "isDataAvailable ipc =
     (case ipc of None \<Rightarrow> Some False | Some i \<Rightarrow> map_option (\<lambda>q. \<not> isQueueEmpty q) (rx_queue i))"

definition isCorruptedShmem :: "ring_globals \<Rightarrow> SharedMemoryIPC option \<Rightarrow> bool option" where
  "isCorruptedShmem G ipc =
     (case ipc of
        None \<Rightarrow> Some True
      | Some i \<Rightarrow>
          (case rx_queue i of
             None \<Rightarrow> None
           | Some rx \<Rightarrow>
               if isCorruptedQueue G rx then Some True
               else map_option (isCorruptedQueue G) (tx_queue i)))"

definition getSegmentEntrySize :: nat where
  "getSegmentEntrySize = SHARED_MEMORY_SEGMENT_ENTRY_SIZE"

section \<open>The names pair the two sides\<close>

lemma direction_pairs: "direction_name True b = direction_name False (\<not> b)"
  by (simp add: direction_name_def isTowardsOwner_def)

lemma queue_name_pairs: "one_way_queue_name True b name = one_way_queue_name False (\<not> b) name"
  by (simp add: one_way_queue_name_def direction_pairs)

lemma queue_name_distinct: "one_way_queue_name o1 True name \<noteq> one_way_queue_name o1 False name"
proof
  assume "one_way_queue_name o1 True name = one_way_queue_name o1 False name"
  then have "take 12 (one_way_queue_name o1 True name) = take 12 (one_way_queue_name o1 False name)" by simp
  then show False
    by (cases o1) (simp_all add: one_way_queue_name_def cstr_trunc_def direction_name_def isTowardsOwner_def
        MAX_ONE_WAY_QUEUE_NAME_LENGTH_def)
qed

lemma queue_name_length: "length (one_way_queue_name b c name) < MAX_ONE_WAY_QUEUE_NAME_LENGTH"
  by (simp add: one_way_queue_name_def cstr_trunc_def MAX_ONE_WAY_QUEUE_NAME_LENGTH_def)

section \<open>What a creation and a destruction leave in the queue table\<close>

text \<open>A process state that has registered at most \<open>name\<close> anew.\<close>

definition registers_only :: "ring_globals \<Rightarrow> string \<Rightarrow> ring_globals \<Rightarrow> bool" where
  "registers_only G name G' = (table_ok G' \<and> (\<forall>k. k \<noteq> name \<longrightarrow> getQueueParams G' k = getQueueParams G k))"

definition same_registrations :: "ring_globals \<Rightarrow> ring_globals \<Rightarrow> bool" where
  "same_registrations G G' = (table_ok G' \<and> getQueueParams G' = getQueueParams G)"

lemma same_registrations_cong:
  "table_ok G \<Longrightarrow> g_queue_params G' = g_queue_params G \<Longrightarrow> g_queue_params_initialized G' = g_queue_params_initialized G \<Longrightarrow>
   same_registrations G G'"
  using table_cong [of G' G] getQueueParams_cong [of G' G] by (auto simp: same_registrations_def table_ok_def)

lemma table_ok_initialize [simp]: "table_ok (initializeQueueParams G) = table_ok G"
  by (simp add: table_ok_def)

lemma addQueueParams_registers:
  assumes "table_ok G" "length name < MAX_ONE_WAY_QUEUE_NAME_LENGTH" "addQueueParams G name n m fd = (slot, G')"
  shows "registers_only G name G'" "slot = None \<Longrightarrow> same_registrations G G'"
proof -
  show "registers_only G name G'"
    using add_params_table_ok [OF assms(1,2), of n m fd] add_params_lookup(2) [OF assms(1,2), of _ n m fd] assms(3)
    by (simp add: registers_only_def)
  show "same_registrations G G'" if "slot = None"
    using assms(1,2)
  proof (cases rule: addQueueParams_cases [where n = n and m = m and fd = fd])
    case full
    with assms(1,3) show ?thesis by (auto simp: same_registrations_def)
  qed (use assms(3) that in simp)
qed

lemma create_registers:
  assumes "table_ok G" "length name < MAX_ONE_WAY_QUEUE_NAME_LENGTH"
    and "createSharedRingQueue os h G name n True = (res, G')"
  shows "registers_only G name G'" "res = CreateNull \<Longrightarrow> same_registrations G G'"
    and "res = Created q \<Longrightarrow> shared_location_name q = name"
proof -
  define G1 where "G1 = G\<lparr>g_effective_size_initialized := False, g_effective_entry_size := 0\<rparr>"
  define G3 where "G3 = snd (getEffectiveSegmentSize h G1)"
  define m where "m = fst (getEffectiveSharedRingQueueSize h G3) + unat n * unat (fst (getEffectiveSegmentSize h G1))"
  have G3: "snd (getEffectiveSharedRingQueueSize h G3) = G3" "fst (getEffectiveSegmentSize h G3) = fst (getEffectiveSegmentSize h G1)"
    by (simp_all add: getEffectiveSharedRingQueueSize_def G3_def split_beta)
  have same: "same_registrations G G1" "same_registrations G G3" "table_ok G3" "getQueueParams G3 = getQueueParams G"
    using assms(1) same_registrations_cong [of G G1] same_registrations_cong [of G G3]
    by (simp_all add: G1_def G3_def same_registrations_def)
  obtain slot G5 where slot: "addQueueParams G3 name n (int m) (shm_open os name True) = (slot, G5)" by fastforce
  have cases: "res = CreateNull \<and> (G' = G1 \<or> G' = G3) \<or> res = CreateFault \<and> G' = G3
      \<or> G' = G5 \<and> (res = CreateNull \<and> slot = None
          \<or> (\<exists>q0 x. slot = Some x \<and> res = Created (stamp_queue q0 name n m (shm_open os name True) True)))"
    using assms(3) slot G3
    unfolding createSharedRingQueue_def G1_def [symmetric]
    by (auto simp: Let_def split_beta m_def simp flip: G3_def split: if_splits mmap_result.splits option.splits)
  note add = addQueueParams_registers [OF same(3) assms(2) slot]
  have "registers_only G name G3" "registers_only G name G1" "registers_only G name G5"
    using same add(1) by (simp_all add: registers_only_def same_registrations_def)
  with cases show "registers_only G name G'" by blast
  show "same_registrations G G'" if "res = CreateNull"
    using cases same add(2) that by (auto simp: same_registrations_def)
  show "shared_location_name q = name" if "res = Created q"
    using cases assms(2) that by (auto simp: stamp_queue_def)
qed

text \<open>Destroying a queue that was not registered before takes its registration back.\<close>

lemma destroy_restores:
  assumes "registers_only G name G1" "getQueueParams G name = None" "shared_location_name q = name"
    and "length name < MAX_ONE_WAY_QUEUE_NAME_LENGTH"
  shows "same_registrations G (snd (snd (destroySharedRingQueue G1 q True)))"
proof (cases "getQueueParams G1 name")
  case None
  then have "getQueueParams G1 k = getQueueParams G k" for k
    using assms(1,2) by (cases "k = name") (simp_all add: registers_only_def)
  with None assms show ?thesis
    by (auto simp: destroySharedRingQueue_def same_registrations_def registers_only_def Let_def)
next
  case (Some x)
  have ok: "table_ok (initializeQueueParams G1)" using assms(1) by (simp add: registers_only_def)
  have "getQueueParams (removeQueueParams (initializeQueueParams G1) name) k = getQueueParams G k" for k
    using remove_params_lookup [OF ok] assms(1,2) by (cases "k = name") (simp_all add: registers_only_def)
  with Some assms remove_params_table_ok [OF ok] show ?thesis
    by (auto simp: destroySharedRingQueue_def same_registrations_def Let_def)
qed

lemma one_way_registers:
  assumes "table_ok G" "length nm \<le> 60"
    and "createOneWayIPCQueue os chmod_ok h G nm tx True n = (res, G')"
    and "getQueueParams G (one_way_queue_name True tx nm) = None"
  shows "registers_only G (one_way_queue_name True tx nm) G'" "res = CreateNull \<Longrightarrow> same_registrations G G'"
    and "res = Created q \<Longrightarrow> shared_location_name q = one_way_queue_name True tx nm"
proof -
  let ?name = "one_way_queue_name True tx nm"
  obtain r G1 where create: "createSharedRingQueue os h G ?name n True = (r, G1)" by fastforce
  note created = create_registers [OF assms(1) queue_name_length create]
  have "length nm \<le> length ?name" if "length nm \<le> 60"
    using that by (simp add: one_way_queue_name_def cstr_trunc_def MAX_ONE_WAY_QUEUE_NAME_LENGTH_def)
  with assms(2) have path: "\<not> length ''/dev/shm/'' + length ?name < length (direction_name True tx) + length nm"
    by (simp add: direction_name_def)
  have destroyed: "same_registrations G (snd (snd (destroySharedRingQueue G1 q True)))" if "r = Created q" for q
    using destroy_restores [OF created(1) assms(4) created(3) [OF that] queue_name_length] .
  show "registers_only G ?name G'" "res = CreateNull \<Longrightarrow> same_registrations G G'"
    "res = Created q \<Longrightarrow> shared_location_name q = ?name"
    using assms(3) create created path destroyed
    by (auto simp: createOneWayIPCQueue_def Let_def registers_only_def same_registrations_def
        split: create_result.splits if_splits)
qed

end
