(* ===== verification/Shared_Ring_Queue_2.thy ===== *)
theory Shared_Ring_Queue_2
  imports Shared_Ring_Queue
begin

text \<open>
  The queue of \<open>core/shmem_ipc_2/shared_ring_queue.c\<close>, which the nano attachment links. The
  parameters of a channel are in a \<open>SharedRingGlobalData\<close> of the channel instead of a table
  of the process, there is one size for segments and entries, and a reset does not touch the
  recorded parameters. Definitions carry the suffix \<open>_2\<close>.
\<close>

section \<open>State\<close>

record SharedRingGlobalData =
  g_rx_location_name :: string
  g_tx_location_name :: string
  g_rx_fd :: int
  g_tx_fd :: int
  g_memory_size :: int
  g_num_of_data_segments :: u16

record ring_process =
  p_effective_segment_size :: u16
  p_effective_size_initialized :: bool
  p_environ :: "string \<rightharpoonup> string"

section \<open>Operations\<close>

definition isLargerDataSegmentSupported_2 :: "host_files \<Rightarrow> ring_process \<Rightarrow> bool \<times> ring_process" where
  "isLargerDataSegmentSupported_2 h P =
     (case p_environ P effective_size_var of
        Some s \<Rightarrow> (larger_than_bc s, P)
      | None \<Rightarrow>
          if \<not> agent_metadata_stat h then (False, P)
          else
            (case agent_metadata_lines h of
               None \<Rightarrow> (False, P)
             | Some lns \<Rightarrow>
                 let P' = P\<lparr>p_environ := foldl metadata_line (p_environ P) lns\<rparr> in
                 (case p_environ P' effective_size_var of
                    Some s \<Rightarrow> (larger_than_bc s, P')
                  | None \<Rightarrow> (False, P'))))"

definition getEffectiveSegmentSize_2 :: "host_files \<Rightarrow> ring_process \<Rightarrow> u16 \<times> ring_process" where
  "getEffectiveSegmentSize_2 h P =
     (if p_effective_size_initialized P then (p_effective_segment_size P, P)
      else
        let (larger, P') = isLargerDataSegmentSupported_2 h (P\<lparr>p_effective_size_initialized := True\<rparr>)
        in (negotiated_size larger, P'\<lparr>p_effective_segment_size := negotiated_size larger\<rparr>))"

text \<open>The same function as in the first library, logging apart.\<close>

definition deriveSegmentSizeFromExistingQueue_2 :: "nat option \<Rightarrow> SharedRingQueue option \<Rightarrow> u16" where
  "deriveSegmentSizeFromExistingQueue_2 st_size header = deriveSegmentSizeFromExistingQueue st_size header"

definition getEffectiveSharedRingQueueSize_2 :: "host_files \<Rightarrow> ring_process \<Rightarrow> nat \<times> ring_process" where
  "getEffectiveSharedRingQueueSize_2 h P =
     (let (eff, P') = getEffectiveSegmentSize_2 h P
      in (SHARED_RING_QUEUE_HEADER_PREFIX_SIZE + unat eff, P'))"

definition isGetPossitionSucceccful_2 :: "SharedRingGlobalData \<Rightarrow> SharedRingQueue \<Rightarrow> bool" where
  "isGetPossitionSucceccful_2 gd q = positions_ok q (g_num_of_data_segments gd) (g_memory_size gd)"

definition resetRingQueue_2 :: "SharedRingQueue \<Rightarrow> u16 \<Rightarrow> SharedRingQueue" where
  "resetRingQueue_2 q n = reset_core q n"

definition createSharedRingGlobalData :: "bool \<Rightarrow> SharedRingGlobalData option" where
  "createSharedRingGlobalData malloc_ok =
     (if malloc_ok
      then Some \<lparr>g_rx_location_name = [], g_tx_location_name = [], g_rx_fd = -1, g_tx_fd = -1,
                 g_memory_size = -1, g_num_of_data_segments = 0\<rparr>
      else None)"

definition adopt_segment_size_2 :: "shm_calls \<Rightarrow> host_files \<Rightarrow> ring_process \<Rightarrow> ring_process" where
  "adopt_segment_size_2 os h P =
     (let (negotiated_size, P') = getEffectiveSegmentSize_2 h P;
          adopted_size = deriveSegmentSizeFromExistingQueue_2 (fstat_size os) (pread_header os)
      in if adopted_size \<noteq> 0 \<and> adopted_size \<noteq> negotiated_size
         then P'\<lparr>p_effective_segment_size := adopted_size, p_effective_size_initialized := True\<rparr>
         else P')"

definition record_queue ::
    "SharedRingGlobalData \<Rightarrow> string \<Rightarrow> nat \<Rightarrow> int \<Rightarrow> bool \<Rightarrow> SharedRingGlobalData" where
  "record_queue gd name memsize fd is_tx =
     (let nm = cstr_trunc MAX_ONE_WAY_QUEUE_NAME_LENGTH name; gd1 = gd\<lparr>g_memory_size := int memsize\<rparr>
      in if is_tx then gd1\<lparr>g_tx_fd := fd, g_tx_location_name := nm\<rparr>
         else gd1\<lparr>g_rx_fd := fd, g_rx_location_name := nm\<rparr>)"

definition createSharedRingQueue_2 ::
    "shm_calls \<Rightarrow> host_files \<Rightarrow> ring_process \<Rightarrow> SharedRingGlobalData \<Rightarrow> string \<Rightarrow> u16 \<Rightarrow> bool \<Rightarrow> bool
     \<Rightarrow> create_result \<times> ring_process \<times> SharedRingGlobalData" where
  "createSharedRingQueue_2 os h P0 gd0 name n is_owner is_tx =
     (let P1 = P0\<lparr>p_effective_size_initialized := False, p_effective_segment_size := 0\<rparr> in
      if n > max_num_of_data_segments then (CreateNull, P1, gd0)
      else
        let gd = gd0\<lparr>g_num_of_data_segments := n\<rparr>; fd = shm_open os name is_owner in
        if fd = -1 then (CreateNull, P1, gd)
        else
          let P2 = (if is_owner then P1 else adopt_segment_size_2 os h P1);
              (eff, P3) = getEffectiveSegmentSize_2 h P2;
              (queue_size, P4) = getEffectiveSharedRingQueueSize_2 h P3;
              memsize = queue_size + unat n * unat eff
          in if is_owner \<and> \<not> ftruncate os (memsize + 1) then (CreateNull, P4, gd)
             else
               (case mmap os memsize of
                  MapNull \<Rightarrow> (CreateNull, P4, gd)
                | MAP_FAILED \<Rightarrow> (CreateFault, P4, gd)
                | Mapped q0 \<Rightarrow>
                    (Created (stamp_queue q0 name n memsize fd is_owner), P4, record_queue gd name memsize fd is_tx)))"

text \<open>Destruction: the size it unmaps, the descriptor it closes and the name it unlinks.\<close>

definition destroySharedRingQueue_2 ::
    "SharedRingGlobalData \<Rightarrow> SharedRingQueue \<Rightarrow> bool \<Rightarrow> bool
     \<Rightarrow> (int \<times> int option \<times> string option) \<times> SharedRingQueue \<times> SharedRingGlobalData" where
  "destroySharedRingQueue_2 gd q is_owner is_tx =
     (let fd = (if is_tx then g_tx_fd gd else g_rx_fd gd);
          name = (if is_tx then g_tx_location_name gd else g_rx_location_name gd)
      in ((g_memory_size gd, if fd > 0 then Some fd else None, if is_owner then Some name else None),
          if is_owner then q\<lparr>owner_fd := 0\<rparr> else q\<lparr>user_fd := 0\<rparr>,
          if is_tx then gd\<lparr>g_tx_fd := -1\<rparr> else gd\<lparr>g_rx_fd := -1\<rparr>))"

definition peekToQueue_2 ::
    "host_files \<Rightarrow> ring_process \<Rightarrow> SharedRingGlobalData \<Rightarrow> SharedRingQueue
     \<Rightarrow> int \<times> (nat \<times> u16) option \<times> ring_process \<times> SharedRingQueue" where
  "peekToQueue_2 h P gd q =
     (if \<not> isGetPossitionSucceccful_2 gd q then (-1, None, P, q)
      else
        let (eff, P') = getEffectiveSegmentSize_2 h P;
            (r, out, q') = peek_core (unat eff) (g_num_of_data_segments gd) q
        in (r, out, if r = 0 then P' else P, q'))"

definition pushBuffersToQueue_2 ::
    "host_files \<Rightarrow> ring_process \<Rightarrow> SharedRingGlobalData \<Rightarrow> SharedRingQueue \<Rightarrow> bytes list
     \<Rightarrow> int \<times> ring_process \<times> SharedRingQueue" where
  "pushBuffersToQueue_2 h P gd q input_buffers =
     (if \<not> isGetPossitionSucceccful_2 gd q then (-1, P, q)
      else
        let (eff, P') = getEffectiveSegmentSize_2 h P;
            (r, q') = push_core (unat eff) (unat eff) (g_num_of_data_segments gd) q input_buffers
        in (r, if r = -2 then P else P', q'))"

definition pushToQueue_2 ::
    "host_files \<Rightarrow> ring_process \<Rightarrow> SharedRingGlobalData \<Rightarrow> SharedRingQueue \<Rightarrow> bytes
     \<Rightarrow> int \<times> ring_process \<times> SharedRingQueue" where
  "pushToQueue_2 h P gd q input_buffer = pushBuffersToQueue_2 h P gd q [input_buffer]"

definition popFromQueue_2 ::
    "host_files \<Rightarrow> ring_process \<Rightarrow> SharedRingGlobalData \<Rightarrow> SharedRingQueue
     \<Rightarrow> int \<times> ring_process \<times> SharedRingQueue" where
  "popFromQueue_2 h P gd q =
     (if \<not> isGetPossitionSucceccful_2 gd q then (-1, P, q)
      else
        let (eff, P') = getEffectiveSegmentSize_2 h P;
            (r, q') = pop_core (unat eff) (g_num_of_data_segments gd) q
        in (r, if r = 0 then P' else P, q'))"

definition isCorruptedQueue_2 :: "SharedRingGlobalData \<Rightarrow> SharedRingQueue \<Rightarrow> bool \<Rightarrow> bool" where
  "isCorruptedQueue_2 gd q is_tx =
     (g_num_of_data_segments gd \<noteq> 0 \<and>
      (num_of_data_segments q \<noteq> g_num_of_data_segments gd
       \<or> size_of_memory q \<noteq> g_memory_size gd
       \<or> read_pos q > g_num_of_data_segments gd
       \<or> write_pos q > g_num_of_data_segments gd
       \<or> shared_location_name q \<noteq> (if is_tx then g_tx_location_name gd else g_rx_location_name gd)))"

section \<open>Refinement: the operations implement a list of messages\<close>

definition queue_bound_2 :: "ring_process \<Rightarrow> SharedRingGlobalData \<Rightarrow> SharedRingQueue \<Rightarrow> bool" where
  "queue_bound_2 P gd q =
     (p_effective_size_initialized P \<and> g_num_of_data_segments gd = num_of_data_segments q
      \<and> g_memory_size gd = size_of_memory q)"

abbreviation segment_size_2 :: "ring_process \<Rightarrow> nat" where
  "segment_size_2 P \<equiv> unat (p_effective_segment_size P)"

type_synonym channel_2 = "ring_process \<times> SharedRingGlobalData \<times> SharedRingQueue"

definition holds_2 :: "channel_2 \<Rightarrow> bytes list \<Rightarrow> bool" where
  "holds_2 s ms =
     (case s of (P, gd, q) \<Rightarrow>
        queue_bound_2 P gd q
        \<and> ring_rep (segment_size_2 P) (segment_size_2 P) (num_of_data_segments q) q ms)"

definition room_2 :: "channel_2 \<Rightarrow> bytes \<Rightarrow> bool" where
  "room_2 s m = (case s of (P, gd, q) \<Rightarrow> room_for (num_of_data_segments q) q (nsegs (segment_size_2 P) m))"

definition push_2 :: "host_files \<Rightarrow> channel_2 \<Rightarrow> bytes list \<Rightarrow> int \<times> channel_2" where
  "push_2 h s bufs =
     (case s of (P, gd, q) \<Rightarrow> (case pushBuffersToQueue_2 h P gd q bufs of (r, P', q') \<Rightarrow> (r, P', gd, q')))"

definition peek_2 :: "host_files \<Rightarrow> channel_2 \<Rightarrow> int \<times> bytes option \<times> channel_2" where
  "peek_2 h s =
     (case s of (P, gd, q) \<Rightarrow>
        (case peekToQueue_2 h P gd q of (r, out, P', q') \<Rightarrow>
           (r, map_option (\<lambda>(addr, sz). read_bytes (payload q') addr (unat sz)) out, P', gd, q')))"

definition pop_2 :: "host_files \<Rightarrow> channel_2 \<Rightarrow> int \<times> channel_2" where
  "pop_2 h s =
     (case s of (P, gd, q) \<Rightarrow> (case popFromQueue_2 h P gd q of (r, P', q') \<Rightarrow> (r, P', gd, q')))"

definition ready_2 :: "channel_2 \<Rightarrow> bool" where
  "ready_2 s = at_message (snd (snd s))"

lemma segment_size_2_initialized [simp]:
  "p_effective_size_initialized P \<Longrightarrow> getEffectiveSegmentSize_2 h P = (p_effective_segment_size P, P)"
  by (simp add: getEffectiveSegmentSize_2_def)

text \<open>On a bound queue the operations are the common core, and the process state stays.\<close>

lemma bound_position_2:
  assumes "queue_bound_2 P gd q" "ring_rep seg ent (num_of_data_segments q) q ms"
  shows "isGetPossitionSucceccful_2 gd q"
  using ring_rep_positions [OF assms(2)] assms(1)
  by (simp add: isGetPossitionSucceccful_2_def queue_bound_2_def positions_ok_def geometry_ok_def word_le_nat_alt)

lemma core_2:
  assumes "queue_bound_2 P gd q" "ring_rep seg ent (num_of_data_segments q) q ms"
  shows "push_2 h (P, gd, q) bufs =
      (case push_core (segment_size_2 P) (segment_size_2 P) (num_of_data_segments q) q bufs of (r, q') \<Rightarrow> (r, P, gd, q'))"
    and "peekToQueue_2 h P gd q =
      (case peek_core (segment_size_2 P) (num_of_data_segments q) q of (r, out, q') \<Rightarrow> (r, out, P, q'))"
    and "pop_2 h (P, gd, q) =
      (case pop_core (segment_size_2 P) (num_of_data_segments q) q of (r, q') \<Rightarrow> (r, P, gd, q'))"
  using bound_position_2 [OF assms] assms(1)
  by (auto simp: push_2_def peekToQueue_2_def pop_2_def pushBuffersToQueue_2_def popFromQueue_2_def
      queue_bound_2_def split: prod.split)

lemma push_2_appends:
  assumes "holds_2 s ms" "valid_msg (concat bufs)" "room_2 s (concat bufs)"
  shows "\<exists>s'. push_2 h s bufs = (0, s') \<and> holds_2 s' (ms @ [concat bufs])"
proof -
  obtain P gd q where s: "s = (P, gd, q)" by (cases s)
  with assms have bound: "queue_bound_2 P gd q"
    and rep: "ring_rep (segment_size_2 P) (segment_size_2 P) (num_of_data_segments q) q ms"
    by (simp_all add: holds_2_def)
  from push_core_appends [OF rep assms(2)] assms(3)
  obtain q' where q': "push_core (segment_size_2 P) (segment_size_2 P) (num_of_data_segments q) q bufs = (0, q')"
    "ring_rep (segment_size_2 P) (segment_size_2 P) (num_of_data_segments q) q' (ms @ [concat bufs])"
    by (auto simp: s room_2_def room_for_def)
  from q' push_core_frame [OF q'(1)] bound show ?thesis
    by (simp add: s core_2 [OF bound rep] holds_2_def queue_bound_2_def)
qed

lemma peek_2_head:
  assumes "holds_2 s (m # ms)"
  shows "\<exists>s'. peek_2 h s = (0, Some m, s') \<and> holds_2 s' (m # ms) \<and> ready_2 s'"
proof -
  obtain P gd q where s: "s = (P, gd, q)" by (cases s)
  with assms have bound: "queue_bound_2 P gd q"
    and rep: "ring_rep (segment_size_2 P) (segment_size_2 P) (num_of_data_segments q) q (m # ms)"
    by (simp_all add: holds_2_def)
  from peek_core_head [OF rep] obtain addr q' where
    q': "peek_core (segment_size_2 P) (num_of_data_segments q) q = (0, Some (addr, of_nat (length m)), q')"
    "read_bytes (payload q') addr (length m) = m" "at_message q'"
    "ring_rep (segment_size_2 P) (segment_size_2 P) (num_of_data_segments q) q' (m # ms)" by blast
  have "valid_msg m" using ring_rep_valid [OF rep] by simp
  from q' peek_core_frame [OF q'(1)] bound length_mark_not_magic(3) [OF this] show ?thesis
    by (simp add: s peek_2_def core_2 [OF bound rep] holds_2_def queue_bound_2_def ready_2_def)
qed

lemma pop_2_tail:
  assumes "holds_2 s (m # ms)" "ready_2 s"
  shows "\<exists>s'. pop_2 h s = (0, s') \<and> holds_2 s' ms"
proof -
  obtain P gd q where s: "s = (P, gd, q)" by (cases s)
  with assms have bound: "queue_bound_2 P gd q"
    and rep: "ring_rep (segment_size_2 P) (segment_size_2 P) (num_of_data_segments q) q (m # ms)"
    and at: "at_message q"
    by (simp_all add: holds_2_def ready_2_def)
  from pop_core_tail [OF rep at] obtain q' where
    q': "pop_core (segment_size_2 P) (num_of_data_segments q) q = (0, q')"
    "ring_rep (segment_size_2 P) (segment_size_2 P) (num_of_data_segments q) q' ms" by blast
  from q' pop_core_frame [OF q'(1)] bound show ?thesis
    by (simp add: s core_2 [OF bound rep] holds_2_def queue_bound_2_def)
qed

lemma empty_2:
  assumes "holds_2 s []"
  shows "peek_2 h s = (-1, None, s)" "pop_2 h s = (-1, s)"
  using assms by (auto simp: holds_2_def peek_2_def core_2 peek_core_empty pop_core_empty split: prod.splits)

interpretation ring_2: message_queue holds_2 ready_2 room_2 "push_2 h" "peek_2 h" "pop_2 h"
  for h
  by unfold_locales (blast intro: push_2_appends peek_2_head pop_2_tail empty_2)+

end
