(* ===== verification/Shmem_Ipc_2.thy ===== *)
theory Shmem_Ipc_2
  imports Shmem_Ipc Shared_Ring_Queue_2
begin

text \<open>
  The two-way channel of \<open>core/shmem_ipc_2/shmem_ipc.c\<close>, with its own parameters and logging
  data. As in \<open>Shmem_Ipc\<close>, \<open>None\<close> is the \<open>NULL\<close> pointer, or, as an outcome, that a
  \<open>NULL\<close> pointer is followed. The queue names are those of the first library.
\<close>

section \<open>Operations\<close>

record LoggingData =
  log_dbg_level :: int
  log_worker_id :: int
  log_fd :: int

record SharedMemoryIPC_2 =
  shm_name_2 :: string
  rx_queue_2 :: "SharedRingQueue option"
  tx_queue_2 :: "SharedRingQueue option"
  global_data :: SharedRingGlobalData
  logging_data :: LoggingData

definition initLoggingData :: "bool \<Rightarrow> int \<Rightarrow> int \<Rightarrow> int \<Rightarrow> LoggingData option" where
  "initLoggingData allocated dbg_level worker_id logging_fd =
     (if allocated
      then Some \<lparr>log_dbg_level = dbg_level, log_worker_id = worker_id, log_fd = logging_fd\<rparr>
      else None)"

definition isTowardsOwner_2 :: "bool \<Rightarrow> bool \<Rightarrow> bool" where
  "isTowardsOwner_2 is_owner is_tx = (if is_owner then \<not> is_tx else is_tx)"

definition createOneWayIPCQueue_2 ::
    "shm_calls \<Rightarrow> bool \<Rightarrow> host_files \<Rightarrow> ring_process \<Rightarrow> SharedRingGlobalData \<Rightarrow> string \<Rightarrow> bool \<Rightarrow> bool \<Rightarrow> u16
     \<Rightarrow> create_result \<times> ring_process \<times> SharedRingGlobalData" where
  "createOneWayIPCQueue_2 os chmod_ok h P gd name is_tx_queue is_owner num_of_queue_elem =
     (let queue_name = one_way_queue_name is_owner is_tx_queue name;
          towards = isTowardsOwner_2 is_owner is_tx_queue;
          (res, P1, gd1) = createSharedRingQueue_2 os h P gd queue_name num_of_queue_elem is_owner towards
      in (case res of
            CreateNull \<Rightarrow> (CreateNull, P1, gd1)
          | CreateFault \<Rightarrow> (CreateFault, P1, gd1)
          | Created q \<Rightarrow>
              if length ''/dev/shm/'' + length queue_name < length (direction_name is_owner is_tx_queue) + length name
              then (CreateNull, P1, gd1)
              else if is_owner \<and> \<not> chmod_ok
              then (CreateNull, P1, snd (snd (destroySharedRingQueue_2 gd1 q is_owner towards)))
              else (Created q, P1, gd1)))"

definition destroy_queue_2 ::
    "SharedRingGlobalData \<Rightarrow> SharedRingQueue option \<Rightarrow> bool \<Rightarrow> bool
     \<Rightarrow> (int \<times> int option \<times> string option) list \<times> SharedRingGlobalData" where
  "destroy_queue_2 gd q is_owner towards =
     (case q of
        None \<Rightarrow> ([], gd)
      | Some x \<Rightarrow> (case destroySharedRingQueue_2 gd x is_owner towards of (e, _, gd') \<Rightarrow> ([e], gd')))"

text \<open>The channel and its parameters are freed; what remains is what was released.\<close>

definition destroyIpc_2 ::
    "SharedMemoryIPC_2 option \<Rightarrow> bool \<Rightarrow> (int \<times> int option \<times> string option) list option" where
  "destroyIpc_2 shmem is_owner =
     map_option
       (\<lambda>ipc.
          let (e1, gd1) = destroy_queue_2 (global_data ipc) (rx_queue_2 ipc) is_owner (isTowardsOwner_2 is_owner False);
              (e2, gd2) = destroy_queue_2 gd1 (tx_queue_2 ipc) is_owner (isTowardsOwner_2 is_owner True)
          in e1 @ e2)
       shmem"

record ipc_calls_2 = ipc_calls +
  global_malloc_ok :: bool

text \<open>A failed initialisation reports what the destruction of the half-made channel released.\<close>

datatype init_result_2 =
  InitNull_2 "(int \<times> int option \<times> string option) list" | InitFault_2 | InitOk_2 SharedMemoryIPC_2

definition half_ipc_2 ::
    "SharedRingQueue option \<Rightarrow> SharedRingGlobalData \<Rightarrow> LoggingData \<Rightarrow> SharedMemoryIPC_2" where
  "half_ipc_2 rx gd log_data =
     \<lparr>shm_name_2 = [], rx_queue_2 = rx, tx_queue_2 = None, global_data = gd, logging_data = log_data\<rparr>"

definition initIpc_2 ::
    "ipc_calls_2 \<Rightarrow> host_files \<Rightarrow> ring_process \<Rightarrow> string \<Rightarrow> bool \<Rightarrow> u16 \<Rightarrow> LoggingData
     \<Rightarrow> init_result_2 \<times> ring_process" where
  "initIpc_2 os h P queue_name is_owner num_of_queue_elem log_data =
     (if \<not> malloc_ok os then (InitNull_2 [], P)
      else
        (case createSharedRingGlobalData (global_malloc_ok os) of
           None \<Rightarrow> (InitNull_2 [], P)
         | Some gd \<Rightarrow>
             (case createOneWayIPCQueue_2 (rx_calls os) (rx_chmod os) h P gd queue_name False is_owner num_of_queue_elem of
                (CreateFault, P1, _) \<Rightarrow> (InitFault_2, P1)
              | (CreateNull, P1, gd1) \<Rightarrow>
                  (InitNull_2 (case destroyIpc_2 (Some (half_ipc_2 None gd1 log_data)) is_owner of
                                 None \<Rightarrow> [] | Some released \<Rightarrow> released), P1)
              | (Created rx, P1, gd1) \<Rightarrow>
                  (case createOneWayIPCQueue_2 (tx_calls os) (tx_chmod os) h P1 gd1 queue_name True is_owner
                          num_of_queue_elem of
                     (CreateFault, P2, _) \<Rightarrow> (InitFault_2, P2)
                   | (CreateNull, P2, gd2) \<Rightarrow>
                       (InitNull_2 (case destroyIpc_2 (Some (half_ipc_2 (Some rx) gd2 log_data)) is_owner of
                                      None \<Rightarrow> [] | Some released \<Rightarrow> released), P2)
                   | (Created tx, P2, gd2) \<Rightarrow>
                       (InitOk_2 \<lparr>shm_name_2 = take 32 queue_name, rx_queue_2 = Some rx, tx_queue_2 = Some tx,
                                  global_data = gd2, logging_data = log_data\<rparr>, P2)))))"

definition resetIpc_2 :: "SharedMemoryIPC_2 option \<Rightarrow> u16 \<Rightarrow> SharedMemoryIPC_2 option" where
  "resetIpc_2 ipc n =
     (case ipc of
        None \<Rightarrow> None
      | Some i \<Rightarrow>
          (case (rx_queue_2 i, tx_queue_2 i) of
             (Some rx, Some tx) \<Rightarrow>
               Some (i\<lparr>rx_queue_2 := Some (resetRingQueue_2 rx n), tx_queue_2 := Some (resetRingQueue_2 tx n)\<rparr>)
           | _ \<Rightarrow> Some i))"

definition sendData_2 ::
    "host_files \<Rightarrow> ring_process \<Rightarrow> SharedMemoryIPC_2 option \<Rightarrow> bytes
     \<Rightarrow> int \<times> ring_process \<times> SharedMemoryIPC_2 option" where
  "sendData_2 h P ipc data_to_send =
     (case ipc of
        None \<Rightarrow> (-1, P, None)
      | Some i \<Rightarrow>
          (case tx_queue_2 i of
             None \<Rightarrow> (-1, P, Some i)
           | Some q \<Rightarrow>
               (case pushToQueue_2 h P (global_data i) q data_to_send of
                  (r, P', q') \<Rightarrow> (r, P', Some (i\<lparr>tx_queue_2 := Some q'\<rparr>)))))"

definition sendChunkedData_2 ::
    "host_files \<Rightarrow> ring_process \<Rightarrow> SharedMemoryIPC_2 option \<Rightarrow> bytes list
     \<Rightarrow> int \<times> ring_process \<times> SharedMemoryIPC_2 option" where
  "sendChunkedData_2 h P ipc data_elem_to_send =
     (case ipc of
        None \<Rightarrow> (-1, P, None)
      | Some i \<Rightarrow>
          (case tx_queue_2 i of
             None \<Rightarrow> (-1, P, Some i)
           | Some q \<Rightarrow>
               (case pushBuffersToQueue_2 h P (global_data i) q data_elem_to_send of
                  (r, P', q') \<Rightarrow> (r, P', Some (i\<lparr>tx_queue_2 := Some q'\<rparr>)))))"

definition receiveData_2 ::
    "host_files \<Rightarrow> ring_process \<Rightarrow> SharedMemoryIPC_2 option
     \<Rightarrow> (int \<times> (nat \<times> u16) option \<times> ring_process \<times> SharedMemoryIPC_2 option) option" where
  "receiveData_2 h P ipc =
     (case ipc of
        None \<Rightarrow> Some (-1, None, P, None)
      | Some i \<Rightarrow>
          map_option
            (\<lambda>q. case peekToQueue_2 h P (global_data i) q of
                    (r, out, P', q') \<Rightarrow> (r, out, P', Some (i\<lparr>rx_queue_2 := Some q'\<rparr>)))
            (rx_queue_2 i))"

definition popData_2 ::
    "host_files \<Rightarrow> ring_process \<Rightarrow> SharedMemoryIPC_2 option
     \<Rightarrow> int \<times> ring_process \<times> SharedMemoryIPC_2 option" where
  "popData_2 h P ipc =
     (case ipc of
        None \<Rightarrow> (-1, P, None)
      | Some i \<Rightarrow>
          (case rx_queue_2 i of
             None \<Rightarrow> (-1, P, Some i)
           | Some q \<Rightarrow>
               (case popFromQueue_2 h P (global_data i) q of
                  (r, P', q') \<Rightarrow> (r, P', Some (i\<lparr>rx_queue_2 := Some q'\<rparr>)))))"

definition isDataAvailable_2 :: "SharedMemoryIPC_2 option \<Rightarrow> bool" where
  "isDataAvailable_2 ipc =
     (case ipc of
        None \<Rightarrow> False
      | Some i \<Rightarrow> (case rx_queue_2 i of None \<Rightarrow> False | Some q \<Rightarrow> \<not> isQueueEmpty q))"

definition isCorruptedShmem_2 :: "SharedMemoryIPC_2 option \<Rightarrow> bool \<Rightarrow> bool option" where
  "isCorruptedShmem_2 ipc is_owner =
     (case ipc of
        None \<Rightarrow> Some True
      | Some i \<Rightarrow>
          (case rx_queue_2 i of
             None \<Rightarrow> None
           | Some rx \<Rightarrow>
               if isCorruptedQueue_2 (global_data i) rx (isTowardsOwner_2 is_owner False) then Some True
               else map_option (\<lambda>tx. isCorruptedQueue_2 (global_data i) tx (isTowardsOwner_2 is_owner True))
                      (tx_queue_2 i)))"

end
