(* ===== verification/Ipc_Properties.thy ===== *)
theory Ipc_Properties
  imports Shmem_Ipc_2
begin

text \<open>
  The properties of the shared-memory libraries: what a process gets back from a queue, across
  processes and through wrap-around; that a write stays inside the mapping; the error results;
  how the two libraries agree; and the situations in which messages are lost. The sample
  queues of the first section are the concrete inputs of the witnesses.
\<close>

section \<open>Sample queues\<close>

definition sample_host :: host_files where
  "sample_host = \<lparr>dual_docker_nginx_file = False, agent_metadata_stat = False, agent_metadata_lines = None\<rparr>"

text \<open>A host with the marker file of the two-container deployment and no agent metadata.\<close>

definition sample_dual_host :: host_files where
  "sample_dual_host = \<lparr>dual_docker_nginx_file = True, agent_metadata_stat = False, agent_metadata_lines = None\<rparr>"

definition sample_object :: SharedRingQueue where
  "sample_object = \<lparr>shared_location_name = ''q'', owner_fd = 3, user_fd = -1, size_of_memory = 82 + 5 * 4096,
     write_pos = 0, read_pos = 0, num_of_data_segments = 4, payload = \<lambda>_. 0\<rparr>"

definition sample_queue :: SharedRingQueue where
  "sample_queue = reset_core sample_object 4"

definition sample_slot :: QueueParams where
  "sample_slot = \<lparr>location_name = ''q'', qp_num_of_data_segments = 4, qp_memory_size = 82 + 5 * 4096,
     qp_fd = 3, in_use = True\<rparr>"

definition fresh_globals :: ring_globals where
  "fresh_globals = \<lparr>g_queue_params = [], g_queue_params_initialized = False, g_effective_segment_size = 0,
     g_effective_entry_size = 0, g_effective_size_initialized = False, is_dual_docker_nginx_env = False,
     is_dual_docker_env = False, g_docker_env_initialized = False, environ = (\<lambda>_. None)\<rparr>"

definition sample_globals :: ring_globals where
  "sample_globals = fresh_globals\<lparr>g_queue_params := [sample_slot, free_params, free_params, free_params],
     g_queue_params_initialized := True, g_effective_segment_size := 4096, g_effective_entry_size := 4096,
     g_effective_size_initialized := True\<rparr>"

text \<open>System calls that all succeed and map the object \<open>q\<close>, whose header the \<open>pread\<close> sees.\<close>

definition sample_calls :: "SharedRingQueue \<Rightarrow> shm_calls" where
  "sample_calls q = \<lparr>shm_open = (\<lambda>_ _. 3), fstat_size = Some 100, pread_header = Some q,
     ftruncate = (\<lambda>_. True), mmap = (\<lambda>_. Mapped q)\<rparr>"

lemma sample_geometry: "geometry_ok 4096 4096 4"
  by (simp add: geometry_ok_def max_num_of_data_segments_def SHARED_MEMORY_SEGMENT_ENTRY_SIZE_def)

lemma sample_fields [simp]:
  "shared_location_name sample_queue = ''q''" "num_of_data_segments sample_queue = 4"
  "size_of_memory sample_queue = 82 + 5 * 4096" "read_pos sample_queue = 0" "write_pos sample_queue = 0"
  by (simp_all add: sample_queue_def sample_object_def reset_core_def)

lemma sample_globals_fields [simp]:
  "g_effective_segment_size sample_globals = 4096" "g_effective_size_initialized sample_globals"
  "g_queue_params_initialized sample_globals" "getEffectiveEntrySize h sample_globals = (4096, sample_globals)"
  "getQueueParams sample_globals ''q'' = Some sample_slot"
  by (simp_all add: sample_globals_def getEffectiveEntrySize_def getQueueParams_def slot_named_def sample_slot_def)

lemma sample_holds: "holds h (sample_globals, sample_queue) []"
  using reset_core_empty(1) [OF sample_geometry, of sample_object]
  by (simp add: holds_def queue_bound_def sample_slot_def flip: sample_queue_def)

lemma sample_valid: "list_all (\<lambda>bufs. valid_msg (concat bufs)) [[[1, 2], [3]], [[4]]]"
  by (simp add: valid_msg_def max_write_size_def)

lemma sample_all_fit: "all_fit (room_v1 h) (push_v1 h) (sample_globals, sample_queue) [[[1, 2], [3]], [[4]]]"
  by (rule all_fit_before_end [OF sample_holds _ sample_valid]) (simp_all add: getNumOfDataSegmentsNeeded_def)

lemma sample_calls_succeed: "calls_succeed (sample_calls q) name is_owner q"
  by (simp add: calls_succeed_def sample_calls_def)

lemma fresh_slot: "slot_available fresh_globals ''q''"
  by (simp add: slot_available_def fresh_globals_def table_ok_initial table_def initializeQueueParams_def
      MAX_QUEUES_def free_params_def MAX_ONE_WAY_QUEUE_NAME_LENGTH_def exI [of _ 0])

text \<open>The second library: a process with the small segments and an empty queue of \<open>n\<close> segments.\<close>

definition sample_process :: ring_process where
  "sample_process = \<lparr>p_effective_segment_size = 1024, p_effective_size_initialized = True, p_environ = (\<lambda>_. None)\<rparr>"

definition sample_data :: "u16 \<Rightarrow> SharedRingGlobalData" where
  "sample_data n = \<lparr>g_rx_location_name = ''q'', g_tx_location_name = ''t'', g_rx_fd = 3, g_tx_fd = 4,
     g_memory_size = 82 + 1024 + int (unat n) * 1024, g_num_of_data_segments = n\<rparr>"

definition sample_queue_2 :: "u16 \<Rightarrow> SharedRingQueue" where
  "sample_queue_2 n = reset_core (sample_object\<lparr>size_of_memory := 82 + 1024 + int (unat n) * 1024\<rparr>) n"

lemma sample_queue_2_fields [simp]:
  "shared_location_name (sample_queue_2 n) = ''q''" "num_of_data_segments (sample_queue_2 n) = n"
  "size_of_memory (sample_queue_2 n) = g_memory_size (sample_data n)"
  "read_pos (sample_queue_2 n) = 0" "write_pos (sample_queue_2 n) = 0"
  by (simp_all add: sample_queue_2_def sample_object_def sample_data_def reset_core_def)

lemma sample_rep_2: "geometry_ok 1024 1024 n \<Longrightarrow> ring_rep 1024 1024 n (sample_queue_2 n) []"
  unfolding sample_queue_2_def by (rule reset_core_empty(1))

lemma sample_holds_2: "geometry_ok 1024 1024 n \<Longrightarrow> holds_2 (sample_process, sample_data n, sample_queue_2 n) []"
  using sample_rep_2 [of n] by (simp add: holds_2_def queue_bound_2_def sample_process_def sample_data_def)

section \<open>First in, first out\<close>

text \<open>
  C1. First library, one queue: messages that each find room when their turn comes are all
  accepted, and receiving and popping as many times yields exactly these messages, in the
  order they were pushed, and leaves the queue empty.
\<close>

theorem v1_queue_fifo:
  assumes "holds h s []" "list_all (\<lambda>bufs. valid_msg (concat bufs)) bss" "all_fit (room_v1 h) (push_v1 h) s bss"
  shows "\<exists>s' s''. push_all (push_v1 h) s bss = (replicate (length bss) 0, s')
    \<and> drain (peek_v1 h) (pop_v1 h) (length bss) s' = (map concat bss, s'') \<and> holds h s'' []"
  using assms by (rule ring_v1.push_all_drain)

theorem v1_queue_fifo_witness:
  "\<exists>s' s''. push_all (push_v1 sample_host) (sample_globals, sample_queue) [[[1, 2], [3]], [[4]]] = ([0, 0], s')
    \<and> drain (peek_v1 sample_host) (pop_v1 sample_host) 2 s' = ([[1, 2, 3], [4]], s'') \<and> holds sample_host s'' []"
  using v1_queue_fifo [OF sample_holds sample_valid sample_all_fit, of sample_host]
  by (simp add: numeral_2_eq_2)

lemma created_sizes:
  assumes "environ G effective_size_var = None"
  shows "entry_size h (negotiated os h G True) = segment_size (negotiated os h G True)"
    and "segment_size (negotiated os h G True) \<in> {SHARED_MEMORY_SEGMENT_ENTRY_SIZE, SHARED_MEMORY_SEGMENT_ENTRY_SIZE_BC}"
  using sizes_agree [of "G\<lparr>g_effective_size_initialized := False, g_effective_entry_size := 0\<rparr>" h] assms
  by (simp_all add: negotiated_def Let_def)

text \<open>
  C2. First library, two processes, each with its own host files and process state and with the
  segment-size variable unset: the owner creates a queue whose marks, two bytes for each segment, fit the
  management segment (up to 512 small segments or 2048 large ones), a second
  process attaches to the object the owner stamped, whatever size its own negotiation yields,
  and pushes messages of at most 65532 bytes that fit together before the end of the ring; the owner then receives
  exactly these messages in order and finds the queue empty. The system calls succeed and both processes have room
  in their tables of queues.
\<close>

theorem v1_cross_process:
  assumes owner: "calls_succeed os name True q0" "slot_available G name" "environ G effective_size_var = None"
    and n: "n \<noteq> 0" "2 * unat n \<le> segment_size G1"
    and created: "createSharedRingQueue os h G name n True = (Created q, G1)"
    and user: "calls_succeed os2 name False q" "slot_available G2 name" "environ G2 effective_size_var = None"
    and header: "pread_header os2 = Some q" "fstat_size os2 = Some sz" "SHARED_RING_QUEUE_HEADER_PREFIX_SIZE \<le> sz"
    and msgs: "list_all (\<lambda>bufs. valid_msg (concat bufs)) bss"
      "(\<Sum>bufs\<leftarrow>bss. nsegs (segment_size G1) (concat bufs)) < unat n"
  shows "\<exists>q1 G3 q2 G4 q3 G5. createSharedRingQueue os2 h2 G2 name n False = (Created q1, G3)
    \<and> push_all (push_v1 h2) (G3, q1) bss = (replicate (length bss) 0, G4, q2)
    \<and> drain (peek_v1 h) (pop_v1 h) (length bss) (G1, q2) = (map concat bss, G5, q3) \<and> holds h (G5, q3) []"
proof -
  note sizes = created_sizes [OF owner(3), where h = h and os = os]
  have max: "n \<le> max_num_of_data_segments"
    using created by (rule contrapos_pp) (simp add: createSharedRingQueue_def not_le Let_def)
  have "segment_size G1 = segment_size (negotiated os h G True)"
    using createSharedRingQueue_created [OF max owner(1,2), of h] created by auto
  then have geom: "geometry_ok (segment_size (negotiated os h G True)) (entry_size h (negotiated os h G True)) n"
    using sizes n max by (auto simp: geometry_ok_def ring_constants)
  obtain q' G' where "createSharedRingQueue os h G name n True = (Created q', G')" "holds h (G', q') []"
    "segment_size G' = segment_size (negotiated os h G True)" "entry_size h G' = entry_size h (negotiated os h G True)"
    "shared_location_name q' = name" "num_of_data_segments q' = n" "read_pos q' = 0" "write_pos q' = 0"
    "size_of_memory q' = int (SHARED_RING_QUEUE_HEADER_PREFIX_SIZE + segment_size G' + unat n * segment_size G')"
    using created_owner_holds [OF max owner(1,2) geom] by blast
  with created sizes(1) have q: "holds h (G1, q) []" "segment_size G1 = segment_size (negotiated os h G True)"
    "entry_size h G1 = segment_size G1" "shared_location_name q = name" "num_of_data_segments q = n"
    "read_pos q = 0" "write_pos q = 0"
    "size_of_memory q = int (SHARED_RING_QUEUE_HEADER_PREFIX_SIZE + segment_size G1 + unat n * segment_size G1)"
    by simp_all
  let ?q1 = "q\<lparr>user_fd := shm_open os2 name False\<rparr>"
  from q have "ring_rep (segment_size G1) (segment_size G1) n q []" by (simp add: holds_def)
  with created_user_holds [OF user(1,2) q(4,5,8) _ header(2,3,1) user(3), of "[]" h2] obtain G3 where
    att: "createSharedRingQueue os2 h2 G2 name n False = (Created ?q1, G3)" "holds h2 (G3, ?q1) []"
    "segment_size G3 = segment_size G1" "entry_size h2 G3 = segment_size G1"
    using sizes(2) q(2) by auto
  have "all_fit (room_v1 h2) (push_v1 h2) (G3, ?q1) bss"
    using msgs q att(4) by (intro all_fit_before_end [OF att(2)]) simp_all
  from push_all_v1 [OF att(2) msgs(1) this] obtain G4 q2 where
    push: "push_all (push_v1 h2) (G3, ?q1) bss = (replicate (length bss) 0, G4, q2)"
    "holds h2 (G4, q2) (map concat bss)" "same_queue ?q1 q2"
    "segment_size G4 = segment_size G1" "entry_size h2 G4 = segment_size G1"
    using att(3,4) by auto
  have "queue_bound G1 q2"
    using q(1) push(3) core_frame [of q2 q G1] by (simp add: holds_def same_queue_def)
  then have "holds h (G1, q2) (map concat bss)"
    using push q(3) by (intro holds_other_process [OF push(2)]) simp_all
  from ring_v1.drain_all [OF this] att(1) push(1) show ?thesis by auto
qed

text \<open>The sample hosts disagree: the attaching one would negotiate the small segments.\<close>

theorem v1_cross_process_witness:
  "\<exists>q G1 q1 G3 q2 G4 q3 G5.
     createSharedRingQueue (sample_calls sample_object) sample_host fresh_globals ''q'' 4 True = (Created q, G1)
   \<and> createSharedRingQueue (sample_calls q) sample_dual_host fresh_globals ''q'' 4 False = (Created q1, G3)
   \<and> push_all (push_v1 sample_dual_host) (G3, q1) [[[1, 2], [3]], [[4]]] = ([0, 0], G4, q2)
   \<and> drain (peek_v1 sample_host) (pop_v1 sample_host) 2 (G1, q2) = ([[1, 2, 3], [4]], G5, q3)
   \<and> holds sample_host (G5, q3) []"
proof -
  let ?os = "sample_calls sample_object"
  have env: "environ fresh_globals effective_size_var = None" by (simp add: fresh_globals_def)
  note sizes = created_sizes [OF env, where h = sample_host and os = "?os"]
  have geom: "geometry_ok (segment_size (negotiated ?os sample_host fresh_globals True))
      (entry_size sample_host (negotiated ?os sample_host fresh_globals True)) 4"
    and max: "4 \<le> max_num_of_data_segments"
    using sizes by (auto simp: geometry_ok_def ring_constants)
  from created_owner_holds [OF max sample_calls_succeed fresh_slot geom] obtain q G1 where
    q: "createSharedRingQueue ?os sample_host fresh_globals ''q'' 4 True = (Created q, G1)"
    "segment_size G1 = segment_size (negotiated ?os sample_host fresh_globals True)" by blast
  have "(\<Sum>bufs\<leftarrow>[[[1, 2], [3]], [[4 :: u8]]]. nsegs (segment_size G1) (concat bufs)) < unat (4 :: u16)"
    using sizes(2) q(2) by (auto simp: getNumOfDataSegmentsNeeded_def ring_constants)
  moreover have "(4 :: u16) \<noteq> 0" "2 * unat (4 :: u16) \<le> segment_size G1" "pread_header (sample_calls q) = Some q"
    "fstat_size (sample_calls q) = Some 100" "SHARED_RING_QUEUE_HEADER_PREFIX_SIZE \<le> 100"
    using sizes(2) q(2) by (auto simp: sample_calls_def ring_constants)
  ultimately have "\<exists>q1 G3 q2 G4 q3 G5.
      createSharedRingQueue (sample_calls q) sample_dual_host fresh_globals ''q'' 4 False = (Created q1, G3)
    \<and> push_all (push_v1 sample_dual_host) (G3, q1) [[[1, 2], [3]], [[4]]] = ([0, 0], G4, q2)
    \<and> drain (peek_v1 sample_host) (pop_v1 sample_host) (Suc (Suc 0)) (G1, q2) = ([[1, 2, 3], [4]], G5, q3)
    \<and> holds sample_host (G5, q3) []"
    using v1_cross_process [OF sample_calls_succeed fresh_slot env _ _ q(1) sample_calls_succeed fresh_slot env
      _ _ _ sample_valid, of 100 sample_dual_host] by (simp del: push_all.simps drain.simps)
  with q(1) show ?thesis unfolding numeral_2_eq_2 by blast
qed

text \<open>
  C3. Second library, one queue: messages that each find room when their turn comes are all
  accepted, and receiving and popping as many times yields exactly these messages in order and
  leaves the queue empty.
\<close>

theorem v2_queue_fifo:
  assumes "holds_2 s []" "list_all (\<lambda>bufs. valid_msg (concat bufs)) bss" "all_fit room_2 (push_2 h) s bss"
  shows "\<exists>s' s''. push_all (push_2 h) s bss = (replicate (length bss) 0, s')
    \<and> drain (peek_2 h) (pop_2 h) (length bss) s' = (map concat bss, s'') \<and> holds_2 s'' []"
  using assms by (rule ring_2.push_all_drain)

theorem v2_queue_fifo_witness:
  "\<exists>s' s''. push_all (push_2 sample_host) (sample_process, sample_data 4, sample_queue_2 4) [[[1, 2], [3]]] = ([0], s')
    \<and> drain (peek_2 sample_host) (pop_2 sample_host) 1 s' = ([[1, 2, 3]], s'') \<and> holds_2 s'' []"
proof -
  have geom: "geometry_ok 1024 1024 4" by (simp add: geometry_ok_def ring_constants)
  have fit: "all_fit room_2 (push_2 sample_host) (sample_process, sample_data 4, sample_queue_2 4) [[[1, 2], [3]]]"
    using room_before_end(1) [OF sample_rep_2 [OF geom], of "[[1, 2], [3]]"]
    by (simp add: room_2_def sample_process_def getNumOfDataSegmentsNeeded_def valid_msg_def max_write_size_def)
  have "list_all (\<lambda>bufs. valid_msg (concat bufs)) [[[1, 2], [3]]]" by (simp add: valid_msg_def max_write_size_def)
  from v2_queue_fifo [OF sample_holds_2 [OF geom] this fit] show ?thesis by simp
qed

section \<open>Results and bounds of a push\<close>

text \<open>
  C4. First library, on a queue in use: a push answers -2 exactly when the message is longer
  than 65532 bytes, otherwise -3 exactly when the free-space check fails, and 0 in all other
  cases; whenever the answer is not 0, the queue is left as it was.
\<close>

theorem push_results:
  assumes "holds h (G, q) ms" "push_v1 h (G, q) bufs = (r, G', q')"
  shows "(r = -2 \<longleftrightarrow> max_write_size < length (concat bufs))
    \<and> (r = -3 \<longleftrightarrow> length (concat bufs) \<le> max_write_size
         \<and> \<not> isThereEnoughMemoryInQueue (num_of_data_segments q) (write_pos q) (read_pos q)
               (of_nat (nsegs (entry_size h G) (concat bufs))))
    \<and> r \<in> {0, -2, -3} \<and> (r \<noteq> 0 \<longrightarrow> q' = q)"
proof -
  from assms(1) have bound: "queue_bound G q"
    and rep: "ring_rep (segment_size G) (entry_size h G) (num_of_data_segments q) q ms" by (simp_all add: holds_def)
  have "r = fst (push_core (segment_size G) (entry_size h G) (num_of_data_segments q) q bufs)"
    "q' = snd (push_core (segment_size G) (entry_size h G) (num_of_data_segments q) q bufs)"
    using assms(2) by (auto simp: push_v1_def pushBuffersToQueue_bound [OF bound rep] split: prod.splits)
  then show ?thesis
    using push_core_results [OF rep] by metis
qed

theorem push_results_witness:
  "\<exists>r G' q'. push_v1 sample_host (sample_globals, sample_queue) [replicate 65533 0] = (r, G', q') \<and> r = -2 \<and> q' = sample_queue"
proof -
  obtain r G' q' where push: "push_v1 sample_host (sample_globals, sample_queue) [replicate 65533 0] = (r, G', q')"
    by (metis prod_cases3)
  with push_results [OF sample_holds push] show ?thesis by (auto simp: max_write_size_def)
qed

text \<open>
  C5. First library, on a queue in use whose entry size is at most the segment size, and at least 1024 bytes, and whose
  marks fit the management segment: whatever is pushed and whatever the result, no byte
  beyond the last data segment changes, so a push never writes outside the mapped object. (When the variable for the
  segment size splits the two sizes, the queue is not of this kind.)
\<close>

theorem push_stays_inside:
  assumes "holds h (G, q) ms" "push_v1 h (G, q) bufs = (r, G', q')"
    and "segment_size G * (1 + unat (num_of_data_segments q)) \<le> a"
  shows "payload q' a = payload q a"
proof -
  from assms(1) have bound: "queue_bound G q"
    and rep: "ring_rep (segment_size G) (entry_size h G) (num_of_data_segments q) q ms" by (simp_all add: holds_def)
  have "q' = snd (push_core (segment_size G) (entry_size h G) (num_of_data_segments q) q bufs)"
    using assms(2) by (auto simp: push_v1_def pushBuffersToQueue_bound [OF bound rep] split: prod.splits)
  with push_core_inside [OF rep assms(3)] show ?thesis by simp
qed

theorem push_stays_inside_witness:
  "\<exists>r G' q'. push_v1 sample_host (sample_globals, sample_queue) [[1, 2], [3]] = (r, G', q')
    \<and> payload q' 20480 = payload sample_queue 20480"
proof -
  obtain r G' q' where push: "push_v1 sample_host (sample_globals, sample_queue) [[1, 2], [3]] = (r, G', q')"
    by (metis prod_cases3)
  with push_stays_inside [OF sample_holds push, of 20480] show ?thesis by simp
qed

section \<open>Queues that are out of order\<close>

text \<open>
  What the corruption test of the first library says and what the operations do, for a queue registered under its
  name with a non-zero number of segments, in a process whose tables are initialised: the test reports corruption
  exactly when a push is answered with -1. One position past the last segment escapes it: with the read
  position there, a peek of a queue it finds sound is answered with the error of a corrupted queue.
\<close>

theorem corruption_test_exact:
  assumes "table_ok G" "getQueueParams G (shared_location_name q) = Some x" "qp_num_of_data_segments x \<noteq> 0"
    and "g_queue_params_initialized G"
  shows "isCorruptedQueue G q \<longleftrightarrow> fst (pushBuffersToQueue h G q bufs) = -1"
    and "\<not> isCorruptedQueue G q \<Longrightarrow>
      fst (peekToQueue h G q) = CORRUPTED_SHMEM_ERROR \<longleftrightarrow> read_pos q = qp_num_of_data_segments x \<and> write_pos q \<noteq> read_pos q"
proof -
  have G: "initializeQueueParams G = G" using assms(4) by (simp add: initializeQueueParams_def)
  have "location_name x = shared_location_name q"
    using assms(2) getQueueParams_iff [OF assms(1)] by blast
  with assms(2,3) have test: "isCorruptedQueue G q \<longleftrightarrow> \<not> isGetPossitionSucceccful G q"
    by (auto simp: isCorruptedQueue_def isGetPossitionSucceccful_def positions_ok_def not_less)
  have "fst (push_core seg ent n q bufs) \<noteq> -1" for seg ent n
    by (auto simp: push_core_def Let_def split: option.splits prod.splits)
  then show "isCorruptedQueue G q \<longleftrightarrow> fst (pushBuffersToQueue h G q bufs) = -1"
    using assms(2) by (auto simp: test G pushBuffersToQueue_def Let_def split_beta)
  show "fst (peekToQueue h G q) = CORRUPTED_SHMEM_ERROR \<longleftrightarrow> read_pos q = qp_num_of_data_segments x \<and> write_pos q \<noteq> read_pos q"
    if "\<not> isCorruptedQueue G q"
  proof -
    have sound: "isGetPossitionSucceccful G q" using that test by simp
    then have "read_pos q \<le> qp_num_of_data_segments x"
      using assms(2) by (auto simp: isGetPossitionSucceccful_def positions_ok_def)
    then show ?thesis
      using assms(2) sound
      by (auto simp: G peekToQueue_def peek_core_def CORRUPTED_SHMEM_ERROR_def Let_def split_beta)
  qed
qed

lemma sample_table_ok: "table_ok sample_globals"
  by (auto simp: table_ok_def table_def sample_globals_def fresh_globals_def sample_slot_def free_params_def
      MAX_QUEUES_def less_Suc_eq numeral_eq_Suc)

theorem corruption_test_exact_witness:
  "fst (pushBuffersToQueue sample_host sample_globals (sample_queue\<lparr>write_pos := 5\<rparr>) []) = -1
   \<and> \<not> isCorruptedQueue sample_globals (sample_queue\<lparr>read_pos := 4\<rparr>)
   \<and> fst (peekToQueue sample_host sample_globals (sample_queue\<lparr>read_pos := 4\<rparr>)) = CORRUPTED_SHMEM_ERROR"
proof -
  have slot: "getQueueParams sample_globals (shared_location_name (sample_queue\<lparr>write_pos := 5\<rparr>)) = Some sample_slot"
    "getQueueParams sample_globals (shared_location_name (sample_queue\<lparr>read_pos := 4\<rparr>)) = Some sample_slot" by simp_all
  have n: "qp_num_of_data_segments sample_slot \<noteq> 0" by (simp add: sample_slot_def)
  have init: "g_queue_params_initialized sample_globals" by (simp add: sample_globals_def)
  have "isCorruptedQueue sample_globals (sample_queue\<lparr>write_pos := 5\<rparr>)"
    "\<not> isCorruptedQueue sample_globals (sample_queue\<lparr>read_pos := 4\<rparr>)"
    by (simp_all add: isCorruptedQueue_def sample_slot_def)
  then show ?thesis
    using corruption_test_exact(1) [OF sample_table_ok slot(1) n init, of sample_host "[]"]
      corruption_test_exact(2) [OF sample_table_ok slot(2) n init, of sample_host]
    by (simp add: sample_slot_def)
qed

text \<open>
  Resetting a queue of the second library to another number of segments breaks it: the
  process data keeps the old number, so from then on push, peek and pop answer -1 and the
  corruption test reports corruption.
\<close>

theorem reset_other_size_breaks:
  assumes "queue_bound_2 P gd q" "n \<noteq> num_of_data_segments q" "num_of_data_segments q \<noteq> 0"
  shows "pushBuffersToQueue_2 h P gd (resetRingQueue_2 q n) bufs = (-1, P, resetRingQueue_2 q n)
    \<and> peekToQueue_2 h P gd (resetRingQueue_2 q n) = (-1, None, P, resetRingQueue_2 q n)
    \<and> popFromQueue_2 h P gd (resetRingQueue_2 q n) = (-1, P, resetRingQueue_2 q n)
    \<and> isCorruptedQueue_2 gd (resetRingQueue_2 q n) is_tx"
proof -
  have "num_of_data_segments (resetRingQueue_2 q n) = n" by (simp add: resetRingQueue_2_def reset_core_def)
  with assms show ?thesis
    by (auto simp: pushBuffersToQueue_2_def peekToQueue_2_def popFromQueue_2_def isCorruptedQueue_2_def
        isGetPossitionSucceccful_2_def positions_ok_def queue_bound_2_def)
qed

theorem reset_other_size_breaks_witness:
  "isCorruptedQueue_2 (sample_data 4) (resetRingQueue_2 (sample_queue_2 4) 3) False"
proof -
  have "queue_bound_2 sample_process (sample_data 4) (sample_queue_2 4)"
    by (simp add: queue_bound_2_def sample_process_def sample_data_def)
  from reset_other_size_breaks [OF this, of 3] show ?thesis by simp
qed

section \<open>Messages that get lost\<close>

text \<open>A queue of three segments that holds \<open>m1\<close> in segment 2 and \<open>m2\<close> in segment 0, reached by pushes.\<close>

definition wrapped_queue :: "bytes \<Rightarrow> bytes \<Rightarrow> SharedRingQueue" where
  "wrapped_queue m1 m2 =
     (sample_queue_2 3)\<lparr>read_pos := 2, write_pos := 1,
        payload := store_msg (store_msg (payload (sample_queue_2 3)) 1024 1024 2 m1) 1024 1024 0 m2\<rparr>"

lemma three_segments: "geometry_ok 1024 1024 3"
  by (simp add: geometry_ok_def ring_constants)

lemma wrapped_queue_holds:
  assumes "valid_msg m1" "nsegs 1024 m1 = 1" "valid_msg m2" "nsegs 1024 m2 = 1"
  shows "holds_2 (sample_process, sample_data 3, wrapped_queue m1 m2) [m1, m2]"
proof -
  let ?p = "payload (sample_queue_2 3)"
  have "linear_rep ?p 1024 1024 3 2 2 []"
    by (simp add: linear_rep_def marked_def sample_queue_2_def reset_core_def buffer_mgmt_fill)
  then have "wrapped_rep (store_msg ?p 1024 1024 2 m1) 1024 1024 3 2 0 3 [m1] []"
    using linear_rep_push_to_end [OF three_segments assms(1), of ?p 2 2 "[]"] assms(2) by simp
  then have "wrapped_rep (store_msg (store_msg ?p 1024 1024 2 m1) 1024 1024 0 m2) 1024 1024 3 2 1 3 [m1] [m2]"
    using wrapped_rep_push [OF three_segments assms(3), of _ 2 0 3 "[m1]" "[]"] assms(4) by simp
  then have "ring_rep 1024 1024 3 (wrapped_queue m1 m2) [m1, m2]"
    by (intro ring_rep_wrappedI [OF three_segments, where as = "[m1]" and bs = "[m2]" and t = 3])
      (simp_all add: wrapped_queue_def)
  then show ?thesis
    by (simp add: holds_2_def queue_bound_2_def sample_process_def sample_data_def wrapped_queue_def)
qed

definition overwritten_queue :: "bytes \<Rightarrow> bytes \<Rightarrow> bytes \<Rightarrow> SharedRingQueue" where
  "overwritten_queue m1 m2 m3 =
     (wrapped_queue m1 m2)\<lparr>payload := store_msg (payload (wrapped_queue m1 m2)) 1024 1024 1 m3, write_pos := 0\<rparr>"

lemma wrapped_queue_fields [simp]:
  "write_pos (wrapped_queue m1 m2) = 1" "read_pos (wrapped_queue m1 m2) = 2"
  "num_of_data_segments (wrapped_queue m1 m2) = 3" "size_of_memory (wrapped_queue m1 m2) = g_memory_size (sample_data 3)"
  by (simp_all add: wrapped_queue_def)

lemma overwriting_push:
  assumes "valid_msg m3" "nsegs 1024 m3 = 2"
  shows "push_core 1024 1024 3 (wrapped_queue m1 m2) [m3] = (0, overwritten_queue m1 m2 m3)"
  using push_core_eq(1) [OF three_segments, of "[m3]" "wrapped_queue m1 m2"] assms
  by (simp add: isThereEnoughMemoryInQueue_def overwritten_queue_def)

text \<open>The mark of segment 2 is now a skip mark, so the reader goes on at segment 0.\<close>

lemma overwritten_peek:
  assumes "valid_msg m2" "nsegs 1024 m2 = 1" "nsegs 1024 m3 = 2"
  shows "\<exists>p. peek_core 1024 3 (overwritten_queue m1 m2 m3)
      = (0, Some (1024, of_nat (length m2)), (overwritten_queue m1 m2 m3)\<lparr>payload := p, read_pos := 0\<rparr>)
    \<and> read_bytes p 1024 (length m2) = m2"
proof -
  let ?q = "wrapped_queue m1 m2" and ?q1 = "overwritten_queue m1 m2 m3"
  let ?p = "payload ?q1"
  let ?p2 = "fill_mgmt ?p 2 3 empty_buff_mgmt_magic"
  have marks: "buffer_mgmt ?p i = (if i = 2 then skip_buff_mgmt_magic else if i = 1 then of_nat (length m3)
      else buffer_mgmt (payload ?q) i)" if "i < 3" for i
    using that store_msg_marks [of 3 1024 i "payload ?q" 1024 1 m3] assms(3) by (auto simp: overwritten_queue_def)
  have m2: "stored (payload ?q) 1024 1024 0 m2"
    using stored_store_msg [of 3 1024 0 1024 m2] assms(2) by (simp add: wrapped_queue_def)
  have len: "length m2 \<le> 1024" using valid_msg_nsegs(3) [OF _ assms(1), of 1024] assms(2) by simp
  have "?p2 (1024 + i) = m2 ! i" if "i < length m2" for i
    using that len m2 store_msg_data [of 3 1024 1 1024 m3 "1024 + i" "payload ?q"] assms(3)
    by (simp add: stored_def fill_mgmt_frame getDataSegmentAddress_def overwritten_queue_def)
  then have "read_bytes ?p2 1024 (length m2) = m2" by (intro read_bytes_eqI) simp_all
  moreover have "skip_run ?p 2 3 = (?p2, 3)"
  proof (rule skip_run_spec)
    have "buffer_mgmt ?p j = skip_buff_mgmt_magic" if "2 \<le> j \<and> j < 3" for j
    proof -
      from that have "j = 2" by simp
      then show ?thesis using marks [of 2] by simp
    qed
    then show "\<forall>j. 2 \<le> j \<and> j < 3 \<longrightarrow> buffer_mgmt ?p j = skip_buff_mgmt_magic" by simp
  qed simp_all
  moreover have "buffer_mgmt ?p2 0 = of_nat (length m2)"
    using marks [of 0] m2 by (simp add: buffer_mgmt_fill stored_def)
  moreover have "write_pos ?q1 = 0" "read_pos ?q1 = 2" by (simp_all add: overwritten_queue_def)
  ultimately show ?thesis
    using marks [of 2] by (intro exI [of _ ?p2]) (simp add: peek_core_def getDataSegmentAddress_def)
qed

text \<open>
  C38. The free-space check accepts a push that destroys unread messages: in a queue of three
  segments that holds \<open>m1\<close> at the end and \<open>m2\<close> at the start, every message of two
  segments is accepted although only one segment is free. It overwrites \<open>m1\<close>, and reading
  on delivers \<open>m2\<close> alone: both \<open>m1\<close> and the new message are lost.
\<close>

theorem accepted_push_loses_messages:
  assumes "valid_msg m1" "nsegs 1024 m1 = 1" "valid_msg m2" "nsegs 1024 m2 = 1" "valid_msg m3" "nsegs 1024 m3 = 2"
  shows "\<exists>s s' s''. holds_2 s [m1, m2] \<and> push_2 h s [m3] = (0, s') \<and> drain (peek_2 h) (pop_2 h) 3 s' = ([m2], s'')"
proof -
  let ?q = "wrapped_queue m1 m2" and ?P = sample_process and ?gd = "sample_data 3"
  let ?q1 = "overwritten_queue m1 m2 m3"
  note rep = wrapped_queue_holds [OF assms(1-4)]
  then have "queue_bound_2 ?P ?gd ?q" "ring_rep 1024 1024 3 ?q [m1, m2]"
    by (simp_all add: holds_2_def sample_process_def)
  then have push: "push_2 h (?P, ?gd, ?q) [m3] = (0, ?P, ?gd, ?q1)"
    using overwriting_push [OF assms(5,6), of m1 m2] by (simp add: core_2(1) sample_process_def)
  from overwritten_peek [OF assms(3,4,6)] obtain p where
    peek: "peek_core 1024 3 ?q1 = (0, Some (1024, of_nat (length m2)), ?q1\<lparr>payload := p, read_pos := 0\<rparr>)"
    "read_bytes p 1024 (length m2) = m2" by blast
  let ?q2 = "?q1\<lparr>payload := p, read_pos := 0\<rparr>"
  have pos: "isGetPossitionSucceccful_2 ?gd ?q1" "isGetPossitionSucceccful_2 ?gd ?q2"
    by (simp_all add: isGetPossitionSucceccful_2_def positions_ok_def overwritten_queue_def sample_data_def)
  have P: "getEffectiveSegmentSize_2 h ?P = (1024, ?P)" "g_num_of_data_segments ?gd = 3"
    by (simp_all add: sample_process_def sample_data_def)
  have "peek_2 h (?P, ?gd, ?q1) = (0, Some m2, ?P, ?gd, ?q2)"
    using peek pos(1) P length_mark_not_magic(3) [OF assms(3)] by (simp add: peek_2_def peekToQueue_2_def)
  moreover have "pop_2 h (?P, ?gd, ?q2) = (-1, ?P, ?gd, ?q2)" "peek_2 h (?P, ?gd, ?q2) = (-1, None, ?P, ?gd, ?q2)"
    using pos(2) P
    by (simp_all add: pop_2_def popFromQueue_2_def pop_core_def peek_2_def peekToQueue_2_def peek_core_def
        overwritten_queue_def)
  ultimately have "drain (peek_2 h) (pop_2 h) 3 (?P, ?gd, ?q1) = ([m2], ?P, ?gd, ?q2)"
    by (simp add: numeral_3_eq_3)
  with rep push show ?thesis by blast
qed

theorem accepted_push_loses_messages_witness:
  "\<exists>s s' s''. holds_2 s [[1], [2]] \<and> push_2 sample_host s [replicate 1025 3] = (0, s')
    \<and> drain (peek_2 sample_host) (pop_2 sample_host) 3 s' = ([[2]], s'')"
  by (rule accepted_push_loses_messages) (simp_all add: valid_msg_def max_write_size_def getNumOfDataSegmentsNeeded_def)

text \<open>
  An empty message is accepted by a full queue and empties it: it needs no segment in the
  check but advances the write position by one, so that a queue read from segment 0 and full
  up to its last segment looks empty, and the messages in it are no longer delivered.
\<close>

theorem empty_message_hides_queue:
  assumes "holds_2 (P, gd, q) ms" "read_pos q = 0" "unat (write_pos q) + 1 = unat (num_of_data_segments q)"
  shows "\<exists>s'. push_2 h (P, gd, q) [[]] = (0, s') \<and> peek_2 h s' = (-1, None, s')"
proof -
  let ?n = "num_of_data_segments q" and ?seg = "segment_size_2 P"
  let ?q1 = "q\<lparr>payload := set_buffer_mgmt (payload q) (unat (write_pos q)) 0, write_pos := 0\<rparr>"
  from assms(1) have bound: "queue_bound_2 P gd q" and rep: "ring_rep ?seg ?seg ?n q ms"
    by (simp_all add: holds_2_def)
  note pos = ring_rep_positions [OF rep]
  have "isThereEnoughMemoryInQueue ?n (write_pos q) 0 0"
    using assms(3) by (simp add: isThereEnoughMemoryInQueue_def)
  then have "push_core ?seg ?seg ?n q [[]] = (0, ?q1)"
    using push_core_empty_message [OF pos(3,2), of "[[]]"] assms(2,3) by simp
  then have push: "push_2 h (P, gd, q) [[]] = (0, P, gd, ?q1)" by (simp add: core_2(1) [OF bound rep])
  have "peek_2 h (P, gd, ?q1) = (-1, None, P, gd, ?q1)"
    using bound_position_2 [OF bound rep] assms(2)
    by (simp add: peek_2_def peekToQueue_2_def peek_core_def isGetPossitionSucceccful_2_def positions_ok_def
        split: prod.split)
  with push show ?thesis by blast
qed

theorem empty_message_hides_queue_witness:
  "\<exists>q s'. holds_2 (sample_process, sample_data 2, q) [[7]]
     \<and> push_2 sample_host (sample_process, sample_data 2, q) [[]] = (0, s') \<and> peek_2 sample_host s' = (-1, None, s')"
proof -
  have geom: "geometry_ok 1024 1024 2" by (simp add: geometry_ok_def ring_constants)
  have m: "valid_msg (concat [[7]])" "nsegs 1024 (concat [[7 :: u8]]) = 1"
    by (simp_all add: valid_msg_def max_write_size_def getNumOfDataSegmentsNeeded_def)
  note room = room_before_end [OF sample_rep_2 [OF geom] m(1)]
  from push_2_appends [OF sample_holds_2 [OF geom] m(1), of sample_host] room m(2) obtain s where
    s: "push_2 sample_host (sample_process, sample_data 2, sample_queue_2 2) [[7]] = (0, s)" "holds_2 s [[7]]"
    by (auto simp: room_2_def sample_process_def)
  obtain q where core: "push_core 1024 1024 2 (sample_queue_2 2) [[7]] = (0, q)"
    and q: "s = (sample_process, sample_data 2, q)"
    using s(1) core_2(1) [of sample_process "sample_data 2" "sample_queue_2 2" 1024 1024 "[]"] sample_holds_2 [OF geom]
    by (auto simp: holds_2_def sample_process_def split: prod.splits)
  have "write_pos q = 1" "read_pos q = 0" "num_of_data_segments q = 2"
    using room(2) m(2) push_core_frame [OF core] by (simp_all add: core)
  with empty_message_hides_queue [of sample_process "sample_data 2" q "[[7]]" sample_host] s(2) q
  show ?thesis by auto
qed

section \<open>Marks that run into the data\<close>

text \<open>Small segments leave room for 512 marks; the mark of segment 512 is the first data of segment 0.\<close>

lemma push_one_byte:
  assumes "read_pos q = 0" "write_pos q = of_nat w" "w + 1 < unat n"
  shows "push_core seg 1024 n q [[b]] =
    (0, q\<lparr>payload := memcpy (set_buffer_mgmt (payload q) w 1) (getDataSegmentAddress seg w) [b],
          write_pos := of_nat (w + 1)\<rparr>)"
proof -
  have n: "unat n < 65536" by (rule unat_u16_less)
  then have w: "unat (of_nat w :: u16) = w" "unat (of_nat (w + 1) :: u16) = w + 1"
    using assms(3) by (simp_all del: of_nat_Suc of_nat_add)
  have "\<not> n \<le> of_nat w" using assms(3) w(1) by (simp add: word_le_nat_alt)
  moreover have "isThereEnoughMemoryInQueue n (of_nat w) 0 1"
    using assms(3) w(1) by (simp add: isThereEnoughMemoryInQueue_def)
  moreover have "(of_nat (Suc 0) :: u16) = 1" by simp
  ultimately show ?thesis
    using assms w
    by (simp add: push_core_def getNumOfDataSegmentsNeeded_def max_write_size_def Let_def fill_mgmt_none max_def
        del: of_nat_Suc of_nat_add)
qed

definition overlap_state :: "memory \<Rightarrow> nat \<Rightarrow> channel_2" where
  "overlap_state p w = (sample_process, sample_data 2000, (sample_queue_2 2000)\<lparr>payload := p, write_pos := of_nat w\<rparr>)"

lemma overlap_push:
  assumes "w < 1999"
  shows "push_2 h (overlap_state p w) [[b]] =
    (0, overlap_state (memcpy (set_buffer_mgmt p w 1) (getDataSegmentAddress 1024 w) [b]) (Suc w))"
proof -
  have "(of_nat w :: u16) \<le> 2000" using assms by (simp add: word_le_nat_alt)
  then show ?thesis
    using push_one_byte [of "(sample_queue_2 2000)\<lparr>payload := p, write_pos := of_nat w\<rparr>" w 2000 1024 b] assms
    by (simp add: overlap_state_def push_2_def pushBuffersToQueue_2_def isGetPossitionSucceccful_2_def
        positions_ok_def sample_process_def sample_data_def)
qed

lemma overlap_run:
  assumes "i \<le> 512"
  shows "\<exists>p. push_all (push_2 h) (overlap_state p0 0) (replicate i [[b]]) = (replicate i 0, overlap_state p i)
    \<and> (0 < i \<longrightarrow> buffer_mgmt p 0 = 1)"
  using assms
proof (induction i)
  case (Suc i)
  then obtain p where run: "push_all (push_2 h) (overlap_state p0 0) (replicate i [[b]]) = (replicate i 0, overlap_state p i)"
    "0 < i \<longrightarrow> buffer_mgmt p 0 = 1" by auto
  let ?p = "memcpy (set_buffer_mgmt p i 1) (getDataSegmentAddress 1024 i) [b]"
  have "push_all (push_2 h) (overlap_state p0 0) (replicate (Suc i) [[b]]) = (replicate (Suc i) 0, overlap_state ?p (Suc i))"
    unfolding replicate_Suc replicate_append_same [symmetric] push_all_append run(1)
    using overlap_push [of i h p b] Suc.prems by simp
  moreover have "buffer_mgmt ?p 0 = 1"
    using run(2) by (simp add: buffer_mgmt_memcpy buffer_mgmt_set getDataSegmentAddress_def)
  ultimately show ?case by blast
next
  case 0
  then show ?case by (intro exI [of _ p0]) simp
qed

text \<open>
  C39. The nginx module asks for 2000 segments, which creation accepts for either segment size,
  but the marks of more than 512 of the small segments do not fit into the management
  segment: after 513 accepted one-byte messages the first message read back is the mark of the
  last one, the byte 1, whatever was sent.
\<close>

theorem marks_overwrite_data:
  "2000 \<le> max_num_of_data_segments
    \<and> (\<exists>s'. push_all (push_2 h) (sample_process, sample_data 2000, sample_queue_2 2000) (replicate 513 [[b]])
           = (replicate 513 0, s')
        \<and> fst (drain (peek_2 h) (pop_2 h) 1 s') = [[1]])"
proof -
  let ?initial = "payload (sample_queue_2 2000)"
  have start: "(sample_process, sample_data 2000, sample_queue_2 2000) = overlap_state ?initial 0"
    by (simp add: overlap_state_def)
  from overlap_run [of 512 h ?initial b] obtain p where
    run: "push_all (push_2 h) (overlap_state ?initial 0) (replicate 512 [[b]]) = (replicate 512 0, overlap_state p 512)"
    "buffer_mgmt p 0 = 1" by auto
  let ?p = "memcpy (set_buffer_mgmt p 512 1) (getDataSegmentAddress 1024 512) [b]"
  have snoc: "replicate 513 x = replicate 512 x @ [x]" for x :: 'z
    using replicate_append_same [of 512 x] by (simp flip: replicate_Suc)
  have all: "push_all (push_2 h) (overlap_state ?initial 0) (replicate 513 [[b]]) = (replicate 513 0, overlap_state ?p 513)"
    unfolding snoc push_all_append run(1) using overlap_push [of 512 h p b] by simp
  have mark: "buffer_mgmt ?p 0 = 1"
    using run(2) by (simp add: buffer_mgmt_memcpy buffer_mgmt_set getDataSegmentAddress_def)
  have "?p 1024 = 1"
    by (simp add: memcpy_def getDataSegmentAddress_def set_buffer_mgmt_def put16_def)
  with mark have "\<exists>s. peek_2 h (overlap_state ?p 513) = (0, Some [1], s)"
    by (simp add: overlap_state_def peek_2_def peekToQueue_2_def isGetPossitionSucceccful_2_def positions_ok_def
        sample_process_def sample_data_def peek_core_def skip_buff_mgmt_magic_def getDataSegmentAddress_def read_bytes_def)
  then have "fst (drain (peek_2 h) (pop_2 h) 1 (overlap_state ?p 513)) = [[1]]" by auto
  with all show ?thesis unfolding start by (auto simp: ring_constants)
qed

section \<open>Segment sizes\<close>

text \<open>
  A process of the first library that negotiates with the segment-size variable unset uses
  one size: the entry size that splits messages is the size of the data segments, and it is
  one of the two released sizes, whatever the deployment and the agent metadata say.
\<close>

theorem negotiation_consistent:
  assumes "environ G effective_size_var = None" "\<not> g_effective_size_initialized G" "g_effective_entry_size G = 0"
  shows "fst (getEffectiveEntrySize h (snd (getEffectiveSegmentSize h G))) = fst (getEffectiveSegmentSize h G)
    \<and> unat (fst (getEffectiveSegmentSize h G)) \<in> {SHARED_MEMORY_SEGMENT_ENTRY_SIZE, SHARED_MEMORY_SEGMENT_ENTRY_SIZE_BC}"
  using sizes_agree [OF assms] by blast

theorem negotiation_consistent_witness:
  "fst (getEffectiveEntrySize sample_dual_host (snd (getEffectiveSegmentSize sample_dual_host fresh_globals)))
     = fst (getEffectiveSegmentSize sample_dual_host fresh_globals)"
  using negotiation_consistent [of fresh_globals sample_dual_host] by (simp add: fresh_globals_def)

text \<open>
  With the variable set in a process outside the two-container deployment, the first
  library uses its value for the data segments but still splits messages into entries of 4096
  bytes: every value below 4096 gives messages one segment that is shorter than they are.
\<close>

theorem variable_splits_sizes:
  assumes "environ G effective_size_var = Some v" "atoi v = int sz" "0 < sz" "sz < SHARED_MEMORY_SEGMENT_ENTRY_SIZE"
    and "\<not> g_effective_size_initialized G" "g_effective_entry_size G = 0" "\<not> g_docker_env_initialized G"
    and "\<not> dual_docker_nginx_file h" "environ G nano_agent_var = None"
  shows "unat (fst (getEffectiveSegmentSize h G)) = sz
    \<and> unat (fst (getEffectiveEntrySize h (snd (getEffectiveSegmentSize h G)))) = SHARED_MEMORY_SEGMENT_ENTRY_SIZE
    \<and> getNumOfDataSegmentsNeeded (unat (fst (getEffectiveEntrySize h (snd (getEffectiveSegmentSize h G))))) (sz + 1) = 1"
proof -
  have "getEffectiveSegmentSize h G = (of_nat sz, G\<lparr>g_effective_size_initialized := True, g_effective_segment_size := of_nat sz\<rparr>)"
    using assms(1-3,5) by (simp add: getEffectiveSegmentSize_def)
  moreover have "unat (of_nat sz :: u16) = sz" using assms(4) by (simp add: SHARED_MEMORY_SEGMENT_ENTRY_SIZE_def)
  ultimately show ?thesis
    using assms(3,4,6-9)
    by (simp add: getEffectiveEntrySize_def isLargerDataSegmentSupported_def initializeDockerEnvironment_def
        negotiated_size_def SHARED_MEMORY_SEGMENT_ENTRY_SIZE_def getNumOfDataSegmentsNeeded_def Let_def
        div_nat_eqI)
qed

theorem variable_splits_sizes_witness:
  "let G = fresh_globals\<lparr>environ := [effective_size_var \<mapsto> ''2048'']\<rparr>
   in unat (fst (getEffectiveSegmentSize sample_host G)) = 2048
    \<and> unat (fst (getEffectiveEntrySize sample_host (snd (getEffectiveSegmentSize sample_host G)))) = 4096"
proof -
  have "atoi ''2048'' = int 2048" by (simp add: atoi_def atoi_signed_def is_space_def)
  with variable_splits_sizes [of "fresh_globals\<lparr>environ := [effective_size_var \<mapsto> ''2048'']\<rparr>" "''2048''" 2048 sample_host]
  show ?thesis
    by (simp add: fresh_globals_def sample_host_def nano_agent_var_def effective_size_var_def
        SHARED_MEMORY_SEGMENT_ENTRY_SIZE_def Let_def)
qed

section \<open>Registration of queues\<close>

text \<open>
  The table of queue parameters: parameters added under a name are returned by every later
  lookup of that name, whatever other queues are added and removed in between.
\<close>

theorem registered_parameters_survive:
  assumes "table_ok G" "length name < MAX_ONE_WAY_QUEUE_NAME_LENGTH" "fst (addQueueParams G name n m fd) = Some x"
    and "list_all (\<lambda>x. length (op_key x) < MAX_ONE_WAY_QUEUE_NAME_LENGTH) ops" "name \<notin> op_key ` set ops"
  shows "getQueueParams (run_ops add_params removeQueueParams (snd (addQueueParams G name n m fd)) ops) name = Some x"
  using queue_table.added_survives [of G name "(n, m, fd)" x ops] assms by (simp add: add_params_def comp_def)

theorem registered_parameters_survive_witness:
  "\<exists>x. getQueueParams (run_ops add_params removeQueueParams (snd (addQueueParams fresh_globals ''q'' 4 100 3))
          [Add ''r'' (5, 200, 4), Remove ''r'']) ''q'' = Some x"
proof -
  have ok: "table_ok fresh_globals" by (rule table_ok_initial) (simp add: fresh_globals_def)
  obtain x where "fst (addQueueParams fresh_globals ''q'' 4 100 3) = Some x"
    using add_params_slot [OF ok, of "''q''" 4 100 3] fresh_slot by (auto simp: slot_available_def)
  from registered_parameters_survive [OF ok _ this, of "[Add ''r'' (5, 200, 4), Remove ''r'']"]
  show ?thesis by (auto simp: MAX_ONE_WAY_QUEUE_NAME_LENGTH_def)
qed

text \<open>
  The two ends of a channel find each other: the queue one side sends on is the queue the
  other side receives on, the two queues of a side are different objects, and the names fit
  into the header.
\<close>

theorem queue_names_pair:
  "one_way_queue_name True tx name = one_way_queue_name False (\<not> tx) name
    \<and> one_way_queue_name is_owner True name \<noteq> one_way_queue_name is_owner False name
    \<and> length (one_way_queue_name is_owner tx name) < MAX_ONE_WAY_QUEUE_NAME_LENGTH"
  using queue_name_pairs queue_name_distinct queue_name_length by blast

text \<open>
  C34. An owner whose \<open>initIpc\<close> fails leaves no queue registered: with names that were not
  registered before and a channel name of up to 60 characters, every lookup in the table
  answers as it did before the call, whichever step failed.
\<close>

theorem failed_init_registers_nothing:
  assumes "table_ok G" "length name \<le> 60" "initIpc os h G name True n = (InitNull, G')"
    and "\<forall>tx. getQueueParams G (one_way_queue_name True tx name) = None"
  shows "getQueueParams G' = getQueueParams G"
proof (cases "malloc_ok os")
  case False
  with assms(3) show ?thesis by (simp add: initIpc_def)
next
  case True
  obtain r1 G1 where rx: "createOneWayIPCQueue (rx_calls os) (rx_chmod os) h G name False True n = (r1, G1)" by fastforce
  note reg1 = one_way_registers [OF assms(1,2) rx assms(4) [rule_format]]
  show ?thesis
  proof (cases r1)
    case CreateNull
    with assms(3) True rx reg1(2) show ?thesis
      by (auto simp: initIpc_def destroyIpc_def destroy_queue_def same_registrations_def)
  next
    case CreateFault
    with assms(3) True rx show ?thesis by (simp add: initIpc_def)
  next
    case (Created q)
    obtain r2 G2 where tx: "createOneWayIPCQueue (tx_calls os) (tx_chmod os) h G1 name True True n = (r2, G2)" by fastforce
    have "table_ok G1" "getQueueParams G1 (one_way_queue_name True True name) = None"
      using reg1(1) assms(4) queue_name_distinct [of True name] by (simp_all add: registers_only_def)
    note reg2 = one_way_registers(2) [OF this(1) assms(2) tx this(2)]
    have r2: "r2 = CreateNull" "G' = snd (destroyIpc G2 (Some \<lparr>shm_name = [], rx_queue = Some q, tx_queue = None\<rparr>) True)"
      using assms(3) True rx tx Created by (simp_all add: initIpc_def split: create_result.splits)
    have "registers_only G (one_way_queue_name True False name) G2"
      using reg1(1) reg2 r2(1) by (simp add: registers_only_def same_registrations_def)
    from destroy_restores [OF this assms(4) [rule_format] reg1(3) [OF Created] queue_name_length] r2(2) show ?thesis
      by (simp add: destroyIpc_def destroy_queue_def same_registrations_def split_beta split: option.splits)
  qed
qed

text \<open>The second queue of the sample call fails, after the first one was created and registered.\<close>

definition sample_ipc_calls :: ipc_calls where
  "sample_ipc_calls = \<lparr>malloc_ok = True, rx_calls = sample_calls sample_object, rx_chmod = True,
     tx_calls = (sample_calls sample_object)\<lparr>shm_open := \<lambda>_ _. -1\<rparr>, tx_chmod = True\<rparr>"

lemma sample_init_fails: "\<exists>G'. initIpc sample_ipc_calls sample_host fresh_globals ''x'' True 4 = (InitNull, G')"
proof -
  let ?name = "one_way_queue_name True False ''x''"
  have max: "4 \<le> max_num_of_data_segments" by (simp add: ring_constants)
  have slot: "slot_available fresh_globals ?name"
    using fresh_slot queue_name_length [of True False "''x''"]
    by (simp add: slot_available_def fresh_globals_def table_def initializeQueueParams_def free_params_def MAX_QUEUES_def
        exI [of _ 0])
  from createSharedRingQueue_created [OF max sample_calls_succeed slot, where h = sample_host and is_owner = True]
  obtain q G1 where "createSharedRingQueue (sample_calls sample_object) sample_host fresh_globals ?name 4 True = (Created q, G1)"
    by blast
  moreover have "\<not> length ''/dev/shm/'' + length ?name < length (direction_name True False) + length ''x''"
    by (simp add: one_way_queue_name_def cstr_trunc_def direction_name_def isTowardsOwner_def)
  ultimately have "createOneWayIPCQueue (sample_calls sample_object) True sample_host fresh_globals ''x'' False True 4 = (Created q, G1)"
    by (simp add: createOneWayIPCQueue_def)
  moreover have "\<exists>G2. createOneWayIPCQueue ((sample_calls sample_object)\<lparr>shm_open := \<lambda>_ _. -1\<rparr>) True sample_host G1 ''x'' True True 4
      = (CreateNull, G2)"
    using max by (simp add: createOneWayIPCQueue_def createSharedRingQueue_def Let_def)
  ultimately show ?thesis by (auto simp: initIpc_def sample_ipc_calls_def)
qed

theorem failed_init_registers_nothing_witness:
  "\<exists>G'. initIpc sample_ipc_calls sample_host fresh_globals ''x'' True 4 = (InitNull, G')
     \<and> getQueueParams G' = getQueueParams fresh_globals"
proof -
  obtain G' where init: "initIpc sample_ipc_calls sample_host fresh_globals ''x'' True 4 = (InitNull, G')"
    using sample_init_fails by blast
  have ok: "table_ok fresh_globals" by (rule table_ok_initial) (simp add: fresh_globals_def)
  have "\<forall>tx. getQueueParams fresh_globals (one_way_queue_name True tx ''x'') = None"
    by (simp add: getQueueParams_def fresh_globals_def initializeQueueParams_def MAX_QUEUES_def slot_named_def
        free_params_def numeral_eq_Suc)
  from failed_init_registers_nothing [OF ok _ init this] init show ?thesis by auto
qed

text \<open>
  C9. Channel of the second library: what one side sends with \<open>sendData\<close> into a queue with
  room, the other side, bound to the same queue with the same segment size, finds available,
  receives unchanged with \<open>receiveData\<close> and removes with \<open>popData\<close>, after which no data is
  available.
\<close>

theorem channel_delivers:
  assumes "tx_queue_2 i = Some q" "holds_2 (P, global_data i, q) []" "valid_msg m" "room_2 (P, global_data i, q) m"
    and "queue_bound_2 P2 (global_data j) q" "segment_size_2 P2 = segment_size_2 P"
  shows "\<exists>q' addr q''. sendData_2 h P (Some i) m = (0, P, Some (i\<lparr>tx_queue_2 := Some q'\<rparr>))
    \<and> isDataAvailable_2 (Some (j\<lparr>rx_queue_2 := Some q'\<rparr>))
    \<and> receiveData_2 h2 P2 (Some (j\<lparr>rx_queue_2 := Some q'\<rparr>))
        = Some (0, Some (addr, of_nat (length m)), P2, Some (j\<lparr>rx_queue_2 := Some q''\<rparr>))
    \<and> read_bytes (payload q'') addr (length m) = m
    \<and> (\<exists>q3. popData_2 h2 P2 (Some (j\<lparr>rx_queue_2 := Some q''\<rparr>)) = (0, P2, Some (j\<lparr>rx_queue_2 := Some q3\<rparr>))
         \<and> \<not> isDataAvailable_2 (Some (j\<lparr>rx_queue_2 := Some q3\<rparr>)))"
proof -
  let ?n = "num_of_data_segments q" and ?seg = "segment_size_2 P"
  from assms(2) have b: "queue_bound_2 P (global_data i) q" and rep: "ring_rep ?seg ?seg ?n q []"
    by (simp_all add: holds_2_def)
  have "valid_msg (concat [m])" using assms(3) by simp
  from push_core_appends [OF rep this] assms(4) obtain q' where
    push: "push_core ?seg ?seg ?n q [m] = (0, q')" "ring_rep ?seg ?seg ?n q' [m]"
    by (auto simp: room_2_def room_for_def)
  note same = push_core_frame [OF push(1)]
  from peek_core_head [OF push(2)] obtain addr q'' where
    peek: "peek_core ?seg ?n q' = (0, Some (addr, of_nat (length m)), q'')" "read_bytes (payload q'') addr (length m) = m"
    "ring_rep ?seg ?seg ?n q'' [m]" "at_message q''" by blast
  note same' = peek_core_frame [OF peek(1)]
  from pop_core_tail [OF peek(3,4)] obtain q3 where pop: "pop_core ?seg ?n q'' = (0, q3)" "ring_rep ?seg ?seg ?n q3 []" by blast
  have b2: "queue_bound_2 P2 (global_data j) q'" "queue_bound_2 P2 (global_data j) q''"
    using assms(5) same same' by (simp_all add: queue_bound_2_def)
  have "sendData_2 h P (Some i) m = (0, P, Some (i\<lparr>tx_queue_2 := Some q'\<rparr>))"
    using core_2(1) [OF b rep, of h "[m]"] assms(1) push(1)
    by (simp add: sendData_2_def pushToQueue_2_def push_2_def split: prod.splits)
  moreover have "isDataAvailable_2 (Some (j\<lparr>rx_queue_2 := Some q'\<rparr>))"
    using ring_rep_Nil_iff [OF push(2)] by (simp add: isDataAvailable_2_def isQueueEmpty_def)
  moreover have "receiveData_2 h2 P2 (Some (j\<lparr>rx_queue_2 := Some q'\<rparr>))
      = Some (0, Some (addr, of_nat (length m)), P2, Some (j\<lparr>rx_queue_2 := Some q''\<rparr>))"
    using core_2(2) [OF b2(1), of ?seg ?seg "[m]" h2] push(2) same assms(6) peek(1) by (simp add: receiveData_2_def)
  moreover have "popData_2 h2 P2 (Some (j\<lparr>rx_queue_2 := Some q''\<rparr>)) = (0, P2, Some (j\<lparr>rx_queue_2 := Some q3\<rparr>))"
    using core_2(3) [OF b2(2), of ?seg ?seg "[m]" h2] peek(3) same same' assms(6) pop(1)
    by (simp add: popData_2_def pop_2_def split: prod.splits)
  moreover have "\<not> isDataAvailable_2 (Some (j\<lparr>rx_queue_2 := Some q3\<rparr>))"
    using ring_rep_Nil_iff [OF pop(2)] by (simp add: isDataAvailable_2_def isQueueEmpty_def)
  ultimately show ?thesis using peek(2) by blast
qed

definition sample_channel :: SharedMemoryIPC_2 where
  "sample_channel = \<lparr>shm_name_2 = ''c'', rx_queue_2 = None, tx_queue_2 = Some (sample_queue_2 4),
     global_data = sample_data 4, logging_data = \<lparr>log_dbg_level = 0, log_worker_id = 0, log_fd = 0\<rparr>\<rparr>"

theorem channel_delivers_witness:
  "\<exists>q' addr q''. sendData_2 sample_host sample_process (Some sample_channel) [1, 2, 3]
      = (0, sample_process, Some (sample_channel\<lparr>tx_queue_2 := Some q'\<rparr>))
    \<and> receiveData_2 sample_host sample_process (Some (sample_channel\<lparr>rx_queue_2 := Some q'\<rparr>))
      = Some (0, Some (addr, 3), sample_process, Some (sample_channel\<lparr>rx_queue_2 := Some q''\<rparr>))
    \<and> read_bytes (payload q'') addr 3 = [1, 2, 3]"
proof -
  have geom: "geometry_ok 1024 1024 4" by (simp add: geometry_ok_def ring_constants)
  have m: "valid_msg [1, 2, 3]" by (simp add: valid_msg_def max_write_size_def)
  have h: "holds_2 (sample_process, global_data sample_channel, sample_queue_2 4) []"
    using sample_holds_2 [OF geom] by (simp add: sample_channel_def)
  have room: "room_2 (sample_process, global_data sample_channel, sample_queue_2 4) [1, 2, 3]"
    using room_before_end(1) [OF sample_rep_2 [OF geom], of "[[1, 2, 3]]"] m
    by (simp add: room_2_def sample_process_def getNumOfDataSegmentsNeeded_def)
  have "queue_bound_2 sample_process (global_data sample_channel) (sample_queue_2 4)"
    using h by (simp add: holds_2_def)
  from channel_delivers [OF _ h m room this, of sample_host sample_host] show ?thesis
    by (auto simp: sample_channel_def numeral_3_eq_3)
qed

end
