(* ===== verification/Nano_Common.thy ===== *)
theory Nano_Common
  imports Shmem_Ipc_2
begin

text \<open>
  The data of the nano attachment, from \<open>core/include/attachments/nano_attachment_common.h\<close>
  and \<open>nano_initializer.h\<close>: the enumerations, the structures that pass between the parts, and
  the state of an attachment. \<open>SessionID\<close> is a 32-bit word, the C pointers to optional data
  are options, and linked lists are lists.
\<close>

section \<open>Enumerations\<close>

datatype NanoCommunicationResult =
    NANO_OK | NANO_ERROR | NANO_ABORT | NANO_AGAIN | NANO_HTTP_FORBIDDEN | NANO_DECLINED | NANO_TIMEOUT

datatype (plugins only:) AttachmentMetricType =
    TRANSPARENTS_COUNT | TOTAL_TRANSPARENTS_TIME | INSPECTION_OPEN_FAILURES_COUNT
  | INSPECTION_CLOSE_FAILURES_COUNT | INSPECTION_SUCCESSES_COUNT | INJECT_VERDICTS_COUNT
  | DROP_VERDICTS_COUNT | ACCEPT_VERDICTS_COUNT | IRRELEVANT_VERDICTS_COUNT | RECONF_VERDICTS_COUNT
  | INSPECT_VERDICTS_COUNT | HOLD_VERDICTS_COUNT | AVERAGE_OVERALL_PPROCESSING_TIME_UNTIL_VERDICT
  | MAX_OVERALL_PPROCESSING_TIME_UNTIL_VERDICT | MIN_OVERALL_PPROCESSING_TIME_UNTIL_VERDICT
  | AVERAGE_REQ_PPROCESSING_TIME_UNTIL_VERDICT | MAX_REQ_PPROCESSING_TIME_UNTIL_VERDICT
  | MIN_REQ_PPROCESSING_TIME_UNTIL_VERDICT | AVERAGE_RES_PPROCESSING_TIME_UNTIL_VERDICT
  | MAX_RES_PPROCESSING_TIME_UNTIL_VERDICT | MIN_RES_PPROCESSING_TIME_UNTIL_VERDICT | THREAD_TIMEOUT
  | REG_THREAD_TIMEOUT | REQ_METADATA_THREAD_TIMEOUT | REQ_HEADER_THREAD_TIMEOUT
  | REQ_BODY_THREAD_TIMEOUT | REQ_END_THREAD_TIMEOUT | AVERAGE_REQ_BODY_SIZE_UPON_TIMEOUT
  | MAX_REQ_BODY_SIZE_UPON_TIMEOUT | MIN_REQ_BODY_SIZE_UPON_TIMEOUT | RES_HEADER_THREAD_TIMEOUT
  | RES_BODY_THREAD_TIMEOUT | RES_END_THREAD_TIMEOUT | HOLD_THREAD_TIMEOUT
  | AVERAGE_RES_BODY_SIZE_UPON_TIMEOUT | MAX_RES_BODY_SIZE_UPON_TIMEOUT
  | MIN_RES_BODY_SIZE_UPON_TIMEOUT | THREAD_FAILURE | REQ_PROCCESSING_TIMEOUT
  | RES_PROCCESSING_TIMEOUT | REQ_FAILED_TO_REACH_UPSTREAM | REQ_FAILED_COMPRESSION_COUNT
  | RES_FAILED_COMPRESSION_COUNT | REQ_FAILED_DECOMPRESSION_COUNT | RES_FAILED_DECOMPRESSION_COUNT
  | REQ_SUCCESSFUL_COMPRESSION_COUNT | RES_SUCCESSFUL_COMPRESSION_COUNT
  | REQ_SUCCESSFUL_DECOMPRESSION_COUNT | RES_SUCCESSFUL_DECOMPRESSION_COUNT
  | CORRUPTED_ZIP_SKIPPED_SESSION_COUNT | CPU_USAGE | AVERAGE_VM_MEMORY_USAGE
  | AVERAGE_RSS_MEMORY_USAGE | MAX_VM_MEMORY_USAGE | MAX_RSS_MEMORY_USAGE | REQUEST_OVERALL_SIZE_COUNT
  | RESPONSE_OVERALL_SIZE_COUNT

datatype AttachmentDataType =
    REQUEST_START | REQUEST_HEADER | REQUEST_BODY | REQUEST_END | RESPONSE_CODE | RESPONSE_HEADER
  | RESPONSE_BODY | RESPONSE_END | CONTENT_LENGTH | METRIC_DATA_FROM_PLUGIN | REQUEST_DELAYED_VERDICT

text \<open>A verdict comes from the service as a number; \<open>OTHER_VERDICT\<close> is a number without a name.\<close>

datatype ServiceVerdict =
    TRAFFIC_VERDICT_INSPECT | TRAFFIC_VERDICT_ACCEPT | TRAFFIC_VERDICT_DROP | TRAFFIC_VERDICT_INJECT
  | TRAFFIC_VERDICT_IRRELEVANT | TRAFFIC_VERDICT_RECONF | TRAFFIC_VERDICT_DELAYED
  | LIMIT_RESPONSE_HEADERS | TRAFFIC_VERDICT_CUSTOM_RESPONSE | OTHER_VERDICT u16

datatype AttachmentVerdict =
    ATTACHMENT_VERDICT_INSPECT | ATTACHMENT_VERDICT_ACCEPT | ATTACHMENT_VERDICT_DROP
  | ATTACHMENT_VERDICT_INJECT | ATTACHMENT_VERDICT_DELAYED

datatype NanoWebResponseType =
    CUSTOM_WEB_RESPONSE | CUSTOM_WEB_BLOCK_PAGE_RESPONSE | RESPONSE_CODE_ONLY | REDIRECT_WEB_RESPONSE
  | CUSTOM_RESPONSE_WITH_HEADERS | NO_WEB_RESPONSE

datatype nano_attachment_registration_state = NOT_REGISTERED | PENDING | REGISTERED

datatype SignalUsageMode = SIGNAL_USAGE_SYNC | SIGNAL_USAGE_ASYNC

datatype TransactionType = START | REQUEST | RESPONSE | METRICS | REGISTRATION

text \<open>
  An inspection mode and a debug level come from the configuration file as numbers, and the
  code stores them before it checks them, so they stay numbers.
\<close>

definition NON_BLOCKING_THREAD :: u32 where "NON_BLOCKING_THREAD = 0"
definition BLOCKING_THREAD :: u32 where "BLOCKING_THREAD = 1"
definition NO_THREAD :: u32 where "NO_THREAD = 2"
definition INSPECTION_MODE_COUNT :: u32 where "INSPECTION_MODE_COUNT = 3"
definition DBG_LEVEL_COUNT :: u32 where "DBG_LEVEL_COUNT = 6"

lemmas inspection_modes =
  NON_BLOCKING_THREAD_def BLOCKING_THREAD_def NO_THREAD_def INSPECTION_MODE_COUNT_def

definition service_verdict :: "u16 \<Rightarrow> ServiceVerdict" where
  "service_verdict w =
     (if w = 0 then TRAFFIC_VERDICT_INSPECT else if w = 1 then TRAFFIC_VERDICT_ACCEPT
      else if w = 2 then TRAFFIC_VERDICT_DROP else if w = 3 then TRAFFIC_VERDICT_INJECT
      else if w = 4 then TRAFFIC_VERDICT_IRRELEVANT else if w = 5 then TRAFFIC_VERDICT_RECONF
      else if w = 6 then TRAFFIC_VERDICT_DELAYED else if w = 7 then LIMIT_RESPONSE_HEADERS
      else if w = 8 then TRAFFIC_VERDICT_CUSTOM_RESPONSE else OTHER_VERDICT w)"

fun data_type_code :: "AttachmentDataType \<Rightarrow> u16" where
  "data_type_code REQUEST_START = 0"
| "data_type_code REQUEST_HEADER = 1"
| "data_type_code REQUEST_BODY = 2"
| "data_type_code REQUEST_END = 3"
| "data_type_code RESPONSE_CODE = 4"
| "data_type_code RESPONSE_HEADER = 5"
| "data_type_code RESPONSE_BODY = 6"
| "data_type_code RESPONSE_END = 7"
| "data_type_code CONTENT_LENGTH = 8"
| "data_type_code METRIC_DATA_FROM_PLUGIN = 9"
| "data_type_code REQUEST_DELAYED_VERDICT = 10"

section \<open>Structures\<close>

type_synonym SessionID = u32

record HttpInjectData =
  injection_pos :: u64
  mod_type :: u32
  injection_size :: u16
  is_header :: u8
  orig_buff_index :: u8

record NanoHttpModification =
  modification :: HttpInjectData
  modification_buffer :: bytes

text \<open>
  What the \<open>data\<close> pointer of a web response refers to; a \<open>NULL\<close> body is \<open>None\<close>. The
  \<open>uuid\<close> of a web response is \<open>None\<close> when the allocated array is not written.
\<close>

datatype response_payload =
    CustomResponseData u16 bytes bytes
  | ResponseCode u16
  | RedirectData bytes
  | CustomResponseWithHeaders u16 "(bytes \<times> bytes) list" "bytes option"

record WebResponseData =
  web_response_type :: NanoWebResponseType
  wr_uuid :: "bytes option"
  wr_data :: response_payload

record AttachmentVerdictResponse =
  resp_verdict :: AttachmentVerdict
  resp_session_id :: SessionID
  resp_web_response_data :: "WebResponseData option"
  resp_modifications :: "NanoHttpModification list"

text \<open>
  The processing times are whole microseconds that the code adds up as doubles; such sums are
  exact below \<open>2 ^ 53\<close>, and they are integers here.
\<close>

datatype CompressionType = NO_COMPRESSION | GZIP | ZLIB | BROTLI

record HttpSessionData =
  was_request_fully_inspected :: int
  sd_verdict :: ServiceVerdict
  sd_session_id :: SessionID
  remaining_messages_to_reply :: u32
  compression_type :: CompressionType
  req_proccesing_time :: int
  res_proccesing_time :: int
  processed_req_body_size :: u64
  processed_res_body_size :: u64

record SessionIDQueue =
  sq_queue :: "nat \<Rightarrow> SessionID"
  sq_head :: u32
  sq_tail :: u32
  sq_count :: u32

definition SESSION_ID_QUEUE_SIZE :: u32 where
  "SESSION_ID_QUEUE_SIZE = 1024"

definition CP_ASYNC_CTX_BUCKETS :: u32 where
  "CP_ASYNC_CTX_BUCKETS = 2048"

section \<open>The attachment\<close>

text \<open>The fields the configuration sets.\<close>

record attachment_config =
  fail_mode_verdict :: NanoCommunicationResult
  fail_mode_delayed_verdict :: NanoCommunicationResult
  dbg_level :: u32
  fail_open_timeout :: u32
  fail_open_delayed_timeout :: u32
  sessions_per_minute_limit_verdict :: AttachmentVerdict
  max_sessions_per_minute :: u32
  req_max_proccessing_ms_time :: u32
  res_max_proccessing_ms_time :: u32
  registration_thread_timeout_msec :: u32
  req_start_thread_timeout_msec :: u32
  req_header_thread_timeout_msec :: u32
  req_body_thread_timeout_msec :: u32
  res_header_thread_timeout_msec :: u32
  res_body_thread_timeout_msec :: u32
  waiting_for_verdict_thread_timeout_msec :: u32
  hold_verdict_retries :: u32
  hold_verdict_polling_time :: u32
  metric_timeout_timeout :: u32
  inspection_mode :: u32
  num_of_nano_ipc_elements :: u32
  keep_alive_interval_msec :: u64
  paired_affinity_enabled :: u64
  is_async_mode_enabled :: u32

text \<open>
  The metrics are arrays indexed by the metric types, the response buckets by the hash values.
  The path of the verdict socket is the array of its 128 characters, since the bytes behind the
  terminator matter when a read into it breaks off.
\<close>

record NanoAttachment = attachment_config +
  unique_id :: string
  container_id :: string
  shared_verdict_signal_path :: bytes
  worker_id :: u8
  num_of_workers :: u8
  nano_user_id :: u32
  nano_group_id :: u32
  num_of_connection_attempts :: u32
  registration_socket :: int
  registration_state :: nano_attachment_registration_state
  attachment_type :: u8
  nano_service_ipc :: "SharedMemoryIPC_2 option"
  nano_service_sync_ipc :: "SharedMemoryIPC_2 option"
  comm_socket :: int
  comm_socket_sync :: int
  is_default_fd :: bool
  logging_fd :: int
  att_logging_data :: LoggingData
  is_configuration_updated :: NanoCommunicationResult
  current_config_version :: u32
  metric_data :: "AttachmentMetricType \<Rightarrow> u64"
  metric_average_data_divisor :: "AttachmentMetricType \<Rightarrow> u64"
  async_buckets :: "nat \<Rightarrow> AttachmentVerdictResponse"
  async_failed_bucket :: SessionIDQueue

end
