(* ===== verification/Nano_Metric.thy ===== *)
theory Nano_Metric
  imports Nano_Common
begin

text \<open>
  The metrics of \<open>nano_attachment_metric.c\<close>: counters, averages, maxima and minima, each kept
  in one 64-bit word. The lemmas say what a sequence of updates leaves in a field.
\<close>

section \<open>Operations\<close>

definition reset_metric_data :: "NanoAttachment \<Rightarrow> NanoAttachment" where
  "reset_metric_data a = a\<lparr>metric_data := (\<lambda>_. 0), metric_average_data_divisor := (\<lambda>_. 0)\<rparr>"

definition updateCounterMetricField :: "NanoAttachment \<Rightarrow> AttachmentMetricType \<Rightarrow> u64 \<Rightarrow> NanoAttachment" where
  "updateCounterMetricField a t value = a\<lparr>metric_data := (metric_data a)(t := metric_data a t + value)\<rparr>"

definition updateAverageMetricField :: "NanoAttachment \<Rightarrow> AttachmentMetricType \<Rightarrow> u64 \<Rightarrow> NanoAttachment" where
  "updateAverageMetricField a t value =
     a\<lparr>metric_data := (metric_data a)(t :=
          (metric_data a t * metric_average_data_divisor a t + value) div (metric_average_data_divisor a t + 1)),
       metric_average_data_divisor :=
          (metric_average_data_divisor a)(t := metric_average_data_divisor a t + 1)\<rparr>"

definition updateMaxMetricField :: "NanoAttachment \<Rightarrow> AttachmentMetricType \<Rightarrow> u64 \<Rightarrow> NanoAttachment" where
  "updateMaxMetricField a t value =
     (if metric_data a t < value then a\<lparr>metric_data := (metric_data a)(t := value)\<rparr> else a)"

definition updateMinMetricField :: "NanoAttachment \<Rightarrow> AttachmentMetricType \<Rightarrow> u64 \<Rightarrow> NanoAttachment" where
  "updateMinMetricField a t value =
     (if metric_data a t = 0 then a\<lparr>metric_data := (metric_data a)(t := value)\<rparr>
      else if metric_data a t > value then a\<lparr>metric_data := (metric_data a)(t := value)\<rparr>
      else a)"

definition average_metrics :: "AttachmentMetricType list" where
  "average_metrics =
     [CPU_USAGE, AVERAGE_VM_MEMORY_USAGE, AVERAGE_RSS_MEMORY_USAGE, AVERAGE_REQ_BODY_SIZE_UPON_TIMEOUT,
      AVERAGE_RES_BODY_SIZE_UPON_TIMEOUT, AVERAGE_OVERALL_PPROCESSING_TIME_UNTIL_VERDICT,
      AVERAGE_REQ_PPROCESSING_TIME_UNTIL_VERDICT, AVERAGE_RES_PPROCESSING_TIME_UNTIL_VERDICT]"

definition max_metrics :: "AttachmentMetricType list" where
  "max_metrics =
     [MAX_VM_MEMORY_USAGE, MAX_RSS_MEMORY_USAGE, MAX_REQ_BODY_SIZE_UPON_TIMEOUT, MAX_RES_BODY_SIZE_UPON_TIMEOUT,
      MAX_OVERALL_PPROCESSING_TIME_UNTIL_VERDICT, MAX_REQ_PPROCESSING_TIME_UNTIL_VERDICT,
      MAX_RES_PPROCESSING_TIME_UNTIL_VERDICT]"

definition min_metrics :: "AttachmentMetricType list" where
  "min_metrics =
     [MIN_REQ_BODY_SIZE_UPON_TIMEOUT, MIN_RES_BODY_SIZE_UPON_TIMEOUT, MIN_OVERALL_PPROCESSING_TIME_UNTIL_VERDICT,
      MIN_REQ_PPROCESSING_TIME_UNTIL_VERDICT, MIN_RES_PPROCESSING_TIME_UNTIL_VERDICT]"

definition updateMetricField :: "NanoAttachment \<Rightarrow> AttachmentMetricType \<Rightarrow> u64 \<Rightarrow> NanoAttachment" where
  "updateMetricField a metric_type value =
     (if metric_type \<in> set average_metrics then
        (if value \<noteq> 0 then updateAverageMetricField a metric_type value else a)
      else if metric_type \<in> set max_metrics then
        (if value \<noteq> 0 then updateMaxMetricField a metric_type value else a)
      else if metric_type \<in> set min_metrics then
        (if value \<noteq> 0 then updateMinMetricField a metric_type value else a)
      else updateCounterMetricField a metric_type value)"

section \<open>What an update leaves\<close>

lemmas metric_updates =
  updateCounterMetricField_def updateAverageMetricField_def updateMaxMetricField_def updateMinMetricField_def

lemma metric_other_fields [simp]:
  "fail_mode_verdict (updateMetricField a t v) = fail_mode_verdict a"
  "inspection_mode (updateMetricField a t v) = inspection_mode a"
  "async_failed_bucket (updateMetricField a t v) = async_failed_bucket a"
  "async_buckets (updateMetricField a t v) = async_buckets a"
  "is_async_mode_enabled (updateMetricField a t v) = is_async_mode_enabled a"
  by (simp_all add: updateMetricField_def metric_updates)

lemma metric_other_types:
  "t' \<noteq> t \<Longrightarrow> metric_data (updateMetricField a t v) t' = metric_data a t'"
  by (simp add: updateMetricField_def metric_updates)

lemma metric_classes_disjoint:
  "set max_metrics \<inter> set average_metrics = {}" "set min_metrics \<inter> set average_metrics = {}"
  "set min_metrics \<inter> set max_metrics = {}"
  by (simp_all add: average_metrics_def max_metrics_def min_metrics_def)

text \<open>The updates of one metric with a list of values, from a reset attachment.\<close>

definition update_all :: "NanoAttachment \<Rightarrow> AttachmentMetricType \<Rightarrow> u64 list \<Rightarrow> NanoAttachment" where
  "update_all a t vs = foldl (\<lambda>b v. updateMetricField b t v) a vs"

lemma update_all_snoc [simp]: "update_all a t (vs @ [v]) = updateMetricField (update_all a t vs) t v"
  by (simp add: update_all_def)

lemma update_all_Nil [simp]: "update_all a t [] = a"
  by (simp add: update_all_def)

lemma max_after_updates:
  assumes "t \<in> set max_metrics"
  shows "metric_data (update_all (reset_metric_data a) t vs) t = fold max vs 0"
proof (induction vs rule: rev_induct)
  case (snoc v vs)
  with assms metric_classes_disjoint show ?case
    by (auto simp: updateMetricField_def updateMaxMetricField_def max_def)
qed (simp add: reset_metric_data_def)

text \<open>A minimum metric is the least of the values that are not zero, and zero when there are none.\<close>

fun least_nonzero :: "u64 list \<Rightarrow> u64" where
  "least_nonzero [] = 0"
| "least_nonzero (v # vs) =
     (let m = least_nonzero vs in if v = 0 then m else if m = 0 then v else min v m)"

lemma least_nonzero_snoc:
  "least_nonzero (vs @ [v]) =
     (let m = least_nonzero vs in if v = 0 then m else if m = 0 then v else min m v)"
proof (induction vs)
  case (Cons w vs)
  have "min w v = 0 \<longleftrightarrow> w = 0 \<or> v = 0" for w v :: u64
    by (auto simp: min_def word_le_0_iff)
  with Cons show ?case by (auto simp: Let_def min.assoc min.commute min.left_commute split: if_splits)
qed simp

lemma min_after_updates:
  assumes "t \<in> set min_metrics"
  shows "metric_data (update_all (reset_metric_data a) t vs) t = least_nonzero vs"
proof (induction vs rule: rev_induct)
  case (snoc v vs)
  with assms metric_classes_disjoint show ?case
    by (auto simp: updateMetricField_def updateMinMetricField_def least_nonzero_snoc Let_def min_def)
qed (simp add: reset_metric_data_def)

lemma counter_after_updates:
  assumes "t \<notin> set average_metrics" "t \<notin> set max_metrics" "t \<notin> set min_metrics"
  shows "metric_data (update_all (reset_metric_data a) t vs) t = sum_list vs"
proof (induction vs rule: rev_induct)
  case (snoc v vs)
  with assms show ?case by (simp add: updateMetricField_def updateCounterMetricField_def)
qed (simp add: reset_metric_data_def)

text \<open>
  An average stays between the least and the greatest value as long as the running product
  fits into 64 bits.
\<close>

lemma average_step_bounds:
  assumes "lo \<le> unat avg" "unat avg \<le> hi" "lo \<le> unat v" "unat v \<le> hi" "hi * Suc n < 2 ^ 64"
  shows "lo \<le> unat ((avg * of_nat n + v) div (of_nat n + 1) :: u64)"
    and "unat ((avg * of_nat n + v) div (of_nat n + 1) :: u64) \<le> hi"
    and "hi \<noteq> 0 \<Longrightarrow> unat (of_nat n :: u64) = n"
proof -
  have sum: "unat avg * n + unat v \<le> hi * Suc n" "lo * Suc n \<le> unat avg * n + unat v"
    unfolding mult_Suc_right
    using mult_le_mono1 [OF assms(2), of n] mult_le_mono1 [OF assms(1), of n] assms(3,4) by linarith+
  show un: "unat (of_nat n :: u64) = n" if "hi \<noteq> 0"
  proof -
    have "n < hi * Suc n" using that by (cases hi) simp_all
    with assms(5) show ?thesis by (simp add: unat_of_nat take_bit_nat_eq_self)
  qed
  show "lo \<le> unat ((avg * of_nat n + v) div (of_nat n + 1) :: u64)"
    and "unat ((avg * of_nat n + v) div (of_nat n + 1) :: u64) \<le> hi"
  proof -
    have "lo \<le> unat q \<and> unat q \<le> hi" if q: "q = (avg * of_nat n + v) div (of_nat n + 1)" for q :: u64
    proof (cases "hi = 0")
      case True
      with assms have "avg = 0" "v = 0" "lo = 0" by (simp_all add: unat_eq_zero)
      with q True show ?thesis by simp
    next
      case False
      have "Suc n < 2 ^ 64" using assms(5) False by (cases hi) simp_all
      then have den: "unat (of_nat n + 1 :: u64) = Suc n"
        using unat_of_nat_u64 [of "Suc n"] by (simp add: add.commute)
      have "unat (avg * of_nat n) = unat avg * n"
        using sum(1) assms(5) by (simp add: unat_word_ariths un [OF False])
      then have "unat (avg * of_nat n + v) = unat avg * n + unat v"
        using sum(1) assms(5) by (simp add: unat_word_ariths)
      then have "unat q = (unat avg * n + unat v) div Suc n" by (simp add: q unat_div den)
      with sum show ?thesis
        using div_le_mono [OF sum(1), of "Suc n"] div_le_mono [OF sum(2), of "Suc n"]
        by (simp only: nonzero_mult_div_cancel_right Zero_not_Suc simp_thms nat.simps)
    qed
    then show "lo \<le> unat ((avg * of_nat n + v) div (of_nat n + 1) :: u64)"
      and "unat ((avg * of_nat n + v) div (of_nat n + 1) :: u64) \<le> hi" by simp_all
  qed
qed

lemma average_after_updates:
  assumes "t \<in> set average_metrics" "list_all (\<lambda>v. v \<noteq> 0 \<and> lo \<le> unat v \<and> unat v \<le> hi) vs"
    and "vs \<noteq> []" "hi * length vs < 2 ^ 64"
  shows "lo \<le> unat (metric_data (update_all (reset_metric_data a) t vs) t)
    \<and> unat (metric_data (update_all (reset_metric_data a) t vs) t) \<le> hi
    \<and> metric_average_data_divisor (update_all (reset_metric_data a) t vs) t = of_nat (length vs)"
  using assms(2-)
proof (induction vs rule: rev_induct)
  case (snoc v vs)
  let ?b = "update_all (reset_metric_data a) t vs"
  from snoc.prems have v: "v \<noteq> 0" "lo \<le> unat v" "unat v \<le> hi" and len: "hi * Suc (length vs) < 2 ^ 64" by simp_all
  have upd: "metric_data (update_all (reset_metric_data a) t (vs @ [v])) t =
      (metric_data ?b t * metric_average_data_divisor ?b t + v) div (metric_average_data_divisor ?b t + 1)"
    "metric_average_data_divisor (update_all (reset_metric_data a) t (vs @ [v])) t = metric_average_data_divisor ?b t + 1"
    using assms(1) v(1) by (simp_all add: updateMetricField_def updateAverageMetricField_def)
  show ?case
  proof (cases "vs = []")
    case True
    with upd v show ?thesis by (simp add: reset_metric_data_def)
  next
    case False
    have "hi * length vs \<le> hi * Suc (length vs)" by simp
    with len have "hi * length vs < 2 ^ 64" by linarith
    with snoc.IH False snoc.prems(1) have IH: "lo \<le> unat (metric_data ?b t)" "unat (metric_data ?b t) \<le> hi"
      "metric_average_data_divisor ?b t = of_nat (length vs)" by simp_all
    from average_step_bounds(1,2) [OF IH(1,2) v(2,3) len] show ?thesis
      unfolding upd IH(3) by simp
  qed
qed simp

end
