(* ===== verification/Nano_Bucket.thy ===== *)
theory Nano_Bucket
  imports Nano_Metric
begin

text \<open>
  The response buckets and the queue of failed sessions of \<open>nano_attachment_bucket.c\<close>. The
  buckets are a direct-mapped table: one slot per hash value, no check of the session. The
  queue of failed sessions is a circular buffer of 1024 ids, shown to be a bounded FIFO through
  the locale \<open>bounded_fifo\<close>.
\<close>

section \<open>Response buckets\<close>

definition KNUTH_CONSTANT :: u32 where
  "KNUTH_CONSTANT = 2654435761"

definition nano_attachment_async_ctx_hash :: "SessionID \<Rightarrow> u32" where
  "nano_attachment_async_ctx_hash session_id = (session_id * KNUTH_CONSTANT) mod CP_ASYNC_CTX_BUCKETS"

definition NanoAsyncFindResponse :: "NanoAttachment \<Rightarrow> SessionID \<Rightarrow> AttachmentVerdictResponse" where
  "NanoAsyncFindResponse a session_id = async_buckets a (unat (nano_attachment_async_ctx_hash session_id))"

definition GenerateFailedVerdict :: "NanoAttachment \<Rightarrow> SessionID \<Rightarrow> AttachmentVerdictResponse" where
  "GenerateFailedVerdict a session_id =
     \<lparr>resp_verdict = (if fail_mode_verdict a = NANO_OK then ATTACHMENT_VERDICT_ACCEPT else ATTACHMENT_VERDICT_DROP),
      resp_session_id = session_id, resp_web_response_data = None, resp_modifications = []\<rparr>"

definition NanoAsyncAddResponse ::
    "NanoAttachment \<Rightarrow> SessionID \<Rightarrow> AttachmentVerdictResponse option \<Rightarrow> NanoCommunicationResult \<times> NanoAttachment" where
  "NanoAsyncAddResponse a session_id response =
     (case response of
        None \<Rightarrow> (NANO_ERROR, a)
      | Some r \<Rightarrow>
          (NANO_OK, a\<lparr>async_buckets := (async_buckets a)(unat (nano_attachment_async_ctx_hash session_id) := r)\<rparr>))"

definition empty_response :: AttachmentVerdictResponse where
  "empty_response = \<lparr>resp_verdict = ATTACHMENT_VERDICT_INSPECT, resp_session_id = 0,
                     resp_web_response_data = None, resp_modifications = []\<rparr>"

definition NanoAsyncRemoveResponse :: "NanoAttachment \<Rightarrow> SessionID \<Rightarrow> NanoAttachment" where
  "NanoAsyncRemoveResponse a session_id =
     a\<lparr>async_buckets := (async_buckets a)(unat (nano_attachment_async_ctx_hash session_id) := empty_response)\<rparr>"

section \<open>The queue of failed sessions\<close>

definition NanoAsyncFailedSessionIDQueueIsEmpty :: "NanoAttachment option \<Rightarrow> bool" where
  "NanoAsyncFailedSessionIDQueueIsEmpty attachment =
     (case attachment of None \<Rightarrow> True | Some a \<Rightarrow> sq_count (async_failed_bucket a) = 0)"

definition queue_add :: "SessionIDQueue \<Rightarrow> SessionID \<Rightarrow> bool \<times> SessionIDQueue" where
  "queue_add q session_id =
     (if sq_count q \<ge> SESSION_ID_QUEUE_SIZE then (False, q)
      else
        (True, q\<lparr>sq_queue := (sq_queue q)(unat (sq_tail q) := session_id),
                 sq_tail := (sq_tail q + 1) mod SESSION_ID_QUEUE_SIZE,
                 sq_count := sq_count q + 1\<rparr>))"

definition NanoAsyncFailedSessionIDQueueAdd ::
    "NanoAttachment option \<Rightarrow> SessionID \<Rightarrow> NanoCommunicationResult \<times> NanoAttachment option" where
  "NanoAsyncFailedSessionIDQueueAdd attachment session_id =
     (case attachment of
        None \<Rightarrow> (NANO_ERROR, None)
      | Some a \<Rightarrow>
          (case queue_add (async_failed_bucket a) session_id of
             (False, _) \<Rightarrow> (NANO_ERROR, Some a)
           | (True, q) \<Rightarrow> (NANO_OK, Some (a\<lparr>async_failed_bucket := q\<rparr>))))"

definition queue_pop :: "SessionIDQueue \<Rightarrow> SessionID \<times> SessionIDQueue" where
  "queue_pop q =
     (if sq_count q = 0 then (0, q)
      else
        (sq_queue q (unat (sq_head q)),
         q\<lparr>sq_head := (sq_head q + 1) mod SESSION_ID_QUEUE_SIZE, sq_count := sq_count q - 1\<rparr>))"

definition NanoAsyncFailedSessionIDQueuePop ::
    "NanoAttachment option \<Rightarrow> SessionID \<times> NanoAttachment option" where
  "NanoAsyncFailedSessionIDQueuePop attachment =
     (case attachment of
        None \<Rightarrow> (0, None)
      | Some a \<Rightarrow>
          (case queue_pop (async_failed_bucket a) of (s, q) \<Rightarrow> (s, Some (a\<lparr>async_failed_bucket := q\<rparr>))))"

section \<open>The hash\<close>

text \<open>
  The multiplier is odd, so modulo the number of buckets the multiplication is a bijection: the
  bucket of a session is decided by its low 11 bits, and by all of them.
\<close>

lemma unat_hash:
  "unat (nano_attachment_async_ctx_hash s) = (unat s * 2654435761) mod 2048"
proof -
  have "(unat s * 2654435761) mod 2 ^ 32 mod 2048 = (unat s * 2654435761) mod (2048 :: nat)"
    by (rule mod_mod_cancel) simp
  then show ?thesis
    by (simp add: nano_attachment_async_ctx_hash_def KNUTH_CONSTANT_def CP_ASYNC_CTX_BUCKETS_def
        unat_mod unat_word_ariths)
qed

lemma hash_bound: "unat (nano_attachment_async_ctx_hash s) < 2048"
  by (simp add: unat_hash)

lemma hash_eq_iff:
  "nano_attachment_async_ctx_hash s = nano_attachment_async_ctx_hash t \<longleftrightarrow> unat s mod 2048 = unat t mod 2048"
proof
  assume "unat s mod 2048 = unat t mod 2048"
  then have "(unat s * 2654435761) mod 2048 = (unat t * 2654435761) mod 2048"
    by (metis mod_mult_left_eq)
  then show "nano_attachment_async_ctx_hash s = nano_attachment_async_ctx_hash t"
    by (metis unat_hash word_unat_eq_iff)
next
  assume "nano_attachment_async_ctx_hash s = nano_attachment_async_ctx_hash t"
  then have eq: "(unat s * 2654435761) mod 2048 = (unat t * 2654435761) mod 2048"
    by (metis unat_hash)
  have inv: "(n * 2654435761) mod 2048 * 1873 mod 2048 = n mod 2048" for n :: nat
  proof -
    have "(n * 2654435761) mod 2048 * 1873 mod 2048 = (n * (2654435761 * 1873)) mod 2048"
      by (simp only: mod_mult_left_eq mult.assoc)
    also have "\<dots> = (n * ((2654435761 * 1873) mod 2048)) mod 2048" by (simp only: mod_mult_right_eq)
    also have "\<dots> = n mod 2048" by simp
    finally show ?thesis .
  qed
  from arg_cong [OF eq, of "\<lambda>x. x * 1873 mod 2048"] show "unat s mod 2048 = unat t mod 2048"
    by (simp only: inv)
qed

section \<open>A bounded first-in first-out queue\<close>

fun add_each :: "('q \<Rightarrow> 'a \<Rightarrow> bool \<times> 'q) \<Rightarrow> 'q \<Rightarrow> 'a list \<Rightarrow> 'q" where
  "add_each add q [] = q"
| "add_each add q (x # xs) = add_each add (snd (add q x)) xs"

fun pop_each :: "('q \<Rightarrow> 'a \<times> 'q) \<Rightarrow> nat \<Rightarrow> 'q \<Rightarrow> 'a list \<times> 'q" where
  "pop_each pop 0 q = ([], q)"
| "pop_each pop (Suc n) q = (let (x, q1) = pop q; (xs, q2) = pop_each pop n q1 in (x # xs, q2))"

locale bounded_fifo =
  fixes ok :: "'q \<Rightarrow> bool"
    and items :: "'q \<Rightarrow> 'a list"
    and capacity :: nat
    and add :: "'q \<Rightarrow> 'a \<Rightarrow> bool \<times> 'q"
    and pop :: "'q \<Rightarrow> 'a \<times> 'q"
  assumes add_room: "ok q \<Longrightarrow> length (items q) < capacity \<Longrightarrow>
      fst (add q x) \<and> ok (snd (add q x)) \<and> items (snd (add q x)) = items q @ [x]"
    and add_full: "ok q \<Longrightarrow> length (items q) \<ge> capacity \<Longrightarrow> add q x = (False, q)"
    and pop_first: "ok q \<Longrightarrow> items q = x # xs \<Longrightarrow> fst (pop q) = x \<and> ok (snd (pop q)) \<and> items (snd (pop q)) = xs"
    and within: "ok q \<Longrightarrow> length (items q) \<le> capacity"
begin

lemma add_each_items:
  "ok q \<Longrightarrow> length (items q) + length xs \<le> capacity \<Longrightarrow>
   ok (add_each add q xs) \<and> items (add_each add q xs) = items q @ xs"
proof (induction xs arbitrary: q)
  case (Cons x xs)
  then have "fst (add q x) \<and> ok (snd (add q x)) \<and> items (snd (add q x)) = items q @ [x]"
    by (intro add_room) auto
  with Cons.IH [of "snd (add q x)"] Cons.prems(2) show ?case by simp
qed simp

lemma pop_each_items:
  "ok q \<Longrightarrow> items q = xs @ ys \<Longrightarrow>
   \<exists>q'. pop_each pop (length xs) q = (xs, q') \<and> ok q' \<and> items q' = ys"
proof (induction xs arbitrary: q)
  case (Cons x xs)
  from pop_first [OF Cons.prems(1)] Cons.prems(2)
  have "fst (pop q) = x" "ok (snd (pop q))" "items (snd (pop q)) = xs @ ys" by auto
  moreover from Cons.IH [OF this(2,3)] obtain q'
    where "pop_each pop (length xs) (snd (pop q)) = (xs, q')" "ok q'" "items q' = ys" by blast
  ultimately show ?case by (auto simp: split_beta Let_def)
qed simp

lemma add_then_pop:
  assumes "ok q" "items q = []" "length xs \<le> capacity"
  shows "\<exists>q'. pop_each pop (length xs) (add_each add q xs) = (xs, q') \<and> ok q' \<and> items q' = []"
  using add_each_items [OF assms(1), of xs] assms(2,3)
  by (intro pop_each_items) simp_all

end

section \<open>The failed-session queue is such a queue\<close>

definition failed_ok :: "SessionIDQueue \<Rightarrow> bool" where
  "failed_ok q =
     (unat (sq_head q) < 1024 \<and> unat (sq_count q) \<le> 1024
      \<and> unat (sq_tail q) = (unat (sq_head q) + unat (sq_count q)) mod 1024)"

definition failed_items :: "SessionIDQueue \<Rightarrow> SessionID list" where
  "failed_items q = map (\<lambda>i. sq_queue q ((unat (sq_head q) + i) mod 1024)) [0..<unat (sq_count q)]"

lemma length_failed_items [simp]: "length (failed_items q) = unat (sq_count q)"
  by (simp add: failed_items_def)

lemma count_full: "sq_count q \<ge> SESSION_ID_QUEUE_SIZE \<longleftrightarrow> 1024 \<le> unat (sq_count q)"
  by (simp add: SESSION_ID_QUEUE_SIZE_def word_le_nat_alt)

lemma unat_next_slot: "unat (w :: u32) < 1024 \<Longrightarrow> unat ((w + 1) mod SESSION_ID_QUEUE_SIZE) = (unat w + 1) mod 1024"
  by (simp add: SESSION_ID_QUEUE_SIZE_def unat_mod unat_word_ariths)

lemma queue_add_room:
  assumes "failed_ok q" "length (failed_items q) < 1024"
  shows "fst (queue_add q x) \<and> failed_ok (snd (queue_add q x)) \<and> failed_items (snd (queue_add q x)) = failed_items q @ [x]"
proof -
  let ?h = "unat (sq_head q)" and ?c = "unat (sq_count q)" and ?t = "unat (sq_tail q)"
  from assms have ok: "?h < 1024" "?c < 1024" "?t = (?h + ?c) mod 1024" by (simp_all add: failed_ok_def)
  then have t: "?t < 1024" by simp
  have count: "unat (sq_count q + 1) = ?c + 1" using ok(2) by (simp add: unat_word_ariths)
  let ?q = "q\<lparr>sq_queue := (sq_queue q)(?t := x), sq_tail := (sq_tail q + 1) mod SESSION_ID_QUEUE_SIZE,
              sq_count := sq_count q + 1\<rparr>"
  have add: "queue_add q x = (True, ?q)" using ok(2) by (simp add: queue_add_def count_full)
  have "failed_ok ?q"
    using ok t count by (simp add: failed_ok_def unat_next_slot mod_Suc_eq)
  moreover have "failed_items ?q = failed_items q @ [x]"
  proof -
    have "(?h + i) mod 1024 \<noteq> ?t" if "i < ?c" for i
    proof
      assume "(?h + i) mod 1024 = ?t"
      with ok(3) have "(?h + i) mod 1024 = (?h + ?c) mod 1024" by simp
      with that ok(1,2) show False by (auto simp: mod_if split: if_splits)
    qed
    with ok(3) show ?thesis by (simp add: failed_items_def count)
  qed
  ultimately show ?thesis by (simp add: add)
qed

lemma queue_pop_first:
  assumes "failed_ok q" "failed_items q = x # xs"
  shows "fst (queue_pop q) = x \<and> failed_ok (snd (queue_pop q)) \<and> failed_items (snd (queue_pop q)) = xs"
proof -
  let ?h = "unat (sq_head q)" and ?c = "unat (sq_count q)"
  from assms have ok: "?h < 1024" "?c \<le> 1024" "unat (sq_tail q) = (?h + ?c) mod 1024"
    by (simp_all add: failed_ok_def)
  have "length (failed_items q) = Suc (length xs)" using assms(2) by simp
  then have pos: "0 < ?c" by simp
  then have nz: "sq_count q \<noteq> 0" by (auto simp: unat_eq_zero)
  then have count: "unat (sq_count q - 1) = ?c - 1" by (simp add: unat_minus_one)
  have split: "failed_items q = sq_queue q (?h mod 1024) # map (\<lambda>i. sq_queue q ((?h + Suc i) mod 1024)) [0..<?c - 1]"
    using map_upt_Suc [of "\<lambda>i. sq_queue q ((?h + i) mod 1024)" "?c - 1"] pos by (simp add: failed_items_def del: upt_Suc)
  let ?q = "q\<lparr>sq_head := (sq_head q + 1) mod SESSION_ID_QUEUE_SIZE, sq_count := sq_count q - 1\<rparr>"
  have pop: "queue_pop q = (x, ?q)"
    using nz split assms(2) ok(1) by (simp add: queue_pop_def)
  have "(?h + ?c) mod 1024 = ((?h + 1) mod 1024 + (?c - 1)) mod 1024"
    using pos by (simp only: mod_add_left_eq) simp
  moreover have "unat ((sq_head q + 1) mod SESSION_ID_QUEUE_SIZE) = (?h + 1) mod 1024"
    using ok(1) by (rule unat_next_slot)
  moreover have "?c - 1 \<le> 1024" using ok(2) by linarith
  ultimately have "failed_ok ?q" using ok count by (simp add: failed_ok_def)
  moreover have "failed_items ?q = xs"
    using split assms(2) ok(1) by (simp add: failed_items_def unat_next_slot count mod_add_left_eq)
  ultimately show ?thesis by (simp add: pop)
qed

interpretation failed_queue: bounded_fifo failed_ok failed_items 1024 queue_add queue_pop
proof
  show "queue_add q x = (False, q)" if "failed_ok q" "1024 \<le> length (failed_items q)" for q x
    using that by (simp add: queue_add_def count_full)
  show "length (failed_items q) \<le> 1024" if "failed_ok q" for q
    using that by (simp add: failed_ok_def)
qed (use queue_add_room queue_pop_first in blast)+

end
