(* ===== verification/Nano_Thread.thy ===== *)
theory Nano_Thread
  imports Nano_Bucket "HOL-Library.Signed_Division"
begin

text \<open>
  Running a routine in a thread with a timeout, from \<open>nano_attachment_thread.c\<close>. The routine
  is a function on the state of the process and the thread context; what the clock and the thread calls
  answer, and what a cancelled routine had done by then, are arguments.
\<close>

section \<open>Thread context\<close>

record HttpEventThreadCtx =
  ctx_session_data_p :: "HttpSessionData option"
  ctx_res :: NanoCommunicationResult
  ctx_web_response_data :: "WebResponseData option"
  ctx_modifications :: "NanoHttpModification list"

definition init_thread_ctx :: "HttpSessionData option \<Rightarrow> HttpEventThreadCtx" where
  "init_thread_ctx session_data =
     \<lparr>ctx_session_data_p = session_data, ctx_res = NANO_OK, ctx_web_response_data = None, ctx_modifications = []\<rparr>"

section \<open>Time\<close>

record timespec =
  tv_sec :: int
  tv_nsec :: int

text \<open>The time on a transaction, in microseconds, added to the session.\<close>

definition CalcProcessingTime ::
    "HttpSessionData \<Rightarrow> timespec \<Rightarrow> timespec \<Rightarrow> TransactionType \<Rightarrow> HttpSessionData" where
  "CalcProcessingTime s thread_time_begin thread_time_end transaction_type =
     (if transaction_type = START \<or> transaction_type = METRICS then s
      else
        let begin_usec = tv_sec thread_time_begin * 1000 * 1000 + tv_nsec thread_time_begin sdiv 1000;
            end_usec = tv_sec thread_time_end * 1000 * 1000 + tv_nsec thread_time_end sdiv 1000;
            elapsed = end_usec - begin_usec
        in if transaction_type = REQUEST
           then s\<lparr>req_proccesing_time := req_proccesing_time s + elapsed\<rparr>
           else s\<lparr>res_proccesing_time := res_proccesing_time s + elapsed\<rparr>)"

text \<open>The deadline of the timed join, both adjustments of the code in their order.\<close>

definition thread_deadline :: "timespec \<Rightarrow> int \<Rightarrow> timespec" where
  "thread_deadline ts timeout_msecs =
     (let sec1 = tv_sec ts + timeout_msecs sdiv 1000;
          nsec1 = tv_nsec ts + (timeout_msecs smod 1000) * 1000 * 1000;
          (sec2, nsec2) = (if nsec1 > 1000 * 1000 * 1000 then (sec1 + 1, nsec1 - 1000 * 1000 * 1000) else (sec1, nsec1));
          tv_nsec3 = nsec2 + (timeout_msecs smod 1000) * 1000000
      in \<lparr>tv_sec = sec2 + timeout_msecs sdiv 1000 + tv_nsec3 sdiv 1000000000, tv_nsec = tv_nsec3 smod 1000000000\<rparr>)"

section \<open>Running a routine\<close>

text \<open>
  The calls: the clock at the start (\<open>None\<close> when it fails), whether the thread starts, the
  status of the blocking join, the clock for the deadline, the status of the timed join given
  the deadline, the status of the join after a cancellation, whether that join reports
  \<open>PTHREAD_CANCELED\<close>, and the clock at the end.
\<close>

record thread_calls =
  clock_begin :: "timespec option"
  pthread_create_ok :: bool
  blocking_join_status :: int
  clock_deadline :: "timespec option"
  timedjoin_status :: "timespec \<Rightarrow> int"
  cancel_join_status :: int
  joined_canceled :: bool
  clock_end :: timespec

definition NanoRunInWithoutThreadTimeout ::
    "('w \<times> HttpEventThreadCtx \<Rightarrow> ('w \<times> HttpEventThreadCtx) option) \<Rightarrow> 'w \<times> HttpEventThreadCtx
     \<Rightarrow> (bool \<times> 'w \<times> HttpEventThreadCtx) option" where
  "NanoRunInWithoutThreadTimeout thread_func s = map_option (Pair True) (thread_func s)"

text \<open>
  The result, the state and the context. \<open>count\<close> adds one to a metric of the attachment in the state,
  \<open>mode\<close> is its inspection mode. The routine has no result (\<open>None\<close>) when it does not end or faults;
  then there is none either, unless the thread is cancelled. \<open>partial\<close> is what the routine had done
  when it was cancelled, or never does because it was not joined.
\<close>

definition NanoRunInThreadTimeout ::
    "thread_calls \<Rightarrow> (AttachmentMetricType \<Rightarrow> 'w \<Rightarrow> 'w) \<Rightarrow> u32 \<Rightarrow> 'w \<Rightarrow> HttpSessionData option
     \<Rightarrow> ('w \<times> HttpEventThreadCtx \<Rightarrow> ('w \<times> HttpEventThreadCtx) option) \<Rightarrow> ('w \<times> HttpEventThreadCtx \<Rightarrow> 'w \<times> HttpEventThreadCtx)
     \<Rightarrow> int \<Rightarrow> TransactionType \<Rightarrow> (bool \<times> 'w \<times> HttpEventThreadCtx) option" where
  "NanoRunInThreadTimeout os count mode w session_data thread_func partial timeout_msecs transaction_type =
     (let s0 = (w, init_thread_ctx session_data);
          failure = (\<lambda>(b, ctx). (count THREAD_FAILURE b, ctx));
          finish = (\<lambda>(b, ctx).
            (b, ctx\<lparr>ctx_session_data_p :=
                    (if session_data = None then ctx_session_data_p ctx
                     else map_option (\<lambda>d. CalcProcessingTime d (the (clock_begin os)) (clock_end os) transaction_type)
                            (ctx_session_data_p ctx))\<rparr>))
      in if mode = NO_THREAD then NanoRunInWithoutThreadTimeout thread_func s0
         else if clock_begin os = None then Some (False, failure s0)
         else if \<not> pthread_create_ok os then Some (False, failure s0)
         else if mode = BLOCKING_THREAD then map_option (Pair (blocking_join_status os = 0)) (thread_func s0)
         else
           (case clock_deadline os of
              None \<Rightarrow> Some (False, failure (partial s0))
            | Some ts \<Rightarrow>
                let status = timedjoin_status os (thread_deadline ts timeout_msecs) in
                if status \<noteq> 0 then
                  (if cancel_join_status os \<noteq> 0 then Some (cancel_join_status os \<noteq> 0, failure (partial s0))
                   else
                     let (b, ctx) = partial s0 in
                     Some (status = 0,
                      finish (count (if joined_canceled os then THREAD_TIMEOUT else THREAD_FAILURE) b, ctx)))
                else map_option (\<lambda>s. (status = 0, finish s)) (thread_func s0)))"

section \<open>The deadline\<close>

definition total_nsec :: "timespec \<Rightarrow> int" where
  "total_nsec ts = tv_sec ts * 1000000000 + tv_nsec ts"

lemma sdiv_nonneg: "0 \<le> (a :: int) \<Longrightarrow> 0 < b \<Longrightarrow> a sdiv b = a div b"
  by (simp add: signed_divide_int_def sgn_if)

lemma smod_nonneg: "0 \<le> (a :: int) \<Longrightarrow> 0 < b \<Longrightarrow> a smod b = a mod b"
  by (simp add: signed_modulo_int_def signed_divide_int_def sgn_if minus_div_mult_eq_mod)

lemma thread_deadline_total:
  assumes "0 \<le> timeout" "0 \<le> tv_nsec ts" "tv_nsec ts < 1000000000"
  shows "total_nsec (thread_deadline ts timeout) = total_nsec ts + 2 * timeout * 1000000"
    and "0 \<le> tv_nsec (thread_deadline ts timeout)" "tv_nsec (thread_deadline ts timeout) < 1000000000"
proof -
  let ?r = "timeout mod 1000"
  define n1 where "n1 = tv_nsec ts + ?r * 1000 * 1000"
  define n2 where "n2 = (if n1 > 1000000000 then n1 - 1000000000 else n1)"
  define n3 where "n3 = n2 + ?r * 1000000"
  have r: "0 \<le> ?r" "?r < 1000" by simp_all
  then have pos: "0 \<le> n1" "0 \<le> n2" "0 \<le> n3" using assms(2) by (auto simp: n1_def n2_def n3_def)
  have dl: "thread_deadline ts timeout =
      \<lparr>tv_sec = tv_sec ts + timeout div 1000 + (if n1 > 1000000000 then 1 else 0) + timeout div 1000 + n3 div 1000000000,
       tv_nsec = n3 mod 1000000000\<rparr>"
    using assms(1,2) pos(3) r
    by (simp add: thread_deadline_def Let_def sdiv_nonneg smod_nonneg n1_def n2_def n3_def)
  have "n3 div 1000000000 * 1000000000 + n3 mod 1000000000 = n3" by simp
  moreover have "?r * 2000000 + timeout div 1000 * 2000000000 = timeout * 2000000"
    using div_mult_mod_eq [of timeout 1000] by linarith
  ultimately show "total_nsec (thread_deadline ts timeout) = total_nsec ts + 2 * timeout * 1000000"
    by (auto simp: total_nsec_def dl n1_def n2_def n3_def algebra_simps)
  show "0 \<le> tv_nsec (thread_deadline ts timeout)" "tv_nsec (thread_deadline ts timeout) < 1000000000"
    by (simp_all add: dl)
qed

end
