(* ===== verification/Nano_Verdict.thy ===== *)
theory Nano_Verdict
  imports Nano_Thread
begin

text \<open>
  The verdicts \<open>nano_attachment_sender.c\<close> returns to the proxy: when the shared memory is
  corrupted, when the inspection thread fails, when inspection fails, and when it succeeds.
  The session is part of the thread context, as in the code.
\<close>

section \<open>Operations\<close>

definition c_bytes :: "string \<Rightarrow> bytes" where
  "c_bytes s = map of_char s"

definition default_uuid :: bytes where
  "default_uuid = c_bytes ''20118dba-81f7-4999-8e94-003cf242f5dd''"

definition CreateDefaultBlockPage :: "(nat \<Rightarrow> bool) \<Rightarrow> WebResponseData option" where
  "CreateDefaultBlockPage alloc =
     (if \<not> alloc 0 then None
      else if \<not> alloc 1 then None
      else Some \<lparr>web_response_type = CUSTOM_WEB_RESPONSE, wr_uuid = Some default_uuid,
                 wr_data = CustomResponseData 403 (c_bytes ''Default Title'') (c_bytes ''Default Body'')\<rparr>)"

text \<open>The response of a session with no data yet, and the verdict of the failure mode.\<close>

definition plain_response :: "SessionID \<Rightarrow> AttachmentVerdict \<Rightarrow> AttachmentVerdictResponse" where
  "plain_response session_id v =
     \<lparr>resp_verdict = v, resp_session_id = session_id, resp_web_response_data = None, resp_modifications = []\<rparr>"

definition SendCorruptMemoryVerdict ::
    "(nat \<Rightarrow> bool) \<Rightarrow> NanoAttachment \<Rightarrow> HttpSessionData
     \<Rightarrow> AttachmentVerdictResponse \<times> NanoAttachment \<times> HttpSessionData" where
  "SendCorruptMemoryVerdict alloc a s =
     (if fail_mode_verdict a = NANO_OK
      then (plain_response (sd_session_id s) ATTACHMENT_VERDICT_ACCEPT,
            updateMetricField a INSPECTION_OPEN_FAILURES_COUNT 1, s\<lparr>sd_verdict := TRAFFIC_VERDICT_ACCEPT\<rparr>)
      else ((plain_response (sd_session_id s) ATTACHMENT_VERDICT_DROP)
              \<lparr>resp_web_response_data := CreateDefaultBlockPage alloc\<rparr>,
            updateMetricField a INSPECTION_CLOSE_FAILURES_COUNT 1, s\<lparr>sd_verdict := TRAFFIC_VERDICT_DROP\<rparr>))"

definition SendThreadTimeoutVerdict ::
    "(nat \<Rightarrow> bool) \<Rightarrow> NanoAttachment \<Rightarrow> SessionID \<Rightarrow> HttpSessionData
     \<Rightarrow> AttachmentVerdictResponse \<times> NanoAttachment \<times> HttpSessionData" where
  "SendThreadTimeoutVerdict alloc a session_id s =
     (if fail_mode_verdict a = NANO_OK
      then (plain_response session_id ATTACHMENT_VERDICT_ACCEPT, a, s\<lparr>sd_verdict := TRAFFIC_VERDICT_ACCEPT\<rparr>)
      else ((plain_response session_id ATTACHMENT_VERDICT_DROP)
              \<lparr>resp_web_response_data := CreateDefaultBlockPage alloc\<rparr>,
            a, s\<lparr>sd_verdict := TRAFFIC_VERDICT_DROP\<rparr>))"

text \<open>The verdict of the proxy for a verdict of the service.\<close>

fun attachment_verdict :: "ServiceVerdict \<Rightarrow> AttachmentVerdict" where
  "attachment_verdict TRAFFIC_VERDICT_INSPECT = ATTACHMENT_VERDICT_INSPECT"
| "attachment_verdict TRAFFIC_VERDICT_ACCEPT = ATTACHMENT_VERDICT_ACCEPT"
| "attachment_verdict TRAFFIC_VERDICT_DROP = ATTACHMENT_VERDICT_DROP"
| "attachment_verdict TRAFFIC_VERDICT_CUSTOM_RESPONSE = ATTACHMENT_VERDICT_DROP"
| "attachment_verdict TRAFFIC_VERDICT_INJECT = ATTACHMENT_VERDICT_INSPECT"
| "attachment_verdict _ = ATTACHMENT_VERDICT_INSPECT"

definition FinalizeSuccessfulResponse ::
    "NanoAttachment \<Rightarrow> SessionID \<Rightarrow> HttpEventThreadCtx \<Rightarrow> HttpSessionData
     \<Rightarrow> AttachmentVerdictResponse \<times> NanoAttachment" where
  "FinalizeSuccessfulResponse a session_id ctx s =
     (\<lparr>resp_verdict = attachment_verdict (sd_verdict s), resp_session_id = session_id,
       resp_web_response_data = ctx_web_response_data ctx, resp_modifications = ctx_modifications ctx\<rparr>,
      updateMetricField a INSPECTION_SUCCESSES_COUNT 1)"

definition FinalizeIrrelevantResponse ::
    "NanoAttachment \<Rightarrow> SessionID \<Rightarrow> AttachmentVerdictResponse \<times> NanoAttachment" where
  "FinalizeIrrelevantResponse a session_id =
     (plain_response session_id ATTACHMENT_VERDICT_ACCEPT, updateMetricField a IRRELEVANT_VERDICTS_COUNT 1)"

definition FinalizeFailedResponse ::
    "(nat \<Rightarrow> bool) \<Rightarrow> NanoAttachment \<Rightarrow> SessionID \<Rightarrow> HttpSessionData
     \<Rightarrow> AttachmentVerdictResponse \<times> NanoAttachment \<times> HttpSessionData" where
  "FinalizeFailedResponse alloc a session_id s =
     (if fail_mode_verdict a = NANO_OK
      then (plain_response session_id ATTACHMENT_VERDICT_ACCEPT,
            updateMetricField a INSPECTION_OPEN_FAILURES_COUNT 1, s\<lparr>sd_verdict := TRAFFIC_VERDICT_ACCEPT\<rparr>)
      else ((plain_response session_id ATTACHMENT_VERDICT_DROP)
              \<lparr>resp_web_response_data := CreateDefaultBlockPage alloc\<rparr>,
            updateMetricField a INSPECTION_CLOSE_FAILURES_COUNT 1, s\<lparr>sd_verdict := TRAFFIC_VERDICT_DROP\<rparr>))"

lemmas failure_verdicts =
  SendCorruptMemoryVerdict_def SendThreadTimeoutVerdict_def FinalizeFailedResponse_def plain_response_def

end
