(* ===== verification/Nano_Configuration.thy ===== *)
theory Nano_Configuration
  imports Nano_Bucket
begin

text \<open>
  The attachment's configuration: the values \<open>core/attachments/http_configuration\<close> reads from
  the JSON file with their defaults, the accessors of \<open>nano_attachment_util.cc\<close>, the source
  filter, and \<open>nano_configuration.c\<close>, which copies the values into the attachment. The JSON
  reader is third-party code: a file is what it yields, \<open>None\<close> when it cannot be parsed.
\<close>

section \<open>The configuration file\<close>

record json_conf =
  json_number :: "string \<Rightarrow> u32 option"
  json_string :: "string \<Rightarrow> string option"
  json_ip_ranges :: "string list option"

record HttpAttachmentConfiguration =
  numerical_values :: "string \<Rightarrow> u32 option"
  string_values :: "string \<Rightarrow> string option"
  exclude_sources :: "string list"

definition getNumericalValue :: "HttpAttachmentConfiguration \<Rightarrow> string \<Rightarrow> u32" where
  "getNumericalValue c key = (case numerical_values c key of None \<Rightarrow> 0 | Some v \<Rightarrow> v)"

definition getStringValue :: "HttpAttachmentConfiguration \<Rightarrow> string \<Rightarrow> string" where
  "getStringValue c key = (case string_values c key of None \<Rightarrow> [] | Some v \<Rightarrow> v)"

definition loadNumericalValue ::
    "json_conf \<Rightarrow> string \<Rightarrow> u32 \<Rightarrow> HttpAttachmentConfiguration \<Rightarrow> HttpAttachmentConfiguration" where
  "loadNumericalValue j name default_value c =
     c\<lparr>numerical_values := (numerical_values c)(name \<mapsto>
          (case json_number j name of None \<Rightarrow> default_value | Some v \<Rightarrow> v))\<rparr>"

definition numerical_defaults :: "(string \<times> u32) list" where
  "numerical_defaults =
     [(''dbg_level'', 0), (''is_fail_open_mode_enabled'', 0), (''fail_open_timeout'', 50),
      (''is_fail_open_mode_hold_enabled'', 0), (''fail_open_hold_timeout'', 200),
      (''sessions_per_minute_limit_verdict'', 0), (''max_sessions_per_minute'', 0),
      (''res_proccessing_timeout_msec'', 3000), (''req_proccessing_timeout_msec'', 3000),
      (''transaction_entry_timeout_minutes'', 1), (''registration_thread_timeout_msec'', 100),
      (''req_header_thread_timeout_msec'', 100), (''req_body_thread_timeout_msec'', 150),
      (''res_header_thread_timeout_msec'', 100), (''res_body_thread_timeout_msec'', 150),
      (''waiting_for_verdict_thread_timeout_msec'', 150), (''nginx_inspection_mode'', 0),
      (''num_of_nginx_ipc_elements'', 200), (''keep_alive_interval_msec'', 30000),
      (''min_retries_for_verdict'', 3), (''max_retries_for_verdict'', 15), (''hold_verdict_retries'', 3),
      (''hold_verdict_polling_time'', 1), (''body_size_trigger'', 200000), (''remove_server_header'', 0),
      (''decompression_pool_size'', 262144), (''recompression_pool_size'', 16384),
      (''is_paired_affinity_enabled'', 0), (''is_brotli_inspection_enabled'', 0)]"

text \<open>The strings present in the file replace the old ones, absent ones are erased.\<close>

definition load_string ::
    "json_conf \<Rightarrow> string \<Rightarrow> HttpAttachmentConfiguration \<Rightarrow> HttpAttachmentConfiguration" where
  "load_string j name c = c\<lparr>string_values := (string_values c)(name := json_string j name)\<rparr>"

definition load_configuration ::
    "(string \<rightharpoonup> string) \<Rightarrow> json_conf \<Rightarrow> HttpAttachmentConfiguration \<Rightarrow> HttpAttachmentConfiguration" where
  "load_configuration env j c0 =
     (let c1 = c0\<lparr>exclude_sources := (case json_ip_ranges j of None \<Rightarrow> [] | Some xs \<Rightarrow> xs)\<rparr>;
          c2 = load_string j ''static_resources_path'' c1;
          c3 = load_string j ''sessions_per_minute_limit_verdict'' c2;
          c4 = fold (\<lambda>(name, d). loadNumericalValue j name d) numerical_defaults c3;
          env_async = (if env ''CP_ASYNC_MODE'' \<in> {Some ''true'', Some ''1''} then 1 else 0)
      in loadNumericalValue j ''is_async_mode_enabled'' env_async c4)"

definition initAttachmentConfig ::
    "(string \<rightharpoonup> string) \<Rightarrow> json_conf option \<Rightarrow> HttpAttachmentConfiguration \<Rightarrow> bool \<times> HttpAttachmentConfiguration" where
  "initAttachmentConfig env file c =
     (case file of None \<Rightarrow> (False, c) | Some j \<Rightarrow> (True, load_configuration env j c))"

section \<open>Loading the configuration into the attachment\<close>

text \<open>The state is the attachment and the configuration object of the process.\<close>

definition init_attachment_config ::
    "(string \<rightharpoonup> string) \<Rightarrow> bool \<Rightarrow> json_conf option \<Rightarrow> NanoAttachment \<Rightarrow> HttpAttachmentConfiguration
     \<Rightarrow> NanoCommunicationResult \<times> NanoAttachment \<times> HttpAttachmentConfiguration" where
  "init_attachment_config env file_exists file a c0 =
     (if \<not> file_exists then (NANO_ERROR, a, c0)
      else if is_configuration_updated a = NANO_OK then (NANO_OK, a, c0)
      else
        let (ok, c) = initAttachmentConfig env file c0 in
        if \<not> ok then (NANO_ERROR, a, c)
        else
          let num = getNumericalValue c; new_dbg_level = num ''dbg_level'' in
          if sint new_dbg_level \<ge> sint DBG_LEVEL_COUNT
          then (NANO_ERROR, a\<lparr>is_configuration_updated := NANO_ERROR\<rparr>, c)
          else
            let a1 = a\<lparr>dbg_level := new_dbg_level,
                  fail_mode_verdict := (if num ''is_fail_open_mode_enabled'' = 1 then NANO_OK else NANO_ERROR),
                  fail_open_timeout := num ''fail_open_timeout'',
                  fail_mode_delayed_verdict :=
                    (if num ''is_fail_open_mode_hold_enabled'' = 1 then NANO_OK else NANO_ERROR),
                  fail_open_delayed_timeout := num ''fail_open_hold_timeout'',
                  sessions_per_minute_limit_verdict :=
                    (if getStringValue c ''sessions_per_minute_limit_verdict'' = ''Accept''
                     then ATTACHMENT_VERDICT_ACCEPT else ATTACHMENT_VERDICT_DROP),
                  max_sessions_per_minute := num ''max_sessions_per_minute'',
                  inspection_mode := num ''nginx_inspection_mode''\<rparr>
            in if inspection_mode a1 \<ge> INSPECTION_MODE_COUNT
               then (NANO_ERROR, a1\<lparr>is_configuration_updated := NANO_ERROR\<rparr>, c)
               else
                 (NANO_OK, a1\<lparr>req_max_proccessing_ms_time := num ''req_proccessing_timeout_msec'',
                    res_max_proccessing_ms_time := num ''res_proccessing_timeout_msec'',
                    registration_thread_timeout_msec := num ''registration_thread_timeout_msec'',
                    req_header_thread_timeout_msec := num ''req_header_thread_timeout_msec'',
                    req_body_thread_timeout_msec := num ''req_body_thread_timeout_msec'',
                    res_header_thread_timeout_msec := num ''res_header_thread_timeout_msec'',
                    res_body_thread_timeout_msec := num ''res_body_thread_timeout_msec'',
                    waiting_for_verdict_thread_timeout_msec := num ''waiting_for_verdict_thread_timeout_msec'',
                    hold_verdict_retries := num ''hold_verdict_retries'',
                    hold_verdict_polling_time := num ''hold_verdict_polling_time'',
                    num_of_nano_ipc_elements := num ''num_of_nginx_ipc_elements'',
                    keep_alive_interval_msec := ucast (num ''keep_alive_interval_msec''),
                    paired_affinity_enabled := ucast (num ''is_paired_affinity_enabled''),
                    is_async_mode_enabled := (if num ''is_async_mode_enabled'' \<noteq> 0 then 1 else 0),
                    is_configuration_updated := NANO_OK,
                    att_logging_data := (att_logging_data a1)\<lparr>log_dbg_level := sint new_dbg_level,
                      log_worker_id := int (unat (worker_id a1)), log_fd := logging_fd a1\<rparr>\<rparr>, c))"

definition reset_attachment_config ::
    "(string \<rightharpoonup> string) \<Rightarrow> bool \<Rightarrow> json_conf option \<Rightarrow> NanoAttachment \<Rightarrow> HttpAttachmentConfiguration
     \<Rightarrow> NanoCommunicationResult \<times> NanoAttachment \<times> HttpAttachmentConfiguration" where
  "reset_attachment_config env file_exists file a c =
     init_attachment_config env file_exists file
       (a\<lparr>is_configuration_updated := NANO_ERROR, current_config_version := current_config_version a + 1\<rparr>) c"

section \<open>The source filter\<close>

text \<open>
  Addresses are the bytes \<open>inet_pton\<close> writes, 4 or 16 of them, in network order; \<open>memcmp\<close>
  compares them byte by byte. \<open>inet_pton\<close> is an argument: the family is IPv6 when the
  string has a colon, and the result \<open>None\<close> when it is not an address.
\<close>

record IpAddress =
  is_ipv4 :: bool
  ip_bytes :: bytes

definition is_v6_string :: "string \<Rightarrow> bool" where
  "is_v6_string s = (CHR '':'' \<in> set s)"

definition isIPAddress :: "(bool \<Rightarrow> string \<Rightarrow> bytes option) \<Rightarrow> string \<Rightarrow> bool" where
  "isIPAddress inet_pton s = (inet_pton (is_v6_string s) s \<noteq> None)"

definition createIPAddress :: "(bool \<Rightarrow> string \<Rightarrow> bytes option) \<Rightarrow> string \<Rightarrow> IpAddress" where
  "createIPAddress inet_pton s =
     \<lparr>is_ipv4 = (\<not> is_v6_string s),
      ip_bytes = (case inet_pton (is_v6_string s) s of None \<Rightarrow> [] | Some bs \<Rightarrow> bs)\<rparr>"

fun memcmp_less :: "bytes \<Rightarrow> bytes \<Rightarrow> bool" where
  "memcmp_less (x # xs) (y # ys) = (if x = y then memcmp_less xs ys else x < y)"
| "memcmp_less _ _ = False"

definition ip_less :: "IpAddress \<Rightarrow> IpAddress \<Rightarrow> bool" where
  "ip_less a b =
     (if is_ipv4 a \<noteq> is_ipv4 b then \<not> is_ipv4 a \<and> is_ipv4 b else memcmp_less (ip_bytes a) (ip_bytes b))"

definition isIPInRange :: "IpAddress \<Rightarrow> IpAddress \<Rightarrow> IpAddress \<Rightarrow> bool" where
  "isIPInRange ip start_addr end_addr =
     (if is_ipv4 ip \<noteq> is_ipv4 start_addr \<or> is_ipv4 ip \<noteq> is_ipv4 end_addr then False
      else \<not> ip_less ip start_addr \<and> \<not> ip_less end_addr ip)"

definition isIPInRangeString :: "(bool \<Rightarrow> string \<Rightarrow> bytes option) \<Rightarrow> IpAddress \<Rightarrow> string \<Rightarrow> bool" where
  "isIPInRangeString inet_pton ip addr_range =
     (if CHR ''-'' \<notin> set addr_range then
        (isIPAddress inet_pton addr_range
         \<and> isIPInRange ip (createIPAddress inet_pton addr_range) (createIPAddress inet_pton addr_range))
      else
        let start_str = takeWhile (\<lambda>c. c \<noteq> CHR ''-'') addr_range;
            end_str = tl (dropWhile (\<lambda>c. c \<noteq> CHR ''-'') addr_range)
        in isIPAddress inet_pton start_str \<and> isIPAddress inet_pton end_str
           \<and> isIPInRange ip (createIPAddress inet_pton start_str) (createIPAddress inet_pton end_str))"

definition isSkipSource ::
    "(bool \<Rightarrow> string \<Rightarrow> bytes option) \<Rightarrow> HttpAttachmentConfiguration \<Rightarrow> string \<Rightarrow> bool" where
  "isSkipSource inet_pton c ip_str =
     (isIPAddress inet_pton ip_str
      \<and> list_ex (isIPInRangeString inet_pton (createIPAddress inet_pton ip_str)) (exclude_sources c))"

section \<open>Lemmas\<close>

lemma load_defaults_other:
  "k \<notin> fst ` set ds \<Longrightarrow>
   numerical_values (fold (\<lambda>(name, d). loadNumericalValue j name d) ds c) k = numerical_values c k"
  by (induction ds arbitrary: c) (auto simp: loadNumericalValue_def)

lemma load_defaults:
  assumes "distinct (map fst ds)" "(k, d) \<in> set ds"
  shows "numerical_values (fold (\<lambda>(name, d). loadNumericalValue j name d) ds c) k =
    Some (case json_number j k of None \<Rightarrow> d | Some v \<Rightarrow> v)"
  using assms
proof (induction ds arbitrary: c)
  case (Cons x ds)
  obtain k' d' where x: "x = (k', d')" by (cases x)
  show ?case
  proof (cases "k = k'")
    case True
    with Cons.prems x have "k \<notin> fst ` set ds" "d = d'" by force+
    moreover have "numerical_values (loadNumericalValue j k' d' c) k' =
        Some (case json_number j k' of None \<Rightarrow> d' | Some v \<Rightarrow> v)"
      by (simp add: loadNumericalValue_def)
    ultimately show ?thesis using True x by (simp add: load_defaults_other split: option.split)
  next
    case False
    with Cons x show ?thesis by simp
  qed
qed simp

lemma distinct_defaults: "distinct (map fst numerical_defaults)"
  by (simp add: numerical_defaults_def)

text \<open>Every setting of the table has the file's value, or its default.\<close>

lemma numerical_value_loaded:
  assumes "(key, d) \<in> set numerical_defaults"
  shows "getNumericalValue (load_configuration env j c) key = (case json_number j key of None \<Rightarrow> d | Some v \<Rightarrow> v)"
proof -
  have "\<forall>(k, d) \<in> set numerical_defaults. k \<noteq> ''is_async_mode_enabled''" by (simp add: numerical_defaults_def)
  with assms have "key \<noteq> ''is_async_mode_enabled''" by auto
  then show ?thesis
    using load_defaults [OF distinct_defaults assms]
    by (simp add: getNumericalValue_def load_configuration_def Let_def loadNumericalValue_def [of _ "''is_async_mode_enabled''"])
qed

text \<open>Comparing bytes from the left is comparing the numbers they spell, most significant first.\<close>

fun be_value :: "bytes \<Rightarrow> nat" where
  "be_value [] = 0"
| "be_value (b # bs) = unat b * 256 ^ length bs + be_value bs"

lemma be_value_bound: "be_value bs < 256 ^ length bs"
proof (induction bs)
  case (Cons b bs)
  have "unat b * 256 ^ length bs + be_value bs < (unat b + 1) * 256 ^ length bs" using Cons by simp
  also have "\<dots> \<le> 256 * 256 ^ length bs" using unat_u8_less [of b] by (intro mult_le_mono1) simp
  finally show ?case by simp
qed simp

lemma memcmp_less_value:
  "length xs = length ys \<Longrightarrow> memcmp_less xs ys \<longleftrightarrow> be_value xs < be_value ys"
proof (induction xs ys rule: memcmp_less.induct)
  case (1 x xs y ys)
  have step: "be_value (a # as) < be_value (b # bs)" if "unat a < unat b" "length as = length bs" for a b as bs
  proof -
    have "be_value (a # as) < (unat a + 1) * 256 ^ length as" using be_value_bound [of as] by simp
    also have "\<dots> \<le> unat b * 256 ^ length as" using that(1) by (intro mult_le_mono1) simp
    finally show ?thesis using that(2) by simp
  qed
  show ?case
  proof (cases "x = y")
    case True
    with 1 show ?thesis by simp
  next
    case False
    then have "unat x \<noteq> unat y" by (simp add: word_unat_eq_iff)
    with step [of x y xs ys] step [of y x ys xs] "1.prems" False show ?thesis
      by (auto simp: word_less_nat_alt not_less_iff_gr_or_eq dest: order.strict_trans)
  qed
qed auto

end
