(* ===== verification/Nano_Reply.thy ===== *)
theory Nano_Reply
  imports Nano_Configuration
begin

text \<open>
  The replies of the nano service, from \<open>nano_attachment_io.c\<close>: the packed structures are read
  from the bytes of the queue at the address \<open>receiveData\<close> returned. \<open>alloc k\<close> says whether
  the \<open>k\<close>-th allocation of a handler succeeds. A handler leaves the response pointer
  \<open>Unchanged\<close>, stores a response (\<open>Written\<close>), or writes past the end of the \<open>uuid\<close> array
  (\<open>Overrun\<close>).
\<close>

section \<open>Packed structures\<close>

definition UUID_SIZE :: nat where "UUID_SIZE = 64"
definition CUSTOM_RESPONSE_TITLE_SIZE :: nat where "CUSTOM_RESPONSE_TITLE_SIZE = 64"
definition CUSTOM_RESPONSE_BODY_SIZE :: nat where "CUSTOM_RESPONSE_BODY_SIZE = 128"
definition REDIRECT_RESPONSE_LOCATION_SIZE :: nat where "REDIRECT_RESPONSE_LOCATION_SIZE = 512"

lemmas reply_limits =
  UUID_SIZE_def CUSTOM_RESPONSE_TITLE_SIZE_def CUSTOM_RESPONSE_BODY_SIZE_def REDIRECT_RESPONSE_LOCATION_SIZE_def

record HttpReplyFromService =
  reply_verdict :: u16
  reply_session_id :: SessionID
  modification_count :: u8
  modify_data :: nat

definition read_reply :: "memory \<Rightarrow> nat \<Rightarrow> HttpReplyFromService" where
  "read_reply p addr =
     \<lparr>reply_verdict = get16 p addr, reply_session_id = get32 p (addr + 2),
      modification_count = p (addr + 6), modify_data = addr + 7\<rparr>"

text \<open>\<open>sizeof(HttpInjectData)\<close>, where the injected data begins.\<close>

definition inject_header_size :: nat where
  "inject_header_size = 16"

definition read_inject_data :: "memory \<Rightarrow> nat \<Rightarrow> HttpInjectData" where
  "read_inject_data p addr =
     \<lparr>injection_pos = get64 p addr, mod_type = get32 p (addr + 8), injection_size = get16 p (addr + 12),
      is_header = p (addr + 14), orig_buff_index = p (addr + 15)\<rparr>"

section \<open>Modifications\<close>

text \<open>\<open>snprintf(target, data_size + 1, "%s", data)\<close> stops at a zero byte of the data.\<close>

definition create_modification_buffer :: "bool \<Rightarrow> memory \<Rightarrow> nat \<Rightarrow> u16 \<Rightarrow> bytes option" where
  "create_modification_buffer allocated p data data_size =
     (if allocated then Some (takeWhile (\<lambda>b. b \<noteq> 0) (read_bytes p data (unat data_size))) else None)"

definition create_modification_node ::
    "(nat \<Rightarrow> bool) \<Rightarrow> nat \<Rightarrow> memory \<Rightarrow> nat \<Rightarrow> NanoHttpModification option" where
  "create_modification_node alloc k p addr =
     (if \<not> alloc k then None
      else
        let m = read_inject_data p addr in
        map_option (\<lambda>buf. \<lparr>modification = m, modification_buffer = buf\<rparr>)
          (create_modification_buffer (alloc (k + 1)) p (addr + inject_header_size) (injection_size m)))"

text \<open>
  The list is what \<open>*modification_list\<close> points to. When it is not empty the code walks
  \<open>*modification_list\<close> itself to the end, so that it is \<open>NULL\<close> when the new node is hooked
  behind the last one.
\<close>

fun inject_loop ::
    "(nat \<Rightarrow> bool) \<Rightarrow> nat \<Rightarrow> memory \<Rightarrow> nat \<Rightarrow> nat \<Rightarrow> NanoHttpModification list \<Rightarrow> NanoHttpModification list" where
  "inject_loop alloc k p addr 0 ml = ml"
| "inject_loop alloc k p addr (Suc n) ml =
     (case create_modification_node alloc k p addr of
        None \<Rightarrow> []
      | Some node \<Rightarrow>
          inject_loop alloc (k + 2) p
            (addr + inject_header_size + unat (injection_size (read_inject_data p addr))) n
            (if ml = [] then [node] else []))"

definition handle_inject_response ::
    "(nat \<Rightarrow> bool) \<Rightarrow> memory \<Rightarrow> nat \<Rightarrow> u8 \<Rightarrow> NanoHttpModification list \<Rightarrow> NanoHttpModification list" where
  "handle_inject_response alloc p addr count ml = inject_loop alloc 0 p addr (unat count) ml"

section \<open>Web responses\<close>

datatype 'a write_result = Unchanged | Written 'a | Overrun

text \<open>The union of \<open>HttpWebResponseData\<close> starts at offset 2, its strings at offset 6.\<close>

definition incident_prefix :: bytes where
  "incident_prefix = map of_char ''Incident Id: ''"

definition handle_custom_web_response ::
    "(nat \<Rightarrow> bool) \<Rightarrow> memory \<Rightarrow> nat \<Rightarrow> WebResponseData write_result" where
  "handle_custom_web_response alloc p addr =
     (let uuid_len = unat (p (addr + 1)); code = get16 p (addr + 2);
          title_len = unat (p (addr + 4)); body_len = unat (p (addr + 5)); data = addr + 6
      in if uuid_len \<ge> UUID_SIZE then Unchanged
         else if title_len \<ge> CUSTOM_RESPONSE_TITLE_SIZE then Unchanged
         else if body_len \<ge> CUSTOM_RESPONSE_BODY_SIZE then Unchanged
         else if \<not> alloc 0 then Unchanged
         else if \<not> alloc 1 then Unchanged
         else if title_len = 0 \<or> body_len = 0
         then Written \<lparr>web_response_type = RESPONSE_CODE_ONLY, wr_uuid = None, wr_data = ResponseCode code\<rparr>
         else if length incident_prefix + uuid_len \<ge> UUID_SIZE then Overrun
         else Written \<lparr>web_response_type = CUSTOM_WEB_RESPONSE,
                wr_uuid = Some (incident_prefix @ read_bytes p (data + title_len + body_len) uuid_len),
                wr_data = CustomResponseData code (read_bytes p data title_len)
                            (read_bytes p (data + title_len) body_len)\<rparr>)"

definition handle_redirect_response ::
    "(nat \<Rightarrow> bool) \<Rightarrow> memory \<Rightarrow> nat \<Rightarrow> WebResponseData write_result" where
  "handle_redirect_response alloc p addr =
     (let uuid_len = unat (p (addr + 1)); location_len = unat (get16 p (addr + 4)); location = addr + 6
      in if uuid_len \<ge> UUID_SIZE then Unchanged
         else if location_len \<ge> REDIRECT_RESPONSE_LOCATION_SIZE then Unchanged
         else if \<not> alloc 0 then Unchanged
         else if \<not> alloc 1 then Unchanged
         else Written \<lparr>web_response_type = REDIRECT_WEB_RESPONSE,
                wr_uuid = Some (read_bytes p (location + location_len) uuid_len),
                wr_data = RedirectData (read_bytes p location location_len)\<rparr>)"

text \<open>
  The packed headers: sizes of key and value, then key and value. Two allocations per header;
  \<open>None\<close> when one fails. The result is the headers and where the body begins.
\<close>

fun parse_headers ::
    "(nat \<Rightarrow> bool) \<Rightarrow> nat \<Rightarrow> memory \<Rightarrow> nat \<Rightarrow> nat \<Rightarrow> ((bytes \<times> bytes) list \<times> nat) option" where
  "parse_headers alloc k p data_ptr 0 = Some ([], data_ptr)"
| "parse_headers alloc k p data_ptr (Suc n) =
     (let key_size = unat (get16 p data_ptr); value_size = unat (get16 p (data_ptr + 2)); key_ptr = data_ptr + 4 in
      if \<not> alloc k then None
      else if \<not> alloc (k + 1) then None
      else map_option
             (\<lambda>(hs, ptr). ((read_bytes p key_ptr key_size, read_bytes p (key_ptr + key_size) value_size) # hs, ptr))
             (parse_headers alloc (k + 2) p (key_ptr + key_size + value_size) n))"

definition handle_custom_response_with_headers ::
    "(nat \<Rightarrow> bool) \<Rightarrow> memory \<Rightarrow> nat \<Rightarrow> WebResponseData write_result" where
  "handle_custom_response_with_headers alloc p addr =
     (let code = get16 p addr; body_size = unat (get16 p (addr + 2)); headers_count = unat (p (addr + 4)) in
      if \<not> alloc 0 then Unchanged
      else if \<not> alloc 1 then Unchanged
      else if headers_count > 0 \<and> \<not> alloc 2 then Unchanged
      else
        (case parse_headers alloc 3 p (addr + 5) headers_count of
           None \<Rightarrow> Unchanged
         | Some (headers, data_ptr) \<Rightarrow>
             if body_size > 0 \<and> \<not> alloc (3 + 2 * headers_count) then Unchanged
             else Written \<lparr>web_response_type = CUSTOM_RESPONSE_WITH_HEADERS, wr_uuid = Some [],
                    wr_data = CustomResponseWithHeaders code headers
                                (if body_size > 0 then Some (read_bytes p data_ptr body_size) else None)\<rparr>))"

definition handle_drop_response ::
    "(nat \<Rightarrow> bool) \<Rightarrow> memory \<Rightarrow> nat \<Rightarrow> WebResponseData write_result" where
  "handle_drop_response alloc p addr =
     (let t = p addr in
      if t = 0 then handle_custom_web_response alloc p addr
      else if t = 3 then handle_redirect_response alloc p addr
      else Unchanged)"

section \<open>Asynchronous replies\<close>

text \<open>What \<open>reset_attachment_config\<close> finds: the environment, whether the file exists, its contents.\<close>

record conf_source =
  cs_environ :: "string \<rightharpoonup> string"
  cs_exists :: bool
  cs_file :: "json_conf option"

record nano_world =
  w_process :: ring_process
  w_attachment :: NanoAttachment
  w_conf :: HttpAttachmentConfiguration

text \<open>The response, or \<open>None\<close> when a handler overran the \<open>uuid\<close> array.\<close>

definition default_response :: AttachmentVerdictResponse where
  "default_response = \<lparr>resp_verdict = ATTACHMENT_VERDICT_INSPECT, resp_session_id = 0,
                       resp_web_response_data = None, resp_modifications = []\<rparr>"

text \<open>The verdict of a reply that is already popped; the bytes are still read from the queue.\<close>

definition convert_reply ::
    "conf_source \<Rightarrow> (nat \<Rightarrow> bool) \<Rightarrow> memory \<Rightarrow> nat \<Rightarrow> nano_world
     \<Rightarrow> AttachmentVerdictResponse option \<times> nano_world" where
  "convert_reply cs alloc p addr w =
     (let reply = read_reply p addr;
          response = default_response\<lparr>resp_session_id := reply_session_id reply\<rparr>
      in (case service_verdict (reply_verdict reply) of
            TRAFFIC_VERDICT_ACCEPT \<Rightarrow> (Some (response\<lparr>resp_verdict := ATTACHMENT_VERDICT_ACCEPT\<rparr>), w)
          | TRAFFIC_VERDICT_DROP \<Rightarrow>
              (case handle_drop_response alloc p (modify_data reply) of
                 Unchanged \<Rightarrow> (Some (response\<lparr>resp_verdict := ATTACHMENT_VERDICT_DROP\<rparr>), w)
               | Written d \<Rightarrow>
                   (Some (response\<lparr>resp_verdict := ATTACHMENT_VERDICT_DROP, resp_web_response_data := Some d\<rparr>), w)
               | Overrun \<Rightarrow> (None, w))
          | TRAFFIC_VERDICT_RECONF \<Rightarrow>
              (case reset_attachment_config (cs_environ cs) (cs_exists cs) (cs_file cs) (w_attachment w) (w_conf w) of
                 (_, a, c) \<Rightarrow>
                   (Some (response\<lparr>resp_session_id := 0\<rparr>), w\<lparr>w_attachment := a, w_conf := c\<rparr>))
          | TRAFFIC_VERDICT_DELAYED \<Rightarrow> (Some (response\<lparr>resp_verdict := ATTACHMENT_VERDICT_DELAYED\<rparr>), w)
          | _ \<Rightarrow> (Some response, w)))"

definition PopResponseVerdictFromQueue ::
    "host_files \<Rightarrow> conf_source \<Rightarrow> (nat \<Rightarrow> bool) \<Rightarrow> nano_world \<Rightarrow> AttachmentVerdictResponse option \<times> nano_world" where
  "PopResponseVerdictFromQueue h cs alloc w =
     (let a = w_attachment w; ipc = nano_service_ipc a in
      if ipc = None then (Some default_response, w)
      else if \<not> isDataAvailable_2 ipc then (Some default_response, w)
      else
        (case receiveData_2 h (w_process w) ipc of
           None \<Rightarrow> (Some default_response, w)
         | Some (r, out, P1, ipc1) \<Rightarrow>
             let w1 = w\<lparr>w_process := P1, w_attachment := a\<lparr>nano_service_ipc := ipc1\<rparr>\<rparr> in
             (case out of
                None \<Rightarrow> (Some default_response, w1)
              | Some (addr, sz) \<Rightarrow>
                  if r < 0 then (Some default_response, w1)
                  else
                    (case popData_2 h P1 ipc1 of
                       (r2, P2, ipc2) \<Rightarrow>
                         let w2 = w1\<lparr>w_process := P2, w_attachment := a\<lparr>nano_service_ipc := ipc2\<rparr>\<rparr> in
                         if r2 < 0 then (Some default_response, w2)
                         else
                           (case ipc2 of
                              None \<Rightarrow> (Some default_response, w2)
                            | Some i \<Rightarrow>
                                (case rx_queue_2 i of
                                   None \<Rightarrow> (Some default_response, w2)
                                 | Some q \<Rightarrow> convert_reply cs alloc (payload q) addr w2))))))"

section \<open>Lemmas\<close>

text \<open>Every second injection empties the list again.\<close>

lemma inject_loop_length:
  assumes "\<And>i. alloc i" "length ml \<le> 1"
  shows "length (inject_loop alloc k p addr n ml) = (n + length ml) mod 2"
  using assms(2)
proof (induction n arbitrary: k addr ml)
  case (Suc n)
  obtain node where "create_modification_node alloc k p addr = Some node"
    using assms(1) by (simp add: create_modification_node_def create_modification_buffer_def Let_def)
  with Suc.IH Suc.prems show ?case
    by (cases ml) (simp_all add: mod_simps)
next
  case 0
  then show ?case by (cases ml) simp_all
qed

text \<open>The wire format of a response with headers, as the structures of the common header describe it.\<close>

definition pack_header :: "bytes \<times> bytes \<Rightarrow> bytes" where
  "pack_header h = le16 (of_nat (length (fst h))) @ le16 (of_nat (length (snd h))) @ fst h @ snd h"

definition pack_custom_response :: "u16 \<Rightarrow> (bytes \<times> bytes) list \<Rightarrow> bytes \<Rightarrow> bytes" where
  "pack_custom_response code headers body =
     le16 code @ le16 (of_nat (length body)) @ [of_nat (length headers)] @ concat (map pack_header headers) @ body"

lemma parse_packed_headers:
  assumes "\<And>i. alloc i" "list_all (\<lambda>h. length (fst h) < 65536 \<and> length (snd h) < 65536) hs"
    and "bytes_at p a (concat (map pack_header hs))"
  shows "parse_headers alloc k p a (length hs) = Some (hs, a + length (concat (map pack_header hs)))"
  using assms(2,3)
proof (induction hs arbitrary: k a)
  case (Cons h hs)
  obtain x y where h: "h = (x, y)" by (cases h)
  have packed: "concat (map pack_header (h # hs)) =
      le16 (of_nat (length x)) @ le16 (of_nat (length y)) @ x @ y @ concat (map pack_header hs)"
    by (simp add: h pack_header_def)
  have four: "a + 2 + 2 = a + 4" by simp
  have at: "bytes_at p a (le16 (of_nat (length x)))" "bytes_at p (a + 2) (le16 (of_nat (length y)))"
    "bytes_at p (a + 4) x" "bytes_at p (a + 4 + length x) y"
    "bytes_at p (a + 4 + length x + length y) (concat (map pack_header hs))"
    using Cons.prems(2) unfolding packed bytes_at_append length_le four by blast+
  from Cons.prems have len: "length x < 65536" "length y < 65536" by (simp_all add: h)
  note IH = Cons.IH [OF _ at(5), of "k + 2"]
  from at len IH Cons.prems(1) show ?case
    by (simp add: assms(1) get16_at bytes_at_read h pack_header_def add.assoc)
qed simp

text \<open>
  Receiving and then popping the head of a channel: the address has the bytes of the head, also
  after the pop, and the channel then holds the other messages.
\<close>

lemma receive_then_pop:
  assumes rx: "rx_queue_2 i = Some q" and holds: "holds_2 (P, global_data i, q) (m # ms)"
  obtains addr q1 q2 where "isDataAvailable_2 (Some i)"
    "receiveData_2 h P (Some i) = Some (0, Some (addr, of_nat (length m)), P, Some (i\<lparr>rx_queue_2 := Some q1\<rparr>))"
    "bytes_at (payload q1) addr m"
    "popData_2 h P (Some (i\<lparr>rx_queue_2 := Some q1\<rparr>)) = (0, P, Some (i\<lparr>rx_queue_2 := Some q2\<rparr>))"
    "bytes_at (payload q2) addr m" "holds_2 (P, global_data i, q2) ms"
proof -
  let ?gd = "global_data i" and ?n = "num_of_data_segments q" and ?seg = "segment_size_2 P"
  from holds have bound: "queue_bound_2 P ?gd q" and rep: "ring_rep ?seg ?seg ?n q (m # ms)"
    by (simp_all add: holds_2_def)
  have avail: "isDataAvailable_2 (Some i)"
    using ring_rep_Nil_iff [OF rep] rx by (simp add: isDataAvailable_2_def isQueueEmpty_def)
  from peek_core_head [OF rep] obtain addr q1 where
    q1: "peek_core ?seg ?n q = (0, Some (addr, of_nat (length m)), q1)"
    "read_bytes (payload q1) addr (length m) = m" "at_message q1" "ring_rep ?seg ?seg ?n q1 (m # ms)" by blast
  note frame1 = peek_core_frame [OF q1(1)]
  have bound1: "queue_bound_2 P ?gd q1" using bound frame1 by (simp add: queue_bound_2_def)
  have rep1: "ring_rep ?seg ?seg (num_of_data_segments q1) q1 (m # ms)" using q1(4) frame1 by simp
  from pop_core_tail [OF rep1 q1(3)] obtain q2 where
    q2: "pop_core ?seg (num_of_data_segments q1) q1 = (0, q2)" "ring_rep ?seg ?seg (num_of_data_segments q1) q2 ms"
    by blast
  note frame2 = pop_core_frame [OF q2(1)]
  have receive: "receiveData_2 h P (Some i) =
      Some (0, Some (addr, of_nat (length m)), P, Some (i\<lparr>rx_queue_2 := Some q1\<rparr>))"
    using rx q1(1) by (simp add: receiveData_2_def core_2(2) [OF bound rep])
  have "pop_2 h (P, ?gd, q1) = (0, P, ?gd, q2)" using q2(1) by (simp add: core_2(3) [OF bound1 rep1])
  then have pop: "popData_2 h P (Some (i\<lparr>rx_queue_2 := Some q1\<rparr>)) = (0, P, Some (i\<lparr>rx_queue_2 := Some q2\<rparr>))"
    by (auto simp: popData_2_def pop_2_def split: prod.splits)
  have "payload q2 (addr + j) = payload q1 (addr + j)" for j
    using pop_core_data [OF rep1 q1(3), of "addr + j"] peek_core_addr [OF q1(1)] q2(1) by simp
  then have "read_bytes (payload q2) addr (length m) = read_bytes (payload q1) addr (length m)"
    by (simp add: read_bytes_def)
  with q1(2) have at: "bytes_at (payload q1) addr m" "bytes_at (payload q2) addr m" by (simp_all add: bytes_at_def)
  have "holds_2 (P, ?gd, q2) ms" using bound1 q2(2) frame2 by (simp add: holds_2_def queue_bound_2_def)
  with that avail receive pop at show thesis by blast
qed

text \<open>
  Popping a reply: when the channel from the service holds \<open>m\<close> and more messages, the
  response is converted from the bytes of \<open>m\<close>, and the channel holds the others.
\<close>

lemma pop_response_converts:
  assumes ipc: "nano_service_ipc (w_attachment w) = Some i" "rx_queue_2 i = Some q"
    and holds: "holds_2 (w_process w, global_data i, q) (m # ms)"
  shows "\<exists>addr q2. PopResponseVerdictFromQueue h cs alloc w =
      convert_reply cs alloc (payload q2) addr
        (w\<lparr>w_attachment := (w_attachment w)\<lparr>nano_service_ipc := Some (i\<lparr>rx_queue_2 := Some q2\<rparr>)\<rparr>\<rparr>)
    \<and> bytes_at (payload q2) addr m \<and> holds_2 (w_process w, global_data i, q2) ms"
proof -
  obtain addr q1 q2 where *: "isDataAvailable_2 (Some i)"
    "receiveData_2 h (w_process w) (Some i) =
       Some (0, Some (addr, of_nat (length m)), w_process w, Some (i\<lparr>rx_queue_2 := Some q1\<rparr>))"
    "popData_2 h (w_process w) (Some (i\<lparr>rx_queue_2 := Some q1\<rparr>)) = (0, w_process w, Some (i\<lparr>rx_queue_2 := Some q2\<rparr>))"
    "bytes_at (payload q2) addr m" "holds_2 (w_process w, global_data i, q2) ms"
    using receive_then_pop [OF ipc(2) holds, of h] .
  then have "PopResponseVerdictFromQueue h cs alloc w =
      convert_reply cs alloc (payload q2) addr
        (w\<lparr>w_attachment := (w_attachment w)\<lparr>nano_service_ipc := Some (i\<lparr>rx_queue_2 := Some q2\<rparr>)\<rparr>\<rparr>)"
    using ipc(1) by (simp add: PopResponseVerdictFromQueue_def Let_def)
  with * show ?thesis by blast
qed

text \<open>The fixed part of a reply on the wire.\<close>

definition pack_reply :: "u16 \<Rightarrow> SessionID \<Rightarrow> u8 \<Rightarrow> bytes \<Rightarrow> bytes" where
  "pack_reply verdict session_id count rest = le16 verdict @ le32 session_id @ [count] @ rest"

lemma read_packed_reply:
  assumes "bytes_at p addr (pack_reply v s c rest)"
  shows "reply_verdict (read_reply p addr) = v" "reply_session_id (read_reply p addr) = s"
    "modification_count (read_reply p addr) = c" "bytes_at p (modify_data (read_reply p addr)) rest"
proof -
  have off: "addr + 2 + 4 = addr + 6" "addr + 6 + length [c] = addr + 7" by simp_all
  have "bytes_at p addr (le16 v)" "bytes_at p (addr + 2) (le32 s)" "bytes_at p (addr + 6) [c]" "bytes_at p (addr + 7) rest"
    using assms unfolding pack_reply_def bytes_at_append length_le off by blast+
  then show "reply_verdict (read_reply p addr) = v" "reply_session_id (read_reply p addr) = s"
    "modification_count (read_reply p addr) = c" "bytes_at p (modify_data (read_reply p addr)) rest"
    by (simp_all add: read_reply_def get16_at get32_at)
qed

text \<open>
  The page of a reply that drops a session, as the service packs it: a block page, of which only the
  code counts when title or body is empty, or the location of a redirection. \<open>page_fits\<close> has the limits
  of the handlers; the prefix of the incident id must fit beside it.
\<close>

datatype drop_page =
    PageOfTexts u16 bytes bytes bytes
  | PageOfLocation u16 bytes bytes

fun pack_page :: "drop_page \<Rightarrow> bytes" where
  "pack_page (PageOfTexts code title body uuid) =
     [0, of_nat (length uuid)] @ le16 code @ [of_nat (length title), of_nat (length body)] @ title @ body @ uuid"
| "pack_page (PageOfLocation flags location uuid) =
     [3, of_nat (length uuid)] @ le16 flags @ le16 (of_nat (length location)) @ location @ uuid"

fun page_fits :: "drop_page \<Rightarrow> bool" where
  "page_fits (PageOfTexts code title body uuid) \<longleftrightarrow>
     length title < CUSTOM_RESPONSE_TITLE_SIZE \<and> length body < CUSTOM_RESPONSE_BODY_SIZE
     \<and> length incident_prefix + length uuid < UUID_SIZE"
| "page_fits (PageOfLocation flags location uuid) \<longleftrightarrow>
     length location < REDIRECT_RESPONSE_LOCATION_SIZE \<and> length uuid < UUID_SIZE"

fun page_web :: "drop_page \<Rightarrow> WebResponseData" where
  "page_web (PageOfTexts code title body uuid) =
     (if title = [] \<or> body = []
      then \<lparr>web_response_type = RESPONSE_CODE_ONLY, wr_uuid = None, wr_data = ResponseCode code\<rparr>
      else \<lparr>web_response_type = CUSTOM_WEB_RESPONSE, wr_uuid = Some (incident_prefix @ uuid),
             wr_data = CustomResponseData code title body\<rparr>)"
| "page_web (PageOfLocation flags location uuid) =
     \<lparr>web_response_type = REDIRECT_WEB_RESPONSE, wr_uuid = Some uuid, wr_data = RedirectData location\<rparr>"

lemma read_texts_page:
  assumes "\<And>i. alloc i" "bytes_at p a (pack_page (PageOfTexts code title body uuid))"
    and "page_fits (PageOfTexts code title body uuid)"
  shows "handle_drop_response alloc p a = Written (page_web (PageOfTexts code title body uuid))"
proof -
  have len: "length title < 64" "length body < 128" "13 + length uuid < 64"
    using assms(3) by (simp_all add: reply_limits incident_prefix_def)
  have off: "a + length [x, y] = a + 2" "a + 2 + 2 = a + 4" "a + 4 + length [x, y] = a + 6" for x y :: u8 by simp_all
  have "bytes_at p a [0, of_nat (length uuid)]" "bytes_at p (a + 2) (le16 code)"
    "bytes_at p (a + 4) [of_nat (length title), of_nat (length body)]" "bytes_at p (a + 6) title"
    "bytes_at p (a + 6 + length title) body" "bytes_at p (a + 6 + length title + length body) uuid"
    using assms(2) unfolding pack_page.simps bytes_at_append length_le off by blast+
  then have at: "p a = 0" "p (a + 1) = of_nat (length uuid)" "bytes_at p (a + 2) (le16 code)" "p (a + 4) = of_nat (length title)"
    "p (a + 5) = of_nat (length body)" "bytes_at p (a + 6) title" "bytes_at p (a + 6 + length title) body"
    "bytes_at p (a + 6 + length title + length body) uuid"
    by (simp_all add: eval_nat_numeral)
  from at(3,6-8) have "get16 p (a + 2) = code" "read_bytes p (a + 6) (length title) = title"
    "read_bytes p (a + 6 + length title) (length body) = body"
    "read_bytes p (a + 6 + length title + length body) (length uuid) = uuid"
    by (simp_all add: get16_at bytes_at_read)
  then show ?thesis
    using len assms(1)
    by (simp add: handle_drop_response_def handle_custom_web_response_def at(1,2,4,5) at(2) [simplified] reply_limits incident_prefix_def
        Let_def)
qed

lemma read_location_page:
  assumes "\<And>i. alloc i" "bytes_at p a (pack_page (PageOfLocation flags location uuid))"
    and "page_fits (PageOfLocation flags location uuid)"
  shows "handle_drop_response alloc p a = Written (page_web (PageOfLocation flags location uuid))"
proof -
  have len: "length location < 512" "length uuid < 64" using assms(3) by (simp_all add: reply_limits)
  have off: "a + length [x, y] = a + 2" "a + 2 + 2 = a + 4" "a + 4 + 2 = a + 6" for x y :: u8 by simp_all
  have "bytes_at p a [3, of_nat (length uuid)]" "bytes_at p (a + 4) (le16 (of_nat (length location)))"
    "bytes_at p (a + 6) location" "bytes_at p (a + 6 + length location) uuid"
    using assms(2) unfolding pack_page.simps bytes_at_append length_le off by blast+
  then have at: "p a = 3" "p (a + 1) = of_nat (length uuid)" "bytes_at p (a + 4) (le16 (of_nat (length location)))"
    "bytes_at p (a + 6) location" "bytes_at p (a + 6 + length location) uuid"
    by simp_all
  from at(3-5) have "get16 p (a + 4) = of_nat (length location)" "read_bytes p (a + 6) (length location) = location"
    "read_bytes p (a + 6 + length location) (length uuid) = uuid"
    by (simp_all add: get16_at bytes_at_read)
  then show ?thesis
    using len assms(1)
    by (simp add: handle_drop_response_def handle_redirect_response_def at(1) at(2) [simplified] reply_limits Let_def)
qed

lemma read_page:
  assumes "\<And>i. alloc i" "bytes_at p a (pack_page page)" "page_fits page"
  shows "handle_drop_response alloc p a = Written (page_web page)"
  using assms by (cases page) (simp_all only: read_texts_page read_location_page)

end
