(* ===== verification/Nano_Properties.thy ===== *)
theory Nano_Properties
  imports Ipc_Properties Nano_Verdict Nano_Reply Nano_Thread
begin

text \<open>
  The properties of the nano attachment: metrics, the store of asynchronous verdicts and the
  queue of failed sessions, the thread time-out, the configuration, the excluded sources, and
  the decoding of the replies of the service into verdicts.
\<close>

section \<open>Metrics\<close>

lemma average_ignores_zero:
  assumes "t \<in> set average_metrics"
  shows "update_all a t (filter (\<lambda>v. v \<noteq> 0) vs) = update_all a t vs"
  by (induction vs rule: rev_induct) (simp_all add: updateMetricField_def assms)

lemma thread_counters:
  "updateMetricField a THREAD_TIMEOUT v = updateCounterMetricField a THREAD_TIMEOUT v"
  "updateMetricField a THREAD_FAILURE v = updateCounterMetricField a THREAD_FAILURE v"
  by (simp_all add: updateMetricField_def average_metrics_def max_metrics_def min_metrics_def)

text \<open>
  After a reset, any sequence of reports leaves a maximum metric at the largest value
  reported, a minimum metric at the smallest non-zero value reported and a counter at the sum of
  the values (modulo \<open>2 ^ 64\<close>); zeros do not count in an average.
\<close>

theorem metric_summaries:
  "metric_data (update_all (reset_metric_data a) t vs) t =
     (if t \<in> set max_metrics then fold max vs 0
      else if t \<in> set min_metrics then least_nonzero vs
      else if t \<in> set average_metrics then metric_data (update_all (reset_metric_data a) t (filter (\<lambda>v. v \<noteq> 0) vs)) t
      else sum_list vs)"
  using max_after_updates [of t a vs] min_after_updates [of t a vs] counter_after_updates [of t a vs]
    average_ignores_zero [of t "reset_metric_data a" vs] by simp

text \<open>
  An average metric stays between the smallest and the largest value reported, and its
  divisor counts the reports, as long as the running sum fits into 64 bits.
\<close>

theorem average_between_bounds:
  assumes "t \<in> set average_metrics" "list_all (\<lambda>v. v \<noteq> 0 \<and> lo \<le> unat v \<and> unat v \<le> hi) vs"
    and "vs \<noteq> []" "hi * length vs < 2 ^ 64"
  shows "lo \<le> unat (metric_data (update_all (reset_metric_data a) t vs) t)
    \<and> unat (metric_data (update_all (reset_metric_data a) t vs) t) \<le> hi
    \<and> metric_average_data_divisor (update_all (reset_metric_data a) t vs) t = of_nat (length vs)"
  using assms by (rule average_after_updates)

theorem average_between_bounds_witness:
  "\<forall>a. 2 \<le> unat (metric_data (update_all (reset_metric_data a) CPU_USAGE [2, 5]) CPU_USAGE)
     \<and> unat (metric_data (update_all (reset_metric_data a) CPU_USAGE [2, 5]) CPU_USAGE) \<le> 5"
proof
  fix a
  have "CPU_USAGE \<in> set average_metrics" by (simp add: average_metrics_def)
  moreover have "list_all (\<lambda>v. v \<noteq> 0 \<and> 2 \<le> unat v \<and> unat v \<le> 5) [2, 5 :: u64]" by simp
  ultimately show "2 \<le> unat (metric_data (update_all (reset_metric_data a) CPU_USAGE [2, 5]) CPU_USAGE)
     \<and> unat (metric_data (update_all (reset_metric_data a) CPU_USAGE [2, 5]) CPU_USAGE) \<le> 5"
    using average_between_bounds [of CPU_USAGE 2 5 "[2, 5]" a] by simp
qed

section \<open>Asynchronous verdicts and failed sessions\<close>

text \<open>
  The store of asynchronous verdicts: after adding a response for a session, looking up any
  session yields that response exactly when the two ids agree modulo 2048, and the previous
  entry otherwise. In particular a session reads back its own response, and sessions with
  congruent ids read each other's.
\<close>

theorem async_find_after_add:
  "fst (NanoAsyncAddResponse a s (Some r)) = NANO_OK
    \<and> NanoAsyncFindResponse (snd (NanoAsyncAddResponse a s (Some r))) t =
        (if unat s mod 2048 = unat t mod 2048 then r else NanoAsyncFindResponse a t)"
  using hash_eq_iff [of s t]
  by (auto simp: NanoAsyncAddResponse_def NanoAsyncFindResponse_def word_unat_eq_iff)

text \<open>
  The queue of failed sessions is a bounded first-in-first-out queue: up to 1024 session ids
  added to an empty queue are popped in the order they were added, leaving it empty, through
  any wrap-around of the ring.
\<close>

theorem failed_sessions_fifo:
  assumes "failed_ok q" "failed_items q = []" "length ids \<le> 1024"
  shows "\<exists>q'. pop_each queue_pop (length ids) (add_each queue_add q ids) = (ids, q')
    \<and> failed_ok q' \<and> failed_items q' = []"
  using assms by (rule failed_queue.add_then_pop)

definition wrapping_failed_queue :: SessionIDQueue where
  "wrapping_failed_queue = \<lparr>sq_queue = (\<lambda>_. 0), sq_head = 1023, sq_tail = 1023, sq_count = 0\<rparr>"

theorem failed_sessions_fifo_witness:
  "\<exists>q'. pop_each queue_pop 3 (add_each queue_add wrapping_failed_queue [7, 8, 9]) = ([7, 8, 9], q')
    \<and> failed_ok q' \<and> failed_items q' = []"
  using failed_sessions_fifo [of wrapping_failed_queue "[7, 8, 9]"]
  by (simp add: failed_ok_def failed_items_def wrapping_failed_queue_def numeral_3_eq_3)

text \<open>
  A full queue of failed sessions refuses a further id: the call answers \<open>NANO_ERROR\<close> and the
  attachment is unchanged; with room it answers \<open>NANO_OK\<close> and the id is the last of the queue.
\<close>

theorem failed_session_add_result:
  assumes "failed_ok (async_failed_bucket a)"
  shows "NanoAsyncFailedSessionIDQueueAdd (Some a) s =
      (if length (failed_items (async_failed_bucket a)) < 1024
       then (NANO_OK, Some (a\<lparr>async_failed_bucket := snd (queue_add (async_failed_bucket a) s)\<rparr>))
       else (NANO_ERROR, Some a))
    \<and> (length (failed_items (async_failed_bucket a)) < 1024 \<longrightarrow>
        failed_items (snd (queue_add (async_failed_bucket a) s)) = failed_items (async_failed_bucket a) @ [s])"
proof (cases "length (failed_items (async_failed_bucket a)) < 1024")
  case True
  with failed_queue.add_room [OF assms, of s] show ?thesis
    by (auto simp: NanoAsyncFailedSessionIDQueueAdd_def split: prod.split bool.split)
next
  case False
  with failed_queue.add_full [OF assms, of s] show ?thesis
    by (simp add: NanoAsyncFailedSessionIDQueueAdd_def)
qed

theorem failed_session_add_result_witness:
  "\<forall>a. fst (NanoAsyncFailedSessionIDQueueAdd (Some (a\<lparr>async_failed_bucket := wrapping_failed_queue\<rparr>)) 5) = NANO_OK"
proof
  fix a :: NanoAttachment
  show "fst (NanoAsyncFailedSessionIDQueueAdd (Some (a\<lparr>async_failed_bucket := wrapping_failed_queue\<rparr>)) 5) = NANO_OK"
    using failed_session_add_result [of "a\<lparr>async_failed_bucket := wrapping_failed_queue\<rparr>" 5]
    by (simp add: failed_ok_def failed_items_def wrapping_failed_queue_def)
qed

section \<open>Inspection threads\<close>

text \<open>
  The deadline of an inspection thread lies twice the configured time-out after the clock
  reading it starts from, with a normalised nanosecond part.
\<close>

theorem deadline_doubles_timeout:
  assumes "0 \<le> timeout" "0 \<le> tv_nsec ts" "tv_nsec ts < 1000000000"
  shows "total_nsec (thread_deadline ts timeout) = total_nsec ts + 2 * (timeout * 1000000)
    \<and> 0 \<le> tv_nsec (thread_deadline ts timeout) \<and> tv_nsec (thread_deadline ts timeout) < 1000000000"
  using thread_deadline_total [OF assms] by simp

theorem deadline_doubles_timeout_witness:
  "total_nsec (thread_deadline \<lparr>tv_sec = 10, tv_nsec = 900000000\<rparr> 150) = 11200000000"
  using deadline_doubles_timeout [of 150 "\<lparr>tv_sec = 10, tv_nsec = 900000000\<rparr>"] by (simp add: total_nsec_def)

text \<open>
  A timed inspection whose system calls succeed answers true exactly when the thread ends
  before the deadline, and then with what the thread computed; otherwise the thread is
  cancelled, and the time-out counter (or the failure counter, if the thread ended in between)
  is one higher than the cancelled thread left it.
\<close>

theorem timed_inspection_outcome:
  fixes session_data :: "HttpSessionData option" and timeout :: int and ty :: TransactionType and a :: NanoAttachment
    and f :: "NanoAttachment \<times> HttpEventThreadCtx \<Rightarrow> (NanoAttachment \<times> HttpEventThreadCtx) option"
    and partial :: "NanoAttachment \<times> HttpEventThreadCtx \<Rightarrow> NanoAttachment \<times> HttpEventThreadCtx"
  assumes "clock_begin os \<noteq> None" "pthread_create_ok os" "clock_deadline os = Some ts" "cancel_join_status os = 0"
  defines "s0 \<equiv> (a, init_thread_ctx session_data)"
    and "in_time \<equiv> timedjoin_status os (thread_deadline ts timeout) = 0"
    and "out \<equiv> NanoRunInThreadTimeout os (\<lambda>t b. updateMetricField b t 1) NON_BLOCKING_THREAD a session_data f partial timeout ty"
    and "counter \<equiv> if joined_canceled os then THREAD_TIMEOUT else THREAD_FAILURE"
  shows "(in_time \<longrightarrow> (case f s0 of None \<Rightarrow> out = None
           | Some (b, ctx) \<Rightarrow> (\<exists>ctx'. out = Some (True, b, ctx') \<and> ctx_res ctx' = ctx_res ctx)))
    \<and> (\<not> in_time \<longrightarrow> (\<exists>b ctx. out = Some (False, b, ctx) \<and> metric_data b counter = metric_data (fst (partial s0)) counter + 1))"
  using assms(1-4) thread_counters
  by (auto simp: out_def NanoRunInThreadTimeout_def s0_def in_time_def counter_def inspection_modes Let_def split_beta
      updateCounterMetricField_def split: option.splits)

definition sample_thread_calls :: "int \<Rightarrow> thread_calls" where
  "sample_thread_calls join_status =
     \<lparr>clock_begin = Some \<lparr>tv_sec = 10, tv_nsec = 0\<rparr>, pthread_create_ok = True, blocking_join_status = 0,
      clock_deadline = Some \<lparr>tv_sec = 10, tv_nsec = 0\<rparr>, timedjoin_status = (\<lambda>_. 110),
      cancel_join_status = join_status, joined_canceled = True, clock_end = \<lparr>tv_sec = 11, tv_nsec = 0\<rparr>\<rparr>"

theorem timed_inspection_outcome_witness:
  "\<forall>a f. \<exists>b ctx. NanoRunInThreadTimeout (sample_thread_calls 0) (\<lambda>t b. updateMetricField b t 1) NON_BLOCKING_THREAD a None
       f id 100 REQUEST = Some (False, b, ctx) \<and> metric_data b THREAD_TIMEOUT = metric_data a THREAD_TIMEOUT + 1"
proof (intro allI)
  fix a :: NanoAttachment and f
  show "\<exists>b ctx. NanoRunInThreadTimeout (sample_thread_calls 0) (\<lambda>t b. updateMetricField b t 1) NON_BLOCKING_THREAD a None
       f id 100 REQUEST = Some (False, b, ctx) \<and> metric_data b THREAD_TIMEOUT = metric_data a THREAD_TIMEOUT + 1"
    using timed_inspection_outcome [where a = a
      and os = "sample_thread_calls 0" and ts = "\<lparr>tv_sec = 10, tv_nsec = 0\<rparr>" and timeout = 100
      and session_data = None and f = f and partial = id and ty = REQUEST]
    by (simp add: sample_thread_calls_def)
qed

text \<open>
  When joining a timed-out thread fails after its cancellation, the inspection is reported as
  successful, although the thread did not finish and the failure is counted.
\<close>

theorem failed_join_reported_as_success:
  fixes a :: NanoAttachment
  assumes "clock_begin os \<noteq> None" "pthread_create_ok os" "clock_deadline os = Some ts"
    and "timedjoin_status os (thread_deadline ts timeout) \<noteq> 0" "cancel_join_status os \<noteq> 0"
  shows "\<exists>b ctx. NanoRunInThreadTimeout os (\<lambda>t b. updateMetricField b t 1) NON_BLOCKING_THREAD a session_data f partial timeout ty
           = Some (True, b, ctx)
         \<and> metric_data b THREAD_FAILURE = metric_data (fst (partial (a, init_thread_ctx session_data))) THREAD_FAILURE + 1"
  using assms thread_counters
  by (auto simp: NanoRunInThreadTimeout_def inspection_modes Let_def split_beta updateCounterMetricField_def)

theorem failed_join_reported_as_success_witness:
  "\<forall>a f. \<exists>b ctx. NanoRunInThreadTimeout (sample_thread_calls 3) (\<lambda>t b. updateMetricField b t 1) NON_BLOCKING_THREAD a None f id 100 REQUEST
       = Some (True, b, ctx)"
proof (intro allI)
  fix a :: NanoAttachment and f
  show "\<exists>b ctx. NanoRunInThreadTimeout (sample_thread_calls 3) (\<lambda>t b. updateMetricField b t 1) NON_BLOCKING_THREAD a None f id 100 REQUEST
       = Some (True, b, ctx)"
    using failed_join_reported_as_success [of "sample_thread_calls 3" "\<lparr>tv_sec = 10, tv_nsec = 0\<rparr>" 100 a None f id REQUEST]
    by (auto simp: sample_thread_calls_def)
qed

section \<open>Configuration\<close>

text \<open>
  Loading a configuration file gives each of the numerical settings the value the file has for
  it and its default where the file has none.
\<close>

theorem configuration_values:
  assumes "(key, d) \<in> set numerical_defaults"
  shows "getNumericalValue (load_configuration env j c) key =
    (case json_number j key of None \<Rightarrow> d | Some v \<Rightarrow> v)"
  using assms by (rule numerical_value_loaded)

definition sample_json :: json_conf where
  "sample_json = \<lparr>json_number = [''fail_open_timeout'' \<mapsto> 75, ''is_fail_open_mode_enabled'' \<mapsto> 1],
     json_string = (\<lambda>_. None), json_ip_ranges = None\<rparr>"

definition sample_conf :: HttpAttachmentConfiguration where
  "sample_conf = \<lparr>numerical_values = (\<lambda>_. None), string_values = (\<lambda>_. None), exclude_sources = []\<rparr>"

theorem configuration_values_witness:
  "getNumericalValue (load_configuration (\<lambda>_. None) sample_json sample_conf) ''fail_open_timeout'' = 75"
  using configuration_values [of "''fail_open_timeout''" 50 "\<lambda>_. None" sample_json sample_conf]
  by (simp add: numerical_defaults_def sample_json_def)

text \<open>
  Initialising the attachment from a readable file, when no configuration is in force, succeeds
  exactly when the debug level is below the number of levels as a signed number (so levels from
  \<open>2 ^ 31\<close> on are accepted too) and the inspection mode is one of the three modes; the attachment is
  marked as configured exactly then, and fails open exactly when the file says 1.
\<close>

theorem configuration_accepted_iff:
  fixes env :: "string \<rightharpoonup> string" and j :: json_conf and c :: HttpAttachmentConfiguration
  assumes "is_configuration_updated a \<noteq> NANO_OK"
  defines "C \<equiv> load_configuration env j c" and "out \<equiv> init_attachment_config env True (Some j) a c"
  shows "(fst out = NANO_OK \<longleftrightarrow>
      sint (getNumericalValue C ''dbg_level'') < 6 \<and> getNumericalValue C ''nginx_inspection_mode'' < 3)
    \<and> fst out \<in> {NANO_OK, NANO_ERROR} \<and> is_configuration_updated (fst (snd out)) = fst out
    \<and> (fst out = NANO_OK \<longrightarrow>
        (fail_mode_verdict (fst (snd out)) = NANO_OK \<longleftrightarrow> getNumericalValue C ''is_fail_open_mode_enabled'' = 1)
        \<and> inspection_mode (fst (snd out)) = getNumericalValue C ''nginx_inspection_mode'')"
proof -
  have "sint DBG_LEVEL_COUNT = 6" by (simp add: DBG_LEVEL_COUNT_def)
  then show ?thesis
    using assms(1)
    by (auto simp: out_def C_def init_attachment_config_def initAttachmentConfig_def Let_def INSPECTION_MODE_COUNT_def
        not_le)
qed

theorem configuration_accepted_iff_witness:
  "\<forall>a :: NanoAttachment. fst (init_attachment_config (\<lambda>_. None) True (Some sample_json)
     (a\<lparr>is_configuration_updated := NANO_ERROR\<rparr>) sample_conf) = NANO_OK"
proof
  fix a :: NanoAttachment
  have "getNumericalValue (load_configuration (\<lambda>_. None) sample_json sample_conf) ''dbg_level'' = 0"
    "getNumericalValue (load_configuration (\<lambda>_. None) sample_json sample_conf) ''nginx_inspection_mode'' = 0"
    using numerical_value_loaded [of "''dbg_level''" 0 "\<lambda>_. None" sample_json sample_conf]
      numerical_value_loaded [of "''nginx_inspection_mode''" 0 "\<lambda>_. None" sample_json sample_conf]
    by (simp_all add: numerical_defaults_def sample_json_def)
  then show "fst (init_attachment_config (\<lambda>_. None) True (Some sample_json)
      (a\<lparr>is_configuration_updated := NANO_ERROR\<rparr>) sample_conf) = NANO_OK"
    using configuration_accepted_iff [where a = "a\<lparr>is_configuration_updated := NANO_ERROR\<rparr>" and env = "\<lambda>_. None"
      and j = sample_json and c = sample_conf] by simp
qed

section \<open>Excluded sources\<close>

text \<open>
  A range \<open>start-end\<close> of excluded sources covers an address exactly when the three are of one
  family and the address lies, as a number in network byte order, between the two ends. The
  address parser is a parameter that yields 4 bytes for IPv4 and 16 for IPv6.
\<close>

theorem excluded_range_numeric:
  assumes "\<forall>v6 t bs. inet_pton v6 t = Some bs \<longrightarrow> length bs = (if v6 then 16 else 4)"
    and "CHR ''-'' \<notin> set lo" "inet_pton (is_v6_string lo) lo = Some lo_bytes"
    and "inet_pton (is_v6_string hi) hi = Some hi_bytes" "inet_pton (is_v6_string ip) ip = Some ip_bytes'"
  shows "isIPInRangeString inet_pton (createIPAddress inet_pton ip) (lo @ ''-'' @ hi) \<longleftrightarrow>
    is_v6_string ip = is_v6_string lo \<and> is_v6_string ip = is_v6_string hi
    \<and> be_value lo_bytes \<le> be_value ip_bytes' \<and> be_value ip_bytes' \<le> be_value hi_bytes"
proof -
  have "takeWhile (\<lambda>c. c \<noteq> CHR ''-'') (lo @ ''-'' @ hi) = lo" "dropWhile (\<lambda>c. c \<noteq> CHR ''-'') (lo @ ''-'' @ hi) = ''-'' @ hi"
    using assms(2) by (auto simp: takeWhile_append dropWhile_append)
  moreover have "length lo_bytes = (if is_v6_string lo then 16 else 4)" "length hi_bytes = (if is_v6_string hi then 16 else 4)"
    "length ip_bytes' = (if is_v6_string ip then 16 else 4)" using assms(1,3-5) by blast+
  ultimately show ?thesis
    using assms(3-5)
    by (auto simp: isIPInRangeString_def isIPAddress_def createIPAddress_def isIPInRange_def ip_less_def
        memcmp_less_value not_less)
qed

text \<open>A parser for one-digit-per-byte addresses such as \<open>1.2.3.4\<close>.\<close>

definition tiny_pton :: "bool \<Rightarrow> string \<Rightarrow> bytes option" where
  "tiny_pton v6 t =
     (if \<not> v6 \<and> length t = 7 then Some (map (\<lambda>i. of_char (t ! i) - 48) [0, 2, 4, 6]) else None)"

theorem excluded_range_numeric_witness:
  "isIPInRangeString tiny_pton (createIPAddress tiny_pton ''1.2.3.5'') (''1.2.0.0'' @ ''-'' @ ''1.2.9.9'')"
proof -
  have "\<forall>v6 t bs. tiny_pton v6 t = Some bs \<longrightarrow> length bs = (if v6 then 16 else 4)" by (auto simp: tiny_pton_def)
  note range = excluded_range_numeric [OF this, of "''1.2.0.0''" "[1, 2, 0, 0]" "''1.2.9.9''" "[1, 2, 9, 9]" "''1.2.3.5''" "[1, 2, 3, 5]"]
  have "tiny_pton False ''1.2.0.0'' = Some [1, 2, 0, 0]" "tiny_pton False ''1.2.9.9'' = Some [1, 2, 9, 9]"
    "tiny_pton False ''1.2.3.5'' = Some [1, 2, 3, 5]" by (simp_all add: tiny_pton_def)
  with range show ?thesis by (simp add: is_v6_string_def)
qed

section \<open>Replies of the service\<close>

text \<open>
  C31. A custom response with headers survives its encoding: whatever code, headers (up to 255, each
  part below 64K) and body the service packs, the attachment reads back the same, a body of no
  bytes as none.
\<close>

theorem custom_response_round_trip:
  assumes "\<forall>i. alloc i" "length headers < 256" "length body < 65536"
    and "list_all (\<lambda>h. length (fst h) < 65536 \<and> length (snd h) < 65536) headers"
    and "bytes_at p addr (pack_custom_response code headers body)"
  shows "handle_custom_response_with_headers alloc p addr =
    Written \<lparr>web_response_type = CUSTOM_RESPONSE_WITH_HEADERS, wr_uuid = Some [],
      wr_data = CustomResponseWithHeaders code headers (if body = [] then None else Some body)\<rparr>"
proof -
  let ?hs = "concat (map pack_header headers)"
  have at: "bytes_at p addr (le16 code)" "bytes_at p (addr + 2) (le16 (of_nat (length body)))"
    "p (addr + 4) = of_nat (length headers)" "bytes_at p (addr + 5) ?hs" "bytes_at p (addr + 5 + length ?hs) body"
    using assms(5) by (simp_all add: pack_custom_response_def numeral_eq_Suc)
  have sizes: "get16 p addr = code" "unat (get16 p (addr + 2)) = length body" "unat (p (addr + 4)) = length headers"
    using get16_at [OF at(1)] get16_at [OF at(2)] at(3) assms(2,3) by simp_all
  have "parse_headers alloc 3 p (addr + 5) (length headers) = Some (headers, addr + 5 + length ?hs)"
    using parse_packed_headers [OF _ assms(4) at(4)] assms(1) by simp
  moreover have "read_bytes p (addr + 5 + length ?hs) (length body) = body" by (rule bytes_at_read [OF at(5) refl])
  ultimately show ?thesis
    using assms(1) sizes by (simp add: handle_custom_response_with_headers_def Let_def)
qed

definition memory_of :: "bytes \<Rightarrow> memory" where
  "memory_of bs = (\<lambda>i. if i < length bs then bs ! i else 0)"

lemma memory_of_at: "bytes_at (memory_of bs) 0 bs"
  by (simp add: bytes_at_def memory_of_def read_bytes_eqI)

theorem custom_response_round_trip_witness:
  "handle_custom_response_with_headers (\<lambda>_. True) (memory_of (pack_custom_response 403 [([65], [66, 67])] [1, 2])) 0 =
    Written \<lparr>web_response_type = CUSTOM_RESPONSE_WITH_HEADERS, wr_uuid = Some [],
      wr_data = CustomResponseWithHeaders 403 [([65], [66, 67])] (Some [1, 2])\<rparr>"
  using custom_response_round_trip [OF _ _ _ _ memory_of_at, of "\<lambda>_. True" "[([65], [66, 67])]" "[1, 2]" 403] by simp

text \<open>
  A custom block page writes past the 64 bytes of the incident id exactly when the page has a
  title and a body that fit and the id the service sends has 51 to 63 bytes: the prefix
  \<open>Incident Id: \<close> is not counted in the length check.
\<close>

theorem block_page_overrun_iff:
  assumes "\<forall>i. alloc i"
  shows "handle_custom_web_response alloc p addr = Overrun \<longleftrightarrow>
    51 \<le> unat (p (addr + 1)) \<and> unat (p (addr + 1)) < 64
    \<and> 0 < unat (p (addr + 4)) \<and> unat (p (addr + 4)) < 64 \<and> 0 < unat (p (addr + 5)) \<and> unat (p (addr + 5)) < 128"
proof -
  have "length incident_prefix = 13" by (simp add: incident_prefix_def)
  with assms show ?thesis by (auto simp: handle_custom_web_response_def Let_def reply_limits not_le)
qed

theorem block_page_overrun_iff_witness:
  "handle_custom_web_response (\<lambda>_. True) (memory_of [0, 51, 0, 0, 1, 1]) 0 = Overrun"
  using block_page_overrun_iff [of "\<lambda>_. True" "memory_of [0, 51, 0, 0, 1, 1]" 0] by (simp add: memory_of_def)

text \<open>
  Of the modifications an inject reply carries, at most one reaches the caller: when all
  allocations succeed, one for an odd count and none for an even count.
\<close>

theorem inject_keeps_at_most_one:
  assumes "\<forall>i. alloc i"
  shows "length (handle_inject_response alloc p addr count []) = unat count mod 2"
  using inject_loop_length [of alloc "[]" 0 p addr "unat count"] assms by (simp add: handle_inject_response_def)

theorem inject_keeps_at_most_one_witness:
  "handle_inject_response (\<lambda>_. True) (\<lambda>_. 0) 0 2 [] = []"
  using inject_keeps_at_most_one [of "\<lambda>_. True" "\<lambda>_. 0" 0 2] by simp

text \<open>An attachment whose service queue holds one message of up to one segment.\<close>

lemma one_message_queue:
  assumes "0 < length m" "length m \<le> 1024"
  shows "\<exists>q. holds_2 (sample_process, sample_data 4, q) [m]"
proof -
  have geom: "geometry_ok 1024 1024 4" by (simp add: geometry_ok_def ring_constants)
  have "(length m + 1023) div 1024 = 1"
    using assms by (intro div_nat_eqI) (simp_all add: Suc_le_eq)
  then have m: "valid_msg (concat [m])" "nsegs 1024 (concat [m]) = 1"
    using assms by (simp_all add: valid_msg_def max_write_size_def getNumOfDataSegmentsNeeded_def)
  have "room_2 (sample_process, sample_data 4, sample_queue_2 4) (concat [m])"
    using room_before_end(1) [OF sample_rep_2 [OF geom] m(1)] m(2) by (simp add: room_2_def sample_process_def)
  from push_2_appends [OF sample_holds_2 [OF geom] m(1) this, of sample_host] obtain P gd q where
    push: "push_2 sample_host (sample_process, sample_data 4, sample_queue_2 4) [m] = (0, P, gd, q)" "holds_2 (P, gd, q) [m]"
    by auto
  moreover have "P = sample_process" "gd = sample_data 4"
    using push(1) by (auto simp: push_2_def pushBuffersToQueue_2_def sample_process_def split: prod.splits if_splits)
  ultimately show ?thesis by blast
qed

definition attached :: "nano_world \<Rightarrow> SharedRingQueue \<Rightarrow> nano_world" where
  "attached w q = w\<lparr>w_process := sample_process,
     w_attachment := (w_attachment w)\<lparr>nano_service_ipc := Some (sample_channel\<lparr>rx_queue_2 := Some q\<rparr>)\<rparr>\<rparr>"

lemma attached_fields [simp]:
  "w_process (attached w q) = sample_process"
  "nano_service_ipc (w_attachment (attached w q)) = Some (sample_channel\<lparr>rx_queue_2 := Some q\<rparr>)"
  "global_data (sample_channel\<lparr>rx_queue_2 := Some q\<rparr>) = sample_data 4"
  by (simp_all add: attached_def sample_channel_def)

text \<open>
  Popping a verdict: when the service's queue holds a packed reply other than a drop or a
  reconfiguration, the attachment answers for the session id in it, accepts on an accept, delays
  on a delayed verdict and goes on inspecting on all others, and the queue is left with the
  messages after it.
\<close>

theorem popped_verdict:
  assumes "nano_service_ipc (w_attachment w) = Some i" "rx_queue_2 i = Some q"
    and "holds_2 (w_process w, global_data i, q) (pack_reply v sid count rest # ms)" "v \<noteq> 2" "v \<noteq> 5"
  shows "\<exists>response w' i' q'. PopResponseVerdictFromQueue h cs alloc w = (Some response, w')
    \<and> resp_session_id response = sid
    \<and> resp_verdict response = (if v = 1 then ATTACHMENT_VERDICT_ACCEPT else if v = 6 then ATTACHMENT_VERDICT_DELAYED
         else ATTACHMENT_VERDICT_INSPECT)
    \<and> nano_service_ipc (w_attachment w') = Some i' \<and> rx_queue_2 i' = Some q' \<and> global_data i' = global_data i
    \<and> holds_2 (w_process w', global_data i', q') ms"
proof -
  from pop_response_converts [OF assms(1-3), of h cs alloc] obtain addr q' where
    pop: "PopResponseVerdictFromQueue h cs alloc w = convert_reply cs alloc (payload q') addr
        (w\<lparr>w_attachment := (w_attachment w)\<lparr>nano_service_ipc := Some (i\<lparr>rx_queue_2 := Some q'\<rparr>)\<rparr>\<rparr>)"
    "bytes_at (payload q') addr (pack_reply v sid count rest)" "holds_2 (w_process w, global_data i, q') ms" by blast
  note reply = read_packed_reply(1,2) [OF pop(2)]
  show ?thesis
    using assms(4,5) pop(1,3) by (auto simp: convert_reply_def reply service_verdict_def Let_def default_response_def)
qed

theorem popped_verdict_witness:
  "\<forall>w cs alloc. \<exists>q response w'. PopResponseVerdictFromQueue sample_host cs alloc (attached w q) = (Some response, w')
     \<and> resp_session_id response = 77 \<and> resp_verdict response = ATTACHMENT_VERDICT_ACCEPT"
proof (intro allI)
  fix w cs alloc
  obtain q where q: "holds_2 (sample_process, sample_data 4, q) [pack_reply 1 77 0 []]"
    using one_message_queue [of "pack_reply 1 77 0 []"] by (auto simp: pack_reply_def)
  show "\<exists>q response w'. PopResponseVerdictFromQueue sample_host cs alloc (attached w q) = (Some response, w')
     \<and> resp_session_id response = 77 \<and> resp_verdict response = ATTACHMENT_VERDICT_ACCEPT"
    using popped_verdict [of "attached w q" "sample_channel\<lparr>rx_queue_2 := Some q\<rparr>" q 1 77 0 "[]" "[]" sample_host cs alloc] q
    by (intro exI [of _ q]) auto
qed

text \<open>
  A custom response, which the synchronous path turns into a drop, is not enforced on the
  asynchronous path: popping it makes the attachment go on inspecting, with no page attached.
\<close>

theorem custom_response_not_enforced:
  assumes "nano_service_ipc (w_attachment w) = Some i" "rx_queue_2 i = Some q"
    and "holds_2 (w_process w, global_data i, q) (pack_reply 8 sid count rest # ms)"
  shows "attachment_verdict (service_verdict 8) = ATTACHMENT_VERDICT_DROP
    \<and> (\<exists>response w'. PopResponseVerdictFromQueue h cs alloc w = (Some response, w')
         \<and> resp_verdict response = ATTACHMENT_VERDICT_INSPECT \<and> resp_web_response_data response = None)"
proof -
  from pop_response_converts [OF assms, of h cs alloc] obtain addr q' where
    pop: "PopResponseVerdictFromQueue h cs alloc w = convert_reply cs alloc (payload q') addr
        (w\<lparr>w_attachment := (w_attachment w)\<lparr>nano_service_ipc := Some (i\<lparr>rx_queue_2 := Some q'\<rparr>)\<rparr>\<rparr>)"
    "bytes_at (payload q') addr (pack_reply 8 sid count rest)" by blast
  note reply = read_packed_reply(1,2) [OF pop(2)]
  show ?thesis
    by (simp add: pop(1) convert_reply_def reply service_verdict_def Let_def default_response_def)
qed

theorem custom_response_not_enforced_witness:
  "\<forall>w cs alloc. \<exists>q response w'. PopResponseVerdictFromQueue sample_host cs alloc (attached w q) = (Some response, w')
     \<and> resp_verdict response = ATTACHMENT_VERDICT_INSPECT"
proof (intro allI)
  fix w cs alloc
  obtain q where q: "holds_2 (sample_process, sample_data 4, q) [pack_reply 8 77 0 []]"
    using one_message_queue [of "pack_reply 8 77 0 []"] by (auto simp: pack_reply_def)
  show "\<exists>q response w'. PopResponseVerdictFromQueue sample_host cs alloc (attached w q) = (Some response, w')
     \<and> resp_verdict response = ATTACHMENT_VERDICT_INSPECT"
    using custom_response_not_enforced [of "attached w q" "sample_channel\<lparr>rx_queue_2 := Some q\<rparr>" q 77 0 "[]" "[]" sample_host cs alloc] q
    by (intro exI [of _ q]) auto
qed

text \<open>How the service lays a redirect out: type, id length, two bytes the attachment skips, location and id.\<close>

definition pack_redirect :: "u8 \<Rightarrow> u8 \<Rightarrow> bytes \<Rightarrow> bytes \<Rightarrow> bytes" where
  "pack_redirect x y location uuid =
     [3, of_nat (length uuid), x, y] @ le16 (of_nat (length location)) @ location @ uuid"

lemma redirect_decoded:
  assumes "\<forall>i. alloc i" "length location < 512" "length uuid < 64" "bytes_at p addr (pack_redirect x y location uuid)"
  shows "handle_drop_response alloc p addr =
    Written \<lparr>web_response_type = REDIRECT_WEB_RESPONSE, wr_uuid = Some uuid, wr_data = RedirectData location\<rparr>"
proof -
  have at: "p addr = 3" "p (addr + 1) = of_nat (length uuid)" "bytes_at p (addr + 4) (le16 (of_nat (length location)))"
    "bytes_at p (addr + 6) location" "bytes_at p (addr + 6 + length location) uuid"
    using assms(4) by (simp_all add: pack_redirect_def numeral_eq_Suc)
  have sizes: "unat (get16 p (addr + 4)) = length location" "unat (p (addr + 1)) = length uuid"
    using get16_at [OF at(3)] at(2) assms(2,3) by simp_all
  have "read_bytes p (addr + 6) (length location) = location" "read_bytes p (addr + 6 + length location) (length uuid) = uuid"
    using at(4,5) bytes_at_read by blast+
  then show ?thesis
    using assms(1-3) at(1) sizes
    by (simp add: handle_drop_response_def handle_redirect_response_def Let_def reply_limits)
qed

text \<open>
  Popping a drop that carries a redirect: the attachment answers with a drop for the session,
  redirecting to the location and with the incident id the service packed.
\<close>

theorem popped_redirect:
  assumes "nano_service_ipc (w_attachment w) = Some i" "rx_queue_2 i = Some q"
    and "holds_2 (w_process w, global_data i, q) (pack_reply 2 sid count (pack_redirect x y location uuid) # ms)"
    and "\<forall>k. alloc k" "length location < 512" "length uuid < 64"
  shows "\<exists>w'. PopResponseVerdictFromQueue h cs alloc w =
    (Some \<lparr>resp_verdict = ATTACHMENT_VERDICT_DROP, resp_session_id = sid,
       resp_web_response_data = Some \<lparr>web_response_type = REDIRECT_WEB_RESPONSE, wr_uuid = Some uuid,
         wr_data = RedirectData location\<rparr>, resp_modifications = []\<rparr>, w')"
proof -
  from pop_response_converts [OF assms(1-3), of h cs alloc] obtain addr q' where
    pop: "PopResponseVerdictFromQueue h cs alloc w = convert_reply cs alloc (payload q') addr
        (w\<lparr>w_attachment := (w_attachment w)\<lparr>nano_service_ipc := Some (i\<lparr>rx_queue_2 := Some q'\<rparr>)\<rparr>\<rparr>)"
    "bytes_at (payload q') addr (pack_reply 2 sid count (pack_redirect x y location uuid))" by blast
  note reply = read_packed_reply [OF pop(2)]
  show ?thesis
    by (simp add: pop(1) convert_reply_def reply(1,2) service_verdict_def Let_def default_response_def
        redirect_decoded [OF assms(4-6) reply(4)])
qed

theorem popped_redirect_witness:
  "\<forall>w cs. \<exists>q w'. PopResponseVerdictFromQueue sample_host cs (\<lambda>_. True) (attached w q) =
    (Some \<lparr>resp_verdict = ATTACHMENT_VERDICT_DROP, resp_session_id = 77,
       resp_web_response_data = Some \<lparr>web_response_type = REDIRECT_WEB_RESPONSE, wr_uuid = Some [5],
         wr_data = RedirectData [47, 120]\<rparr>, resp_modifications = []\<rparr>, w')"
proof (intro allI)
  fix w cs
  obtain q where "holds_2 (sample_process, sample_data 4, q) [pack_reply 2 77 0 (pack_redirect 0 0 [47, 120] [5])]"
    using one_message_queue [of "pack_reply 2 77 0 (pack_redirect 0 0 [47, 120] [5])"]
    by (auto simp: pack_reply_def pack_redirect_def)
  then show "\<exists>q w'. PopResponseVerdictFromQueue sample_host cs (\<lambda>_. True) (attached w q) =
    (Some \<lparr>resp_verdict = ATTACHMENT_VERDICT_DROP, resp_session_id = 77,
       resp_web_response_data = Some \<lparr>web_response_type = REDIRECT_WEB_RESPONSE, wr_uuid = Some [5],
         wr_data = RedirectData [47, 120]\<rparr>, resp_modifications = []\<rparr>, w')"
    using popped_redirect [of "attached w q" "sample_channel\<lparr>rx_queue_2 := Some q\<rparr>" q 77 0 0 0 "[47, 120]" "[5]" "[]"
      "\<lambda>_. True" sample_host cs]
    by (intro exI [of _ q]) auto
qed

end
