(* ===== verification/Nano_Comm.thy ===== *)
theory Nano_Comm
  imports Nano_Reply Nano_Thread "HOL-Library.Monad_Syntax"
begin

text \<open>
  The communication set-up of \<open>nano_initializer.c\<close> with the socket functions of
  \<open>nano_attachment_io.c\<close> it calls: connecting the sockets, the registration exchange with the
  attachments manager, the exchange with the service, the shared-memory channels, restart and
  disconnection. The lemmas show which bytes a side sends.

  A call that has no result yet (a loop that has not ended within the given number of rounds,
  or a fault such as a write through \<open>MAP_FAILED\<close> or outside a buffer) is \<open>None\<close>.
\<close>

section \<open>The world outside the process\<close>

text \<open>
  The state of the attachment process: the world of the reply decoding, the number of system
  calls made, the bytes written to sockets in order and the metadata file under \<open>/dev/shm\<close>.
\<close>

record comm_world = nano_world +
  w_calls :: nat
  w_sent :: "(int \<times> bytes) list"
  w_metadata_file :: "bytes option"

type_synonym event_state = "comm_world \<times> HttpEventThreadCtx"

text \<open>
  What the system answers, by the number of the call. The poll answer says whether the event bit the caller tests is set;
  a read yields bytes or fails; a connect depends on the path; \<open>os_thread\<close> and \<open>os_partial\<close> are the answers
  of the thread calls and what a thread has done when it is cancelled; \<open>os_ipc\<close> those of a channel's
  creation, \<open>os_conf\<close> the configuration file as a reading of it finds it; \<open>os_connection_lost\<close> whether the
  error of a failed write is \<open>EBADF\<close>, \<open>EPIPE\<close> or \<open>ECONNRESET\<close>; \<open>os_stack\<close> what a local variable holds before
  it is assigned; \<open>os_poll_ack\<close> the result of the poll for an acknowledgement with a time-out; \<open>os_service\<close> what the service does to the queues of a channel during a wait; \<open>os_alloc\<close>
  whether the allocations of a reply handler succeed.
\<close>

record metadata_calls =
  md_src_stat :: bool
  md_src_open :: bool
  md_dest_open :: bool
  md_chunks :: "bytes list"
  md_read_ok :: bool
  md_writes :: "nat \<Rightarrow> bool"
  md_rename :: bool
  md_unlink :: bool

record os_answers =
  os_timeout :: "nat \<Rightarrow> bool"
  os_poll :: "nat \<Rightarrow> int \<times> bool"
  os_write :: "nat \<Rightarrow> int"
  os_read :: "nat \<Rightarrow> bytes option"
  os_socket :: "nat \<Rightarrow> int"
  os_connect :: "nat \<Rightarrow> bytes \<Rightarrow> bool"
  os_thread :: "nat \<Rightarrow> thread_calls"
  os_partial :: "nat \<Rightarrow> event_state \<Rightarrow> event_state"
  os_ipc :: "nat \<Rightarrow> ipc_calls_2"
  os_metadata :: "nat \<Rightarrow> metadata_calls"
  os_access :: "nat \<Rightarrow> bool"
  os_uid :: u32
  os_gid :: u32
  os_files :: host_files
  os_conf :: "nat \<Rightarrow> conf_source"
  os_connection_lost :: "nat \<Rightarrow> bool"
  os_stack :: "nat \<Rightarrow> memory"
  os_poll_ack :: "nat \<Rightarrow> u32 \<Rightarrow> int"
  os_service :: "nat \<Rightarrow> SharedMemoryIPC_2 \<Rightarrow> SharedMemoryIPC_2"
  os_alloc :: "nat \<Rightarrow> nat \<Rightarrow> bool"

definition step_call :: "comm_world \<Rightarrow> comm_world" where
  "step_call w = w\<lparr>w_calls := Suc (w_calls w)\<rparr>"

definition att_update :: "(NanoAttachment \<Rightarrow> NanoAttachment) \<Rightarrow> comm_world \<Rightarrow> comm_world" where
  "att_update f w = w\<lparr>w_attachment := f (w_attachment w)\<rparr>"

definition string_bytes :: "string \<Rightarrow> bytes" where
  "string_bytes s = map of_char s"

section \<open>The metadata file\<close>

definition compiled_metadata :: bytes where
  "compiled_metadata = string_bytes (''EFFECTIVE_SHM_SEGMENT_SIZE=4096'' @ [CHR 0x0A])"

fun copy_chunks :: "(nat \<Rightarrow> bool) \<Rightarrow> nat \<Rightarrow> bytes list \<Rightarrow> bool" where
  "copy_chunks writes k [] = True"
| "copy_chunks writes k (c # cs) = (writes k \<and> copy_chunks writes (Suc k) cs)"

definition copy_attachment_metadata_file :: "os_answers \<Rightarrow> comm_world \<Rightarrow> comm_world" where
  "copy_attachment_metadata_file os w0 =
     (let m = os_metadata os (w_calls w0); w = step_call w0 in
      if \<not> md_src_stat m then
        (if \<not> md_dest_open m then w
         else if \<not> md_writes m 0 then w
         else if \<not> md_rename m then w
         else w\<lparr>w_metadata_file := Some compiled_metadata\<rparr>)
      else if \<not> md_src_open m then w
      else if \<not> md_dest_open m then w
      else if \<not> copy_chunks (md_writes m) 0 (md_chunks m) then w
      else if \<not> md_read_ok m then w
      else if \<not> md_rename m then w
      else w\<lparr>w_metadata_file := Some (concat (md_chunks m))\<rparr>)"

definition remove_attachment_metadata_file :: "os_answers \<Rightarrow> comm_world \<Rightarrow> comm_world" where
  "remove_attachment_metadata_file os w0 =
     (let m = os_metadata os (w_calls w0); w = step_call w0 in
      if w_metadata_file w = None then w
      else if \<not> md_unlink m then w
      else w\<lparr>w_metadata_file := None\<rparr>)"

section \<open>Sockets\<close>

text \<open>
  \<open>write_to_service\<close> writes the rest of the data until none is left; the socket is closed and its
  variable set to -1 on a time-out or an error. The result has the socket variable's new value.
\<close>

fun write_to_service ::
    "os_answers \<Rightarrow> nat \<Rightarrow> comm_world \<Rightarrow> int \<Rightarrow> bytes \<Rightarrow> (NanoCommunicationResult \<times> int \<times> comm_world) option" where
  "write_to_service os rounds w sock data =
     (if data = [] then Some (NANO_OK, sock, w)
      else
        (case rounds of
           0 \<Rightarrow> None
         | Suc n \<Rightarrow>
             if os_timeout os (w_calls w) then Some (NANO_TIMEOUT, -1, step_call w)
             else
               let w1 = step_call w; res = os_write os (w_calls w1); w2 = step_call w1 in
               if res < 0 then Some (NANO_ERROR, -1, w2)
               else write_to_service os n (w2\<lparr>w_sent := w_sent w2 @ [(sock, take (nat res) data)]\<rparr>) sock
                      (drop (nat res) data)))"

declare write_to_service.simps [simp del]

text \<open>
  \<open>read_from_service\<close> reads into a buffer of \<open>sz\<close> bytes at the cursor. The result of \<open>read\<close> is added to
  the cursor without a check, so a failing read moves it back by one; bytes stored in front of
  the buffer are a fault.
\<close>

definition store_bytes :: "bytes \<Rightarrow> nat \<Rightarrow> bytes \<Rightarrow> bytes" where
  "store_bytes buf pos bs = take pos buf @ bs @ drop (pos + length bs) buf"

function read_from_service ::
    "os_answers \<Rightarrow> nat \<Rightarrow> comm_world \<Rightarrow> int \<Rightarrow> nat \<Rightarrow> int \<Rightarrow> bytes
     \<Rightarrow> (NanoCommunicationResult \<times> bytes \<times> int \<times> comm_world) option" where
  "read_from_service os rounds w sock sz pos buf =
     (if pos \<ge> int sz then Some (NANO_OK, buf, sock, w)
      else
        (case rounds of
           0 \<Rightarrow> None
         | Suc n \<Rightarrow>
             if os_timeout os (w_calls w) then Some (NANO_TIMEOUT, buf, -1, step_call w)
             else
               let w1 = step_call w; (res, ready) = os_poll os (w_calls w1); w2 = step_call w1 in
               if res \<le> 0 \<or> \<not> ready then Some (NANO_ERROR, buf, -1, w2)
               else
                 let w3 = step_call w2 in
                 (case os_read os (w_calls w2) of
                    None \<Rightarrow> read_from_service os n w3 sock sz (pos - 1) buf
                  | Some bs \<Rightarrow>
                      let got = take (nat (int sz - pos)) bs in
                      if got \<noteq> [] \<and> pos < 0 then None
                      else read_from_service os n w3 sock sz (pos + int (length got))
                             (if got = [] then buf else store_bytes buf (nat pos) got))))"
  by pat_completeness auto
termination
  by (relation "measure (\<lambda>(os, rounds, w, sock, sz, pos, buf). rounds)") auto

declare read_from_service.simps [simp del]

text \<open>Several values written one after the other; the first failure ends the exchange with \<open>NANO_ERROR\<close>.\<close>

fun write_fields ::
    "os_answers \<Rightarrow> nat \<Rightarrow> comm_world \<Rightarrow> int \<Rightarrow> bytes list \<Rightarrow> (NanoCommunicationResult \<times> int \<times> comm_world) option" where
  "write_fields os rounds w sock [] = Some (NANO_OK, sock, w)"
| "write_fields os rounds w sock (d # ds) =
     do {
       (res, sock1, w1) \<leftarrow> write_to_service os rounds w sock d;
       if res \<noteq> NANO_OK then Some (NANO_ERROR, sock1, w1) else write_fields os rounds w1 sock1 ds
     }"

text \<open>What is sent to the service: length and text of the unique id, user and group id.\<close>

definition comm_fields :: "NanoAttachment \<Rightarrow> bytes list" where
  "comm_fields a =
     (let uid_size = (of_nat (length (unique_id a)) :: u8)
      in [[uid_size], take (unat uid_size) (string_bytes (unique_id a)), le32 (nano_user_id a), le32 (nano_group_id a)])"

definition send_comm_data_to_comm_socket ::
    "os_answers \<Rightarrow> nat \<Rightarrow> comm_world \<Rightarrow> (NanoCommunicationResult \<times> comm_world) option" where
  "send_comm_data_to_comm_socket os rounds w =
     do {
       (res, sock, w1) \<leftarrow> write_fields os rounds w (comm_socket (w_attachment w)) (comm_fields (w_attachment w));
       Some (res, att_update (\<lambda>a. a\<lparr>comm_socket := sock\<rparr>) w1)
     }"

text \<open>What is sent to the attachments manager: type, worker number, number of workers, container id.\<close>

definition registration_fields :: "NanoAttachment \<Rightarrow> bytes list" where
  "registration_fields a =
     (let id_size = (of_nat (length (container_id a)) :: u8)
      in [[attachment_type a], [worker_id a + 1], [num_of_workers a], [id_size]]
         @ (if id_size > 0 then [take (unat id_size) (string_bytes (container_id a))] else []))"

definition send_registration_data_to_registration_socket ::
    "os_answers \<Rightarrow> nat \<Rightarrow> comm_world \<Rightarrow> (NanoCommunicationResult \<times> comm_world) option" where
  "send_registration_data_to_registration_socket os rounds w =
     do {
       (res, sock, w1) \<leftarrow> write_fields os rounds w (registration_socket (w_attachment w))
                          (registration_fields (w_attachment w));
       Some (res, att_update (\<lambda>a. a\<lparr>registration_socket := sock\<rparr>) w1)
     }"

section \<open>Connecting\<close>

definition SHARED_REGISTRATION_SIGNAL_PATH :: bytes where
  "SHARED_REGISTRATION_SIGNAL_PATH = string_bytes ''/dev/shm/check-point/cp-nano-attachment-registration''"

definition MAX_SHARED_MEM_PATH_LEN :: nat where
  "MAX_SHARED_MEM_PATH_LEN = 128"

definition MAX_NGINX_UID_LEN :: nat where
  "MAX_NGINX_UID_LEN = 32"

definition c_string :: "bytes \<Rightarrow> bytes" where
  "c_string = takeWhile (\<lambda>b. b \<noteq> 0)"

text \<open>The path in a socket address: 108 characters, the last of which is left for the terminator.\<close>

definition sun_path :: "bytes \<Rightarrow> bytes" where
  "sun_path s = take 107 (c_string s)"

text \<open>The numbers \<open>k\<close> are those of the calls. A socket from before is closed, which leaves no trace here.\<close>

definition connect_to_comm_socket ::
    "os_answers \<Rightarrow> nat \<Rightarrow> NanoAttachment \<Rightarrow> NanoCommunicationResult \<times> NanoAttachment" where
  "connect_to_comm_socket os k a =
     (let a1 = a\<lparr>comm_socket := os_socket os k\<rparr> in
      if comm_socket a1 < 0 then (NANO_ERROR, a1)
      else if os_connect os k (sun_path (shared_verdict_signal_path a1)) then (NANO_OK, a1)
      else (NANO_ERROR, a1))"

definition connect_to_comm_socket_sync ::
    "os_answers \<Rightarrow> nat \<Rightarrow> NanoAttachment \<Rightarrow> NanoCommunicationResult \<times> NanoAttachment" where
  "connect_to_comm_socket_sync os k a =
     (let sync_path = take (MAX_SHARED_MEM_PATH_LEN - 1)
                        (c_string (shared_verdict_signal_path a) @ string_bytes ''_secondary'');
          a1 = a\<lparr>comm_socket_sync := os_socket os k\<rparr> in
      if comm_socket_sync a1 < 0 then (NANO_ERROR, a1)
      else if os_connect os k (sun_path sync_path) then (NANO_OK, a1)
      else (NANO_ERROR, a1))"

definition connect_to_registration_socket ::
    "os_answers \<Rightarrow> nat \<Rightarrow> NanoAttachment \<Rightarrow> NanoCommunicationResult \<times> NanoAttachment" where
  "connect_to_registration_socket os k a =
     (let a1 = a\<lparr>registration_socket := os_socket os k\<rparr> in
      if registration_socket a1 < 0 then (NANO_ERROR, a1)
      else if os_connect os k (sun_path SHARED_REGISTRATION_SIGNAL_PATH) then (NANO_OK, a1)
      else (NANO_ERROR, a1))"

text \<open>In asynchronous mode the result of the second connection replaces that of the first.\<close>

definition RegistrationCommSocketThread :: "os_answers \<Rightarrow> event_state \<Rightarrow> event_state" where
  "RegistrationCommSocketThread os s =
     (let (w, ctx) = s; k = w_calls w;
          (res, a1) = connect_to_comm_socket os k (w_attachment w)
      in if is_async_mode_enabled a1 \<noteq> 0 then
           let (res2, a2) = connect_to_comm_socket_sync os (Suc k) a1
           in (w\<lparr>w_attachment := a2, w_calls := k + 2\<rparr>, ctx\<lparr>ctx_res := res2\<rparr>)
         else (w\<lparr>w_attachment := a1, w_calls := k + 1\<rparr>, ctx\<lparr>ctx_res := res\<rparr>))"

definition RegistrationSocketThread :: "os_answers \<Rightarrow> event_state \<Rightarrow> event_state" where
  "RegistrationSocketThread os s =
     (let (w, ctx) = s; (res, a1) = connect_to_registration_socket os (w_calls w) (w_attachment w)
      in (step_call (w\<lparr>w_attachment := a1\<rparr>), ctx\<lparr>ctx_res := res\<rparr>))"

text \<open>A routine run under the registration time-out: whether it ran and answered \<open>NANO_OK\<close>, and the new state.\<close>

definition count_metric :: "AttachmentMetricType \<Rightarrow> comm_world \<Rightarrow> comm_world" where
  "count_metric t = att_update (\<lambda>a. updateMetricField a t 1)"

definition run_registration_thread ::
    "os_answers \<Rightarrow> (event_state \<Rightarrow> event_state) \<Rightarrow> comm_world \<Rightarrow> (bool \<times> comm_world) option" where
  "run_registration_thread os thread_func w =
     map_option (\<lambda>(ran, w1, ctx). (ran \<and> ctx_res ctx = NANO_OK, step_call w1))
       (NanoRunInThreadTimeout (os_thread os (w_calls w)) count_metric (inspection_mode (w_attachment w)) w None
          (Some \<circ> thread_func) (os_partial os (w_calls w))
          (sint (registration_thread_timeout_msec (w_attachment w))) REGISTRATION)"

section \<open>The signalling socket\<close>

definition comm_failure :: "comm_world \<Rightarrow> NanoCommunicationResult \<times> comm_world" where
  "comm_failure w =
     (NANO_ERROR, att_update (\<lambda>a. a\<lparr>comm_socket := -1,
        registration_state := (if registration_state a \<noteq> PENDING then NOT_REGISTERED else registration_state a)\<rparr>) w)"

definition init_signaling_socket ::
    "os_answers \<Rightarrow> nat \<Rightarrow> comm_world \<Rightarrow> (NanoCommunicationResult \<times> comm_world) option" where
  "init_signaling_socket os rounds w =
     do {
       (ok, w1) \<leftarrow> run_registration_thread os (RegistrationCommSocketThread os) w;
       if \<not> ok then Some (comm_failure w1)
       else
         do {
           (res, w2) \<leftarrow> send_comm_data_to_comm_socket os rounds w1;
           if res \<noteq> NANO_OK then Some (comm_failure w2)
           else
             do {
               (res3, ack, sock, w3) \<leftarrow> read_from_service os rounds w2 (comm_socket (w_attachment w2)) 1 0 [0];
               let w4 = att_update (\<lambda>a. a\<lparr>comm_socket := sock\<rparr>) w3;
               if res3 \<noteq> NANO_OK then Some (comm_failure w4) else Some (NANO_OK, w4)
             }
         }
     }"

section \<open>Registration\<close>

definition read_verdict_signal_path_from_registration_socket ::
    "os_answers \<Rightarrow> nat \<Rightarrow> comm_world \<Rightarrow> (NanoCommunicationResult \<times> comm_world) option" where
  "read_verdict_signal_path_from_registration_socket os rounds w =
     do {
       (res, len, sock, w1) \<leftarrow> read_from_service os rounds w (registration_socket (w_attachment w)) 1 0 [0];
       let w2 = att_update (\<lambda>a. a\<lparr>registration_socket := sock\<rparr>) w1;
       let path_length = unat (hd len);
       if res \<noteq> NANO_OK then Some (NANO_ERROR, w2)
       else if path_length \<ge> MAX_SHARED_MEM_PATH_LEN then Some (NANO_ERROR, w2)
       else
         do {
           (res3, path, sock3, w3) \<leftarrow> read_from_service os rounds w2 sock path_length 0
                                       (shared_verdict_signal_path (w_attachment w2));
           let w4 = att_update (\<lambda>a. a\<lparr>registration_socket := sock3, shared_verdict_signal_path := path\<rparr>) w3;
           if res3 \<noteq> NANO_OK then Some (NANO_ERROR, w4)
           else Some (NANO_OK, att_update (\<lambda>a. a\<lparr>shared_verdict_signal_path := path[path_length := 0]\<rparr>) w4)
         }
     }"

definition close_registration_socket :: "comm_world \<Rightarrow> comm_world" where
  "close_registration_socket = att_update (\<lambda>a. a\<lparr>registration_socket := -1\<rparr>)"

definition register_to_attachments_manager ::
    "os_answers \<Rightarrow> nat \<Rightarrow> comm_world \<Rightarrow> (NanoCommunicationResult \<times> comm_world) option" where
  "register_to_attachments_manager os rounds w0 =
     do {
       let w = (if registration_socket (w_attachment w0) > 0 then close_registration_socket w0 else w0);
       (ok, w1) \<leftarrow> run_registration_thread os (RegistrationSocketThread os) w;
       if \<not> ok then Some (NANO_ERROR, close_registration_socket w1)
       else
         do {
           (res, w2) \<leftarrow> send_registration_data_to_registration_socket os rounds w1;
           if res \<noteq> NANO_OK then Some (NANO_ERROR, close_registration_socket w2)
           else
             do {
               (res3, w3) \<leftarrow> read_verdict_signal_path_from_registration_socket os rounds w2;
               Some (if res3 \<noteq> NANO_OK then NANO_ERROR else NANO_OK, close_registration_socket w3)
             }
         }
     }"

section \<open>Identity\<close>

text \<open>
  The container id is looked for in the lines of \<open>/proc/self/cgroup\<close> (\<open>None\<close> when the file does not
  open), then in the environment, then in the host name. \<open>strstr\<close> gives what follows the first occurrence.
\<close>

fun after_first :: "string \<Rightarrow> string \<Rightarrow> string option" where
  "after_first pat [] = (if pat = [] then Some [] else None)"
| "after_first pat (c # cs) =
     (if take (length pat) (c # cs) = pat then Some (drop (length pat) (c # cs)) else after_first pat cs)"

definition MAX_CONTAINER_ID_LEN :: nat where
  "MAX_CONTAINER_ID_LEN = 12"

fun container_id_of_lines :: "string list \<Rightarrow> string option" where
  "container_id_of_lines [] = None"
| "container_id_of_lines (line # lines) =
     (case after_first ''docker/'' line of
        Some s \<Rightarrow> Some (take (MAX_CONTAINER_ID_LEN - 1) s)
      | None \<Rightarrow>
          (case after_first ''cri-containerd-'' line of
             Some s \<Rightarrow> Some (take (MAX_CONTAINER_ID_LEN - 1) s)
           | None \<Rightarrow> container_id_of_lines lines))"

definition set_docker_id ::
    "string list option \<Rightarrow> bool \<Rightarrow> string option \<Rightarrow> string option \<Rightarrow> NanoAttachment
     \<Rightarrow> NanoCommunicationResult \<times> NanoAttachment" where
  "set_docker_id file allocated env_value hostname a =
     (case file of
        None \<Rightarrow> (NANO_ERROR, a)
      | Some lines \<Rightarrow>
          if \<not> allocated then (NANO_ERROR, a)
          else
            (case container_id_of_lines lines of
               Some s \<Rightarrow> (NANO_OK, a\<lparr>container_id := s\<rparr>)
             | None \<Rightarrow>
                 (case env_value of
                    Some s \<Rightarrow> (NANO_OK, a\<lparr>container_id := take (MAX_CONTAINER_ID_LEN - 1) s\<rparr>)
                  | None \<Rightarrow>
                      (case hostname of
                         Some s \<Rightarrow>
                           if s \<noteq> [] then (NANO_OK, a\<lparr>container_id := take (MAX_CONTAINER_ID_LEN - 1) s\<rparr>)
                           else (NANO_OK, a)
                       | None \<Rightarrow> (NANO_OK, a)))))"

text \<open>The decimal text of a number, as \<open>%lu\<close> prints it.\<close>

fun show_nat :: "nat \<Rightarrow> string" where
  "show_nat n = (if n < 10 then [char_of (48 + n)] else show_nat (n div 10) @ [char_of (48 + n mod 10)])"

declare show_nat.simps [simp del]

definition set_unique_id :: "NanoAttachment \<Rightarrow> NanoCommunicationResult \<times> NanoAttachment" where
  "set_unique_id a =
     (let nano_worker_id = show_nat (unat (worker_id a) + 1);
          text = (if container_id a \<noteq> [] then container_id a @ ''_'' @ nano_worker_id else nano_worker_id);
          a1 = a\<lparr>unique_id := cstr_trunc MAX_NGINX_UID_LEN text\<rparr>
      in if length text \<le> 0 then (NANO_ERROR, a1) else (NANO_OK, a1))"

section \<open>The channels\<close>

text \<open>
  A channel of the given name, for the user side of the queues; \<open>None\<close> is the fault of \<open>initIpc\<close>, a
  null pointer is \<open>None\<close> inside the result. The number of elements is cut to 16 bits.
\<close>

definition init_channel :: "os_answers \<Rightarrow> string \<Rightarrow> comm_world \<Rightarrow> (SharedMemoryIPC_2 option \<times> comm_world) option" where
  "init_channel os name w =
     (case initIpc_2 (os_ipc os (w_calls w)) (os_files os) (w_process w) name False
             (ucast (num_of_nano_ipc_elements (w_attachment w))) (att_logging_data (w_attachment w)) of
        (InitFault_2, _) \<Rightarrow> None
      | (InitNull_2 _, P) \<Rightarrow> Some (None, (step_call w)\<lparr>w_process := P\<rparr>)
      | (InitOk_2 ipc, P) \<Rightarrow> Some (Some ipc, (step_call w)\<lparr>w_process := P\<rparr>))"

definition init_service_ipc :: "os_answers \<Rightarrow> string \<Rightarrow> comm_world \<Rightarrow> comm_world option" where
  "init_service_ipc os name w =
     map_option (\<lambda>(ipc, w1). att_update (\<lambda>a. a\<lparr>nano_service_ipc := ipc\<rparr>) w1) (init_channel os name w)"

definition init_service_sync_ipc :: "os_answers \<Rightarrow> string \<Rightarrow> comm_world \<Rightarrow> comm_world option" where
  "init_service_sync_ipc os name w =
     map_option (\<lambda>(ipc, w1). att_update (\<lambda>a. a\<lparr>nano_service_sync_ipc := ipc\<rparr>) w1) (init_channel os name w)"

definition drop_channels :: "comm_world \<Rightarrow> comm_world" where
  "drop_channels = att_update (\<lambda>a. a\<lparr>nano_service_ipc := None, nano_service_sync_ipc := None\<rparr>)"

text \<open>Both calls of \<open>initIpc\<close> in a restart use the unique id, the second one without a suffix.\<close>

definition restart_channels ::
    "os_answers \<Rightarrow> comm_world \<Rightarrow> (NanoCommunicationResult \<times> comm_world) option" where
  "restart_channels os w0 =
     do {
       let w = copy_attachment_metadata_file os w0;
       w1 \<leftarrow> init_service_ipc os (unique_id (w_attachment w)) w;
       if nano_service_ipc (w_attachment w1) = None then Some (NANO_ERROR, w1)
       else if is_async_mode_enabled (w_attachment w1) = 0 then Some (NANO_OK, w1)
       else
         do {
           w2 \<leftarrow> init_service_sync_ipc os (unique_id (w_attachment w1)) w1;
           Some (if nano_service_sync_ipc (w_attachment w2) = None then NANO_ERROR else NANO_OK, w2)
         }
     }"

definition restart_communication ::
    "os_answers \<Rightarrow> nat \<Rightarrow> comm_world \<Rightarrow> (NanoCommunicationResult \<times> comm_world) option" where
  "restart_communication os rounds w0 =
     do {
       (res, w1) \<leftarrow> init_signaling_socket os rounds (drop_channels w0);
       if res = NANO_ERROR then
         do {
           (res2, w2) \<leftarrow> register_to_attachments_manager os rounds w1;
           if res2 = NANO_ERROR then Some (NANO_ERROR, w2)
           else
             do {
               (res3, w3) \<leftarrow> init_signaling_socket os rounds w2;
               if res3 = NANO_ERROR then Some (NANO_ERROR, w3) else restart_channels os w3
             }
         }
       else restart_channels os w1
     }"

definition disconnect_communication :: "os_answers \<Rightarrow> comm_world \<Rightarrow> comm_world" where
  "disconnect_communication os w =
     remove_attachment_metadata_file os
       (drop_channels
         (att_update (\<lambda>a. a\<lparr>comm_socket := (if comm_socket a > 0 then -1 else comm_socket a),
                            comm_socket_sync := (if comm_socket_sync a > 0 then -1 else comm_socket_sync a)\<rparr>) w))"

text \<open>
  What the two functions for a corrupted channel share: restart when there is no channel, then
  disconnect when the channel they look at is corrupted.
\<close>

definition handle_ipc_corruption ::
    "(NanoAttachment \<Rightarrow> SharedMemoryIPC_2 option) \<Rightarrow> os_answers \<Rightarrow> nat \<Rightarrow> comm_world
     \<Rightarrow> (NanoCommunicationResult \<times> comm_world) option" where
  "handle_ipc_corruption channel os rounds w =
     do {
       (res, w1) \<leftarrow> (if channel (w_attachment w) = None
                     then restart_communication os rounds (disconnect_communication os w) else Some (NANO_OK, w));
       if res \<noteq> NANO_OK then Some (NANO_ERROR, w1)
       else
         do {
           corrupted \<leftarrow> isCorruptedShmem_2 (channel (w_attachment w1)) False;
           Some (if corrupted then (NANO_ERROR, disconnect_communication os w1) else (NANO_OK, w1))
         }
     }"

definition handle_ipc_corruption_sync ::
    "os_answers \<Rightarrow> nat \<Rightarrow> comm_world \<Rightarrow> (NanoCommunicationResult \<times> comm_world) option" where
  "handle_ipc_corruption_sync = handle_ipc_corruption nano_service_ipc"

definition handle_ipc_corruption_async ::
    "os_answers \<Rightarrow> nat \<Rightarrow> comm_world \<Rightarrow> (NanoCommunicationResult \<times> comm_world) option" where
  "handle_ipc_corruption_async = handle_ipc_corruption nano_service_sync_ipc"

text \<open>The variable \<open>res\<close> has no value before the first test outside asynchronous mode: it is an argument.\<close>

definition handle_shmem_corruption ::
    "NanoCommunicationResult \<Rightarrow> os_answers \<Rightarrow> nat \<Rightarrow> comm_world \<Rightarrow> (NanoCommunicationResult \<times> comm_world) option" where
  "handle_shmem_corruption res0 os rounds w =
     do {
       (res, w1) \<leftarrow> (if is_async_mode_enabled (w_attachment w) \<noteq> 0 then handle_ipc_corruption_async os rounds w
                     else Some (res0, w));
       if res \<noteq> NANO_OK then Some (res, w1) else handle_ipc_corruption_sync os rounds w1
     }"

definition isIpcReady :: "NanoAttachment \<Rightarrow> bool" where
  "isIpcReady a =
     (if is_async_mode_enabled a = 0 then nano_service_ipc a \<noteq> None \<and> comm_socket a > 0
      else nano_service_ipc a \<noteq> None \<and> comm_socket a > 0
           \<and> nano_service_sync_ipc a \<noteq> None \<and> comm_socket_sync a > 0)"

section \<open>Initialisation\<close>

definition read_config :: "os_answers \<Rightarrow> comm_world \<Rightarrow> NanoCommunicationResult \<times> comm_world" where
  "read_config os w =
     (let cs = os_conf os (w_calls w);
          (res, a, c) = init_attachment_config (cs_environ cs) (cs_exists cs) (cs_file cs) (w_attachment w) (w_conf w)
      in (res, (step_call w)\<lparr>w_attachment := a, w_conf := c\<rparr>))"

text \<open>The steps of the initialisation, each skipped when its part is there already.\<close>

definition ensure_registered ::
    "os_answers \<Rightarrow> nat \<Rightarrow> comm_world \<Rightarrow> (NanoCommunicationResult \<times> comm_world) option" where
  "ensure_registered os rounds w =
     (if registration_state (w_attachment w) \<noteq> NOT_REGISTERED then Some (NANO_OK, w)
      else
        do {
          (res, w1) \<leftarrow> register_to_attachments_manager os rounds w;
          if res = NANO_ERROR then Some (NANO_ERROR, w1)
          else Some (NANO_OK, att_update (\<lambda>a. a\<lparr>registration_state := REGISTERED\<rparr>) w1)
        })"

definition ensure_socket ::
    "os_answers \<Rightarrow> nat \<Rightarrow> comm_world \<Rightarrow> (NanoCommunicationResult \<times> comm_world) option" where
  "ensure_socket os rounds w =
     (if comm_socket (w_attachment w) < 0 then init_signaling_socket os rounds w else Some (NANO_OK, w))"

definition restart_after_failure ::
    "os_answers \<Rightarrow> nat \<Rightarrow> comm_world \<Rightarrow> (NanoCommunicationResult \<times> comm_world) option" where
  "restart_after_failure os rounds w = do { (_, w1) \<leftarrow> restart_communication os rounds w; Some (NANO_ERROR, w1) }"

definition ensure_channel ::
    "os_answers \<Rightarrow> nat \<Rightarrow> comm_world \<Rightarrow> (NanoCommunicationResult \<times> comm_world) option" where
  "ensure_channel os rounds w =
     (if nano_service_ipc (w_attachment w) \<noteq> None then Some (NANO_OK, w)
      else
        do {
          w1 \<leftarrow> init_service_ipc os (unique_id (w_attachment w)) (copy_attachment_metadata_file os w);
          if nano_service_ipc (w_attachment w1) = None then restart_after_failure os rounds w1 else Some (NANO_OK, w1)
        })"

definition ensure_sync_channel ::
    "os_answers \<Rightarrow> nat \<Rightarrow> comm_world \<Rightarrow> (NanoCommunicationResult \<times> comm_world) option" where
  "ensure_sync_channel os rounds w =
     (if is_async_mode_enabled (w_attachment w) = 0 \<or> nano_service_sync_ipc (w_attachment w) \<noteq> None
      then Some (NANO_OK, w)
      else
        do {
          w1 \<leftarrow> init_service_sync_ipc os
                  (cstr_trunc (MAX_NGINX_UID_LEN + 10) (unique_id (w_attachment w) @ ''_sync'')) w;
          if nano_service_sync_ipc (w_attachment w1) = None then restart_after_failure os rounds w1
          else Some (NANO_OK, w1)
        })"

text \<open>A step that answers \<open>NANO_ERROR\<close> ends the initialisation with it.\<close>

definition unless_error ::
    "(NanoCommunicationResult \<times> comm_world) option \<Rightarrow> (comm_world \<Rightarrow> (NanoCommunicationResult \<times> comm_world) option)
     \<Rightarrow> (NanoCommunicationResult \<times> comm_world) option" where
  "unless_error step next_steps =
     do { (res, w) \<leftarrow> step; if res = NANO_ERROR then Some (NANO_ERROR, w) else next_steps w }"

definition nano_attachment_init_process ::
    "os_answers \<Rightarrow> nat \<Rightarrow> comm_world \<Rightarrow> (NanoCommunicationResult \<times> comm_world) option" where
  "nano_attachment_init_process os rounds w0 =
     (let w1 = att_update (\<lambda>a. a\<lparr>nano_user_id := os_uid os, nano_group_id := os_gid os,
                                num_of_connection_attempts := num_of_connection_attempts a + 1\<rparr>) w0;
          w2 = snd (read_config os w1)
      in if \<not> os_access os (w_calls w2) then Some (NANO_ABORT, step_call w2)
         else if registration_state (w_attachment w2) = PENDING then Some (NANO_ERROR, step_call w2)
         else
           unless_error (ensure_registered os rounds (step_call w2)) (\<lambda>w3.
           unless_error (Some (read_config os w3)) (\<lambda>w4.
           unless_error (ensure_socket os rounds w4) (\<lambda>w5.
           unless_error (ensure_channel os rounds w5) (\<lambda>w6.
           unless_error (ensure_sync_channel os rounds w6) (\<lambda>w7.
             Some (NANO_OK, att_update (\<lambda>a. a\<lparr>num_of_connection_attempts := 0\<rparr>) w7)))))))"

section \<open>What is written\<close>

text \<open>\<open>sends sock bs w w'\<close>: between the two states exactly \<open>bs\<close> was written, to the socket \<open>sock\<close>, and nothing else changed.\<close>

definition sends :: "int \<Rightarrow> bytes \<Rightarrow> comm_world \<Rightarrow> comm_world \<Rightarrow> bool" where
  "sends sock bs w w' \<longleftrightarrow>
     (\<exists>parts. w_sent w' = w_sent w @ map (Pair sock) parts \<and> concat parts = bs)
     \<and> w_attachment w' = w_attachment w \<and> w_process w' = w_process w \<and> w_conf w' = w_conf w
     \<and> w_metadata_file w' = w_metadata_file w"

lemma sends_refl [simp]: "sends sock [] w w"
  by (auto simp: sends_def intro: exI [of _ "[]"])

lemma sends_step_call [simp]:
  "sends sock bs (step_call w) w' \<longleftrightarrow> sends sock bs w w'" "sends sock bs w (step_call w') \<longleftrightarrow> sends sock bs w w'"
  by (simp_all add: sends_def step_call_def)

lemma sends_trans:
  assumes "sends sock bs w w1" "sends sock cs w1 w2"
  shows "sends sock (bs @ cs) w w2"
proof -
  obtain ps where ps: "w_sent w1 = w_sent w @ map (Pair sock) ps" "concat ps = bs"
    using assms(1) by (auto simp: sends_def)
  obtain qs where qs: "w_sent w2 = w_sent w1 @ map (Pair sock) qs" "concat qs = cs"
    using assms(2) by (auto simp: sends_def)
  have "\<exists>parts. w_sent w2 = w_sent w @ map (Pair sock) parts \<and> concat parts = bs @ cs"
    by (rule exI [of _ "ps @ qs"]) (simp add: ps qs)
  with assms show ?thesis by (simp add: sends_def)
qed

lemma sends_part: "sends sock bs w (w\<lparr>w_sent := w_sent w @ [(sock, bs)]\<rparr>)"
  by (auto simp: sends_def intro: exI [of _ "[bs]"])

lemma sends_attachment: "sends sock bs w w' \<Longrightarrow> w_attachment w' = w_attachment w"
  by (simp add: sends_def)

text \<open>Whatever the system answers, a prefix is written, all of it exactly when the call succeeds.\<close>

lemma write_to_service_sends:
  "write_to_service os rounds w sock d = Some (res, sock', w') \<Longrightarrow>
     \<exists>k. sends sock (take k d) w w' \<and> (res = NANO_OK \<longrightarrow> length d \<le> k \<and> sock' = sock)"
proof (induction os rounds w sock d rule: write_to_service.induct)
  case (1 os rounds w sock d)
  show ?case
  proof (cases "d = []")
    case True
    with "1.prems" show ?thesis by (simp add: write_to_service.simps)
  next
    case False
    then obtain n where n: "rounds = Suc n"
      using "1.prems" by (cases rounds) (simp_all add: write_to_service.simps [of _ 0])
    let ?w2 = "step_call (step_call w)"
    let ?r = "os_write os (Suc (w_calls w))"
    show ?thesis
    proof (cases "os_timeout os (w_calls w) \<or> ?r < 0")
      case True
      then have "sends sock (take 0 d) w w' \<and> res \<noteq> NANO_OK"
        using "1.prems" False n
        by (auto simp: write_to_service.simps [of _ "Suc _"] Let_def step_call_def [of w] split: if_splits)
           (auto simp: sends_def step_call_def intro: exI [of _ "[]"])
      then show ?thesis by blast
    next
      case go: False
      let ?w3 = "?w2\<lparr>w_sent := w_sent ?w2 @ [(sock, take (nat ?r) d)]\<rparr>"
      have rec: "write_to_service os n ?w3 sock (drop (nat ?r) d) = Some (res, sock', w')"
        using "1.prems" False n go
        by (simp add: write_to_service.simps [of _ "Suc _"] Let_def step_call_def)
      then obtain k where k: "sends sock (take k (drop (nat ?r) d)) ?w3 w'"
          "res = NANO_OK \<longrightarrow> length (drop (nat ?r) d) \<le> k \<and> sock' = sock"
        using "1.IH" [OF False n, of "step_call w" ?r ?w2] go by (auto simp: step_call_def)
      have "sends sock (take (nat ?r) d @ take k (drop (nat ?r) d)) w w'"
        using sends_trans [OF sends_part k(1)] by simp
      moreover have "take (nat ?r) d @ take k (drop (nat ?r) d) = take (nat ?r + k) d"
        by (simp add: take_add)
      ultimately show ?thesis using k(2) by (intro exI [of _ "nat ?r + k"]) auto
    qed
  qed
qed

text \<open>The socket makes progress: no time-out, and every write takes at least one byte.\<close>

definition writes_progress :: "os_answers \<Rightarrow> bool" where
  "writes_progress os \<longleftrightarrow> (\<forall>n. \<not> os_timeout os n \<and> 0 < os_write os n)"

lemma write_to_service_ends:
  "writes_progress os \<Longrightarrow> length d \<le> rounds \<Longrightarrow> \<exists>w'. write_to_service os rounds w sock d = Some (NANO_OK, sock, w')"
proof (induction rounds arbitrary: w d)
  case 0
  then show ?case by (simp add: write_to_service.simps)
next
  case (Suc n)
  let ?r = "os_write os (Suc (w_calls w))"
  have r: "0 < ?r" "\<not> os_timeout os (w_calls w)" using Suc.prems(1) by (simp_all add: writes_progress_def)
  then have "length (drop (nat ?r) d) \<le> n" using Suc.prems(2) by auto
  from Suc.IH [OF Suc.prems(1) this] r show ?case
    by (cases "d = []") (simp_all add: write_to_service.simps [of _ "Suc n"] Let_def step_call_def)
qed

lemma write_fields_sends:
  "write_fields os rounds w sock ds = Some (res, sock', w') \<Longrightarrow>
     (res = NANO_OK \<or> res = NANO_ERROR) \<and>
     (\<exists>k. sends sock (take k (concat ds)) w w' \<and> (res = NANO_OK \<longrightarrow> length (concat ds) \<le> k \<and> sock' = sock))"
proof (induction ds arbitrary: w)
  case Nil
  then show ?case by simp
next
  case (Cons d ds)
  obtain r s w1 where first: "write_to_service os rounds w sock d = Some (r, s, w1)"
    using Cons.prems by (cases "write_to_service os rounds w sock d") auto
  from write_to_service_sends [OF first] obtain k where
    k: "sends sock (take k d) w w1" "r = NANO_OK \<longrightarrow> length d \<le> k \<and> s = sock" by blast
  show ?case
  proof (cases "r = NANO_OK")
    case False
    have "take k d = take (min k (length d)) (concat (d # ds))" by (cases "k \<le> length d") (simp_all add: min_def)
    with k(1) have "sends sock (take (min k (length d)) (concat (d # ds))) w w1" by simp
    moreover have "res = NANO_ERROR" "w' = w1" using False Cons.prems first by simp_all
    ultimately show ?thesis by blast
  next
    case True
    with Cons.prems first k(2) have rest: "write_fields os rounds w1 sock ds = Some (res, sock', w')" by simp
    from Cons.IH [OF rest] obtain j where res: "res = NANO_OK \<or> res = NANO_ERROR"
      and j: "sends sock (take j (concat ds)) w1 w'" "res = NANO_OK \<longrightarrow> length (concat ds) \<le> j \<and> sock' = sock"
      by blast
    have "sends sock (take k d @ take j (concat ds)) w w'" by (rule sends_trans [OF k(1) j(1)])
    with True k(2) have "sends sock (take (length d + j) (concat (d # ds))) w w'" by simp
    with res j(2) show ?thesis by (intro conjI exI [of _ "length d + j"]) auto
  qed
qed

lemma write_fields_ends:
  "writes_progress os \<Longrightarrow> \<forall>d\<in>set ds. length d \<le> rounds \<Longrightarrow>
     \<exists>w'. write_fields os rounds w sock ds = Some (NANO_OK, sock, w')"
proof (induction ds arbitrary: w)
  case Nil
  then show ?case by simp
next
  case (Cons d ds)
  obtain w1 where "write_to_service os rounds w sock d = Some (NANO_OK, sock, w1)"
    using write_to_service_ends [of os d rounds w sock] Cons.prems by auto
  with Cons show ?case by simp
qed

section \<open>What the steps of the initialisation keep\<close>

lemma step_call_attachment [simp]: "w_attachment (step_call w) = w_attachment w"
  by (simp add: step_call_def)

lemma att_update_attachment [simp]: "w_attachment (att_update f w) = f (w_attachment w)"
  by (simp add: att_update_def)

lemma copy_metadata_attachment [simp]: "w_attachment (copy_attachment_metadata_file os w) = w_attachment w"
  by (simp add: copy_attachment_metadata_file_def Let_def)

lemma remove_metadata_attachment [simp]: "w_attachment (remove_attachment_metadata_file os w) = w_attachment w"
  by (simp add: remove_attachment_metadata_file_def Let_def)

lemma read_from_service_keeps:
  "read_from_service os rounds w sock sz pos buf = Some (res, buf', sock', w') \<Longrightarrow>
     w_attachment w' = w_attachment w \<and> (res = NANO_OK \<longrightarrow> sock' = sock)"
proof (induction rounds arbitrary: w pos buf)
  case 0
  then show ?case by (simp add: read_from_service.simps split: if_splits)
next
  case (Suc n)
  show ?case
    using Suc.prems
    by (subst (asm) read_from_service.simps)
       (auto simp: Let_def split: if_splits option.splits prod.splits dest!: Suc.IH)
qed

text \<open>A routine that is joined as it should be, or cancelled, has either run to its end or counts as failed.\<close>

definition joins_ok :: "os_answers \<Rightarrow> bool" where
  "joins_ok os \<longleftrightarrow> (\<forall>n. cancel_join_status (os_thread os n) = 0)"

lemma run_registration_thread_ok:
  assumes "joins_ok os" "run_registration_thread os f w = Some (True, w')"
  shows "w_attachment w' = w_attachment (fst (f (w, init_thread_ctx None)))"
    and "ctx_res (snd (f (w, init_thread_ctx None))) = NANO_OK"
  using assms
  by (auto simp: joins_ok_def run_registration_thread_def NanoRunInThreadTimeout_def NanoRunInWithoutThreadTimeout_def
           Let_def split: if_splits option.splits prod.splits)

lemma comm_failure_result [simp]: "fst (comm_failure w) = NANO_ERROR"
  by (simp add: comm_failure_def)

lemma connect_results:
  "snd (connect_to_comm_socket os k a) = a\<lparr>comm_socket := os_socket os k\<rparr>"
  "snd (connect_to_comm_socket_sync os k a) = a\<lparr>comm_socket_sync := os_socket os k\<rparr>"
  "fst (connect_to_comm_socket os k a) = NANO_OK \<Longrightarrow> 0 \<le> os_socket os k"
  by (simp_all add: connect_to_comm_socket_def connect_to_comm_socket_sync_def Let_def split: if_splits)

lemma comm_thread_state:
  "w_attachment (fst (RegistrationCommSocketThread os (w, ctx))) =
     ((w_attachment w)\<lparr>comm_socket := os_socket os (w_calls w)\<rparr>)\<lparr>comm_socket_sync :=
        (if is_async_mode_enabled (w_attachment w) = 0 then comm_socket_sync (w_attachment w)
         else os_socket os (Suc (w_calls w)))\<rparr>"
  "is_async_mode_enabled (w_attachment w) = 0 \<Longrightarrow>
     ctx_res (snd (RegistrationCommSocketThread os (w, ctx))) = fst (connect_to_comm_socket os (w_calls w) (w_attachment w))"
  by (simp_all add: RegistrationCommSocketThread_def split_def connect_results Let_def)

lemma send_comm_data_keeps:
  assumes "send_comm_data_to_comm_socket os rounds w = Some (NANO_OK, w')"
  shows "w_attachment w' = w_attachment w"
proof -
  let ?a = "w_attachment w"
  obtain sock w1 where w1: "write_fields os rounds w (comm_socket ?a) (comm_fields ?a) = Some (NANO_OK, sock, w1)"
      "w' = att_update (\<lambda>a. a\<lparr>comm_socket := sock\<rparr>) w1"
    using assms by (auto simp: send_comm_data_to_comm_socket_def split: bind_splits prod.splits)
  with write_fields_sends [OF w1(1)] have "sock = comm_socket ?a" "w_attachment w1 = ?a"
    by (auto dest: sends_attachment)
  with w1(2) show ?thesis by simp
qed

lemma init_signaling_results:
  "init_signaling_socket os rounds w = Some (res, w') \<Longrightarrow> res = NANO_OK \<or> res = NANO_ERROR"
  by (auto simp: init_signaling_socket_def Let_def comm_failure_def split: prod.splits if_splits bind_splits)

lemma init_signaling_ok:
  assumes "joins_ok os" "init_signaling_socket os rounds w = Some (NANO_OK, w')"
  shows "w_attachment w' = (w_attachment w)\<lparr>comm_socket := comm_socket (w_attachment w'),
                                            comm_socket_sync := comm_socket_sync (w_attachment w')\<rparr>
         \<and> (is_async_mode_enabled (w_attachment w) = 0 \<longrightarrow> 0 \<le> comm_socket (w_attachment w'))"
proof -
  let ?f = "RegistrationCommSocketThread os"
  obtain w1 w2 w3 ack sock where run: "run_registration_thread os ?f w = Some (True, w1)"
    and send: "send_comm_data_to_comm_socket os rounds w1 = Some (NANO_OK, w2)"
    and ack: "read_from_service os rounds w2 (comm_socket (w_attachment w2)) 1 0 [0] = Some (NANO_OK, ack, sock, w3)"
    and w': "w' = att_update (\<lambda>a. a\<lparr>comm_socket := sock\<rparr>) w3"
    using assms(2)
    by (auto simp: init_signaling_socket_def Let_def comm_failure_def split: prod.splits if_splits bind_splits)
  have "sock = comm_socket (w_attachment w2)" "w_attachment w3 = w_attachment w2"
    using read_from_service_keeps [OF ack] by simp_all
  then have "w_attachment w' = w_attachment w1" using w' send_comm_data_keeps [OF send] by simp
  with run_registration_thread_ok [OF assms(1) run]
    comm_thread_state [where os = os and w = w and ctx = "init_thread_ctx None"]
    connect_results(3) [of os "w_calls w" "w_attachment w"]
  show ?thesis by auto
qed

lemma init_channel_keeps: "init_channel os name w = Some (ipc, w') \<Longrightarrow> w_attachment w' = w_attachment w"
  by (auto simp: init_channel_def split: prod.splits init_result_2.splits)

lemma init_service_ipc_keeps:
  "init_service_ipc os name w = Some w' \<Longrightarrow> \<exists>ipc. w_attachment w' = (w_attachment w)\<lparr>nano_service_ipc := ipc\<rparr>"
  "init_service_sync_ipc os name w = Some w' \<Longrightarrow> \<exists>ipc. w_attachment w' = (w_attachment w)\<lparr>nano_service_sync_ipc := ipc\<rparr>"
  by (auto simp: init_service_ipc_def init_service_sync_ipc_def dest!: init_channel_keeps)

lemma restart_after_failure_not_ok [simp]: "restart_after_failure os rounds w \<noteq> Some (NANO_OK, w')"
  by (auto simp: restart_after_failure_def split: bind_splits)

lemma ensure_channel_ok:
  assumes "ensure_channel os rounds w = Some (NANO_OK, w')"
  shows "\<exists>ipc. w_attachment w' = (w_attachment w)\<lparr>nano_service_ipc := Some ipc\<rparr>"
proof (cases "nano_service_ipc (w_attachment w)")
  case None
  with assms have init: "init_service_ipc os (unique_id (w_attachment w)) (copy_attachment_metadata_file os w) = Some w'"
      "nano_service_ipc (w_attachment w') \<noteq> None"
    by (simp_all add: ensure_channel_def split: bind_splits if_splits)
  from init_service_ipc_keeps(1) [OF init(1)] obtain ipc where
    "w_attachment w' = (w_attachment w)\<lparr>nano_service_ipc := ipc\<rparr>" by auto
  with init(2) show ?thesis by auto
next
  case (Some ipc)
  with assms have "w_attachment w' = (w_attachment w)\<lparr>nano_service_ipc := Some ipc\<rparr>"
    by (simp add: ensure_channel_def)
  then show ?thesis by blast
qed

lemma ensure_sync_channel_ok:
  assumes "ensure_sync_channel os rounds w = Some (NANO_OK, w')"
  shows "\<exists>ipc. w_attachment w' = (w_attachment w)\<lparr>nano_service_sync_ipc := ipc\<rparr>
           \<and> (is_async_mode_enabled (w_attachment w) \<noteq> 0 \<longrightarrow> ipc \<noteq> None)"
proof (cases "is_async_mode_enabled (w_attachment w) = 0 \<or> nano_service_sync_ipc (w_attachment w) \<noteq> None")
  case True
  with assms have "w_attachment w' = (w_attachment w)\<lparr>nano_service_sync_ipc := nano_service_sync_ipc (w_attachment w)\<rparr>"
    by (simp add: ensure_sync_channel_def)
  with True show ?thesis by blast
next
  case False
  let ?name = "cstr_trunc (MAX_NGINX_UID_LEN + 10) (unique_id (w_attachment w) @ ''_sync'')"
  from False assms have init: "init_service_sync_ipc os ?name w = Some w'" "nano_service_sync_ipc (w_attachment w') \<noteq> None"
    by (simp_all add: ensure_sync_channel_def split: bind_splits if_splits)
  from init_service_ipc_keeps(2) [OF init(1)] obtain ipc where
    "w_attachment w' = (w_attachment w)\<lparr>nano_service_sync_ipc := ipc\<rparr>" by auto
  with init(2) show ?thesis by auto
qed

lemma init_attachment_config_state:
  "registration_state (fst (snd (init_attachment_config env ex file a c))) = registration_state a"
  by (simp add: init_attachment_config_def Let_def split_def)

lemma read_config_keeps:
  "registration_state (w_attachment (snd (read_config os w))) = registration_state (w_attachment w)"
  by (simp add: read_config_def Let_def split_def init_attachment_config_state)

lemma ensure_registered_ok:
  "ensure_registered os rounds w = Some (NANO_OK, w') \<Longrightarrow> registration_state (w_attachment w) \<noteq> PENDING \<Longrightarrow>
     registration_state (w_attachment w') = REGISTERED"
  by (cases "registration_state (w_attachment w)") (auto simp: ensure_registered_def split: bind_splits if_splits)

lemma ensure_socket_ok:
  assumes "joins_ok os" "ensure_socket os rounds w = Some (NANO_OK, w')"
  shows "registration_state (w_attachment w') = registration_state (w_attachment w)
         \<and> (is_async_mode_enabled (w_attachment w') = 0 \<longrightarrow> 0 \<le> comm_socket (w_attachment w'))"
proof (cases "comm_socket (w_attachment w) < 0")
  case True
  with assms(2) have "init_signaling_socket os rounds w = Some (NANO_OK, w')" by (simp add: ensure_socket_def)
  from init_signaling_ok [OF assms(1) this] obtain s s2 where
    "w_attachment w' = (w_attachment w)\<lparr>comm_socket := s, comm_socket_sync := s2\<rparr>"
    "is_async_mode_enabled (w_attachment w) = 0 \<longrightarrow> 0 \<le> s" by auto
  then show ?thesis by simp
next
  case False
  with assms(2) show ?thesis by (simp add: ensure_socket_def)
qed

lemma ensure_results:
  "ensure_registered os rounds w = Some (res, w') \<Longrightarrow> res = NANO_OK \<or> res = NANO_ERROR"
  "ensure_socket os rounds w = Some (res, w') \<Longrightarrow> res = NANO_OK \<or> res = NANO_ERROR"
  "ensure_channel os rounds w = Some (res, w') \<Longrightarrow> res = NANO_OK \<or> res = NANO_ERROR"
  "ensure_sync_channel os rounds w = Some (res, w') \<Longrightarrow> res = NANO_OK \<or> res = NANO_ERROR"
  by (auto simp: ensure_registered_def ensure_socket_def ensure_channel_def ensure_sync_channel_def
                 restart_after_failure_def split: bind_splits if_splits dest: init_signaling_results)

lemma unless_error_okD:
  "unless_error step f = Some (NANO_OK, w') \<Longrightarrow> \<exists>r w. step = Some (r, w) \<and> r \<noteq> NANO_ERROR \<and> f w = Some (NANO_OK, w')"
  by (auto simp: unless_error_def split: bind_splits if_splits)

text \<open>A successful initialisation went through its steps, each of them successful.\<close>

lemma init_process_steps:
  assumes "nano_attachment_init_process os rounds w = Some (NANO_OK, w')"
  obtains w2 w3 w4 w5 w6 w7 where "registration_state (w_attachment w2) \<noteq> PENDING"
    "ensure_registered os rounds w2 = Some (NANO_OK, w3)" "w4 = snd (read_config os w3)"
    "ensure_socket os rounds w4 = Some (NANO_OK, w5)" "ensure_channel os rounds w5 = Some (NANO_OK, w6)"
    "ensure_sync_channel os rounds w6 = Some (NANO_OK, w7)"
    "w' = att_update (\<lambda>a. a\<lparr>num_of_connection_attempts := 0\<rparr>) w7"
proof -
  let ?w1 = "att_update (\<lambda>a. a\<lparr>nano_user_id := os_uid os, nano_group_id := os_gid os,
                           num_of_connection_attempts := num_of_connection_attempts a + 1\<rparr>) w"
  let ?w2 = "step_call (snd (read_config os ?w1))"
  have pending: "registration_state (w_attachment ?w2) \<noteq> PENDING"
    and run: "unless_error (ensure_registered os rounds ?w2) (\<lambda>w3.
      unless_error (Some (read_config os w3)) (\<lambda>w4. unless_error (ensure_socket os rounds w4) (\<lambda>w5.
      unless_error (ensure_channel os rounds w5) (\<lambda>w6. unless_error (ensure_sync_channel os rounds w6) (\<lambda>w7.
        Some (NANO_OK, att_update (\<lambda>a. a\<lparr>num_of_connection_attempts := 0\<rparr>) w7)))))) = Some (NANO_OK, w')"
    using assms by (simp_all add: nano_attachment_init_process_def Let_def split: if_splits)
  from run [THEN unless_error_okD] obtain r3 w3 r4 w4 r5 w5 r6 w6 r7 w7 where
    steps: "ensure_registered os rounds ?w2 = Some (r3, w3)" "read_config os w3 = (r4, w4)"
      "ensure_socket os rounds w4 = Some (r5, w5)" "ensure_channel os rounds w5 = Some (r6, w6)"
      "ensure_sync_channel os rounds w6 = Some (r7, w7)"
    and ok: "r3 \<noteq> NANO_ERROR" "r5 \<noteq> NANO_ERROR" "r6 \<noteq> NANO_ERROR" "r7 \<noteq> NANO_ERROR"
    and last: "w' = att_update (\<lambda>a. a\<lparr>num_of_connection_attempts := 0\<rparr>) w7"
    by (fastforce dest!: unless_error_okD)
  have "r3 = NANO_OK" "r5 = NANO_OK" "r6 = NANO_OK" "r7 = NANO_OK"
    using ok ensure_results steps by blast+
  with that [OF pending, of w3 w4 w5 w6 w7] steps last show thesis by simp
qed

text \<open>The shared-memory objects a channel is made of, by their names.\<close>

definition channel_objects :: "SharedMemoryIPC_2 \<Rightarrow> string \<times> string" where
  "channel_objects ipc = (g_rx_location_name (global_data ipc), g_tx_location_name (global_data ipc))"

definition object_name :: "bool \<Rightarrow> string \<Rightarrow> string" where
  "object_name is_tx name = cstr_trunc MAX_ONE_WAY_QUEUE_NAME_LENGTH (one_way_queue_name False is_tx name)"

lemma created_ring_location:
  assumes "createSharedRingQueue_2 os h P gd name n False is_tx = (Created q, P', gd')"
  shows "g_tx_location_name gd' = (if is_tx then cstr_trunc MAX_ONE_WAY_QUEUE_NAME_LENGTH name else g_tx_location_name gd)"
    and "g_rx_location_name gd' = (if is_tx then g_rx_location_name gd else cstr_trunc MAX_ONE_WAY_QUEUE_NAME_LENGTH name)"
proof -
  have "\<exists>memsize fd. gd' = record_queue (gd\<lparr>g_num_of_data_segments := n\<rparr>) name memsize fd is_tx"
    using assms
    by (auto simp: createSharedRingQueue_2_def Let_def split: prod.splits if_splits mmap_result.splits)
  then obtain memsize fd where "gd' = record_queue (gd\<lparr>g_num_of_data_segments := n\<rparr>) name memsize fd is_tx" by blast
  then show "g_tx_location_name gd' = (if is_tx then cstr_trunc MAX_ONE_WAY_QUEUE_NAME_LENGTH name else g_tx_location_name gd)"
    "g_rx_location_name gd' = (if is_tx then g_rx_location_name gd else cstr_trunc MAX_ONE_WAY_QUEUE_NAME_LENGTH name)"
    by (simp_all add: record_queue_def Let_def)
qed

lemma created_queue_location:
  assumes "createOneWayIPCQueue_2 os chmod_ok h P gd name is_tx False n = (Created q, P', gd')"
  shows "g_tx_location_name gd' = (if is_tx then object_name is_tx name else g_tx_location_name gd)
         \<and> g_rx_location_name gd' = (if is_tx then g_rx_location_name gd else object_name is_tx name)"
proof -
  have "createSharedRingQueue_2 os h P gd (one_way_queue_name False is_tx name) n False is_tx = (Created q, P', gd')"
    using assms
    by (simp add: createOneWayIPCQueue_2_def isTowardsOwner_2_def Let_def
             split: prod.splits create_result.splits if_splits)
  then show ?thesis by (simp add: created_ring_location object_name_def)
qed

lemma init_channel_objects:
  assumes "init_channel os name w = Some (Some ipc, w')"
  shows "channel_objects ipc = (object_name False name, object_name True name)"
proof -
  obtain P where init: "initIpc_2 (os_ipc os (w_calls w)) (os_files os) (w_process w) name False
      (ucast (num_of_nano_ipc_elements (w_attachment w))) (att_logging_data (w_attachment w)) = (InitOk_2 ipc, P)"
    using assms by (auto simp: init_channel_def split: prod.splits init_result_2.splits)
  show ?thesis
    using init unfolding initIpc_2_def channel_objects_def
    by (auto split: prod.splits create_result.splits if_splits option.splits dest!: created_queue_location)
qed

lemma init_service_ipc_objects:
  "init_service_ipc os name w = Some w' \<Longrightarrow> nano_service_ipc (w_attachment w') = Some ipc \<Longrightarrow>
     channel_objects ipc = (object_name False name, object_name True name)"
  "init_service_sync_ipc os name w = Some w' \<Longrightarrow> nano_service_sync_ipc (w_attachment w') = Some ipc \<Longrightarrow>
     channel_objects ipc = (object_name False name, object_name True name)"
  by (auto simp: init_service_ipc_def init_service_sync_ipc_def intro: init_channel_objects)

text \<open>The objects of two channels coincide exactly when their names do, as long as no name is cut.\<close>

lemma object_name_inj:
  assumes "length m < 34" "length n < 34"
  shows "object_name b m = object_name b n \<longleftrightarrow> m = n"
  using assms
  by (simp add: object_name_def one_way_queue_name_def direction_name_def MAX_ONE_WAY_QUEUE_NAME_LENGTH_def
                isTowardsOwner_def cstr_trunc_def)

lemma ensure_sync_channel_objects:
  assumes "ensure_sync_channel os rounds w = Some (NANO_OK, w')" "is_async_mode_enabled (w_attachment w) \<noteq> 0"
    "nano_service_sync_ipc (w_attachment w) = None" "length (unique_id (w_attachment w)) < 29"
  shows "unique_id (w_attachment w') = unique_id (w_attachment w)"
    and "map_option channel_objects (nano_service_sync_ipc (w_attachment w')) =
           Some (object_name False (unique_id (w_attachment w) @ ''_sync''),
                 object_name True (unique_id (w_attachment w) @ ''_sync''))"
proof -
  let ?name = "unique_id (w_attachment w) @ ''_sync''"
  have "cstr_trunc (MAX_NGINX_UID_LEN + 10) ?name = ?name"
    using assms(4) by (simp add: MAX_NGINX_UID_LEN_def)
  with assms(1-3) have init: "init_service_sync_ipc os ?name w = Some w'"
    and made: "nano_service_sync_ipc (w_attachment w') \<noteq> None"
    by (simp_all add: ensure_sync_channel_def split: bind_splits if_splits)
  show "unique_id (w_attachment w') = unique_id (w_attachment w)" using init_service_ipc_keeps(2) [OF init] by auto
  show "map_option channel_objects (nano_service_sync_ipc (w_attachment w')) =
           Some (object_name False ?name, object_name True ?name)"
    using made init_service_ipc_objects(2) [OF init] by auto
qed

text \<open>A restart that succeeds ends with the creation of the channels.\<close>

lemma restart_channels_last:
  "restart_communication os rounds w = Some (NANO_OK, w') \<Longrightarrow> \<exists>w1. restart_channels os w1 = Some (NANO_OK, w')"
  by (auto simp: restart_communication_def split: bind_splits if_splits; blast)

lemma restart_channels_objects:
  assumes "restart_channels os w = Some (NANO_OK, w')" "is_async_mode_enabled (w_attachment w') \<noteq> 0"
  shows "map_option channel_objects (nano_service_ipc (w_attachment w')) =
           Some (object_name False (unique_id (w_attachment w')), object_name True (unique_id (w_attachment w')))"
    and "map_option channel_objects (nano_service_sync_ipc (w_attachment w')) =
           Some (object_name False (unique_id (w_attachment w')), object_name True (unique_id (w_attachment w')))"
proof -
  let ?uid = "unique_id (w_attachment w)"
  obtain w1 where w1: "init_service_ipc os ?uid (copy_attachment_metadata_file os w) = Some w1"
      "nano_service_ipc (w_attachment w1) \<noteq> None"
    using assms(1) by (auto simp: restart_channels_def split: bind_splits if_splits)
  obtain ipc where ipc: "w_attachment w1 = (w_attachment w)\<lparr>nano_service_ipc := Some ipc\<rparr>"
    using init_service_ipc_keeps(1) [OF w1(1)] w1(2) by auto
  have async: "is_async_mode_enabled (w_attachment w1) \<noteq> 0"
    using assms w1 by (auto simp: restart_channels_def split: if_splits)
  with assms(1) w1 ipc have w2: "init_service_sync_ipc os ?uid w1 = Some w'" "nano_service_sync_ipc (w_attachment w') \<noteq> None"
    by (simp_all add: restart_channels_def split: bind_splits if_splits)
  obtain sync where sync: "w_attachment w' = (w_attachment w1)\<lparr>nano_service_sync_ipc := Some sync\<rparr>"
    using init_service_ipc_keeps(2) [OF w2(1)] w2(2) by auto
  show "map_option channel_objects (nano_service_ipc (w_attachment w')) =
           Some (object_name False (unique_id (w_attachment w')), object_name True (unique_id (w_attachment w')))"
    using init_service_ipc_objects(1) [OF w1(1)] ipc sync by simp
  show "map_option channel_objects (nano_service_sync_ipc (w_attachment w')) =
           Some (object_name False (unique_id (w_attachment w')), object_name True (unique_id (w_attachment w')))"
    using init_service_ipc_objects(2) [OF w2(1)] ipc sync by simp
qed

end
