(* ===== verification/Comm_Properties.thy ===== *)
theory Comm_Properties
  imports Nano_Comm
begin

text \<open>
  Properties of the registration, the initialisation and the restart of the communication
  (\<open>Nano_Comm\<close>), each with the concrete input it is applied to.
\<close>

section \<open>Registration\<close>

definition registration_message :: "NanoAttachment \<Rightarrow> bytes" where
  "registration_message a =
     [attachment_type a, worker_id a + 1, num_of_workers a, of_nat (length (container_id a))] @ string_bytes (container_id a)"

lemma concat_registration_fields:
  assumes "length (container_id a) < 256"
  shows "concat (registration_fields a) = registration_message a"
proof -
  have size: "unat (of_nat (length (container_id a)) :: u8) = length (container_id a)"
    using assms by (simp add: unat_of_nat)
  then have "(of_nat (length (container_id a)) :: u8) > 0 \<longleftrightarrow> container_id a \<noteq> []"
    by (metis length_0_conv unat_eq_zero word_gt_0)
  then show ?thesis
    using size by (simp add: registration_fields_def registration_message_def Let_def string_bytes_def)
qed

lemma registration_fields_short: "\<forall>d \<in> set (registration_fields a). length d \<le> 255"
proof -
  have "unat (x :: u8) \<le> 255" for x using unat_u8_less [of x] by linarith
  then show ?thesis by (auto simp: registration_fields_def Let_def min_le_iff_disj)
qed

text \<open>
  C15. The registration message of an attachment (type, worker number, number of workers, length
  and text of the container id) is sent in full to the registration socket and the call answers
  \<open>NANO_OK\<close>, with nothing else changed, when the socket takes at least one byte at a time and no
  time-out occurs; 255 writes for each value are enough.
\<close>

theorem registration_message_sent:
  assumes "writes_progress os" "255 \<le> rounds" "length (container_id (w_attachment w)) < 256"
  shows "\<exists>w'. send_registration_data_to_registration_socket os rounds w = Some (NANO_OK, w')
           \<and> sends (registration_socket (w_attachment w)) (registration_message (w_attachment w)) w w'"
proof -
  let ?a = "w_attachment w"
  have "\<forall>d \<in> set (registration_fields ?a). length d \<le> rounds"
    using registration_fields_short [of ?a] assms(2) by fastforce
  then obtain w1 where w1: "write_fields os rounds w (registration_socket ?a) (registration_fields ?a)
      = Some (NANO_OK, registration_socket ?a, w1)"
    using write_fields_ends [OF assms(1)] by blast
  with write_fields_sends [OF w1] assms(3)
  have sent: "sends (registration_socket ?a) (registration_message ?a) w w1"
    by (auto simp: concat_registration_fields)
  moreover have "att_update (\<lambda>a. a\<lparr>registration_socket := registration_socket ?a\<rparr>) w1 = w1"
    using sends_attachment [OF sent] by (simp add: att_update_def)
  ultimately show ?thesis using w1 by (simp add: send_registration_data_to_registration_socket_def)
qed

definition three_bytes_at_a_time :: "os_answers \<Rightarrow> os_answers" where
  "three_bytes_at_a_time os = os\<lparr>os_timeout := \<lambda>_. False, os_write := \<lambda>_. 3\<rparr>"

definition sample_worker :: "comm_world \<Rightarrow> comm_world" where
  "sample_worker = att_update (\<lambda>a. a\<lparr>container_id := ''ab12'', attachment_type := 3, worker_id := 0, num_of_workers := 8,
                                     registration_socket := 5\<rparr>)"

theorem registration_message_sent_witness:
  "\<forall>os w. \<exists>w'. send_registration_data_to_registration_socket (three_bytes_at_a_time os) 255 (sample_worker w)
       = Some (NANO_OK, w') \<and> sends 5 [3, 1, 8, 4, 97, 98, 49, 50] (sample_worker w) w'"
proof (intro allI)
  fix os w
  show "\<exists>w'. send_registration_data_to_registration_socket (three_bytes_at_a_time os) 255 (sample_worker w)
       = Some (NANO_OK, w') \<and> sends 5 [3, 1, 8, 4, 97, 98, 49, 50] (sample_worker w) w'"
    using registration_message_sent [of "three_bytes_at_a_time os" 255 "sample_worker w"]
    by (simp add: writes_progress_def three_bytes_at_a_time_def registration_message_def string_bytes_def sample_worker_def)
qed

section \<open>Initialisation and restart\<close>

text \<open>
  C14. When the initialisation answers \<open>NANO_OK\<close>, the attachment is registered, has a channel to the
  service (and in asynchronous mode the second one), the counter of attempts is back at zero,
  and outside asynchronous mode there is a signalling socket, so that the attachment is ready
  unless that socket has the number 0. Joins of cancelled threads are supposed to succeed.
\<close>

theorem initialised_attachment_ready:
  assumes "joins_ok os" "nano_attachment_init_process os rounds w = Some (NANO_OK, w')"
  shows "registration_state (w_attachment w') = REGISTERED \<and> nano_service_ipc (w_attachment w') \<noteq> None
         \<and> num_of_connection_attempts (w_attachment w') = 0
         \<and> (if is_async_mode_enabled (w_attachment w') = 0
            then 0 \<le> comm_socket (w_attachment w') \<and> isIpcReady (w_attachment w') = (comm_socket (w_attachment w') \<noteq> 0)
            else nano_service_sync_ipc (w_attachment w') \<noteq> None)"
proof -
  from init_process_steps [OF assms(2)] obtain w2 w3 w4 w5 w6 w7 where
    steps: "registration_state (w_attachment w2) \<noteq> PENDING" "ensure_registered os rounds w2 = Some (NANO_OK, w3)"
      "w4 = snd (read_config os w3)" "ensure_socket os rounds w4 = Some (NANO_OK, w5)"
      "ensure_channel os rounds w5 = Some (NANO_OK, w6)" "ensure_sync_channel os rounds w6 = Some (NANO_OK, w7)"
      "w' = att_update (\<lambda>a. a\<lparr>num_of_connection_attempts := 0\<rparr>) w7" .
  have "registration_state (w_attachment w4) = REGISTERED"
    using steps(3) ensure_registered_ok [OF steps(2,1)] by (simp add: read_config_keeps)
  with ensure_socket_ok [OF assms(1) steps(4)] have w5: "registration_state (w_attachment w5) = REGISTERED"
      "is_async_mode_enabled (w_attachment w5) = 0 \<Longrightarrow> 0 \<le> comm_socket (w_attachment w5)" by auto
  obtain ipc sync where w6: "w_attachment w6 = (w_attachment w5)\<lparr>nano_service_ipc := Some ipc\<rparr>"
    and w7: "w_attachment w7 = (w_attachment w6)\<lparr>nano_service_sync_ipc := sync\<rparr>"
      "is_async_mode_enabled (w_attachment w6) \<noteq> 0 \<longrightarrow> sync \<noteq> None"
    using ensure_channel_ok [OF steps(5)] ensure_sync_channel_ok [OF steps(6)] by blast
  have "w_attachment w' = (w_attachment w5)\<lparr>nano_service_ipc := Some ipc, nano_service_sync_ipc := sync,
                             num_of_connection_attempts := 0\<rparr>"
    using steps(7) w6 w7 by simp
  then show ?thesis using w5 w6 w7(2) by (auto simp: isIpcReady_def)
qed

text \<open>A host on which every call succeeds, and a worker that has not registered yet.\<close>

definition ready_shm :: "SharedRingQueue \<Rightarrow> shm_calls" where
  "ready_shm q = \<lparr>shm_open = \<lambda>_ _. 9, fstat_size = None, pread_header = None, ftruncate = \<lambda>_. True, mmap = \<lambda>_. Mapped q\<rparr>"

definition ready_os :: "SharedRingQueue \<Rightarrow> os_answers \<Rightarrow> os_answers" where
  "ready_os q os =
     os\<lparr>os_timeout := \<lambda>_. False, os_write := \<lambda>_. 300, os_poll := \<lambda>_. (1, True), os_read := \<lambda>_. Some [3, 47, 97],
        os_socket := \<lambda>_. 7, os_connect := \<lambda>_ _. True, os_access := \<lambda>_. True,
        os_thread := \<lambda>_. \<lparr>clock_begin = None, pthread_create_ok = True, blocking_join_status = 0, clock_deadline = None,
                         timedjoin_status = \<lambda>_. 0, cancel_join_status = 0, joined_canceled = False,
                         clock_end = \<lparr>tv_sec = 0, tv_nsec = 0\<rparr>\<rparr>,
        os_ipc := \<lambda>_. \<lparr>malloc_ok = True, rx_calls = ready_shm q, rx_chmod = True, tx_calls = ready_shm q, tx_chmod = True,
                      global_malloc_ok = True\<rparr>,
        os_conf := \<lambda>_. \<lparr>cs_environ = Map.empty, cs_exists = True, cs_file = None\<rparr>\<rparr>"

definition fresh_worker :: "u32 \<Rightarrow> comm_world \<Rightarrow> comm_world" where
  "fresh_worker async =
     att_update (\<lambda>a. a\<lparr>unique_id := ''ab12_1'', container_id := ''ab12'', worker_id := 0, num_of_workers := 8,
       inspection_mode := NO_THREAD, is_configuration_updated := NANO_OK, num_of_nano_ipc_elements := 200,
       is_async_mode_enabled := async, registration_state := NOT_REGISTERED, registration_socket := -1,
       comm_socket := -1, nano_service_ipc := None, nano_service_sync_ipc := None\<rparr>)"

lemma ready_ring:
  "n \<le> max_num_of_data_segments \<Longrightarrow>
     \<exists>q' P' gd'. createSharedRingQueue_2 (ready_shm q) h P gd name n False is_tx = (Created q', P', gd')"
  by (simp add: createSharedRingQueue_2_def ready_shm_def Let_def split_def)

lemma ready_queue:
  assumes "n \<le> max_num_of_data_segments" "length name < 34"
  shows "\<exists>q' P' gd'. createOneWayIPCQueue_2 (ready_shm q) ok h P gd name is_tx False n = (Created q', P', gd')"
proof -
  let ?name = "one_way_queue_name False is_tx name"
  obtain q' P' gd' where "createSharedRingQueue_2 (ready_shm q) h P gd ?name n False is_tx = (Created q', P', gd')"
    using ready_ring [OF assms(1)] by blast
  moreover have "length name \<le> length ?name"
    using assms(2) by (simp add: one_way_queue_name_def cstr_trunc_def MAX_ONE_WAY_QUEUE_NAME_LENGTH_def)
  moreover have "length (direction_name False is_tx) = 2" by (simp add: direction_name_def)
  ultimately show ?thesis by (simp add: createOneWayIPCQueue_2_def isTowardsOwner_2_def)
qed

lemma ready_channel:
  assumes "num_of_nano_ipc_elements (w_attachment w) = 200" "length name < 34"
  shows "\<exists>ipc P. init_channel (ready_os q os) name w = Some (Some ipc, (step_call w)\<lparr>w_process := P\<rparr>)"
proof -
  let ?n = "200 :: u16" and ?h = "os_files (ready_os q os)"
  have n: "?n \<le> max_num_of_data_segments" by (simp add: max_num_of_data_segments_def SHARED_MEMORY_SEGMENT_ENTRY_SIZE_def)
  obtain gd where gd: "createSharedRingGlobalData True = Some gd" by (simp add: createSharedRingGlobalData_def)
  obtain rx P1 gd1 where rx: "createOneWayIPCQueue_2 (ready_shm q) True ?h (w_process w) gd name False False ?n
      = (Created rx, P1, gd1)" using ready_queue [OF n assms(2)] by blast
  obtain tx P2 gd2 where tx: "createOneWayIPCQueue_2 (ready_shm q) True ?h P1 gd1 name True False ?n
      = (Created tx, P2, gd2)" using ready_queue [OF n assms(2)] by blast
  have calls: "os_ipc (ready_os q os) k = \<lparr>malloc_ok = True, rx_calls = ready_shm q, rx_chmod = True,
      tx_calls = ready_shm q, tx_chmod = True, global_malloc_ok = True\<rparr>" for k by (simp add: ready_os_def)
  show ?thesis using assms(1) gd rx tx by (auto simp: init_channel_def initIpc_2_def calls)
qed


lemma ready_thread:
  "inspection_mode (w_attachment w) = NO_THREAD \<Longrightarrow>
     run_registration_thread (ready_os q os) f w =
       Some (ctx_res (snd (f (w, init_thread_ctx None))) = NANO_OK, step_call (fst (f (w, init_thread_ctx None))))"
  by (simp add: run_registration_thread_def NanoRunInThreadTimeout_def NanoRunInWithoutThreadTimeout_def Let_def split_def)

lemma ready_writes: "writes_progress (ready_os q os)"
  by (simp add: writes_progress_def ready_os_def)

lemma ready_read:
  assumes "0 < sz" "sz \<le> 3"
  shows "\<exists>w'. read_from_service (ready_os q os) (Suc n) w sock sz 0 buf =
           Some (NANO_OK, take sz [3, 47, 97] @ drop sz buf, sock, w') \<and> w_attachment w' = w_attachment w"
proof -
  from assms have "sz = 1 \<or> sz = 2 \<or> sz = 3" by linarith
  then show ?thesis
    by (auto simp: read_from_service.simps [of _ "Suc n"] read_from_service.simps [of _ n] ready_os_def Let_def store_bytes_def)
qed

lemma ready_signaling:
  assumes "inspection_mode (w_attachment w) = NO_THREAD" "255 \<le> rounds"
  shows "\<exists>w'. init_signaling_socket (ready_os q os) rounds w = Some (NANO_OK, w')
           \<and> w_attachment w' = (w_attachment w)\<lparr>comm_socket := 7,
               comm_socket_sync := (if is_async_mode_enabled (w_attachment w) = 0 then comm_socket_sync (w_attachment w) else 7)\<rparr>"
proof -
  let ?os = "ready_os q os" and ?s = "(w, init_thread_ctx None)"
  obtain n where n: "rounds = Suc n" using assms(2) by (cases rounds) auto
  have ok: "os_socket ?os k = 7" "os_connect ?os k p" for k p by (simp_all add: ready_os_def)
  have connected: "ctx_res (snd (RegistrationCommSocketThread ?os ?s)) = NANO_OK"
    by (simp add: RegistrationCommSocketThread_def connect_to_comm_socket_def connect_to_comm_socket_sync_def ok Let_def)
  define w1 where "w1 = step_call (fst (RegistrationCommSocketThread ?os ?s))"
  let ?a = "w_attachment w1"
  have "unat (x :: u8) \<le> 255" for x using unat_u8_less [of x] by linarith
  then have "\<forall>d \<in> set (comm_fields ?a). length d \<le> rounds"
    using assms(2) by (auto simp: comm_fields_def Let_def le32_def min_le_iff_disj intro: order_trans)
  then obtain w2 where w2: "write_fields ?os rounds w1 (comm_socket ?a) (comm_fields ?a) = Some (NANO_OK, comm_socket ?a, w2)"
    using write_fields_ends [OF ready_writes] by blast
  have a2: "w_attachment w2 = ?a" using write_fields_sends [OF w2] by (auto dest: sends_attachment)
  define w3 where "w3 = att_update (\<lambda>a. a\<lparr>comm_socket := comm_socket ?a\<rparr>) w2"
  obtain buf w4 where w4: "read_from_service ?os rounds w3 (comm_socket (w_attachment w3)) 1 0 [0]
      = Some (NANO_OK, buf, comm_socket (w_attachment w3), w4)" "w_attachment w4 = w_attachment w3"
    using ready_read [of 1 q os n w3 "comm_socket (w_attachment w3)" "[0]"] n by auto
  have run: "run_registration_thread ?os (RegistrationCommSocketThread ?os) w = Some (True, w1)"
    by (simp add: ready_thread [OF assms(1)] connected w1_def)
  have send: "send_comm_data_to_comm_socket ?os rounds w1 = Some (NANO_OK, w3)"
    using w2 by (simp add: send_comm_data_to_comm_socket_def w3_def)
  have "init_signaling_socket ?os rounds w =
      Some (NANO_OK, att_update (\<lambda>a. a\<lparr>comm_socket := comm_socket (w_attachment w3)\<rparr>) w4)"
    by (simp add: init_signaling_socket_def run send w4(1) del: One_nat_def)
  moreover have "?a = (w_attachment w)\<lparr>comm_socket := 7,
      comm_socket_sync := (if is_async_mode_enabled (w_attachment w) = 0 then comm_socket_sync (w_attachment w) else 7)\<rparr>"
    by (simp add: w1_def comm_thread_state ok)
  ultimately show ?thesis using w4(2) a2 by (simp add: w3_def)
qed

lemma ready_registration:
  assumes "inspection_mode (w_attachment w) = NO_THREAD" "255 \<le> rounds" "registration_socket (w_attachment w) \<le> 0"
  shows "\<exists>w' path. register_to_attachments_manager (ready_os q os) rounds w = Some (NANO_OK, w')
           \<and> w_attachment w' = (w_attachment w)\<lparr>shared_verdict_signal_path := path, registration_socket := -1\<rparr>"
proof -
  let ?os = "ready_os q os"
  obtain n where n: "rounds = Suc n" using assms(2) by (cases rounds) auto
  define w1 where "w1 = step_call (step_call (w\<lparr>w_attachment := (w_attachment w)\<lparr>registration_socket := 7\<rparr>\<rparr>))"
  let ?a = "w_attachment w1"
  have run: "run_registration_thread ?os (RegistrationSocketThread ?os) w = Some (True, w1)"
    using ready_thread [OF assms(1)]
    by (simp add: RegistrationSocketThread_def connect_to_registration_socket_def w1_def ready_os_def Let_def)
  have "\<forall>d \<in> set (registration_fields ?a). length d \<le> rounds"
    using registration_fields_short [of ?a] assms(2) by fastforce
  then obtain w2 where w2: "write_fields ?os rounds w1 (registration_socket ?a) (registration_fields ?a)
      = Some (NANO_OK, registration_socket ?a, w2)"
    using write_fields_ends [OF ready_writes] by blast
  define w3 where "w3 = att_update (\<lambda>a. a\<lparr>registration_socket := 7\<rparr>) w2"
  have send: "send_registration_data_to_registration_socket ?os rounds w1 = Some (NANO_OK, w3)"
    using w2 by (simp add: send_registration_data_to_registration_socket_def w3_def w1_def)
  have a3: "w_attachment w3 = (w_attachment w)\<lparr>registration_socket := 7\<rparr>"
    using write_fields_sends [OF w2] by (auto simp: w3_def w1_def dest: sends_attachment)
  obtain w4 where w4: "read_from_service ?os rounds w3 7 1 0 [0] = Some (NANO_OK, [3], 7, w4)" "w_attachment w4 = w_attachment w3"
    using ready_read [of 1 q os n w3 7 "[0]"] n by auto
  define w5 where "w5 = att_update (\<lambda>a. a\<lparr>registration_socket := 7\<rparr>) w4"
  obtain path w6 where w6: "read_from_service ?os rounds w5 7 3 0 (shared_verdict_signal_path (w_attachment w5))
      = Some (NANO_OK, path, 7, w6)" "w_attachment w6 = w_attachment w5"
    using ready_read [of 3 q os n w5 7 "shared_verdict_signal_path (w_attachment w5)"] n by auto
  have "\<exists>w7. read_verdict_signal_path_from_registration_socket ?os rounds w3 = Some (NANO_OK, w7)
      \<and> w_attachment w7 = (w_attachment w6)\<lparr>registration_socket := 7, shared_verdict_signal_path := path[3 := 0]\<rparr>"
    using w6(1) w4(2) a3
    by (simp add: read_verdict_signal_path_from_registration_socket_def w4(1) MAX_SHARED_MEM_PATH_LEN_def w5_def
             del: One_nat_def)
  with run send assms(3) w4(2) w6(2) a3 show ?thesis
    by (auto simp: register_to_attachments_manager_def close_registration_socket_def w5_def)
qed

lemma ready_service_ipc:
  assumes "num_of_nano_ipc_elements (w_attachment w) = 200" "length name < 34"
  shows "\<exists>w' ipc. init_service_ipc (ready_os q os) name w = Some w'
           \<and> w_attachment w' = (w_attachment w)\<lparr>nano_service_ipc := Some ipc\<rparr>"
    and "\<exists>w' ipc. init_service_sync_ipc (ready_os q os) name w = Some w'
           \<and> w_attachment w' = (w_attachment w)\<lparr>nano_service_sync_ipc := Some ipc\<rparr>"
  using ready_channel [OF assms, of q os] by (auto simp: init_service_ipc_def init_service_sync_ipc_def)

text \<open>A worker of this kind, whatever else is in its state.\<close>

definition worker_on_host :: "comm_world \<Rightarrow> bool" where
  "worker_on_host w \<longleftrightarrow>
     inspection_mode (w_attachment w) = NO_THREAD \<and> num_of_nano_ipc_elements (w_attachment w) = 200
     \<and> length (unique_id (w_attachment w)) < 29 \<and> is_configuration_updated (w_attachment w) = NANO_OK
     \<and> registration_socket (w_attachment w) \<le> 0"

lemma ready_ensure_socket:
  assumes "worker_on_host w" "255 \<le> rounds"
  shows "\<exists>w'. ensure_socket (ready_os q os) rounds w = Some (NANO_OK, w') \<and> worker_on_host w'
           \<and> nano_service_sync_ipc (w_attachment w') = nano_service_sync_ipc (w_attachment w)
           \<and> is_async_mode_enabled (w_attachment w') = is_async_mode_enabled (w_attachment w)"
  using ready_signaling [of w rounds q os] assms by (auto simp: ensure_socket_def worker_on_host_def)

lemma ready_ensure_registered:
  assumes "worker_on_host w" "255 \<le> rounds"
  shows "\<exists>w'. ensure_registered (ready_os q os) rounds w = Some (NANO_OK, w') \<and> worker_on_host w'"
  using ready_registration [of w rounds q os] assms by (auto simp: ensure_registered_def worker_on_host_def)

lemma ready_ensure_channel:
  assumes "worker_on_host w"
  shows "\<exists>w'. ensure_channel (ready_os q os) rounds w = Some (NANO_OK, w') \<and> worker_on_host w'"
  using ready_service_ipc(1) [of "copy_attachment_metadata_file (ready_os q os) w" "unique_id (w_attachment w)" q os] assms
  by (auto simp: ensure_channel_def worker_on_host_def)

lemma ready_ensure_sync_channel:
  assumes "worker_on_host w"
  shows "\<exists>w'. ensure_sync_channel (ready_os q os) rounds w = Some (NANO_OK, w')"
  using ready_service_ipc(2) [of w "unique_id (w_attachment w) @ ''_sync''" q os] assms
  by (auto simp: ensure_sync_channel_def worker_on_host_def MAX_NGINX_UID_LEN_def)

lemma ready_config:
  "is_configuration_updated (w_attachment w) = NANO_OK \<Longrightarrow>
     read_config (ready_os q os) w = (NANO_OK, step_call w)"
  by (simp add: read_config_def init_attachment_config_def ready_os_def Let_def step_call_def)

lemma ready_initialisation:
  assumes "worker_on_host w" "registration_state (w_attachment w) \<noteq> PENDING" "255 \<le> rounds"
  shows "\<exists>w'. nano_attachment_init_process (ready_os q os) rounds w = Some (NANO_OK, w')"
proof -
  let ?os = "ready_os q os"
  define w2 where "w2 = step_call (att_update (\<lambda>a. a\<lparr>nano_user_id := os_uid ?os, nano_group_id := os_gid ?os,
    num_of_connection_attempts := num_of_connection_attempts a + 1\<rparr>) w)"
  have w2: "worker_on_host (step_call w2)" "registration_state (w_attachment w2) \<noteq> PENDING"
    using assms(1,2) by (simp_all add: w2_def worker_on_host_def)
  obtain w3 where w3: "ensure_registered ?os rounds (step_call w2) = Some (NANO_OK, w3)" "worker_on_host w3"
    using ready_ensure_registered [OF w2(1) assms(3)] by blast
  have w4: "read_config ?os w3 = (NANO_OK, step_call w3)" "worker_on_host (step_call w3)"
    using w3(2) by (simp_all add: ready_config worker_on_host_def)
  obtain w5 where w5: "ensure_socket ?os rounds (step_call w3) = Some (NANO_OK, w5)" "worker_on_host w5"
    using ready_ensure_socket [OF w4(2) assms(3)] by blast
  obtain w6 where w6: "ensure_channel ?os rounds w5 = Some (NANO_OK, w6)" "worker_on_host w6"
    using ready_ensure_channel [OF w5(2)] by blast
  obtain w7 where w7: "ensure_sync_channel ?os rounds w6 = Some (NANO_OK, w7)"
    using ready_ensure_sync_channel [OF w6(2)] by blast
  have "os_access ?os n" for n by (simp add: ready_os_def)
  with assms(1) w2(2) w3(1) w4(1) w5(1) w6(1) w7 show ?thesis
    by (simp add: nano_attachment_init_process_def Let_def ready_config worker_on_host_def unless_error_def flip: w2_def)
qed

lemma ready_joins: "joins_ok (ready_os q os)"
  by (simp add: joins_ok_def ready_os_def)

lemma fresh_worker_on_host: "worker_on_host (fresh_worker async w)"
  by (simp add: worker_on_host_def fresh_worker_def)

theorem initialised_attachment_ready_witness:
  "\<forall>q os w. \<exists>w'. nano_attachment_init_process (ready_os q os) 255 (fresh_worker 0 w) = Some (NANO_OK, w')
     \<and> registration_state (w_attachment w') = REGISTERED \<and> nano_service_ipc (w_attachment w') \<noteq> None"
proof (intro allI)
  fix q os w
  have "registration_state (w_attachment (fresh_worker 0 w)) \<noteq> PENDING" by (simp add: fresh_worker_def)
  then obtain w' where "nano_attachment_init_process (ready_os q os) 255 (fresh_worker 0 w) = Some (NANO_OK, w')"
    using ready_initialisation [OF fresh_worker_on_host] by blast
  with initialised_attachment_ready [OF ready_joins this]
  show "\<exists>w'. nano_attachment_init_process (ready_os q os) 255 (fresh_worker 0 w) = Some (NANO_OK, w')
     \<and> registration_state (w_attachment w') = REGISTERED \<and> nano_service_ipc (w_attachment w') \<noteq> None" by blast
qed

text \<open>
  In asynchronous mode the initialisation makes the second channel from objects of its own,
  named after the unique id with a suffix, while a successful restart makes both channels from
  the same pair of shared-memory objects, so that the two share their queues.
\<close>

theorem restart_shares_objects:
  assumes restart: "restart_communication os rounds w = Some (NANO_OK, w')" "is_async_mode_enabled (w_attachment w') \<noteq> 0"
    and init: "ensure_sync_channel os2 rounds2 v = Some (NANO_OK, v')" "is_async_mode_enabled (w_attachment v) \<noteq> 0"
      "nano_service_sync_ipc (w_attachment v) = None" "length (unique_id (w_attachment v)) < 29"
  shows "map_option channel_objects (nano_service_ipc (w_attachment w')) =
           Some (object_name False (unique_id (w_attachment w')), object_name True (unique_id (w_attachment w')))
         \<and> map_option channel_objects (nano_service_sync_ipc (w_attachment w')) =
             map_option channel_objects (nano_service_ipc (w_attachment w'))
         \<and> map_option channel_objects (nano_service_sync_ipc (w_attachment v')) \<noteq>
             Some (object_name False (unique_id (w_attachment v')), object_name True (unique_id (w_attachment v')))"
proof -
  obtain w1 where "restart_channels os w1 = Some (NANO_OK, w')" using restart_channels_last [OF restart(1)] by blast
  note both = restart_channels_objects [OF this restart(2)]
  have "length (unique_id (w_attachment v) @ ''_sync'') < 34" using init(4) by simp
  then have "object_name b (unique_id (w_attachment v) @ ''_sync'') \<noteq> object_name b (unique_id (w_attachment v))" for b
    using init(4) by (simp add: object_name_inj)
  with ensure_sync_channel_objects [OF init] both show ?thesis by auto
qed

lemma ready_restart:
  "\<exists>w'. restart_communication (ready_os q os) 255 (fresh_worker 1 w) = Some (NANO_OK, w')
     \<and> is_async_mode_enabled (w_attachment w') = 1"
proof -
  let ?os = "ready_os q os" and ?w = "drop_channels (fresh_worker 1 w)"
  have mode: "inspection_mode (w_attachment ?w) = NO_THREAD" by (simp add: drop_channels_def fresh_worker_def)
  obtain w1 where w1: "init_signaling_socket ?os 255 ?w = Some (NANO_OK, w1)"
      "w_attachment w1 = (w_attachment ?w)\<lparr>comm_socket := 7, comm_socket_sync := 7\<rparr>"
    using ready_signaling [OF mode order_refl, of q os] by (auto simp: drop_channels_def fresh_worker_def)
  let ?uid = "unique_id (w_attachment w1)" and ?v = "copy_attachment_metadata_file ?os w1"
  have a1: "num_of_nano_ipc_elements (w_attachment w1) = 200" "length ?uid < 34" "is_async_mode_enabled (w_attachment w1) = 1"
    using w1(2) by (simp_all add: drop_channels_def fresh_worker_def)
  obtain w2 ipc where w2: "init_service_ipc ?os ?uid ?v = Some w2"
      "w_attachment w2 = (w_attachment w1)\<lparr>nano_service_ipc := Some ipc\<rparr>"
    using ready_service_ipc(1) [of ?v ?uid q os] a1 by auto
  obtain w3 sync where w3: "init_service_sync_ipc ?os ?uid w2 = Some w3"
      "w_attachment w3 = (w_attachment w2)\<lparr>nano_service_sync_ipc := Some sync\<rparr>"
    using ready_service_ipc(2) [of w2 ?uid q os] a1 w2(2) by auto
  from w1(1) w2 w3 a1(3) show ?thesis by (simp add: restart_communication_def restart_channels_def Let_def)
qed

theorem restart_shares_objects_witness:
  "\<forall>q os w. \<exists>w' v'. restart_communication (ready_os q os) 255 (fresh_worker 1 w) = Some (NANO_OK, w')
     \<and> ensure_sync_channel (ready_os q os) 255 (fresh_worker 1 w) = Some (NANO_OK, v')
     \<and> map_option channel_objects (nano_service_sync_ipc (w_attachment w')) =
         map_option channel_objects (nano_service_ipc (w_attachment w'))"
proof (intro allI)
  fix q os w
  let ?os = "ready_os q os" and ?w = "fresh_worker 1 w"
  obtain w' where w': "restart_communication ?os 255 ?w = Some (NANO_OK, w')" "is_async_mode_enabled (w_attachment w') = 1"
    using ready_restart by blast
  obtain v' where v': "ensure_sync_channel ?os 255 ?w = Some (NANO_OK, v')"
    using ready_ensure_sync_channel [OF fresh_worker_on_host] by blast
  have "is_async_mode_enabled (w_attachment w') \<noteq> 0" "is_async_mode_enabled (w_attachment ?w) \<noteq> 0"
    "nano_service_sync_ipc (w_attachment ?w) = None" "length (unique_id (w_attachment ?w)) < 29"
    using w'(2) by (simp_all add: fresh_worker_def)
  from restart_shares_objects [OF w'(1) this(1) v' this(2-4)] w'(1) v'
  show "\<exists>w' v'. restart_communication ?os 255 ?w = Some (NANO_OK, w') \<and> ensure_sync_channel ?os 255 ?w = Some (NANO_OK, v')
     \<and> map_option channel_objects (nano_service_sync_ipc (w_attachment w')) =
         map_option channel_objects (nano_service_ipc (w_attachment w'))" by blast
qed

end
