(* ===== verification/Nano_Io.thy ===== *)
theory Nano_Io
  imports Nano_Comm
begin

text \<open>
  Signalling, sending and receiving of \<open>nano_attachment_io.c\<close>. As in \<open>Nano_Comm\<close>, the result \<open>None\<close> is
  a loop that has not ended within the given number of rounds, or a fault.
\<close>

section \<open>The channel in use\<close>

definition get_comm_socket :: "NanoAttachment \<Rightarrow> SignalUsageMode \<Rightarrow> int" where
  "get_comm_socket a usage_mode =
     (if is_async_mode_enabled a = 0 then comm_socket a
      else if usage_mode = SIGNAL_USAGE_ASYNC then comm_socket a else comm_socket_sync a)"

definition get_nano_service_ipc :: "NanoAttachment \<Rightarrow> SignalUsageMode \<Rightarrow> SharedMemoryIPC_2 option" where
  "get_nano_service_ipc a usage_mode =
     (if is_async_mode_enabled a = 0 then nano_service_ipc a
      else if usage_mode = SIGNAL_USAGE_ASYNC then nano_service_ipc a else nano_service_sync_ipc a)"

text \<open>The same channel after an operation on it.\<close>

definition put_nano_service_ipc ::
    "SignalUsageMode \<Rightarrow> SharedMemoryIPC_2 option \<Rightarrow> NanoAttachment \<Rightarrow> NanoAttachment" where
  "put_nano_service_ipc usage_mode ipc a =
     (if is_async_mode_enabled a = 0 \<or> usage_mode = SIGNAL_USAGE_ASYNC then a\<lparr>nano_service_ipc := ipc\<rparr>
      else a\<lparr>nano_service_sync_ipc := ipc\<rparr>)"

definition get_timeout :: "NanoAttachment \<Rightarrow> AttachmentDataType \<Rightarrow> SignalUsageMode \<Rightarrow> u32" where
  "get_timeout a chunk_type usage_mode =
     (if usage_mode = SIGNAL_USAGE_ASYNC then 10
      else if chunk_type = REQUEST_DELAYED_VERDICT then fail_open_delayed_timeout a
      else fail_open_timeout a)"

definition handle_counter_new_message_sent :: "u32 \<Rightarrow> u32 \<Rightarrow> SignalUsageMode \<Rightarrow> u32" where
  "handle_counter_new_message_sent amount counter usage_mode =
     (if usage_mode = SIGNAL_USAGE_ASYNC then counter else counter + amount)"

text \<open>While the attachment waits, the service may read and write the queues of both channels.\<close>

definition service_acts :: "os_answers \<Rightarrow> comm_world \<Rightarrow> comm_world" where
  "service_acts os w =
     step_call (att_update (\<lambda>a. a\<lparr>nano_service_ipc := map_option (os_service os (w_calls w)) (nano_service_ipc a),
                                  nano_service_sync_ipc := map_option (os_service os (w_calls w)) (nano_service_sync_ipc a)\<rparr>) w)"

section \<open>Signalling\<close>

text \<open>The four bytes of the session id, as many as the socket takes at a time.\<close>

fun write_signal ::
    "os_answers \<Rightarrow> nat \<Rightarrow> bool \<Rightarrow> SignalUsageMode \<Rightarrow> int \<Rightarrow> comm_world \<Rightarrow> bytes
     \<Rightarrow> (NanoCommunicationResult \<times> comm_world) option" where
  "write_signal os rounds failopen_enabled usage_mode sock w data =
     (if data = [] then Some (NANO_OK, w)
      else
        (case rounds of
           0 \<Rightarrow> None
         | Suc n \<Rightarrow>
             if failopen_enabled \<and> os_timeout os (w_calls w) then Some (NANO_TIMEOUT, step_call w)
             else
               let w1 = step_call w; res = os_write os (w_calls w1); w2 = step_call w1 in
               if res < 0 then
                 (if usage_mode = SIGNAL_USAGE_ASYNC then
                    Some (if os_connection_lost os (w_calls w1) then NANO_ERROR else NANO_TIMEOUT, w2)
                  else Some (NANO_ERROR, w2))
               else write_signal os n failopen_enabled usage_mode sock
                      (w2\<lparr>w_sent := w_sent w2 @ [(sock, take (nat res) data)]\<rparr>) (drop (nat res) data)))"

declare write_signal.simps [simp del]

definition notify_signal_to_service ::
    "os_answers \<Rightarrow> nat \<Rightarrow> SessionID \<Rightarrow> SignalUsageMode \<Rightarrow> comm_world
     \<Rightarrow> (NanoCommunicationResult \<times> comm_world) option" where
  "notify_signal_to_service os rounds cur_session_id usage_mode w =
     (let (res, hangup) = os_poll os (w_calls w); w1 = step_call w; a = w_attachment w in
      if res > 0 \<and> hangup then Some (NANO_ERROR, w1)
      else write_signal os rounds (inspection_mode a = NON_BLOCKING_THREAD) usage_mode (get_comm_socket a usage_mode)
             w1 (le32 cur_session_id))"

text \<open>
  The acknowledgement. The result of \<open>poll\<close> and \<open>read\<close> is stored in a variable of the type
  \<open>NanoCommunicationResult\<close>, an enumeration without negative constants, whose type is unsigned: the
  comparisons with zero never find a negative number. So a poll that failed is followed by a read,
  and after a read that failed the variable of the acknowledgement, or the part of it that was
  not read, holds what the stack held.
\<close>

definition CORRUPTED_SESSION_ID :: SessionID where
  "CORRUPTED_SESSION_ID = 0"

definition signal_reply :: "os_answers \<Rightarrow> nat \<Rightarrow> bytes \<Rightarrow> SessionID" where
  "signal_reply os k got = get32 (\<lambda>i. if i < length got then got ! i else os_stack os k i) 0"

fun wait_for_ack ::
    "os_answers \<Rightarrow> nat \<Rightarrow> u32 \<Rightarrow> SessionID \<Rightarrow> comm_world \<Rightarrow> NanoCommunicationResult \<times> comm_world" where
  "wait_for_ack os 0 timeout cur_session_id w = (NANO_TIMEOUT, w)"
| "wait_for_ack os (Suc n) timeout cur_session_id w =
     (let res = (of_int (os_poll_ack os (w_calls w) timeout) :: u32); w1 = service_acts os w in
      if res < 0 then (NANO_ERROR, w1)
      else if res = 0 then wait_for_ack os n timeout cur_session_id w1
      else
        let answer = os_read os (w_calls w1); w2 = step_call w1;
            res2 = (case answer of None \<Rightarrow> (-1 :: u32) | Some bs \<Rightarrow> of_nat (min 4 (length bs)));
            reply_from_service = signal_reply os (w_calls w1) (case answer of None \<Rightarrow> [] | Some bs \<Rightarrow> bs)
        in if res2 \<le> 0 then (NANO_ERROR, w2)
           else if reply_from_service = cur_session_id then (NANO_OK, w2)
           else if reply_from_service = CORRUPTED_SESSION_ID then (NANO_ERROR, w2)
           else (NANO_AGAIN, w2))"

definition signal_for_session_data ::
    "os_answers \<Rightarrow> nat \<Rightarrow> SessionID \<Rightarrow> AttachmentDataType \<Rightarrow> SignalUsageMode \<Rightarrow> comm_world
     \<Rightarrow> (NanoCommunicationResult \<times> comm_world) option" where
  "signal_for_session_data os rounds cur_session_id chunk_type usage_mode w =
     do {
       (res, w1) \<leftarrow> notify_signal_to_service os rounds cur_session_id usage_mode w;
       if res \<noteq> NANO_OK then Some (res, w1)
       else if usage_mode = SIGNAL_USAGE_ASYNC then Some (NANO_OK, w1)
       else Some (wait_for_ack os 3 (get_timeout (w_attachment w) chunk_type usage_mode) cur_session_id w1)
     }"

section \<open>Receiving\<close>

text \<open>Up to five tries; the address of the reply in the receiving queue, or \<open>None\<close>.\<close>

fun receive_data_from_service ::
    "os_answers \<Rightarrow> nat \<Rightarrow> SignalUsageMode \<Rightarrow> comm_world \<Rightarrow> nat option \<times> comm_world" where
  "receive_data_from_service os 0 usage_mode w = (None, w)"
| "receive_data_from_service os (Suc n) usage_mode w =
     (let ipc = get_nano_service_ipc (w_attachment w) usage_mode in
      if \<not> isDataAvailable_2 ipc then receive_data_from_service os n usage_mode (service_acts os w)
      else
        (case receiveData_2 (os_files os) (w_process w) ipc of
           None \<Rightarrow> receive_data_from_service os n usage_mode (service_acts os w)
         | Some (r, out, P, ipc1) \<Rightarrow>
             let w1 = att_update (put_nano_service_ipc usage_mode ipc1) (w\<lparr>w_process := P\<rparr>) in
             (case out of
                None \<Rightarrow> receive_data_from_service os n usage_mode (service_acts os w1)
              | Some (addr, sz) \<Rightarrow>
                  if r < 0 then receive_data_from_service os n usage_mode (service_acts os w1)
                  else (Some addr, w1))))"

definition pop_service_data :: "os_answers \<Rightarrow> SignalUsageMode \<Rightarrow> comm_world \<Rightarrow> comm_world" where
  "pop_service_data os usage_mode w =
     (case popData_2 (os_files os) (w_process w) (get_nano_service_ipc (w_attachment w) usage_mode) of
        (_, P, ipc) \<Rightarrow> att_update (put_nano_service_ipc usage_mode ipc) (w\<lparr>w_process := P\<rparr>))"

text \<open>\<open>popData(attachment->nano_service_ipc)\<close>, whatever the mode.\<close>

definition pop_primary_data :: "os_answers \<Rightarrow> comm_world \<Rightarrow> comm_world" where
  "pop_primary_data os w =
     (case popData_2 (os_files os) (w_process w) (nano_service_ipc (w_attachment w)) of
        (_, P, ipc) \<Rightarrow> att_update (\<lambda>a. a\<lparr>nano_service_ipc := ipc\<rparr>) (w\<lparr>w_process := P\<rparr>))"

section \<open>Sending\<close>

definition push_fragments ::
    "os_answers \<Rightarrow> SignalUsageMode \<Rightarrow> bytes list \<Rightarrow> comm_world \<Rightarrow> int \<times> comm_world" where
  "push_fragments os usage_mode fragments w =
     (case sendChunkedData_2 (os_files os) (w_process w) (get_nano_service_ipc (w_attachment w) usage_mode) fragments of
        (err_code, P, ipc) \<Rightarrow> (err_code, att_update (put_nano_service_ipc usage_mode ipc) (w\<lparr>w_process := P\<rparr>)))"

text \<open>
  Five attempts. The variable \<open>res\<close> keeps the result of the last signal, and a push that is accepted
  ends the loop only when that is \<open>NANO_OK\<close>.
\<close>

fun send_attempts ::
    "os_answers \<Rightarrow> nat \<Rightarrow> bytes list \<Rightarrow> SessionID \<Rightarrow> AttachmentDataType \<Rightarrow> SignalUsageMode \<Rightarrow> nat
     \<Rightarrow> NanoCommunicationResult \<Rightarrow> comm_world \<Rightarrow> (NanoCommunicationResult \<times> comm_world) option" where
  "send_attempts os rounds fragments cur_session_id chunk_type usage_mode 0 res w = Some (NANO_ERROR, w)"
| "send_attempts os rounds fragments cur_session_id chunk_type usage_mode (Suc n) res w =
     (let (err_code, w1) = push_fragments os usage_mode fragments w
      in if res = NANO_OK \<and> err_code = 0 then Some (NANO_OK, w1)
         else
           do {
             (res2, w2) \<leftarrow> signal_for_session_data os rounds cur_session_id chunk_type usage_mode w1;
             if res2 = NANO_ERROR then
               do {
                 (res3, w3) \<leftarrow> restart_communication os rounds (disconnect_communication os w2);
                 if res3 = NANO_ERROR then Some (NANO_ERROR, w3)
                 else send_attempts os rounds fragments cur_session_id chunk_type usage_mode n res3 w3
               }
             else send_attempts os rounds fragments cur_session_id chunk_type usage_mode n res2 w2
           })"

definition send_session_data_to_service ::
    "os_answers \<Rightarrow> nat \<Rightarrow> SessionID \<Rightarrow> AttachmentDataType \<Rightarrow> SignalUsageMode \<Rightarrow> bytes list \<Rightarrow> comm_world
     \<Rightarrow> (NanoCommunicationResult \<times> comm_world) option" where
  "send_session_data_to_service os rounds cur_session_id chunk_type usage_mode fragments w =
     send_attempts os rounds fragments cur_session_id chunk_type usage_mode 5 NANO_OK w"

section \<open>The replies of a session\<close>

text \<open>
  What is freed of a list of modifications is \<open>modification.data\<close>, the array at the end of the copied
  header inside the node, which no allocation returned: with a list that is not empty it is a fault.
\<close>

definition free_modifications :: "NanoHttpModification list \<Rightarrow> NanoHttpModification list option" where
  "free_modifications ml = (if ml = [] then Some [] else None)"

fun apply_write :: "WebResponseData write_result \<Rightarrow> WebResponseData option \<Rightarrow> WebResponseData option option" where
  "apply_write Unchanged d = Some d"
| "apply_write (Written r) d = Some (Some r)"
| "apply_write Overrun d = None"

text \<open>What the session holds: its data, the web response and the modifications.\<close>

record session_ctx =
  sc_session :: HttpSessionData
  sc_web :: "WebResponseData option"
  sc_mods :: "NanoHttpModification list"

definition set_verdict :: "ServiceVerdict \<Rightarrow> session_ctx \<Rightarrow> session_ctx" where
  "set_verdict v c = c\<lparr>sc_session := (sc_session c)\<lparr>sd_verdict := v\<rparr>\<rparr>"

definition no_more_replies :: "session_ctx \<Rightarrow> session_ctx" where
  "no_more_replies c = c\<lparr>sc_session := (sc_session c)\<lparr>remaining_messages_to_reply := 0\<rparr>\<rparr>"

definition reset_config :: "os_answers \<Rightarrow> comm_world \<Rightarrow> comm_world" where
  "reset_config os w =
     (let cs = os_conf os (w_calls w);
          (_, a, c) = reset_attachment_config (cs_environ cs) (cs_exists cs) (cs_file cs) (w_attachment w) (w_conf w)
      in (step_call w)\<lparr>w_attachment := a, w_conf := c\<rparr>)"

text \<open>
  One reply of the session, at an address of the receiving queue: \<open>Some (Inl (res, c, w))\<close> ends the
  receiving with a result, \<open>Some (Inr (c, w))\<close> goes on to the next reply, \<open>None\<close> is a fault.
\<close>

definition handle_reply ::
    "os_answers \<Rightarrow> SignalUsageMode \<Rightarrow> memory \<Rightarrow> nat \<Rightarrow> session_ctx \<Rightarrow> comm_world
     \<Rightarrow> ((NanoCommunicationResult \<times> session_ctx \<times> comm_world) + (session_ctx \<times> comm_world)) option" where
  "handle_reply os usage_mode p addr c w =
     (let reply = read_reply p addr; alloc = os_alloc os (w_calls w); continue = (\<lambda>c w. Some (Inr (c, pop_service_data os usage_mode w)))
      in (case sd_verdict (sc_session c) of
            TRAFFIC_VERDICT_INJECT \<Rightarrow>
              continue (set_verdict TRAFFIC_VERDICT_INSPECT
                 (c\<lparr>sc_mods := handle_inject_response alloc p (modify_data reply) (modification_count reply) (sc_mods c)\<rparr>))
                (count_metric INJECT_VERDICTS_COUNT (step_call w))
          | TRAFFIC_VERDICT_DROP \<Rightarrow>
              do {
                web \<leftarrow> apply_write (handle_drop_response alloc p (modify_data reply)) (sc_web c);
                mods \<leftarrow> free_modifications (sc_mods c);
                Some (Inl (NANO_HTTP_FORBIDDEN, (no_more_replies c)\<lparr>sc_web := web, sc_mods := mods\<rparr>,
                  pop_service_data os usage_mode (count_metric DROP_VERDICTS_COUNT (step_call w))))
              }
          | TRAFFIC_VERDICT_CUSTOM_RESPONSE \<Rightarrow>
              do {
                web \<leftarrow> apply_write (handle_custom_response_with_headers alloc p (modify_data reply)) (sc_web c);
                mods \<leftarrow> free_modifications (sc_mods c);
                Some (Inl (NANO_HTTP_FORBIDDEN, (no_more_replies c)\<lparr>sc_web := web, sc_mods := mods\<rparr>,
                  pop_primary_data os (count_metric DROP_VERDICTS_COUNT (step_call w))))
              }
          | TRAFFIC_VERDICT_ACCEPT \<Rightarrow>
              Some (Inl (NANO_OK, no_more_replies c,
                pop_service_data os usage_mode (count_metric ACCEPT_VERDICTS_COUNT w)))
          | TRAFFIC_VERDICT_IRRELEVANT \<Rightarrow> continue c (count_metric IRRELEVANT_VERDICTS_COUNT w)
          | TRAFFIC_VERDICT_RECONF \<Rightarrow> continue c (reset_config os (count_metric RECONF_VERDICTS_COUNT w))
          | TRAFFIC_VERDICT_INSPECT \<Rightarrow> continue c (count_metric INSPECT_VERDICTS_COUNT w)
          | TRAFFIC_VERDICT_DELAYED \<Rightarrow> continue c (count_metric HOLD_VERDICTS_COUNT w)
          | LIMIT_RESPONSE_HEADERS \<Rightarrow> continue (set_verdict TRAFFIC_VERDICT_INSPECT c) w
          | _ \<Rightarrow> continue c w))"

definition rx_memory :: "SignalUsageMode \<Rightarrow> comm_world \<Rightarrow> memory option" where
  "rx_memory usage_mode w =
     do { ipc \<leftarrow> get_nano_service_ipc (w_attachment w) usage_mode; q \<leftarrow> rx_queue_2 ipc; Some (payload q) }"

text \<open>The loop over the expected replies; a reply for another session is dropped and does not count.\<close>

fun receive_replies ::
    "os_answers \<Rightarrow> nat \<Rightarrow> SignalUsageMode \<Rightarrow> session_ctx \<Rightarrow> comm_world
     \<Rightarrow> (NanoCommunicationResult \<times> session_ctx \<times> comm_world) option" where
  "receive_replies os rounds usage_mode c w =
     (if remaining_messages_to_reply (sc_session c) = 0 then Some (NANO_OK, c, w)
      else
        (case rounds of
           0 \<Rightarrow> None
         | Suc n \<Rightarrow>
             (case receive_data_from_service os 5 usage_mode w of
                (None, w1) \<Rightarrow> Some (NANO_ERROR, c, w1)
              | (Some addr, w1) \<Rightarrow>
                  do {
                    p \<leftarrow> rx_memory usage_mode w1;
                    let reply = read_reply p addr;
                    let verdict = service_verdict (reply_verdict reply);
                    if verdict \<noteq> TRAFFIC_VERDICT_RECONF \<and> reply_session_id reply \<noteq> sd_session_id (sc_session c)
                    then receive_replies os n usage_mode c (pop_service_data os usage_mode w1)
                    else
                      do {
                        let s = sc_session c;
                        let s1 = (if verdict \<noteq> TRAFFIC_VERDICT_RECONF
                                  then s\<lparr>remaining_messages_to_reply := remaining_messages_to_reply s - 1\<rparr> else s);
                        outcome \<leftarrow> handle_reply os usage_mode p addr (set_verdict verdict (c\<lparr>sc_session := s1\<rparr>)) w1;
                        (case outcome of
                           Inl ended \<Rightarrow> Some ended
                         | Inr (c2, w2) \<Rightarrow> receive_replies os n usage_mode c2 w2)
                      }
                  })))"

declare receive_replies.simps [simp del]

fun signal_until_answered ::
    "os_answers \<Rightarrow> nat \<Rightarrow> SessionID \<Rightarrow> AttachmentDataType \<Rightarrow> comm_world
     \<Rightarrow> (NanoCommunicationResult \<times> comm_world) option" where
  "signal_until_answered os 0 sid chunk_type w = None"
| "signal_until_answered os (Suc n) sid chunk_type w =
     do {
       (res, w1) \<leftarrow> signal_for_session_data os n sid chunk_type SIGNAL_USAGE_SYNC w;
       if res = NANO_AGAIN then signal_until_answered os n sid chunk_type w1 else Some (res, w1)
     }"

definition service_reply_receiver ::
    "os_answers \<Rightarrow> nat \<Rightarrow> AttachmentDataType \<Rightarrow> SignalUsageMode \<Rightarrow> session_ctx \<Rightarrow> comm_world
     \<Rightarrow> (NanoCommunicationResult \<times> session_ctx \<times> comm_world) option" where
  "service_reply_receiver os rounds chunk_type usage_mode c w =
     (if remaining_messages_to_reply (sc_session c) = 0 then Some (NANO_OK, set_verdict TRAFFIC_VERDICT_INSPECT c, w)
      else
        do {
          (res, w1) \<leftarrow> signal_until_answered os rounds (sd_session_id (sc_session c)) chunk_type w;
          if res \<noteq> NANO_OK then
            do {
              (_, w2) \<leftarrow> restart_communication os rounds (disconnect_communication os w1);
              Some (NANO_ERROR, c, w2)
            }
          else receive_replies os rounds usage_mode c w1
        })"

section \<open>What a channel holds\<close>

text \<open>The queue to the service and the queue from it, in the mode of use.\<close>

definition tx_state :: "SignalUsageMode \<Rightarrow> comm_world \<Rightarrow> channel_2 option" where
  "tx_state usage_mode w =
     do { i \<leftarrow> get_nano_service_ipc (w_attachment w) usage_mode; q \<leftarrow> tx_queue_2 i; Some (w_process w, global_data i, q) }"

definition rx_state :: "SignalUsageMode \<Rightarrow> comm_world \<Rightarrow> channel_2 option" where
  "rx_state usage_mode w =
     do { i \<leftarrow> get_nano_service_ipc (w_attachment w) usage_mode; q \<leftarrow> rx_queue_2 i; Some (w_process w, global_data i, q) }"

definition to_service :: "SignalUsageMode \<Rightarrow> comm_world \<Rightarrow> bytes list \<Rightarrow> bool" where
  "to_service usage_mode w ms = (case tx_state usage_mode w of None \<Rightarrow> False | Some s \<Rightarrow> holds_2 s ms)"

definition room_to_service :: "SignalUsageMode \<Rightarrow> comm_world \<Rightarrow> bytes \<Rightarrow> bool" where
  "room_to_service usage_mode w m = (case tx_state usage_mode w of None \<Rightarrow> False | Some s \<Rightarrow> room_2 s m)"

definition from_service :: "SignalUsageMode \<Rightarrow> comm_world \<Rightarrow> bytes list \<Rightarrow> bool" where
  "from_service usage_mode w ms = (case rx_state usage_mode w of None \<Rightarrow> False | Some s \<Rightarrow> holds_2 s ms)"

lemmas channel_contents = to_service_def room_to_service_def from_service_def tx_state_def rx_state_def

lemma att_update_fields [simp]:
  "w_process (att_update f w) = w_process w" "w_conf (att_update f w) = w_conf w" "w_calls (att_update f w) = w_calls w"
  by (simp_all add: att_update_def)

lemma step_call_fields [simp]:
  "w_process (step_call w) = w_process w" "w_conf (step_call w) = w_conf w"
  by (simp_all add: step_call_def)

lemma get_put_ipc [simp]: "get_nano_service_ipc (put_nano_service_ipc usage_mode ipc a) usage_mode = ipc"
  by (simp add: get_nano_service_ipc_def put_nano_service_ipc_def)

lemma put_ipc_mode [simp]:
  "is_async_mode_enabled (put_nano_service_ipc usage_mode ipc a) = is_async_mode_enabled a"
  by (simp add: put_nano_service_ipc_def)

lemma put_put_ipc [simp]:
  "put_nano_service_ipc usage_mode ipc (put_nano_service_ipc usage_mode ipc' a) = put_nano_service_ipc usage_mode ipc a"
  by (simp add: put_nano_service_ipc_def)

text \<open>A message that finds room is appended to what is on its way to the service.\<close>

lemma push_fragments_appends:
  assumes "to_service usage_mode w ms" "valid_msg (concat frags)" "room_to_service usage_mode w (concat frags)"
  shows "\<exists>w'. push_fragments os usage_mode frags w = (0, w') \<and> to_service usage_mode w' (ms @ [concat frags])"
proof -
  obtain i q where i: "get_nano_service_ipc (w_attachment w) usage_mode = Some i" "tx_queue_2 i = Some q"
    and holds: "holds_2 (w_process w, global_data i, q) ms" "room_2 (w_process w, global_data i, q) (concat frags)"
    using assms(1,3) by (auto simp: channel_contents split: option.splits bind_splits)
  from push_2_appends [OF holds(1) assms(2) holds(2), of "os_files os"] obtain P gd q' where
    push: "push_2 (os_files os) (w_process w, global_data i, q) frags = (0, P, gd, q')" "holds_2 (P, gd, q') (ms @ [concat frags])"
    by auto
  then have "sendChunkedData_2 (os_files os) (w_process w) (Some i) frags = (0, P, Some (i\<lparr>tx_queue_2 := Some q'\<rparr>))"
    and "gd = global_data i"
    using i(2) by (auto simp: sendChunkedData_2_def push_2_def split: prod.splits)
  with push(2) show ?thesis by (simp add: push_fragments_def i(1) channel_contents)
qed

lemma send_session_data_appends:
  assumes "to_service usage_mode w ms" "valid_msg (concat frags)" "room_to_service usage_mode w (concat frags)"
  shows "\<exists>w'. send_session_data_to_service os rounds sid chunk_type usage_mode frags w = Some (NANO_OK, w')
           \<and> to_service usage_mode w' (ms @ [concat frags])"
proof -
  obtain w' where "push_fragments os usage_mode frags w = (0, w')" "to_service usage_mode w' (ms @ [concat frags])"
    using push_fragments_appends [OF assms] by blast
  then show ?thesis by (simp add: send_session_data_to_service_def numeral_eq_Suc)
qed

section \<open>Receiving refines a list of replies\<close>

lemma metric_keeps_ipc [simp]:
  "nano_service_ipc (updateMetricField a t v) = nano_service_ipc a"
  "nano_service_sync_ipc (updateMetricField a t v) = nano_service_sync_ipc a"
  by (simp_all add: updateMetricField_def metric_updates)

lemma get_ipc_metric [simp]:
  "get_nano_service_ipc (updateMetricField a t v) usage_mode = get_nano_service_ipc a usage_mode"
  by (simp add: get_nano_service_ipc_def)

text \<open>The head of what the service sent: its address, its bytes, and that a pop leaves the others.\<close>

lemma receive_head:
  assumes "from_service usage_mode w (m # ms)"
  obtains addr w1 p where "receive_data_from_service os 5 usage_mode w = (Some addr, w1)"
    "rx_memory usage_mode w1 = Some p" "bytes_at p addr m"
    "\<And>w2. w_process w2 = w_process w1 \<Longrightarrow>
       get_nano_service_ipc (w_attachment w2) usage_mode = get_nano_service_ipc (w_attachment w1) usage_mode \<Longrightarrow>
       from_service usage_mode (pop_service_data os usage_mode w2) ms"
proof -
  let ?h = "os_files os" and ?P = "w_process w"
  obtain i q where i: "get_nano_service_ipc (w_attachment w) usage_mode = Some i" "rx_queue_2 i = Some q"
    and holds: "holds_2 (?P, global_data i, q) (m # ms)"
    using assms by (auto simp: channel_contents split: option.splits bind_splits)
  obtain addr q1 q2 where q: "isDataAvailable_2 (Some i)"
    "receiveData_2 ?h ?P (Some i) = Some (0, Some (addr, of_nat (length m)), ?P, Some (i\<lparr>rx_queue_2 := Some q1\<rparr>))"
    "bytes_at (payload q1) addr m"
    "popData_2 ?h ?P (Some (i\<lparr>rx_queue_2 := Some q1\<rparr>)) = (0, ?P, Some (i\<lparr>rx_queue_2 := Some q2\<rparr>))"
    "holds_2 (?P, global_data i, q2) ms"
    using receive_then_pop [OF i(2) holds, of ?h] .
  let ?w1 = "att_update (put_nano_service_ipc usage_mode (Some (i\<lparr>rx_queue_2 := Some q1\<rparr>))) w"
  have "receive_data_from_service os (Suc 4) usage_mode w = (Some addr, ?w1)"
    unfolding receive_data_from_service.simps(2) using i(1) q(1,2) by simp
  then have "receive_data_from_service os 5 usage_mode w = (Some addr, ?w1)"
    by (simp only: eval_nat_numeral)
  moreover have "rx_memory usage_mode ?w1 = Some (payload q1)" by (simp add: rx_memory_def)
  moreover have "from_service usage_mode (pop_service_data os usage_mode w2) ms"
    if "w_process w2 = ?P" "get_nano_service_ipc (w_attachment w2) usage_mode = Some (i\<lparr>rx_queue_2 := Some q1\<rparr>)" for w2
    using that q(4,5) by (simp add: pop_service_data_def channel_contents)
  ultimately show thesis using that q(3) by (simp add: channel_contents)
qed

text \<open>
  A reply of the service: a verdict that carries nothing else, or a drop with its page.
\<close>

datatype service_reply = PlainReply u16 | DropReply drop_page

definition plain_reply :: "u16 \<Rightarrow> bool" where
  "plain_reply code \<longleftrightarrow>
     service_verdict code \<notin> {TRAFFIC_VERDICT_INJECT, TRAFFIC_VERDICT_DROP, TRAFFIC_VERDICT_CUSTOM_RESPONSE, TRAFFIC_VERDICT_RECONF}"

fun sound_reply :: "service_reply \<times> SessionID \<Rightarrow> bool" where
  "sound_reply (PlainReply code, s) = plain_reply code"
| "sound_reply (DropReply page, s) = page_fits page"

fun reply_bytes :: "service_reply \<times> SessionID \<Rightarrow> bytes" where
  "reply_bytes (PlainReply code, s) = pack_reply code s 0 []"
| "reply_bytes (DropReply page, s) = pack_reply 2 s 0 (pack_page page)"

text \<open>
  What a session makes of the replies in the queue: replies for other sessions are skipped, an accept or a
  drop ends the session, and otherwise the last of the expected replies decides. The result is the verdict, the
  page of a drop, and the replies that stay in the queue.
\<close>

fun settle ::
    "SessionID \<Rightarrow> u32 \<Rightarrow> ServiceVerdict \<Rightarrow> (service_reply \<times> SessionID) list
     \<Rightarrow> (ServiceVerdict \<times> drop_page option \<times> (service_reply \<times> SessionID) list) option" where
  "settle sid n v [] = (if n = 0 then Some (v, None, []) else None)"
| "settle sid n v ((r, s) # rs) =
     (if n = 0 then Some (v, None, (r, s) # rs)
      else if s \<noteq> sid then settle sid n v rs
      else
        (case r of
           DropReply page \<Rightarrow> Some (TRAFFIC_VERDICT_DROP, Some page, rs)
         | PlainReply code \<Rightarrow>
             if service_verdict code = TRAFFIC_VERDICT_ACCEPT then Some (TRAFFIC_VERDICT_ACCEPT, None, rs)
             else settle sid (n - 1)
                    (if service_verdict code = LIMIT_RESPONSE_HEADERS then TRAFFIC_VERDICT_INSPECT else service_verdict code) rs))"

text \<open>The session that is settled, and the result of the receiver.\<close>

definition settled :: "ServiceVerdict \<Rightarrow> drop_page option \<Rightarrow> session_ctx \<Rightarrow> session_ctx" where
  "settled v page c =
     c\<lparr>sc_session := (sc_session c)\<lparr>sd_verdict := v, remaining_messages_to_reply := 0\<rparr>,
       sc_web := (case page of None \<Rightarrow> sc_web c | Some pg \<Rightarrow> Some (page_web pg))\<rparr>"

definition settled_result :: "drop_page option \<Rightarrow> NanoCommunicationResult" where
  "settled_result page = (if page = None then NANO_OK else NANO_HTTP_FORBIDDEN)"

lemma count_metric_fields [simp]:
  "w_process (count_metric t w) = w_process w" "w_calls (count_metric t w) = w_calls w"
  "w_attachment (count_metric t w) = updateMetricField (w_attachment w) t 1"
  by (simp_all add: count_metric_def)

lemma set_verdict_same: "sd_verdict (sc_session c) = v \<Longrightarrow> set_verdict v c = c"
  by (auto simp: set_verdict_def)

fun counted_reply :: "ServiceVerdict \<Rightarrow> comm_world \<Rightarrow> comm_world" where
  "counted_reply TRAFFIC_VERDICT_ACCEPT w = count_metric ACCEPT_VERDICTS_COUNT w"
| "counted_reply TRAFFIC_VERDICT_IRRELEVANT w = count_metric IRRELEVANT_VERDICTS_COUNT w"
| "counted_reply TRAFFIC_VERDICT_INSPECT w = count_metric INSPECT_VERDICTS_COUNT w"
| "counted_reply TRAFFIC_VERDICT_DELAYED w = count_metric HOLD_VERDICTS_COUNT w"
| "counted_reply _ w = w"

lemma counted_reply_keeps [simp]:
  "w_process (counted_reply v w) = w_process w"
  "get_nano_service_ipc (w_attachment (counted_reply v w)) usage_mode = get_nano_service_ipc (w_attachment w) usage_mode"
  by (cases v; simp)+

lemma handle_plain_reply:
  assumes "sd_verdict (sc_session c) = service_verdict code" "plain_reply code"
  shows "handle_reply os usage_mode p addr c w =
        Some (if service_verdict code = TRAFFIC_VERDICT_ACCEPT
              then Inl (NANO_OK, no_more_replies c, pop_service_data os usage_mode (counted_reply (service_verdict code) w))
              else Inr (set_verdict (if service_verdict code = LIMIT_RESPONSE_HEADERS then TRAFFIC_VERDICT_INSPECT
                                     else service_verdict code) c,
                        pop_service_data os usage_mode (counted_reply (service_verdict code) w)))"
  using assms
  by (cases "service_verdict code") (simp_all add: handle_reply_def Let_def plain_reply_def set_verdict_same)

lemma sd_after_settle [simp]:
  "remaining_messages_to_reply (sc_session (set_verdict v c)) = remaining_messages_to_reply (sc_session c)"
  "sd_session_id (sc_session (set_verdict v c)) = sd_session_id (sc_session c)"
  "sd_verdict (sc_session (set_verdict v c)) = v"
  by (simp_all add: set_verdict_def)

text \<open>A reply to drop ends the session with its page, when the allocations succeed and no modification is held.\<close>

lemma handle_drop_reply:
  assumes "sd_verdict (sc_session c) = TRAFFIC_VERDICT_DROP" "\<And>k i. os_alloc os k i" "sc_mods c = []"
    and "bytes_at p (modify_data (read_reply p addr)) (pack_page page)" "page_fits page"
  shows "handle_reply os usage_mode p addr c w =
    Some (Inl (NANO_HTTP_FORBIDDEN, (no_more_replies c)\<lparr>sc_web := Some (page_web page)\<rparr>,
      pop_service_data os usage_mode (count_metric DROP_VERDICTS_COUNT (step_call w))))"
  using assms(1,3) read_page [OF assms(2,4,5)]
  by (simp add: handle_reply_def free_modifications_def no_more_replies_def Let_def)

text \<open>One round of the loop, for a reply that does not ask for a new configuration.\<close>

definition one_less :: "ServiceVerdict \<Rightarrow> session_ctx \<Rightarrow> session_ctx" where
  "one_less v c = set_verdict v (c\<lparr>sc_session := (sc_session c)
      \<lparr>remaining_messages_to_reply := remaining_messages_to_reply (sc_session c) - 1\<rparr>\<rparr>)"

lemma one_less_fields [simp]:
  "remaining_messages_to_reply (sc_session (one_less v c)) = remaining_messages_to_reply (sc_session c) - 1"
  "sd_session_id (sc_session (one_less v c)) = sd_session_id (sc_session c)"
  "sd_verdict (sc_session (one_less v c)) = v" "sc_mods (one_less v c) = sc_mods c"
  "sc_mods (set_verdict v c) = sc_mods c"
  by (simp_all add: one_less_def set_verdict_def)

lemma settled_after:
  "settled v page (set_verdict v' (one_less v'' c)) = settled v page c"
  "(no_more_replies (one_less TRAFFIC_VERDICT_DROP c))\<lparr>sc_web := Some (page_web pg)\<rparr> = settled TRAFFIC_VERDICT_DROP (Some pg) c"
  "no_more_replies (one_less TRAFFIC_VERDICT_ACCEPT c) = settled TRAFFIC_VERDICT_ACCEPT None c"
  by (simp_all add: one_less_def settled_def set_verdict_def no_more_replies_def split: option.split)

lemma receive_one:
  assumes "remaining_messages_to_reply (sc_session c) \<noteq> 0" "receive_data_from_service os 5 usage_mode w = (Some addr, w1)"
    and "rx_memory usage_mode w1 = Some p" "service_verdict (reply_verdict (read_reply p addr)) = v" "v \<noteq> TRAFFIC_VERDICT_RECONF"
  shows "receive_replies os (Suc n) usage_mode c w =
    (if reply_session_id (read_reply p addr) \<noteq> sd_session_id (sc_session c)
     then receive_replies os n usage_mode c (pop_service_data os usage_mode w1)
     else do {
       outcome \<leftarrow> handle_reply os usage_mode p addr (one_less v c) w1;
       (case outcome of Inl ended \<Rightarrow> Some ended | Inr (c2, w2) \<Rightarrow> receive_replies os n usage_mode c2 w2) })"
  using assms by (subst receive_replies.simps) (simp add: one_less_def Let_def)

text \<open>The verdict a reply stores in the session before it is handled.\<close>

fun verdict_of :: "service_reply \<Rightarrow> ServiceVerdict" where
  "verdict_of (PlainReply code) = service_verdict code"
| "verdict_of (DropReply page) = TRAFFIC_VERDICT_DROP"

lemma read_reply_bytes:
  assumes "bytes_at p addr (reply_bytes (reply, s))" "sound_reply (reply, s)"
  shows "service_verdict (reply_verdict (read_reply p addr)) = verdict_of reply" "reply_session_id (read_reply p addr) = s"
    "verdict_of reply \<noteq> TRAFFIC_VERDICT_RECONF"
    "reply = DropReply page \<Longrightarrow> bytes_at p (modify_data (read_reply p addr)) (pack_page page)"
  using assms
  by (cases reply; auto simp: read_packed_reply service_verdict_def plain_reply_def simp del: pack_page.simps
      dest: read_packed_reply)+

lemma receive_replies_settle:
  assumes "list_all sound_reply rs" "from_service usage_mode w (map reply_bytes rs @ later)"
    "settle (sd_session_id (sc_session c)) (remaining_messages_to_reply (sc_session c)) (sd_verdict (sc_session c)) rs
       = Some (v, page, left_over)" "length rs \<le> rounds" "sc_mods c = []"
    "\<And>k i. os_alloc os k i"
  shows "\<exists>w'. receive_replies os rounds usage_mode c w = Some (settled_result page, settled v page c, w')
           \<and> from_service usage_mode w' (map reply_bytes left_over @ later)"
  using assms(1-5)
proof (induction rs arbitrary: c w rounds)
  case Nil
  then show ?case by (auto simp: receive_replies.simps settled_def settled_result_def split: if_splits)
next
  case (Cons r rs)
  obtain reply s where r: "r = (reply, s)" by (cases r)
  obtain n where n: "rounds = Suc n" "length rs \<le> n" using Cons.prems(4) by (cases rounds) auto
  show ?case
  proof (cases "remaining_messages_to_reply (sc_session c) = 0")
    case True
    with Cons.prems show ?thesis
      by (auto simp: r receive_replies.simps settled_def settled_result_def split: if_splits)
  next
    case False
    have "from_service usage_mode w (reply_bytes r # map reply_bytes rs @ later)" using Cons.prems(2) by simp
    from receive_head [OF this, of os] obtain addr w1 p where head: "receive_data_from_service os 5 usage_mode w = (Some addr, w1)"
      "rx_memory usage_mode w1 = Some p" "bytes_at p addr (reply_bytes (reply, s))"
      and pop: "\<And>w2. w_process w2 = w_process w1 \<Longrightarrow>
        get_nano_service_ipc (w_attachment w2) usage_mode = get_nano_service_ipc (w_attachment w1) usage_mode \<Longrightarrow>
        from_service usage_mode (pop_service_data os usage_mode w2) (map reply_bytes rs @ later)"
      unfolding r by blast
    have sound: "sound_reply (reply, s)" "list_all sound_reply rs" using Cons.prems(1) by (simp_all add: r)
    note read = read_reply_bytes [OF head(3) sound(1)]
    note step = receive_one [OF False head(1,2) read(1,3), of n, folded n(1)]
    note IH = Cons.IH [OF sound(2) _ _ n(2)]
    consider (other) "s \<noteq> sd_session_id (sc_session c)"
      | (drop) pg where "s = sd_session_id (sc_session c)" "reply = DropReply pg"
      | (plain) code where "s = sd_session_id (sc_session c)" "reply = PlainReply code" "plain_reply code"
      using sound(1) by (cases reply) auto
    then show ?thesis
    proof cases
      case other
      then show ?thesis
        using IH [of "pop_service_data os usage_mode w1" c] pop [of w1] Cons.prems(3,5) False step read(2) by (simp add: r)
    next
      case drop
      note handled = handle_drop_reply [of "one_less TRAFFIC_VERDICT_DROP c" os p addr pg usage_mode w1, OF _ assms(6)]
      have "receive_replies os rounds usage_mode c w = Some (NANO_HTTP_FORBIDDEN, settled TRAFFIC_VERDICT_DROP (Some pg) c,
          pop_service_data os usage_mode (count_metric DROP_VERDICTS_COUNT (step_call w1)))"
        using step handled drop read(2,4) sound(1) Cons.prems(5) by (simp add: settled_after del: pack_page.simps)
      moreover have "v = TRAFFIC_VERDICT_DROP" "page = Some pg" "left_over = rs"
        using Cons.prems(3) drop False by (simp_all add: r)
      ultimately show ?thesis
        using pop [of "count_metric DROP_VERDICTS_COUNT (step_call w1)"] by (simp add: settled_result_def)
    next
      case plain
      let ?w2 = "pop_service_data os usage_mode (counted_reply (service_verdict code) w1)"
      note handled = handle_plain_reply [of "one_less (service_verdict code) c" code os usage_mode p addr w1, OF _ plain(3)]
      show ?thesis
      proof (cases "service_verdict code = TRAFFIC_VERDICT_ACCEPT")
        case True
        then have "receive_replies os rounds usage_mode c w = Some (NANO_OK, settled TRAFFIC_VERDICT_ACCEPT None c, ?w2)"
          using step handled plain read(2) by (simp add: settled_after)
        moreover have "v = TRAFFIC_VERDICT_ACCEPT" "page = None" "left_over = rs"
          using Cons.prems(3) plain True False by (simp_all add: r)
        ultimately show ?thesis
          using pop [of "counted_reply (service_verdict code) w1"] by (simp add: settled_result_def)
      next
        case more: False
        let ?v = "if service_verdict code = LIMIT_RESPONSE_HEADERS then TRAFFIC_VERDICT_INSPECT else service_verdict code"
        let ?c2 = "set_verdict ?v (one_less (service_verdict code) c)"
        have "receive_replies os rounds usage_mode c w = receive_replies os n usage_mode ?c2 ?w2"
          using step handled plain read(2) more by simp
        then show ?thesis
          using IH [of ?w2 ?c2] pop [of "counted_reply (service_verdict code) w1"] Cons.prems(3,5) False more plain
          by (simp add: r settled_after)
      qed
    qed
  qed
qed

end
