(* ===== verification/Nano_Senders.thy ===== *)
theory Nano_Senders
  imports Nano_Io
begin

text \<open>
  The senders of \<open>nano_attachment_io.c\<close>: the fragments each part of a transaction is sent as, and the
  loops over headers and body chunks. A sender acts on the state of the process and the context of
  the inspection. All callers pass the counter of the session itself as the counter of sent
  messages. The lemmas say which messages the loops send.
\<close>

section \<open>Fragments\<close>

text \<open>
  A fragment is the bytes its pointer and 16-bit size describe; the arrays start out empty. A length
  field is a 64-bit word of which two bytes are sent.
\<close>

definition set_fragment_elem :: "bytes list \<Rightarrow> bytes \<Rightarrow> u16 \<Rightarrow> nat \<Rightarrow> bytes list" where
  "set_fragment_elem elems data sz idx = elems[idx := take (unat sz) data]"

definition set_fragments_identifiers :: "bytes list \<Rightarrow> u16 \<Rightarrow> u32 \<Rightarrow> bytes list" where
  "set_fragments_identifiers elems data_type cur_request_id =
     set_fragment_elem (set_fragment_elem elems (le16 data_type) 2 0) (le32 cur_request_id) 4 1"

definition set_string :: "bytes list \<Rightarrow> bytes \<Rightarrow> nat \<Rightarrow> bytes list" where
  "set_string elems str idx =
     set_fragment_elem (set_fragment_elem elems (le64 (of_nat (length str))) 2 idx) str (of_nat (length str)) (idx + 1)"

section \<open>The meta data\<close>

record HttpMetaData =
  http_protocol :: bytes
  method_name :: bytes
  meta_host :: bytes
  listening_ip :: bytes
  listening_port :: u16
  meta_uri :: bytes
  client_ip :: bytes
  client_port :: u16
  parsed_host :: bytes
  parsed_uri :: bytes

definition META_DATA_COUNT :: nat where
  "META_DATA_COUNT = 20"

text \<open>The array with the places of \<open>HttpMetaDataType\<close> behind the two identifiers.\<close>

definition metadata_elems :: "HttpMetaData \<Rightarrow> u32 \<Rightarrow> bytes list" where
  "metadata_elems m cur_request_id =
     (let f0 = set_fragments_identifiers (replicate (META_DATA_COUNT + 2) []) (data_type_code REQUEST_START) cur_request_id;
          f1 = set_string f0 (http_protocol m) (0 + 2);
          f2 = set_string f1 (method_name m) (2 + 2);
          f3 = set_string f2 (meta_host m) (4 + 2);
          f4 = set_string f3 (listening_ip m) (6 + 2);
          f5 = set_fragment_elem f4 (le16 (listening_port m)) 2 (8 + 2);
          f6 = set_string f5 (meta_uri m) (9 + 2);
          f7 = set_string f6 (client_ip m) (11 + 2);
          f8 = set_fragment_elem f7 (le16 (client_port m)) 2 (13 + 2);
          f9 = (if length (parsed_host m) > 0 then set_string f8 (parsed_host m) (14 + 2) else f8)
      in if length (parsed_uri m) > 0 then set_string f9 (parsed_uri m) (16 + 2) else f9)"

definition meta_data_count :: "HttpMetaData \<Rightarrow> nat" where
  "meta_data_count m =
     META_DATA_COUNT - 4 + (if length (parsed_host m) > 0 then 2 else 0) + (if length (parsed_uri m) > 0 then 2 else 0)"

definition metadata_fragments :: "HttpMetaData \<Rightarrow> u32 \<Rightarrow> bytes list" where
  "metadata_fragments m cur_request_id = take (meta_data_count m + 2) (metadata_elems m cur_request_id)"

section \<open>Headers\<close>

type_synonym HttpHeaderData = "bytes \<times> bytes"

definition HEADER_DATA_COUNT :: nat where "HEADER_DATA_COUNT = 4"
definition MAX_HEADER_BULK_SIZE :: nat where "MAX_HEADER_BULK_SIZE = 10"

lemmas header_limits = HEADER_DATA_COUNT_def MAX_HEADER_BULK_SIZE_def

definition add_header_to_bulk :: "bytes list \<Rightarrow> HttpHeaderData \<Rightarrow> nat \<Rightarrow> bytes list" where
  "add_header_to_bulk fragments header index =
     (let pos = index * HEADER_DATA_COUNT
      in set_string (set_string fragments (fst header) (pos + 0 + 4)) (snd header) (pos + 2 + 4))"

text \<open>The array of a bulk with its four leading fragments.\<close>

definition header_bulk_elems :: "bytes list \<Rightarrow> AttachmentDataType \<Rightarrow> bool \<Rightarrow> u8 \<Rightarrow> u32 \<Rightarrow> bytes list" where
  "header_bulk_elems fragments header_type is_last_part bulk_part_index cur_request_id =
     (let f1 = set_fragments_identifiers fragments (data_type_code header_type) cur_request_id;
          f2 = set_fragment_elem f1 [if is_last_part then 1 else 0] 1 2
      in set_fragment_elem f2 [bulk_part_index] 1 3)"

definition send_header_bulk ::
    "(bytes list \<Rightarrow> 'w \<Rightarrow> (NanoCommunicationResult \<times> 'w) option) \<Rightarrow> bytes list \<Rightarrow> nat \<Rightarrow> 'w
     \<Rightarrow> (NanoCommunicationResult \<times> 'w) option" where
  "send_header_bulk send elems num_headers w =
     do {
       (res, w1) \<leftarrow> send (take (HEADER_DATA_COUNT * num_headers + 4) elems) w;
       Some (if res \<noteq> NANO_OK then NANO_ERROR else NANO_OK, w1)
     }"

text \<open>
  The loop over the headers, with the function that sends the fragments of one message as an
  argument: \<open>fragment_index\<close> headers are in the array, \<open>bulk_index\<close> bulks were sent.
\<close>

fun header_loop ::
    "(bytes list \<Rightarrow> 'w \<Rightarrow> (NanoCommunicationResult \<times> 'w) option) \<Rightarrow> AttachmentDataType \<Rightarrow> u32 \<Rightarrow> HttpHeaderData list
     \<Rightarrow> bytes list \<Rightarrow> nat \<Rightarrow> nat \<Rightarrow> 'w \<Rightarrow> (NanoCommunicationResult \<times> nat \<times> 'w) option" where
  "header_loop send header_type cur_request_id [] fragments fragment_index bulk_index w = Some (NANO_OK, bulk_index, w)"
| "header_loop send header_type cur_request_id (h # hs) fragments fragment_index bulk_index w =
     (let is_final_header = (hs = []); f1 = add_header_to_bulk fragments h fragment_index in
      if fragment_index + 1 < MAX_HEADER_BULK_SIZE \<and> \<not> is_final_header
      then header_loop send header_type cur_request_id hs f1 (fragment_index + 1) bulk_index w
      else
        let f2 = header_bulk_elems f1 header_type is_final_header (of_nat bulk_index) cur_request_id in
        do {
          (res, w1) \<leftarrow> send_header_bulk send f2 (fragment_index + 1) w;
          if res \<noteq> NANO_OK then Some (NANO_ERROR, bulk_index, w1)
          else header_loop send header_type cur_request_id hs f2 0 (bulk_index + 1) w1
        })"

section \<open>Body chunks\<close>

definition BODY_DATA_COUNT :: nat where "BODY_DATA_COUNT = 5"

definition body_fragments :: "AttachmentDataType \<Rightarrow> u32 \<Rightarrow> bool \<Rightarrow> u8 \<Rightarrow> bytes \<Rightarrow> bytes list" where
  "body_fragments body_type cur_request_id is_final_chunk body_index body =
     (let f1 = set_fragments_identifiers (replicate BODY_DATA_COUNT []) (data_type_code body_type) cur_request_id;
          f2 = set_fragment_elem f1 [if is_final_chunk then 1 else 0] 1 2;
          f3 = set_fragment_elem f2 [body_index] 1 3
      in set_fragment_elem f3 body (of_nat (length body)) 4)"

text \<open>
  The index of the loop is an 8-bit word that is compared with the 64-bit number of chunks, and once
  set the mark of the final chunk stays. \<open>None\<close> is a loop that has not ended within the rounds.
\<close>

fun body_loop ::
    "(bytes list \<Rightarrow> 'w \<Rightarrow> (NanoCommunicationResult \<times> 'w) option) \<Rightarrow> AttachmentDataType \<Rightarrow> u32 \<Rightarrow> bytes list
     \<Rightarrow> nat \<Rightarrow> u8 \<Rightarrow> bool \<Rightarrow> 'w \<Rightarrow> (NanoCommunicationResult \<times> u8 \<times> 'w) option" where
  "body_loop send body_type cur_request_id bodies rounds body_index is_final_chunk w =
     (if \<not> unat body_index < length bodies then Some (NANO_OK, body_index, w)
      else
        (case rounds of
           0 \<Rightarrow> None
         | Suc n \<Rightarrow>
             let final = (is_final_chunk \<or> unat body_index = length bodies - 1) in
             do {
               (res, w1) \<leftarrow> send (body_fragments body_type cur_request_id final body_index (bodies ! unat body_index)) w;
               if res \<noteq> NANO_OK then Some (NANO_ERROR, body_index, w1)
               else body_loop send body_type cur_request_id bodies n (body_index + 1) final w1
             }))"

declare body_loop.simps [simp del]

section \<open>Senders\<close>

definition add_failed_session :: "SessionID \<Rightarrow> comm_world \<Rightarrow> comm_world" where
  "add_failed_session session_id =
     att_update (\<lambda>a. case NanoAsyncFailedSessionIDQueueAdd (Some a) session_id of (_, None) \<Rightarrow> a | (_, Some b) \<Rightarrow> b)"

text \<open>The context after an error, with the session noted as failed in asynchronous mode.\<close>

definition send_failed :: "SignalUsageMode \<Rightarrow> SessionID \<Rightarrow> event_state \<Rightarrow> event_state" where
  "send_failed usage_mode session_id s =
     (let (w, ctx) = s
      in (if usage_mode = SIGNAL_USAGE_ASYNC then add_failed_session session_id w else w, ctx\<lparr>ctx_res := NANO_ERROR\<rparr>))"

definition count_sent :: "u32 \<Rightarrow> SignalUsageMode \<Rightarrow> event_state \<Rightarrow> event_state" where
  "count_sent amount usage_mode s =
     (let (w, ctx) = s
      in (w, ctx\<lparr>ctx_session_data_p :=
                 map_option (\<lambda>d. d\<lparr>remaining_messages_to_reply :=
                     handle_counter_new_message_sent amount (remaining_messages_to_reply d) usage_mode\<rparr>)
                   (ctx_session_data_p ctx)\<rparr>))"

definition set_res :: "NanoCommunicationResult \<Rightarrow> event_state \<Rightarrow> event_state" where
  "set_res res s = (let (w, ctx) = s in (w, ctx\<lparr>ctx_res := res\<rparr>))"

text \<open>The replies of the service, into the context; without a session it is a fault.\<close>

definition ask_verdict ::
    "os_answers \<Rightarrow> nat \<Rightarrow> AttachmentDataType \<Rightarrow> SignalUsageMode \<Rightarrow> event_state \<Rightarrow> event_state option" where
  "ask_verdict os rounds chunk_type usage_mode s =
     (let (w, ctx) = s in
      do {
        d \<leftarrow> ctx_session_data_p ctx;
        (res, c, w1) \<leftarrow> service_reply_receiver os rounds chunk_type usage_mode
                         \<lparr>sc_session = d, sc_web = ctx_web_response_data ctx, sc_mods = ctx_modifications ctx\<rparr> w;
        Some (w1, \<lparr>ctx_session_data_p = Some (sc_session c), ctx_res = res, ctx_web_response_data = sc_web c,
                   ctx_modifications = sc_mods c\<rparr>)
      })"

text \<open>\<open>inet_pton\<close> is an argument. An address that is none is inspected (the answer -1 counts as true).\<close>

definition IsInspectionRequiredForSource ::
    "(bool \<Rightarrow> string \<Rightarrow> bytes option) \<Rightarrow> HttpAttachmentConfiguration \<Rightarrow> bytes \<Rightarrow> int" where
  "IsInspectionRequiredForSource inet_pton conf src_ip =
     (let str = map (\<lambda>b. char_of (unat b)) (c_string src_ip) in
      if \<not> isIPAddress inet_pton str then -1
      else if isSkipSource inet_pton conf str then 0 else 1)"

definition nano_metadata_sender ::
    "(bool \<Rightarrow> string \<Rightarrow> bytes option) \<Rightarrow> os_answers \<Rightarrow> nat \<Rightarrow> HttpMetaData \<Rightarrow> u32 \<Rightarrow> bool \<Rightarrow> SignalUsageMode
     \<Rightarrow> event_state \<Rightarrow> event_state option" where
  "nano_metadata_sender inet_pton os rounds metadata cur_request_id is_verdict_requested usage_mode s =
     (let (w, ctx) = s in
      if IsInspectionRequiredForSource inet_pton (w_conf w) (client_ip metadata) = 0 then
        do {
          d \<leftarrow> ctx_session_data_p ctx;
          Some (w, ctx\<lparr>ctx_session_data_p := Some (d\<lparr>sd_verdict := TRAFFIC_VERDICT_IRRELEVANT\<rparr>), ctx_res := NANO_DECLINED\<rparr>)
        }
      else
        do {
          (res, w1) \<leftarrow> send_session_data_to_service os rounds cur_request_id REQUEST_START usage_mode
                        (metadata_fragments metadata cur_request_id) w;
          if res = NANO_ERROR then Some (send_failed usage_mode cur_request_id (w1, ctx))
          else
            let s1 = (if res = NANO_OK then count_sent 1 usage_mode (w1, ctx) else (w1, ctx)) in
            if is_verdict_requested then ask_verdict os rounds REQUEST_START usage_mode s1 else Some s1
        })"

text \<open>A message of two or three fragments: identifiers and data.\<close>

definition send_small_message ::
    "os_answers \<Rightarrow> nat \<Rightarrow> AttachmentDataType \<Rightarrow> bytes list \<Rightarrow> u32 \<Rightarrow> SignalUsageMode \<Rightarrow> comm_world
     \<Rightarrow> (NanoCommunicationResult \<times> comm_world) option" where
  "send_small_message os rounds chunk_type data cur_request_id usage_mode w =
     send_session_data_to_service os rounds cur_request_id chunk_type usage_mode
       (set_fragments_identifiers ([[], []] @ data) (data_type_code chunk_type) cur_request_id) w"

definition nano_send_response_code ::
    "os_answers \<Rightarrow> nat \<Rightarrow> u16 \<Rightarrow> u32 \<Rightarrow> SignalUsageMode \<Rightarrow> event_state \<Rightarrow> event_state option" where
  "nano_send_response_code os rounds response_code cur_request_id usage_mode s =
     (let (w, ctx) = s in
      do {
        (res, w1) \<leftarrow> send_small_message os rounds RESPONSE_CODE [le16 response_code] cur_request_id usage_mode w;
        Some (if res \<noteq> NANO_OK then send_failed usage_mode cur_request_id (w1, ctx)
              else count_sent 1 usage_mode (w1, ctx))
      })"

definition nano_send_response_content_length ::
    "os_answers \<Rightarrow> nat \<Rightarrow> u64 \<Rightarrow> u32 \<Rightarrow> SignalUsageMode \<Rightarrow> event_state \<Rightarrow> event_state option" where
  "nano_send_response_content_length os rounds content_length cur_request_id usage_mode s =
     (let (w, ctx) = s in
      do {
        (res, w1) \<leftarrow> send_small_message os rounds CONTENT_LENGTH [le64 content_length] cur_request_id usage_mode w;
        Some (if res \<noteq> NANO_OK then send_failed usage_mode cur_request_id (w1, ctx)
              else count_sent 1 usage_mode (w1, ctx))
      })"

definition nano_header_sender ::
    "os_answers \<Rightarrow> nat \<Rightarrow> HttpHeaderData list \<Rightarrow> AttachmentDataType \<Rightarrow> u32 \<Rightarrow> bool \<Rightarrow> SignalUsageMode
     \<Rightarrow> event_state \<Rightarrow> event_state option" where
  "nano_header_sender os rounds headers header_type cur_request_id is_verdict_requested usage_mode s =
     (let (w, ctx) = s in
      do {
        (res, bulks, w1) \<leftarrow> header_loop (send_session_data_to_service os rounds cur_request_id header_type usage_mode)
                             header_type cur_request_id headers
                             (replicate (HEADER_DATA_COUNT * MAX_HEADER_BULK_SIZE + 4) []) 0 0 w;
        if res \<noteq> NANO_OK then Some (send_failed usage_mode cur_request_id (w1, ctx))
        else
          let s1 = count_sent (of_nat bulks) usage_mode (w1, ctx) in
          if is_verdict_requested then ask_verdict os rounds header_type usage_mode s1 else Some s1
      })"

definition nano_body_sender ::
    "os_answers \<Rightarrow> nat \<Rightarrow> bytes list \<Rightarrow> AttachmentDataType \<Rightarrow> u32 \<Rightarrow> bool \<Rightarrow> SignalUsageMode
     \<Rightarrow> event_state \<Rightarrow> event_state option" where
  "nano_body_sender os rounds bodies body_type cur_request_id is_verdict_requested usage_mode s =
     (let (w, ctx) = s in
      do {
        (res, body_index, w1) \<leftarrow> body_loop (send_session_data_to_service os rounds cur_request_id body_type usage_mode)
                                  body_type cur_request_id bodies rounds 0 False w;
        if res \<noteq> NANO_OK then Some (send_failed usage_mode cur_request_id (w1, ctx))
        else
          let s1 = count_sent (ucast body_index) usage_mode (w1, ctx) in
          if is_verdict_requested then ask_verdict os rounds body_type usage_mode s1 else Some (set_res NANO_OK s1)
      })"

text \<open>
  The end of a transaction and the request for a delayed verdict. When the message cannot be sent,
  the result is set only in asynchronous mode.
\<close>

definition send_event_flag ::
    "AttachmentDataType \<Rightarrow> os_answers \<Rightarrow> nat \<Rightarrow> u32 \<Rightarrow> bool \<Rightarrow> SignalUsageMode \<Rightarrow> event_state \<Rightarrow> event_state option" where
  "send_event_flag flag_type os rounds cur_request_id is_verdict_requested usage_mode s =
     (let (w, ctx) = s in
      do {
        (res, w1) \<leftarrow> send_small_message os rounds flag_type [] cur_request_id usage_mode w;
        if res \<noteq> NANO_OK then
          Some (if usage_mode = SIGNAL_USAGE_ASYNC then send_failed usage_mode cur_request_id (w1, ctx) else (w1, ctx))
        else
          let s1 = count_sent 1 usage_mode (w1, ctx) in
          if is_verdict_requested then ask_verdict os rounds flag_type usage_mode s1 else Some (set_res NANO_OK s1)
      })"

definition nano_end_transaction_sender ::
    "os_answers \<Rightarrow> nat \<Rightarrow> AttachmentDataType \<Rightarrow> u32 \<Rightarrow> bool \<Rightarrow> SignalUsageMode \<Rightarrow> event_state \<Rightarrow> event_state option" where
  "nano_end_transaction_sender os rounds end_transaction_type = send_event_flag end_transaction_type os rounds"

definition nano_request_delayed_verdict ::
    "os_answers \<Rightarrow> nat \<Rightarrow> u32 \<Rightarrow> bool \<Rightarrow> SignalUsageMode \<Rightarrow> event_state \<Rightarrow> event_state option" where
  "nano_request_delayed_verdict os rounds = send_event_flag REQUEST_DELAYED_VERDICT os rounds"

text \<open>The metrics in the order of \<open>AttachmentMetricType\<close>, sent and then reset.\<close>

definition metric_types :: "AttachmentMetricType list" where
  "metric_types =
     [TRANSPARENTS_COUNT, TOTAL_TRANSPARENTS_TIME, INSPECTION_OPEN_FAILURES_COUNT, INSPECTION_CLOSE_FAILURES_COUNT,
      INSPECTION_SUCCESSES_COUNT, INJECT_VERDICTS_COUNT, DROP_VERDICTS_COUNT, ACCEPT_VERDICTS_COUNT,
      IRRELEVANT_VERDICTS_COUNT, RECONF_VERDICTS_COUNT, INSPECT_VERDICTS_COUNT, HOLD_VERDICTS_COUNT,
      AVERAGE_OVERALL_PPROCESSING_TIME_UNTIL_VERDICT, MAX_OVERALL_PPROCESSING_TIME_UNTIL_VERDICT,
      MIN_OVERALL_PPROCESSING_TIME_UNTIL_VERDICT, AVERAGE_REQ_PPROCESSING_TIME_UNTIL_VERDICT,
      MAX_REQ_PPROCESSING_TIME_UNTIL_VERDICT, MIN_REQ_PPROCESSING_TIME_UNTIL_VERDICT,
      AVERAGE_RES_PPROCESSING_TIME_UNTIL_VERDICT, MAX_RES_PPROCESSING_TIME_UNTIL_VERDICT,
      MIN_RES_PPROCESSING_TIME_UNTIL_VERDICT, THREAD_TIMEOUT, REG_THREAD_TIMEOUT, REQ_METADATA_THREAD_TIMEOUT,
      REQ_HEADER_THREAD_TIMEOUT, REQ_BODY_THREAD_TIMEOUT, REQ_END_THREAD_TIMEOUT, AVERAGE_REQ_BODY_SIZE_UPON_TIMEOUT,
      MAX_REQ_BODY_SIZE_UPON_TIMEOUT, MIN_REQ_BODY_SIZE_UPON_TIMEOUT, RES_HEADER_THREAD_TIMEOUT,
      RES_BODY_THREAD_TIMEOUT, RES_END_THREAD_TIMEOUT, HOLD_THREAD_TIMEOUT, AVERAGE_RES_BODY_SIZE_UPON_TIMEOUT,
      MAX_RES_BODY_SIZE_UPON_TIMEOUT, MIN_RES_BODY_SIZE_UPON_TIMEOUT, THREAD_FAILURE, REQ_PROCCESSING_TIMEOUT,
      RES_PROCCESSING_TIMEOUT, REQ_FAILED_TO_REACH_UPSTREAM, REQ_FAILED_COMPRESSION_COUNT,
      RES_FAILED_COMPRESSION_COUNT, REQ_FAILED_DECOMPRESSION_COUNT, RES_FAILED_DECOMPRESSION_COUNT,
      REQ_SUCCESSFUL_COMPRESSION_COUNT, RES_SUCCESSFUL_COMPRESSION_COUNT, REQ_SUCCESSFUL_DECOMPRESSION_COUNT,
      RES_SUCCESSFUL_DECOMPRESSION_COUNT, CORRUPTED_ZIP_SKIPPED_SESSION_COUNT, CPU_USAGE, AVERAGE_VM_MEMORY_USAGE,
      AVERAGE_RSS_MEMORY_USAGE, MAX_VM_MEMORY_USAGE, MAX_RSS_MEMORY_USAGE, REQUEST_OVERALL_SIZE_COUNT,
      RESPONSE_OVERALL_SIZE_COUNT]"

definition nano_send_metric_data_sender :: "os_answers \<Rightarrow> nat \<Rightarrow> comm_world \<Rightarrow> comm_world option" where
  "nano_send_metric_data_sender os rounds w =
     do {
       (res, w1) \<leftarrow> send_session_data_to_service os rounds 0 METRIC_DATA_FROM_PLUGIN SIGNAL_USAGE_SYNC
                     [le16 (data_type_code METRIC_DATA_FROM_PLUGIN)
                      @ concat (map (\<lambda>t. le64 (metric_data (w_attachment w) t)) metric_types)] w;
       Some (if res \<noteq> NANO_OK then w1 else att_update reset_metric_data w1)
     }"

section \<open>The messages of headers and body chunks\<close>

text \<open>What the service is to receive: the wire format, without the arrays and loops of the senders.\<close>

definition sized :: "bytes \<Rightarrow> bytes list" where
  "sized str = [le16 (of_nat (length str)), take (length str mod 65536) str]"

definition header_fragments :: "HttpHeaderData \<Rightarrow> bytes list" where
  "header_fragments h = sized (fst h) @ sized (snd h)"

definition bulk_fragments ::
    "AttachmentDataType \<Rightarrow> u32 \<Rightarrow> bool \<Rightarrow> nat \<Rightarrow> HttpHeaderData list \<Rightarrow> bytes list" where
  "bulk_fragments t sid final i hs =
     [le16 (data_type_code t), le32 sid, [if final then 1 else 0], [of_nat i]] @ concat (map header_fragments hs)"

text \<open>
  The bulks of a list of headers. The nano attachment numbers the bulks, the nginx module gives each the
  number of headers before it: the index grows by \<open>n\<close> from bulk to bulk.
\<close>

function header_bulks :: "nat \<Rightarrow> AttachmentDataType \<Rightarrow> u32 \<Rightarrow> nat \<Rightarrow> HttpHeaderData list \<Rightarrow> bytes list list" where
  "header_bulks n t sid i hs =
     (if hs = [] then []
      else bulk_fragments t sid (drop 10 hs = []) i (take 10 hs) # header_bulks n t sid (i + n) (drop 10 hs))"
  by pat_completeness auto
termination
  by (relation "measure (\<lambda>(n, t, sid, i, hs). length hs)") auto

declare header_bulks.simps [simp del]

definition chunk_fragments :: "AttachmentDataType \<Rightarrow> u32 \<Rightarrow> nat \<Rightarrow> nat \<Rightarrow> bytes \<Rightarrow> bytes list" where
  "chunk_fragments t sid n i body =
     [le16 (data_type_code t), le32 sid, [if i = n - 1 then 1 else 0], [of_nat i], take (length body mod 65536) body]"

definition body_messages :: "AttachmentDataType \<Rightarrow> u32 \<Rightarrow> bytes list \<Rightarrow> bytes list list" where
  "body_messages t sid bodies = map (\<lambda>i. chunk_fragments t sid (length bodies) i (bodies ! i)) [0..<length bodies]"

section \<open>What the arrays hold\<close>

lemma take_le64: "take 2 (le64 w) = le16 (ucast w)"
proof -
  have "(ucast (ucast (ucast w :: u32) :: u16) :: u8) = ucast (ucast w :: u16)"
    "(ucast (drop_bit 8 (ucast (ucast w :: u32) :: u16)) :: u8) = ucast (drop_bit 8 (ucast w :: u16))"
    by (rule bit_word_eqI; auto simp: bit_simps)+
  then show ?thesis by (simp add: le64_def le32_def le16_def)
qed

lemma ucast_of_nat_16: "(ucast (of_nat n :: u64) :: u16) = of_nat n"
  by (rule bit_word_eqI) (auto simp: bit_simps)

lemma unat_of_nat_16: "unat (of_nat n :: u16) = n mod 65536"
  by (simp add: unat_of_nat)

lemma set_string_elems:
  assumes "idx + 1 < length elems" "n = idx + 2"
  shows "take n (set_string elems str idx) = take idx elems @ sized str"
    and "length (set_string elems str idx) = length elems"
proof -
  have set: "set_string elems str idx =
      elems[idx := le16 (of_nat (length str)), idx + 1 := take (length str mod 65536) str]"
    by (simp add: set_string_def set_fragment_elem_def take_le64 ucast_of_nat_16 unat_of_nat_16)
  show "length (set_string elems str idx) = length elems" by (simp add: set)
  show "take n (set_string elems str idx) = take idx elems @ sized str"
    using assms by (simp add: set sized_def take_Suc_conv_app_nth)
qed

lemma small_numerals: "(2 :: nat) = Suc (Suc 0)" "(3 :: nat) = Suc (Suc (Suc 0))" "(4 :: nat) = Suc (Suc (Suc (Suc 0)))"
  by simp_all

lemma set_identifiers: "set_fragments_identifiers es c sid = es[0 := le16 c, 1 := le32 sid]"
  by (simp add: set_fragments_identifiers_def set_fragment_elem_def)

lemma set_byte: "set_fragment_elem es [x] 1 k = es[k := [x]]"
  by (simp add: set_fragment_elem_def)

lemma add_header_elems:
  assumes "4 * index + 8 \<le> length elems"
  shows "take (4 * index + 8) (add_header_to_bulk elems h index) = take (4 * index + 4) elems @ header_fragments h"
    and "length (add_header_to_bulk elems h index) = length elems"
proof -
  let ?k = "set_string elems (fst h) (4 * index + 4)"
  have k: "take (4 * index + 6) ?k = take (4 * index + 4) elems @ sized (fst h)" "length ?k = length elems"
    using set_string_elems [of "4 * index + 4" elems "4 * index + 6" "fst h"] assms by simp_all
  have added: "add_header_to_bulk elems h index = set_string ?k (snd h) (4 * index + 6)"
    by (simp add: add_header_to_bulk_def HEADER_DATA_COUNT_def Let_def mult.commute add.commute)
  show "take (4 * index + 8) (add_header_to_bulk elems h index) = take (4 * index + 4) elems @ header_fragments h"
    using set_string_elems(1) [of "4 * index + 6" ?k "4 * index + 8" "snd h"] k assms
    by (simp add: added header_fragments_def)
  show "length (add_header_to_bulk elems h index) = length elems"
    using set_string_elems(2) [of "4 * index + 6" ?k "4 * index + 8" "snd h"] k assms by (simp add: added)
qed

lemma bulk_filled:
  assumes "length elems = 44" "length done < 10"
    and "drop 4 (take (4 * length done + 4) elems) = concat (map header_fragments done)"
  shows "drop 4 (take (4 * length (done @ [h]) + 4) (add_header_to_bulk elems h (length done)))
           = concat (map header_fragments (done @ [h]))"
    and "length (add_header_to_bulk elems h (length done)) = 44"
proof -
  let ?elems = "add_header_to_bulk elems h (length done)"
  have elems: "take (4 * length done + 8) ?elems = take (4 * length done + 4) elems @ header_fragments h" "length ?elems = 44"
    using add_header_elems [of "length done" elems h] assms(1,2) by simp_all
  show "length ?elems = 44" by fact
  have "4 * length (done @ [h]) + 4 = 4 * length done + 8" by simp
  then show "drop 4 (take (4 * length (done @ [h]) + 4) ?elems) = concat (map header_fragments (done @ [h]))"
    using assms(1,3) by (simp only: elems(1) drop_append) simp
qed

lemma header_bulks_split:
  assumes "length done < 10" "\<not> (length done + 1 < 10 \<and> hs \<noteq> [])"
  shows "header_bulks n t sid i (done @ h # hs) = bulk_fragments t sid (hs = []) i (done @ [h]) # header_bulks n t sid (i + n) hs"
proof -
  have "take 10 (done @ h # hs) = done @ [h]" "drop 10 (done @ h # hs) = hs"
    using assms by (auto simp: not_less take_Cons' drop_Cons' le_Suc_eq)
  then show ?thesis by (subst header_bulks.simps) (simp del: take_append drop_append)
qed

lemma bulk_elems:
  assumes "4 \<le> length elems" "4 \<le> n"
  shows "take n (header_bulk_elems elems t final i sid) =
           [le16 (data_type_code t), le32 sid, [if final then 1 else 0], [i]] @ drop 4 (take n elems)"
    and "length (header_bulk_elems elems t final i sid) = length elems"
proof -
  obtain a b c d es where elems: "elems = a # b # c # d # es"
    using assms(1) by (auto simp: Suc_le_length_iff eval_nat_numeral)
  obtain m where n: "n = Suc (Suc (Suc (Suc m)))" using assms(2) by (auto dest!: le_Suc_ex simp: eval_nat_numeral)
  have bulk: "header_bulk_elems elems t final i sid =
      [le16 (data_type_code t), le32 sid, [if final then 1 else 0], [i]] @ es"
    unfolding header_bulk_elems_def set_identifiers set_byte Let_def elems
    by (simp add: small_numerals)
  show "take n (header_bulk_elems elems t final i sid) =
           [le16 (data_type_code t), le32 sid, [if final then 1 else 0], [i]] @ drop 4 (take n elems)"
    unfolding bulk n by (simp add: elems small_numerals)
  show "length (header_bulk_elems elems t final i sid) = length elems"
    unfolding bulk by (simp add: elems)
qed

lemma body_fragments_chunk:
  assumes "final = (unat i = n - 1)"
  shows "body_fragments t sid final i body = chunk_fragments t sid n (unat i) body"
proof -
  have "(replicate BODY_DATA_COUNT [] :: bytes list) = [[], [], [], [], []]"
    by (simp add: BODY_DATA_COUNT_def eval_nat_numeral)
  moreover have "set_fragment_elem es body (of_nat (length body)) 4 = es[4 := take (length body mod 65536) body]" for es
    by (simp only: set_fragment_elem_def unat_of_nat_16)
  ultimately show ?thesis
    unfolding body_fragments_def chunk_fragments_def set_identifiers set_byte Let_def assms
    by (simp add: small_numerals)
qed

lemma body_messages_drop:
  assumes "i < length bodies"
  shows "drop i (body_messages t sid bodies) =
           chunk_fragments t sid (length bodies) i (bodies ! i) # drop (i + 1) (body_messages t sid bodies)"
  using assms by (simp add: body_messages_def drop_map upt_conv_Cons)

text \<open>With more than 255 chunks the 8-bit index never reaches their number.\<close>

lemma byte_index: "unat (i :: u8) \<le> 255"
  using unsigned_less [of i, where 'a = nat] by simp

lemma body_loop_runs_on:
  assumes "255 < length bodies" and "\<And>m w. \<exists>w'. send m w = Some (NANO_OK, w')"
  shows "body_loop send t sid bodies rounds i final w = None"
proof (induction rounds arbitrary: i final w)
  case 0
  have "unat i < length bodies" using byte_index [of i] assms(1) by simp
  then show ?case by (simp add: body_loop.simps)
next
  case (Suc rounds)
  have "unat i < length bodies" using byte_index [of i] assms(1) by simp
  moreover obtain w' where "send (body_fragments t sid (final \<or> unat i = length bodies - 1) i (bodies ! unat i)) w
      = Some (NANO_OK, w')"
    using assms(2) by blast
  ultimately show ?case by (subst body_loop.simps) (simp add: Suc.IH Let_def)
qed

section \<open>Reading headers\<close>

text \<open>How the service reads the headers of a bulk: a 16-bit length and as many bytes, for name and value.\<close>

definition read_string :: "bytes \<Rightarrow> bytes \<times> bytes" where
  "read_string bs =
     (let n = unat (get16 (\<lambda>i. if i < length bs then bs ! i else 0) 0)
      in (take n (drop 2 bs), drop n (drop 2 bs)))"

function read_headers :: "bytes \<Rightarrow> HttpHeaderData list" where
  "read_headers bs =
     (if bs = [] then []
      else (fst (read_string bs), fst (read_string (snd (read_string bs))))
             # read_headers (snd (read_string (snd (read_string bs)))))"
  by pat_completeness auto
termination
  by (relation "measure length") (auto simp: read_string_def Let_def)

declare read_headers.simps [simp del]

definition header_fits :: "HttpHeaderData \<Rightarrow> bool" where
  "header_fits h = (length (fst h) < 65536 \<and> length (snd h) < 65536)"

lemma read_sized:
  assumes "length s < 65536"
  shows "read_string (concat (sized s) @ rest) = (s, rest)"
proof -
  let ?bs = "le16 (of_nat (length s)) @ s @ rest"
  have "bytes_at (\<lambda>i. if i < length ?bs then ?bs ! i else 0) 0 (le16 (of_nat (length s)))"
    by (auto simp: bytes_at_def nth_append intro!: read_bytes_eqI)
  then have size: "unat (get16 (\<lambda>i. if i < length ?bs then ?bs ! i else 0) 0) = length s"
    using assms by (simp only: get16_at unat_of_nat_u16)
  have "concat (sized s) @ rest = ?bs" using assms by (simp add: sized_def)
  then show ?thesis by (simp only: read_string_def Let_def size) simp
qed

lemma read_header_fragments:
  "list_all header_fits hs \<Longrightarrow> read_headers (concat (concat (map header_fragments hs))) = hs"
proof (induction hs)
  case Nil
  then show ?case by (simp add: read_headers.simps)
next
  case (Cons h hs)
  let ?rest = "concat (concat (map header_fragments hs))"
  have fits: "length (fst h) < 65536" "length (snd h) < 65536" using Cons.prems by (simp_all add: header_fits_def)
  have split: "concat (concat (map header_fragments (h # hs))) = concat (sized (fst h)) @ concat (sized (snd h)) @ ?rest"
    by (simp add: header_fragments_def)
  have "concat (sized (fst h)) \<noteq> []" by (simp add: sized_def le16_def)
  then show ?case
    unfolding split by (subst read_headers.simps) (use Cons fits in \<open>simp add: read_sized\<close>)
qed

lemma read_header_bulks:
  "list_all header_fits hs \<Longrightarrow> concat (map (\<lambda>m. read_headers (drop 8 (concat m))) (header_bulks n t sid i hs)) = hs"
proof (induction n t sid i hs rule: header_bulks.induct)
  case (1 n t sid i hs)
  have bulk: "drop 8 (concat (bulk_fragments t sid final i hs')) = concat (concat (map header_fragments hs'))" for final hs'
    by (simp add: bulk_fragments_def)
  have "list_all header_fits (take 10 hs)" "list_all header_fits (drop 10 hs)"
    using 1(2) by (auto simp: list_all_iff dest: in_set_takeD in_set_dropD)
  with 1(1) show ?case
    by (subst header_bulks.simps) (simp add: bulk read_header_fragments)
qed

lemma header_bulks_count: "length (header_bulks n t sid i hs) = (length hs + 9) div 10"
proof (induction n t sid i hs rule: header_bulks.induct)
  case (1 n t sid i hs)
  show ?case
  proof (cases "length hs \<le> 10")
    case True
    then have "hs \<noteq> [] \<Longrightarrow> (length hs + 9) div 10 = 1" by (cases hs) (auto intro!: div_nat_eqI)
    with True show ?thesis by (subst header_bulks.simps) (simp add: header_bulks.simps [of _ _ _ _ "[]"])
  next
    case False
    then have "(length hs + 9) div 10 = Suc ((length hs - 10 + 9) div 10)" by simp
    with 1 False show ?thesis by (subst header_bulks.simps) auto
  qed
qed

section \<open>A sink for messages\<close>

text \<open>
  The contract of the function that hands one message, given as fragments, to the service: a message
  that finds room is accepted and appended to what is on its way. The loops of the senders are its
  clients.
\<close>

fun all_accepted ::
    "('w \<Rightarrow> bytes \<Rightarrow> bool) \<Rightarrow> (bytes list \<Rightarrow> 'w \<Rightarrow> ('r \<times> 'w) option) \<Rightarrow> 'w \<Rightarrow> bytes list list \<Rightarrow> bool" where
  "all_accepted room send w [] = True"
| "all_accepted room send w (m # ms) =
     (valid_msg (concat m) \<and> room w (concat m)
      \<and> (case send m w of None \<Rightarrow> False | Some (r, w') \<Rightarrow> all_accepted room send w' ms))"

locale message_sink =
  fixes holds :: "'w \<Rightarrow> bytes list \<Rightarrow> bool"
    and room :: "'w \<Rightarrow> bytes \<Rightarrow> bool"
    and send :: "bytes list \<Rightarrow> 'w \<Rightarrow> (NanoCommunicationResult \<times> 'w) option"
  assumes accepts: "holds w ms \<Longrightarrow> valid_msg (concat m) \<Longrightarrow> room w (concat m) \<Longrightarrow>
      \<exists>w'. send m w = Some (NANO_OK, w') \<and> holds w' (ms @ [concat m])"
begin

lemma header_loop_sends:
  assumes "holds w ms" "length elems = 44" "length done < 10"
    and "drop 4 (take (4 * length done + 4) elems) = concat (map header_fragments done)"
    and "hs \<noteq> [] \<Longrightarrow> all_accepted room send w (header_bulks (Suc 0) t sid i (done @ hs))"
    and "hs = [] \<Longrightarrow> done = []"
  shows "\<exists>w'. header_loop send t sid hs elems (length done) i w =
           Some (NANO_OK, i + length (header_bulks (Suc 0) t sid i (done @ hs)), w')
         \<and> holds w' (ms @ map concat (header_bulks (Suc 0) t sid i (done @ hs)))"
  using assms
proof (induction hs arbitrary: w ms elems "done" i)
  case Nil
  then show ?case by (simp add: header_bulks.simps)
next
  case (Cons h hs)
  let ?elems = "add_header_to_bulk elems h (length done)"
  note filled = bulk_filled [OF Cons.prems(2-4), of h]
  show ?case
  proof (cases "length done + 1 < 10 \<and> hs \<noteq> []")
    case True
    with Cons.IH [OF Cons.prems(1) filled(2) _ filled(1), of i] Cons.prems(5) show ?thesis
      by (simp add: MAX_HEADER_BULK_SIZE_def)
  next
    case False
    let ?bulk = "bulk_fragments t sid (hs = []) i (done @ [h])"
    have bulks: "header_bulks (Suc 0) t sid i (done @ h # hs) = ?bulk # header_bulks (Suc 0) t sid (i + 1) hs"
      using header_bulks_split [OF Cons.prems(3) False, of "Suc 0"] by simp
    let ?sent = "header_bulk_elems ?elems t (hs = []) (of_nat i) sid"
    have sent: "take (HEADER_DATA_COUNT * (length done + 1) + 4) ?sent = ?bulk" "length ?sent = 44"
      using bulk_elems [of ?elems "4 * length (done @ [h]) + 4" t "hs = []" "of_nat i" sid] filled
      by (simp_all add: bulk_fragments_def HEADER_DATA_COUNT_def algebra_simps)
    from Cons.prems(5) have "valid_msg (concat ?bulk)" "room w (concat ?bulk)" by (simp_all add: bulks)
    from accepts [OF Cons.prems(1) this] obtain w1 where
      w1: "send ?bulk w = Some (NANO_OK, w1)" "holds w1 (ms @ [concat ?bulk])" by blast
    have "all_accepted room send w1 (header_bulks (Suc 0) t sid (i + 1) hs)"
      using Cons.prems(5) w1(1) by (simp add: bulks)
    with Cons.IH [OF w1(2) sent(2), of "[]" "i + 1"] obtain w2 where
      "header_loop send t sid hs ?sent 0 (i + 1) w1 = Some (NANO_OK, i + 1 + length (header_bulks (Suc 0) t sid (i + 1) hs), w2)"
      "holds w2 ((ms @ [concat ?bulk]) @ map concat (header_bulks (Suc 0) t sid (i + 1) hs))" by auto
    with False w1(1) sent(1) show ?thesis
      by (auto simp: Let_def send_header_bulk_def bulks MAX_HEADER_BULK_SIZE_def)
  qed
qed

lemma body_loop_sends:
  assumes "holds w ms" "length bodies \<le> 255" "i \<le> length bodies" "length bodies \<le> i + rounds"
    and "final \<Longrightarrow> i = length bodies"
    and "all_accepted room send w (drop i (body_messages t sid bodies))"
  shows "\<exists>w'. body_loop send t sid bodies rounds (of_nat i) final w = Some (NANO_OK, of_nat (length bodies), w')
         \<and> holds w' (ms @ map concat (drop i (body_messages t sid bodies)))"
  using assms
proof (induction rounds arbitrary: w ms i final)
  case 0
  then show ?case by (simp add: body_loop.simps unat_of_nat body_messages_def)
next
  case (Suc rounds)
  have i: "unat (of_nat i :: u8) = i" using Suc.prems(2,3) by (simp add: unat_of_nat)
  show ?case
  proof (cases "i < length bodies")
    case False
    with Suc.prems i show ?thesis by (simp add: body_loop.simps body_messages_def)
  next
    case True
    let ?chunk = "chunk_fragments t sid (length bodies) i (bodies ! i)"
    have chunk: "body_fragments t sid (final \<or> i = length bodies - 1) (of_nat i) (bodies ! i) = ?chunk"
      using body_fragments_chunk [of "i = length bodies - 1" "of_nat i" "length bodies"] Suc.prems(5) True i
      by (cases final) simp_all
    from Suc.prems(6) have "valid_msg (concat ?chunk)" "room w (concat ?chunk)"
      by (simp_all add: body_messages_drop [OF True])
    from accepts [OF Suc.prems(1) this] obtain w1 where
      w1: "send ?chunk w = Some (NANO_OK, w1)" "holds w1 (ms @ [concat ?chunk])" by blast
    have "\<exists>w'. body_loop send t sid bodies rounds (of_nat (i + 1)) (final \<or> i = length bodies - 1) w1 =
          Some (NANO_OK, of_nat (length bodies), w')
        \<and> holds w' ((ms @ [concat ?chunk]) @ map concat (drop (i + 1) (body_messages t sid bodies)))"
      using Suc.prems True w1(1) by (intro Suc.IH [OF w1(2)]) (auto simp: body_messages_drop [OF True])
    with True w1(1) chunk i show ?thesis
      by (subst body_loop.simps) (simp add: Let_def body_messages_drop [OF True] add.commute)
  qed
qed

end

text \<open>The function the senders use is such a sink.\<close>

interpretation service_sink: message_sink
  "to_service usage_mode" "room_to_service usage_mode"
  "send_session_data_to_service os rounds sid chunk_type usage_mode"
  by unfold_locales (rule send_session_data_appends)

end
