(* ===== verification/Nano_Sender.thy ===== *)
theory Nano_Sender
  imports Nano_Senders Nano_Verdict
begin

text \<open>
  The inspection of one part of a transaction: the thread routines of
  \<open>nano_attachment_sender_thread.c\<close>, the functions of \<open>nano_attachment_sender.c\<close> that run them under a
  time-out and turn the outcome into a verdict, and the asynchronous variants of
  \<open>nano_attachment_sender_async.c\<close>. \<open>None\<close> is, as below, a run that has not ended or a fault.
\<close>

section \<open>The encoding of a response body\<close>

definition lower_case :: "u8 \<Rightarrow> u8" where
  "lower_case b = (if 65 \<le> b \<and> b \<le> 90 then b + 32 else b)"

definition strcasecmp_equal :: "bytes \<Rightarrow> string \<Rightarrow> bool" where
  "strcasecmp_equal s t = (map lower_case (c_string s) = map lower_case (c_string (string_bytes t)))"

definition get_http_header :: "HttpHeaderData list \<Rightarrow> string \<Rightarrow> HttpHeaderData option" where
  "get_http_header headers header_name = find (\<lambda>h. strcasecmp_equal (fst h) header_name) headers"

definition set_response_content_encoding :: "HttpHeaderData list \<Rightarrow> HttpSessionData \<Rightarrow> HttpSessionData" where
  "set_response_content_encoding headers d =
     d\<lparr>compression_type :=
        (case get_http_header headers ''content-encoding'' of
           None \<Rightarrow> NO_COMPRESSION
         | Some h \<Rightarrow>
             if strcasecmp_equal (snd h) ''gzip'' then GZIP
             else if strcasecmp_equal (snd h) ''deflate'' then ZLIB
             else if strcasecmp_equal (snd h) ''identity'' then NO_COMPRESSION
             else NO_COMPRESSION)\<rparr>"

section \<open>Thread routines\<close>

text \<open>The routines read the session id from the session of the context.\<close>

definition with_session :: "(u32 \<Rightarrow> event_state \<Rightarrow> event_state option) \<Rightarrow> event_state \<Rightarrow> event_state option" where
  "with_session f s = do { d \<leftarrow> ctx_session_data_p (snd s); f (sd_session_id d) s }"

record HttpRequestFilterData =
  meta_data :: HttpMetaData
  req_headers :: "HttpHeaderData list"
  contains_body :: bool

definition SendRequestFilterThread ::
    "(bool \<Rightarrow> string \<Rightarrow> bytes option) \<Rightarrow> os_answers \<Rightarrow> nat \<Rightarrow> HttpRequestFilterData \<Rightarrow> event_state \<Rightarrow> event_state option" where
  "SendRequestFilterThread inet_pton os rounds start_data s =
     do {
       s1 \<leftarrow> with_session (\<lambda>sid. nano_metadata_sender inet_pton os rounds (meta_data start_data) sid False SIGNAL_USAGE_SYNC) s;
       s2 \<leftarrow> with_session (\<lambda>sid. nano_header_sender os rounds (req_headers start_data) REQUEST_HEADER sid False SIGNAL_USAGE_SYNC) s1;
       if \<not> contains_body start_data
       then with_session (\<lambda>sid. nano_end_transaction_sender os rounds REQUEST_END sid True SIGNAL_USAGE_SYNC) s2
       else Some s2
     }"

definition SendMetadataThread ::
    "(bool \<Rightarrow> string \<Rightarrow> bytes option) \<Rightarrow> os_answers \<Rightarrow> nat \<Rightarrow> HttpMetaData \<Rightarrow> event_state \<Rightarrow> event_state option" where
  "SendMetadataThread inet_pton os rounds metadata =
     with_session (\<lambda>sid. nano_metadata_sender inet_pton os rounds metadata sid False SIGNAL_USAGE_SYNC)"

definition SendRequestHeadersThread ::
    "os_answers \<Rightarrow> nat \<Rightarrow> HttpHeaderData list \<Rightarrow> event_state \<Rightarrow> event_state option" where
  "SendRequestHeadersThread os rounds headers =
     with_session (\<lambda>sid. nano_header_sender os rounds headers REQUEST_HEADER sid False SIGNAL_USAGE_SYNC)"

record ResHttpHeaders =
  res_headers :: "HttpHeaderData list"
  res_response_code :: u16
  res_content_length :: u64

definition SendResponseHeadersThread ::
    "os_answers \<Rightarrow> nat \<Rightarrow> ResHttpHeaders \<Rightarrow> event_state \<Rightarrow> event_state option" where
  "SendResponseHeadersThread os rounds headers s =
     do {
       s1 \<leftarrow> with_session (\<lambda>sid. nano_send_response_code os rounds (res_response_code headers) sid SIGNAL_USAGE_SYNC) s;
       s2 \<leftarrow> with_session (\<lambda>sid. nano_send_response_content_length os rounds (res_content_length headers) sid SIGNAL_USAGE_SYNC) s1;
       let (w, ctx) = s2;
       let s3 = (w, ctx\<lparr>ctx_session_data_p := map_option (set_response_content_encoding (res_headers headers)) (ctx_session_data_p ctx)\<rparr>);
       with_session (\<lambda>sid. nano_header_sender os rounds (res_headers headers) RESPONSE_HEADER sid True SIGNAL_USAGE_SYNC) s3
     }"

definition SendRequestBodyThread :: "os_answers \<Rightarrow> nat \<Rightarrow> bytes list \<Rightarrow> event_state \<Rightarrow> event_state option" where
  "SendRequestBodyThread os rounds bodies =
     with_session (\<lambda>sid. nano_body_sender os rounds bodies REQUEST_BODY sid True SIGNAL_USAGE_SYNC)"

definition SendResponseBodyThread :: "os_answers \<Rightarrow> nat \<Rightarrow> bytes list \<Rightarrow> event_state \<Rightarrow> event_state option" where
  "SendResponseBodyThread os rounds bodies =
     with_session (\<lambda>sid. nano_body_sender os rounds bodies RESPONSE_BODY sid True SIGNAL_USAGE_SYNC)"

definition SendRequestEndThread :: "os_answers \<Rightarrow> nat \<Rightarrow> event_state \<Rightarrow> event_state option" where
  "SendRequestEndThread os rounds =
     with_session (\<lambda>sid. nano_end_transaction_sender os rounds REQUEST_END sid True SIGNAL_USAGE_SYNC)"

definition SendResponseEndThread :: "os_answers \<Rightarrow> nat \<Rightarrow> event_state \<Rightarrow> event_state option" where
  "SendResponseEndThread os rounds =
     with_session (\<lambda>sid. nano_end_transaction_sender os rounds RESPONSE_END sid True SIGNAL_USAGE_SYNC)"

definition SendDelayedVerdictRequestThread :: "os_answers \<Rightarrow> nat \<Rightarrow> event_state \<Rightarrow> event_state option" where
  "SendDelayedVerdictRequestThread os rounds =
     with_session (\<lambda>sid. nano_request_delayed_verdict os rounds sid True SIGNAL_USAGE_SYNC)"

definition SendMetricToServiceThread :: "os_answers \<Rightarrow> nat \<Rightarrow> event_state \<Rightarrow> event_state option" where
  "SendMetricToServiceThread os rounds s =
     do { w \<leftarrow> nano_send_metric_data_sender os rounds (fst s); Some (w, snd s) }"

section \<open>Inspections\<close>

text \<open>A routine run for a session under a time-out of the attachment.\<close>

definition run_sender_thread ::
    "os_answers \<Rightarrow> (event_state \<Rightarrow> event_state option) \<Rightarrow> (NanoAttachment \<Rightarrow> u32) \<Rightarrow> TransactionType \<Rightarrow> HttpSessionData option
     \<Rightarrow> comm_world \<Rightarrow> (bool \<times> event_state) option" where
  "run_sender_thread os thread_func timeout transaction_type session_data w =
     NanoRunInThreadTimeout (os_thread os (w_calls w)) count_metric (inspection_mode (w_attachment w)) w session_data
       thread_func (os_partial os (w_calls w)) (sint (timeout (w_attachment w))) transaction_type"

text \<open>
  The polling for a delayed verdict: true when a thread timed out. The context is initialised
  anew by each run; the number of retries is read from the attachment every time.
\<close>

fun HandleDelayedVerdict ::
    "os_answers \<Rightarrow> nat \<Rightarrow> u32 \<Rightarrow> TransactionType \<Rightarrow> event_state \<Rightarrow> (bool \<times> event_state) option" where
  "HandleDelayedVerdict os rounds i transaction_type s =
     (let (w, ctx) = s in
      if \<not> i < hold_verdict_retries (w_attachment w) then Some (False, w, ctx\<lparr>ctx_res := NANO_ERROR\<rparr>)
      else
        (case rounds of
           0 \<Rightarrow> None
         | Suc n \<Rightarrow>
             do {
               (ran, w1, ctx1) \<leftarrow> run_sender_thread os (SendDelayedVerdictRequestThread os n)
                                   waiting_for_verdict_thread_timeout_msec transaction_type (ctx_session_data_p ctx) (step_call w);
               if \<not> ran then Some (True, count_metric HOLD_THREAD_TIMEOUT w1, ctx1)
               else
                 do {
                   d \<leftarrow> ctx_session_data_p ctx1;
                   if sd_verdict d \<noteq> TRAFFIC_VERDICT_DELAYED then Some (False, w1, ctx1)
                   else HandleDelayedVerdict os n (i + 1) transaction_type (w1, ctx1)
                 }
             }))"

declare HandleDelayedVerdict.simps [simp del]

type_synonym inspection_result = "AttachmentVerdictResponse \<times> HttpSessionData \<times> comm_world"

text \<open>The verdict functions on the attachment inside the state.\<close>

definition on_attachment ::
    "(NanoAttachment \<Rightarrow> AttachmentVerdictResponse \<times> NanoAttachment \<times> HttpSessionData) \<Rightarrow> comm_world \<Rightarrow> inspection_result" where
  "on_attachment f w = (case f (w_attachment w) of (r, a, d) \<Rightarrow> (r, d, w\<lparr>w_attachment := a\<rparr>))"

definition corrupt_memory_verdict :: "os_answers \<Rightarrow> HttpSessionData \<Rightarrow> comm_world \<Rightarrow> inspection_result" where
  "corrupt_memory_verdict os d w = on_attachment (\<lambda>a. SendCorruptMemoryVerdict (os_alloc os (w_calls w)) a d) w"

definition thread_timeout_verdict ::
    "os_answers \<Rightarrow> SessionID \<Rightarrow> HttpSessionData \<Rightarrow> comm_world \<Rightarrow> inspection_result" where
  "thread_timeout_verdict os session_id d w =
     on_attachment (\<lambda>a. SendThreadTimeoutVerdict (os_alloc os (w_calls w)) a session_id d) w"

definition failed_response :: "os_answers \<Rightarrow> SessionID \<Rightarrow> HttpSessionData \<Rightarrow> comm_world \<Rightarrow> inspection_result" where
  "failed_response os session_id d w =
     on_attachment (\<lambda>a. FinalizeFailedResponse (os_alloc os (w_calls w)) a session_id d) w"

definition successful_response ::
    "SessionID \<Rightarrow> HttpEventThreadCtx \<Rightarrow> HttpSessionData \<Rightarrow> comm_world \<Rightarrow> inspection_result" where
  "successful_response session_id ctx d w =
     on_attachment (\<lambda>a. case FinalizeSuccessfulResponse a session_id ctx d of (r, b) \<Rightarrow> (r, b, d)) w"

definition irrelevant_response :: "SessionID \<Rightarrow> HttpSessionData \<Rightarrow> comm_world \<Rightarrow> inspection_result" where
  "irrelevant_response session_id d w =
     on_attachment (\<lambda>a. case FinalizeIrrelevantResponse a session_id of (r, b) \<Rightarrow> (r, b, d)) w"

text \<open>The end of every inspection: the verdict of the context.\<close>

definition finalize_response ::
    "os_answers \<Rightarrow> SessionID \<Rightarrow> event_state \<Rightarrow> inspection_result option" where
  "finalize_response os session_id s =
     (let (w, ctx) = s in
      do {
        d \<leftarrow> ctx_session_data_p ctx;
        Some (if ctx_res ctx \<noteq> NANO_HTTP_FORBIDDEN \<and> ctx_res ctx \<noteq> NANO_OK then failed_response os session_id d w
              else successful_response session_id ctx d w)
      })"

text \<open>
  What all inspections do: test the channels (with the uninitialised result \<open>res0\<close> of the test),
  run the routine, answer a time-out with the failure mode, and hand over to the rest.
\<close>

definition inspect_with ::
    "NanoCommunicationResult \<Rightarrow> os_answers \<Rightarrow> nat \<Rightarrow> (event_state \<Rightarrow> event_state option) \<Rightarrow> (NanoAttachment \<Rightarrow> u32) \<Rightarrow> TransactionType
     \<Rightarrow> AttachmentMetricType \<Rightarrow> (event_state \<Rightarrow> inspection_result option) \<Rightarrow> HttpSessionData \<Rightarrow> comm_world
     \<Rightarrow> inspection_result option" where
  "inspect_with res0 os rounds thread_func timeout transaction_type timeout_metric rest d w =
     do {
       (res, w1) \<leftarrow> handle_shmem_corruption res0 os rounds w;
       if res = NANO_ERROR then Some (corrupt_memory_verdict os d w1)
       else
         do {
           (ran, w2, ctx) \<leftarrow> run_sender_thread os thread_func timeout transaction_type (Some d) w1;
           if \<not> ran then
             do {
               d2 \<leftarrow> ctx_session_data_p ctx;
               Some (thread_timeout_verdict os (sd_session_id d) d2 (count_metric timeout_metric w2))
             }
           else rest (w2, ctx)
         }
     }"

definition unless_declined ::
    "os_answers \<Rightarrow> SessionID \<Rightarrow> event_state \<Rightarrow> inspection_result option" where
  "unless_declined os session_id s =
     (let (w, ctx) = s in
      if ctx_res ctx = NANO_DECLINED
      then do { d \<leftarrow> ctx_session_data_p ctx; Some (irrelevant_response session_id d w) }
      else finalize_response os session_id s)"

definition after_delay ::
    "os_answers \<Rightarrow> nat \<Rightarrow> TransactionType \<Rightarrow> SessionID \<Rightarrow> event_state \<Rightarrow> inspection_result option" where
  "after_delay os rounds transaction_type session_id s =
     do {
       d \<leftarrow> ctx_session_data_p (snd s);
       if sd_verdict d = TRAFFIC_VERDICT_DELAYED then
         do {
           (timed_out, w1, ctx1) \<leftarrow> HandleDelayedVerdict os rounds 0 transaction_type s;
           if timed_out then
             do { d1 \<leftarrow> ctx_session_data_p ctx1; Some (thread_timeout_verdict os session_id d1 w1) }
           else finalize_response os session_id (w1, ctx1)
         }
       else finalize_response os session_id s
     }"

definition SendRequestFilter ::
    "(bool \<Rightarrow> string \<Rightarrow> bytes option) \<Rightarrow> NanoCommunicationResult \<Rightarrow> os_answers \<Rightarrow> nat \<Rightarrow> HttpRequestFilterData \<Rightarrow> HttpSessionData
     \<Rightarrow> comm_world \<Rightarrow> inspection_result option" where
  "SendRequestFilter inet_pton res0 os rounds start_data d =
     inspect_with res0 os rounds (SendRequestFilterThread inet_pton os rounds start_data) req_header_thread_timeout_msec
       REQUEST REQ_METADATA_THREAD_TIMEOUT (unless_declined os (sd_session_id d)) d"

definition SendMetadata ::
    "(bool \<Rightarrow> string \<Rightarrow> bytes option) \<Rightarrow> NanoCommunicationResult \<Rightarrow> os_answers \<Rightarrow> nat \<Rightarrow> HttpMetaData \<Rightarrow> HttpSessionData
     \<Rightarrow> comm_world \<Rightarrow> inspection_result option" where
  "SendMetadata inet_pton res0 os rounds metadata d =
     inspect_with res0 os rounds (SendMetadataThread inet_pton os rounds metadata) req_start_thread_timeout_msec
       REQUEST REQ_METADATA_THREAD_TIMEOUT (unless_declined os (sd_session_id d)) d"

definition SendRequestHeaders ::
    "NanoCommunicationResult \<Rightarrow> os_answers \<Rightarrow> nat \<Rightarrow> HttpHeaderData list \<Rightarrow> HttpSessionData \<Rightarrow> comm_world
     \<Rightarrow> inspection_result option" where
  "SendRequestHeaders res0 os rounds headers d =
     inspect_with res0 os rounds (SendRequestHeadersThread os rounds headers) req_header_thread_timeout_msec
       REQUEST REQ_HEADER_THREAD_TIMEOUT (after_delay os rounds REQUEST (sd_session_id d)) d"

definition SendResponseHeaders ::
    "NanoCommunicationResult \<Rightarrow> os_answers \<Rightarrow> nat \<Rightarrow> ResHttpHeaders \<Rightarrow> HttpSessionData \<Rightarrow> comm_world
     \<Rightarrow> inspection_result option" where
  "SendResponseHeaders res0 os rounds headers d =
     inspect_with res0 os rounds (SendResponseHeadersThread os rounds headers) res_header_thread_timeout_msec
       RESPONSE RES_HEADER_THREAD_TIMEOUT (finalize_response os (sd_session_id d)) d"

definition SendRequestBody ::
    "NanoCommunicationResult \<Rightarrow> os_answers \<Rightarrow> nat \<Rightarrow> bytes list \<Rightarrow> HttpSessionData \<Rightarrow> comm_world \<Rightarrow> inspection_result option" where
  "SendRequestBody res0 os rounds bodies d =
     inspect_with res0 os rounds (SendRequestBodyThread os rounds bodies) req_body_thread_timeout_msec
       REQUEST REQ_BODY_THREAD_TIMEOUT (after_delay os rounds REQUEST (sd_session_id d)) d"

definition SendResponseBody ::
    "NanoCommunicationResult \<Rightarrow> os_answers \<Rightarrow> nat \<Rightarrow> bytes list \<Rightarrow> HttpSessionData \<Rightarrow> comm_world \<Rightarrow> inspection_result option" where
  "SendResponseBody res0 os rounds bodies d =
     inspect_with res0 os rounds (SendResponseBodyThread os rounds bodies) res_body_thread_timeout_msec
       RESPONSE RES_BODY_THREAD_TIMEOUT (after_delay os rounds RESPONSE (sd_session_id d)) d"

definition SendRequestEnd ::
    "NanoCommunicationResult \<Rightarrow> os_answers \<Rightarrow> nat \<Rightarrow> HttpSessionData \<Rightarrow> comm_world \<Rightarrow> inspection_result option" where
  "SendRequestEnd res0 os rounds d =
     inspect_with res0 os rounds (SendRequestEndThread os rounds) req_header_thread_timeout_msec
       REQUEST REQ_END_THREAD_TIMEOUT (after_delay os rounds REQUEST (sd_session_id d)) d"

definition SendResponseEnd ::
    "NanoCommunicationResult \<Rightarrow> os_answers \<Rightarrow> nat \<Rightarrow> HttpSessionData \<Rightarrow> comm_world \<Rightarrow> inspection_result option" where
  "SendResponseEnd res0 os rounds d =
     inspect_with res0 os rounds (SendResponseEndThread os rounds) req_header_thread_timeout_msec
       RESPONSE RES_END_THREAD_TIMEOUT (finalize_response os (sd_session_id d)) d"

definition SendMetricData ::
    "NanoCommunicationResult \<Rightarrow> os_answers \<Rightarrow> nat \<Rightarrow> comm_world \<Rightarrow> (NanoCommunicationResult \<times> comm_world) option" where
  "SendMetricData res0 os rounds w =
     do {
       (res, w1) \<leftarrow> handle_shmem_corruption res0 os rounds w;
       if res = NANO_ERROR then Some (NANO_ERROR, w1)
       else
         do {
           (ran, w2, ctx) \<leftarrow> run_sender_thread os (SendMetricToServiceThread os rounds) metric_timeout_timeout METRICS None w1;
           Some (if \<not> ran then NANO_ERROR else NANO_OK, w2)
         }
     }"

section \<open>Asynchronous inspections\<close>

text \<open>
  The asynchronous variants send on the asynchronous channel and signal the service without
  waiting for an answer. A pointer that may be \<open>NULL\<close> is an option. The chunk types of the signals are
  constants of another enumeration (\<open>HTTP_REQUEST_BODY\<close> and others), here with their values as
  \<open>AttachmentDataType\<close>.
\<close>

type_synonym async_result = "NanoCommunicationResult \<times> HttpSessionData \<times> comm_world"

definition send_async ::
    "os_answers \<Rightarrow> nat \<Rightarrow> (u32 \<Rightarrow> event_state \<Rightarrow> event_state option) \<Rightarrow> AttachmentDataType \<Rightarrow> HttpSessionData \<Rightarrow> comm_world
     \<Rightarrow> async_result option" where
  "send_async os rounds sender chunk_type d w =
     do {
       let session_id = sd_session_id d;
       (w1, ctx) \<leftarrow> sender session_id (w, init_thread_ctx (Some d));
       d1 \<leftarrow> ctx_session_data_p ctx;
       if ctx_res ctx \<noteq> NANO_OK then Some (ctx_res ctx, d1, add_failed_session session_id w1)
       else
         do {
           (signal_res, w2) \<leftarrow> signal_for_session_data os rounds session_id chunk_type SIGNAL_USAGE_ASYNC w1;
           if signal_res \<noteq> NANO_OK then Some (signal_res, d1, add_failed_session session_id w2)
           else Some (ctx_res ctx, d1, w2)
         }
     }"

definition SendMetadataAsyncImpl ::
    "(bool \<Rightarrow> string \<Rightarrow> bytes option) \<Rightarrow> os_answers \<Rightarrow> nat \<Rightarrow> HttpMetaData option \<Rightarrow> HttpSessionData \<Rightarrow> comm_world
     \<Rightarrow> async_result option" where
  "SendMetadataAsyncImpl inet_pton os rounds metadata d w =
     (case metadata of
        None \<Rightarrow> Some (NANO_ERROR, d, w)
      | Some m \<Rightarrow>
          send_async os rounds (\<lambda>sid. nano_metadata_sender inet_pton os rounds m sid False SIGNAL_USAGE_ASYNC) REQUEST_START d w)"

definition SendRequestHeadersAsyncImpl ::
    "os_answers \<Rightarrow> nat \<Rightarrow> HttpHeaderData list option \<Rightarrow> HttpSessionData \<Rightarrow> comm_world \<Rightarrow> async_result option" where
  "SendRequestHeadersAsyncImpl os rounds headers d w =
     (case headers of
        None \<Rightarrow> Some (NANO_ERROR, d, w)
      | Some hs \<Rightarrow>
          send_async os rounds (\<lambda>sid. nano_header_sender os rounds hs REQUEST_HEADER sid False SIGNAL_USAGE_ASYNC)
            REQUEST_HEADER d w)"

definition SendRequestBodyAsyncImpl ::
    "os_answers \<Rightarrow> nat \<Rightarrow> bytes list option \<Rightarrow> HttpSessionData \<Rightarrow> comm_world \<Rightarrow> async_result option" where
  "SendRequestBodyAsyncImpl os rounds bodies d w =
     (case bodies of
        None \<Rightarrow> Some (NANO_ERROR, d, w)
      | Some bs \<Rightarrow>
          send_async os rounds (\<lambda>sid. nano_body_sender os rounds bs REQUEST_BODY sid False SIGNAL_USAGE_ASYNC) REQUEST_END d w)"

definition SendRequestEndAsyncImpl ::
    "os_answers \<Rightarrow> nat \<Rightarrow> HttpSessionData \<Rightarrow> comm_world \<Rightarrow> async_result option" where
  "SendRequestEndAsyncImpl os rounds =
     send_async os rounds (\<lambda>sid. nano_end_transaction_sender os rounds REQUEST_END sid False SIGNAL_USAGE_ASYNC) RESPONSE_CODE"

definition SendDelayedVerdictRequestAsyncImpl ::
    "os_answers \<Rightarrow> nat \<Rightarrow> HttpSessionData \<Rightarrow> comm_world \<Rightarrow> async_result option" where
  "SendDelayedVerdictRequestAsyncImpl os rounds =
     send_async os rounds (\<lambda>sid. nano_request_delayed_verdict os rounds sid False SIGNAL_USAGE_ASYNC) CONTENT_LENGTH"

record async_filter_data =
  af_meta_data :: "HttpMetaData option"
  af_headers :: "HttpHeaderData list option"
  af_contains_body :: bool

text \<open>A part whose pointer is \<open>NULL\<close> is left out; the first failure ends the function.\<close>

definition SendRequestFilterAsyncImpl ::
    "(bool \<Rightarrow> string \<Rightarrow> bytes option) \<Rightarrow> os_answers \<Rightarrow> nat \<Rightarrow> async_filter_data option \<Rightarrow> HttpSessionData \<Rightarrow> comm_world
     \<Rightarrow> async_result option" where
  "SendRequestFilterAsyncImpl inet_pton os rounds start_data d w =
     (case start_data of
        None \<Rightarrow> Some (NANO_ERROR, d, w)
      | Some f \<Rightarrow>
          do {
            (res1, d1, w1) \<leftarrow> (if af_meta_data f \<noteq> None then SendMetadataAsyncImpl inet_pton os rounds (af_meta_data f) d w
                               else Some (NANO_OK, d, w));
            if res1 \<noteq> NANO_OK then Some (res1, d1, w1)
            else
              do {
                (res2, d2, w2) \<leftarrow> (if af_headers f \<noteq> None then SendRequestHeadersAsyncImpl os rounds (af_headers f) d1 w1
                                   else Some (NANO_OK, d1, w1));
                if res2 \<noteq> NANO_OK then Some (res2, d2, w2)
                else if \<not> af_contains_body f then SendRequestEndAsyncImpl os rounds d2 w2
                else Some (NANO_OK, d2, w2)
              }
          })"

text \<open>
  The entry points: the arguments, then the channels are tested, with the session noted as failed
  when the test fails. The attachment is never \<open>NULL\<close> here; \<open>present\<close> says whether the session and the
  data are there.
\<close>

definition async_entry ::
    "NanoCommunicationResult \<Rightarrow> os_answers \<Rightarrow> nat \<Rightarrow> bool \<Rightarrow> (HttpSessionData \<Rightarrow> comm_world \<Rightarrow> async_result option)
     \<Rightarrow> HttpSessionData option \<Rightarrow> comm_world \<Rightarrow> (NanoCommunicationResult \<times> HttpSessionData option \<times> comm_world) option" where
  "async_entry res0 os rounds data_present impl session_data w =
     (case session_data of
        None \<Rightarrow> Some (NANO_ERROR, None, w)
      | Some d \<Rightarrow>
          if \<not> data_present then Some (NANO_ERROR, Some d, w)
          else
            do {
              (res, w1) \<leftarrow> handle_shmem_corruption res0 os rounds w;
              if res = NANO_ERROR then Some (NANO_ERROR, Some d, add_failed_session (sd_session_id d) w1)
              else do { (res2, d2, w2) \<leftarrow> impl d w1; Some (res2, Some d2, w2) }
            })"

definition SendRequestFilterAsync where
  "SendRequestFilterAsync inet_pton res0 os rounds start_data =
     async_entry res0 os rounds (start_data \<noteq> None) (SendRequestFilterAsyncImpl inet_pton os rounds start_data)"

definition SendMetadataAsync where
  "SendMetadataAsync inet_pton res0 os rounds metadata =
     async_entry res0 os rounds (metadata \<noteq> None) (SendMetadataAsyncImpl inet_pton os rounds metadata)"

definition SendRequestHeadersAsync where
  "SendRequestHeadersAsync res0 os rounds headers =
     async_entry res0 os rounds (headers \<noteq> None) (SendRequestHeadersAsyncImpl os rounds headers)"

definition SendRequestBodyAsync where
  "SendRequestBodyAsync res0 os rounds bodies =
     async_entry res0 os rounds (bodies \<noteq> None) (SendRequestBodyAsyncImpl os rounds bodies)"

definition SendRequestEndAsync where
  "SendRequestEndAsync res0 os rounds = async_entry res0 os rounds True (SendRequestEndAsyncImpl os rounds)"

definition SendDelayedVerdictRequestAsync where
  "SendDelayedVerdictRequestAsync res0 os rounds =
     async_entry res0 os rounds True (SendDelayedVerdictRequestAsyncImpl os rounds)"

end
