(* ===== verification/Nano_Interface.thy ===== *)
theory Nano_Interface
  imports Nano_Sender
begin

text \<open>
  The functions a web server calls (\<open>nano_attachment.c\<close>) and the log file they open
  (\<open>nano_initializer.c\<close>): creation of an attachment and of a session, the dispatch of a part of a
  transaction, the asynchronous verdicts, the keep-alive signal and the readers of a response. Compression is
  left out, and so is the freeing of memory as far as no pointer is reset by it.
\<close>

section \<open>The log file\<close>

text \<open>The answers of the system at the start of an attachment; the container id is looked for as in \<open>set_docker_id\<close>.\<close>

record init_answers =
  ia_malloc :: bool
  ia_cgroup :: "string list option"
  ia_line_malloc :: bool
  ia_container_env :: "string option"
  ia_hostname :: "string option"
  ia_log_stat :: bool
  ia_log_mkdir :: bool
  ia_log_open :: int
  ia_logging_malloc :: bool
  ia_dual_docker :: bool
  ia_metadata :: metadata_calls

definition createDirectory :: "init_answers \<Rightarrow> NanoCommunicationResult" where
  "createDirectory ia = (if ia_log_stat ia then NANO_OK else if ia_log_mkdir ia then NANO_OK else NANO_ERROR)"

definition set_logging_fd :: "init_answers \<Rightarrow> int \<Rightarrow> NanoAttachment \<Rightarrow> NanoCommunicationResult \<times> NanoAttachment" where
  "set_logging_fd ia fd a =
     (if fd > 0 then (NANO_OK, a\<lparr>is_default_fd := False, logging_fd := fd\<rparr>)
      else if createDirectory ia \<noteq> NANO_OK then (NANO_ERROR, a)
      else if ia_log_open ia < 0 then (NANO_ERROR, a\<lparr>logging_fd := ia_log_open ia\<rparr>)
      else (NANO_OK, a\<lparr>logging_fd := ia_log_open ia, is_default_fd := True\<rparr>))"

definition close_logging_fd :: "NanoAttachment \<Rightarrow> NanoAttachment" where
  "close_logging_fd a = (if logging_fd a > 0 \<and> is_default_fd a then a\<lparr>logging_fd := -1\<rparr> else a)"

section \<open>A new attachment\<close>

text \<open>The structure after \<open>memset\<close>: every field is zero.\<close>

definition zeroed_attachment :: NanoAttachment where
  "zeroed_attachment =
     \<lparr>fail_mode_verdict = NANO_OK, fail_mode_delayed_verdict = NANO_OK, dbg_level = 0, fail_open_timeout = 0,
      fail_open_delayed_timeout = 0, sessions_per_minute_limit_verdict = ATTACHMENT_VERDICT_INSPECT,
      max_sessions_per_minute = 0, req_max_proccessing_ms_time = 0, res_max_proccessing_ms_time = 0,
      registration_thread_timeout_msec = 0, req_start_thread_timeout_msec = 0, req_header_thread_timeout_msec = 0,
      req_body_thread_timeout_msec = 0, res_header_thread_timeout_msec = 0, res_body_thread_timeout_msec = 0,
      waiting_for_verdict_thread_timeout_msec = 0, hold_verdict_retries = 0, hold_verdict_polling_time = 0,
      metric_timeout_timeout = 0, inspection_mode = 0, num_of_nano_ipc_elements = 0, keep_alive_interval_msec = 0,
      paired_affinity_enabled = 0, is_async_mode_enabled = 0, unique_id = [], container_id = [],
      shared_verdict_signal_path = replicate MAX_SHARED_MEM_PATH_LEN 0, worker_id = 0, num_of_workers = 0, nano_user_id = 0,
      nano_group_id = 0, num_of_connection_attempts = 0, registration_socket = 0, registration_state = NOT_REGISTERED,
      attachment_type = 0, nano_service_ipc = None, nano_service_sync_ipc = None, comm_socket = 0, comm_socket_sync = 0,
      is_default_fd = False, logging_fd = 0, att_logging_data = \<lparr>log_dbg_level = 0, log_worker_id = 0, log_fd = 0\<rparr>,
      is_configuration_updated = NANO_OK, current_config_version = 0, metric_data = \<lambda>_. 0,
      metric_average_data_divisor = \<lambda>_. 0, async_buckets = \<lambda>_. empty_response,
      async_failed_bucket = \<lparr>sq_queue = \<lambda>_. 0, sq_head = 0, sq_tail = 0, sq_count = 0\<rparr>\<rparr>"

definition new_attachment :: "os_answers \<Rightarrow> u8 \<Rightarrow> int \<Rightarrow> int \<Rightarrow> NanoAttachment" where
  "new_attachment os a_type worker workers =
     zeroed_attachment\<lparr>worker_id := of_int worker, num_of_workers := of_int workers, nano_user_id := os_uid os,
       nano_group_id := os_gid os, registration_socket := -1, registration_state := NOT_REGISTERED, attachment_type := a_type,
       nano_service_ipc := None, nano_service_sync_ipc := None, comm_socket := -1, comm_socket_sync := -1\<rparr>"

definition DBG_LEVEL_INFO :: u32 where "DBG_LEVEL_INFO = 2"
definition DEFAULT_KEEP_ALIVE_INTERVAL_MSEC :: u64 where "DEFAULT_KEEP_ALIVE_INTERVAL_MSEC = 300000"

definition default_settings :: "NanoAttachment \<Rightarrow> NanoAttachment" where
  "default_settings a =
     a\<lparr>is_configuration_updated := NANO_ERROR, current_config_version := 0, fail_mode_verdict := NANO_OK,
       fail_mode_delayed_verdict := NANO_OK, dbg_level := DBG_LEVEL_INFO, num_of_connection_attempts := 0,
       fail_open_timeout := 50, fail_open_delayed_timeout := 150,
       sessions_per_minute_limit_verdict := ATTACHMENT_VERDICT_ACCEPT, max_sessions_per_minute := 0,
       req_max_proccessing_ms_time := 3000, res_max_proccessing_ms_time := 3000, registration_thread_timeout_msec := 100,
       req_start_thread_timeout_msec := 100, req_header_thread_timeout_msec := 100, req_body_thread_timeout_msec := 150,
       res_header_thread_timeout_msec := 100, res_body_thread_timeout_msec := 150,
       waiting_for_verdict_thread_timeout_msec := 150, hold_verdict_retries := 10, hold_verdict_polling_time := 1,
       metric_timeout_timeout := 100, inspection_mode := NON_BLOCKING_THREAD, num_of_nano_ipc_elements := 200,
       keep_alive_interval_msec := DEFAULT_KEEP_ALIVE_INTERVAL_MSEC, paired_affinity_enabled := 0, is_async_mode_enabled := 0,
       async_buckets := \<lambda>_. empty_response,
       async_failed_bucket := \<lparr>sq_queue = \<lambda>_. 0, sq_head = 0, sq_tail = 0, sq_count = 0\<rparr>\<rparr>"

text \<open>
  The file's own copy of the metadata: needed only in the deployment with two containers, and there a
  missing source is a failure.
\<close>

definition copy_attachment_metadata_at_start :: "init_answers \<Rightarrow> comm_world \<Rightarrow> bool \<times> comm_world" where
  "copy_attachment_metadata_at_start ia w =
     (let m = ia_metadata ia in
      if \<not> ia_dual_docker ia then (True, w)
      else if \<not> md_src_stat m then (False, w)
      else if \<not> md_src_open m then (False, w)
      else if \<not> md_dest_open m then (False, w)
      else if \<not> copy_chunks (md_writes m) 0 (md_chunks m) then (False, w)
      else if \<not> md_read_ok m then (False, w)
      else if \<not> md_rename m then (False, w)
      else (True, w\<lparr>w_metadata_file := Some (concat (md_chunks m))\<rparr>))"

text \<open>
  Whether an attachment was created, which is then the one in the state. \<open>initLoggingData\<close> is called with the
  descriptor, the level and the worker, though its parameters are level, worker and descriptor.
\<close>

definition InitNanoAttachment ::
    "init_answers \<Rightarrow> os_answers \<Rightarrow> nat \<Rightarrow> u8 \<Rightarrow> int \<Rightarrow> int \<Rightarrow> int \<Rightarrow> comm_world \<Rightarrow> (bool \<times> comm_world) option" where
  "InitNanoAttachment ia os rounds a_type worker workers fd w0 =
     (if \<not> ia_malloc ia then Some (False, w0)
      else
        case set_docker_id (ia_cgroup ia) (ia_line_malloc ia) (ia_container_env ia) (ia_hostname ia)
               (new_attachment os a_type worker workers) of
          (res1, a1) \<Rightarrow>
            if res1 = NANO_ERROR then Some (False, w0)
            else
              case set_logging_fd ia fd a1 of
                (res2, a2) \<Rightarrow>
                  if res2 = NANO_ERROR then Some (False, w0)
                  else
                    case initLoggingData (ia_logging_malloc ia) (logging_fd a2) (uint DBG_LEVEL_INFO) (uint (worker_id a2)) of
                      None \<Rightarrow> Some (False, w0)
                    | Some l \<Rightarrow>
                        case set_unique_id (a2\<lparr>att_logging_data := l\<rparr>) of
                          (res3, a3) \<Rightarrow>
                            if res3 = NANO_ERROR then Some (False, w0)
                            else
                              case (if w_metadata_file w0 = None then copy_attachment_metadata_at_start ia w0 else (True, w0)) of
                                (copied, w1) \<Rightarrow>
                                  if \<not> copied then Some (False, w1)
                                  else
                                    do {
                                      (res4, w2) \<leftarrow> nano_attachment_init_process os rounds (w1\<lparr>w_attachment := default_settings a3\<rparr>);
                                      if res4 \<noteq> NANO_OK then Some (False, w2)
                                      else Some (True, att_update reset_metric_data w2)
                                    })"

definition RestartAttachmentConfiguration :: "os_answers \<Rightarrow> comm_world \<Rightarrow> NanoCommunicationResult \<times> comm_world" where
  "RestartAttachmentConfiguration os w =
     (let cs = os_conf os (w_calls w);
          (res, a, c) = reset_attachment_config (cs_environ cs) (cs_exists cs) (cs_file cs) (w_attachment w) (w_conf w)
      in (res, (step_call w)\<lparr>w_attachment := a, w_conf := c\<rparr>))"

section \<open>Sessions\<close>

definition InitSessionData :: "bool \<Rightarrow> SessionID \<Rightarrow> HttpSessionData option" where
  "InitSessionData malloc_answers session_id =
     (if \<not> malloc_answers then None
      else Some \<lparr>was_request_fully_inspected = 0, sd_verdict = TRAFFIC_VERDICT_INSPECT, sd_session_id = session_id,
                 remaining_messages_to_reply = 0, compression_type = NO_COMPRESSION, req_proccesing_time = 0,
                 res_proccesing_time = 0, processed_req_body_size = 0, processed_res_body_size = 0\<rparr>)"

definition IsSessionFinalized :: "HttpSessionData \<Rightarrow> bool" where
  "IsSessionFinalized d = (sd_verdict d \<noteq> TRAFFIC_VERDICT_INSPECT)"

definition UpdateMetric :: "AttachmentMetricType \<Rightarrow> u64 \<Rightarrow> comm_world \<Rightarrow> comm_world" where
  "UpdateMetric metric_type v = att_update (\<lambda>a. updateMetricField a metric_type v)"

definition SendAccumulatedMetricData ::
    "NanoCommunicationResult \<Rightarrow> os_answers \<Rightarrow> nat \<Rightarrow> comm_world \<Rightarrow> comm_world option" where
  "SendAccumulatedMetricData res0 os rounds w = map_option snd (SendMetricData res0 os rounds w)"

section \<open>Sending a part of a transaction\<close>

text \<open>The type of a part and the data that go with it; \<open>HOLD_DATA\<close> has none.\<close>

datatype AttachmentData =
    HTTP_REQUEST_FILTER HttpRequestFilterData
  | HTTP_REQUEST_METADATA HttpMetaData
  | HTTP_REQUEST_HEADER "HttpHeaderData list"
  | HTTP_REQUEST_BODY "bytes list"
  | HTTP_REQUEST_END
  | HTTP_RESPONSE_HEADER ResHttpHeaders
  | HTTP_RESPONSE_BODY "bytes list"
  | HTTP_RESPONSE_END
  | HOLD_DATA

fun SendDataNanoAttachment ::
    "(bool \<Rightarrow> string \<Rightarrow> bytes option) \<Rightarrow> NanoCommunicationResult \<Rightarrow> os_answers \<Rightarrow> nat \<Rightarrow> SessionID \<Rightarrow> AttachmentData
     \<Rightarrow> HttpSessionData \<Rightarrow> comm_world \<Rightarrow> inspection_result option" where
  "SendDataNanoAttachment pton res0 os rounds sid (HTTP_REQUEST_FILTER f) = SendRequestFilter pton res0 os rounds f"
| "SendDataNanoAttachment pton res0 os rounds sid (HTTP_REQUEST_METADATA m) = SendMetadata pton res0 os rounds m"
| "SendDataNanoAttachment pton res0 os rounds sid (HTTP_REQUEST_HEADER hs) = SendRequestHeaders res0 os rounds hs"
| "SendDataNanoAttachment pton res0 os rounds sid (HTTP_REQUEST_BODY bs) = SendRequestBody res0 os rounds bs"
| "SendDataNanoAttachment pton res0 os rounds sid HTTP_REQUEST_END = SendRequestEnd res0 os rounds"
| "SendDataNanoAttachment pton res0 os rounds sid (HTTP_RESPONSE_HEADER hs) = SendResponseHeaders res0 os rounds hs"
| "SendDataNanoAttachment pton res0 os rounds sid (HTTP_RESPONSE_BODY bs) = SendResponseBody res0 os rounds bs"
| "SendDataNanoAttachment pton res0 os rounds sid HTTP_RESPONSE_END = SendResponseEnd res0 os rounds"
| "SendDataNanoAttachment pton res0 os rounds sid HOLD_DATA =
     (\<lambda>d w. Some (\<lparr>resp_verdict = ATTACHMENT_VERDICT_INSPECT, resp_session_id = sid, resp_web_response_data = None,
                    resp_modifications = []\<rparr>, d, w))"

text \<open>
  The asynchronous dispatch; the data pointer may be \<open>NULL\<close> here, as may the parts of a request
  filter. Parts of a response are not sent.
\<close>

datatype async_data =
    ASYNC_REQUEST_FILTER "async_filter_data option"
  | ASYNC_REQUEST_METADATA "HttpMetaData option"
  | ASYNC_REQUEST_HEADER "HttpHeaderData list option"
  | ASYNC_REQUEST_BODY "bytes list option"
  | ASYNC_REQUEST_END
  | ASYNC_HOLD_DATA
  | ASYNC_RESPONSE

fun SendDataNanoAttachmentAsync ::
    "(bool \<Rightarrow> string \<Rightarrow> bytes option) \<Rightarrow> NanoCommunicationResult \<Rightarrow> os_answers \<Rightarrow> nat \<Rightarrow> async_data option
     \<Rightarrow> HttpSessionData option \<Rightarrow> comm_world \<Rightarrow> (NanoCommunicationResult \<times> HttpSessionData option \<times> comm_world) option" where
  "SendDataNanoAttachmentAsync pton res0 os rounds None = (\<lambda>d w. Some (NANO_ERROR, d, w))"
| "SendDataNanoAttachmentAsync pton res0 os rounds (Some (ASYNC_REQUEST_FILTER f)) = SendRequestFilterAsync pton res0 os rounds f"
| "SendDataNanoAttachmentAsync pton res0 os rounds (Some (ASYNC_REQUEST_METADATA m)) = SendMetadataAsync pton res0 os rounds m"
| "SendDataNanoAttachmentAsync pton res0 os rounds (Some (ASYNC_REQUEST_HEADER hs)) = SendRequestHeadersAsync res0 os rounds hs"
| "SendDataNanoAttachmentAsync pton res0 os rounds (Some (ASYNC_REQUEST_BODY bs)) = SendRequestBodyAsync res0 os rounds bs"
| "SendDataNanoAttachmentAsync pton res0 os rounds (Some ASYNC_REQUEST_END) = SendRequestEndAsync res0 os rounds"
| "SendDataNanoAttachmentAsync pton res0 os rounds (Some ASYNC_HOLD_DATA) = SendDelayedVerdictRequestAsync res0 os rounds"
| "SendDataNanoAttachmentAsync pton res0 os rounds (Some ASYNC_RESPONSE) = (\<lambda>d w. Some (NANO_OK, d, w))"

section \<open>Asynchronous verdicts\<close>

definition isNanoQueueEmpty :: "NanoAttachment option \<Rightarrow> bool" where
  "isNanoQueueEmpty attachment =
     (case attachment of
        None \<Rightarrow> True
      | Some a \<Rightarrow> if nano_service_ipc a = None then True else \<not> isDataAvailable_2 (nano_service_ipc a))"

text \<open>\<open>None\<close> is a fault in the decoding of the reply.\<close>

definition PopFromNanoQueue :: "os_answers \<Rightarrow> comm_world \<Rightarrow> (SessionID \<times> comm_world) option" where
  "PopFromNanoQueue os w =
     (let k = w_calls w;
          (popped, v) = PopResponseVerdictFromQueue (os_files os) (os_conf os k) (os_alloc os k) (nano_world.truncate w);
          w1 = (step_call w)\<lparr>w_process := w_process v, w_attachment := w_attachment v, w_conf := w_conf v\<rparr>
      in do {
        response \<leftarrow> popped;
        if resp_session_id response = 0 then Some (0, w1)
        else
          let session_id = resp_session_id response;
              (res, a) = NanoAsyncAddResponse (w_attachment w1) session_id (Some response);
              w2 = w1\<lparr>w_attachment := a\<rparr>
          in Some (if res \<noteq> NANO_OK then 0 else session_id, w2)
      })"

definition getAttachmentVerdictResponse ::
    "NanoAttachment \<Rightarrow> SessionID \<Rightarrow> AttachmentVerdictResponse \<times> NanoAttachment" where
  "getAttachmentVerdictResponse a session_id =
     (let response = NanoAsyncFindResponse a session_id; a1 = NanoAsyncRemoveResponse a session_id
      in (if resp_session_id response = 0 then GenerateFailedVerdict a1 session_id else response, a1))"

definition IsFailedSessionIDQueueEmpty :: "NanoAttachment option \<Rightarrow> bool" where
  "IsFailedSessionIDQueueEmpty = NanoAsyncFailedSessionIDQueueIsEmpty"

definition PopFailedSessionID :: "NanoAttachment option \<Rightarrow> SessionID \<times> NanoAttachment option" where
  "PopFailedSessionID = NanoAsyncFailedSessionIDQueuePop"

section \<open>Keep-alive\<close>

definition SHARED_KEEP_ALIVE_PATH :: bytes where
  "SHARED_KEEP_ALIVE_PATH = string_bytes ''/dev/shm/check-point/cp-nano-attachment-registration-expiration-socket''"

definition connect_to_keep_alive_socket :: "os_answers \<Rightarrow> comm_world \<Rightarrow> int \<times> comm_world" where
  "connect_to_keep_alive_socket os w =
     (let k = w_calls w; sock = os_socket os k in
      if sock < 0 then (sock, step_call w)
      else if os_connect os k (sun_path SHARED_KEEP_ALIVE_PATH) then (sock, step_call w)
      else (-1, step_call w))"

definition keep_alive_fields :: "NanoAttachment \<Rightarrow> bytes list" where
  "keep_alive_fields a =
     (let id_size = (of_nat (length (container_id a)) :: u8)
      in [[worker_id a], [id_size]] @ (if id_size > 0 then [take (unat id_size) (string_bytes (container_id a))] else []))"

definition send_keep_alive_to_alive_socket ::
    "os_answers \<Rightarrow> nat \<Rightarrow> int \<Rightarrow> comm_world \<Rightarrow> (NanoCommunicationResult \<times> comm_world) option" where
  "send_keep_alive_to_alive_socket os rounds sock w =
     do {
       (res, _, w1) \<leftarrow> write_fields os rounds w sock (keep_alive_fields (w_attachment w));
       Some (res, w1)
     }"

definition SendKeepAlive :: "os_answers \<Rightarrow> nat \<Rightarrow> comm_world \<Rightarrow> comm_world option" where
  "SendKeepAlive os rounds w =
     (case connect_to_keep_alive_socket os w of
        (sock, w1) \<Rightarrow>
          if sock < 0 then Some w1
          else map_option snd (send_keep_alive_to_alive_socket os rounds sock w1))"

section \<open>Reading a response\<close>

text \<open>\<open>None\<close> is the dereference of a \<open>NULL\<close> pointer, or a read of memory nothing was written to.\<close>

definition GetWebResponseType :: "AttachmentVerdictResponse \<Rightarrow> NanoWebResponseType" where
  "GetWebResponseType response =
     (case resp_web_response_data response of None \<Rightarrow> NO_WEB_RESPONSE | Some web \<Rightarrow> web_response_type web)"

definition IsResponseWithModification :: "AttachmentVerdictResponse \<Rightarrow> bool" where
  "IsResponseWithModification response = (resp_modifications response \<noteq> [])"

definition GetResponseModifications :: "AttachmentVerdictResponse option \<Rightarrow> NanoHttpModification list" where
  "GetResponseModifications response = (case response of None \<Rightarrow> [] | Some r \<Rightarrow> resp_modifications r)"

text \<open>
  A block page in its eight parts, of which the four fixed texts of \<open>nano_blockpage.h\<close> are an argument. For a
  response of another type all parts are empty.
\<close>

record blockpage_texts =
  title_prefix :: bytes
  body_prefix :: bytes
  uuid_prefix :: bytes
  uuid_suffix :: bytes

record BlockPageData = blockpage_texts +
  bp_response_code :: u16
  bp_title :: bytes
  bp_body :: bytes
  bp_uuid :: bytes

definition empty_page :: BlockPageData where
  "empty_page = \<lparr>title_prefix = [], body_prefix = [], uuid_prefix = [], uuid_suffix = [], bp_response_code = 0,
                 bp_title = [], bp_body = [], bp_uuid = []\<rparr>"

definition GetBlockPage :: "blockpage_texts \<Rightarrow> AttachmentVerdictResponse \<Rightarrow> BlockPageData option" where
  "GetBlockPage texts response =
     do {
       web \<leftarrow> resp_web_response_data response;
       if web_response_type web \<noteq> CUSTOM_WEB_RESPONSE then Some empty_page
       else
         (case (wr_data web, wr_uuid web) of
            (CustomResponseData code title body, Some uuid) \<Rightarrow>
              Some \<lparr>title_prefix = c_string (title_prefix texts), body_prefix = c_string (body_prefix texts),
                    uuid_prefix = c_string (uuid_prefix texts), uuid_suffix = c_string (uuid_suffix texts),
                    bp_response_code = code, bp_title = c_string title, bp_body = c_string body, bp_uuid = c_string uuid\<rparr>
          | _ \<Rightarrow> None)
     }"

text \<open>The code is the first two bytes of what the data point to, whatever the type of the response.\<close>

definition GetResponseCode :: "AttachmentVerdictResponse \<Rightarrow> u16 option" where
  "GetResponseCode response =
     do {
       web \<leftarrow> resp_web_response_data response;
       (case wr_data web of
          CustomResponseData code _ _ \<Rightarrow> Some code
        | ResponseCode code \<Rightarrow> Some code
        | CustomResponseWithHeaders code _ _ \<Rightarrow> Some code
        | RedirectData location \<Rightarrow>
            if location = [] then None else Some (get16 (\<lambda>i. if i < length location then location ! i else 0) 0))
     }"

definition GetRedirectPage :: "AttachmentVerdictResponse \<Rightarrow> bytes option" where
  "GetRedirectPage response =
     do {
       web \<leftarrow> resp_web_response_data response;
       if web_response_type web \<noteq> REDIRECT_WEB_RESPONSE then Some []
       else (case wr_data web of RedirectData location \<Rightarrow> Some (c_string location) | _ \<Rightarrow> None)
     }"

definition GetCustomResponseWithHeaders :: "AttachmentVerdictResponse \<Rightarrow> response_payload option" where
  "GetCustomResponseWithHeaders response =
     (case resp_web_response_data response of
        None \<Rightarrow> None
      | Some web \<Rightarrow> if web_response_type web \<noteq> CUSTOM_RESPONSE_WITH_HEADERS then None else Some (wr_data web))"

definition FreeAttachmentResponseContent ::
    "HttpSessionData option \<Rightarrow> AttachmentVerdictResponse option \<Rightarrow> AttachmentVerdictResponse option" where
  "FreeAttachmentResponseContent session_data response =
     (if session_data = None then response
      else map_option (\<lambda>r. r\<lparr>resp_web_response_data := None, resp_modifications := []\<rparr>) response)"

section \<open>Reading an attachment\<close>

text \<open>Each reader has an answer for a \<open>NULL\<close> pointer.\<close>

definition att_field :: "'b \<Rightarrow> (NanoAttachment \<Rightarrow> 'b) \<Rightarrow> NanoAttachment option \<Rightarrow> 'b" where
  "att_field missing f attachment = (case attachment of None \<Rightarrow> missing | Some a \<Rightarrow> f a)"

definition GetCommSocket :: "NanoAttachment option \<Rightarrow> int" where
  "GetCommSocket = att_field (-1) comm_socket"

definition GetRequestProcessingTimeout :: "NanoAttachment option \<Rightarrow> u32" where
  "GetRequestProcessingTimeout = att_field 3000 req_max_proccessing_ms_time"

definition GetResponseProcessingTimeout :: "NanoAttachment option \<Rightarrow> u32" where
  "GetResponseProcessingTimeout = att_field 3000 res_max_proccessing_ms_time"

definition GetSharedVerdictSignalPath :: "NanoAttachment option \<Rightarrow> bytes option" where
  "GetSharedVerdictSignalPath = att_field None (\<lambda>a. Some (c_string (shared_verdict_signal_path a)))"

definition GetWorkerId :: "NanoAttachment option \<Rightarrow> u8" where
  "GetWorkerId = att_field 0 worker_id"

definition GetAttachmentType :: "NanoAttachment option \<Rightarrow> u8" where
  "GetAttachmentType = att_field 0 attachment_type"

definition GetFailModeVerdict :: "NanoAttachment option \<Rightarrow> NanoCommunicationResult" where
  "GetFailModeVerdict = att_field NANO_OK fail_mode_verdict"

definition GetFailModeDelayedVerdict :: "NanoAttachment option \<Rightarrow> NanoCommunicationResult" where
  "GetFailModeDelayedVerdict = att_field NANO_OK fail_mode_delayed_verdict"

definition GetNumOfConnectionAttempts :: "NanoAttachment option \<Rightarrow> u32" where
  "GetNumOfConnectionAttempts = att_field 0 num_of_connection_attempts"

definition GetFailOpenTimeout :: "NanoAttachment option \<Rightarrow> u32" where
  "GetFailOpenTimeout = att_field 50 fail_open_timeout"

definition GetFailOpenDelayedTimeout :: "NanoAttachment option \<Rightarrow> u32" where
  "GetFailOpenDelayedTimeout = att_field 150 fail_open_delayed_timeout"

definition GetSessionsPerMinuteLimitVerdict :: "NanoAttachment option \<Rightarrow> AttachmentVerdict" where
  "GetSessionsPerMinuteLimitVerdict = att_field ATTACHMENT_VERDICT_ACCEPT sessions_per_minute_limit_verdict"

definition GetMaxSessionsPerMinute :: "NanoAttachment option \<Rightarrow> u32" where
  "GetMaxSessionsPerMinute = att_field 0 max_sessions_per_minute"

definition GetRegistrationThreadTimeout :: "NanoAttachment option \<Rightarrow> u32" where
  "GetRegistrationThreadTimeout = att_field 100 registration_thread_timeout_msec"

definition GetReqStartThreadTimeout :: "NanoAttachment option \<Rightarrow> u32" where
  "GetReqStartThreadTimeout = att_field 100 req_start_thread_timeout_msec"

definition GetReqHeaderThreadTimeout :: "NanoAttachment option \<Rightarrow> u32" where
  "GetReqHeaderThreadTimeout = att_field 100 req_header_thread_timeout_msec"

definition GetReqBodyThreadTimeout :: "NanoAttachment option \<Rightarrow> u32" where
  "GetReqBodyThreadTimeout = att_field 150 req_body_thread_timeout_msec"

definition GetResHeaderThreadTimeout :: "NanoAttachment option \<Rightarrow> u32" where
  "GetResHeaderThreadTimeout = att_field 100 res_header_thread_timeout_msec"

definition GetResBodyThreadTimeout :: "NanoAttachment option \<Rightarrow> u32" where
  "GetResBodyThreadTimeout = att_field 150 res_body_thread_timeout_msec"

definition GetWaitingForVerdictThreadTimeout :: "NanoAttachment option \<Rightarrow> u32" where
  "GetWaitingForVerdictThreadTimeout = att_field 150 waiting_for_verdict_thread_timeout_msec"

definition GetHoldVerdictRetries :: "NanoAttachment option \<Rightarrow> u32" where
  "GetHoldVerdictRetries = att_field 10 hold_verdict_retries"

definition GetHoldVerdictPollingTime :: "NanoAttachment option \<Rightarrow> u32" where
  "GetHoldVerdictPollingTime = att_field 1 hold_verdict_polling_time"

definition GetMetricTimeout :: "NanoAttachment option \<Rightarrow> u32" where
  "GetMetricTimeout = att_field 100 metric_timeout_timeout"

definition GetNumOfNanoIpcElements :: "NanoAttachment option \<Rightarrow> u32" where
  "GetNumOfNanoIpcElements = att_field 200 num_of_nano_ipc_elements"

definition GetKeepAliveInterval :: "NanoAttachment option \<Rightarrow> u64" where
  "GetKeepAliveInterval = att_field 0 keep_alive_interval_msec"

definition GetIsAsyncModeEnabled :: "NanoAttachment option \<Rightarrow> u32" where
  "GetIsAsyncModeEnabled = att_field 0 is_async_mode_enabled"

end
