(* ===== verification/Io_Properties.thy ===== *)
theory Io_Properties
  imports Nano_Interface Ipc_Properties Nano_Properties
begin

text \<open>
  Properties of sending, signalling and receiving (\<open>Nano_Io\<close>, \<open>Nano_Senders\<close>) and of the inspections
  built from them (\<open>Nano_Sender\<close>), each with the concrete input it is applied to.
\<close>

section \<open>An attachment with an empty channel\<close>

definition sending :: "comm_world \<Rightarrow> comm_world" where
  "sending w = att_update (\<lambda>a. a\<lparr>is_async_mode_enabled := 0, nano_service_ipc := Some sample_channel\<rparr>)
     (w\<lparr>w_process := sample_process\<rparr>)"

lemma sending_channel:
  "get_nano_service_ipc (w_attachment (sending w)) usage_mode = Some sample_channel"
  "w_process (sending w) = sample_process" "is_async_mode_enabled (w_attachment (sending w)) = 0"
  by (simp_all add: sending_def get_nano_service_ipc_def att_update_def)

lemma small_geometry: "geometry_ok 1024 1024 4"
  by (simp add: geometry_ok_def ring_constants)

lemma sending_empty: "to_service usage_mode (sending w) []"
  using sample_holds_2 [OF small_geometry] by (simp add: channel_contents sending_channel sample_channel_def)

lemma sending_room:
  assumes "0 < length m" "length m \<le> 1024"
  shows "valid_msg m" "room_to_service usage_mode (sending w) m"
proof -
  have "(length m + 1023) div 1024 = 1"
    using assms by (intro div_nat_eqI) (simp_all add: Suc_le_eq)
  then have m: "valid_msg (concat [m])" "nsegs 1024 (concat [m]) = 1"
    using assms by (simp_all add: valid_msg_def max_write_size_def getNumOfDataSegmentsNeeded_def)
  then show "valid_msg m" by simp
  show "room_to_service usage_mode (sending w) m"
    using room_before_end(1) [OF sample_rep_2 [OF small_geometry] m(1)] m
    by (simp add: channel_contents sending_channel sample_channel_def room_2_def sample_process_def)
qed

lemma sending_accepts:
  assumes "0 < length (concat m)" "length (concat m) \<le> 1024"
  shows "all_accepted (room_to_service usage_mode) (send_session_data_to_service os rounds sid t usage_mode) (sending w) [m]"
proof -
  obtain w' where "send_session_data_to_service os rounds sid t usage_mode m (sending w) = Some (NANO_OK, w')"
    using service_sink.accepts [OF sending_empty sending_room [OF assms]] by blast
  then show ?thesis using sending_room [OF assms] by simp
qed

section \<open>Headers\<close>

lemma header_sender_sends:
  assumes "to_service usage_mode w ms"
    and "all_accepted (room_to_service usage_mode) (send_session_data_to_service os rounds sid t usage_mode) w
           (header_bulks 1 t sid 0 headers)"
  shows "\<exists>w'. nano_header_sender os rounds headers t sid False usage_mode (w, ctx)
             = Some (count_sent (of_nat (length (header_bulks 1 t sid 0 headers))) usage_mode (w', ctx))
           \<and> to_service usage_mode w' (ms @ map concat (header_bulks 1 t sid 0 headers))"
proof -
  let ?bulks = "header_bulks 1 t sid 0 headers" and ?elems = "replicate (HEADER_DATA_COUNT * MAX_HEADER_BULK_SIZE + 4) []"
  have "length ?elems = 44" by (simp add: header_limits)
  then obtain w' where
    "header_loop (send_session_data_to_service os rounds sid t usage_mode) t sid headers ?elems 0 0 w = Some (NANO_OK, length ?bulks, w')"
    "to_service usage_mode w' (ms @ map concat ?bulks)"
    using service_sink.header_loop_sends [OF assms(1), of ?elems "[]" headers os rounds sid t t sid 0] assms(2) by auto
  then show ?thesis by (intro exI [of _ w']) (simp add: nano_header_sender_def Let_def)
qed

text \<open>
  C10. Headers of a request or response that find room are sent in bulks of at most ten, as many as
  there are tens of headers, rounded up, appended to what is on its way to the service; the number of
  replies to expect goes up by the number of bulks, and the service, reading the bulks one after the
  other, gets exactly these headers in this order, when no name or value is longer than 65535 bytes.
\<close>

theorem headers_sent_in_bulks:
  assumes "to_service usage_mode w ms" "list_all header_fits headers"
    and "all_accepted (room_to_service usage_mode) (send_session_data_to_service os rounds sid t usage_mode) w
           (header_bulks 1 t sid 0 headers)"
  shows "\<exists>w' bulks. nano_header_sender os rounds headers t sid False usage_mode (w, ctx)
             = Some (count_sent (of_nat (length bulks)) usage_mode (w', ctx))
           \<and> to_service usage_mode w' (ms @ bulks) \<and> length bulks = (length headers + 9) div 10
           \<and> concat (map (\<lambda>m. read_headers (drop 8 m)) bulks) = headers"
proof -
  let ?bulks = "map concat (header_bulks 1 t sid 0 headers)"
  obtain w' where "nano_header_sender os rounds headers t sid False usage_mode (w, ctx)
      = Some (count_sent (of_nat (length ?bulks)) usage_mode (w', ctx))" "to_service usage_mode w' (ms @ ?bulks)"
    using header_sender_sends [OF assms(1,3), of ctx] by auto
  then show ?thesis
    using read_header_bulks [OF assms(2), of 1 t sid 0]
    by (intro exI [of _ w'] exI [of _ ?bulks]) (simp add: header_bulks_count comp_def)
qed

theorem headers_sent_in_bulks_witness:
  "\<forall>os w ctx. \<exists>w' m. nano_header_sender os 9 [([104], [1, 2]), ([], [3])] REQUEST_HEADER 77 False SIGNAL_USAGE_SYNC (sending w, ctx)
       = Some (count_sent 1 SIGNAL_USAGE_SYNC (w', ctx))
     \<and> to_service SIGNAL_USAGE_SYNC w' [m] \<and> read_headers (drop 8 m) = [([104], [1, 2]), ([], [3])]"
proof (intro allI)
  fix os w ctx
  let ?hs = "[([104], [1, 2]), ([], [3])] :: HttpHeaderData list"
  have bulks: "header_bulks (Suc 0) REQUEST_HEADER 77 0 ?hs = [bulk_fragments REQUEST_HEADER 77 True 0 ?hs]"
    by (simp add: header_bulks.simps)
  have "0 < length (concat (bulk_fragments REQUEST_HEADER 77 True 0 ?hs))"
    "length (concat (bulk_fragments REQUEST_HEADER 77 True 0 ?hs)) \<le> 1024"
    by (simp_all add: bulk_fragments_def header_fragments_def sized_def)
  note accepted = sending_accepts [OF this, of SIGNAL_USAGE_SYNC os 9 77 REQUEST_HEADER w]
  have "list_all header_fits ?hs" by (simp add: header_fits_def)
  from headers_sent_in_bulks [OF sending_empty this, of SIGNAL_USAGE_SYNC os 9 77 REQUEST_HEADER w ctx] accepted
  obtain w' m where "nano_header_sender os 9 ?hs REQUEST_HEADER 77 False SIGNAL_USAGE_SYNC (sending w, ctx)
       = Some (count_sent 1 SIGNAL_USAGE_SYNC (w', ctx))"
     "to_service SIGNAL_USAGE_SYNC w' [m]" "read_headers (drop 8 m) = ?hs"
    by (auto simp: bulks length_Suc_conv)
  then show "\<exists>w' m. nano_header_sender os 9 ?hs REQUEST_HEADER 77 False SIGNAL_USAGE_SYNC (sending w, ctx)
       = Some (count_sent 1 SIGNAL_USAGE_SYNC (w', ctx))
     \<and> to_service SIGNAL_USAGE_SYNC w' [m] \<and> read_headers (drop 8 m) = ?hs"
    by blast
qed

section \<open>Bodies\<close>

text \<open>
  C11. A body of at most 255 chunks, each shorter than 64 KiB, that finds room is sent as one message
  per chunk, in order: the loop ends, the messages carry the chunks unchanged behind eight bytes of
  which the seventh is 1 for the last chunk only and the eighth is the index, and the number of
  replies to expect goes up by the number of chunks.
\<close>

theorem body_chunks_sent:
  assumes "to_service usage_mode w ms" "length bodies \<le> 255" "length bodies \<le> rounds"
    and "list_all (\<lambda>b. length b < 65536) bodies"
    and "all_accepted (room_to_service usage_mode) (send_session_data_to_service os rounds sid t usage_mode) w
           (body_messages t sid bodies)"
  shows "\<exists>w' msgs. nano_body_sender os rounds bodies t sid False usage_mode (w, ctx)
             = Some (set_res NANO_OK (count_sent (of_nat (length bodies)) usage_mode (w', ctx)))
           \<and> to_service usage_mode w' (ms @ msgs) \<and> map (drop 8) msgs = bodies
           \<and> map (\<lambda>m. (m ! 6, m ! 7)) msgs = map (\<lambda>i. (if i = length bodies - 1 then 1 else 0, of_nat i)) [0..<length bodies]"
proof -
  obtain w' where
    loop: "body_loop (send_session_data_to_service os rounds sid t usage_mode) t sid bodies rounds 0 False w
      = Some (NANO_OK, of_nat (length bodies), w')"
    "to_service usage_mode w' (ms @ map concat (body_messages t sid bodies))"
    using service_sink.body_loop_sends [OF assms(1,2), of 0 rounds False os rounds sid t t sid] assms(3,5) by auto
  have count: "ucast (of_nat (length bodies) :: u8) = (of_nat (length bodies) :: u32)"
    using assms(2) by (simp add: unsigned_of_nat take_bit_nat_eq_self)
  have chunk: "drop 8 (concat (chunk_fragments t sid n i b)) = b" if "length b < 65536" for n i b
    using that by (simp add: chunk_fragments_def)
  have "map (drop 8) (map concat (body_messages t sid bodies)) = bodies"
    using assms(4) by (auto simp: body_messages_def chunk list_all_length intro!: nth_equalityI)
  moreover have "map (\<lambda>m. (m ! 6, m ! 7)) (map concat (body_messages t sid bodies))
      = map (\<lambda>i. (if i = length bodies - 1 then 1 else 0, of_nat i)) [0..<length bodies]"
    by (auto simp: body_messages_def chunk_fragments_def nth_append)
  ultimately show ?thesis
    using loop by (intro exI [of _ w'] exI [of _ "map concat (body_messages t sid bodies)"])
      (simp add: nano_body_sender_def count Let_def)
qed

theorem body_chunks_sent_witness:
  "\<forall>os w ctx. \<exists>w' m. nano_body_sender os 9 [[1, 2, 3]] REQUEST_BODY 77 False SIGNAL_USAGE_SYNC (sending w, ctx)
       = Some (set_res NANO_OK (count_sent 1 SIGNAL_USAGE_SYNC (w', ctx)))
     \<and> to_service SIGNAL_USAGE_SYNC w' [m] \<and> drop 8 m = [1, 2, 3] \<and> m ! 6 = 1 \<and> m ! 7 = 0"
proof (intro allI)
  fix os w ctx
  let ?m = "chunk_fragments REQUEST_BODY 77 1 0 [1, 2, 3]"
  have "0 < length (concat ?m)" "length (concat ?m) \<le> 1024" by (simp_all add: chunk_fragments_def)
  note accepted = sending_accepts [OF this, of SIGNAL_USAGE_SYNC os 9 77 REQUEST_BODY w]
  have messages: "body_messages REQUEST_BODY 77 [[1, 2, 3]] = [?m]" by (simp add: body_messages_def)
  from body_chunks_sent [OF sending_empty, of "[[1, 2, 3]]" 9 SIGNAL_USAGE_SYNC os 77 REQUEST_BODY w ctx] accepted
  obtain w' m where "nano_body_sender os 9 [[1, 2, 3]] REQUEST_BODY 77 False SIGNAL_USAGE_SYNC (sending w, ctx)
       = Some (set_res NANO_OK (count_sent 1 SIGNAL_USAGE_SYNC (w', ctx)))"
     "to_service SIGNAL_USAGE_SYNC w' [m]" "drop 8 m = [1, 2, 3]" "m ! 6 = 1" "m ! 7 = 0"
    unfolding messages by auto
  then show "\<exists>w' m. nano_body_sender os 9 [[1, 2, 3]] REQUEST_BODY 77 False SIGNAL_USAGE_SYNC (sending w, ctx)
       = Some (set_res NANO_OK (count_sent 1 SIGNAL_USAGE_SYNC (w', ctx)))
     \<and> to_service SIGNAL_USAGE_SYNC w' [m] \<and> drop 8 m = [1, 2, 3] \<and> m ! 6 = 1 \<and> m ! 7 = 0" by blast
qed

text \<open>
  C40. The loop over the chunks of a body does not end when there are more than 255 of them and the
  service takes every message: the index is an 8-bit number that never reaches the number of
  chunks. However many rounds it is given, it has not returned.
\<close>

theorem long_body_never_ends:
  assumes "255 < length bodies" and "\<And>m w. \<exists>w'. send m w = Some (NANO_OK, w')"
  shows "body_loop send t sid bodies rounds 0 False w = None"
  using assms by (rule body_loop_runs_on)

theorem long_body_never_ends_witness:
  "body_loop (\<lambda>m sent. Some (NANO_OK, sent @ [concat m])) REQUEST_BODY 77 (replicate 256 [1]) 100000 0 False [] = None"
  by (rule long_body_never_ends) simp_all

section \<open>Verdicts\<close>

lemma event_message:
  "send_small_message os rounds t [] sid usage_mode =
     send_session_data_to_service os rounds sid t usage_mode [le16 (data_type_code t), le32 sid]"
  by (rule ext) (simp add: send_small_message_def set_identifiers)

lemma run_without_thread:
  "inspection_mode (w_attachment w) = NO_THREAD \<Longrightarrow>
     run_sender_thread os f timeout t d w = map_option (Pair True) (f (w, init_thread_ctx d))"
  by (simp add: run_sender_thread_def NanoRunInThreadTimeout_def NanoRunInWithoutThreadTimeout_def)

lemma settle_pending:
  assumes "remaining_messages_to_reply (sc_session c) \<noteq> 0" "sc_mods c = []"
    and "signal_until_answered os rounds (sd_session_id (sc_session c)) chunk_type w = Some (NANO_OK, w1)"
    and "list_all sound_reply rs" "length rs \<le> rounds" "\<And>k i. os_alloc os k i"
    and "from_service usage_mode w1 (map reply_bytes rs @ later)"
    and "settle (sd_session_id (sc_session c)) (remaining_messages_to_reply (sc_session c)) (sd_verdict (sc_session c)) rs
           = Some (v, page, left_over)"
  shows "\<exists>w'. service_reply_receiver os rounds chunk_type usage_mode c w = Some (settled_result page, settled v page c, w')
           \<and> from_service usage_mode w' (map reply_bytes left_over @ later)"
  using receive_replies_settle [OF assms(4,7,8,5,2,6)] assms(1,3) by (simp add: service_reply_receiver_def)

text \<open>
  C12. The replies of the service settle a session as the list of replies says: replies for other
  sessions are dropped; an accept ends the session at once, and so does a drop, which stores its page and
  answers with the result for a forbidden request; otherwise as many replies are read as messages were sent
  and the last one decides. The session expects no more replies and the queue is left with what came after.
  The conditions: the session expects replies, the service answers the signal and its replies decide
  the session, no reply is an injection, a custom response with headers or a reconfiguration, the page of a drop keeps
  the limits, the session holds no modifications and the allocations succeed.
\<close>

theorem replies_settle_session:
  assumes "remaining_messages_to_reply (sc_session c) \<noteq> 0" "sc_mods c = []"
    and "signal_until_answered os rounds (sd_session_id (sc_session c)) chunk_type w = Some (NANO_OK, w1)"
    and "list_all sound_reply rs" "length rs \<le> rounds" "\<And>k i. os_alloc os k i"
    and "from_service usage_mode w1 (map reply_bytes rs @ later)"
    and "settle (sd_session_id (sc_session c)) (remaining_messages_to_reply (sc_session c)) (sd_verdict (sc_session c)) rs
           = Some (v, page, left_over)"
  shows "\<exists>w'. service_reply_receiver os rounds chunk_type usage_mode c w = Some (settled_result page, settled v page c, w')
           \<and> from_service usage_mode w' (map reply_bytes left_over @ later)"
  using assms by (rule settle_pending)

text \<open>A service that acknowledges the signal of a session and leaves \<open>q\<close> in the queue of replies.\<close>

definition answering :: "SessionID \<Rightarrow> SharedRingQueue \<Rightarrow> os_answers \<Rightarrow> os_answers" where
  "answering sid q os =
     os\<lparr>os_poll := \<lambda>_. (0, False), os_timeout := \<lambda>_. False, os_write := \<lambda>_. 4, os_poll_ack := \<lambda>_ _. 1,
        os_read := \<lambda>_. Some (le32 sid), os_service := \<lambda>_ i. i\<lparr>rx_queue_2 := Some q\<rparr>,
        os_alloc := \<lambda>_ _. True\<rparr>"

definition both_ways :: "SharedRingQueue \<Rightarrow> SharedRingQueue \<Rightarrow> SharedMemoryIPC_2" where
  "both_ways rx tx =
     sample_channel\<lparr>rx_queue_2 := Some rx, tx_queue_2 := Some tx, global_data := (sample_data 4)\<lparr>g_tx_location_name := ''q''\<rparr>\<rparr>"

definition connected :: "SharedMemoryIPC_2 \<Rightarrow> comm_world \<Rightarrow> comm_world" where
  "connected ipc w = att_update (\<lambda>a. a\<lparr>is_async_mode_enabled := 0, inspection_mode := NO_THREAD, nano_service_ipc := Some ipc\<rparr>)
     (w\<lparr>w_process := sample_process\<rparr>)"

lemma le32_reply: "signal_reply os k (le32 sid) = sid"
proof -
  have "bytes_at (\<lambda>i. if i < length (le32 sid) then le32 sid ! i else os_stack os k i) 0 (le32 sid)"
    by (auto simp: bytes_at_def intro!: read_bytes_eqI)
  then show ?thesis unfolding signal_reply_def by (rule get32_at)
qed

lemma answered:
  assumes "get_nano_service_ipc (w_attachment w) SIGNAL_USAGE_SYNC = Some i" "is_async_mode_enabled (w_attachment w) = 0" "2 \<le> rounds"
  shows "\<exists>w'. signal_until_answered (answering sid q os) rounds sid t w = Some (NANO_OK, w')
           \<and> w_process w' = w_process w
           \<and> get_nano_service_ipc (w_attachment w') SIGNAL_USAGE_SYNC = Some (i\<lparr>rx_queue_2 := Some q\<rparr>)"
proof -
  let ?os = "answering sid q os"
  obtain n where n: "rounds = Suc (Suc n)" using assms(3) by (auto dest!: le_Suc_ex simp: numeral_2_eq_2)
  have os: "os_poll ?os k = (0, False)" "\<not> os_timeout ?os k" "os_write ?os k = 4" "os_poll_ack ?os k x = 1"
    "os_read ?os k = Some (le32 sid)" "os_service ?os k = (\<lambda>i. i\<lparr>rx_queue_2 := Some q\<rparr>)" for k x
    by (simp_all add: answering_def)
  have "le32 sid \<noteq> []" by (simp add: le32_def le16_def)
  then have written: "\<exists>w'. write_signal ?os (Suc n) b SIGNAL_USAGE_SYNC sock w (le32 sid) = Some (NANO_OK, w')
      \<and> w_process w' = w_process w \<and> w_attachment w' = w_attachment w" for b sock w
    by (simp add: write_signal.simps [of _ "Suc n"] write_signal.simps [of _ n] os Let_def step_call_def)
  obtain w1 where w1: "notify_signal_to_service ?os (Suc n) sid SIGNAL_USAGE_SYNC w = Some (NANO_OK, w1)"
      "w_process w1 = w_process w" "w_attachment w1 = w_attachment w"
    using written [of "inspection_mode (w_attachment w) = NON_BLOCKING_THREAD" "get_comm_socket (w_attachment w) SIGNAL_USAGE_SYNC" "step_call w"]
    by (auto simp: notify_signal_to_service_def os Let_def step_call_def)
  have ack: "wait_for_ack ?os 3 timeout sid w1 = (NANO_OK, step_call (service_acts ?os w1))" for timeout
    by (simp add: numeral_3_eq_3 os Let_def le32_reply)
  show ?thesis
    using w1 assms
    by (simp add: n signal_for_session_data_def ack)
      (simp add: service_acts_def step_call_def att_update_def get_nano_service_ipc_def os)
qed

lemma connected_channel [simp]:
  "get_nano_service_ipc (w_attachment (connected ipc w)) usage_mode = Some ipc"
  "w_process (connected ipc w) = sample_process" "is_async_mode_enabled (w_attachment (connected ipc w)) = 0"
  "inspection_mode (w_attachment (connected ipc w)) = NO_THREAD" "nano_service_ipc (w_attachment (connected ipc w)) = Some ipc"
  by (simp_all add: connected_def get_nano_service_ipc_def att_update_def)

lemma both_ways_data:
  "global_data (both_ways rx tx) = (sample_data 4)\<lparr>g_tx_location_name := ''q''\<rparr>"
  "rx_queue_2 (both_ways rx tx) = Some rx" "tx_queue_2 (both_ways rx tx) = Some tx"
  by (simp_all add: both_ways_def)

lemma renamed_data: "holds_2 (P, gd\<lparr>g_tx_location_name := n\<rparr>, q) ms = holds_2 (P, gd, q) ms"
  by (simp add: holds_2_def queue_bound_2_def)

text \<open>A page of a drop with the code 403, the title \<open>[1]\<close>, the body \<open>[2]\<close> and the incident id \<open>[3]\<close>.\<close>

definition small_page :: drop_page where
  "small_page = PageOfTexts 403 [1] [2] [3]"

lemma small_page_fits: "page_fits small_page"
  by (simp add: small_page_def reply_limits incident_prefix_def)

lemma one_reply:
  "\<exists>q. holds_2 (sample_process, (sample_data 4)\<lparr>g_tx_location_name := ''q''\<rparr>, q) [reply_bytes (PlainReply v, sid)]"
  "\<exists>q. holds_2 (sample_process, (sample_data 4)\<lparr>g_tx_location_name := ''q''\<rparr>, q) [reply_bytes (DropReply small_page, sid)]"
  using one_message_queue [of "reply_bytes (PlainReply v, sid)"] one_message_queue [of "reply_bytes (DropReply small_page, sid)"]
  by (simp_all add: pack_reply_def renamed_data small_page_def)

text \<open>The signal of a session is answered and one reply is in the queue.\<close>

lemma answered_with:
  assumes "holds_2 (sample_process, (sample_data 4)\<lparr>g_tx_location_name := ''q''\<rparr>, q) [reply_bytes r]"
  obtains w1 where
    "signal_until_answered (answering 77 q os) 2 77 REQUEST_END (connected (both_ways (sample_queue_2 4) (sample_queue_2 4)) w)
       = Some (NANO_OK, w1)"
    "from_service SIGNAL_USAGE_SYNC w1 (map reply_bytes [r] @ [])"
proof -
  let ?ipc = "both_ways (sample_queue_2 4) (sample_queue_2 4)"
  obtain w1 where signal: "signal_until_answered (answering 77 q os) 2 77 REQUEST_END (connected ?ipc w) = Some (NANO_OK, w1)"
    "w_process w1 = sample_process"
    "get_nano_service_ipc (w_attachment w1) SIGNAL_USAGE_SYNC = Some (?ipc\<lparr>rx_queue_2 := Some q\<rparr>)"
    using answered [OF connected_channel(1,3), of 2 77 q os REQUEST_END] by (auto simp only: connected_channel)
  then have "from_service SIGNAL_USAGE_SYNC w1 (map reply_bytes [r] @ [])"
    using assms by (simp add: channel_contents both_ways_data)
  then show thesis by (rule that [OF signal(1)])
qed

theorem replies_settle_session_witness:
  "\<forall>os w. \<forall>c :: session_ctx. \<exists>q w'. service_reply_receiver (answering 77 q os) 2 REQUEST_END SIGNAL_USAGE_SYNC
        (c\<lparr>sc_session := (sc_session c)\<lparr>sd_session_id := 77, remaining_messages_to_reply := 3\<rparr>, sc_mods := []\<rparr>)
        (connected (both_ways (sample_queue_2 4) (sample_queue_2 4)) w)
      = Some (NANO_HTTP_FORBIDDEN, c\<lparr>sc_mods := [], sc_session := (sc_session c)\<lparr>sd_session_id := 77, sd_verdict := TRAFFIC_VERDICT_DROP,
          remaining_messages_to_reply := 0\<rparr>, sc_web := Some (page_web small_page)\<rparr>, w')"
proof (intro allI)
  fix os w and c :: session_ctx
  let ?w = "connected (both_ways (sample_queue_2 4) (sample_queue_2 4)) w"
  let ?c = "c\<lparr>sc_session := (sc_session c)\<lparr>sd_session_id := 77, remaining_messages_to_reply := 3\<rparr>, sc_mods := []\<rparr>"
  obtain q where q: "holds_2 (sample_process, (sample_data 4)\<lparr>g_tx_location_name := ''q''\<rparr>, q)
      [reply_bytes (DropReply small_page, 77)]" using one_reply(2) by blast
  from answered_with [OF q] obtain w1 where signal: "signal_until_answered (answering 77 q os) 2 77 REQUEST_END ?w = Some (NANO_OK, w1)"
    "from_service SIGNAL_USAGE_SYNC w1 (map reply_bytes [(DropReply small_page, 77)] @ [])" .
  have "os_alloc (answering 77 q os) k i" for k i by (simp add: answering_def)
  from replies_settle_session [OF _ _ _ _ _ this signal(2), of ?c 2 REQUEST_END ?w TRAFFIC_VERDICT_DROP "Some small_page" "[]"]
  show "\<exists>q w'. service_reply_receiver (answering 77 q os) 2 REQUEST_END SIGNAL_USAGE_SYNC ?c ?w
      = Some (NANO_HTTP_FORBIDDEN, c\<lparr>sc_mods := [], sc_session := (sc_session c)\<lparr>sd_session_id := 77, sd_verdict := TRAFFIC_VERDICT_DROP,
          remaining_messages_to_reply := 0\<rparr>, sc_web := Some (page_web small_page)\<rparr>, w')"
    using signal(1) by (auto simp: settled_def settled_result_def small_page_fits)
qed

text \<open>
  C13. The verdict on the end of a request, from the call to its answer: with sound channels and
  inspections in the calling thread, when the message is accepted and the service answers the signal
  with the replies of the session, the caller gets the verdict these replies settle on, for its
  session, with the page of a drop, and the queue is left with what came after them. No reply is an injection,
  a custom response with headers or a reconfiguration, the page of a drop keeps the limits, the allocations
  succeed, and the replies do not settle on a delayed verdict, which would be polled for.
\<close>

theorem request_end_verdict:
  assumes "handle_shmem_corruption res0 os rounds w = Some (NANO_OK, w0)" "inspection_mode (w_attachment w0) = NO_THREAD"
    and "push_fragments os SIGNAL_USAGE_SYNC [le16 (data_type_code REQUEST_END), le32 (sd_session_id d)] w0 = (0, w1)"
    and "signal_until_answered os rounds (sd_session_id d) REQUEST_END w1 = Some (NANO_OK, w2)"
    and "list_all sound_reply rs" "length rs \<le> rounds" "\<And>k i. os_alloc os k i"
    and "from_service SIGNAL_USAGE_SYNC w2 (map reply_bytes rs @ later)"
    and "remaining_messages_to_reply d + 1 \<noteq> 0"
    and "settle (sd_session_id d) (remaining_messages_to_reply d + 1) (sd_verdict d) rs = Some (v, page, left_over)"
    and "v \<noteq> TRAFFIC_VERDICT_DELAYED"
  shows "\<exists>response w'. SendRequestEnd res0 os rounds d w
             = Some (response, d\<lparr>sd_verdict := v, remaining_messages_to_reply := 0\<rparr>, w')
           \<and> resp_verdict response = attachment_verdict v \<and> resp_session_id response = sd_session_id d
           \<and> resp_web_response_data response = map_option page_web page
           \<and> from_service SIGNAL_USAGE_SYNC w' (map reply_bytes left_over @ later)"
proof -
  let ?d = "d\<lparr>remaining_messages_to_reply := remaining_messages_to_reply d + 1\<rparr>"
  let ?ctx = "init_thread_ctx (Some d)"
  let ?c = "\<lparr>sc_session = ?d, sc_web = ctx_web_response_data ?ctx, sc_mods = ctx_modifications ?ctx\<rparr>"
  obtain w3 where w3: "service_reply_receiver os rounds REQUEST_END SIGNAL_USAGE_SYNC ?c w1 = Some (settled_result page, settled v page ?c, w3)"
    "from_service SIGNAL_USAGE_SYNC w3 (map reply_bytes left_over @ later)"
    using settle_pending [of ?c os rounds REQUEST_END w1 w2 rs SIGNAL_USAGE_SYNC later v page left_over] assms
    by (auto simp: init_thread_ctx_def)
  have "send_session_data_to_service os rounds (sd_session_id d) REQUEST_END SIGNAL_USAGE_SYNC
      [le16 (data_type_code REQUEST_END), le32 (sd_session_id d)] w0 = Some (NANO_OK, w1)"
    using assms(3) by (simp add: send_session_data_to_service_def numeral_eq_Suc)
  then have "SendRequestEndThread os rounds (w0, ?ctx) =
      Some (w3, ?ctx\<lparr>ctx_session_data_p := Some (d\<lparr>sd_verdict := v, remaining_messages_to_reply := 0\<rparr>), ctx_res := settled_result page,
        ctx_web_response_data := map_option page_web page\<rparr>)"
    using w3(1)
    by (simp add: SendRequestEndThread_def with_session_def init_thread_ctx_def nano_end_transaction_sender_def
        send_event_flag_def event_message count_sent_def handle_counter_new_message_sent_def ask_verdict_def settled_def split: option.split)
  then show ?thesis
    using assms(1,2,11) w3(2)
    by (simp add: settled_result_def SendRequestEnd_def inspect_with_def run_without_thread after_delay_def finalize_response_def
        successful_response_def on_attachment_def FinalizeSuccessfulResponse_def channel_contents)
qed

lemma sound_channel:
  assumes "num_of_data_segments tx = 4" "size_of_memory tx = g_memory_size (sample_data 4)"
    "read_pos tx \<le> 4" "write_pos tx \<le> 4" "shared_location_name tx = ''q''"
  shows "handle_shmem_corruption NANO_OK os rounds (connected (both_ways (sample_queue_2 4) tx) w)
    = Some (NANO_OK, connected (both_ways (sample_queue_2 4) tx) w)"
  using assms
  by (simp add: handle_shmem_corruption_def handle_ipc_corruption_sync_def handle_ipc_corruption_def isCorruptedShmem_2_def
      both_ways_data isCorruptedQueue_2_def sample_data_def not_less)

text \<open>A push that is accepted changes nothing but the sending queue.\<close>

lemma push_keeps:
  assumes "get_nano_service_ipc (w_attachment w) usage_mode = Some i" "push_fragments os usage_mode frags w = (0, w1)"
    "p_effective_size_initialized (w_process w)"
  shows "w_process w1 = w_process w \<and> is_async_mode_enabled (w_attachment w1) = is_async_mode_enabled (w_attachment w)
    \<and> (\<exists>q. get_nano_service_ipc (w_attachment w1) usage_mode = Some (i\<lparr>tx_queue_2 := q\<rparr>))"
proof -
  obtain P ipc where push: "sendChunkedData_2 (os_files os) (w_process w) (Some i) frags = (0, P, ipc)"
    and w1: "w1 = att_update (put_nano_service_ipc usage_mode ipc) (w\<lparr>w_process := P\<rparr>)"
    using assms(1,2) by (auto simp: push_fragments_def split: prod.splits)
  have "P = w_process w \<and> (\<exists>q. ipc = Some (i\<lparr>tx_queue_2 := q\<rparr>))"
    using push assms(3)
    by (auto simp: sendChunkedData_2_def pushBuffersToQueue_2_def getEffectiveSegmentSize_2_def Let_def
        split: option.splits prod.splits if_splits)
  then show ?thesis by (auto simp: w1 att_update_def)
qed

theorem request_end_verdict_witness:
  "\<forall>os w. \<forall>d :: HttpSessionData. \<exists>q response w'. SendRequestEnd NANO_OK (answering 77 q os) 2 (d\<lparr>sd_session_id := 77, remaining_messages_to_reply := 0\<rparr>)
        (connected (both_ways (sample_queue_2 4) (sample_queue_2 4)) w)
      = Some (response, d\<lparr>sd_session_id := 77, sd_verdict := TRAFFIC_VERDICT_ACCEPT, remaining_messages_to_reply := 0\<rparr>, w')
    \<and> resp_verdict response = ATTACHMENT_VERDICT_ACCEPT \<and> resp_session_id response = 77"
proof (intro allI)
  fix os w and d :: HttpSessionData
  let ?ipc = "both_ways (sample_queue_2 4) (sample_queue_2 4)"
  let ?w = "connected ?ipc w" and ?d = "d\<lparr>sd_session_id := 77, remaining_messages_to_reply := 0\<rparr>"
  let ?m = "[le16 (data_type_code REQUEST_END), le32 77]"
  obtain q where q: "holds_2 (sample_process, (sample_data 4)\<lparr>g_tx_location_name := ''q''\<rparr>, q) [reply_bytes (PlainReply 1, 77)]"
    using one_reply(1) by blast
  let ?os = "answering 77 q os"
  have empty: "to_service SIGNAL_USAGE_SYNC ?w []"
    using sample_holds_2 [OF small_geometry] by (simp add: channel_contents both_ways_data renamed_data)
  have m: "valid_msg (concat ?m)" "room_to_service SIGNAL_USAGE_SYNC ?w (concat ?m)"
    using sending_room(1) [of "concat ?m"] sending_room(2) [of "concat ?m" SIGNAL_USAGE_SYNC w]
    by (simp_all add: channel_contents both_ways_data sending_channel room_2_def sample_channel_def)
  obtain w1 where w1: "push_fragments ?os SIGNAL_USAGE_SYNC ?m ?w = (0, w1)"
    using push_fragments_appends [OF empty m] by blast
  obtain tx where w1_ipc: "w_process w1 = sample_process" "is_async_mode_enabled (w_attachment w1) = 0"
    "get_nano_service_ipc (w_attachment w1) SIGNAL_USAGE_SYNC = Some (?ipc\<lparr>tx_queue_2 := tx\<rparr>)"
    using push_keeps [OF connected_channel(1) w1] by (auto simp: sample_process_def)
  obtain w2 where signal: "signal_until_answered ?os 2 77 REQUEST_END w1 = Some (NANO_OK, w2)" "w_process w2 = sample_process"
    "get_nano_service_ipc (w_attachment w2) SIGNAL_USAGE_SYNC = Some (?ipc\<lparr>tx_queue_2 := tx, rx_queue_2 := Some q\<rparr>)"
    using answered [OF w1_ipc(3,2), of 2 77 q os REQUEST_END] w1_ipc(1) by auto
  then have replies: "from_service SIGNAL_USAGE_SYNC w2 (map reply_bytes [(PlainReply 1, 77)] @ [])"
    using q by (simp add: channel_contents both_ways_data)
  have alloc: "os_alloc ?os k i" for k i by (simp add: answering_def)
  have sound: "handle_shmem_corruption NANO_OK ?os 2 ?w = Some (NANO_OK, ?w)" by (rule sound_channel) simp_all
  have "list_all sound_reply [(PlainReply 1, 77 :: u32)]" by (simp add: plain_reply_def service_verdict_def)
  moreover have "settle 77 (remaining_messages_to_reply ?d + 1) (sd_verdict ?d) [(PlainReply 1, 77)] = Some (TRAFFIC_VERDICT_ACCEPT, None, [])"
    by (simp add: service_verdict_def)
  ultimately obtain response w' where
    "SendRequestEnd NANO_OK ?os 2 ?d ?w
      = Some (response, ?d\<lparr>sd_verdict := TRAFFIC_VERDICT_ACCEPT, remaining_messages_to_reply := 0\<rparr>, w')"
    "resp_verdict response = ATTACHMENT_VERDICT_ACCEPT" "resp_session_id response = 77"
    using request_end_verdict [OF sound, of ?d w1 w2 "[(PlainReply 1, 77)]" "[]" TRAFFIC_VERDICT_ACCEPT None "[]"] w1 signal(1) replies alloc
    by (auto simp del: One_nat_def)
  then show "\<exists>q response w'. SendRequestEnd NANO_OK (answering 77 q os) 2 ?d ?w
      = Some (response, d\<lparr>sd_session_id := 77, sd_verdict := TRAFFIC_VERDICT_ACCEPT, remaining_messages_to_reply := 0\<rparr>, w')
    \<and> resp_verdict response = ATTACHMENT_VERDICT_ACCEPT \<and> resp_session_id response = 77"
    by (intro exI [of _ q] exI [of _ response] exI [of _ w']) simp
qed

section \<open>Messages sent more than once\<close>

text \<open>The queue to the service has room for \<open>n\<close> copies of a message before its end.\<close>

definition room_before_wrap :: "SignalUsageMode \<Rightarrow> comm_world \<Rightarrow> nat \<Rightarrow> bytes \<Rightarrow> bool" where
  "room_before_wrap usage_mode w n m =
     (case tx_state usage_mode w of
        None \<Rightarrow> False
      | Some (P, gd, q) \<Rightarrow> read_pos q \<le> write_pos q
          \<and> unat (write_pos q) + n * nsegs (segment_size_2 P) m < unat (num_of_data_segments q))"

lemma push_before_wrap:
  assumes "to_service usage_mode w ms" "valid_msg (concat frags)" "room_before_wrap usage_mode w (Suc n) (concat frags)"
  shows "\<exists>w'. push_fragments os usage_mode frags w = (0, w') \<and> to_service usage_mode w' (ms @ [concat frags])
           \<and> room_before_wrap usage_mode w' n (concat frags) \<and> w_calls w' = w_calls w"
proof -
  obtain i q where i: "get_nano_service_ipc (w_attachment w) usage_mode = Some i" "tx_queue_2 i = Some q"
    using assms(1) by (auto simp: channel_contents split: option.splits bind_splits)
  let ?P = "w_process w" and ?n = "num_of_data_segments q"
  let ?seg = "segment_size_2 ?P" and ?k = "nsegs (segment_size_2 ?P) (concat frags)"
  have b: "queue_bound_2 ?P (global_data i) q" and rep: "ring_rep ?seg ?seg ?n q ms"
    using assms(1) i by (simp_all add: channel_contents holds_2_def)
  have room: "read_pos q \<le> write_pos q" "unat (write_pos q) + (?k + n * ?k) < unat ?n"
    using assms(3) i by (simp_all add: room_before_wrap_def tx_state_def)
  note fits = room_before_end [OF rep assms(2) room(1)]
  obtain q' where push: "push_core ?seg ?seg ?n q frags = (0, q')" "ring_rep ?seg ?seg ?n q' (ms @ [concat frags])"
    using push_core_appends [OF rep assms(2)] fits(1) room(2) by (auto simp: room_for_def)
  note same = push_core_frame [OF push(1)]
  have "unat (write_pos q') = unat (write_pos q) + ?k"
    using fits(2) room(2) push(1) unat_u16_less [of ?n] by (simp del: of_nat_add)
  moreover have "read_pos q' = read_pos q"
    using push(1) by (auto simp: push_core_def Let_def split: option.splits if_splits prod.splits)
  ultimately have "read_pos q' \<le> write_pos q'" "unat (write_pos q') + n * ?k < unat ?n"
    using room by (simp_all add: word_le_nat_alt)
  moreover have "queue_bound_2 ?P (global_data i) q'" using b same by (simp add: queue_bound_2_def)
  moreover have "pushBuffersToQueue_2 (os_files os) ?P (global_data i) q frags = (0, ?P, q')"
    using core_2(1) [OF b rep, of "os_files os" frags] push(1) by (auto simp: push_2_def split: prod.splits)
  ultimately show ?thesis
    using push(2) same i
    by (auto simp: push_fragments_def sendChunkedData_2_def channel_contents holds_2_def room_before_wrap_def)
qed

lemma attempts_repeat:
  assumes "\<And>w. k \<le> w_calls w \<Longrightarrow> \<exists>w'. signal_for_session_data os rounds sid t usage_mode w = Some (NANO_TIMEOUT, w')
             \<and> tx_state usage_mode w' = tx_state usage_mode w \<and> k \<le> w_calls w'"
    and "k \<le> w_calls w" "to_service usage_mode w ms" "valid_msg (concat frags)"
    and "room_before_wrap usage_mode w n (concat frags)"
  shows "\<exists>w'. send_attempts os rounds frags sid t usage_mode n NANO_TIMEOUT w = Some (NANO_ERROR, w')
           \<and> to_service usage_mode w' (ms @ replicate n (concat frags))"
  using assms(2,3,5)
proof (induction n arbitrary: w ms)
  case (Suc n)
  obtain w1 where w1: "push_fragments os usage_mode frags w = (0, w1)" "to_service usage_mode w1 (ms @ [concat frags])"
    "room_before_wrap usage_mode w1 n (concat frags)" "w_calls w1 = w_calls w"
    using push_before_wrap [OF Suc.prems(2) assms(4) Suc.prems(3)] by blast
  obtain w2 where w2: "signal_for_session_data os rounds sid t usage_mode w1 = Some (NANO_TIMEOUT, w2)"
    "tx_state usage_mode w2 = tx_state usage_mode w1" "k \<le> w_calls w2"
    using assms(1) [of w1] Suc.prems(1) w1(4) by auto
  have "to_service usage_mode w2 (ms @ [concat frags])" "room_before_wrap usage_mode w2 n (concat frags)"
    using w1(2,3) w2(2) by (simp_all add: to_service_def room_before_wrap_def)
  from Suc.IH [OF w2(3) this] w1(1) w2(1) show ?case by simp
qed simp

text \<open>
  A message that is refused once is sent four times and reported as not sent, when the signals
  that follow are not answered in time: the result of the last signal is kept, so an accepted push
  does not end the loop. The hypotheses say that the first push is refused, that the service makes
  room without answering, and that it stays silent (from the \<open>k\<close>-th system call on).
\<close>

theorem refused_message_repeated:
  assumes "push_fragments os usage_mode frags w0 = (e, w1)" "e \<noteq> 0"
    and "signal_for_session_data os rounds sid t usage_mode w1 = Some (NANO_TIMEOUT, w)"
    and "\<And>w. k \<le> w_calls w \<Longrightarrow> \<exists>w'. signal_for_session_data os rounds sid t usage_mode w = Some (NANO_TIMEOUT, w')
             \<and> tx_state usage_mode w' = tx_state usage_mode w \<and> k \<le> w_calls w'"
    and "k \<le> w_calls w" "to_service usage_mode w ms" "valid_msg (concat frags)"
    and "room_before_wrap usage_mode w 4 (concat frags)"
  shows "\<exists>w'. send_session_data_to_service os rounds sid t usage_mode frags w0 = Some (NANO_ERROR, w')
           \<and> to_service usage_mode w' (ms @ replicate 4 (concat frags))"
proof -
  have "send_session_data_to_service os rounds sid t usage_mode frags w0 =
      send_attempts os rounds frags sid t usage_mode 4 NANO_TIMEOUT w"
    using assms(1-3) unfolding send_session_data_to_service_def
    by (subst eval_nat_numeral) (simp add: eval_nat_numeral)
  with attempts_repeat [OF assms(4-8)] show ?thesis by simp
qed

text \<open>A service that empties the queue of eight segments during the first signal and never answers.\<close>

definition silent :: "os_answers \<Rightarrow> os_answers" where
  "silent os =
     os\<lparr>os_poll := \<lambda>_. (0, False), os_timeout := \<lambda>_. False, os_write := \<lambda>_. 4, os_poll_ack := \<lambda>_ _. 0,
        os_service := \<lambda>k i. if k < 6 then i\<lparr>tx_queue_2 := Some (sample_queue_2 8)\<rparr> else i\<rparr>"

definition full_channel :: SharedMemoryIPC_2 where
  "full_channel = sample_channel\<lparr>tx_queue_2 := Some ((sample_queue_2 8)\<lparr>write_pos := 7\<rparr>), global_data := sample_data 8\<rparr>"

lemma silent_answers:
  "os_poll (silent os) k = (0, False)" "\<not> os_timeout (silent os) k" "os_write (silent os) k = 4" "os_poll_ack (silent os) k x = 0"
  "os_service (silent os) k = (\<lambda>i. if k < 6 then i\<lparr>tx_queue_2 := Some (sample_queue_2 8)\<rparr> else i)"
  by (simp_all add: silent_def)

lemma silent_signal:
  assumes "1 \<le> rounds"
  shows "signal_for_session_data (silent os) rounds sid t SIGNAL_USAGE_SYNC w =
    Some (NANO_TIMEOUT, service_acts (silent os) (service_acts (silent os) (service_acts (silent os)
      (step_call (step_call (step_call w))\<lparr>w_sent := w_sent w @ [(get_comm_socket (w_attachment w) SIGNAL_USAGE_SYNC, le32 sid)]\<rparr>))))"
proof -
  obtain n where n: "rounds = Suc n" using assms by (cases rounds) auto
  have ne: "le32 sid \<noteq> []" by (simp add: le32_def le16_def)
  show ?thesis
    by (simp add: n ne signal_for_session_data_def notify_signal_to_service_def Let_def silent_answers numeral_3_eq_3
        write_signal.simps [of _ "Suc n"] write_signal.simps [of _ n])
      (simp add: step_call_def)
qed

lemma full_channel_refuses:
  "sendChunkedData_2 h sample_process (Some full_channel) [[1, 2], [3]] = (-3, sample_process, Some full_channel)"
  by (simp add: sendChunkedData_2_def full_channel_def pushBuffersToQueue_2_def isGetPossitionSucceccful_2_def positions_ok_def
      push_core_def isThereEnoughMemoryInQueue_def getNumOfDataSegmentsNeeded_def getEffectiveSegmentSize_2_def
      sample_process_def sample_data_def max_write_size_def Let_def)

lemma silent_later:
  assumes "6 \<le> w_calls w" "1 \<le> rounds"
  shows "\<exists>w'. signal_for_session_data (silent os) rounds sid t SIGNAL_USAGE_SYNC w = Some (NANO_TIMEOUT, w')
    \<and> tx_state SIGNAL_USAGE_SYNC w' = tx_state SIGNAL_USAGE_SYNC w \<and> 6 \<le> w_calls w'"
proof -
  have acts: "service_acts (silent os) v = step_call v" if "6 \<le> w_calls v" for v
    using that by (simp add: service_acts_def silent_answers att_update_def step_call_def option.map_ident)
  show ?thesis
    using assms by (simp add: silent_signal acts step_call_def tx_state_def)
qed

theorem refused_message_repeated_witness:
  "\<forall>os w. \<exists>w'. send_session_data_to_service (silent os) 1 77 REQUEST_END SIGNAL_USAGE_SYNC [[1, 2], [3]]
       ((connected full_channel w)\<lparr>w_calls := 0\<rparr>) = Some (NANO_ERROR, w')
     \<and> to_service SIGNAL_USAGE_SYNC w' (replicate 4 [1, 2, 3])"
proof (intro allI)
  fix os w
  let ?os = "silent os" and ?w0 = "(connected full_channel w)\<lparr>w_calls := 0\<rparr>" and ?m = "[[1, 2], [3]] :: bytes list"
  have push: "push_fragments ?os SIGNAL_USAGE_SYNC ?m ?w0 = (-3, ?w0)"
    by (simp add: push_fragments_def full_channel_refuses)
      (simp add: connected_def att_update_def put_nano_service_ipc_def)
  obtain v where v: "signal_for_session_data ?os 1 77 REQUEST_END SIGNAL_USAGE_SYNC ?w0 = Some (NANO_TIMEOUT, v)"
    "w_calls v = 6" "w_process v = sample_process"
    "get_nano_service_ipc (w_attachment v) SIGNAL_USAGE_SYNC = Some (full_channel\<lparr>tx_queue_2 := Some (sample_queue_2 8)\<rparr>)"
    by (simp add: silent_signal service_acts_def silent_answers att_update_def step_call_def connected_def
        get_nano_service_ipc_def)
  have geom: "geometry_ok 1024 1024 8" by (simp add: geometry_ok_def ring_constants)
  have "to_service SIGNAL_USAGE_SYNC v []"
    using v sample_holds_2 [OF geom] by (simp add: channel_contents full_channel_def)
  moreover have "room_before_wrap SIGNAL_USAGE_SYNC v 4 (concat ?m)"
    using v by (simp add: room_before_wrap_def tx_state_def full_channel_def getNumOfDataSegmentsNeeded_def sample_process_def)
  moreover have "valid_msg (concat ?m)" by (simp add: valid_msg_def max_write_size_def)
  ultimately show "\<exists>w'. send_session_data_to_service ?os 1 77 REQUEST_END SIGNAL_USAGE_SYNC ?m ?w0 = Some (NANO_ERROR, w')
     \<and> to_service SIGNAL_USAGE_SYNC w' (replicate 4 [1, 2, 3])"
    using refused_message_repeated [OF push _ v(1), of 6 "[]"] silent_later v(2) by simp
qed

section \<open>Failures that are not noticed\<close>

text \<open>
  The end of a request that cannot be sent is reported as an inspection that succeeded: with
  sound channels and inspections in the calling thread, when the message is not accepted the caller gets
  the verdict the session had before, whatever the failure mode, and the success counter goes up.
\<close>

theorem unsent_end_reported_as_success:
  assumes "handle_shmem_corruption res0 os rounds w = Some (NANO_OK, w0)" "inspection_mode (w_attachment w0) = NO_THREAD"
    and "send_session_data_to_service os rounds (sd_session_id d) REQUEST_END SIGNAL_USAGE_SYNC
           [le16 (data_type_code REQUEST_END), le32 (sd_session_id d)] w0 = Some (r, w1)" "r \<noteq> NANO_OK"
    and "sd_verdict d \<noteq> TRAFFIC_VERDICT_DELAYED"
  shows "\<exists>response. SendRequestEnd res0 os rounds d w
             = Some (response, d, att_update (\<lambda>a. updateMetricField a INSPECTION_SUCCESSES_COUNT 1) w1)
           \<and> resp_verdict response = attachment_verdict (sd_verdict d)"
proof -
  have "SendRequestEndThread os rounds (w0, init_thread_ctx (Some d)) = Some (w1, init_thread_ctx (Some d))"
    using assms(3,4)
    by (simp add: SendRequestEndThread_def with_session_def init_thread_ctx_def nano_end_transaction_sender_def
        send_event_flag_def event_message)
  then show ?thesis
    using assms(1,2,5)
    by (simp add: SendRequestEnd_def inspect_with_def run_without_thread after_delay_def finalize_response_def
        init_thread_ctx_def successful_response_def on_attachment_def FinalizeSuccessfulResponse_def att_update_def)
qed

text \<open>A service that has hung up, on a host that gives no sockets.\<close>

definition hung_up :: "os_answers \<Rightarrow> os_answers" where
  "hung_up os = os\<lparr>os_poll := \<lambda>_. (1, True), os_socket := \<lambda>_. -1\<rparr>"

lemma no_socket:
  assumes "inspection_mode (w_attachment w) = NO_THREAD" "is_async_mode_enabled (w_attachment w) = 0"
  shows "\<exists>w'. restart_communication (hung_up os) rounds w = Some (NANO_ERROR, w')"
  using assms
  by (simp add: restart_communication_def init_signaling_socket_def run_registration_thread_def
      register_to_attachments_manager_def NanoRunInThreadTimeout_def NanoRunInWithoutThreadTimeout_def
      RegistrationCommSocketThread_def RegistrationSocketThread_def connect_to_comm_socket_def
      connect_to_registration_socket_def comm_failure_def close_registration_socket_def hung_up_def drop_channels_def att_update_def step_call_def Let_def)

lemma disconnect_keeps:
  "inspection_mode (w_attachment (disconnect_communication os w)) = inspection_mode (w_attachment w)"
  "is_async_mode_enabled (w_attachment (disconnect_communication os w)) = is_async_mode_enabled (w_attachment w)"
  by (simp_all add: disconnect_communication_def remove_attachment_metadata_file_def drop_channels_def att_update_def
      step_call_def Let_def)

lemma hung_up_send:
  "\<exists>w1. send_session_data_to_service (hung_up os) rounds 77 REQUEST_END SIGNAL_USAGE_SYNC
     [le16 (data_type_code REQUEST_END), le32 77]
     (connected (both_ways (sample_queue_2 4) ((sample_queue_2 4)\<lparr>write_pos := 3\<rparr>)) w) = Some (NANO_ERROR, w1)"
proof -
  let ?ipc = "both_ways (sample_queue_2 4) ((sample_queue_2 4)\<lparr>write_pos := 3\<rparr>)" and ?os = "hung_up os"
  let ?w = "connected ?ipc w" and ?m = "[le16 (data_type_code REQUEST_END), le32 77]"
  have "sendChunkedData_2 (os_files ?os) sample_process (Some ?ipc) ?m = (-3, sample_process, Some ?ipc)"
    by (simp add: sendChunkedData_2_def both_ways_def pushBuffersToQueue_2_def isGetPossitionSucceccful_2_def positions_ok_def
        push_core_def isThereEnoughMemoryInQueue_def getNumOfDataSegmentsNeeded_def getEffectiveSegmentSize_2_def
        sample_process_def sample_data_def max_write_size_def Let_def)
  then obtain w1 where w1: "push_fragments ?os SIGNAL_USAGE_SYNC ?m ?w = (-3, w1)"
    "inspection_mode (w_attachment w1) = NO_THREAD" "is_async_mode_enabled (w_attachment w1) = 0"
    by (simp add: push_fragments_def att_update_def put_nano_service_ipc_def)
  have signal: "signal_for_session_data ?os rounds 77 REQUEST_END SIGNAL_USAGE_SYNC w1 = Some (NANO_ERROR, step_call w1)"
    by (simp add: signal_for_session_data_def notify_signal_to_service_def hung_up_def)
  obtain w2 where "restart_communication ?os rounds (disconnect_communication ?os (step_call w1)) = Some (NANO_ERROR, w2)"
    using no_socket w1(2,3) disconnect_keeps by (metis step_call_attachment)
  with w1(1) signal show ?thesis by (simp add: send_session_data_to_service_def numeral_eq_Suc)
qed

theorem unsent_end_reported_as_success_witness:
  "\<forall>os w. \<forall>d :: HttpSessionData. \<exists>response w'. SendRequestEnd NANO_OK (hung_up os) 9
        (d\<lparr>sd_session_id := 77, sd_verdict := TRAFFIC_VERDICT_INSPECT\<rparr>)
        (connected (both_ways (sample_queue_2 4) ((sample_queue_2 4)\<lparr>write_pos := 3\<rparr>)) w)
      = Some (response, d\<lparr>sd_session_id := 77, sd_verdict := TRAFFIC_VERDICT_INSPECT\<rparr>, w')
    \<and> resp_verdict response = ATTACHMENT_VERDICT_INSPECT"
proof (intro allI)
  fix os w and d :: HttpSessionData
  let ?tx = "(sample_queue_2 4)\<lparr>write_pos := 3\<rparr>" and ?d = "d\<lparr>sd_session_id := 77, sd_verdict := TRAFFIC_VERDICT_INSPECT\<rparr>"
  let ?w = "connected (both_ways (sample_queue_2 4) ?tx) w"
  obtain w1 where w1: "send_session_data_to_service (hung_up os) 9 77 REQUEST_END SIGNAL_USAGE_SYNC
     [le16 (data_type_code REQUEST_END), le32 77] ?w = Some (NANO_ERROR, w1)" using hung_up_send by blast
  have sound: "handle_shmem_corruption NANO_OK (hung_up os) 9 ?w = Some (NANO_OK, ?w)" by (rule sound_channel) simp_all
  from unsent_end_reported_as_success [OF sound, of ?d NANO_ERROR w1] w1
  show "\<exists>response w'. SendRequestEnd NANO_OK (hung_up os) 9 ?d ?w = Some (response, ?d, w')
    \<and> resp_verdict response = ATTACHMENT_VERDICT_INSPECT" by auto
qed

text \<open>
  The headers of a request from an excluded source are sent to the service all the same: the
  routine for a request goes on after the meta data were declined. With a body to follow, the
  outcome is that the source is excluded, but the service has got headers it has no meta data for.
\<close>

theorem excluded_source_headers_sent:
  assumes "IsInspectionRequiredForSource inet_pton (w_conf w) (client_ip (meta_data f)) = 0" "contains_body f"
    and "ctx_session_data_p ctx = Some d" "to_service SIGNAL_USAGE_SYNC w ms"
    and "all_accepted (room_to_service SIGNAL_USAGE_SYNC)
           (send_session_data_to_service os rounds (sd_session_id d) REQUEST_HEADER SIGNAL_USAGE_SYNC) w
           (header_bulks 1 REQUEST_HEADER (sd_session_id d) 0 (req_headers f))"
  shows "\<exists>w' ctx'. SendRequestFilterThread inet_pton os rounds f (w, ctx) = Some (w', ctx') \<and> ctx_res ctx' = NANO_DECLINED
           \<and> to_service SIGNAL_USAGE_SYNC w' (ms @ map concat (header_bulks 1 REQUEST_HEADER (sd_session_id d) 0 (req_headers f)))"
proof -
  let ?ctx = "ctx\<lparr>ctx_session_data_p := Some (d\<lparr>sd_verdict := TRAFFIC_VERDICT_IRRELEVANT\<rparr>), ctx_res := NANO_DECLINED\<rparr>"
  obtain w' where "nano_header_sender os rounds (req_headers f) REQUEST_HEADER (sd_session_id d) False SIGNAL_USAGE_SYNC (w, ?ctx)
      = Some (count_sent (of_nat (length (header_bulks 1 REQUEST_HEADER (sd_session_id d) 0 (req_headers f))))
          SIGNAL_USAGE_SYNC (w', ?ctx))"
    "to_service SIGNAL_USAGE_SYNC w' (ms @ map concat (header_bulks 1 REQUEST_HEADER (sd_session_id d) 0 (req_headers f)))"
    using header_sender_sends [OF assms(4,5), of ?ctx] by auto
  then show ?thesis
    using assms(1-3)
    by (simp add: SendRequestFilterThread_def with_session_def nano_metadata_sender_def count_sent_def)
qed

definition excluded_client :: "HttpRequestFilterData \<Rightarrow> HttpRequestFilterData" where
  "excluded_client f = f\<lparr>meta_data := (meta_data f)\<lparr>client_ip := [49, 46, 50, 46, 51, 46, 53]\<rparr>,
     req_headers := [([104], [1])], contains_body := True\<rparr>"

theorem excluded_source_headers_sent_witness:
  "\<forall>os w f d. \<exists>w' ctx' m. SendRequestFilterThread tiny_pton os 9 (excluded_client f)
       ((sending w)\<lparr>w_conf := (w_conf w)\<lparr>exclude_sources := [''1.2.3.5'']\<rparr>\<rparr>, init_thread_ctx (Some (d\<lparr>sd_session_id := 77\<rparr>)))
       = Some (w', ctx')
     \<and> ctx_res ctx' = NANO_DECLINED \<and> to_service SIGNAL_USAGE_SYNC w' [m]"
proof (intro allI)
  fix os w and f :: HttpRequestFilterData and d :: HttpSessionData
  let ?w = "sending (w\<lparr>w_conf := (w_conf w)\<lparr>exclude_sources := [''1.2.3.5'']\<rparr>\<rparr>)" and ?f = "excluded_client f"
  let ?hs = "[([104], [1])] :: HttpHeaderData list" and ?ctx = "init_thread_ctx (Some (d\<lparr>sd_session_id := 77\<rparr>))"
  have w: "(sending w)\<lparr>w_conf := (w_conf w)\<lparr>exclude_sources := [''1.2.3.5'']\<rparr>\<rparr> = ?w" by (simp add: sending_def att_update_def)
  have bulks: "header_bulks (Suc 0) REQUEST_HEADER 77 0 ?hs = [bulk_fragments REQUEST_HEADER 77 True 0 ?hs]"
    by (simp add: header_bulks.simps)
  have "0 < length (concat (bulk_fragments REQUEST_HEADER 77 True 0 ?hs))"
    "length (concat (bulk_fragments REQUEST_HEADER 77 True 0 ?hs)) \<le> 1024"
    by (simp_all add: bulk_fragments_def header_fragments_def sized_def)
  note accepted = sending_accepts [OF this, of SIGNAL_USAGE_SYNC os 9 77 REQUEST_HEADER]
  have ip: "map (\<lambda>b. char_of (unat b)) (c_string [49, 46, 50, 46, 51, 46, 53]) = ''1.2.3.5''"
    by (simp add: c_string_def char_of_def bit_0)
  have "IsInspectionRequiredForSource tiny_pton (w_conf ?w) (client_ip (meta_data ?f)) = 0"
    by (simp add: IsInspectionRequiredForSource_def excluded_client_def ip isIPAddress_def isSkipSource_def Let_def
        tiny_pton_def is_v6_string_def isIPInRangeString_def isIPInRange_def createIPAddress_def ip_less_def memcmp_less.simps sending_def att_update_def)
  from excluded_source_headers_sent [OF this, of ?ctx "d\<lparr>sd_session_id := 77\<rparr>" "[]" os 9] sending_empty accepted
  show "\<exists>w' ctx' m. SendRequestFilterThread tiny_pton os 9 ?f
       ((sending w)\<lparr>w_conf := (w_conf w)\<lparr>exclude_sources := [''1.2.3.5'']\<rparr>\<rparr>, ?ctx) = Some (w', ctx')
     \<and> ctx_res ctx' = NANO_DECLINED \<and> to_service SIGNAL_USAGE_SYNC w' [m]"
    by (auto simp: w excluded_client_def bulks init_thread_ctx_def simp del: all_accepted.simps)
qed

section \<open>Asynchronous verdicts\<close>

text \<open>
  C16. An asynchronous verdict reaches its session once: popping a packed reply other than a
  reconfiguration, for a session whose id is not zero, answers with the session's id; a lookup for the session then
  yields the verdict of the reply, a drop with its page; a second lookup yields the verdict of the failure mode, and the
  queue is left with the messages after the reply. The page of a drop keeps the limits, and the allocations for
  it succeed; every reply that neither accepts, drops nor delays is handed out as the verdict to inspect.
\<close>

theorem async_verdict_delivered_once:
  assumes "nano_service_ipc (w_attachment w) = Some i" "rx_queue_2 i = Some q"
    and "holds_2 (w_process w, global_data i, q) (pack_reply v sid count rest # ms)" "v \<noteq> 5" "sid \<noteq> 0"
    and "v = 2 \<Longrightarrow> rest = pack_page page \<and> page_fits page \<and> (\<forall>i. os_alloc os (w_calls w) i)"
  shows "\<exists>w' response a. PopFromNanoQueue os w = Some (sid, w')
    \<and> getAttachmentVerdictResponse (w_attachment w') sid = (response, a) \<and> resp_session_id response = sid
    \<and> resp_verdict response = (if v = 1 then ATTACHMENT_VERDICT_ACCEPT else if v = 2 then ATTACHMENT_VERDICT_DROP
         else if v = 6 then ATTACHMENT_VERDICT_DELAYED else ATTACHMENT_VERDICT_INSPECT)
    \<and> resp_web_response_data response = (if v = 2 then Some (page_web page) else None)
    \<and> fst (getAttachmentVerdictResponse a sid) = GenerateFailedVerdict a sid
    \<and> (\<exists>q'. nano_service_ipc (w_attachment w') = Some (i\<lparr>rx_queue_2 := Some q'\<rparr>)
         \<and> holds_2 (w_process w', global_data i, q') ms)"
proof -
  let ?v = "nano_world.truncate w" and ?k = "w_calls w"
  let ?verdict = "if v = 1 then ATTACHMENT_VERDICT_ACCEPT else if v = 2 then ATTACHMENT_VERDICT_DROP
         else if v = 6 then ATTACHMENT_VERDICT_DELAYED else ATTACHMENT_VERDICT_INSPECT"
  let ?web = "if v = 2 then Some (page_web page) else None"
  have v: "nano_service_ipc (w_attachment ?v) = Some i" "holds_2 (w_process ?v, global_data i, q) (pack_reply v sid count rest # ms)"
    using assms(1,3) by (simp_all add: nano_world.defs)
  from pop_response_converts [OF v(1) assms(2) v(2), of "os_files os" "os_conf os ?k" "os_alloc os ?k"] obtain addr q' where
    pop: "PopResponseVerdictFromQueue (os_files os) (os_conf os ?k) (os_alloc os ?k) ?v =
        convert_reply (os_conf os ?k) (os_alloc os ?k) (payload q') addr
          (?v\<lparr>w_attachment := (w_attachment ?v)\<lparr>nano_service_ipc := Some (i\<lparr>rx_queue_2 := Some q'\<rparr>)\<rparr>\<rparr>)"
    "bytes_at (payload q') addr (pack_reply v sid count rest)" "holds_2 (w_process ?v, global_data i, q') ms" by blast
  note reply = read_packed_reply(1,2,4) [OF pop(2)]
  have dropped: "handle_drop_response (os_alloc os ?k) (payload q') (modify_data (read_reply (payload q') addr)) = Written (page_web page)"
    if "v = 2" using read_page [of "os_alloc os ?k"] assms(6) [OF that] reply(3) by simp
  have "\<exists>response. convert_reply (os_conf os ?k) (os_alloc os ?k) (payload q') addr u = (Some response, u)
    \<and> resp_session_id response = sid \<and> resp_verdict response = ?verdict \<and> resp_web_response_data response = ?web" for u
    using assms(4) dropped by (auto simp: convert_reply_def reply(1,2) service_verdict_def Let_def default_response_def)
  then obtain response where
    "convert_reply (os_conf os ?k) (os_alloc os ?k) (payload q') addr
       (?v\<lparr>w_attachment := (w_attachment ?v)\<lparr>nano_service_ipc := Some (i\<lparr>rx_queue_2 := Some q'\<rparr>)\<rparr>\<rparr>)
       = (Some response, ?v\<lparr>w_attachment := (w_attachment ?v)\<lparr>nano_service_ipc := Some (i\<lparr>rx_queue_2 := Some q'\<rparr>)\<rparr>\<rparr>)"
    "resp_session_id response = sid" "resp_verdict response = ?verdict" "resp_web_response_data response = ?web" by blast
  with pop(1,3) assms(5) show ?thesis
    by (auto simp: PopFromNanoQueue_def NanoAsyncAddResponse_def getAttachmentVerdictResponse_def NanoAsyncFindResponse_def
        NanoAsyncRemoveResponse_def empty_response_def nano_world.defs Let_def)
qed

theorem async_verdict_delivered_once_witness:
  "\<forall>os w. \<exists>q w' response a. PopFromNanoQueue (answering 77 q os) (connected (both_ways q (sample_queue_2 4)) w) = Some (77, w')
     \<and> getAttachmentVerdictResponse (w_attachment w') 77 = (response, a) \<and> resp_verdict response = ATTACHMENT_VERDICT_DROP
     \<and> resp_web_response_data response = Some (page_web small_page)"
proof (intro allI)
  fix os w
  obtain q where q: "holds_2 (sample_process, (sample_data 4)\<lparr>g_tx_location_name := ''q''\<rparr>, q)
      [reply_bytes (DropReply small_page, 77)]" using one_reply(2) by blast
  let ?w = "connected (both_ways q (sample_queue_2 4)) w"
  have "holds_2 (w_process ?w, global_data (both_ways q (sample_queue_2 4)), q) [pack_reply 2 77 0 (pack_page small_page)]"
    using q by (simp add: both_ways_data)
  from async_verdict_delivered_once [OF connected_channel(5) both_ways_data(2) this, of small_page "answering 77 q os"]
  show "\<exists>q w' response a. PopFromNanoQueue (answering 77 q os) (connected (both_ways q (sample_queue_2 4)) w) = Some (77, w')
     \<and> getAttachmentVerdictResponse (w_attachment w') 77 = (response, a) \<and> resp_verdict response = ATTACHMENT_VERDICT_DROP
     \<and> resp_web_response_data response = Some (page_web small_page)"
    by (auto simp: small_page_fits answering_def)
qed

end
