(* ===== verification/Ngx_Metric.thy ===== *)
theory Ngx_Metric
  imports Nano_Metric
begin

text \<open>
  The metrics of the nginx module (\<open>ngx_cp_metric.c\<close>), kept in two global arrays. The operations are those
  of the nano attachment on other storage; \<open>attachment_metrics\<close> reads the arrays off an attachment, and
  each operation commutes with it.
\<close>

record ngx_metrics =
  ngx_metric_data :: "AttachmentMetricType \<Rightarrow> u64"
  ngx_metric_average_data_divisor :: "AttachmentMetricType \<Rightarrow> u64"

definition ngx_reset_metric_data :: ngx_metrics where
  "ngx_reset_metric_data = \<lparr>ngx_metric_data = \<lambda>_. 0, ngx_metric_average_data_divisor = \<lambda>_. 0\<rparr>"

definition ngx_updateCounterMetricField :: "AttachmentMetricType \<Rightarrow> u64 \<Rightarrow> ngx_metrics \<Rightarrow> ngx_metrics" where
  "ngx_updateCounterMetricField t v m = m\<lparr>ngx_metric_data := (ngx_metric_data m)(t := ngx_metric_data m t + v)\<rparr>"

definition ngx_updateAverageMetricField :: "AttachmentMetricType \<Rightarrow> u64 \<Rightarrow> ngx_metrics \<Rightarrow> ngx_metrics" where
  "ngx_updateAverageMetricField t v m =
     m\<lparr>ngx_metric_data := (ngx_metric_data m)(t :=
          (ngx_metric_data m t * ngx_metric_average_data_divisor m t + v) div (ngx_metric_average_data_divisor m t + 1)),
       ngx_metric_average_data_divisor :=
          (ngx_metric_average_data_divisor m)(t := ngx_metric_average_data_divisor m t + 1)\<rparr>"

definition ngx_updateMaxMetricField :: "AttachmentMetricType \<Rightarrow> u64 \<Rightarrow> ngx_metrics \<Rightarrow> ngx_metrics" where
  "ngx_updateMaxMetricField t v m =
     (if ngx_metric_data m t < v then m\<lparr>ngx_metric_data := (ngx_metric_data m)(t := v)\<rparr> else m)"

definition ngx_updateMinMetricField :: "AttachmentMetricType \<Rightarrow> u64 \<Rightarrow> ngx_metrics \<Rightarrow> ngx_metrics" where
  "ngx_updateMinMetricField t v m =
     (if ngx_metric_data m t = 0 then m\<lparr>ngx_metric_data := (ngx_metric_data m)(t := v)\<rparr>
      else if ngx_metric_data m t > v then m\<lparr>ngx_metric_data := (ngx_metric_data m)(t := v)\<rparr>
      else m)"

fun ngx_updateMetricField :: "AttachmentMetricType \<Rightarrow> u64 \<Rightarrow> ngx_metrics \<Rightarrow> ngx_metrics" where
  "ngx_updateMetricField t v m =
     (case t of
        CPU_USAGE \<Rightarrow> if v \<noteq> 0 then ngx_updateAverageMetricField t v m else m
      | AVERAGE_VM_MEMORY_USAGE \<Rightarrow> if v \<noteq> 0 then ngx_updateAverageMetricField t v m else m
      | AVERAGE_RSS_MEMORY_USAGE \<Rightarrow> if v \<noteq> 0 then ngx_updateAverageMetricField t v m else m
      | AVERAGE_REQ_BODY_SIZE_UPON_TIMEOUT \<Rightarrow> if v \<noteq> 0 then ngx_updateAverageMetricField t v m else m
      | AVERAGE_RES_BODY_SIZE_UPON_TIMEOUT \<Rightarrow> if v \<noteq> 0 then ngx_updateAverageMetricField t v m else m
      | AVERAGE_OVERALL_PPROCESSING_TIME_UNTIL_VERDICT \<Rightarrow> if v \<noteq> 0 then ngx_updateAverageMetricField t v m else m
      | AVERAGE_REQ_PPROCESSING_TIME_UNTIL_VERDICT \<Rightarrow> if v \<noteq> 0 then ngx_updateAverageMetricField t v m else m
      | AVERAGE_RES_PPROCESSING_TIME_UNTIL_VERDICT \<Rightarrow> if v \<noteq> 0 then ngx_updateAverageMetricField t v m else m
      | MAX_VM_MEMORY_USAGE \<Rightarrow> if v \<noteq> 0 then ngx_updateMaxMetricField t v m else m
      | MAX_RSS_MEMORY_USAGE \<Rightarrow> if v \<noteq> 0 then ngx_updateMaxMetricField t v m else m
      | MAX_REQ_BODY_SIZE_UPON_TIMEOUT \<Rightarrow> if v \<noteq> 0 then ngx_updateMaxMetricField t v m else m
      | MAX_RES_BODY_SIZE_UPON_TIMEOUT \<Rightarrow> if v \<noteq> 0 then ngx_updateMaxMetricField t v m else m
      | MAX_OVERALL_PPROCESSING_TIME_UNTIL_VERDICT \<Rightarrow> if v \<noteq> 0 then ngx_updateMaxMetricField t v m else m
      | MAX_REQ_PPROCESSING_TIME_UNTIL_VERDICT \<Rightarrow> if v \<noteq> 0 then ngx_updateMaxMetricField t v m else m
      | MAX_RES_PPROCESSING_TIME_UNTIL_VERDICT \<Rightarrow> if v \<noteq> 0 then ngx_updateMaxMetricField t v m else m
      | MIN_REQ_BODY_SIZE_UPON_TIMEOUT \<Rightarrow> if v \<noteq> 0 then ngx_updateMinMetricField t v m else m
      | MIN_RES_BODY_SIZE_UPON_TIMEOUT \<Rightarrow> if v \<noteq> 0 then ngx_updateMinMetricField t v m else m
      | MIN_OVERALL_PPROCESSING_TIME_UNTIL_VERDICT \<Rightarrow> if v \<noteq> 0 then ngx_updateMinMetricField t v m else m
      | MIN_REQ_PPROCESSING_TIME_UNTIL_VERDICT \<Rightarrow> if v \<noteq> 0 then ngx_updateMinMetricField t v m else m
      | MIN_RES_PPROCESSING_TIME_UNTIL_VERDICT \<Rightarrow> if v \<noteq> 0 then ngx_updateMinMetricField t v m else m
      | _ \<Rightarrow> ngx_updateCounterMetricField t v m)"

declare ngx_updateMetricField.simps [simp del]

definition attachment_metrics :: "NanoAttachment \<Rightarrow> ngx_metrics" where
  "attachment_metrics a = \<lparr>ngx_metric_data = metric_data a, ngx_metric_average_data_divisor = metric_average_data_divisor a\<rparr>"

lemmas ngx_metric_updates =
  ngx_updateCounterMetricField_def ngx_updateAverageMetricField_def ngx_updateMaxMetricField_def ngx_updateMinMetricField_def

lemma update_commutes: "attachment_metrics (updateMetricField a t v) = ngx_updateMetricField t v (attachment_metrics a)"
  by (cases t)
    (simp_all add: attachment_metrics_def updateMetricField_def average_metrics_def max_metrics_def min_metrics_def
      ngx_updateMetricField.simps metric_updates ngx_metric_updates)

lemma reset_commutes: "attachment_metrics (reset_metric_data a) = ngx_reset_metric_data"
  by (simp add: attachment_metrics_def reset_metric_data_def ngx_reset_metric_data_def)

end
