(* ===== verification/Ngx_Failing_State.thy ===== *)
theory Ngx_Failing_State
  imports Ngx_Metric Nano_Thread "HOL-Library.Monad_Syntax"
begin

text \<open>
  The transparent mode of the nginx module (\<open>ngx_cp_failing_state.c\<close>): after too many failed inspections
  requests pass without inspection for a while, longer each time. The static variables of the file and
  the metrics are one record; the time is an argument of each operation, and \<open>None\<close> is a read past
  the table of failure states. The steps of the machine and its reachable states are inductive.
\<close>

section \<open>Time\<close>

text \<open>Seconds and microseconds, with the comparison of \<open>timercmp\<close> (\<open>ngx_cp_utils.c\<close>).\<close>

type_synonym timeval = "int \<times> int"

definition timer_less :: "timeval \<Rightarrow> timeval \<Rightarrow> bool" where
  "timer_less a b = (if fst a = fst b then snd a < snd b else fst a < fst b)"

definition is_timeout_reached :: "timeval \<Rightarrow> timeval \<Rightarrow> bool" where
  "is_timeout_reached now timeout = timer_less timeout now"

definition get_timeout_val_sec :: "timeval \<Rightarrow> u64 \<Rightarrow> timeval" where
  "get_timeout_val_sec now delta_time_in_sec = (fst now + sint (ucast delta_time_in_sec :: u32), snd now)"

section \<open>State\<close>

record failure_state =
  fs_max_allowed_failed_requests :: u64
  fs_failing_interval_boundry :: u64
  fs_transparent_period_sec :: u64

definition failed_sessions_monitor :: "failure_state list" where
  "failed_sessions_monitor =
     [\<lparr>fs_max_allowed_failed_requests = 5, fs_failing_interval_boundry = 20, fs_transparent_period_sec = 60\<rparr>,
      \<lparr>fs_max_allowed_failed_requests = 5, fs_failing_interval_boundry = 20, fs_transparent_period_sec = 300\<rparr>,
      \<lparr>fs_max_allowed_failed_requests = 5, fs_failing_interval_boundry = 20, fs_transparent_period_sec = 600\<rparr>]"

definition failed_sessions_monitor_length :: nat where
  "failed_sessions_monitor_length = 3"

definition monitor :: "nat \<Rightarrow> failure_state option" where
  "monitor i = (if i < length failed_sessions_monitor then Some (failed_sessions_monitor ! i) else None)"

record periodic_failure =
  max_allowed_failed_requests :: u64
  current_failed_requests :: u64
  is_transparent_mode_active :: bool
  transparent_interval_boundry :: u64
  transparent_interval :: timeval
  failing_interval :: timeval
  current_fail_state :: nat
  should_update_timeout :: bool
  transparent_mode_is_active :: bool
  fs_metrics :: ngx_metrics

definition initial_failure :: "ngx_metrics \<Rightarrow> periodic_failure" where
  "initial_failure m =
     \<lparr>max_allowed_failed_requests = 0, current_failed_requests = 0, is_transparent_mode_active = False,
      transparent_interval_boundry = 0, transparent_interval = (0, 0), failing_interval = (0, 0), current_fail_state = 0,
      should_update_timeout = False, transparent_mode_is_active = False, fs_metrics = m\<rparr>"

definition count_ngx :: "AttachmentMetricType \<Rightarrow> u64 \<Rightarrow> periodic_failure \<Rightarrow> periodic_failure" where
  "count_ngx t v s = s\<lparr>fs_metrics := ngx_updateMetricField t v (fs_metrics s)\<rparr>"

section \<open>Operations\<close>

definition reset_failure_state :: "timeval \<Rightarrow> periodic_failure \<Rightarrow> periodic_failure option" where
  "reset_failure_state now s =
     do {
       f \<leftarrow> monitor (current_fail_state s);
       Some (s\<lparr>max_allowed_failed_requests := fs_max_allowed_failed_requests f,
               failing_interval := get_timeout_val_sec now (fs_failing_interval_boundry f)\<rparr>)
     }"

definition is_in_transparent_mode :: "timeval \<Rightarrow> periodic_failure \<Rightarrow> (bool \<times> periodic_failure) option" where
  "is_in_transparent_mode now s =
     (if is_transparent_mode_active s \<and> \<not> is_timeout_reached now (transparent_interval s) then
        let s1 = (if \<not> transparent_mode_is_active s
                  then count_ngx TOTAL_TRANSPARENTS_TIME (transparent_interval_boundry s) s else s)
        in Some (True, s1\<lparr>transparent_mode_is_active := True\<rparr>)
      else
        map_option (Pair False)
          (reset_failure_state now
            (s\<lparr>transparent_mode_is_active := False, is_transparent_mode_active := False, current_failed_requests := 0\<rparr>)))"

definition reset_transparent_mode :: "timeval \<Rightarrow> periodic_failure \<Rightarrow> periodic_failure option" where
  "reset_transparent_mode now s =
     do {
       f \<leftarrow> monitor 0;
       Some (s\<lparr>current_fail_state := 0, should_update_timeout := False,
               max_allowed_failed_requests := fs_max_allowed_failed_requests f, current_failed_requests := 0,
               is_transparent_mode_active := False, transparent_interval_boundry := fs_transparent_period_sec f,
               transparent_interval := (0, 0), failing_interval := get_timeout_val_sec now (fs_failing_interval_boundry f)\<rparr>)
     }"

definition activate_transparent_mode :: "timeval \<Rightarrow> periodic_failure \<Rightarrow> periodic_failure option" where
  "activate_transparent_mode now s =
     do {
       f \<leftarrow> monitor (current_fail_state s);
       Some (s\<lparr>is_transparent_mode_active := True,
               transparent_interval := get_timeout_val_sec now (fs_transparent_period_sec f),
               transparent_interval_boundry := fs_transparent_period_sec f\<rparr>)
     }"

text \<open>
  The part of a session these functions use; as in the nano attachment, the processing times are whole
  microseconds.
\<close>

record ngx_session =
  ns_verdict :: ServiceVerdict
  ns_start :: timespec
  ns_req_time :: int
  ns_res_time :: int

definition usec :: "timespec \<Rightarrow> int" where
  "usec t = tv_sec t * 1000000 + tv_nsec t sdiv 1000"

definition ngx_http_cp_report_time_metrics :: "timespec \<Rightarrow> ngx_session \<Rightarrow> periodic_failure \<Rightarrow> periodic_failure" where
  "ngx_http_cp_report_time_metrics session_end d s =
     (let overall = usec session_end - usec (ns_start d);
          s1 = count_ngx AVERAGE_OVERALL_PPROCESSING_TIME_UNTIL_VERDICT (of_int overall) s;
          s2 = count_ngx MAX_OVERALL_PPROCESSING_TIME_UNTIL_VERDICT (of_int overall) s1;
          s3 = count_ngx MIN_OVERALL_PPROCESSING_TIME_UNTIL_VERDICT (of_int overall) s2;
          s4 = count_ngx AVERAGE_REQ_PPROCESSING_TIME_UNTIL_VERDICT (of_int (ns_req_time d)) s3;
          s5 = count_ngx MAX_REQ_PPROCESSING_TIME_UNTIL_VERDICT (of_int (ns_req_time d)) s4;
          s6 = count_ngx MIN_REQ_PPROCESSING_TIME_UNTIL_VERDICT (of_int (ns_req_time d)) s5;
          s7 = count_ngx AVERAGE_RES_PPROCESSING_TIME_UNTIL_VERDICT (of_int (ns_res_time d)) s6;
          s8 = count_ngx MAX_RES_PPROCESSING_TIME_UNTIL_VERDICT (of_int (ns_res_time d)) s7
      in count_ngx MIN_RES_PPROCESSING_TIME_UNTIL_VERDICT (of_int (ns_res_time d)) s8)"

text \<open>
  The last step of a failure. The message that is logged reads the table at the new state, and the
  arguments of the log function are evaluated whatever the level.
\<close>

definition next_fail_state :: "periodic_failure \<Rightarrow> periodic_failure option" where
  "next_fail_state s =
     (if current_fail_state s < failed_sessions_monitor_length then
        let s1 = s\<lparr>current_fail_state := current_fail_state s + 1\<rparr>
        in do { _ \<leftarrow> monitor (current_fail_state s1); Some s1 }
      else Some (s\<lparr>current_fail_state := failed_sessions_monitor_length - 1\<rparr>))"

text \<open>What a failure counts, and what follows from the count.\<close>

definition count_failure :: "timespec \<Rightarrow> int \<Rightarrow> bool \<Rightarrow> ngx_session \<Rightarrow> periodic_failure \<Rightarrow> periodic_failure" where
  "count_failure session_end weight fail_open d s =
     (let s1 = ngx_http_cp_report_time_metrics session_end d s;
          s2 = count_ngx (if fail_open then INSPECTION_OPEN_FAILURES_COUNT else INSPECTION_CLOSE_FAILURES_COUNT) 1 s1
      in s2\<lparr>current_failed_requests := current_failed_requests s2 + of_int weight\<rparr>)"

definition settle_failure :: "timeval \<Rightarrow> periodic_failure \<Rightarrow> periodic_failure option" where
  "settle_failure now s =
     (if is_timeout_reached now (failing_interval s) then reset_failure_state now s
      else if current_failed_requests s \<le> max_allowed_failed_requests s then Some s
      else do { s1 \<leftarrow> activate_transparent_mode now s; next_fail_state s1 })"

definition handle_inspection_failure ::
    "timeval \<Rightarrow> timespec \<Rightarrow> int \<Rightarrow> bool \<Rightarrow> ngx_session \<Rightarrow> periodic_failure \<Rightarrow> (ngx_session \<times> periodic_failure) option" where
  "handle_inspection_failure now session_end weight fail_open d s =
     (if ns_verdict d \<noteq> TRAFFIC_VERDICT_INSPECT then Some (d, s)
      else map_option (Pair (d\<lparr>ns_verdict := (if fail_open then TRAFFIC_VERDICT_ACCEPT else TRAFFIC_VERDICT_DROP)\<rparr>))
             (settle_failure now (count_failure session_end weight fail_open d s)))"

definition handle_inspection_success :: "timeval \<Rightarrow> timespec \<Rightarrow> ngx_session \<Rightarrow> periodic_failure \<Rightarrow> periodic_failure" where
  "handle_inspection_success now session_end d s =
     (let s1 = ngx_http_cp_report_time_metrics session_end d (count_ngx INSPECTION_SUCCESSES_COUNT 1 s) in
      if \<not> is_timeout_reached now (failing_interval s1) then s1
      else if current_failed_requests s1 \<noteq> 0 \<or> should_update_timeout s1 then s1
      else s1\<lparr>current_fail_state := 0\<rparr>)"

section \<open>Reachable states\<close>

text \<open>The steps, each at some time, in any order.\<close>

inductive failing_step :: "periodic_failure \<Rightarrow> periodic_failure \<Rightarrow> bool" where
  check_step: "is_in_transparent_mode now s = Some (b, s') \<Longrightarrow> failing_step s s'"
| reset_step: "reset_transparent_mode now s = Some s' \<Longrightarrow> failing_step s s'"
| failure_step: "handle_inspection_failure now session_end weight fail_open d s = Some (d', s') \<Longrightarrow> failing_step s s'"
| success_step: "failing_step s (handle_inspection_success now session_end d s)"

inductive failing_reachable :: "periodic_failure \<Rightarrow> bool" where
  start: "failing_reachable (initial_failure m)"
| continue: "failing_reachable s \<Longrightarrow> failing_step s s' \<Longrightarrow> failing_reachable s'"

inductive_cases failing_stepE: "failing_step s s'"

section \<open>Lemmas\<close>

lemma count_ngx_fields [simp]:
  "max_allowed_failed_requests (count_ngx t v s) = max_allowed_failed_requests s"
  "current_failed_requests (count_ngx t v s) = current_failed_requests s"
  "is_transparent_mode_active (count_ngx t v s) = is_transparent_mode_active s"
  "transparent_interval_boundry (count_ngx t v s) = transparent_interval_boundry s"
  "transparent_interval (count_ngx t v s) = transparent_interval s"
  "failing_interval (count_ngx t v s) = failing_interval s"
  "current_fail_state (count_ngx t v s) = current_fail_state s"
  "should_update_timeout (count_ngx t v s) = should_update_timeout s"
  by (simp_all add: count_ngx_def)

lemma report_fields [simp]:
  "max_allowed_failed_requests (ngx_http_cp_report_time_metrics e d s) = max_allowed_failed_requests s"
  "current_failed_requests (ngx_http_cp_report_time_metrics e d s) = current_failed_requests s"
  "is_transparent_mode_active (ngx_http_cp_report_time_metrics e d s) = is_transparent_mode_active s"
  "failing_interval (ngx_http_cp_report_time_metrics e d s) = failing_interval s"
  "current_fail_state (ngx_http_cp_report_time_metrics e d s) = current_fail_state s"
  by (simp_all add: ngx_http_cp_report_time_metrics_def Let_def)

lemma monitor_entries: "monitor i = Some f \<Longrightarrow> i < 3 \<and> fs_max_allowed_failed_requests f = 5 \<and> fs_failing_interval_boundry f = 20"
  by (auto simp: monitor_def failed_sessions_monitor_def nth_Cons' split: if_splits)

lemma monitor_defined: "monitor i = None \<longleftrightarrow> 3 \<le> i"
  by (simp add: monitor_def failed_sessions_monitor_def not_less)

text \<open>
  The invariant: the state indexes the table, and the limit is that of the table once it was set.
\<close>

definition failing_ok :: "periodic_failure \<Rightarrow> bool" where
  "failing_ok s = (current_fail_state s < 3 \<and> (max_allowed_failed_requests s = 5 \<or> max_allowed_failed_requests s = 0 \<and> failing_interval s = (0, 0)))"

lemma count_failure_fields [simp]:
  "max_allowed_failed_requests (count_failure e w b d s) = max_allowed_failed_requests s"
  "current_failed_requests (count_failure e w b d s) = current_failed_requests s + of_int w"
  "is_transparent_mode_active (count_failure e w b d s) = is_transparent_mode_active s"
  "failing_interval (count_failure e w b d s) = failing_interval s"
  "current_fail_state (count_failure e w b d s) = current_fail_state s"
  by (simp_all add: count_failure_def Let_def)

lemma reset_failure_ok:
  "reset_failure_state now s = Some s' \<Longrightarrow> failing_ok s' \<and> is_transparent_mode_active s' = is_transparent_mode_active s
     \<and> current_failed_requests s' = current_failed_requests s"
  by (auto simp: reset_failure_state_def failing_ok_def dest!: monitor_entries split: bind_splits)

lemma check_ok:
  assumes "is_in_transparent_mode now s = Some (b, s')" "failing_ok s"
  shows "failing_ok s'"
  using assms
  by (auto simp: is_in_transparent_mode_def Let_def split: if_splits dest!: reset_failure_ok) (simp_all add: failing_ok_def)

lemma reset_ok: "reset_transparent_mode now s = Some s' \<Longrightarrow> failing_ok s'"
  by (auto simp: reset_transparent_mode_def failing_ok_def dest!: monitor_entries split: bind_splits)

lemma activated:
  "current_fail_state s < 3 \<Longrightarrow> \<exists>t p. activate_transparent_mode now s
     = Some (s\<lparr>is_transparent_mode_active := True, transparent_interval := t, transparent_interval_boundry := p\<rparr>)"
  using monitor_defined [of "current_fail_state s"]
  by (cases "monitor (current_fail_state s)") (auto simp: activate_transparent_mode_def simp del: split_paired_Ex)

lemma settle_ok: "settle_failure now s = Some s' \<Longrightarrow> failing_ok s \<Longrightarrow> failing_ok s'"
  using activated [of s now]
  by (auto simp: settle_failure_def next_fail_state_def failed_sessions_monitor_length_def failing_ok_def Let_def
      dest!: monitor_entries dest: reset_failure_ok split: if_splits bind_splits)

lemma settle_faults:
  assumes "failing_ok s"
  shows "settle_failure now s = None \<longleftrightarrow>
    \<not> is_timeout_reached now (failing_interval s) \<and> max_allowed_failed_requests s < current_failed_requests s
      \<and> current_fail_state s = 2"
  using activated [of s now] assms
  by (auto simp: settle_failure_def next_fail_state_def failed_sessions_monitor_length_def failing_ok_def Let_def
      reset_failure_state_def monitor_defined bind_eq_None_conv not_le not_less word_greater_zero_iff)

lemma failure_ok:
  assumes "handle_inspection_failure now e weight fail_open d s = Some (d', s')" "failing_ok s"
  shows "failing_ok s'"
  using assms settle_ok [of now "count_failure e weight fail_open d s" s']
  by (auto simp: handle_inspection_failure_def failing_ok_def split: if_splits)

lemma success_ok: "failing_ok s \<Longrightarrow> failing_ok (handle_inspection_success now e d s)"
  by (simp add: handle_inspection_success_def Let_def failing_ok_def)

lemma failing_reachable_ok: "failing_reachable s \<Longrightarrow> failing_ok s"
proof (induction rule: failing_reachable.induct)
  case (start m)
  then show ?case by (simp add: failing_ok_def initial_failure_def)
next
  case (continue s s')
  from continue.hyps(2) show ?case
    by (cases rule: failing_step.cases) (use continue.IH check_ok reset_ok failure_ok success_ok in blast)+
qed

section \<open>Sequences of failures\<close>

text \<open>Failures one after the other, and requests that each check the mode first.\<close>

record failure_event =
  fe_now :: timeval
  fe_end :: timespec
  fe_weight :: nat
  fe_open :: bool
  fe_session :: ngx_session

fun inspection_failures :: "failure_event list \<Rightarrow> periodic_failure \<Rightarrow> periodic_failure option" where
  "inspection_failures [] s = Some s"
| "inspection_failures (f # fs) s =
     do {
       (_, s1) \<leftarrow> handle_inspection_failure (fe_now f) (fe_end f) (int (fe_weight f)) (fe_open f) (fe_session f) s;
       inspection_failures fs s1
     }"

fun checked_requests :: "(timeval \<times> failure_event list) list \<Rightarrow> periodic_failure \<Rightarrow> periodic_failure option" where
  "checked_requests [] s = Some s"
| "checked_requests ((now, fs) # rs) s =
     do { (_, s1) \<leftarrow> is_in_transparent_mode now s; s2 \<leftarrow> inspection_failures fs s1; checked_requests rs s2 }"

lemma failures_reachable:
  "failing_reachable s \<Longrightarrow> inspection_failures fs s = Some s' \<Longrightarrow> failing_reachable s'"
proof (induction fs s rule: inspection_failures.induct)
  case (2 f fs s)
  from "2.prems"(2) obtain d1 s1 where
    "handle_inspection_failure (fe_now f) (fe_end f) (int (fe_weight f)) (fe_open f) (fe_session f) s = Some (d1, s1)"
    "inspection_failures fs s1 = Some s'" by (auto split: bind_splits)
  moreover from this(1) have "failing_reachable s1"
    by (rule failing_reachable.continue [OF "2.prems"(1) failure_step])
  ultimately show ?case using "2.IH" by blast
qed simp

lemma few_failures_step:
  assumes "current_fail_state s < 3" "max_allowed_failed_requests s = 5" "current_failed_requests s = of_nat k" "k + w \<le> 5"
  shows "\<exists>d' s'. handle_inspection_failure now e (int w) fail_open d s = Some (d', s') \<and> current_fail_state s' < 3
    \<and> max_allowed_failed_requests s' = 5 \<and> is_transparent_mode_active s' = is_transparent_mode_active s
    \<and> (\<exists>k'. current_failed_requests s' = of_nat k' \<and> k' \<le> k + w)"
proof -
  have le: "(word_of_nat k + word_of_nat w :: u64) \<le> 5"
    using assms(4) by (simp add: word_le_nat_alt unat_of_nat take_bit_nat_eq_self flip: of_nat_add)
  obtain m where m: "monitor (current_fail_state s) = Some m" using assms(1) monitor_defined by (metis not_le not_None_eq)
  show ?thesis using assms le m monitor_entries [OF m]
    by (auto simp: handle_inspection_failure_def settle_failure_def reset_failure_state_def
        intro: exI [of _ k] exI [of _ "k + w"])
qed

lemma few_failures:
  "current_fail_state s < 3 \<Longrightarrow> max_allowed_failed_requests s = 5 \<Longrightarrow> current_failed_requests s = of_nat k
     \<Longrightarrow> k + sum_list (map fe_weight fs) \<le> 5
     \<Longrightarrow> \<exists>s'. inspection_failures fs s = Some s' \<and> current_fail_state s' < 3
           \<and> is_transparent_mode_active s' = is_transparent_mode_active s"
proof (induction fs arbitrary: s k)
  case (Cons f fs)
  have "k + fe_weight f \<le> 5" using Cons.prems(4) by simp
  from few_failures_step [OF Cons.prems(1,2,3) this, of "fe_now f" "fe_end f" "fe_open f" "fe_session f"]
  obtain d1 s1 k1 where s1:
    "handle_inspection_failure (fe_now f) (fe_end f) (int (fe_weight f)) (fe_open f) (fe_session f) s = Some (d1, s1)"
    "current_fail_state s1 < 3" "max_allowed_failed_requests s1 = 5"
    "is_transparent_mode_active s1 = is_transparent_mode_active s" "current_failed_requests s1 = of_nat k1" "k1 \<le> k + fe_weight f"
    by blast
  have "k1 + sum_list (map fe_weight fs) \<le> 5" using s1(6) Cons.prems(4) by simp
  from Cons.IH [OF s1(2,3,5) this] show ?case using s1 by auto
qed simp

lemma inactive_check:
  assumes "\<not> is_transparent_mode_active s" "current_fail_state s < 3"
  shows "\<exists>s'. is_in_transparent_mode now s = Some (False, s') \<and> \<not> is_transparent_mode_active s' \<and> current_fail_state s' < 3
    \<and> max_allowed_failed_requests s' = 5 \<and> current_failed_requests s' = 0"
proof -
  obtain m where m: "monitor (current_fail_state s) = Some m" using assms(2) monitor_defined by (metis not_le not_None_eq)
  show ?thesis using assms m monitor_entries [OF m] by (simp add: is_in_transparent_mode_def reset_failure_state_def)
qed

end
