(* ===== verification/Ngx_Session_Rate.thy ===== *)
theory Ngx_Session_Rate
  imports Nano_Common
begin

text \<open>
  The limit on sessions per minute of the nginx module (\<open>enforce_sessions_rate\<close> of \<open>ngx_cp_hooks.c\<close> and
  \<open>get_periodic_sessions_limit_info\<close> of \<open>ngx_cp_utils.c\<close>): one counter per second of the minute and their
  sum, on 32-bit words. The abstract specification is the list of the times of all sessions; the
  counters refine it.
\<close>

section \<open>State and operations\<close>

record sessions_per_minute_limit =
  sessions_per_second :: "nat \<Rightarrow> u32"
  last_minute_sessions_sum :: u32
  last_session_time :: u32

record session_rate =
  rate_info :: sessions_per_minute_limit
  sessions_per_minute_limit_verdict :: ServiceVerdict
  max_sessions_per_minute :: u32

text \<open>What the configuration answers: \<open>isFailOpenOnSessionLimit\<close> and \<open>getMaxSessionsPerMinute\<close>.\<close>

type_synonym rate_conf = "bool \<times> u32"

definition one_minute :: u32 where
  "one_minute = 60"

definition initial_rate :: session_rate where
  "initial_rate =
     \<lparr>rate_info = \<lparr>sessions_per_second = \<lambda>_. 0, last_minute_sessions_sum = 0, last_session_time = 0\<rparr>,
      sessions_per_minute_limit_verdict = TRAFFIC_VERDICT_ACCEPT, max_sessions_per_minute = 0\<rparr>"

definition get_periodic_sessions_limit_info :: "rate_conf \<Rightarrow> u32 \<Rightarrow> session_rate \<Rightarrow> session_rate" where
  "get_periodic_sessions_limit_info conf now s =
     (if last_session_time (rate_info s) = 0 then
        s\<lparr>rate_info := (rate_info s)\<lparr>last_session_time := now\<rparr>,
          sessions_per_minute_limit_verdict := (if fst conf then TRAFFIC_VERDICT_ACCEPT else TRAFFIC_VERDICT_DROP),
          max_sessions_per_minute := snd conf\<rparr>
      else s)"

fun expire_seconds :: "nat \<Rightarrow> u32 \<Rightarrow> sessions_per_minute_limit \<Rightarrow> sessions_per_minute_limit" where
  "expire_seconds 0 expired_session l = l"
| "expire_seconds (Suc n) expired_session l =
     (let k = unat (expired_session mod 60) in
      expire_seconds n (expired_session - 1)
        (l\<lparr>last_minute_sessions_sum := last_minute_sessions_sum l - sessions_per_second l k,
           sessions_per_second := (sessions_per_second l)(k := 0)\<rparr>))"

definition clean_sessions :: "u32 \<Rightarrow> sessions_per_minute_limit \<Rightarrow> sessions_per_minute_limit" where
  "clean_sessions now l =
     (let seconds_since_last_session = now - last_session_time l in
      if seconds_since_last_session > one_minute then
        l\<lparr>sessions_per_second := \<lambda>_. 0, last_minute_sessions_sum := 0, last_session_time := now\<rparr>
      else if seconds_since_last_session \<noteq> 0 then
        (expire_seconds (unat seconds_since_last_session) now l)\<lparr>last_session_time := now\<rparr>
      else l)"

definition count_session :: "u32 \<Rightarrow> sessions_per_minute_limit \<Rightarrow> sessions_per_minute_limit" where
  "count_session now l =
     (let k = unat (now mod 60) in
      l\<lparr>sessions_per_second := (sessions_per_second l)(k := sessions_per_second l k + 1),
        last_minute_sessions_sum := last_minute_sessions_sum l + 1\<rparr>)"

definition enforce_sessions_rate :: "rate_conf \<Rightarrow> u32 \<Rightarrow> session_rate \<Rightarrow> ServiceVerdict \<times> session_rate" where
  "enforce_sessions_rate conf now s =
     (let s1 = get_periodic_sessions_limit_info conf now s;
          l = count_session now (clean_sessions now (rate_info s1));
          s2 = s1\<lparr>rate_info := l\<rparr>
      in (if max_sessions_per_minute s1 \<noteq> 0 \<and> last_minute_sessions_sum l > max_sessions_per_minute s1
          then sessions_per_minute_limit_verdict s1 else TRAFFIC_VERDICT_INSPECT, s2))"

fun enforce_all :: "rate_conf \<Rightarrow> nat list \<Rightarrow> session_rate \<Rightarrow> ServiceVerdict list" where
  "enforce_all conf [] s = []"
| "enforce_all conf (t # ts) s =
     (let (v, s1) = enforce_sessions_rate conf (of_nat t) s in v # enforce_all conf ts s1)"

section \<open>Specification\<close>

text \<open>The sessions of the minute that ends with \<open>now\<close>, and the verdict on the session that starts then.\<close>

definition last_minute :: "nat \<Rightarrow> nat list \<Rightarrow> nat list" where
  "last_minute now h = filter (\<lambda>t. now < t + 60) h"

definition rate_verdict :: "rate_conf \<Rightarrow> nat \<Rightarrow> nat list \<Rightarrow> ServiceVerdict" where
  "rate_verdict conf now h =
     (if snd conf \<noteq> 0 \<and> unat (snd conf) < length (last_minute now h)
      then (if fst conf then TRAFFIC_VERDICT_ACCEPT else TRAFFIC_VERDICT_DROP) else TRAFFIC_VERDICT_INSPECT)"

fun rate_verdicts :: "rate_conf \<Rightarrow> nat list \<Rightarrow> nat list \<Rightarrow> ServiceVerdict list" where
  "rate_verdicts conf h [] = []"
| "rate_verdicts conf h (t # ts) = rate_verdict conf t (t # h) # rate_verdicts conf (t # h) ts"

section \<open>Refinement\<close>

text \<open>Counters that stand for the sessions with a property, one by one and in sum.\<close>

definition counts_of :: "(nat \<Rightarrow> bool) \<Rightarrow> nat list \<Rightarrow> sessions_per_minute_limit \<Rightarrow> bool" where
  "counts_of P h l \<longleftrightarrow>
     (\<forall>k<60. sessions_per_second l k = of_nat (length (filter (\<lambda>t. P t \<and> t mod 60 = k) h)))
     \<and> last_minute_sessions_sum l = of_nat (length (filter P h))"

lemma counts_of_cong: "(\<And>t. t \<in> set h \<Longrightarrow> P t = Q t) \<Longrightarrow> counts_of P h l = counts_of Q h l"
  by (simp add: counts_of_def cong: filter_cong conj_cong)

lemma length_filter_split: "length (filter P h) = length (filter (\<lambda>t. P t \<and> Q t) h) + length (filter (\<lambda>t. P t \<and> \<not> Q t) h)"
  by (induction h) auto

lemma second_of: "n < 2 ^ 32 \<Longrightarrow> unat ((of_nat n :: u32) mod 60) = n mod 60"
  by (simp add: unat_mod unat_of_nat take_bit_nat_eq_self)

lemma expire_one:
  assumes "counts_of P h l" "k < 60"
  shows "counts_of (\<lambda>t. P t \<and> t mod 60 \<noteq> k) h
    (l\<lparr>last_minute_sessions_sum := last_minute_sessions_sum l - sessions_per_second l k,
       sessions_per_second := (sessions_per_second l)(k := 0)\<rparr>)"
proof -
  have "(of_nat (length (filter P h)) :: u32) - of_nat (length (filter (\<lambda>t. P t \<and> t mod 60 = k) h))
      = of_nat (length (filter (\<lambda>t. P t \<and> t mod 60 \<noteq> k) h))"
    by (subst length_filter_split [of P h "\<lambda>t. t mod 60 = k"]) simp
  moreover have "filter (\<lambda>t. (P t \<and> t mod 60 \<noteq> k) \<and> t mod 60 = k') h = (if k' = k then [] else filter (\<lambda>t. P t \<and> t mod 60 = k') h)" for k'
    by (auto intro: filter_cong)
  ultimately show ?thesis using assms by (simp add: counts_of_def)
qed

lemma expire_counts:
  assumes "counts_of P h l" "n \<le> e" "e < 2 ^ 32"
  shows "counts_of (\<lambda>t. P t \<and> (\<forall>i<n. t mod 60 \<noteq> (e - i) mod 60)) h (expire_seconds n (of_nat e) l)"
  using assms
proof (induction n arbitrary: P e l)
  case (Suc n)
  obtain e' where e: "e = Suc e'" using Suc.prems(2) by (cases e) auto
  let ?l = "l\<lparr>last_minute_sessions_sum := last_minute_sessions_sum l - sessions_per_second l (e mod 60),
       sessions_per_second := (sessions_per_second l)(e mod 60 := 0)\<rparr>"
  have "counts_of (\<lambda>t. P t \<and> t mod 60 \<noteq> e mod 60) h ?l" using Suc.prems(1) by (rule expire_one) simp
  then have "counts_of (\<lambda>t. (P t \<and> t mod 60 \<noteq> e mod 60) \<and> (\<forall>i<n. t mod 60 \<noteq> (e' - i) mod 60)) h
      (expire_seconds n (of_nat e') ?l)"
    using Suc.prems(2,3) e by (intro Suc.IH) auto
  moreover have "(\<forall>i<Suc n. t mod 60 \<noteq> (e - i) mod 60) \<longleftrightarrow> t mod 60 \<noteq> e mod 60 \<and> (\<forall>i<n. t mod 60 \<noteq> (e' - i) mod 60)" for t
    using e by (auto simp: less_Suc_eq_0_disj)
  ultimately show ?case using second_of [OF Suc.prems(3)] by (simp add: Let_def e conj_assoc)
qed simp

text \<open>What the last session left: counters for the minute that ended with it.\<close>

definition rate_rep :: "nat list \<Rightarrow> nat \<Rightarrow> sessions_per_minute_limit \<Rightarrow> bool" where
  "rate_rep h T l \<longleftrightarrow> counts_of (\<lambda>t. T < t + 60) h l \<and> last_session_time l = of_nat T \<and> (\<forall>t\<in>set h. t \<le> T)"

lemma same_second:
  fixes t :: nat
  assumes "t \<le> T" "T < t + 60" "T \<le> now" "now - T \<le> 60"
  shows "(\<forall>i<now - T. t mod 60 \<noteq> (now - i) mod 60) \<longleftrightarrow> now < t + 60"
proof
  show "now < t + 60" if none: "\<forall>i<now - T. t mod 60 \<noteq> (now - i) mod 60"
  proof (rule ccontr)
    assume "\<not> now < t + 60"
    then have "now - (t + 60) < now - T" "now - (now - (t + 60)) = t + 60" using assms by auto
    with none have "t mod 60 \<noteq> (t + 60) mod 60" by metis
    then show False by simp
  qed
next
  show "\<forall>i<now - T. t mod 60 \<noteq> (now - i) mod 60" if now: "now < t + 60"
  proof (intro allI impI)
    fix i assume "i < now - T"
    then have "t < now - i" "now - i - t < 60" using assms now by auto
    then show "t mod 60 \<noteq> (now - i) mod 60"
      by (metis less_imp_le mod_eq_dvd_iff_nat nat_dvd_not_less zero_less_diff)
  qed
qed

lemma clean_sessions_rep:
  assumes rep: "rate_rep h T l" and T: "T \<le> now" "now < 2 ^ 32"
  shows "rate_rep h now (clean_sessions (of_nat now) l)"
proof -
  have d: "(of_nat now :: u32) - of_nat T = of_nat (now - T)" using T by simp
  have u: "unat (of_nat (now - T) :: u32) = now - T" using T by (simp add: unat_of_nat take_bit_nat_eq_self del: of_nat_diff)
  have le: "\<forall>t\<in>set h. t \<le> now" using rep T by (auto simp: rate_rep_def)
  consider (far) "60 < now - T" | (near) "0 < now - T" "now - T \<le> 60" | (same) "now = T" using T by linarith
  then show ?thesis
  proof cases
    case far
    then have "(of_nat (now - T) :: u32) > one_minute" using u by (simp add: one_minute_def word_less_nat_alt)
    moreover have "filter (\<lambda>t. now < t + 60) h = []" "filter (\<lambda>t. now < t + 60 \<and> t mod 60 = k) h = []" for k
      using far rep by (auto simp: rate_rep_def filter_empty_conv)
    ultimately show ?thesis using le rep d by (simp add: rate_rep_def clean_sessions_def counts_of_def)
  next
    case near
    then have "\<not> (of_nat (now - T) :: u32) > one_minute" "(of_nat (now - T) :: u32) \<noteq> 0"
      using u by (auto simp: one_minute_def word_less_nat_alt)
    moreover have "counts_of (\<lambda>t. now < t + 60) h (expire_seconds (now - T) (of_nat now) l)"
    proof (rule iffD1 [OF counts_of_cong])
      show "counts_of (\<lambda>t. T < t + 60 \<and> (\<forall>i<now - T. t mod 60 \<noteq> (now - i) mod 60)) h (expire_seconds (now - T) (of_nat now) l)"
        using rep T by (intro expire_counts) (auto simp: rate_rep_def)
      show "(T < t + 60 \<and> (\<forall>i<now - T. t mod 60 \<noteq> (now - i) mod 60)) = (now < t + 60)" if "t \<in> set h" for t
        using same_second [of t T now] that rep T near by (auto simp: rate_rep_def)
    qed
    ultimately show ?thesis using le rep d u by (simp add: rate_rep_def clean_sessions_def counts_of_def)
  next
    case same
    then show ?thesis using rep by (simp add: rate_rep_def clean_sessions_def one_minute_def)
  qed
qed

lemma count_session_rep:
  assumes "rate_rep h now l" "now < 2 ^ 32"
  shows "rate_rep (now # h) now (count_session (of_nat now) l)"
  using assms by (auto simp: rate_rep_def count_session_def counts_of_def Let_def second_of)

definition rate_ok :: "rate_conf \<Rightarrow> nat list \<Rightarrow> nat \<Rightarrow> session_rate \<Rightarrow> bool" where
  "rate_ok conf h T s \<longleftrightarrow>
     (if last_session_time (rate_info s) = 0 then h = [] \<and> counts_of (\<lambda>_. True) [] (rate_info s)
      else 0 < T \<and> T < 2 ^ 32 \<and> rate_rep h T (rate_info s) \<and> max_sessions_per_minute s = snd conf
        \<and> sessions_per_minute_limit_verdict s = (if fst conf then TRAFFIC_VERDICT_ACCEPT else TRAFFIC_VERDICT_DROP))"

lemma enforce_refines:
  assumes ok: "rate_ok conf h T s" and now: "T \<le> now" "0 < now" "now < 2 ^ 32" and few: "Suc (length h) < 2 ^ 32"
  shows "fst (enforce_sessions_rate conf (of_nat now) s) = rate_verdict conf now (now # h)"
    and "rate_ok conf (now # h) now (snd (enforce_sessions_rate conf (of_nat now) s))"
proof -
  define s1 where "s1 = get_periodic_sessions_limit_info conf (of_nat now) s"
  have nz: "(of_nat now :: u32) \<noteq> 0" using now by (simp add: unat_eq_zero [symmetric] unat_of_nat take_bit_nat_eq_self)
  have s1: "rate_rep h (if last_session_time (rate_info s) = 0 then now else T) (rate_info s1)"
      "max_sessions_per_minute s1 = snd conf"
      "sessions_per_minute_limit_verdict s1 = (if fst conf then TRAFFIC_VERDICT_ACCEPT else TRAFFIC_VERDICT_DROP)"
    using ok by (auto simp: s1_def get_periodic_sessions_limit_info_def rate_ok_def rate_rep_def counts_of_def split: if_splits)
  define l where "l = count_session (of_nat now) (clean_sessions (of_nat now) (rate_info s1))"
  have "rate_rep h now (clean_sessions (of_nat now) (rate_info s1))"
    using clean_sessions_rep [OF s1(1)] now by (auto split: if_splits)
  then have l: "rate_rep (now # h) now l" unfolding l_def using now by (intro count_session_rep)
  have len: "length (last_minute now (now # h)) < 2 ^ 32"
    using few by (auto simp: last_minute_def intro: le_less_trans [OF length_filter_le])
  have sum: "unat (last_minute_sessions_sum l) = length (last_minute now (now # h))"
  proof -
    have "last_minute_sessions_sum l = of_nat (length (last_minute now (now # h)))"
      using l by (simp only: rate_rep_def counts_of_def last_minute_def)
    then show ?thesis using len by (simp only: unat_of_nat take_bit_nat_eq_self) simp
  qed
  have enf: "enforce_sessions_rate conf (of_nat now) s =
      (if max_sessions_per_minute s1 \<noteq> 0 \<and> last_minute_sessions_sum l > max_sessions_per_minute s1
       then sessions_per_minute_limit_verdict s1 else TRAFFIC_VERDICT_INSPECT, s1\<lparr>rate_info := l\<rparr>)"
    by (simp add: enforce_sessions_rate_def s1_def l_def Let_def)
  show "fst (enforce_sessions_rate conf (of_nat now) s) = rate_verdict conf now (now # h)"
    using s1 sum by (simp add: enf rate_verdict_def word_less_nat_alt)
  show "rate_ok conf (now # h) now (snd (enforce_sessions_rate conf (of_nat now) s))"
    using l nz now s1 by (simp add: enf rate_ok_def rate_rep_def)
qed

lemma enforce_all_refines:
  assumes "rate_ok conf h T s" "sorted (T # ts)" "\<forall>t\<in>set ts. 0 < t \<and> t < 2 ^ 32" "length h + length ts < 2 ^ 32"
  shows "enforce_all conf ts s = rate_verdicts conf h ts"
  using assms
proof (induction ts arbitrary: h T s)
  case (Cons t ts)
  then have "fst (enforce_sessions_rate conf (of_nat t) s) = rate_verdict conf t (t # h)"
      "rate_ok conf (t # h) t (snd (enforce_sessions_rate conf (of_nat t) s))"
    using enforce_refines [of conf h T s t] by auto
  moreover from this(2) have "enforce_all conf ts (snd (enforce_sessions_rate conf (of_nat t) s)) = rate_verdicts conf (t # h) ts"
    using Cons.prems by (intro Cons.IH) auto
  ultimately show ?case by (simp add: Let_def case_prod_beta)
qed simp

lemma initial_rate_ok: "rate_ok conf [] 0 initial_rate"
  by (simp add: rate_ok_def initial_rate_def counts_of_def)

end
