(* ===== verification/Ngx_Common.thy ===== *)
theory Ngx_Common
  imports Nano_Reply "HOL-Library.Monad_Syntax"
begin

text \<open>
  Result codes of nginx that the module uses, and the strings and lists of nginx: a list is a
  sequence of parts, each an array of elements. What nginx's own functions do is a parameter:
  whether the pool has memory (\<open>alloc\<close>, by the number of the call), and how an element is
  pushed to a list (\<open>ngx_list_push\<close>).
\<close>

datatype ngx_int =
    NGX_OK | NGX_ERROR | NGX_AGAIN | NGX_DONE | NGX_DECLINED | NGX_HTTP_FORBIDDEN | NGX_HTTP_REQUEST_TIME_OUT | NGX_ABORT

type_synonym ngx_header = "bytes \<times> bytes"

type_synonym ngx_headers = "ngx_header list list"

section \<open>Iterators over lists\<close>

record ngx_list_iterator =
  current_part :: nat
  current_part_element_index :: nat
  current_list_element_index :: nat

definition init_list_iterator :: ngx_list_iterator where
  "init_list_iterator = \<lparr>current_part = 0, current_part_element_index = 0, current_list_element_index = 0\<rparr>"

fun advance_iterator :: "'a list list \<Rightarrow> nat \<Rightarrow> ngx_list_iterator \<Rightarrow> ngx_list_iterator" where
  "advance_iterator l 0 it = it"
| "advance_iterator l (Suc n) it =
     (if current_part_element_index it \<ge> length (l ! current_part it) then
        (if Suc (current_part it) \<ge> length l then it
         else advance_iterator l n
                (it\<lparr>current_part := Suc (current_part it), current_part_element_index := 1,
                    current_list_element_index := Suc (current_list_element_index it)\<rparr>))
      else advance_iterator l n
             (it\<lparr>current_part_element_index := Suc (current_part_element_index it),
                 current_list_element_index := Suc (current_list_element_index it)\<rparr>))"

text \<open>The part and the index in it, or \<open>None\<close> for \<open>NULL\<close>; the index is not checked against the part.\<close>

definition get_list_element :: "'a list list \<Rightarrow> nat \<Rightarrow> ngx_list_iterator \<Rightarrow> (nat \<times> nat) option \<times> ngx_list_iterator" where
  "get_list_element l index it =
     (let it1 = advance_iterator l (index - current_list_element_index it) it in
      if Suc (current_part it1) \<ge> length l \<and> current_list_element_index it1 < index then (None, it1)
      else (Some (current_part it1, current_part_element_index it1), it1))"

text \<open>A read or write of an element outside its part is a fault.\<close>

definition list_elem :: "'a list list \<Rightarrow> nat \<times> nat \<Rightarrow> 'a option" where
  "list_elem l loc = (if fst loc < length l \<and> snd loc < length (l ! fst loc) then Some (l ! fst loc ! snd loc) else None)"

definition set_list_elem :: "'a list list \<Rightarrow> nat \<times> nat \<Rightarrow> 'a \<Rightarrow> 'a list list" where
  "set_list_elem l loc x = l[fst loc := (l ! fst loc)[snd loc := x]]"

section \<open>What the iterator finds\<close>

text \<open>The index is the first of a later part, or the length of the list.\<close>

definition part_start :: "'a list list \<Rightarrow> nat \<Rightarrow> bool" where
  "part_start l i = (\<exists>n\<in>{1..length l}. i = length (concat (take n l)))"

lemma prefix_length_mono:
  assumes "m \<le> n" shows "length (concat (take m l)) \<le> length (concat (take n l))"
proof -
  have "take n l = take m l @ take (n - m) (drop m l)" using assms by (metis le_add_diff_inverse take_add)
  then show ?thesis by simp
qed

lemma concat_split: "p < length l \<Longrightarrow> concat l = concat (take p l) @ l ! p @ concat (drop (Suc p) l)"
  by (metis concat.simps(2) concat_append id_take_nth_drop)

lemma concat_update: "p < length l \<Longrightarrow> concat (l[p := y]) = concat (take p l) @ y @ concat (drop (Suc p) l)"
  by (simp add: upd_conv_take_nth_drop)

lemma prefix_Suc: "p < length l \<Longrightarrow> concat (take (Suc p) l) = concat (take p l) @ l ! p"
  by (simp add: take_Suc_conv_app_nth)

text \<open>Where the iterator stands: at an element of its part, or behind the last one of it.\<close>

definition stands_at :: "'a list list \<Rightarrow> nat \<Rightarrow> ngx_list_iterator \<Rightarrow> bool" where
  "stands_at l i it \<longleftrightarrow>
     current_list_element_index it = i \<and> current_part it < length l
     \<and> i = length (concat (take (current_part it) l)) + current_part_element_index it
     \<and> current_part_element_index it \<le> length (l ! current_part it)
     \<and> (current_part_element_index it = 0 \<longrightarrow> i = 0)"

lemma advance_stands:
  assumes "\<forall>p\<in>set l. p \<noteq> []" "stands_at l i it" "i + n \<le> length (concat l)"
  shows "stands_at l (i + n) (advance_iterator l n it)"
  using assms(2,3)
proof (induction n arbitrary: i it)
  case (Suc n)
  let ?p = "current_part it" and ?j = "current_part_element_index it"
  have p: "?p < length l" "i = length (concat (take ?p l)) + ?j" "?j \<le> length (l ! ?p)" "current_list_element_index it = i"
    using Suc.prems(1) by (auto simp: stands_at_def)
  show ?case
  proof (cases "?j = length (l ! ?p)")
    case True
    then have full: "length (concat (take (Suc ?p) l)) = i" using p by (simp add: prefix_Suc)
    have next_part: "Suc ?p < length l"
    proof (rule ccontr)
      assume "\<not> Suc ?p < length l"
      then have "concat (take (Suc ?p) l) = concat l" by simp
      with full Suc.prems(2) show False by simp
    qed
    then have "l ! Suc ?p \<noteq> []" using assms(1) by simp
    then have "stands_at l (Suc i) (it\<lparr>current_part := Suc ?p, current_part_element_index := 1, current_list_element_index := Suc i\<rparr>)"
      using next_part full by (simp add: stands_at_def Suc_le_eq)
    from Suc.IH [OF this] Suc.prems(2) True next_part p show ?thesis by simp
  next
    case False
    then have "stands_at l (Suc i) (it\<lparr>current_part_element_index := Suc ?j, current_list_element_index := Suc i\<rparr>)"
      using p by (simp add: stands_at_def)
    from Suc.IH [OF this] Suc.prems(2) False p show ?thesis by simp
  qed
qed simp

lemma stands_inside:
  assumes "\<forall>p\<in>set l. p \<noteq> []" "stands_at l i it"
  shows "current_part_element_index it < length (l ! current_part it) \<longleftrightarrow> \<not> part_start l i"
proof -
  let ?p = "current_part it" and ?j = "current_part_element_index it"
  have p: "?p < length l" "i = length (concat (take ?p l)) + ?j" "?j \<le> length (l ! ?p)" "?j = 0 \<longrightarrow> i = 0"
    using assms(2) by (auto simp: stands_at_def)
  show ?thesis
  proof (cases "?j = length (l ! ?p)")
    case True
    then have "i = length (concat (take (Suc ?p) l))" "Suc ?p \<in> {1..length l}" using p by (auto simp: prefix_Suc)
    then have "part_start l i" unfolding part_start_def by blast
    with True show ?thesis by simp
  next
    case False
    have "i \<noteq> length (concat (take n l))" if n: "n \<in> {1..length l}" for n
    proof (cases "n \<le> ?p")
      case True
      have "0 < length (concat (take 1 l))" using assms(1) n p(1) by (cases l) auto
      also have "\<dots> \<le> length (concat (take n l))" using n by (intro prefix_length_mono) auto
      finally have "0 < length (concat (take n l))" .
      then show ?thesis using prefix_length_mono [OF True, of l] p(2,4) by (cases "?j = 0") linarith+
    next
      case more: False
      then have "length (concat (take (Suc ?p) l)) \<le> length (concat (take n l))" by (intro prefix_length_mono) simp
      then show ?thesis using p False by (simp add: prefix_Suc)
    qed
    then show ?thesis using p False by (auto simp: part_start_def)
  qed
qed

lemma found_element:
  assumes "\<forall>p\<in>set l. p \<noteq> []" "i < length (concat l)"
  shows "\<exists>loc it. get_list_element l i init_list_iterator = (Some loc, it)
    \<and> list_elem l loc = (if part_start l i then None else Some (concat l ! i))
    \<and> (\<not> part_start l i \<longrightarrow> (\<forall>x. concat (set_list_elem l loc x) = (concat l)[i := x]))"
proof -
  have "l \<noteq> []" using assms(2) by auto
  then have "stands_at l 0 init_list_iterator" by (simp add: stands_at_def init_list_iterator_def)
  from advance_stands [OF assms(1) this, of i] assms(2)
  obtain it where it: "it = advance_iterator l i init_list_iterator" and st: "stands_at l i it" by simp
  let ?p = "current_part it" and ?j = "current_part_element_index it"
  have p: "?p < length l" "i = length (concat (take ?p l)) + ?j" "current_list_element_index it = i"
    using st unfolding stands_at_def by blast+
  have get: "get_list_element l i init_list_iterator = (Some (?p, ?j), it)"
    using p(3) by (simp add: get_list_element_def it [symmetric]) (simp add: init_list_iterator_def it Let_def)
  have inside: "?j < length (l ! ?p) \<longleftrightarrow> \<not> part_start l i" using stands_inside [OF assms(1) st] .
  have elem: "concat l ! i = l ! ?p ! ?j" if "?j < length (l ! ?p)"
    unfolding p(2) using that by (subst concat_split [OF p(1)]) (simp add: nth_append)
  have upd: "concat (set_list_elem l (?p, ?j) x) = (concat l)[i := x]" if "?j < length (l ! ?p)" for x
    unfolding p(2) using that
    by (subst concat_split [OF p(1)]) (simp add: set_list_elem_def concat_update [OF p(1)] list_update_append)
  show ?thesis using get inside elem upd p(1) by (auto simp: list_elem_def)
qed

end
