(* ===== verification/Ngx_Modification.thy ===== *)
theory Ngx_Modification
  imports Ngx_Common
begin

text \<open>
  The modifications the service asks for, applied to the headers and to the body of a
  transaction (\<open>ngx_cp_custom_response.c\<close>). \<open>None\<close> is a fault: a read of a released node, an
  element outside its part, a copy of negative length, or an assertion of the debug function.
\<close>

section \<open>Injection\<close>

definition mod_pos :: "NanoHttpModification \<Rightarrow> nat" where
  "mod_pos m = unat (injection_pos (modification m))"

text \<open>
  The bytes copied from the buffer of a node, which was cleared when it was allocated and holds
  the data up to a zero byte.
\<close>

definition mod_bytes :: "NanoHttpModification \<Rightarrow> bytes" where
  "mod_bytes m =
     (let n = unat (injection_size (modification m)) in take n (modification_buffer m @ replicate n 0))"

definition inject_buffer :: "bool \<Rightarrow> nat \<Rightarrow> bytes \<Rightarrow> bytes \<Rightarrow> ngx_int \<times> bytes" where
  "inject_buffer allocated pos injected original =
     (if pos > length original then (NGX_ERROR, original)
      else if \<not> allocated then (NGX_ERROR, original)
      else (NGX_OK, take pos original @ injected @ drop pos original))"

section \<open>Headers\<close>

record ngx_list_calls =
  ngx_list_push :: "ngx_header \<Rightarrow> ngx_headers \<Rightarrow> ngx_headers option"
  ngx_uninitialised :: ngx_header
  ngx_alloc :: "nat \<Rightarrow> bool"

definition inject_header_value :: "bool \<Rightarrow> ngx_header \<Rightarrow> NanoHttpModification \<Rightarrow> (ngx_int \<times> ngx_header) option" where
  "inject_header_value allocated header m =
     (if sint (injection_pos (modification m)) < 0 then None
      else
        let (r, v) = inject_buffer allocated (mod_pos m) (mod_bytes m) (snd header)
        in Some (r, (fst header, v)))"

text \<open>
  The sizes arrive as signed 16-bit numbers; a negative one is converted to a huge length for the
  copy. The element is in the list before its strings are allocated.
\<close>

definition push_header_to_list ::
    "ngx_list_calls \<Rightarrow> nat \<Rightarrow> NanoHttpModification \<Rightarrow> NanoHttpModification \<Rightarrow> ngx_headers \<Rightarrow> (ngx_int \<times> ngx_headers) option" where
  "push_header_to_list ng k km vm headers =
     (let ksize = sint (injection_size (modification km)); vsize = sint (injection_size (modification vm)) in
      case ngx_list_push ng (ngx_uninitialised ng) headers of
        None \<Rightarrow> Some (NGX_ERROR, headers)
      | Some garbled \<Rightarrow>
          if \<not> ngx_alloc ng k then Some (NGX_ERROR, garbled)
          else if ksize < 0 then None
          else if \<not> ngx_alloc ng (k + 1) then
            Some (NGX_ERROR, case ngx_list_push ng (mod_bytes km, snd (ngx_uninitialised ng)) headers of None \<Rightarrow> garbled | Some l \<Rightarrow> l)
          else if vsize < 0 then None
          else Some (NGX_OK, case ngx_list_push ng (mod_bytes km, mod_bytes vm) headers of None \<Rightarrow> garbled | Some l \<Rightarrow> l))"

definition validate_append_header_modification :: "NanoHttpModification list \<Rightarrow> bool" where
  "validate_append_header_modification ms =
     (case ms of km # vm # _ \<Rightarrow> is_header (modification km) \<noteq> 0 \<and> is_header (modification vm) \<noteq> 0 | _ \<Rightarrow> False)"

definition MOD_APPEND :: u32 where "MOD_APPEND = 0"
definition MOD_INJECT :: u32 where "MOD_INJECT = 1"
definition MOD_REPLACE :: u32 where "MOD_REPLACE = 2"

text \<open>The headers and whether the length of the content was cleared.\<close>

record header_state =
  hs_headers :: ngx_headers
  hs_iterator :: ngx_list_iterator
  hs_length_cleared :: bool

definition perform_header_modification ::
    "ngx_list_calls \<Rightarrow> nat \<Rightarrow> bool \<Rightarrow> NanoHttpModification list \<Rightarrow> header_state \<Rightarrow> (ngx_int \<times> header_state) option" where
  "perform_header_modification ng k is_content_length ms s =
     (let m = hd ms; t = mod_type (modification m) in
      if t = MOD_APPEND then
        do {
          (r, l) \<leftarrow> push_header_to_list ng k m (hd (tl ms)) (hs_headers s);
          Some (r, s\<lparr>hs_headers := l\<rparr>)
        }
      else if t = MOD_INJECT then
        (case get_list_element (hs_headers s) (unat (orig_buff_index (modification m))) (hs_iterator s) of
           (None, it) \<Rightarrow> None
         | (Some loc, it) \<Rightarrow>
             do {
               h \<leftarrow> list_elem (hs_headers s) loc;
               (r, h') \<leftarrow> inject_header_value (ngx_alloc ng k) h m;
               Some (r, s\<lparr>hs_headers := set_list_elem (hs_headers s) loc h', hs_iterator := it\<rparr>)
             })
      else if t = MOD_REPLACE then Some (NGX_OK, if is_content_length then s\<lparr>hs_length_cleared := True\<rparr> else s)
      else None)"

definition get_next_header_modification :: "NanoHttpModification list \<Rightarrow> NanoHttpModification list" where
  "get_next_header_modification ms = (if mod_type (modification (hd ms)) = MOD_APPEND then tl (tl ms) else tl ms)"

lemma next_modification_shorter: "ms \<noteq> [] \<Longrightarrow> length (get_next_header_modification ms) < length ms"
  by (cases ms) (auto simp: get_next_header_modification_def)

function header_modifier_loop ::
    "ngx_list_calls \<Rightarrow> nat \<Rightarrow> bool \<Rightarrow> NanoHttpModification list \<Rightarrow> header_state \<Rightarrow> (ngx_int \<times> header_state) option" where
  "header_modifier_loop ng k is_content_length ms s =
     (if ms = [] \<or> is_header (modification (hd ms)) = 0 then Some (NGX_OK, s)
      else if mod_type (modification (hd ms)) = MOD_APPEND \<and> \<not> validate_append_header_modification ms then Some (NGX_ERROR, s)
      else
        do {
          (r, s1) \<leftarrow> perform_header_modification ng k is_content_length ms s;
          if r \<noteq> NGX_OK then Some (NGX_ERROR, s1)
          else header_modifier_loop ng (k + 2) is_content_length (get_next_header_modification ms) s1
        })"
  by pat_completeness auto
termination
  by (relation "measure (\<lambda>(ng, k, c, ms, s). length ms)") (auto intro: next_modification_shorter)

declare header_modifier_loop.simps [simp del]

definition ngx_http_cp_header_modifier ::
    "ngx_list_calls \<Rightarrow> bool \<Rightarrow> NanoHttpModification list \<Rightarrow> ngx_headers \<Rightarrow> (ngx_int \<times> header_state) option" where
  "ngx_http_cp_header_modifier ng is_content_length ms headers =
     header_modifier_loop ng 0 is_content_length ms
       \<lparr>hs_headers = headers, hs_iterator = init_list_iterator, hs_length_cleared = False\<rparr>"

section \<open>Body\<close>

text \<open>
  A node of the list is named by its position; the body modifier changes no \<open>next\<close> pointer.
  \<open>released\<close> tells which nodes \<open>ngx_pfree\<close> really gives back (nginx keeps small blocks until the pool is
  destroyed), and a node that was given back cannot be read.
\<close>

record mod_store =
  ms_nodes :: "NanoHttpModification list"
  ms_released :: "nat \<Rightarrow> bool"
  ms_freed :: "nat set"

definition node_at :: "mod_store \<Rightarrow> nat \<Rightarrow> NanoHttpModification option" where
  "node_at st i =
     (if i < length (ms_nodes st) \<and> \<not> (i \<in> ms_freed st \<and> ms_released st i) then Some (ms_nodes st ! i) else None)"

definition next_node :: "mod_store \<Rightarrow> nat \<Rightarrow> nat option" where
  "next_node st i = (if Suc i < length (ms_nodes st) then Some (Suc i) else None)"

definition MAX_MODIFICATIONS_PER_CHUNK :: nat where
  "MAX_MODIFICATIONS_PER_CHUNK = 64"

text \<open>The nodes for one chunk, from the current one on.\<close>

fun collect_modifications :: "mod_store \<Rightarrow> nat \<Rightarrow> nat \<Rightarrow> nat option \<Rightarrow> nat list option" where
  "collect_modifications st chunk 0 cur = Some []"
| "collect_modifications st chunk (Suc n) None = Some []"
| "collect_modifications st chunk (Suc n) (Some i) =
     do {
       m \<leftarrow> node_at st i;
       if unat (orig_buff_index (modification m)) \<noteq> chunk then Some []
       else do { is \<leftarrow> collect_modifications st chunk n (next_node st i); Some (i # is) }
     }"

text \<open>The sort by descending position: passes over ever shorter prefixes, with strict comparisons.\<close>

fun bubble_pass :: "('a \<Rightarrow> int) \<Rightarrow> nat \<Rightarrow> 'a list \<Rightarrow> 'a list" where
  "bubble_pass key (Suc n) (x # y # xs) =
     (if key x < key y then y # bubble_pass key n (x # xs) else x # bubble_pass key n (y # xs))"
| "bubble_pass key n xs = xs"

fun bubble_passes :: "('a \<Rightarrow> int) \<Rightarrow> nat \<Rightarrow> 'a list \<Rightarrow> 'a list" where
  "bubble_passes key 0 xs = xs"
| "bubble_passes key (Suc n) xs = bubble_passes key n (bubble_pass key (Suc n) xs)"

definition bubble_sort :: "('a \<Rightarrow> int) \<Rightarrow> 'a list \<Rightarrow> 'a list" where
  "bubble_sort key xs = bubble_passes key (length xs - 1) xs"

definition mod_key :: "NanoHttpModification \<Rightarrow> int" where
  "mod_key m = sint (injection_pos (modification m))"

text \<open>
  The injections into one chunk. The first one uses the buffer allocated before; a position
  behind the data, and an allocation that fails, skip the modification.
\<close>

fun apply_modifications :: "(nat \<Rightarrow> bool) \<Rightarrow> nat \<Rightarrow> NanoHttpModification list \<Rightarrow> bytes \<Rightarrow> bytes" where
  "apply_modifications alloc k [] cur = cur"
| "apply_modifications alloc k (m # ms) cur =
     apply_modifications alloc (Suc k) ms
       (if mod_pos m > length cur \<or> \<not> alloc k then cur
        else take (mod_pos m) cur @ mod_bytes m @ drop (mod_pos m) cur)"

fun body_modifier_loop ::
    "(nat \<Rightarrow> nat \<Rightarrow> bool) \<Rightarrow> nat \<Rightarrow> mod_store \<Rightarrow> nat option \<Rightarrow> bytes list \<Rightarrow> (ngx_int \<times> bytes list) option" where
  "body_modifier_loop alloc chunk st cur [] = Some (NGX_OK, [])"
| "body_modifier_loop alloc chunk st None (c # cs) = Some (NGX_OK, c # cs)"
| "body_modifier_loop alloc chunk st (Some i) (c # cs) =
     (if c = [] then
        do { (r, cs') \<leftarrow> body_modifier_loop alloc (Suc chunk) st (Some i) cs; Some (r, c # cs') }
      else
        do {
          is \<leftarrow> collect_modifications st chunk MAX_MODIFICATIONS_PER_CHUNK (Some i);
          if is = [] then
            do { (r, cs') \<leftarrow> body_modifier_loop alloc (Suc chunk) st (Some i) cs; Some (r, c # cs') }
          else if \<not> alloc chunk 0 then Some (NGX_ERROR, c # cs)
          else
            do {
              let sorted_is = bubble_sort (\<lambda>j. mod_key (ms_nodes st ! j)) is;
              let c' = apply_modifications (alloc chunk) 0 (map ((!) (ms_nodes st)) sorted_is) c;
              (r, cs') \<leftarrow> body_modifier_loop alloc (Suc chunk) (st\<lparr>ms_freed := ms_freed st \<union> set is\<rparr>)
                            (next_node st (last sorted_is)) cs;
              Some (r, c' # cs')
            }
        })"

definition ngx_http_cp_body_modifier ::
    "(nat \<Rightarrow> nat \<Rightarrow> bool) \<Rightarrow> (nat \<Rightarrow> bool) \<Rightarrow> bytes list \<Rightarrow> NanoHttpModification list \<Rightarrow> (ngx_int \<times> bytes list) option" where
  "ngx_http_cp_body_modifier alloc released body ms =
     body_modifier_loop alloc 0 \<lparr>ms_nodes = ms, ms_released = released, ms_freed = {}\<rparr>
       (if ms = [] then None else Some 0) body"

section \<open>The sort\<close>

definition descending :: "('a \<Rightarrow> int) \<Rightarrow> 'a list \<Rightarrow> bool" where
  "descending key = sorted_wrt (\<lambda>x y. key y \<le> key x)"

lemma filter_bubble_pass: "filter (\<lambda>x. key x = v) (bubble_pass key n xs) = filter (\<lambda>x. key x = v) xs"
  by (induction key n xs rule: bubble_pass.induct) auto

lemma filter_bubble_passes: "filter (\<lambda>x. key x = v) (bubble_passes key n xs) = filter (\<lambda>x. key x = v) xs"
  by (induction n arbitrary: xs) (simp_all add: filter_bubble_pass)

lemma singleton_front: "xs \<noteq> [] \<Longrightarrow> \<exists>m. xs = m # drop (Suc 0) xs \<and> {m} = set (take (Suc 0) xs)"
  by (cases xs) auto

lemma bubble_pass_minimum:
  "n < length xs \<Longrightarrow> \<exists>ys m. bubble_pass key n xs = ys @ m # drop (Suc n) xs \<and> length ys = n
     \<and> (\<forall>y\<in>set ys. key m \<le> key y) \<and> set (ys @ [m]) = set (take (Suc n) xs)"
proof (induction key n xs rule: bubble_pass.induct)
  case (1 key n x y xs)
  show ?case
  proof (cases "key x < key y")
    case True
    with 1 obtain ys m where "bubble_pass key n (x # xs) = ys @ m # drop (Suc n) (x # xs)" "length ys = n"
      "\<forall>y\<in>set ys. key m \<le> key y" "set (ys @ [m]) = set (take (Suc n) (x # xs))" by auto
    moreover from this have "key m \<le> key x" by (metis Un_iff empty_iff in_set_conv_decomp insert_iff list.set(1) list.simps(15) order_refl set_append take_Suc_Cons append_Nil)
    ultimately show ?thesis using True by (intro exI [of _ "y # ys"] exI [of _ m]) auto
  next
    case False
    with 1 obtain ys m where "bubble_pass key n (y # xs) = ys @ m # drop (Suc n) (y # xs)" "length ys = n"
      "\<forall>y\<in>set ys. key m \<le> key y" "set (ys @ [m]) = set (take (Suc n) (y # xs))" by auto
    moreover from this have "key m \<le> key y" by (metis Un_iff empty_iff in_set_conv_decomp insert_iff list.set(1) list.simps(15) order_refl set_append take_Suc_Cons append_Nil)
    ultimately show ?thesis using False by (intro exI [of _ "x # ys"] exI [of _ m]) auto
  qed
qed (auto simp: singleton_front)

lemma bubble_passes_descending:
  "n < length xs \<Longrightarrow> descending key (drop (Suc n) xs)
     \<Longrightarrow> (\<And>x y. x \<in> set (take (Suc n) xs) \<Longrightarrow> y \<in> set (drop (Suc n) xs) \<Longrightarrow> key y \<le> key x)
     \<Longrightarrow> descending key (bubble_passes key n xs)"
proof (induction n arbitrary: xs)
  case 0
  then show ?case by (cases xs) (auto simp: descending_def)
next
  case (Suc n)
  obtain ys m where ys: "bubble_pass key (Suc n) xs = ys @ m # drop (Suc (Suc n)) xs" "length ys = Suc n"
    "\<forall>y\<in>set ys. key m \<le> key y" "set (ys @ [m]) = set (take (Suc (Suc n)) xs)"
    using bubble_pass_minimum [OF Suc.prems(1), of key] by blast
  have mem: "m \<in> set (take (Suc (Suc n)) xs)" "set ys \<subseteq> set (take (Suc (Suc n)) xs)" using ys(4) by auto
  have "descending key (bubble_passes key n (ys @ m # drop (Suc (Suc n)) xs))"
  proof (rule Suc.IH)
    show "descending key (drop (Suc n) (ys @ m # drop (Suc (Suc n)) xs))"
      using ys(2) Suc.prems(2,3) mem(1) by (auto simp: descending_def)
    show "key y \<le> key x" if "x \<in> set (take (Suc n) (ys @ m # drop (Suc (Suc n)) xs))"
        "y \<in> set (drop (Suc n) (ys @ m # drop (Suc (Suc n)) xs))" for x y
      using that ys(2,3) Suc.prems(3) mem(2) by auto
  qed (use ys(2) in simp)
  then show ?case by (simp add: ys(1))
qed

lemma bubble_sort_descending: "descending key (bubble_sort key xs)"
proof (cases xs)
  case (Cons x xs')
  then show ?thesis unfolding bubble_sort_def by (intro bubble_passes_descending) (auto simp: descending_def)
qed (simp add: bubble_sort_def descending_def)

lemma filter_bubble_sort: "filter (\<lambda>x. key x = v) (bubble_sort key xs) = filter (\<lambda>x. key x = v) xs"
  by (simp add: bubble_sort_def filter_bubble_passes)

lemma set_bubble_sort [simp]: "set (bubble_sort key xs) = set xs"
proof (rule set_eqI)
  fix x
  have "x \<in> set ys \<longleftrightarrow> x \<in> set (filter (\<lambda>y. key y = key x) ys)" for ys by simp
  then show "x \<in> set (bubble_sort key xs) \<longleftrightarrow> x \<in> set xs" by (metis filter_bubble_sort)
qed

lemma bubble_sort_empty [simp]: "bubble_sort key xs = [] \<longleftrightarrow> xs = []"
  by (metis set_bubble_sort set_empty)

section \<open>Injections as one function of the data\<close>

text \<open>
  The specification: in front of every byte, and behind the last one, what is to be injected at
  its position, the later modifications of a position before the earlier ones.
\<close>

definition splice_at :: "NanoHttpModification list \<Rightarrow> bytes \<Rightarrow> nat \<Rightarrow> bytes" where
  "splice_at ms data p = concat (rev (map mod_bytes (filter (\<lambda>m. mod_pos m = p) ms))) @ take 1 (drop p data)"

definition spliced :: "NanoHttpModification list \<Rightarrow> bytes \<Rightarrow> bytes" where
  "spliced ms data = concat (map (splice_at ms data) [0..<Suc (length data)])"

lemma concat_bytes: "p \<le> length data \<Longrightarrow> concat (map (\<lambda>q. take 1 (drop q data)) [0..<p]) = take p data"
  by (induction p) (simp_all add: take_Suc_conv_app_nth take_Suc drop_Suc hd_drop_conv_nth flip: Cons_nth_drop_Suc)

lemma spliced_Nil [simp]: "spliced [] data = data"
proof -
  have "splice_at [] data = (\<lambda>q. take 1 (drop q data))" by (rule ext) (simp add: splice_at_def)
  then show ?thesis using concat_bytes [of "length data" data] by (simp add: spliced_def)
qed

lemma spliced_snoc:
  assumes "mod_pos m \<le> length data" "\<forall>x\<in>set ms. mod_pos m \<le> mod_pos x"
  shows "spliced (ms @ [m]) data = take (mod_pos m) (spliced ms data) @ mod_bytes m @ drop (mod_pos m) (spliced ms data)"
proof -
  let ?p = "mod_pos m"
  have upt: "[0..<Suc (length data)] = [0..<?p] @ ?p # [Suc ?p..<Suc (length data)]"
  proof -
    have "[0..<Suc (length data)] = [0..<?p] @ [?p..<Suc (length data)]"
      using upt_add_eq_append [of 0 ?p "Suc (length data) - ?p"] assms(1) by simp
    then show ?thesis using assms(1) by (simp add: upt_conv_Cons)
  qed
  have low: "concat (map (splice_at xs data) [0..<?p]) = take ?p data" if "\<forall>x\<in>set xs. ?p \<le> mod_pos x" for xs
  proof -
    have "map (splice_at xs data) [0..<?p] = map (\<lambda>q. take 1 (drop q data)) [0..<?p]"
      using that by (force simp: splice_at_def filter_empty_conv)
    then show ?thesis by (simp only: concat_bytes [OF assms(1)])
  qed
  have mid: "splice_at (ms @ [m]) data ?p = mod_bytes m @ splice_at ms data ?p" by (simp add: splice_at_def)
  have high: "map (splice_at (ms @ [m]) data) [Suc ?p..<Suc (length data)] = map (splice_at ms data) [Suc ?p..<Suc (length data)]"
    by (auto simp: splice_at_def)
  define rest where "rest = splice_at ms data ?p @ concat (map (splice_at ms data) [Suc ?p..<Suc (length data)])"
  have "spliced ms data = take ?p data @ rest"
    unfolding spliced_def upt map_append concat_append low [OF assms(2)] by (simp add: rest_def)
  moreover have "spliced (ms @ [m]) data = take ?p data @ mod_bytes m @ rest"
    unfolding spliced_def upt map_append concat_append using low [of "ms @ [m]"] assms(2) by (simp add: high mid rest_def del: upt_Suc)
  ultimately show ?thesis using assms(1) by simp
qed

lemma apply_append:
  "apply_modifications alloc k (xs @ ys) cur = apply_modifications alloc (k + length xs) ys (apply_modifications alloc k xs cur)"
  by (induction xs arbitrary: k cur) simp_all

lemma spliced_longer: "length data \<le> length (spliced ms data)"
proof -
  have "length data = length (concat (map (\<lambda>q. take 1 (drop q data)) [0..<Suc (length data)]))"
    using concat_bytes [of "length data" data] by simp
  also have "\<dots> \<le> length (spliced ms data)"
    unfolding spliced_def length_concat map_map o_def by (intro sum_list_mono) (simp add: splice_at_def)
  finally show ?thesis .
qed

lemma apply_spliced:
  assumes "\<And>i. alloc i" "sorted_wrt (\<lambda>x y. mod_pos y \<le> mod_pos x) ms" "\<forall>m\<in>set ms. mod_pos m \<le> length data"
  shows "apply_modifications alloc k ms data = spliced ms data"
  using assms(2,3)
proof (induction ms rule: rev_induct)
  case (snoc m ms)
  then have "apply_modifications alloc k ms data = spliced ms data" by (simp add: sorted_wrt_append)
  moreover have "mod_pos m \<le> length (spliced ms data)" using snoc.prems spliced_longer [of data ms] by simp
  ultimately show ?case using snoc.prems assms(1) [of "k + length ms"] by (simp add: apply_append spliced_snoc sorted_wrt_append)
qed simp

lemma spliced_cong: "(\<And>p. filter (\<lambda>m. mod_pos m = p) ms = filter (\<lambda>m. mod_pos m = p) ms') \<Longrightarrow> spliced ms data = spliced ms' data"
proof -
  assume "\<And>p. filter (\<lambda>m. mod_pos m = p) ms = filter (\<lambda>m. mod_pos m = p) ms'"
  then have "splice_at ms data = splice_at ms' data" by (intro ext) (simp add: splice_at_def)
  then show ?thesis by (simp add: spliced_def)
qed

section \<open>Chunks\<close>

definition mod_chunk :: "NanoHttpModification \<Rightarrow> nat" where
  "mod_chunk m = unat (orig_buff_index (modification m))"

lemma collect_run:
  assumes "i + k \<le> length (ms_nodes st)" "k \<le> n"
    and "\<And>j. i \<le> j \<Longrightarrow> j < i + k \<Longrightarrow> mod_chunk (ms_nodes st ! j) = chunk"
    and "\<And>j. j < length (ms_nodes st) \<Longrightarrow> node_at st j = Some (ms_nodes st ! j)"
    and "i + k < length (ms_nodes st) \<Longrightarrow> mod_chunk (ms_nodes st ! (i + k)) \<noteq> chunk"
  shows "collect_modifications st chunk n (if i < length (ms_nodes st) then Some i else None) = Some [i..<i + k]"
  using assms(1-3,5)
proof (induction n arbitrary: i k)
  case (Suc n)
  show ?case
  proof (cases k)
    case 0
    with Suc.prems assms(4) show ?thesis by (simp add: mod_chunk_def)
  next
    case (Suc k')
    have "collect_modifications st chunk n (if Suc i < length (ms_nodes st) then Some (Suc i) else None) = Some [Suc i..<Suc i + k']"
      using Suc.prems Suc by (intro Suc.IH) auto
    moreover have "mod_chunk (ms_nodes st ! i) = chunk" "i < length (ms_nodes st)" using Suc.prems Suc by auto
    ultimately show ?thesis using Suc assms(4) by (simp add: mod_chunk_def next_node_def upt_conv_Cons)
  qed
qed simp

lemma sint_position: "unat (w :: u64) < 2 ^ 63 \<Longrightarrow> sint w = int (unat w)"
proof -
  assume less: "unat w < 2 ^ 63"
  then have "int (unat w) < int (2 ^ 63)" by (simp only: of_nat_less_iff)
  then have "uint w < 2 ^ 63" by (simp only: uint_nat [symmetric] of_nat_power of_nat_numeral)
  moreover have "- (2 ^ 63) \<le> uint w" by (rule order.trans [OF _ uint_ge_0]) simp
  ultimately have "signed_take_bit 63 (uint w) = uint w" by (intro signed_take_bit_int_eq_self)
  moreover have "sint w = signed_take_bit 63 (uint w)" by (simp add: sint_uint)
  ultimately show ?thesis by (simp only: uint_nat)
qed

lemma nth_in_take: "j < k \<Longrightarrow> k \<le> length ms \<Longrightarrow> ms ! j \<in> set (take k ms)"
  by (auto simp: in_set_conv_nth)

lemma mod_key_position: "mod_pos m < 2 ^ 63 \<Longrightarrow> mod_key m = int (mod_pos m)"
  by (simp add: mod_key_def mod_pos_def sint_position)

text \<open>The modifications of a chunk, sorted and applied, are spliced in.\<close>

lemma sorted_applied:
  assumes "\<And>i. alloc i" "\<forall>m\<in>set (take k ms). mod_pos m \<le> length c" "length c < 2 ^ 63" "k \<le> length ms"
  shows "apply_modifications alloc 0 (map ((!) ms) (bubble_sort (\<lambda>j. mod_key (ms ! j)) [0..<k])) c = spliced (take k ms) c"
proof -
  let ?key = "\<lambda>j. mod_key (ms ! j)"
  let ?is = "bubble_sort ?key [0..<k]"
  have nth: "map ((!) ms) [0..<k] = take k ms" using assms(4) by (simp add: list_eq_iff_nth_eq)
  have bound: "mod_pos (ms ! j) \<le> length c" if "j \<in> set [0..<k]" for j
    using that assms(2,4) nth_in_take [of j k ms] by simp
  have key: "?key j = int (mod_pos (ms ! j))" if "j \<in> set [0..<k]" for j
    using bound [OF that] assms(3) by (intro mod_key_position) simp
  have "filter (\<lambda>m. mod_pos m = p) (map ((!) ms) ?is) = filter (\<lambda>m. mod_pos m = p) (take k ms)" for p
  proof -
    have "filter (\<lambda>j. mod_pos (ms ! j) = p) ?is = filter (\<lambda>j. ?key j = int p) ?is"
      using key by (intro filter_cong) auto
    also have "\<dots> = filter (\<lambda>j. ?key j = int p) [0..<k]" by (rule filter_bubble_sort)
    also have "\<dots> = filter (\<lambda>j. mod_pos (ms ! j) = p) [0..<k]" using key by (intro filter_cong) auto
    finally show ?thesis by (simp add: filter_map o_def flip: nth)
  qed
  then have "spliced (map ((!) ms) ?is) c = spliced (take k ms) c" by (rule spliced_cong)
  moreover have "sorted_wrt (\<lambda>x y. mod_pos y \<le> mod_pos x) (map ((!) ms) ?is)"
    using bubble_sort_descending [of ?key "[0..<k]"] key
    by (auto simp: descending_def sorted_wrt_map elim!: sorted_wrt_mono_rel [rotated])
  ultimately show ?thesis using assms(1) bound by (subst apply_spliced) auto
qed

lemma untouched_chunks:
  assumes "node_at st i = Some m" "mod_chunk m < chunk"
  shows "body_modifier_loop alloc chunk st (Some i) cs = Some (NGX_OK, cs)"
  using assms(2)
proof (induction cs arbitrary: chunk)
  case (Cons c cs)
  have "collect_modifications st chunk MAX_MODIFICATIONS_PER_CHUNK (Some i) = Some []"
    using assms(1) Cons.prems by (simp add: MAX_MODIFICATIONS_PER_CHUNK_def mod_chunk_def numeral_eq_Suc)
  then show ?case using Cons.IH [of "Suc chunk"] Cons.prems by simp
qed simp

lemma released_node_read:
  assumes "node_at st i = None" "\<exists>c\<in>set cs. c \<noteq> []"
  shows "body_modifier_loop alloc chunk st (Some i) cs = None"
  using assms(2)
proof (induction cs arbitrary: chunk)
  case (Cons c cs)
  have "collect_modifications st chunk MAX_MODIFICATIONS_PER_CHUNK (Some i) = None"
    using assms(1) by (simp add: MAX_MODIFICATIONS_PER_CHUNK_def numeral_eq_Suc)
  then show ?case using Cons by (cases "c = []") auto
qed simp

text \<open>The first chunk of a body, and where its modifications leave the current node.\<close>

lemma first_chunk:
  fixes released :: "nat \<Rightarrow> bool"
  assumes "\<And>i j. alloc i j" "0 < k" "k \<le> length ms" "k \<le> 64" "\<forall>m\<in>set (take k ms). mod_chunk m = 0 \<and> mod_pos m \<le> length c"
    and "k < length ms \<Longrightarrow> mod_chunk (ms ! k) \<noteq> 0" "c \<noteq> []" "length c < 2 ^ 63"
  defines "st \<equiv> \<lparr>ms_nodes = ms, ms_released = released, ms_freed = {}\<rparr>"
  shows "ngx_http_cp_body_modifier alloc released (c # cs) ms =
    map_option (\<lambda>(r, cs'). (r, spliced (take k ms) c # cs'))
      (body_modifier_loop alloc 1 (st\<lparr>ms_freed := {0..<k}\<rparr>)
        (next_node st (last (bubble_sort (\<lambda>j. mod_key (ms ! j)) [0..<k]))) cs)"
proof -
  have chunk: "mod_chunk (ms ! j) = 0" if "j < k" for j using that assms(3,5) nth_in_take [of j k ms] by simp
  have "collect_modifications st 0 MAX_MODIFICATIONS_PER_CHUNK (if 0 < length (ms_nodes st) then Some 0 else None) = Some [0..<0 + k]"
    using assms(2-4,6) chunk by (intro collect_run) (auto simp: st_def node_at_def MAX_MODIFICATIONS_PER_CHUNK_def)
  then have "collect_modifications st 0 MAX_MODIFICATIONS_PER_CHUNK (Some 0) = Some [0..<k]"
    using assms(2,3) by (simp add: st_def split: if_splits)
  moreover have "apply_modifications (alloc 0) 0 (map ((!) ms) (bubble_sort (\<lambda>j. mod_key (ms ! j)) [0..<k])) c = spliced (take k ms) c"
    using assms by (intro sorted_applied) auto
  ultimately show ?thesis
    using assms(1,2,3,7) by (auto simp: ngx_http_cp_body_modifier_def st_def Let_def split: bind_splits)
qed

text \<open>If the first node has the least position, the sort puts it last.\<close>

lemma sorted_ends_with_first:
  assumes "0 < k" "k \<le> length ms" "\<forall>m\<in>set (take k ms). mod_pos m \<le> length c" "length c < 2 ^ 63"
    and "\<forall>j\<in>{1..<k}. mod_pos (ms ! 0) < mod_pos (ms ! j)"
  shows "last (bubble_sort (\<lambda>j. mod_key (ms ! j)) [0..<k]) = 0"
proof (rule ccontr)
  let ?key = "\<lambda>j. mod_key (ms ! j)"
  let ?is = "bubble_sort ?key [0..<k]"
  assume nz: "last ?is \<noteq> 0"
  have ne: "?is \<noteq> []" using assms(1) by simp
  then have mem: "last ?is \<in> {1..<k}" using nz last_in_set [OF ne] by auto
  have key: "?key j = int (mod_pos (ms ! j))" if "j < k" for j
    using that assms(2-4) nth_in_take [of j k ms] by (intro mod_key_position) (meson le_less_trans)
  have "0 \<in> set ?is" using assms(1) by simp
  then obtain ys zs where split: "?is = ys @ 0 # zs" by (meson split_list)
  then have "zs \<noteq> []" using nz by auto
  then have "last ?is \<in> set zs" using split by simp
  then have "?key (last ?is) \<le> ?key 0"
    using bubble_sort_descending [of ?key "[0..<k]"] split by (auto simp: descending_def sorted_wrt_append)
  moreover have "mod_pos (ms ! 0) < mod_pos (ms ! last ?is)" using assms(5) mem by blast
  ultimately show False using key [of 0] key [of "last ?is"] mem assms(1) by simp
qed

end
