(* ===== verification/Ngx_Properties.thy ===== *)
theory Ngx_Properties
  imports Ngx_Failing_State Ngx_Session_Rate Ngx_Modification
begin

text \<open>
  What the metrics, the transparent mode, the session limit and the modifications of the nginx module
  guarantee, and where they do not do what they are for.
\<close>

text \<open>
  The metrics of the nginx module are those of the nano attachment: after a reset, any sequence of
  updates leaves in its two global arrays what the same updates leave in the arrays of an attachment.
\<close>

theorem nginx_metrics_agree:
  "attachment_metrics (fold (\<lambda>(t, v) a. updateMetricField a t v) updates (reset_metric_data a))
     = fold (\<lambda>(t, v). ngx_updateMetricField t v) updates ngx_reset_metric_data"
proof -
  have "attachment_metrics (fold (\<lambda>(t, v) a. updateMetricField a t v) updates b)
      = fold (\<lambda>(t, v). ngx_updateMetricField t v) updates (attachment_metrics b)" for b
    by (induction updates arbitrary: b) (auto simp: update_commutes)
  then show ?thesis by (simp add: reset_commutes)
qed

text \<open>
  C33. In every reachable state the failure state indexes the table of three, and the handling of a
  failure reads past the table exactly when an uninspected session fails in the last state, within the
  failing interval, and the count passes the limit. The test against the length of the table comes before
  the increment, so its other branch, which would stay in the last state, is never taken.
\<close>

theorem transparent_mode_overruns_iff:
  assumes "failing_reachable s"
  shows "current_fail_state s < failed_sessions_monitor_length
    \<and> (handle_inspection_failure now session_end weight fail_open d s = None
         \<longleftrightarrow> ns_verdict d = TRAFFIC_VERDICT_INSPECT \<and> current_fail_state s = 2
             \<and> \<not> is_timeout_reached now (failing_interval s)
             \<and> max_allowed_failed_requests s < current_failed_requests s + of_int weight)"
proof -
  have ok: "failing_ok s" using assms by (rule failing_reachable_ok)
  then have "failing_ok (count_failure session_end weight fail_open d s)" by (simp add: failing_ok_def)
  from settle_faults [OF this, of now] ok show ?thesis
    by (auto simp: handle_inspection_failure_def failing_ok_def failed_sessions_monitor_length_def)
qed

text \<open>
  C32. As long as the failures between two checks of the mode weigh five or less together, transparent mode
  is never entered from a state outside it, however many requests fail and however close: a check outside transparent mode
  clears the count of failures, and every request starts with one.
\<close>

theorem checked_failures_never_transparent:
  assumes "current_fail_state s < failed_sessions_monitor_length" "\<not> is_transparent_mode_active s"
    and "\<forall>(now, fs) \<in> set rs. sum_list (map fe_weight fs) \<le> 5"
  shows "\<exists>s'. checked_requests rs s = Some s' \<and> \<not> is_transparent_mode_active s'"
  using assms
proof (induction rs arbitrary: s)
  case (Cons r rs)
  obtain now fs where r: "r = (now, fs)" by (cases r)
  from inactive_check [OF Cons.prems(2), of now] Cons.prems(1) obtain s1 where s1:
    "is_in_transparent_mode now s = Some (False, s1)" "\<not> is_transparent_mode_active s1" "current_fail_state s1 < 3"
    "max_allowed_failed_requests s1 = 5" "current_failed_requests s1 = 0"
    by (auto simp: failed_sessions_monitor_length_def)
  have "0 + sum_list (map fe_weight fs) \<le> 5" using Cons.prems(3) by (simp add: r)
  with few_failures [OF s1(3,4), of 0 fs] s1(5) obtain s2 where s2:
    "inspection_failures fs s1 = Some s2" "current_fail_state s2 < 3" "\<not> is_transparent_mode_active s2"
    using s1(2) by auto
  have "\<exists>s'. checked_requests rs s2 = Some s' \<and> \<not> is_transparent_mode_active s'"
    using s2 Cons.prems(3) by (intro Cons.IH) (auto simp: failed_sessions_monitor_length_def)
  then show ?case using r s1(1) s2(1) by simp
qed simp

text \<open>
  C35. The session limit is a sliding window: for sessions that start at times in order, each one gets the
  verdict of the limit exactly when it and the earlier sessions of the last 60 seconds are more than the
  maximum. The counters of one minute refine the list of all sessions.
\<close>

theorem session_rate_sliding_window:
  assumes "sorted ts" "\<forall>t\<in>set ts. 0 < t \<and> t < 2 ^ 32" "length ts < 2 ^ 32"
  shows "enforce_all conf ts initial_rate = rate_verdicts conf [] ts"
  using enforce_all_refines [OF initial_rate_ok, of ts conf] assms by simp

text \<open>
  C37. An injection into the value of a header changes this header as asked and no other, unless the header
  is the first of a later part of the list: then the iterator stands behind the last element of the part
  before, and the injection reads and writes there.
\<close>

theorem header_injection_unless_part_start:
  assumes parts: "\<forall>p\<in>set headers. p \<noteq> []" and m: "is_header (modification m) \<noteq> 0" "mod_type (modification m) = MOD_INJECT"
    and i: "i = unat (orig_buff_index (modification m))" "i < length (concat headers)"
    and pos: "mod_pos m < 2 ^ 63" "mod_pos m \<le> length (snd (concat headers ! i))" and alloc: "ngx_alloc ng 0"
  shows "if part_start headers i then ngx_http_cp_header_modifier ng is_content_length [m] headers = None
    else \<exists>s. ngx_http_cp_header_modifier ng is_content_length [m] headers = Some (NGX_OK, s)
      \<and> concat (hs_headers s) = (concat headers)[i := (fst (concat headers ! i),
          take (mod_pos m) (snd (concat headers ! i)) @ mod_bytes m @ drop (mod_pos m) (snd (concat headers ! i)))]"
proof -
  obtain loc it where loc: "get_list_element headers i init_list_iterator = (Some loc, it)"
    "list_elem headers loc = (if part_start headers i then None else Some (concat headers ! i))"
    "\<not> part_start headers i \<longrightarrow> (\<forall>x. concat (set_list_elem headers loc x) = (concat headers)[i := x])"
    using found_element [OF parts i(2)] by blast
  have "\<not> sint (injection_pos (modification m)) < 0" using mod_key_position [OF pos(1)] by (simp add: mod_key_def)
  then show ?thesis
    using loc m pos(2) alloc i(1)
    by (simp add: ngx_http_cp_header_modifier_def header_modifier_loop.simps perform_header_modification_def Let_def
        MOD_APPEND_def MOD_INJECT_def inject_header_value_def inject_buffer_def get_next_header_modification_def)
qed

text \<open>
  C36. At most 64 injections into a body of one chunk, sorted and copied one after the other by the code, give the
  bytes of the chunk with everything to be injected at a position in front of the byte there. The positions lie in the
  chunk, which is not empty and shorter than 2^63 bytes, and the allocations succeed. (Injections into
  later chunks can be lost, see below.)
\<close>

theorem body_injections_spliced:
  assumes "\<And>i j. alloc i j" "ms \<noteq> []" "length ms \<le> 64" "\<forall>m\<in>set ms. mod_chunk m = 0 \<and> mod_pos m \<le> length c"
    and "c \<noteq> []" "length c < 2 ^ 63"
  shows "ngx_http_cp_body_modifier alloc released [c] ms = Some (NGX_OK, [spliced ms c])"
  using first_chunk [of alloc "length ms" ms c released "[]"] assms by simp

text \<open>
  With two or more injections at ascending positions of the first chunk, the modifications of all later
  chunks are lost: after the sort the current node is set from the first node, so that it is the second one,
  which was freed and belongs to the first chunk. If the pool gave it back, it is read after its release.
\<close>

theorem later_injections_lost:
  assumes "\<And>i j. alloc i j" "2 \<le> k" "k \<le> length ms" "k \<le> 64" "\<forall>m\<in>set (take k ms). mod_chunk m = 0 \<and> mod_pos m \<le> length c"
    and "k < length ms \<Longrightarrow> mod_chunk (ms ! k) \<noteq> 0" "\<forall>j\<in>{1..<k}. mod_pos (ms ! 0) < mod_pos (ms ! j)" "c \<noteq> []" "length c < 2 ^ 63"
  shows "if \<not> released 1 then ngx_http_cp_body_modifier alloc released (c # cs) ms = Some (NGX_OK, spliced (take k ms) c # cs)
    else (\<exists>c\<in>set cs. c \<noteq> []) \<longrightarrow> ngx_http_cp_body_modifier alloc released (c # cs) ms = None"
proof -
  let ?key = "\<lambda>j. mod_key (ms ! j)"
  let ?st = "\<lparr>ms_nodes = ms, ms_released = released, ms_freed = {}\<rparr>"
  have last: "last (bubble_sort ?key [0..<k]) = 0" using sorted_ends_with_first [of k ms c] assms by auto
  have step: "ngx_http_cp_body_modifier alloc released (c # cs) ms =
      map_option (\<lambda>(r, cs'). (r, spliced (take k ms) c # cs'))
        (body_modifier_loop alloc 1 (?st\<lparr>ms_freed := {0..<k}\<rparr>) (Some 1) cs)"
    using first_chunk [of alloc k ms c released cs] assms last by (simp add: next_node_def)
  have second: "mod_chunk (ms ! 1) = 0" using assms(2,3,5) nth_in_take [of 1 k ms] by simp
  show ?thesis
  proof (cases "released 1")
    case False
    then have "node_at (?st\<lparr>ms_freed := {0..<k}\<rparr>) 1 = Some (ms ! 1)" using assms(2,3) by (simp add: node_at_def)
    from untouched_chunks [OF this, of 1] second step False show ?thesis by simp
  next
    case True
    then have "node_at (?st\<lparr>ms_freed := {0..<k}\<rparr>) 1 = None" using assms(2) by (simp add: node_at_def)
    from released_node_read [OF this] step True show ?thesis by simp
  qed
qed

section \<open>Witnesses\<close>

definition failing_session :: ngx_session where
  "failing_session = \<lparr>ns_verdict = TRAFFIC_VERDICT_INSPECT, ns_start = \<lparr>tv_sec = 1000, tv_nsec = 0\<rparr>, ns_req_time = 0, ns_res_time = 0\<rparr>"

definition session_failure :: "nat \<Rightarrow> failure_event" where
  "session_failure w = \<lparr>fe_now = (1001, 0), fe_end = \<lparr>tv_sec = 1001, tv_nsec = 0\<rparr>, fe_weight = w, fe_open = True, fe_session = failing_session\<rparr>"

text \<open>Seven failures within a second of a check, from the start of the module.\<close>

definition checked_start :: periodic_failure where
  "checked_start = snd (the (is_in_transparent_mode (1000, 0) (initial_failure ngx_reset_metric_data)))"

definition seven_failures :: "periodic_failure option" where
  "seven_failures = inspection_failures (replicate 7 (session_failure 1)) checked_start"

lemma checked_start_reachable: "failing_reachable checked_start"
proof (rule failing_reachable.continue [OF failing_reachable.start])
  show "failing_step (initial_failure ngx_reset_metric_data) checked_start"
    by (rule check_step [of "(1000, 0)" _ False])
      (simp add: checked_start_def is_in_transparent_mode_def reset_failure_state_def initial_failure_def
        monitor_def failed_sessions_monitor_def)
qed

lemma checked_start_fields [simp]:
  "current_fail_state checked_start = 0" "max_allowed_failed_requests checked_start = 5"
  "current_failed_requests checked_start = 0" "failing_interval checked_start = (1020, 0)"
  by (simp_all add: checked_start_def is_in_transparent_mode_def reset_failure_state_def initial_failure_def
      monitor_def failed_sessions_monitor_def get_timeout_val_sec_def)

lemmas failure_evaluation =
  handle_inspection_failure_def settle_failure_def activate_transparent_mode_def next_fail_state_def monitor_def
  failed_sessions_monitor_def failed_sessions_monitor_length_def is_timeout_reached_def timer_less_def Let_def
  session_failure_def failing_session_def

lemma seven_failures_state:
  "\<exists>s. seven_failures = Some s \<and> current_fail_state s = 2 \<and> current_failed_requests s = 7
     \<and> max_allowed_failed_requests s = 5 \<and> failing_interval s = (1020, 0)"
proof -
  have seven: "replicate 7 x = [x, x, x, x, x, x, x]" for x :: failure_event by (simp add: numeral_eq_Suc)
  show ?thesis by (simp add: seven_failures_def seven failure_evaluation)
qed

text \<open>The eighth failure.\<close>

theorem transparent_mode_overruns_iff_witness:
  "failing_reachable (the seven_failures)
   \<and> current_fail_state (the seven_failures) < failed_sessions_monitor_length
   \<and> handle_inspection_failure (1001, 0) \<lparr>tv_sec = 1001, tv_nsec = 0\<rparr> 1 True failing_session (the seven_failures) = None"
proof -
  obtain s where s: "seven_failures = Some s" "current_fail_state s = 2" "current_failed_requests s = 7"
    "max_allowed_failed_requests s = 5" "failing_interval s = (1020, 0)"
    using seven_failures_state by blast
  have r: "failing_reachable s"
    using failures_reachable [OF checked_start_reachable] s(1) by (simp add: seven_failures_def)
  have "the seven_failures = s" unfolding s(1) by (rule option.sel)
  with transparent_mode_overruns_iff [OF r, of "(1001, 0)" "\<lparr>tv_sec = 1001, tv_nsec = 0\<rparr>" 1 True failing_session] r s(2-5)
  show ?thesis by (simp add: failing_session_def is_timeout_reached_def timer_less_def)
qed

text \<open>A hundred requests in one second, each of them failing five times over.\<close>

theorem checked_failures_never_transparent_witness:
  "\<exists>s'. checked_requests (replicate 100 ((1001, 0), replicate 5 (session_failure 1))) (initial_failure ngx_reset_metric_data) = Some s'
     \<and> \<not> is_transparent_mode_active s'"
  by (rule checked_failures_never_transparent)
    (simp_all add: initial_failure_def failed_sessions_monitor_length_def session_failure_def sum_list_replicate)

text \<open>Two sessions per minute: the third of a minute is refused, and one a minute after the first two is not.\<close>

theorem session_rate_sliding_window_witness:
  "enforce_all (False, 2) [100, 110, 150, 171] initial_rate
     = [TRAFFIC_VERDICT_INSPECT, TRAFFIC_VERDICT_INSPECT, TRAFFIC_VERDICT_DROP, TRAFFIC_VERDICT_INSPECT]"
  using session_rate_sliding_window [of "[100, 110, 150, 171]" "(False, 2)"]
  by (simp add: rate_verdict_def last_minute_def)

definition sample_headers :: ngx_headers where
  "sample_headers = [[([97], [98, 99]), ([100], [101])], [([102], [103])]]"

definition sample_modification :: "u64 \<Rightarrow> u8 \<Rightarrow> u8 \<Rightarrow> u8 \<Rightarrow> NanoHttpModification" where
  "sample_modification pos header index b =
     \<lparr>modification = \<lparr>injection_pos = pos, mod_type = MOD_INJECT, injection_size = 1, is_header = header, orig_buff_index = index\<rparr>,
      modification_buffer = [b]\<rparr>"

definition sample_list_calls :: ngx_list_calls where
  "sample_list_calls = \<lparr>ngx_list_push = \<lambda>h l. Some (l @ [[h]]), ngx_uninitialised = ([], []), ngx_alloc = \<lambda>_. True\<rparr>"

lemmas sample_modifications = sample_modification_def mod_pos_def mod_bytes_def mod_chunk_def

text \<open>The second header gets a byte, the third one, which starts the second part, is not found.\<close>

theorem header_injection_unless_part_start_witness:
  "(\<exists>s. ngx_http_cp_header_modifier sample_list_calls False [sample_modification 1 1 1 120] sample_headers = Some (NGX_OK, s)
     \<and> concat (hs_headers s) = [([97], [98, 99]), ([100], [101, 120]), ([102], [103])])
   \<and> ngx_http_cp_header_modifier sample_list_calls False [sample_modification 1 1 2 120] sample_headers = None"
proof -
  have "\<not> part_start sample_headers 1" "part_start sample_headers 2"
    by (auto simp: part_start_def sample_headers_def Bex_def le_Suc_eq numeral_2_eq_2 intro: exI [of _ 1])
  then show ?thesis
    using header_injection_unless_part_start [of sample_headers "sample_modification 1 1 1 120" 1 sample_list_calls False]
      header_injection_unless_part_start [of sample_headers "sample_modification 1 1 2 120" 2 sample_list_calls False]
    by (simp add: sample_headers_def sample_modifications sample_list_calls_def)
qed

text \<open>Three injections into four bytes, two of them at the same position.\<close>

theorem body_injections_spliced_witness:
  "ngx_http_cp_body_modifier (\<lambda>_ _. True) (\<lambda>_. False) [[1, 2, 3, 4]]
     [sample_modification 1 0 0 120, sample_modification 4 0 0 121, sample_modification 1 0 0 122]
   = Some (NGX_OK, [[1, 122, 120, 2, 3, 4, 121]])"
  using body_injections_spliced [of "\<lambda>_ _. True"
      "[sample_modification 1 0 0 120, sample_modification 4 0 0 121, sample_modification 1 0 0 122]" "[1, 2, 3, 4]" "\<lambda>_. False"]
  by (simp add: sample_modifications spliced_def splice_at_def)

text \<open>Two injections into the first chunk: the one into the second chunk is not made.\<close>

theorem later_injections_lost_witness:
  "ngx_http_cp_body_modifier (\<lambda>_ _. True) (\<lambda>_. False) [[1, 2], [3]]
     [sample_modification 0 0 0 120, sample_modification 1 0 0 121, sample_modification 0 0 1 122]
   = Some (NGX_OK, [[120, 1, 121, 2], [3]])"
  using later_injections_lost [of "\<lambda>_ _. True" 2
      "[sample_modification 0 0 0 120, sample_modification 1 0 0 121, sample_modification 0 0 1 122]" "[1, 2]" "\<lambda>_. False" "[[3]]"]
  by (simp add: sample_modifications spliced_def splice_at_def)

end
