(* ===== verification/Ngx_Async_Context.thy ===== *)
theory Ngx_Async_Context
  imports Nano_Senders Ngx_Failing_State Ngx_Modification
begin

text \<open>
  The contexts of the asynchronous inspection of the nginx module (\<open>async/ngx_cp_async_core.c\<close>,
  \<open>ngx_cp_async_ctx_validation.c\<close>): the stages, the context of a request, the static variables of the worker
  process, and the hash table of contexts. Contexts live in a store and are named by their address; the
  chain of a bucket is linked through \<open>map_next\<close>. A context is not freed before its request: the destruction
  takes it out of the table and cuts its events off.
\<close>

section \<open>Data\<close>

datatype ngx_cp_async_stage =
    STAGE_INIT | STAGE_META_DATA | STAGE_WAIT_META_VERDICT | STAGE_HEADERS | STAGE_WAIT_HEADER_VERDICT
  | STAGE_END_TRANSACTION | STAGE_WAIT_END_VERDICT | STAGE_BODY | STAGE_WAIT_BODY_VERDICT | STAGE_VERDICT
  | STAGE_COMPLETE | STAGE_ERROR

text \<open>What the module uses of an event of nginx; \<open>ev_data\<close> says whether it still points to its context.\<close>

record ngx_event =
  timer_set :: bool
  posted :: bool
  ev_data :: bool

definition fresh_event :: ngx_event where
  "fresh_event = \<lparr>timer_set = False, posted = False, ev_data = True\<rparr>"

text \<open>
  What the module reads of a request of nginx: \<open>rq_has_body\<close> is the answer of \<open>does_contain_body\<close>,
  \<open>rq_host_variable\<close> the variable \<open>host\<close> of nginx where it has one.
\<close>

record ngx_request =
  rq_protocol :: bytes
  rq_method :: bytes
  rq_host_variable :: "bytes option"
  rq_host_header :: "bytes option"
  rq_uri :: bytes
  rq_unparsed_uri :: bytes
  rq_listening_ip :: bytes
  rq_listening_port :: u16
  rq_client_ip :: bytes
  rq_client_port :: u16
  rq_headers :: ngx_headers
  rq_has_body :: bool
  rq_keepalive :: bool
  rq_http2 :: bool
  rq_main_count :: nat
  rq_length_cleared :: bool

text \<open>A buffer of a body: its bytes and \<open>last_buf\<close>; a link of a chain may have none.\<close>

type_synonym ngx_chain = "(bytes \<times> bool) option list"

record ngx_http_cp_session_data = ngx_session +
  nsd_session_id :: u32
  remaining_messages :: nat
  was_request_fully_inspected :: bool
  async_processing_needed :: bool
  processed_req_body_size :: u64
  initial_async_mode :: bool

record ngx_http_cp_async_ctx =
  ac_request :: ngx_request
  ac_session :: ngx_http_cp_session_data
  ac_session_id :: u32
  ac_stage :: ngx_cp_async_stage
  agent_event :: ngx_event
  deadline_event :: ngx_event
  cleanup_event :: ngx_event
  resume_event :: ngx_event
  ac_start_time :: timespec
  ac_waf_tag :: bytes
  ac_modifications :: "NanoHttpModification list"
  ac_waiting :: bool
  body_phase_started :: bool
  ac_released :: bool
  req_seen_last :: bool
  req_seq :: nat
  ac_queue :: ngx_chain
  meta_data_sent :: bool
  headers_sent :: bool
  end_transaction_sent :: bool
  header_declined :: bool
  first_wait_verdict_encountered :: bool
  map_next :: "nat option"
  flow_error :: bool
  request_ref_incremented :: bool

text \<open>
  Calls out of the module, in their order: the phases of a request resumed, a request rejected, its
  body forwarded, a read event posted, the answer page set from the data of a reply, the configuration read again.
\<close>

datatype ngx_call =
    RunPhases u32 | FinalizeRejected u32 | NextBodyFilter u32 ngx_chain | PostRead u32
  | CustomWebResponse u32 nat | CustomResponse u32 nat | ResetConfig

record async_world =
  x_process :: ring_process
  x_ipc :: "SharedMemoryIPC_2 option"
  x_secondary_ipc :: "SharedMemoryIPC_2 option"
  x_comm_socket :: int
  x_secondary_socket :: int
  x_registration :: nano_attachment_registration_state
  x_conf :: HttpAttachmentConfiguration
  x_async_mode :: bool
  fail_mode_open :: bool
  fail_mode_hold_open :: bool
  x_failure :: periodic_failure
  x_sent :: "(int \<times> bytes) list"
  x_steps :: nat
  x_calls :: "ngx_call list"
  ctx_store :: "nat \<Rightarrow> ngx_http_cp_async_ctx"
  ctx_buckets :: "nat \<Rightarrow> nat option"
  context_count :: u64
  pending_inspection_chunks :: u64
  backpressure_posted :: bool
  async_cleanup_posted :: bool
  backpressure_event_initialized :: bool
  cleanup_event_initialized :: bool
  ipc_verdict_conn :: bool
  backpressure_epoll_fd :: int
  backpressure_registered_socket :: int
  should_register :: bool
  is_initialized :: bool

text \<open>
  The answers of the system, by the number of the call. \<open>would_block\<close> is the error of a failed write;
  what the service does to the queues happens between the events.
\<close>

record ngx_answers =
  xa_files :: host_files
  xa_write :: "nat \<Rightarrow> int"
  would_block :: "nat \<Rightarrow> bool"
  xa_poll :: "nat \<Rightarrow> int"
  xa_alloc :: "nat \<Rightarrow> nat \<Rightarrow> bool"
  xa_lists :: "nat \<Rightarrow> ngx_list_calls"
  xa_time :: "nat \<Rightarrow> timespec"
  xa_inet_pton :: "bool \<Rightarrow> string \<Rightarrow> bytes option"
  xa_next_filter :: "nat \<Rightarrow> ngx_int"
  xa_rejected :: "nat \<Rightarrow> ngx_int"
  xa_stack :: "nat \<Rightarrow> nat \<Rightarrow> bytes"
  xa_nonblocking :: "nat \<Rightarrow> bool"
  xa_connection :: "nat \<Rightarrow> bool"
  xa_add_event :: "nat \<Rightarrow> bool"
  xa_read :: "nat \<Rightarrow> int"
  xa_epoll_ctl :: "nat \<Rightarrow> bool"
  xa_epoll :: "nat \<Rightarrow> int"
  xa_interrupted :: "nat \<Rightarrow> bool"

definition next_step :: "async_world \<Rightarrow> async_world" where
  "next_step w = w\<lparr>x_steps := Suc (x_steps w)\<rparr>"

definition nginx_call :: "ngx_call \<Rightarrow> async_world \<Rightarrow> async_world" where
  "nginx_call c w = w\<lparr>x_calls := x_calls w @ [c]\<rparr>"

definition upd_ctx ::
    "nat \<Rightarrow> (ngx_http_cp_async_ctx \<Rightarrow> ngx_http_cp_async_ctx) \<Rightarrow> async_world \<Rightarrow> async_world" where
  "upd_ctx a f w = w\<lparr>ctx_store := (ctx_store w)(a := f (ctx_store w a))\<rparr>"

definition upd_session ::
    "nat \<Rightarrow> (ngx_http_cp_session_data \<Rightarrow> ngx_http_cp_session_data) \<Rightarrow> async_world \<Rightarrow> async_world" where
  "upd_session a f = upd_ctx a (\<lambda>c. c\<lparr>ac_session := f (ac_session c)\<rparr>)"

definition count_metric :: "AttachmentMetricType \<Rightarrow> u64 \<Rightarrow> async_world \<Rightarrow> async_world" where
  "count_metric t v w = w\<lparr>x_failure := count_ngx t v (x_failure w)\<rparr>"

lemmas world_defs = next_step_def nginx_call_def upd_ctx_def upd_session_def count_metric_def

lemma upd_ctx_simps [simp]:
  "ctx_store (upd_ctx a f w) b = (if b = a then f (ctx_store w a) else ctx_store w b)"
  "ctx_buckets (upd_ctx a f w) = ctx_buckets w" "context_count (upd_ctx a f w) = context_count w"
  "x_calls (upd_ctx a f w) = x_calls w" "x_ipc (upd_ctx a f w) = x_ipc w"
  "fail_mode_open (upd_ctx a f w) = fail_mode_open w" "fail_mode_hold_open (upd_ctx a f w) = fail_mode_hold_open w"
  "x_failure (upd_ctx a f w) = x_failure w" "x_steps (upd_ctx a f w) = x_steps w"
  "pending_inspection_chunks (upd_ctx a f w) = pending_inspection_chunks w"
  by (simp_all add: upd_ctx_def)

lemma upd_session_simps [simp]:
  "ctx_store (upd_session a f w) b =
     (if b = a then (ctx_store w a)\<lparr>ac_session := f (ac_session (ctx_store w a))\<rparr> else ctx_store w b)"
  "ctx_buckets (upd_session a f w) = ctx_buckets w" "x_calls (upd_session a f w) = x_calls w"
  "fail_mode_open (upd_session a f w) = fail_mode_open w" "fail_mode_hold_open (upd_session a f w) = fail_mode_hold_open w"
  "x_ipc (upd_session a f w) = x_ipc w" "x_failure (upd_session a f w) = x_failure w" "x_steps (upd_session a f w) = x_steps w"
  by (simp_all add: upd_session_def)

lemma small_world_simps [simp]:
  "ctx_store (nginx_call c w) = ctx_store w" "x_calls (nginx_call c w) = x_calls w @ [c]"
  "ctx_store (count_metric t v w) = ctx_store w" "x_calls (count_metric t v w) = x_calls w"
  "fail_mode_open (count_metric t v w) = fail_mode_open w" "fail_mode_open (nginx_call c w) = fail_mode_open w"
  "ctx_store (next_step w) = ctx_store w" "x_calls (next_step w) = x_calls w"
  by (simp_all add: nginx_call_def count_metric_def next_step_def)

section \<open>Validation\<close>

text \<open>The pointers to request and session data are set when a context is created and never cleared.\<close>

definition ngx_cp_async_ctx_is_valid :: "ngx_http_cp_async_ctx \<Rightarrow> bool" where
  "ngx_cp_async_ctx_is_valid c = (ac_session_id c \<noteq> 0)"

definition ngx_cp_async_ctx_get_stage_safe :: "ngx_http_cp_async_ctx \<Rightarrow> ngx_cp_async_stage" where
  "ngx_cp_async_ctx_get_stage_safe c = (if \<not> ngx_cp_async_ctx_is_valid c then STAGE_ERROR else ac_stage c)"

definition ngx_cp_async_ctx_get_flow_error_safe :: "ngx_http_cp_async_ctx \<Rightarrow> bool" where
  "ngx_cp_async_ctx_get_flow_error_safe c = (if \<not> ngx_cp_async_ctx_is_valid c then True else flow_error c)"

definition ngx_cp_async_nullify_ctx_refs :: "ngx_http_cp_async_ctx \<Rightarrow> ngx_http_cp_async_ctx" where
  "ngx_cp_async_nullify_ctx_refs c =
     c\<lparr>agent_event := (agent_event c)\<lparr>ev_data := False\<rparr>, cleanup_event := (cleanup_event c)\<lparr>ev_data := False\<rparr>,
       resume_event := (resume_event c)\<lparr>ev_data := False\<rparr>, deadline_event := (deadline_event c)\<lparr>ev_data := False\<rparr>\<rparr>"

section \<open>Timers and stages\<close>

definition del_timer :: "ngx_event \<Rightarrow> ngx_event" where
  "del_timer e = e\<lparr>timer_set := False\<rparr>"

definition add_timer :: "ngx_event \<Rightarrow> ngx_event" where
  "add_timer e = e\<lparr>timer_set := True\<rparr>"

definition ASYNC_STAGE_TRANSITION :: "ngx_cp_async_stage \<Rightarrow> ngx_http_cp_async_ctx \<Rightarrow> ngx_http_cp_async_ctx" where
  "ASYNC_STAGE_TRANSITION new_stage c =
     (if new_stage = STAGE_COMPLETE then
        c\<lparr>deadline_event := del_timer (deadline_event c), cleanup_event := del_timer (cleanup_event c),
          agent_event := del_timer (agent_event c), ac_stage := new_stage\<rparr>
      else c\<lparr>ac_stage := new_stage\<rparr>)"

definition ngx_cp_async_cancel_deadline_timer :: "ngx_http_cp_async_ctx \<Rightarrow> ngx_http_cp_async_ctx" where
  "ngx_cp_async_cancel_deadline_timer c = c\<lparr>deadline_event := del_timer (deadline_event c)\<rparr>"

definition ngx_cp_async_start_deadline_timer :: "ngx_http_cp_async_ctx \<Rightarrow> ngx_http_cp_async_ctx" where
  "ngx_cp_async_start_deadline_timer c = c\<lparr>deadline_event := add_timer (deadline_event c)\<lparr>ev_data := True\<rparr>\<rparr>"

definition ngx_cp_async_cancel_timers :: "ngx_http_cp_async_ctx \<Rightarrow> ngx_http_cp_async_ctx" where
  "ngx_cp_async_cancel_timers c =
     ngx_cp_async_cancel_deadline_timer
       (c\<lparr>agent_event := (agent_event c)\<lparr>timer_set := False, posted := False\<rparr>,
          cleanup_event := (cleanup_event c)\<lparr>timer_set := False, posted := False\<rparr>,
          resume_event := (resume_event c)\<lparr>timer_set := False, posted := False\<rparr>\<rparr>)"

section \<open>The table of contexts\<close>

definition ngx_CP_ASYNC_CTX_BUCKETS :: nat where
  "ngx_CP_ASYNC_CTX_BUCKETS = 2048"

definition cp_async_ctx_hash :: "u32 \<Rightarrow> nat" where
  "cp_async_ctx_hash session_id = unat (session_id * 2654435761) mod ngx_CP_ASYNC_CTX_BUCKETS"

text \<open>The walk along a chain; a chain that runs in a circle has no end.\<close>

partial_function (option) find_in_chain ::
    "(nat \<Rightarrow> ngx_http_cp_async_ctx) \<Rightarrow> u32 \<Rightarrow> nat option \<Rightarrow> nat option option" where
  "find_in_chain st session_id p =
     (case p of
        None \<Rightarrow> Some None
      | Some a \<Rightarrow> if ac_session_id (st a) = session_id then Some (Some a)
                  else find_in_chain st session_id (map_next (st a)))"

definition ngx_cp_async_find_ctx :: "u32 \<Rightarrow> async_world \<Rightarrow> nat option option" where
  "ngx_cp_async_find_ctx session_id w =
     find_in_chain (ctx_store w) session_id (ctx_buckets w (cp_async_ctx_hash session_id))"

definition ngx_cp_async_add_ctx :: "nat \<Rightarrow> async_world \<Rightarrow> async_world" where
  "ngx_cp_async_add_ctx a w =
     (let bucket = cp_async_ctx_hash (ac_session_id (ctx_store w a));
          w1 = upd_ctx a (\<lambda>c. c\<lparr>map_next := ctx_buckets w bucket\<rparr>) w
      in w1\<lparr>ctx_buckets := (ctx_buckets w1)(bucket := Some a), context_count := context_count w1 + 1\<rparr>)"

text \<open>Whether a context is in a chain, and its predecessor (\<open>None\<close> for the first one).\<close>

partial_function (option) find_previous ::
    "(nat \<Rightarrow> ngx_http_cp_async_ctx) \<Rightarrow> nat \<Rightarrow> nat option \<Rightarrow> nat option \<Rightarrow> nat option option option" where
  "find_previous st ctx prev current =
     (if current = None then Some None
      else if current = Some ctx then Some (Some prev)
      else find_previous st ctx current (map_next (st (the current))))"

definition unlink_ctx :: "nat \<Rightarrow> nat option option \<Rightarrow> async_world \<Rightarrow> async_world" where
  "unlink_ctx ctx place w =
     (let bucket = cp_async_ctx_hash (ac_session_id (ctx_store w ctx)); succ = map_next (ctx_store w ctx) in
      case place of
        None \<Rightarrow> w
      | Some None \<Rightarrow> w\<lparr>ctx_buckets := (ctx_buckets w)(bucket := succ), context_count := context_count w - 1\<rparr>
      | Some (Some b) \<Rightarrow> (upd_ctx b (\<lambda>c. c\<lparr>map_next := succ\<rparr>) w)\<lparr>context_count := context_count w - 1\<rparr>)"

definition ngx_cp_async_remove_ctx :: "nat \<Rightarrow> async_world \<Rightarrow> async_world option" where
  "ngx_cp_async_remove_ctx ctx w =
     map_option (\<lambda>place. unlink_ctx ctx place w)
       (find_previous (ctx_store w) ctx None (ctx_buckets w (cp_async_ctx_hash (ac_session_id (ctx_store w ctx)))))"

definition ngx_cp_async_destroy_ctx :: "nat \<Rightarrow> async_world \<Rightarrow> async_world option" where
  "ngx_cp_async_destroy_ctx a w =
     ngx_cp_async_remove_ctx a (upd_ctx a (\<lambda>c. ngx_cp_async_cancel_timers (ngx_cp_async_nullify_ctx_refs c)) w)"

definition ngx_cp_async_create_ctx ::
    "ngx_answers \<Rightarrow> nat \<Rightarrow> ngx_request \<Rightarrow> ngx_http_cp_session_data \<Rightarrow> async_world \<Rightarrow> bool \<times> async_world" where
  "ngx_cp_async_create_ctx os a request session_data w =
     (let k = x_steps w; w1 = next_step w in
      if \<not> xa_alloc os k 0 then (False, w1)
      else
        let c = \<lparr>ac_request = request, ac_session = session_data, ac_session_id = nsd_session_id session_data,
                 ac_stage = STAGE_INIT, agent_event = fresh_event, deadline_event = fresh_event\<lparr>ev_data := False\<rparr>,
                 cleanup_event = fresh_event, resume_event = fresh_event, ac_start_time = xa_time os k,
                 ac_waf_tag = [], ac_modifications = [], ac_waiting = False, body_phase_started = False,
                 ac_released = False, req_seen_last = False, req_seq = 0, ac_queue = [], meta_data_sent = False,
                 headers_sent = False, end_transaction_sent = False, header_declined = False,
                 first_wait_verdict_encountered = False, map_next = None, flow_error = False,
                 request_ref_incremented = False\<rparr>;
            w2 = upd_ctx a (\<lambda>_. c) w1
        in if \<not> xa_alloc os k 1 then (False, w2)
           else (True, upd_ctx a (\<lambda>c. c\<lparr>cleanup_event := add_timer (cleanup_event c)\<rparr>) w2))"

section \<open>The table refines a map\<close>

fun ctx_chain :: "(nat \<Rightarrow> ngx_http_cp_async_ctx) \<Rightarrow> nat option \<Rightarrow> nat list \<Rightarrow> bool" where
  "ctx_chain st p [] = (p = None)"
| "ctx_chain st p (a # as) = (p = Some a \<and> ctx_chain st (map_next (st a)) as)"

lemma ctx_chain_cong: "(\<And>a. a \<in> set as \<Longrightarrow> map_next (st' a) = map_next (st a)) \<Longrightarrow> ctx_chain st' p as = ctx_chain st p as"
  by (induction as arbitrary: p) auto

lemma find_in_chain_find:
  "ctx_chain st p as \<Longrightarrow> find_in_chain st session_id p = Some (find (\<lambda>a. ac_session_id (st a) = session_id) as)"
  by (induction as arbitrary: p) (auto simp: find_in_chain.simps)

lemma find_previous_absent: "ctx_chain st p as \<Longrightarrow> ctx \<notin> set as \<Longrightarrow> find_previous st ctx prev p = Some None"
  by (induction as arbitrary: p prev) (auto simp: find_previous.simps)

lemma find_previous_present:
  "ctx_chain st p (as @ ctx # bs) \<Longrightarrow> ctx \<notin> set as
     \<Longrightarrow> find_previous st ctx prev p = Some (Some (if as = [] then prev else Some (last as)))"
  by (induction as arbitrary: p prev) (auto simp: find_previous.simps)

lemma ctx_chain_unlink:
  assumes "ctx_chain st p (as @ b # ctx # bs)" "distinct (as @ b # ctx # bs)"
  shows "ctx_chain (st(b := (st b)\<lparr>map_next := map_next (st ctx)\<rparr>)) p (as @ b # bs)"
  using assms
proof (induction as arbitrary: p)
  case Nil
  then have "ctx_chain (st(b := (st b)\<lparr>map_next := map_next (st ctx)\<rparr>)) (map_next (st ctx)) bs = ctx_chain st (map_next (st ctx)) bs"
    by (intro ctx_chain_cong) auto
  with Nil show ?case by (simp add: fun_upd_def)
qed auto

definition table_lists :: "(nat \<Rightarrow> u32) \<Rightarrow> async_world \<Rightarrow> (nat \<Rightarrow> nat list) \<Rightarrow> bool" where
  "table_lists key w T =
     ((\<forall>a. ac_session_id (ctx_store w a) = key a)
      \<and> (\<forall>b. ctx_chain (ctx_store w) (ctx_buckets w b) (T b) \<and> distinct (T b) \<and> (\<forall>a\<in>set (T b). cp_async_ctx_hash (key a) = b)))"

definition table_rep :: "(nat \<Rightarrow> u32) \<Rightarrow> async_world \<Rightarrow> (u32 \<rightharpoonup> nat) \<Rightarrow> bool" where
  "table_rep key w M =
     (\<exists>T. table_lists key w T \<and> (\<forall>sid a. M sid = Some a \<longleftrightarrow> a \<in> set (T (cp_async_ctx_hash sid)) \<and> key a = sid))"

lemma table_rep_find:
  assumes "table_rep key w M"
  shows "ngx_cp_async_find_ctx sid w = Some (M sid)"
proof -
  from assms obtain T where T: "table_lists key w T"
    and M: "\<And>sid a. M sid = Some a \<longleftrightarrow> a \<in> set (T (cp_async_ctx_hash sid)) \<and> key a = sid"
    by (auto simp: table_rep_def)
  let ?found = "find (\<lambda>a. key a = sid) (T (cp_async_ctx_hash sid))"
  have "ngx_cp_async_find_ctx sid w = Some ?found"
    using T find_in_chain_find [of "ctx_store w" _ "T (cp_async_ctx_hash sid)" sid]
    by (simp add: ngx_cp_async_find_ctx_def table_lists_def)
  moreover have "M sid = ?found"
  proof (cases ?found)
    case None
    then have "M sid \<noteq> Some a" for a using M by (auto simp: find_None_iff)
    with None show ?thesis by auto
  next
    case (Some a)
    then have "a \<in> set (T (cp_async_ctx_hash sid))" "key a = sid" by (auto simp: find_Some_iff)
    with M Some show ?thesis by simp
  qed
  ultimately show ?thesis by simp
qed

lemma table_rep_add:
  assumes "table_rep key w M" "M (key a) = None"
  shows "table_rep key (ngx_cp_async_add_ctx a w) (M(key a \<mapsto> a))"
proof -
  from assms(1) obtain T where T: "table_lists key w T"
    and M: "\<And>sid a. M sid = Some a \<longleftrightarrow> a \<in> set (T (cp_async_ctx_hash sid)) \<and> key a = sid"
    by (auto simp: table_rep_def)
  let ?b = "cp_async_ctx_hash (key a)"
  have fresh: "a \<notin> set (T b)" for b
    using assms(2) M [of "key a" a] T by (auto simp: table_lists_def)
  then have keep: "ctx_chain (\<lambda>x. if x = a then c else ctx_store w x) p (T b) = ctx_chain (ctx_store w) p (T b)" for c p b
    by (intro ctx_chain_cong) auto
  have lists: "table_lists key (ngx_cp_async_add_ctx a w) (T(?b := a # T ?b))"
    using T fresh by (auto simp: table_lists_def ngx_cp_async_add_ctx_def Let_def fun_upd_def upd_ctx_def keep)
  have "(M(key a \<mapsto> a)) sid = Some c \<longleftrightarrow> c \<in> set ((T(?b := a # T ?b)) (cp_async_ctx_hash sid)) \<and> key c = sid" for sid c
    using M [of sid c] M [of "key a" c] assms(2) by (auto simp: fun_upd_def)
  with lists show ?thesis by (auto simp: table_rep_def)
qed

lemma table_lists_remove:
  assumes "table_lists key w T"
  shows "\<exists>w'. ngx_cp_async_remove_ctx a w = Some w'
           \<and> table_lists key w' (T(cp_async_ctx_hash (key a) := remove1 a (T (cp_async_ctx_hash (key a)))))"
proof -
  let ?b = "cp_async_ctx_hash (key a)"
  have key: "ac_session_id (ctx_store w c) = key c" for c using assms by (simp add: table_lists_def)
  have at: "ctx_chain (ctx_store w) (ctx_buckets w c) (T c)" "distinct (T c)" for c
    using assms by (simp_all add: table_lists_def)
  have hash: "cp_async_ctx_hash (key c) = d" if "c \<in> set (T d)" for c d using assms that by (simp add: table_lists_def)
  show ?thesis
  proof (cases "a \<in> set (T ?b)")
    case False
    then show ?thesis
      using assms at(1) [of ?b] by (simp add: ngx_cp_async_remove_ctx_def unlink_ctx_def key find_previous_absent remove1_idem)
  next
    case True
    then obtain as bs where split: "T ?b = as @ a # bs" "a \<notin> set as" by (meson split_list_first)
    have tail: "remove1 a (T ?b) = as @ bs" using split by (simp add: remove1_append)
    show ?thesis
    proof (cases as rule: rev_exhaust)
      case Nil
      then show ?thesis
        using assms split tail at [of ?b]
        by (auto simp: ngx_cp_async_remove_ctx_def unlink_ctx_def key find_previous_present [of _ _ "[]"] table_lists_def)
    next
      case (snoc cs c)
      let ?st = "(ctx_store w)(c := (ctx_store w c)\<lparr>map_next := map_next (ctx_store w a)\<rparr>)"
      have "ctx_chain ?st (ctx_buckets w ?b) (cs @ c # bs)"
        using ctx_chain_unlink [of "ctx_store w" "ctx_buckets w ?b" cs c a bs] at [of ?b] split(1) snoc by simp
      moreover have "ctx_chain ?st (ctx_buckets w d) (T d)" if "d \<noteq> ?b" for d
      proof -
        have "c \<in> set (T ?b)" using split(1) snoc by simp
        then have "c \<notin> set (T d)" using hash [of c] that by blast
        then have "ctx_chain ?st (ctx_buckets w d) (T d) = ctx_chain (ctx_store w) (ctx_buckets w d) (T d)"
          by (intro ctx_chain_cong) auto
        with at show ?thesis by simp
      qed
      moreover have "find_previous (ctx_store w) a None (ctx_buckets w ?b) = Some (Some (Some c))"
        using find_previous_present [of "ctx_store w" "ctx_buckets w ?b" as a bs None] at(1) [of ?b] split snoc by simp
      ultimately show ?thesis
        using assms split tail snoc at(2) [of ?b]
        by (auto simp: ngx_cp_async_remove_ctx_def unlink_ctx_def key table_lists_def upd_ctx_def)
    qed
  qed
qed

lemma table_rep_remove:
  assumes "table_rep key w M" "M (key a) = Some a"
  shows "\<exists>w'. ngx_cp_async_remove_ctx a w = Some w' \<and> table_rep key w' (M(key a := None))"
proof -
  from assms(1) obtain T where T: "table_lists key w T"
    and M: "\<And>sid a. M sid = Some a \<longleftrightarrow> a \<in> set (T (cp_async_ctx_hash sid)) \<and> key a = sid"
    by (auto simp: table_rep_def)
  let ?T = "T(cp_async_ctx_hash (key a) := remove1 a (T (cp_async_ctx_hash (key a))))"
  from table_lists_remove [OF T] obtain w' where
    w': "ngx_cp_async_remove_ctx a w = Some w'" "table_lists key w' ?T" by blast
  have "distinct (T b)" for b using T by (simp add: table_lists_def)
  then have "(M(key a := None)) sid = Some c \<longleftrightarrow> c \<in> set (?T (cp_async_ctx_hash sid)) \<and> key c = sid" for sid c
    using M [of sid c] M [of "key a" c] assms(2) by auto
  with w' show ?thesis unfolding table_rep_def by blast
qed

text \<open>Changes of a context that keep its session id and its link do not concern the table.\<close>

lemma table_rep_upd:
  assumes "table_rep key w M" "ac_session_id (f (ctx_store w a)) = ac_session_id (ctx_store w a)"
    and "map_next (f (ctx_store w a)) = map_next (ctx_store w a)"
  shows "table_rep key (upd_ctx a f w) M"
proof -
  have same: "map_next (ctx_store (upd_ctx a f w) c) = map_next (ctx_store w c)"
    "ac_session_id (ctx_store (upd_ctx a f w) c) = ac_session_id (ctx_store w c)" for c
    using assms(2,3) by simp_all
  have "ctx_chain (ctx_store (upd_ctx a f w)) p as = ctx_chain (ctx_store w) p as" for p as
    using same by (intro ctx_chain_cong)
  then show ?thesis using assms(1) same by (simp add: table_rep_def table_lists_def)
qed

lemma table_rep_destroy:
  assumes "table_rep key w M" "M (key a) = Some a"
  shows "\<exists>w'. ngx_cp_async_destroy_ctx a w = Some w' \<and> table_rep key w' (M(key a := None))"
  unfolding ngx_cp_async_destroy_ctx_def
  by (intro table_rep_remove [OF table_rep_upd] assms)
     (simp_all add: ngx_cp_async_cancel_timers_def ngx_cp_async_cancel_deadline_timer_def ngx_cp_async_nullify_ctx_refs_def)

section \<open>The contract of an index\<close>

text \<open>
  What the rest of the module relies on: an index of objects by their key, in which a lookup ends and
  answers like a map. A context is entered only when its key is free.
\<close>

datatype 'a index_op = Enter 'a | Leave 'a

fun run_index :: "('a \<Rightarrow> 'w \<Rightarrow> 'w) \<Rightarrow> ('a \<Rightarrow> 'w \<Rightarrow> 'w option) \<Rightarrow> 'a index_op list \<Rightarrow> 'w \<Rightarrow> 'w option" where
  "run_index enter leave [] w = Some w"
| "run_index enter leave (Enter a # ops) w = run_index enter leave ops (enter a w)"
| "run_index enter leave (Leave a # ops) w = Option.bind (leave a w) (run_index enter leave ops)"

fun run_map :: "('a \<Rightarrow> 'k) \<Rightarrow> 'a index_op list \<Rightarrow> ('k \<rightharpoonup> 'a) \<Rightarrow> ('k \<rightharpoonup> 'a) option" where
  "run_map key [] M = Some M"
| "run_map key (Enter a # ops) M = (if M (key a) = None then run_map key ops (M(key a \<mapsto> a)) else None)"
| "run_map key (Leave a # ops) M = (if M (key a) = Some a then run_map key ops (M(key a := None)) else None)"

locale object_index =
  fixes rep :: "'w \<Rightarrow> ('k \<rightharpoonup> 'a) \<Rightarrow> bool"
    and key :: "'a \<Rightarrow> 'k"
    and lookup :: "'k \<Rightarrow> 'w \<Rightarrow> 'a option option"
    and enter :: "'a \<Rightarrow> 'w \<Rightarrow> 'w"
    and leave :: "'a \<Rightarrow> 'w \<Rightarrow> 'w option"
  assumes lookup_rep: "rep w M \<Longrightarrow> lookup k w = Some (M k)"
    and enter_rep: "rep w M \<Longrightarrow> M (key a) = None \<Longrightarrow> rep (enter a w) (M(key a \<mapsto> a))"
    and leave_rep: "rep w M \<Longrightarrow> M (key a) = Some a \<Longrightarrow> \<exists>w'. leave a w = Some w' \<and> rep w' (M(key a := None))"
begin

lemma run_rep: "rep w M \<Longrightarrow> run_map key ops M = Some M' \<Longrightarrow> \<exists>w'. run_index enter leave ops w = Some w' \<and> rep w' M'"
proof (induction ops arbitrary: w M)
  case (Cons x ops)
  show ?case
  proof (cases x)
    case (Enter a)
    with Cons.prems have free: "M (key a) = None" and rest: "run_map key ops (M(key a \<mapsto> a)) = Some M'"
      by (simp_all split: if_splits)
    from Cons.IH [OF enter_rep [OF Cons.prems(1) free] rest] Enter show ?thesis by simp
  next
    case (Leave a)
    with Cons.prems have here: "M (key a) = Some a" and rest: "run_map key ops (M(key a := None)) = Some M'"
      by (simp_all split: if_splits)
    from leave_rep [OF Cons.prems(1) here] obtain w1 where
      w1: "leave a w = Some w1" "rep w1 (M(key a := None))" by blast
    from Cons.IH [OF w1(2) rest] w1(1) Leave show ?thesis by simp
  qed
qed simp

lemma run_lookup:
  "rep w M \<Longrightarrow> run_map key ops M = Some M'
     \<Longrightarrow> \<exists>w'. run_index enter leave ops w = Some w' \<and> (\<forall>k. lookup k w' = Some (M' k))"
  using run_rep lookup_rep by blast

end

interpretation contexts: object_index "table_rep key" key ngx_cp_async_find_ctx ngx_cp_async_add_ctx ngx_cp_async_destroy_ctx
  for key
  by unfold_locales (simp_all add: table_rep_find table_rep_add table_rep_destroy)

end
