(* ===== verification/Ngx_Async_Sender.thy ===== *)
theory Ngx_Async_Sender
  imports Ngx_Async_Context
begin

text \<open>
  The counter of pending chunks, the connection to the service (\<open>ngx_cp_initializer.c\<close>) and the senders of the
  asynchronous inspection (\<open>async/ngx_cp_async_sender.c\<close>), which do not wait for the reply. A loop over a
  socket takes a number of rounds and answers \<open>None\<close> when they are used up.
\<close>

section \<open>Pending chunks\<close>

definition async_backpressure_threshold :: u64 where
  "async_backpressure_threshold = 10"

definition ngx_cp_async_post_backpressure_drain_event :: "async_world \<Rightarrow> async_world" where
  "ngx_cp_async_post_backpressure_drain_event w =
     (if backpressure_event_initialized w \<and> \<not> backpressure_posted w \<and> x_ipc w \<noteq> None
      then w\<lparr>backpressure_posted := True\<rparr> else w)"

definition ngx_cp_async_increment_pending_chunks :: "async_world \<Rightarrow> async_world" where
  "ngx_cp_async_increment_pending_chunks w =
     (let w1 = w\<lparr>pending_inspection_chunks := pending_inspection_chunks w + 1\<rparr> in
      if pending_inspection_chunks w1 \<ge> async_backpressure_threshold \<and> backpressure_event_initialized w1
        \<and> \<not> backpressure_posted w1 \<and> x_ipc w1 \<noteq> None
      then w1\<lparr>backpressure_posted := True\<rparr> else w1)"

definition ngx_cp_async_decrement_pending_chunks :: "async_world \<Rightarrow> async_world" where
  "ngx_cp_async_decrement_pending_chunks w =
     (if pending_inspection_chunks w > 0 then w\<lparr>pending_inspection_chunks := pending_inspection_chunks w - 1\<rparr> else w)"

definition ngx_cp_async_reset_pending_chunks :: "async_world \<Rightarrow> async_world" where
  "ngx_cp_async_reset_pending_chunks w =
     (let w1 = (if pending_inspection_chunks w > 0 \<and> backpressure_event_initialized w \<and> backpressure_posted w
                then w\<lparr>backpressure_posted := False\<rparr> else w)
      in w1\<lparr>pending_inspection_chunks := 0\<rparr>)"

section \<open>The connection\<close>

definition ngx_cp_async_setup_verdict_event_handler :: "ngx_answers \<Rightarrow> async_world \<Rightarrow> ngx_int \<times> async_world" where
  "ngx_cp_async_setup_verdict_event_handler os w =
     (if x_comm_socket w < 0 then (NGX_ERROR, w)
      else
        let k = x_steps w; w1 = (next_step w)\<lparr>ipc_verdict_conn := False\<rparr> in
        if \<not> xa_nonblocking os k then (NGX_ERROR, w1)
        else if \<not> xa_connection os k then (NGX_ERROR, w1)
        else if \<not> xa_add_event os k then (NGX_ERROR, w1)
        else (NGX_OK, w1\<lparr>ipc_verdict_conn := True\<rparr>))"

definition ngx_cp_async_cleanup :: "async_world \<Rightarrow> async_world" where
  "ngx_cp_async_cleanup w =
     (if cleanup_event_initialized w \<and> \<not> async_cleanup_posted w then w\<lparr>async_cleanup_posted := True\<rparr> else w)"

definition disable_ipc_verdict_event_handler :: "async_world \<Rightarrow> async_world" where
  "disable_ipc_verdict_event_handler w =
     (ngx_cp_async_cleanup (ngx_cp_async_reset_pending_chunks (w\<lparr>ipc_verdict_conn := False\<rparr>)))\<lparr>should_register := True\<rparr>"

definition enable_ipc_verdict_event_handler :: "ngx_answers \<Rightarrow> async_world \<Rightarrow> async_world" where
  "enable_ipc_verdict_event_handler os w =
     ngx_cp_async_reset_pending_chunks (snd (ngx_cp_async_setup_verdict_event_handler os w))"

text \<open>Closing and destroying leave the variables at -1 and \<open>NULL\<close>.\<close>

definition ngx_disconnect_communication :: "async_world \<Rightarrow> async_world" where
  "ngx_disconnect_communication w =
     (let w1 = w\<lparr>x_comm_socket := (if x_comm_socket w > 0 then -1 else x_comm_socket w),
                 x_secondary_socket := (if x_secondary_socket w > 0 then -1 else x_secondary_socket w),
                 x_ipc := None, x_secondary_ipc := None\<rparr>
      in (disable_ipc_verdict_event_handler w1)\<lparr>x_registration := NOT_REGISTERED\<rparr>)"

definition ngx_handle_shmem_corruption :: "async_world \<Rightarrow> (ngx_int \<times> async_world) option" where
  "ngx_handle_shmem_corruption w =
     (if x_ipc w = None then Some (NGX_OK, w)
      else map_option
             (\<lambda>corrupted. if corrupted then (NGX_ERROR, ngx_disconnect_communication w) else (NGX_OK, w))
             (isCorruptedShmem_2 (x_ipc w) False))"

definition ngx_isIpcReady :: "async_world \<Rightarrow> bool" where
  "ngx_isIpcReady w =
     (x_ipc w \<noteq> None \<and> x_comm_socket w > 0
      \<and> (\<not> x_async_mode w \<or> (x_secondary_ipc w \<noteq> None \<and> x_secondary_socket w > 0)))"

section \<open>Signalling\<close>

fun ngx_http_cp_signal_to_service_with_timeout ::
    "ngx_answers \<Rightarrow> nat \<Rightarrow> bytes \<Rightarrow> async_world \<Rightarrow> (ngx_int \<times> async_world) option" where
  "ngx_http_cp_signal_to_service_with_timeout os rounds data w =
     (if data = [] then Some (NGX_OK, w)
      else
        (case rounds of
           0 \<Rightarrow> None
         | Suc n \<Rightarrow>
             let res = xa_write os (x_steps w); w1 = next_step w in
             if res > 0 then
               ngx_http_cp_signal_to_service_with_timeout os n (drop (nat res) data)
                 (w1\<lparr>x_sent := x_sent w1 @ [(x_comm_socket w1, take (nat res) data)]\<rparr>)
             else if res < 0 then
               (if would_block os (x_steps w) then
                  let poll_result = xa_poll os (x_steps w1); w2 = next_step w1 in
                  if poll_result < 0 then Some (NGX_ERROR, ngx_disconnect_communication w2)
                  else if poll_result = 0 then Some (NGX_HTTP_REQUEST_TIME_OUT, w2)
                  else ngx_http_cp_signal_to_service_with_timeout os n data w2
                else Some (NGX_ERROR, ngx_disconnect_communication w1))
             else Some (NGX_ERROR, ngx_disconnect_communication w1)))"

declare ngx_http_cp_signal_to_service_with_timeout.simps [simp del]

section \<open>Sending\<close>

text \<open>Fragments into the shared memory.\<close>

definition ngx_push_fragments :: "ngx_answers \<Rightarrow> bytes list \<Rightarrow> async_world \<Rightarrow> int \<times> async_world" where
  "ngx_push_fragments os fragments w =
     (case sendChunkedData_2 (xa_files os) (x_process w) (x_ipc w) fragments of
        (err_code, P, ipc) \<Rightarrow> (err_code, w\<lparr>x_process := P, x_ipc := ipc\<rparr>))"

text \<open>The steps all senders share: a message that is not taken ends the connection.\<close>

definition push_chunk :: "ngx_answers \<Rightarrow> bytes list \<Rightarrow> async_world \<Rightarrow> ngx_int \<times> async_world" where
  "push_chunk os fragments w =
     (case ngx_push_fragments os fragments w of
        (err_code, w1) \<Rightarrow>
          if err_code \<noteq> 0 then (NGX_ERROR, ngx_disconnect_communication w1)
          else (NGX_OK, ngx_cp_async_increment_pending_chunks w1))"

text \<open>A signal that times out counts as sent, with a drain event posted.\<close>

definition signal_chunk ::
    "ngx_answers \<Rightarrow> nat \<Rightarrow> u32 \<Rightarrow> nat \<Rightarrow> async_world \<Rightarrow> (ngx_int \<times> nat \<times> async_world) option" where
  "signal_chunk os rounds session_id num w =
     do {
       (res, w1) \<leftarrow> ngx_http_cp_signal_to_service_with_timeout os rounds (le32 session_id) w;
       Some (if res \<noteq> NGX_OK \<and> res \<noteq> NGX_HTTP_REQUEST_TIME_OUT then (NGX_ERROR, 0, w1)
             else (NGX_OK, num,
                   if res = NGX_HTTP_REQUEST_TIME_OUT then ngx_cp_async_post_backpressure_drain_event w1 else w1))
     }"

definition push_and_signal ::
    "ngx_answers \<Rightarrow> nat \<Rightarrow> u32 \<Rightarrow> bytes list \<Rightarrow> async_world \<Rightarrow> (ngx_int \<times> nat \<times> async_world) option" where
  "push_and_signal os rounds session_id fragments w =
     (case push_chunk os fragments w of
        (res, w1) \<Rightarrow> if res \<noteq> NGX_OK then Some (res, 0, w1) else signal_chunk os rounds session_id 1 w1)"

definition ngx_cp_async_wait_signal_sender ::
    "ngx_answers \<Rightarrow> nat \<Rightarrow> nat \<Rightarrow> async_world \<Rightarrow> (ngx_int \<times> nat \<times> async_world) option" where
  "ngx_cp_async_wait_signal_sender os rounds a w =
     (let session_id = ac_session_id (ctx_store w a) in
      if \<not> ngx_cp_async_ctx_is_valid (ctx_store w a) then Some (NGX_ERROR, 0, w)
      else
        (case push_chunk os (set_fragments_identifiers [[], []] (data_type_code REQUEST_DELAYED_VERDICT) session_id) w of
           (res, w1) \<Rightarrow>
             if res \<noteq> NGX_OK then Some (res, 0, w1)
             else
               do {
                 (signal_res, w2) \<leftarrow> ngx_http_cp_signal_to_service_with_timeout os rounds (le32 session_id) w1;
                 Some (if signal_res = NGX_HTTP_REQUEST_TIME_OUT
                       then (NGX_HTTP_REQUEST_TIME_OUT, 0, ngx_cp_async_post_backpressure_drain_event w2)
                       else if signal_res \<noteq> NGX_OK then (NGX_ERROR, 0, w2) else (NGX_OK, 1, w2))
               }))"

subsection \<open>Meta data\<close>

definition ngx_meta_data :: "ngx_request \<Rightarrow> HttpMetaData" where
  "ngx_meta_data r =
     \<lparr>http_protocol = rq_protocol r, method_name = rq_method r,
      meta_host = (case rq_host_variable r of
                     Some _ \<Rightarrow> [] | None \<Rightarrow> (case rq_host_header r of Some h \<Rightarrow> h | None \<Rightarrow> [])),
      listening_ip = rq_listening_ip r, listening_port = rq_listening_port r, meta_uri = rq_unparsed_uri r,
      client_ip = rq_client_ip r, client_port = rq_client_port r,
      parsed_host = (case rq_host_variable r of Some h \<Rightarrow> h | None \<Rightarrow> []),
      parsed_uri = (if rq_uri r \<noteq> [] then rq_uri r else rq_unparsed_uri r)\<rparr>"

definition ngx_metadata_fragments :: "HttpMetaData \<Rightarrow> bytes \<Rightarrow> u32 \<Rightarrow> bytes list" where
  "ngx_metadata_fragments m waf_tag session_id =
     (let f0 = set_fragments_identifiers (replicate (META_DATA_COUNT + 2) []) (data_type_code REQUEST_START) session_id;
          f1 = set_string f0 (http_protocol m) (0 + 2);
          f2 = set_string f1 (method_name m) (2 + 2);
          f3 = set_string f2 (meta_host m) (4 + 2);
          f4 = set_string f3 (listening_ip m) (6 + 2);
          f5 = set_fragment_elem f4 (le16 (listening_port m)) 2 (8 + 2);
          f6 = set_string f5 (meta_uri m) (9 + 2);
          f7 = set_string f6 (client_ip m) (11 + 2);
          f8 = set_fragment_elem f7 (le16 (client_port m)) 2 (13 + 2);
          f9 = set_string f8 (parsed_host m) (14 + 2);
          f10 = set_string f9 (parsed_uri m) (16 + 2)
      in set_string f10 waf_tag (18 + 2))"

definition ngx_cp_async_send_meta_data_nonblocking ::
    "ngx_answers \<Rightarrow> nat \<Rightarrow> nat \<Rightarrow> async_world \<Rightarrow> (ngx_int \<times> nat \<times> async_world) option" where
  "ngx_cp_async_send_meta_data_nonblocking os rounds a w =
     (let c = ctx_store w a in
      if IsInspectionRequiredForSource (xa_inet_pton os) (x_conf w) (rq_client_ip (ac_request c)) = 0
      then Some (NGX_DECLINED, 0, w)
      else push_and_signal os rounds (ac_session_id c)
             (ngx_metadata_fragments (ngx_meta_data (ac_request c)) (ac_waf_tag c) (ac_session_id c)) w)"

subsection \<open>Headers\<close>

text \<open>The headers in their order, each with whether it is the last one of the last part.\<close>

fun mark_last :: "bool \<Rightarrow> 'a list \<Rightarrow> ('a \<times> bool) list" where
  "mark_last final [] = []"
| "mark_last final [x] = [(x, final)]"
| "mark_last final (x # xs) = (x, False) # mark_last final xs"

fun header_marks :: "'a list list \<Rightarrow> ('a \<times> bool) list" where
  "header_marks [] = []"
| "header_marks [part] = mark_last True part"
| "header_marks (part # parts) = mark_last False part @ header_marks parts"

text \<open>
  The loop over the headers: the array, the number of headers in it, the number of headers so far, the
  number the bulk started at, and the number of bulks sent.
\<close>

record header_progress =
  hp_fragments :: "bytes list"
  hp_in_bulk :: nat
  hp_part_count :: u8
  hp_bulk_part_idx :: u8
  hp_bulks :: nat

definition max_bulk_size :: nat where "max_bulk_size = 10"

fun async_header_loop ::
    "ngx_answers \<Rightarrow> (ngx_header \<times> bool) list \<Rightarrow> header_progress \<Rightarrow> async_world
     \<Rightarrow> ngx_int \<times> header_progress \<times> async_world" where
  "async_header_loop os [] p w = (NGX_OK, p, w)"
| "async_header_loop os ((h, is_last_part) # hs) p w =
     (let p1 = p\<lparr>hp_fragments := add_header_to_bulk (hp_fragments p) h (hp_in_bulk p),
                 hp_in_bulk := hp_in_bulk p + 1, hp_part_count := hp_part_count p + 1\<rparr> in
      if hp_in_bulk p1 < max_bulk_size \<and> \<not> is_last_part then async_header_loop os hs p1 w
      else
        let fragments = set_fragment_elem (set_fragment_elem (hp_fragments p1) [if is_last_part then 1 else 0] 1 2)
                          [hp_bulk_part_idx p1] 1 3
        in (case push_chunk os (take (HEADER_DATA_COUNT * hp_in_bulk p1 + 4) fragments) w of
              (res, w1) \<Rightarrow>
                if res \<noteq> NGX_OK then (res, p1, w1)
                else
                  let p2 = p1\<lparr>hp_fragments := fragments, hp_bulks := hp_bulks p1 + 1\<rparr> in
                  if is_last_part then async_header_loop os hs p2 w1
                  else async_header_loop os hs (p2\<lparr>hp_in_bulk := 0, hp_bulk_part_idx := hp_part_count p2\<rparr>) w1))"

text \<open>
  Without headers, eight fragments are sent of which four were not set: what the stack held. The
  test for this case is on the 8-bit number of headers.
\<close>

definition ngx_cp_async_send_headers_nonblocking ::
    "ngx_answers \<Rightarrow> nat \<Rightarrow> nat \<Rightarrow> async_world \<Rightarrow> (ngx_int \<times> nat \<times> async_world) option" where
  "ngx_cp_async_send_headers_nonblocking os rounds a w =
     (let c = ctx_store w a; session_id = ac_session_id c;
          f0 = set_fragments_identifiers (map (xa_stack os (x_steps w)) [0..<HEADER_DATA_COUNT * max_bulk_size + 4])
                 (data_type_code REQUEST_HEADER) session_id
      in (case async_header_loop os (header_marks (rq_headers (ac_request c)))
                 \<lparr>hp_fragments = f0, hp_in_bulk = 0, hp_part_count = 0, hp_bulk_part_idx = 0, hp_bulks = 0\<rparr>
                 (next_step w) of
            (res, p, w1) \<Rightarrow>
              if res \<noteq> NGX_OK then Some (res, 0, w1)
              else if hp_part_count p = 0 then
                let fragments = set_fragment_elem (set_fragment_elem (hp_fragments p) [1] 1 2) [0] 1 3 in
                (case push_chunk os (take (HEADER_DATA_COUNT * 1 + 4) fragments) w1 of
                   (res2, w2) \<Rightarrow>
                     if res2 \<noteq> NGX_OK then Some (res2, 0, w2) else signal_chunk os rounds session_id 1 w2)
              else signal_chunk os rounds session_id (hp_bulks p) w1))"

subsection \<open>End of the request and body chunks\<close>

definition ngx_cp_async_send_end_transaction_nonblocking ::
    "ngx_answers \<Rightarrow> nat \<Rightarrow> nat \<Rightarrow> async_world \<Rightarrow> (ngx_int \<times> nat \<times> async_world) option" where
  "ngx_cp_async_send_end_transaction_nonblocking os rounds a w =
     (let session_id = ac_session_id (ctx_store w a) in
      do {
        (res, num, w1) \<leftarrow> push_and_signal os rounds session_id
                          (set_fragments_identifiers [[], []] (data_type_code REQUEST_END) session_id) w;
        Some (if res \<noteq> NGX_OK then (res, num, w1)
              else (NGX_OK, num, upd_ctx a (\<lambda>c. c\<lparr>end_transaction_sent := True\<rparr>) w1))
      })"

definition ngx_cp_async_send_single_body_chunk_nonblocking ::
    "ngx_answers \<Rightarrow> nat \<Rightarrow> nat \<Rightarrow> bytes \<times> bool \<Rightarrow> async_world \<Rightarrow> (ngx_int \<times> nat \<times> async_world) option" where
  "ngx_cp_async_send_single_body_chunk_nonblocking os rounds a chunk w =
     (let (data, is_last_chunk) = chunk; session_id = ac_session_id (ctx_store w a) in
      if data = [] \<and> \<not> is_last_chunk then Some (NGX_OK, 0, w)
      else push_and_signal os rounds session_id (body_fragments REQUEST_BODY session_id is_last_chunk 0 data)
             (upd_session a (\<lambda>d. d\<lparr>processed_req_body_size := processed_req_body_size d + of_nat (length data)\<rparr>) w))"

end
