(* ===== verification/Ngx_Async.thy ===== *)
theory Ngx_Async
  imports Ngx_Async_Sender
begin

text \<open>
  The stages of an asynchronous inspection (\<open>async/ngx_cp_async_core.c\<close>): the handlers of events, timers and
  replies, and the filter of request bodies (\<open>async/ngx_cp_async_body.c\<close>). A handler that is called again
  from within itself takes the number of calls it may nest; \<open>None\<close> is a loop or nesting that has not ended
  within its rounds, or a fault. What nginx does with a request it resumes is a later event.
\<close>

section \<open>Verdicts\<close>

definition is_verdict_final :: "ServiceVerdict \<Rightarrow> bool" where
  "is_verdict_final v = (v = TRAFFIC_VERDICT_ACCEPT \<or> v = TRAFFIC_VERDICT_DROP \<or> v = TRAFFIC_VERDICT_CUSTOM_RESPONSE)"

definition is_verdict_drop_or_custom :: "ServiceVerdict \<Rightarrow> bool" where
  "is_verdict_drop_or_custom v = (v = TRAFFIC_VERDICT_DROP \<or> v = TRAFFIC_VERDICT_CUSTOM_RESPONSE)"

definition fail_verdict :: "bool \<Rightarrow> ServiceVerdict" where
  "fail_verdict open = (if open then TRAFFIC_VERDICT_ACCEPT else TRAFFIC_VERDICT_DROP)"

definition fail_result :: "bool \<Rightarrow> ngx_int" where
  "fail_result open = (if open then NGX_DECLINED else NGX_HTTP_FORBIDDEN)"

definition ac_verdict :: "ngx_http_cp_async_ctx \<Rightarrow> ServiceVerdict" where
  "ac_verdict c = ns_verdict (ac_session c)"

definition set_ctx_verdict :: "ServiceVerdict \<Rightarrow> ngx_http_cp_async_ctx \<Rightarrow> ngx_http_cp_async_ctx" where
  "set_ctx_verdict v c = c\<lparr>ac_session := (ac_session c)\<lparr>ns_verdict := v\<rparr>\<rparr>"

text \<open>The session is settled: no reply is awaited any more.\<close>

definition settle_session :: "ServiceVerdict \<Rightarrow> ngx_http_cp_async_ctx \<Rightarrow> ngx_http_cp_async_ctx" where
  "settle_session v c =
     c\<lparr>ac_session := (ac_session c)\<lparr>ns_verdict := v, remaining_messages := 0, async_processing_needed := False\<rparr>,
       header_declined := True\<rparr>"

section \<open>The complete stage\<close>

definition now_val :: "ngx_answers \<Rightarrow> nat \<Rightarrow> timeval" where
  "now_val os k = (tv_sec (xa_time os k), tv_nsec (xa_time os k) sdiv 1000)"

definition report_success :: "ngx_answers \<Rightarrow> nat \<Rightarrow> async_world \<Rightarrow> async_world" where
  "report_success os a w =
     (let k = x_steps w in
      (next_step w)\<lparr>x_failure := handle_inspection_success (now_val os k) (xa_time os k)
                                  (ngx_session.truncate (ac_session (ctx_store w a))) (x_failure w)\<rparr>)"

definition report_failure :: "ngx_answers \<Rightarrow> nat \<Rightarrow> async_world \<Rightarrow> async_world option" where
  "report_failure os a w =
     (let k = x_steps w in
      do {
        (d, s) \<leftarrow> handle_inspection_failure (now_val os k) (xa_time os k) 1 (fail_mode_open w)
                   (ngx_session.truncate (ac_session (ctx_store w a))) (x_failure w);
        Some (upd_ctx a (set_ctx_verdict (ns_verdict d)) ((next_step w)\<lparr>x_failure := s\<rparr>))
      })"

definition mark_fully_inspected :: "nat \<Rightarrow> async_world \<Rightarrow> async_world" where
  "mark_fully_inspected a w =
     (if rq_has_body (ac_request (ctx_store w a)) then w else upd_session a (\<lambda>d. d\<lparr>was_request_fully_inspected := True\<rparr>) w)"

definition ngx_http_cp_finalize_request_headers_hook ::
    "ngx_answers \<Rightarrow> nat \<Rightarrow> ngx_int \<Rightarrow> async_world \<Rightarrow> (ngx_int \<times> async_world) option" where
  "ngx_http_cp_finalize_request_headers_hook os a final_res w =
     (let c = ctx_store w a; fail_mode = (if fail_mode_open w then NGX_OK else NGX_HTTP_FORBIDDEN) in
      if final_res = NGX_HTTP_FORBIDDEN then
        let w1 = report_success os a w
        in Some (xa_rejected os (x_steps w1), next_step (nginx_call (FinalizeRejected (ac_session_id c)) w1))
      else if final_res \<noteq> NGX_OK then map_option (Pair fail_mode) (report_failure os a w)
      else if ac_modifications c = [] then Some (NGX_OK, mark_fully_inspected a (report_success os a w))
      else
        do {
          (res, hs) \<leftarrow> ngx_http_cp_header_modifier (xa_lists os (x_steps w)) False (ac_modifications c) (rq_headers (ac_request c));
          let w1 = upd_ctx a (\<lambda>c. c\<lparr>ac_request := (ac_request c)\<lparr>rq_headers := hs_headers hs,
                       rq_length_cleared := rq_length_cleared (ac_request c) \<or> hs_length_cleared hs\<rparr>\<rparr>) (next_step w);
          if res \<noteq> NGX_OK then map_option (Pair fail_mode) (report_failure os a w1)
          else Some (NGX_OK, mark_fully_inspected a (report_success os a w1))
        })"

definition calcProcessingTime :: "ngx_answers \<Rightarrow> nat \<Rightarrow> async_world \<Rightarrow> async_world" where
  "calcProcessingTime os a w =
     upd_session a (\<lambda>d. d\<lparr>ns_req_time := ns_req_time d + (usec (xa_time os (x_steps w)) - usec (ac_start_time (ctx_store w a)))\<rparr>)
       (next_step w)"

text \<open>What the complete stage answers for a verdict.\<close>

definition complete_result :: "bool \<Rightarrow> ServiceVerdict \<Rightarrow> ngx_int" where
  "complete_result open v =
     (if v \<in> {TRAFFIC_VERDICT_ACCEPT, TRAFFIC_VERDICT_INSPECT, TRAFFIC_VERDICT_IRRELEVANT} then NGX_DECLINED
      else if is_verdict_drop_or_custom v then NGX_HTTP_FORBIDDEN else fail_result open)"

definition process_complete_stage :: "ngx_answers \<Rightarrow> nat \<Rightarrow> async_world \<Rightarrow> (ngx_int \<times> async_world) option" where
  "process_complete_stage os a w =
     do {
       (_, w1) \<leftarrow> ngx_http_cp_finalize_request_headers_hook os a NGX_OK
                   (calcProcessingTime os a (upd_ctx a ngx_cp_async_cancel_deadline_timer w));
       let w2 = upd_ctx a (\<lambda>c. c\<lparr>agent_event := del_timer (agent_event c)\<rparr>) w1;
       Some (complete_result (fail_mode_open w2) (ac_verdict (ctx_store w2 a)), w2)
     }"

section \<open>Waiting for a verdict\<close>

definition ngx_cp_async_transition_after_wait :: "ngx_http_cp_async_ctx \<Rightarrow> ngx_http_cp_async_ctx" where
  "ngx_cp_async_transition_after_wait c =
     (if \<not> ngx_cp_async_ctx_is_valid c \<or> ngx_cp_async_ctx_get_flow_error_safe c \<or> ac_verdict c = TRAFFIC_VERDICT_DELAYED then c
      else
        (case ac_stage c of
           STAGE_WAIT_HEADER_VERDICT \<Rightarrow>
             ASYNC_STAGE_TRANSITION (if is_verdict_drop_or_custom (ac_verdict c) then STAGE_COMPLETE else STAGE_END_TRANSACTION) c
         | STAGE_WAIT_END_VERDICT \<Rightarrow>
             ASYNC_STAGE_TRANSITION (if body_phase_started c then STAGE_BODY else STAGE_COMPLETE) c
         | STAGE_WAIT_BODY_VERDICT \<Rightarrow>
             ASYNC_STAGE_TRANSITION (if is_verdict_drop_or_custom (ac_verdict c) then STAGE_COMPLETE else STAGE_BODY) c
         | _ \<Rightarrow> ASYNC_STAGE_TRANSITION STAGE_COMPLETE c))"

text \<open>Giving up the wait: the verdict of the failure mode, and the body stage.\<close>

definition give_up_waiting :: "nat \<Rightarrow> async_world \<Rightarrow> async_world" where
  "give_up_waiting a w =
     upd_ctx a
       (\<lambda>c. ASYNC_STAGE_TRANSITION STAGE_BODY
              (ngx_cp_async_cancel_timers ((settle_session (fail_verdict (fail_mode_hold_open w)) c)\<lparr>req_seq := 0\<rparr>)))
       (count_metric HOLD_THREAD_TIMEOUT 1 w)"

text \<open>\<open>handler\<close> is the event handler of the context, which runs on before this function returns.\<close>

definition ngx_cp_async_handle_wait_verdict ::
    "(async_world \<Rightarrow> async_world option) \<Rightarrow> ngx_answers \<Rightarrow> nat \<Rightarrow> nat \<Rightarrow> async_world \<Rightarrow> (ngx_int \<times> async_world) option" where
  "ngx_cp_async_handle_wait_verdict handler os rounds a w =
     (let c = ctx_store w a in
      if \<not> ngx_cp_async_ctx_is_valid c then Some (NGX_ERROR, w)
      else if ngx_cp_async_ctx_get_flow_error_safe c then map_option (Pair NGX_AGAIN) (handler (give_up_waiting a w))
      else if ac_verdict c \<noteq> TRAFFIC_VERDICT_DELAYED
      then map_option (Pair NGX_AGAIN) (handler (upd_ctx a ngx_cp_async_transition_after_wait w))
      else
        do {
          (rc, _, w1) \<leftarrow> ngx_cp_async_wait_signal_sender os rounds a w;
          if rc \<noteq> NGX_OK \<and> rc \<noteq> NGX_HTTP_REQUEST_TIME_OUT then map_option (Pair NGX_AGAIN) (handler (give_up_waiting a w1))
          else Some (NGX_AGAIN, upd_ctx a (\<lambda>c. c\<lparr>agent_event := add_timer (agent_event c)\<rparr>) w1)
        })"

section \<open>The stages\<close>

text \<open>A message that could not be sent: the flow is in error, with the verdict of the failure mode.\<close>

definition sending_failed :: "ngx_answers \<Rightarrow> nat \<Rightarrow> async_world \<Rightarrow> (ngx_int \<times> async_world) option" where
  "sending_failed os a w =
     process_complete_stage os a
       (upd_ctx a (\<lambda>c. (set_ctx_verdict (fail_verdict (fail_mode_open w)) c)\<lparr>flow_error := True\<rparr>) w)"

definition await_replies ::
    "nat \<Rightarrow> nat \<Rightarrow> (ngx_http_cp_async_ctx \<Rightarrow> ngx_http_cp_async_ctx) \<Rightarrow> async_world \<Rightarrow> ngx_int \<times> async_world" where
  "await_replies a num sent w =
     (NGX_AGAIN, upd_ctx a sent (upd_session a (\<lambda>d. d\<lparr>remaining_messages := remaining_messages d + num\<rparr>) w))"

definition ngx_cp_async_continue_processing ::
    "(async_world \<Rightarrow> async_world option) \<Rightarrow> ngx_answers \<Rightarrow> nat \<Rightarrow> nat \<Rightarrow> async_world \<Rightarrow> (ngx_int \<times> async_world) option" where
  "ngx_cp_async_continue_processing handler os rounds a w =
     (let c = ctx_store w a in
      if flow_error c
      then Some (fail_result (fail_mode_open w), upd_ctx a (set_ctx_verdict (fail_verdict (fail_mode_open w))) w)
      else
        (case ac_stage c of
           STAGE_META_DATA \<Rightarrow>
             if meta_data_sent c then Some (NGX_AGAIN, w)
             else
               do {
                 (rc, num, w1) \<leftarrow> ngx_cp_async_send_meta_data_nonblocking os rounds a w;
                 if rc = NGX_DECLINED then Some (NGX_DECLINED, upd_ctx a (set_ctx_verdict TRAFFIC_VERDICT_IRRELEVANT) w1)
                 else if rc \<noteq> NGX_OK then sending_failed os a w1
                 else Some (await_replies a num (\<lambda>c. c\<lparr>meta_data_sent := True\<rparr>) w1)
               }
         | STAGE_HEADERS \<Rightarrow>
             if headers_sent c then Some (NGX_AGAIN, w)
             else
               do {
                 (rc, num, w1) \<leftarrow> ngx_cp_async_send_headers_nonblocking os rounds a w;
                 if rc \<noteq> NGX_OK then sending_failed os a w1
                 else Some (await_replies a num (\<lambda>c. c\<lparr>headers_sent := True\<rparr>) w1)
               }
         | STAGE_END_TRANSACTION \<Rightarrow>
             if end_transaction_sent c then Some (NGX_AGAIN, w)
             else
               do {
                 (rc, num, w1) \<leftarrow> ngx_cp_async_send_end_transaction_nonblocking os rounds a w;
                 if rc \<noteq> NGX_OK then sending_failed os a w1
                 else Some (await_replies a num (\<lambda>c. c\<lparr>end_transaction_sent := True\<rparr>) w1)
               }
         | STAGE_BODY \<Rightarrow>
             if is_verdict_drop_or_custom (ac_verdict c)
             then process_complete_stage os a (upd_ctx a (ASYNC_STAGE_TRANSITION STAGE_COMPLETE) w)
             else if req_seq c > 0 then Some (NGX_AGAIN, w)
             else
               Some (NGX_AGAIN,
                     upd_ctx a
                       (\<lambda>c. c\<lparr>ac_released := ac_released c \<or> (end_transaction_sent c \<and> req_seen_last c),
                              resume_event := (resume_event c)\<lparr>posted := True\<rparr>\<rparr>) w)
         | STAGE_WAIT_HEADER_VERDICT \<Rightarrow> ngx_cp_async_handle_wait_verdict handler os rounds a w
         | STAGE_WAIT_END_VERDICT \<Rightarrow> ngx_cp_async_handle_wait_verdict handler os rounds a w
         | STAGE_WAIT_BODY_VERDICT \<Rightarrow> ngx_cp_async_handle_wait_verdict handler os rounds a w
         | STAGE_COMPLETE \<Rightarrow> process_complete_stage os a w
         | _ \<Rightarrow> Some (NGX_ERROR, w)))"

section \<open>The event handler\<close>

definition after_processing ::
    "ngx_cp_async_stage \<Rightarrow> nat \<Rightarrow> ngx_int \<Rightarrow> async_world \<Rightarrow> async_world option" where
  "after_processing stage a rc w =
     (let c = ctx_store w a; session_id = ac_session_id c in
      if rc = NGX_AGAIN then Some w
      else if is_verdict_drop_or_custom (ac_verdict c) then
        map_option (nginx_call (FinalizeRejected session_id))
          (ngx_cp_async_destroy_ctx a (upd_ctx a (\<lambda>c. c\<lparr>ac_request := (ac_request c)\<lparr>rq_keepalive := False\<rparr>\<rparr>) w))
      else if rc = NGX_DECLINED then
        do {
          let w1 = upd_ctx a ngx_cp_async_cancel_deadline_timer w;
          w2 \<leftarrow> (if stage = STAGE_COMPLETE then ngx_cp_async_destroy_ctx a w1 else Some w1);
          Some (if ac_waiting c
                then nginx_call (RunPhases session_id)
                       (if stage = STAGE_COMPLETE then w2 else upd_ctx a (\<lambda>c. c\<lparr>ac_waiting := False\<rparr>) w2)
                else w2)
        }
      else Some w)"

fun ngx_cp_async_event_handler :: "ngx_answers \<Rightarrow> nat \<Rightarrow> nat \<Rightarrow> nat \<Rightarrow> async_world \<Rightarrow> async_world option" where
  "ngx_cp_async_event_handler os rounds 0 a w = None"
| "ngx_cp_async_event_handler os rounds (Suc n) a w =
     (let c = ctx_store w a in
      if \<not> ev_data (agent_event c) \<or> \<not> ngx_cp_async_ctx_is_valid c then Some w
      else
        do {
          (rc, w1) \<leftarrow> ngx_cp_async_continue_processing (ngx_cp_async_event_handler os rounds n a) os rounds a w;
          after_processing (ac_stage c) a rc w1
        })"

declare ngx_cp_async_event_handler.simps [simp del]

text \<open>The deadline of a stage; the metric is that of the request headers whatever the stage.\<close>

definition deadline_fail_mode :: "ngx_cp_async_stage \<Rightarrow> async_world \<Rightarrow> bool" where
  "deadline_fail_mode stage w =
     (if stage \<in> {STAGE_WAIT_HEADER_VERDICT, STAGE_WAIT_END_VERDICT, STAGE_WAIT_BODY_VERDICT}
      then fail_mode_hold_open w else fail_mode_open w)"

definition ngx_cp_async_deadline_handler :: "ngx_answers \<Rightarrow> nat \<Rightarrow> nat \<Rightarrow> nat \<Rightarrow> async_world \<Rightarrow> async_world option" where
  "ngx_cp_async_deadline_handler os rounds depth a w =
     (let c = ctx_store w a in
      if \<not> ev_data (deadline_event c) \<or> \<not> ngx_cp_async_ctx_is_valid c then Some w
      else if ac_stage c = STAGE_COMPLETE then Some w
      else if ngx_cp_async_ctx_get_flow_error_safe c then Some w
      else
        let v = fail_verdict (deadline_fail_mode (ac_stage c) w);
            w1 = count_metric REQ_HEADER_THREAD_TIMEOUT 1 (upd_ctx a (settle_session v) w)
        in ngx_cp_async_event_handler os rounds depth a (upd_ctx a (ASYNC_STAGE_TRANSITION STAGE_COMPLETE) w1))"

definition ngx_cp_async_context_cleanup_handler ::
    "ngx_answers \<Rightarrow> nat \<Rightarrow> nat \<Rightarrow> nat \<Rightarrow> async_world \<Rightarrow> async_world option" where
  "ngx_cp_async_context_cleanup_handler os rounds depth a w =
     (let c = ctx_store w a in
      if \<not> ev_data (cleanup_event c) \<or> \<not> ngx_cp_async_ctx_is_valid c then Some w
      else if ac_stage c = STAGE_COMPLETE then Some w
      else ngx_cp_async_event_handler os rounds depth a
             (upd_ctx a
               (\<lambda>c. ASYNC_STAGE_TRANSITION STAGE_COMPLETE
                      (settle_session (fail_verdict (fail_mode_open w)) (c\<lparr>flow_error := True\<rparr>))) w))"

section \<open>Replies\<close>

definition ngx_cp_async_apply_verdict_for_stage :: "nat \<Rightarrow> async_world \<Rightarrow> ngx_int \<times> async_world" where
  "ngx_cp_async_apply_verdict_for_stage a w =
     (let c = ctx_store w a; v = ac_verdict c; blocked = is_verdict_drop_or_custom v;
          moved = (\<lambda>stage. upd_ctx a (ASYNC_STAGE_TRANSITION stage) w);
          poll_again = upd_ctx a (\<lambda>c. c\<lparr>agent_event := add_timer (agent_event c)\<rparr>)
      in if \<not> ngx_cp_async_ctx_is_valid c \<or> ac_stage c = STAGE_ERROR then (NGX_ERROR, w)
         else
           (case ac_stage c of
              STAGE_META_DATA \<Rightarrow>
                (NGX_OK, moved (if blocked then STAGE_COMPLETE
                                else if v = TRAFFIC_VERDICT_DELAYED then STAGE_WAIT_META_VERDICT else STAGE_HEADERS))
            | STAGE_HEADERS \<Rightarrow>
                if blocked then (NGX_OK, moved STAGE_COMPLETE)
                else if v = TRAFFIC_VERDICT_DELAYED then (NGX_OK, moved STAGE_WAIT_HEADER_VERDICT)
                else if rq_has_body (ac_request c) then
                  let w1 = upd_ctx a (\<lambda>c. ngx_cp_async_cancel_deadline_timer
                             (ASYNC_STAGE_TRANSITION STAGE_BODY (c\<lparr>header_declined := True\<rparr>))) w
                  in (NGX_DECLINED,
                      if ac_waiting c
                      then nginx_call (RunPhases (ac_session_id c)) (upd_ctx a (\<lambda>c. c\<lparr>ac_waiting := False\<rparr>) w1) else w1)
                else (NGX_OK, upd_ctx a (ASYNC_STAGE_TRANSITION STAGE_END_TRANSACTION)
                                (upd_session a (\<lambda>d. d\<lparr>async_processing_needed := False\<rparr>) w))
            | STAGE_END_TRANSACTION \<Rightarrow>
                if blocked then (NGX_OK, moved STAGE_COMPLETE)
                else if v = TRAFFIC_VERDICT_DELAYED then (NGX_AGAIN, poll_again (moved STAGE_WAIT_END_VERDICT))
                else (NGX_OK, upd_session a (\<lambda>d. d\<lparr>async_processing_needed := False\<rparr>)
                                (upd_ctx a (\<lambda>c. c\<lparr>header_declined := True\<rparr>) (moved STAGE_COMPLETE)))
            | STAGE_BODY \<Rightarrow>
                if blocked then (NGX_OK, moved STAGE_COMPLETE)
                else if v = TRAFFIC_VERDICT_DELAYED then (NGX_AGAIN, poll_again (moved STAGE_WAIT_BODY_VERDICT))
                else if was_request_fully_inspected (ac_session c) then (NGX_OK, upd_ctx a (\<lambda>c. c\<lparr>req_seq := 0\<rparr>) w)
                else (NGX_OK, w)
            | STAGE_WAIT_META_VERDICT \<Rightarrow> (NGX_AGAIN, poll_again w)
            | STAGE_WAIT_HEADER_VERDICT \<Rightarrow> (NGX_AGAIN, poll_again w)
            | STAGE_WAIT_BODY_VERDICT \<Rightarrow> (NGX_AGAIN, poll_again w)
            | STAGE_WAIT_END_VERDICT \<Rightarrow> (NGX_AGAIN, poll_again w)
            | _ \<Rightarrow> (NGX_OK, w)))"

text \<open>
  The nodes of an injection are appended behind \<open>current_modification\<close>, which is set only by a node that
  becomes the first of the list: with nodes from an earlier reply the first append goes through
  \<open>NULL\<close>. \<open>has_current\<close> says whether it is set. The answer is the list and whether every node was made.
\<close>

fun collect_injections ::
    "(nat \<Rightarrow> bool) \<Rightarrow> nat \<Rightarrow> memory \<Rightarrow> nat \<Rightarrow> nat \<Rightarrow> bool \<Rightarrow> NanoHttpModification list
     \<Rightarrow> (bool \<times> NanoHttpModification list) option" where
  "collect_injections alloc k p addr 0 has_current ml = Some (True, ml)"
| "collect_injections alloc k p addr (Suc n) has_current ml =
     (case create_modification_node alloc k p addr of
        None \<Rightarrow> Some (False, [])
      | Some node \<Rightarrow>
          if ml \<noteq> [] \<and> \<not> has_current then None
          else collect_injections alloc (k + 2) p
                 (addr + inject_header_size + unat (injection_size (read_inject_data p addr))) n True (ml @ [node]))"

text \<open>\<open>ngx_pfree\<close> does nothing for an address the pool has no large block at, as those of the nodes.\<close>

definition ngx_cp_async_free_modification_list :: "ngx_http_cp_async_ctx \<Rightarrow> ngx_http_cp_async_ctx" where
  "ngx_cp_async_free_modification_list c = c\<lparr>ac_modifications := []\<rparr>"

definition take_verdict :: "HttpReplyFromService \<Rightarrow> ngx_http_cp_async_ctx \<Rightarrow> ngx_http_cp_async_ctx" where
  "take_verdict reply c =
     (let v = service_verdict (reply_verdict reply); c1 = set_ctx_verdict v c;
          c2 = (if is_verdict_final v then c1\<lparr>ac_session := (ac_session c1)\<lparr>was_request_fully_inspected := True\<rparr>\<rparr> else c1)
      in if v = TRAFFIC_VERDICT_DELAYED \<and> \<not> first_wait_verdict_encountered c2
         then ngx_cp_async_start_deadline_timer (ngx_cp_async_cancel_deadline_timer (c2\<lparr>first_wait_verdict_encountered := True\<rparr>))
         else c2)"

text \<open>The page of a blocked request, and the modifications of an injection.\<close>

definition take_page :: "HttpReplyFromService \<Rightarrow> nat \<Rightarrow> async_world \<Rightarrow> async_world" where
  "take_page reply a w =
     (let v = service_verdict (reply_verdict reply); session_id = ac_session_id (ctx_store w a) in
      if is_verdict_drop_or_custom v \<and> modification_count reply > 0 then
        upd_session a (\<lambda>d. d\<lparr>remaining_messages := 0\<rparr>)
          (upd_ctx a ngx_cp_async_free_modification_list
            (nginx_call (if v = TRAFFIC_VERDICT_DROP then CustomWebResponse session_id (modify_data reply)
                         else CustomResponse session_id (modify_data reply)) w))
      else w)"

definition take_injections ::
    "(nat \<Rightarrow> bool) \<Rightarrow> memory \<Rightarrow> HttpReplyFromService \<Rightarrow> nat \<Rightarrow> async_world \<Rightarrow> (ngx_int \<times> async_world) option" where
  "take_injections alloc p reply a w =
     (if service_verdict (reply_verdict reply) = TRAFFIC_VERDICT_INJECT \<and> modification_count reply > 0 then
        do {
          (made, ml) \<leftarrow> collect_injections alloc 0 p (modify_data reply) (unat (modification_count reply)) False
                         (ac_modifications (ctx_store w a));
          Some (if made then NGX_OK else NGX_ERROR, upd_ctx a (\<lambda>c. c\<lparr>ac_modifications := ml\<rparr>) w)
        }
      else Some (NGX_OK, w))"

definition count_reply :: "ngx_http_cp_async_ctx \<Rightarrow> ngx_http_cp_async_ctx" where
  "count_reply c =
     c\<lparr>ac_session := (ac_session c)\<lparr>remaining_messages := remaining_messages (ac_session c) - 1\<rparr>, req_seq := req_seq c - 1\<rparr>"

definition ngx_cp_async_apply_verdict ::
    "ngx_answers \<Rightarrow> nat \<Rightarrow> nat \<Rightarrow> nat \<Rightarrow> memory \<Rightarrow> nat \<Rightarrow> async_world \<Rightarrow> (ngx_int \<times> async_world) option" where
  "ngx_cp_async_apply_verdict os rounds depth a p addr w =
     (let reply = read_reply p addr in
      if \<not> ngx_cp_async_ctx_is_valid (ctx_store w a) then Some (NGX_ERROR, w)
      else
        let w1 = upd_ctx a (take_verdict reply) w in
        if service_verdict (reply_verdict reply) = LIMIT_RESPONSE_HEADERS then Some (NGX_OK, w1)
        else
          do {
            let w2 = take_page reply a w1;
            (rc, w3) \<leftarrow> take_injections (xa_alloc os (x_steps w2)) p reply a (next_step w2);
            let w4 = upd_ctx a count_reply w3;
            let d = ac_session (ctx_store w4 a);
            if remaining_messages d = 0 \<or> (was_request_fully_inspected d \<and> ac_stage (ctx_store w4 a) = STAGE_BODY) then
              (case ngx_cp_async_apply_verdict_for_stage a w4 of
                 (apply_rc, w5) \<Rightarrow>
                   if apply_rc = NGX_OK then map_option (Pair rc) (ngx_cp_async_event_handler os rounds depth a w5)
                   else Some (rc, w5))
            else Some (rc, w4)
          })"

text \<open>One message off the queue.\<close>

definition ngx_pop :: "ngx_answers \<Rightarrow> async_world \<Rightarrow> int \<times> async_world" where
  "ngx_pop os w =
     (case popData_2 (xa_files os) (x_process w) (x_ipc w) of (r, P, ipc) \<Rightarrow> (r, w\<lparr>x_process := P, x_ipc := ipc\<rparr>))"

definition drained :: "ngx_answers \<Rightarrow> async_world \<Rightarrow> async_world" where
  "drained os w = ngx_cp_async_decrement_pending_chunks (snd (ngx_pop os w))"

text \<open>The bytes a reply points into, which stay where they are when it is popped.\<close>

definition rx_bytes :: "async_world \<Rightarrow> memory" where
  "rx_bytes w = (case x_ipc w of None \<Rightarrow> (\<lambda>_. 0) | Some i \<Rightarrow> (case rx_queue_2 i of None \<Rightarrow> (\<lambda>_. 0) | Some q \<Rightarrow> payload q))"

fun drain_ipc_queue :: "ngx_answers \<Rightarrow> nat \<Rightarrow> nat \<Rightarrow> nat \<Rightarrow> async_world \<Rightarrow> (ngx_int \<times> async_world) option" where
  "drain_ipc_queue os rounds depth n w =
     (if \<not> isDataAvailable_2 (x_ipc w) then Some (NGX_OK, w)
      else
        (case n of
           0 \<Rightarrow> None
         | Suc m \<Rightarrow>
             do {
               (res, out, P, ipc) \<leftarrow> receiveData_2 (xa_files os) (x_process w) (x_ipc w);
               let w1 = w\<lparr>x_process := P, x_ipc := ipc\<rparr>;
               (case out of
                  None \<Rightarrow> Some (NGX_ERROR, w1)
                | Some (addr, sz) \<Rightarrow>
                    if res < 0 then Some (NGX_ERROR, w1)
                    else
                      let reply = read_reply (rx_bytes w1) addr in
                      if service_verdict (reply_verdict reply) = TRAFFIC_VERDICT_RECONF
                      then drain_ipc_queue os rounds depth m (nginx_call ResetConfig (snd (ngx_pop os w1)))
                      else
                        do {
                          found \<leftarrow> ngx_cp_async_find_ctx (reply_session_id reply) w1;
                          (case found of
                             None \<Rightarrow> drain_ipc_queue os rounds depth m (drained os w1)
                           | Some a \<Rightarrow>
                               if \<not> ngx_cp_async_ctx_is_valid (ctx_store w1 a) then drain_ipc_queue os rounds depth m (drained os w1)
                               else if ngx_cp_async_ctx_get_flow_error_safe (ctx_store w1 a)
                               then drain_ipc_queue os rounds depth m (drained os w1)
                               else
                                 do {
                                   (_, w2) \<leftarrow> ngx_cp_async_apply_verdict os rounds depth a (rx_bytes w1) addr w1;
                                   (case ngx_pop os w2 of
                                      (r, w3) \<Rightarrow>
                                        if r \<noteq> 0 then Some (NGX_ERROR, w3)
                                        else drain_ipc_queue os rounds depth m (ngx_cp_async_decrement_pending_chunks w3))
                                 })
                        })
             }))"

declare drain_ipc_queue.simps [simp del]

text \<open>The socket, read until it is empty; \<open>None\<close> of the answer is the end of the connection.\<close>

fun drain_comm_socket_fully :: "ngx_answers \<Rightarrow> nat \<Rightarrow> nat \<Rightarrow> async_world \<Rightarrow> (nat option \<times> async_world) option" where
  "drain_comm_socket_fully os 0 total_drained w = None"
| "drain_comm_socket_fully os (Suc n) total_drained w =
     (let r = xa_read os (x_steps w); w1 = next_step w in
      if r > 0 then drain_comm_socket_fully os n (total_drained + nat r) w1
      else Some (if r = 0 then None else Some total_drained, w1))"

definition ngx_cp_async_verdict_event_handler ::
    "ngx_answers \<Rightarrow> nat \<Rightarrow> nat \<Rightarrow> nat \<Rightarrow> async_world \<Rightarrow> async_world option" where
  "ngx_cp_async_verdict_event_handler os rounds depth n w =
     (if \<not> x_async_mode w then Some (w\<lparr>ipc_verdict_conn := False\<rparr>)
      else
        do {
          (bytes_drained, w1) \<leftarrow> drain_comm_socket_fully os rounds 0 w;
          if bytes_drained = None then Some (disable_ipc_verdict_event_handler w1)
          else map_option snd (drain_ipc_queue os rounds depth n w1)
        })"

section \<open>The handler of the drain event\<close>

definition max_drain_iterations :: nat where "max_drain_iterations = 100"

fun drain_iterations ::
    "ngx_answers \<Rightarrow> nat \<Rightarrow> nat \<Rightarrow> nat \<Rightarrow> nat \<Rightarrow> nat \<Rightarrow> async_world \<Rightarrow> async_world option" where
  "drain_iterations os rounds depth n 0 iterations w = None"
| "drain_iterations os rounds depth n (Suc m) iterations w =
     (if \<not> (pending_inspection_chunks w > 0 \<or> iterations < max_drain_iterations) then Some w
      else
        do {
          (res, w1) \<leftarrow> drain_ipc_queue os rounds depth n w;
          if res \<noteq> NGX_OK then Some w1
          else if pending_inspection_chunks w1 = 0 then Some w1
          else
            let k = x_steps w1; w2 = next_step w1 in
            if xa_epoll os k < 0
            then (if xa_interrupted os k then drain_iterations os rounds depth n m (Suc iterations) w2 else Some w2)
            else if xa_epoll os k = 0 then Some w2
            else
              do {
                (bytes_drained, w3) \<leftarrow> drain_comm_socket_fully os rounds 0 w2;
                if bytes_drained = None then Some (disable_ipc_verdict_event_handler w3)
                else drain_iterations os rounds depth n m (Suc iterations) w3
              }
        })"

definition ngx_cp_async_backpressure_drain_handler ::
    "ngx_answers \<Rightarrow> nat \<Rightarrow> nat \<Rightarrow> nat \<Rightarrow> nat \<Rightarrow> async_world \<Rightarrow> async_world option" where
  "ngx_cp_async_backpressure_drain_handler os rounds depth n m w =
     (if x_ipc w = None then Some w
      else if x_comm_socket w < 0 then Some w
      else if backpressure_epoll_fd w < 0 then map_option snd (drain_ipc_queue os rounds depth n w)
      else if backpressure_registered_socket w \<noteq> x_comm_socket w then
        (if \<not> xa_epoll_ctl os (x_steps w)
         then map_option snd (drain_ipc_queue os rounds depth n ((next_step w)\<lparr>backpressure_registered_socket := -1\<rparr>))
         else drain_iterations os rounds depth n m 0 ((next_step w)\<lparr>backpressure_registered_socket := x_comm_socket w\<rparr>))
      else drain_iterations os rounds depth n m 0 w)"

section \<open>Start, resumption and the body filter\<close>

definition ngx_cp_async_start_agent_communication ::
    "ngx_answers \<Rightarrow> nat \<Rightarrow> nat \<Rightarrow> nat \<Rightarrow> async_world \<Rightarrow> (ngx_int \<times> async_world) option" where
  "ngx_cp_async_start_agent_communication os rounds depth a w =
     do {
       let w1 = upd_ctx a (\<lambda>c. c\<lparr>ac_stage := STAGE_META_DATA\<rparr>) w;
       (res, w2) \<leftarrow> ngx_handle_shmem_corruption w1;
       if res = NGX_ERROR
       then Some (fail_result (fail_mode_open w2),
                  upd_ctx a (\<lambda>c. (set_ctx_verdict (fail_verdict (fail_mode_open w2)) c)\<lparr>flow_error := True\<rparr>) w2)
       else ngx_cp_async_continue_processing (ngx_cp_async_event_handler os rounds depth a) os rounds a w2
     }"

definition next_body_filter :: "ngx_answers \<Rightarrow> u32 \<Rightarrow> ngx_chain \<Rightarrow> async_world \<Rightarrow> ngx_int \<times> async_world" where
  "next_body_filter os session_id body w =
     (xa_next_filter os (x_steps w), next_step (nginx_call (NextBodyFilter session_id body) w))"

definition queue_free :: "nat \<Rightarrow> async_world \<Rightarrow> async_world" where
  "queue_free a = upd_ctx a (\<lambda>c. c\<lparr>ac_queue := []\<rparr>)"

definition cp_async_posted_resume :: "ngx_answers \<Rightarrow> u32 \<Rightarrow> async_world \<Rightarrow> async_world option" where
  "cp_async_posted_resume os session_id w =
     do {
       found \<leftarrow> ngx_cp_async_find_ctx session_id w;
       (case found of
          None \<Rightarrow> Some w
        | Some a \<Rightarrow>
            let c = ctx_store w a;
                (rc, w1) = (if ac_queue c \<noteq> [] then next_body_filter os (ac_session_id c) (ac_queue c) w else (NGX_OK, w))
            in if ac_queue c \<noteq> [] \<and> rc = NGX_AGAIN
               then Some (upd_ctx a (\<lambda>c. c\<lparr>resume_event := add_timer (resume_event c)\<rparr>) w1)
               else
                 let w2 = queue_free a w1 in
                 if ac_released c \<and> ac_waiting c
                 then map_option (nginx_call (RunPhases (ac_session_id c)))
                        (ngx_cp_async_destroy_ctx a (upd_ctx a (\<lambda>c. c\<lparr>ac_waiting := False\<rparr>) w2))
                 else Some (nginx_call (PostRead (ac_session_id c)) w2))
     }"

definition cp_async_resume_event_handler :: "ngx_answers \<Rightarrow> nat \<Rightarrow> async_world \<Rightarrow> async_world option" where
  "cp_async_resume_event_handler os a w =
     (let c = ctx_store w a in
      if \<not> ev_data (resume_event c) \<or> \<not> ngx_cp_async_ctx_is_valid c then Some w
      else cp_async_posted_resume os (nsd_session_id (ac_session c)) w)"

text \<open>The request is held until a verdict comes; under HTTP/2 its reference count goes up once.\<close>

definition hold_request :: "ngx_http_cp_async_ctx \<Rightarrow> ngx_http_cp_async_ctx" where
  "hold_request c =
     (let c1 = (ngx_cp_async_start_deadline_timer c)\<lparr>ac_waiting := True\<rparr> in
      if \<not> request_ref_incremented c1 \<and> rq_http2 (ac_request c1)
      then c1\<lparr>ac_request := (ac_request c1)\<lparr>rq_main_count := Suc (rq_main_count (ac_request c1))\<rparr>,
              request_ref_incremented := True\<rparr>
      else c1)"

text \<open>The last part of the handler of request headers: a new context, entered and started.\<close>

definition start_async_inspection ::
    "ngx_answers \<Rightarrow> nat \<Rightarrow> nat \<Rightarrow> nat \<Rightarrow> ngx_request \<Rightarrow> bytes \<Rightarrow> ngx_http_cp_session_data \<Rightarrow> async_world
     \<Rightarrow> (ngx_int \<times> async_world) option" where
  "start_async_inspection os rounds depth a request waf_tag session_data w =
     (case ngx_cp_async_create_ctx os a request session_data w of
        (created, w1) \<Rightarrow>
          if \<not> created then Some (NGX_DECLINED, w1)
          else
            do {
              let w2 = ngx_cp_async_add_ctx a (upd_ctx a (\<lambda>c. c\<lparr>ac_waf_tag := waf_tag\<rparr>) w1);
              (final_res, w3) \<leftarrow> ngx_cp_async_start_agent_communication os rounds depth a w2;
              let w4 = upd_session a (\<lambda>d. d\<lparr>async_processing_needed := True\<rparr>) w3;
              Some (if final_res = NGX_AGAIN then (NGX_DONE, upd_ctx a hold_request w4) else (final_res, w4))
            })"

text \<open>
  A part of the request body: the chain is queued, then each buffer is sent, after the last one the
  end of the request. The first component of the result is set when the filter returns from the loop.
\<close>

definition forward_queue :: "ngx_answers \<Rightarrow> nat \<Rightarrow> bool \<Rightarrow> async_world \<Rightarrow> (ngx_int \<times> async_world) option" where
  "forward_queue os a finished w =
     (let c = ctx_store w a;
          (rc, w1) = (if ac_queue c = [] then (NGX_OK, w)
                      else
                        let (r, w') = next_body_filter os (ac_session_id c) (ac_queue c) w
                        in (r, queue_free a (if finished then upd_session a (\<lambda>d. d\<lparr>async_processing_needed := False\<rparr>) w' else w')))
      in map_option (Pair rc) (ngx_cp_async_destroy_ctx a w1))"

definition count_sent_chunks :: "nat \<Rightarrow> ngx_http_cp_async_ctx \<Rightarrow> ngx_http_cp_async_ctx" where
  "count_sent_chunks num c =
     c\<lparr>req_seq := req_seq c + num,
       ac_session := (ac_session c)\<lparr>remaining_messages := remaining_messages (ac_session c) + num\<rparr>\<rparr>"

fun body_filter_loop ::
    "ngx_answers \<Rightarrow> nat \<Rightarrow> nat \<Rightarrow> ngx_chain \<Rightarrow> async_world \<Rightarrow> (ngx_int option \<times> async_world) option" where
  "body_filter_loop os rounds a [] w = Some (None, w)"
| "body_filter_loop os rounds a (None # cl) w = body_filter_loop os rounds a cl w"
| "body_filter_loop os rounds a (Some b # cl) w =
     do {
       (res, num, w1) \<leftarrow> ngx_cp_async_send_single_body_chunk_nonblocking os rounds a b w;
       if res \<noteq> NGX_OK then map_option (\<lambda>(rc, w'). (Some rc, w')) (forward_queue os a True w1)
       else
         let w2 = upd_ctx a (count_sent_chunks num) w1 in
         if snd b then
           do {
             (res2, num2, w3) \<leftarrow> ngx_cp_async_send_end_transaction_nonblocking os rounds a w2;
             if res2 \<noteq> NGX_OK then map_option (\<lambda>(rc, w'). (Some rc, w')) (forward_queue os a False w3)
             else body_filter_loop os rounds a cl (upd_ctx a (\<lambda>c. count_sent_chunks num2 (c\<lparr>req_seen_last := True\<rparr>)) w3)
           }
         else body_filter_loop os rounds a cl w2
     }"

definition inspect_body_chunk :: "ngx_answers \<Rightarrow> nat \<Rightarrow> nat \<Rightarrow> ngx_chain \<Rightarrow> async_world \<Rightarrow> (ngx_int \<times> async_world) option" where
  "inspect_body_chunk os rounds a body w =
     (if \<not> xa_alloc os (x_steps w) 0 then
        map_option (Pair NGX_ERROR)
          (ngx_cp_async_destroy_ctx a (queue_free a (upd_session a (\<lambda>d. d\<lparr>async_processing_needed := False\<rparr>) (next_step w))))
      else
        do {
          (returned, w1) \<leftarrow> body_filter_loop os rounds a body (upd_ctx a (\<lambda>c. c\<lparr>ac_queue := ac_queue c @ body\<rparr>) (next_step w));
          (case returned of
             Some rc \<Rightarrow> Some (rc, w1)
           | None \<Rightarrow>
               if req_seen_last (ctx_store w1 a) then Some (NGX_DONE, upd_ctx a hold_request w1)
               else Some (next_body_filter os (ac_session_id (ctx_store w1 a)) [] w1))
        })"

definition ngx_http_cp_req_body_filter_async ::
    "ngx_answers \<Rightarrow> nat \<Rightarrow> ngx_http_cp_session_data \<Rightarrow> ngx_chain \<Rightarrow> async_world \<Rightarrow> (ngx_int \<times> async_world) option" where
  "ngx_http_cp_req_body_filter_async os rounds sd body w =
     (let pass = next_body_filter os (nsd_session_id sd) body in
      if \<not> initial_async_mode sd \<or> \<not> x_async_mode w then Some (pass w)
      else if \<not> ngx_isIpcReady w \<or> \<not> async_processing_needed sd then Some (pass w)
      else
        do {
          found \<leftarrow> ngx_cp_async_find_ctx (nsd_session_id sd) w;
          (case found of
             None \<Rightarrow> Some (pass w)
           | Some a \<Rightarrow>
               let c = ctx_store w a in
               if ac_verdict c \<noteq> TRAFFIC_VERDICT_INSPECT then
                 map_option (\<lambda>w1. if ac_verdict c = TRAFFIC_VERDICT_ACCEPT then pass w1 else (NGX_HTTP_FORBIDDEN, w1))
                   (ngx_cp_async_destroy_ctx a w)
               else if ngx_cp_async_ctx_get_flow_error_safe c then map_option pass (ngx_cp_async_destroy_ctx a w)
               else
                 let w1 = upd_ctx a (\<lambda>c. c\<lparr>body_phase_started := True\<rparr>) w in
                 if ac_released c \<and> ac_queue c \<noteq> [] then
                   (case next_body_filter os (ac_session_id c) (ac_queue c) w1 of
                      (rc, w2) \<Rightarrow> map_option (Pair rc) (ngx_cp_async_destroy_ctx a (queue_free a w2)))
                 else if req_seq c = 0 \<and> ac_queue c \<noteq> [] \<and> body = [] then
                   (case next_body_filter os (ac_session_id c) (ac_queue c) w1 of (rc, w2) \<Rightarrow> Some (rc, queue_free a w2))
                 else if body \<noteq> [] then inspect_body_chunk os rounds a body w1
                 else Some (pass w1))
        })"

section \<open>Initialisation and release of the system\<close>

definition ngx_cp_async_init :: "ngx_answers \<Rightarrow> int \<Rightarrow> async_world \<Rightarrow> async_world" where
  "ngx_cp_async_init os epoll_fd w =
     (if is_initialized w then w
      else
        let w1 = ngx_cp_async_reset_pending_chunks (w\<lparr>is_initialized := True, ctx_buckets := (\<lambda>_. None), context_count := 0\<rparr>);
            w2 = (if backpressure_event_initialized w1 then w1
                  else w1\<lparr>backpressure_posted := False, backpressure_event_initialized := True\<rparr>);
            w3 = (if cleanup_event_initialized w2 then w2
                  else w2\<lparr>async_cleanup_posted := False, cleanup_event_initialized := True\<rparr>);
            w4 = (if backpressure_epoll_fd w3 < 0
                  then w3\<lparr>backpressure_epoll_fd := epoll_fd, backpressure_registered_socket := -1\<rparr> else w3);
            w5 = w4\<lparr>ipc_verdict_conn := False\<rparr>
        in if x_comm_socket w5 \<ge> 0 then snd (ngx_cp_async_setup_verdict_event_handler os w5) else w5)"

text \<open>One context of the release: the verdict of the failure mode, and its event handler.\<close>

definition release_context ::
    "ngx_answers \<Rightarrow> nat \<Rightarrow> nat \<Rightarrow> nat \<Rightarrow> async_world \<Rightarrow> async_world option" where
  "release_context os rounds depth a w =
     (if ngx_cp_async_ctx_is_valid (ctx_store w a) then
        let to_body = (\<lambda>c. if ac_stage c = STAGE_WAIT_BODY_VERDICT then c\<lparr>ac_stage := STAGE_BODY\<rparr> else c);
            to_complete = (\<lambda>c. if ac_stage c \<noteq> STAGE_BODY then ASYNC_STAGE_TRANSITION STAGE_COMPLETE (c\<lparr>flow_error := True\<rparr>) else c);
            settle = (\<lambda>c. (settle_session (fail_verdict (fail_mode_open w)) c)
                            \<lparr>ac_request := (ac_request c)\<lparr>rq_keepalive := False\<rparr>, req_seq := 0\<rparr>)
        in map_option (upd_ctx a (\<lambda>c. c\<lparr>flow_error := True\<rparr>))
             (ngx_cp_async_event_handler os rounds depth a
               (upd_ctx a (\<lambda>c. to_complete (to_body (ngx_cp_async_cancel_timers (settle c)))) w))
      else ngx_cp_async_destroy_ctx a w)"

fun release_chain :: "ngx_answers \<Rightarrow> nat \<Rightarrow> nat \<Rightarrow> nat \<Rightarrow> nat option \<Rightarrow> async_world \<Rightarrow> async_world option" where
  "release_chain os rounds depth n None w = Some w"
| "release_chain os rounds depth 0 (Some a) w = None"
| "release_chain os rounds depth (Suc n) (Some a) w =
     do { w1 \<leftarrow> release_context os rounds depth a w; release_chain os rounds depth n (map_next (ctx_store w a)) w1 }"

fun release_buckets :: "ngx_answers \<Rightarrow> nat \<Rightarrow> nat \<Rightarrow> nat \<Rightarrow> nat list \<Rightarrow> async_world \<Rightarrow> async_world option" where
  "release_buckets os rounds depth n [] w = Some w"
| "release_buckets os rounds depth n (b # bs) w =
     do { w1 \<leftarrow> release_chain os rounds depth n (ctx_buckets w b) w; release_buckets os rounds depth n bs w1 }"

definition ngx_cp_async_cleanup_impl :: "ngx_answers \<Rightarrow> nat \<Rightarrow> nat \<Rightarrow> nat \<Rightarrow> async_world \<Rightarrow> async_world option" where
  "ngx_cp_async_cleanup_impl os rounds depth n w =
     do {
       w1 \<leftarrow> release_buckets os rounds depth n [0..<ngx_CP_ASYNC_CTX_BUCKETS] (w\<lparr>ipc_verdict_conn := False\<rparr>);
       let w2 = ngx_cp_async_reset_pending_chunks (w1\<lparr>context_count := 0\<rparr>);
       let w3 = (if backpressure_event_initialized w2
                 then w2\<lparr>backpressure_posted := False, backpressure_event_initialized := False\<rparr> else w2);
       let w4 = (if cleanup_event_initialized w3
                 then w3\<lparr>async_cleanup_posted := False, cleanup_event_initialized := False\<rparr> else w3);
       Some (if backpressure_epoll_fd w4 \<ge> 0
             then w4\<lparr>backpressure_epoll_fd := -1, backpressure_registered_socket := -1, is_initialized := False\<rparr>
             else w4\<lparr>is_initialized := False\<rparr>)
     }"

end
