(* ===== verification/Ngx_Async_Lemmas.thy ===== *)
theory Ngx_Async_Lemmas
  imports Ngx_Async
begin

text \<open>
  What the handlers of the asynchronous inspection do to the table of contexts, to the context itself
  and to the calls into nginx.
\<close>

section \<open>Frames\<close>

text \<open>Nothing happened to the table.\<close>

definition same_links :: "async_world \<Rightarrow> async_world \<Rightarrow> bool" where
  "same_links w w' =
     (ctx_buckets w' = ctx_buckets w
      \<and> (\<forall>b. ac_session_id (ctx_store w' b) = ac_session_id (ctx_store w b) \<and> map_next (ctx_store w' b) = map_next (ctx_store w b)))"

lemma same_links_refl [simp]: "same_links w w"
  by (simp add: same_links_def)

lemma same_links_trans: "same_links w1 w2 \<Longrightarrow> same_links w2 w3 \<Longrightarrow> same_links w1 w3"
  by (simp add: same_links_def)

lemma same_links_at:
  assumes "ctx_buckets w' = ctx_buckets w" "\<forall>b. b \<noteq> a \<longrightarrow> ctx_store w' b = ctx_store w b"
    and "ac_session_id (ctx_store w' a) = ac_session_id (ctx_store w a)" "map_next (ctx_store w' a) = map_next (ctx_store w a)"
  shows "same_links w w'"
  using assms by (metis same_links_def)

lemma table_rep_same_links:
  assumes "table_rep key w M" "same_links w w'"
  shows "table_rep key w' M"
proof -
  have "ctx_chain (ctx_store w') p as = ctx_chain (ctx_store w) p as" for p as
    using assms(2) by (intro ctx_chain_cong) (simp add: same_links_def)
  then show ?thesis using assms by (simp add: table_rep_def table_lists_def same_links_def)
qed

text \<open>Nothing else happened either than to counters, metrics and the bookkeeping of a session.\<close>

definition quiet :: "nat \<Rightarrow> async_world \<Rightarrow> async_world \<Rightarrow> bool" where
  "quiet a w w' =
     (same_links w w' \<and> x_calls w' = x_calls w \<and> fail_mode_open w' = fail_mode_open w
      \<and> fail_mode_hold_open w' = fail_mode_hold_open w
      \<and> (let c = ctx_store w a; c' = ctx_store w' a in
         ac_verdict c' = ac_verdict c \<and> ac_waiting c' = ac_waiting c \<and> ac_stage c' = ac_stage c
         \<and> flow_error c' = flow_error c \<and> ac_modifications c' = ac_modifications c
         \<and> ev_data (agent_event c') = ev_data (agent_event c)))"

lemma quiet_refl [simp]: "quiet a w w"
  by (simp add: quiet_def)

lemma quiet_trans: "quiet a w1 w2 \<Longrightarrow> quiet a w2 w3 \<Longrightarrow> quiet a w1 w3"
  using same_links_trans by (auto simp: quiet_def Let_def)

lemmas quiet_simps = quiet_def same_links_def Let_def ac_verdict_def

lemma quiet_steps:
  "quiet a w (upd_ctx a ngx_cp_async_cancel_deadline_timer w)"
  "quiet a w (calcProcessingTime os a w)"
  "quiet a w (report_success os a w)"
  "quiet a w (mark_fully_inspected a w)"
  "quiet a w (upd_ctx a (\<lambda>c. c\<lparr>agent_event := del_timer (agent_event c)\<rparr>) w)"
  "quiet a w (count_metric t v w)"
  by (simp_all add: quiet_simps ngx_cp_async_cancel_deadline_timer_def calcProcessingTime_def report_success_def
      mark_fully_inspected_def del_timer_def upd_ctx_def upd_session_def next_step_def count_metric_def)

section \<open>The complete stage\<close>

text \<open>The modifications, if there are any, can be applied to the headers.\<close>

definition modifications_fit :: "ngx_answers \<Rightarrow> nat \<Rightarrow> ngx_http_cp_async_ctx \<Rightarrow> bool" where
  "modifications_fit os k c =
     (ac_modifications c = []
      \<or> (\<exists>hs. ngx_http_cp_header_modifier (xa_lists os k) False (ac_modifications c) (rq_headers (ac_request c)) = Some (NGX_OK, hs)))"

definition same_timers :: "nat \<Rightarrow> async_world \<Rightarrow> async_world \<Rightarrow> bool" where
  "same_timers a w w' =
     (agent_event (ctx_store w' a) = agent_event (ctx_store w a) \<and> deadline_event (ctx_store w' a) = deadline_event (ctx_store w a)
      \<and> cleanup_event (ctx_store w' a) = cleanup_event (ctx_store w a))"

lemma finalize_hook_fits:
  assumes "modifications_fit os (x_steps w) (ctx_store w a)"
  obtains w' where "ngx_http_cp_finalize_request_headers_hook os a NGX_OK w = Some (NGX_OK, w')" "quiet a w w'" "same_timers a w w'"
proof -
  have "\<exists>f k. ngx_http_cp_finalize_request_headers_hook os a NGX_OK w
      = Some (NGX_OK, mark_fully_inspected a (report_success os a (upd_ctx a (\<lambda>c. c\<lparr>ac_request := f c\<rparr>) (w\<lparr>x_steps := k\<rparr>))))"
  proof (cases "ac_modifications (ctx_store w a) = []")
    case True
    then have "ngx_http_cp_finalize_request_headers_hook os a NGX_OK w
        = Some (NGX_OK, mark_fully_inspected a (report_success os a (upd_ctx a (\<lambda>c. c\<lparr>ac_request := ac_request c\<rparr>) (w\<lparr>x_steps := x_steps w\<rparr>))))"
      by (simp add: ngx_http_cp_finalize_request_headers_hook_def upd_ctx_def)
    then show ?thesis by blast
  next
    case False
    with assms obtain hs where hs: "ngx_http_cp_header_modifier (xa_lists os (x_steps w)) False (ac_modifications (ctx_store w a))
        (rq_headers (ac_request (ctx_store w a))) = Some (NGX_OK, hs)"
      by (auto simp: modifications_fit_def)
    let ?f = "\<lambda>c. (ac_request c)\<lparr>rq_headers := hs_headers hs,
                rq_length_cleared := rq_length_cleared (ac_request c) \<or> hs_length_cleared hs\<rparr>"
    have "ngx_http_cp_finalize_request_headers_hook os a NGX_OK w
        = Some (NGX_OK, mark_fully_inspected a (report_success os a (upd_ctx a (\<lambda>c. c\<lparr>ac_request := ?f c\<rparr>) (w\<lparr>x_steps := Suc (x_steps w)\<rparr>))))"
      using False hs by (simp add: ngx_http_cp_finalize_request_headers_hook_def Let_def next_step_def upd_ctx_def)
    then show ?thesis by (intro exI [of _ ?f] exI)
  qed
  then obtain f k where hook: "ngx_http_cp_finalize_request_headers_hook os a NGX_OK w
      = Some (NGX_OK, mark_fully_inspected a (report_success os a (upd_ctx a (\<lambda>c. c\<lparr>ac_request := f c\<rparr>) (w\<lparr>x_steps := k\<rparr>))))" by blast
  have "quiet a w (upd_ctx a (\<lambda>c. c\<lparr>ac_request := f c\<rparr>) (w\<lparr>x_steps := k\<rparr>))" by (simp add: quiet_simps)
  note quiet_trans [OF this quiet_trans [OF quiet_steps(3) quiet_steps(4)]]
  with hook show ?thesis
    by (rule that) (simp add: same_timers_def mark_fully_inspected_def report_success_def next_step_def)
qed

lemma complete_stage_result:
  assumes "modifications_fit os (Suc (x_steps w)) (ctx_store w a)"
  obtains w' where "process_complete_stage os a w = Some (complete_result (fail_mode_open w) (ac_verdict (ctx_store w a)), w')"
    "quiet a w w'" "\<not> timer_set (agent_event (ctx_store w' a))" "\<not> timer_set (deadline_event (ctx_store w' a))"
    "timer_set (cleanup_event (ctx_store w' a)) = timer_set (cleanup_event (ctx_store w a))"
proof -
  define w1 where "w1 = calcProcessingTime os a (upd_ctx a ngx_cp_async_cancel_deadline_timer w)"
  have q1: "quiet a w w1" unfolding w1_def by (rule quiet_trans [OF quiet_steps(1) quiet_steps(2)])
  have "modifications_fit os (x_steps w1) (ctx_store w1 a)"
    using assms by (simp add: modifications_fit_def w1_def calcProcessingTime_def ngx_cp_async_cancel_deadline_timer_def next_step_def)
  from finalize_hook_fits [OF this] obtain w2 where
    w2: "ngx_http_cp_finalize_request_headers_hook os a NGX_OK w1 = Some (NGX_OK, w2)" "quiet a w1 w2" "same_timers a w1 w2" .
  define w3 where "w3 = upd_ctx a (\<lambda>c. c\<lparr>agent_event := del_timer (agent_event c)\<rparr>) w2"
  have q3: "quiet a w w3" unfolding w3_def by (rule quiet_trans [OF q1 quiet_trans [OF w2(2) quiet_steps(5)]])
  have "process_complete_stage os a w = Some (complete_result (fail_mode_open w3) (ac_verdict (ctx_store w3 a)), w3)"
    using w2(1) by (simp add: process_complete_stage_def w1_def [symmetric] w3_def Let_def)
  moreover have "fail_mode_open w3 = fail_mode_open w" "ac_verdict (ctx_store w3 a) = ac_verdict (ctx_store w a)"
    using q3 by (simp_all add: quiet_def Let_def)
  moreover have "\<not> timer_set (agent_event (ctx_store w3 a))" "\<not> timer_set (deadline_event (ctx_store w3 a))"
    "timer_set (cleanup_event (ctx_store w3 a)) = timer_set (cleanup_event (ctx_store w a))"
    using w2(3) by (simp_all add: same_timers_def w3_def w1_def del_timer_def calcProcessingTime_def
        ngx_cp_async_cancel_deadline_timer_def next_step_def)
  ultimately show ?thesis using that q3 by simp
qed

section \<open>The event handler in the complete stage\<close>

text \<open>Allowed requests are resumed when they are held, blocked ones rejected; the context leaves the table.\<close>

lemma unlink_keeps [simp]:
  "x_calls (unlink_ctx a place w) = x_calls w" "fail_mode_open (unlink_ctx a place w) = fail_mode_open w"
  "x_ipc (unlink_ctx a place w) = x_ipc w"
  "ac_session (ctx_store (unlink_ctx a place w) b) = ac_session (ctx_store w b)"
  by (cases place; cases "the place"; simp add: unlink_ctx_def Let_def)+

lemma remove_keeps:
  assumes "ngx_cp_async_remove_ctx a w = Some w'"
  shows "x_calls w' = x_calls w" "fail_mode_open w' = fail_mode_open w" "x_ipc w' = x_ipc w"
    "ac_session (ctx_store w' b) = ac_session (ctx_store w b)"
  using assms by (auto simp: ngx_cp_async_remove_ctx_def)

lemma destroy_keeps:
  assumes "ngx_cp_async_destroy_ctx a w = Some w'"
  shows "x_calls w' = x_calls w" "fail_mode_open w' = fail_mode_open w" "x_ipc w' = x_ipc w"
    "ac_session (ctx_store w' b) = ac_session (ctx_store w b)"
  using remove_keeps [OF assms [unfolded ngx_cp_async_destroy_ctx_def]]
  by (simp_all add: ngx_cp_async_cancel_timers_def ngx_cp_async_cancel_deadline_timer_def ngx_cp_async_nullify_ctx_refs_def)

lemma destroy_frame:
  assumes "table_rep key w M" "M (key a) = Some a"
  obtains w' where "ngx_cp_async_destroy_ctx a w = Some w'" "table_rep key w' (M(key a := None))" "x_calls w' = x_calls w"
proof -
  from table_rep_destroy [OF assms] obtain w' where
    w': "ngx_cp_async_destroy_ctx a w = Some w'" "table_rep key w' (M(key a := None))" by blast
  with destroy_keeps(1) [OF w'(1)] that show ?thesis by blast
qed

lemma event_handler_complete:
  assumes rep: "table_rep key w M" "M (key a) = Some a"
    and c: "ac_stage (ctx_store w a) = STAGE_COMPLETE" "\<not> flow_error (ctx_store w a)" "ev_data (agent_event (ctx_store w a))"
      "key a \<noteq> 0" "modifications_fit os (Suc (x_steps w)) (ctx_store w a)"
    and v: "ac_verdict (ctx_store w a) \<in> {TRAFFIC_VERDICT_ACCEPT, TRAFFIC_VERDICT_DROP, TRAFFIC_VERDICT_CUSTOM_RESPONSE,
             TRAFFIC_VERDICT_INSPECT, TRAFFIC_VERDICT_IRRELEVANT}"
  obtains w' where "ngx_cp_async_event_handler os rounds (Suc n) a w = Some w'"
    "table_rep key w' (M(key a := None))"
    "x_calls w' = x_calls w @ (if is_verdict_drop_or_custom (ac_verdict (ctx_store w a)) then [FinalizeRejected (key a)]
                               else if ac_waiting (ctx_store w a) then [RunPhases (key a)] else [])"
proof -
  have id: "ac_session_id (ctx_store w b) = key b" for b using rep(1) by (auto simp: table_rep_def table_lists_def)
  then have valid: "ngx_cp_async_ctx_is_valid (ctx_store w a)" using c(4) by (simp add: ngx_cp_async_ctx_is_valid_def)
  let ?v = "ac_verdict (ctx_store w a)" and ?rc = "complete_result (fail_mode_open w) (ac_verdict (ctx_store w a))"
  from complete_stage_result [OF c(5)] obtain w1 where w1: "process_complete_stage os a w = Some (?rc, w1)" "quiet a w w1" by blast
  then have same: "ac_verdict (ctx_store w1 a) = ?v" "ac_waiting (ctx_store w1 a) = ac_waiting (ctx_store w a)"
    "x_calls w1 = x_calls w" "ac_session_id (ctx_store w1 a) = key a"
    using id by (auto simp: quiet_def same_links_def Let_def)
  have rep1: "table_rep key w1 M" using rep(1) w1(2) by (auto simp: quiet_def intro: table_rep_same_links)
  have run: "ngx_cp_async_event_handler os rounds (Suc n) a w = after_processing STAGE_COMPLETE a ?rc w1"
    using c valid w1(1) by (simp add: ngx_cp_async_event_handler.simps ngx_cp_async_continue_processing_def)
  show ?thesis
  proof (cases "is_verdict_drop_or_custom ?v")
    case True
    let ?w2 = "upd_ctx a (\<lambda>c. c\<lparr>ac_request := (ac_request c)\<lparr>rq_keepalive := False\<rparr>\<rparr>) w1"
    have "table_rep key ?w2 M" by (rule table_rep_upd [OF rep1]) simp_all
    from destroy_frame [OF this rep(2)] obtain w3 where
      w3: "ngx_cp_async_destroy_ctx a ?w2 = Some w3" "table_rep key w3 (M(key a := None))" "x_calls w3 = x_calls ?w2" .
    have "?rc \<noteq> NGX_AGAIN" using True by (auto simp: complete_result_def is_verdict_drop_or_custom_def)
    then have "ngx_cp_async_event_handler os rounds (Suc n) a w = Some (nginx_call (FinalizeRejected (key a)) w3)"
      using run True same w3(1) by (simp add: after_processing_def Let_def)
    moreover have "table_rep key (nginx_call (FinalizeRejected (key a)) w3) (M(key a := None))"
      by (rule table_rep_same_links [OF w3(2)]) (simp add: same_links_def nginx_call_def)
    ultimately show ?thesis using that True w3(3) same(3) by simp
  next
    case False
    let ?w2 = "upd_ctx a ngx_cp_async_cancel_deadline_timer w1"
    have "table_rep key ?w2 M" by (rule table_rep_upd [OF rep1]) (simp_all add: ngx_cp_async_cancel_deadline_timer_def)
    from destroy_frame [OF this rep(2)] obtain w3 where
      w3: "ngx_cp_async_destroy_ctx a ?w2 = Some w3" "table_rep key w3 (M(key a := None))" "x_calls w3 = x_calls ?w2" .
    have rc: "?rc = NGX_DECLINED" using v False by (auto simp: complete_result_def is_verdict_drop_or_custom_def)
    let ?w4 = "if ac_waiting (ctx_store w a) then nginx_call (RunPhases (key a)) w3 else w3"
    have "ngx_cp_async_event_handler os rounds (Suc n) a w = Some ?w4"
      using run False same w3(1) rc by (simp add: after_processing_def Let_def)
    moreover have "table_rep key ?w4 (M(key a := None))"
      by (rule table_rep_same_links [OF w3(2)]) (simp add: same_links_def nginx_call_def)
    ultimately show ?thesis using that False w3(3) same(3) by simp
  qed
qed

section \<open>Verdicts that complete a stage\<close>

lemma completing_verdict:
  assumes "ngx_cp_async_ctx_is_valid (ctx_store w a)"
    and "is_verdict_drop_or_custom (ac_verdict (ctx_store w a))
           \<and> ac_stage (ctx_store w a) \<in> {STAGE_META_DATA, STAGE_HEADERS, STAGE_END_TRANSACTION, STAGE_BODY}
         \<or> ac_verdict (ctx_store w a) \<in> {TRAFFIC_VERDICT_INSPECT, TRAFFIC_VERDICT_ACCEPT, TRAFFIC_VERDICT_IRRELEVANT}
           \<and> ac_stage (ctx_store w a) = STAGE_END_TRANSACTION"
  obtains w' where "ngx_cp_async_apply_verdict_for_stage a w = (NGX_OK, w')" "ac_stage (ctx_store w' a) = STAGE_COMPLETE"
    "ac_verdict (ctx_store w' a) = ac_verdict (ctx_store w a)" "flow_error (ctx_store w' a) = flow_error (ctx_store w a)"
    "ac_waiting (ctx_store w' a) = ac_waiting (ctx_store w a)"
    "ev_data (agent_event (ctx_store w' a)) = ev_data (agent_event (ctx_store w a))"
    "ac_modifications (ctx_store w' a) = ac_modifications (ctx_store w a)" "x_calls w' = x_calls w" "same_links w w'"
proof (cases "is_verdict_drop_or_custom (ac_verdict (ctx_store w a))")
  case True
  let ?w = "upd_ctx a (ASYNC_STAGE_TRANSITION STAGE_COMPLETE) w"
  have "ngx_cp_async_apply_verdict_for_stage a w = (NGX_OK, ?w)"
    using True assms by (auto simp: ngx_cp_async_apply_verdict_for_stage_def Let_def is_verdict_drop_or_custom_def)
  then show ?thesis
    by (rule that) (simp_all add: ASYNC_STAGE_TRANSITION_def ac_verdict_def del_timer_def same_links_def)
next
  case False
  let ?w = "upd_session a (\<lambda>d. d\<lparr>async_processing_needed := False\<rparr>)
      (upd_ctx a (\<lambda>c. c\<lparr>header_declined := True\<rparr>) (upd_ctx a (ASYNC_STAGE_TRANSITION STAGE_COMPLETE) w))"
  have "ngx_cp_async_apply_verdict_for_stage a w = (NGX_OK, ?w)"
    using False assms by (auto simp: ngx_cp_async_apply_verdict_for_stage_def Let_def)
  then show ?thesis
    by (rule that) (simp_all add: ASYNC_STAGE_TRANSITION_def ac_verdict_def del_timer_def same_links_def)
qed

text \<open>A reply without page and modifications.\<close>

definition replied :: "HttpReplyFromService \<Rightarrow> nat \<Rightarrow> async_world \<Rightarrow> async_world" where
  "replied reply a w = upd_ctx a count_reply (next_step (upd_ctx a (take_verdict reply) w))"

lemma apply_plain_verdict:
  assumes "ac_session_id (ctx_store w a) \<noteq> 0" "reply = read_reply p addr" "v = service_verdict (reply_verdict reply)"
    and "v \<noteq> LIMIT_RESPONSE_HEADERS" "v \<noteq> TRAFFIC_VERDICT_INJECT" "\<not> is_verdict_drop_or_custom v"
    and "remaining_messages (ac_session (ctx_store w a)) \<le> 1"
  shows "ngx_cp_async_apply_verdict os rounds depth a p addr w =
           (case ngx_cp_async_apply_verdict_for_stage a (replied reply a w) of
              (rc, w') \<Rightarrow> if rc = NGX_OK then map_option (Pair NGX_OK) (ngx_cp_async_event_handler os rounds depth a w')
                           else Some (NGX_OK, w'))"
proof -
  have "remaining_messages (ac_session (ctx_store (replied reply a w) a)) = 0"
    using assms(7) by (simp add: replied_def take_verdict_def count_reply_def set_ctx_verdict_def Let_def
        ngx_cp_async_start_deadline_timer_def ngx_cp_async_cancel_deadline_timer_def)
  then show ?thesis
    using assms(1-6) by (simp add: ngx_cp_async_apply_verdict_def take_page_def take_injections_def replied_def Let_def
        ngx_cp_async_ctx_is_valid_def)
qed

lemma replied_fields:
  "ac_session_id (ctx_store (replied reply a w) a) = ac_session_id (ctx_store w a)"
  "ac_stage (ctx_store (replied reply a w) a) = ac_stage (ctx_store w a)"
  "flow_error (ctx_store (replied reply a w) a) = flow_error (ctx_store w a)"
  "ac_verdict (ctx_store (replied reply a w) a) = service_verdict (reply_verdict reply)"
  "remaining_messages (ac_session (ctx_store (replied reply a w) a)) = remaining_messages (ac_session (ctx_store w a)) - 1"
  "x_calls (replied reply a w) = x_calls w" "x_ipc (replied reply a w) = x_ipc w"
  by (simp_all add: replied_def take_verdict_def count_reply_def set_ctx_verdict_def Let_def ac_verdict_def next_step_def
      ngx_cp_async_start_deadline_timer_def ngx_cp_async_cancel_deadline_timer_def)

section \<open>The last reply\<close>

lemma final_reply:
  assumes rep: "table_rep key w M" "M (key a) = Some a" "key a \<noteq> 0"
    and c: "ev_data (agent_event (ctx_store w a))" "\<not> flow_error (ctx_store w a)" "ac_modifications (ctx_store w a) = []"
    and reply: "reply = read_reply p addr" "v = service_verdict (reply_verdict reply)"
    and stage: "is_verdict_drop_or_custom v
                  \<and> ac_stage (ctx_store w a) \<in> {STAGE_META_DATA, STAGE_HEADERS, STAGE_END_TRANSACTION, STAGE_BODY}
                \<or> v \<in> {TRAFFIC_VERDICT_INSPECT, TRAFFIC_VERDICT_ACCEPT, TRAFFIC_VERDICT_IRRELEVANT}
                  \<and> ac_stage (ctx_store w a) = STAGE_END_TRANSACTION"
    and last: "remaining_messages (ac_session (ctx_store w a)) \<le> 1
                \<or> is_verdict_drop_or_custom v \<and> (modification_count reply > 0 \<or> ac_stage (ctx_store w a) = STAGE_BODY)"
  shows "\<exists>w'. ngx_cp_async_apply_verdict os rounds (Suc n) a p addr w = Some (NGX_OK, w')
           \<and> ngx_cp_async_find_ctx (key a) w' = Some None
           \<and> x_calls w' = x_calls w
               @ (if is_verdict_drop_or_custom v \<and> modification_count reply > 0
                  then [(if v = TRAFFIC_VERDICT_DROP then CustomWebResponse else CustomResponse) (key a) (modify_data reply)] else [])
               @ (if is_verdict_drop_or_custom v then [FinalizeRejected (key a)]
                  else if ac_waiting (ctx_store w a) then [RunPhases (key a)] else [])"
proof -
  let ?c = "ctx_store w a" and ?blocked = "is_verdict_drop_or_custom v"
  have id: "ac_session_id ?c = key a" using rep(1) by (auto simp: table_rep_def table_lists_def)
  have plain: "v \<noteq> LIMIT_RESPONSE_HEADERS" "v \<noteq> TRAFFIC_VERDICT_INJECT" "v \<noteq> TRAFFIC_VERDICT_DELAYED"
    using stage by (auto simp: is_verdict_drop_or_custom_def)
  define w4 where "w4 = upd_ctx a count_reply (next_step (take_page reply a (upd_ctx a (take_verdict reply) w)))"
  have c4: "ac_verdict (ctx_store w4 a) = v" "ac_stage (ctx_store w4 a) = ac_stage ?c" "flow_error (ctx_store w4 a) = flow_error ?c"
    "ac_waiting (ctx_store w4 a) = ac_waiting ?c" "agent_event (ctx_store w4 a) = agent_event ?c"
    "ac_modifications (ctx_store w4 a) = []" "ac_session_id (ctx_store w4 a) = key a" "map_next (ctx_store w4 a) = map_next ?c"
    using id c(3) plain reply
    by (simp_all add: w4_def take_page_def take_verdict_def count_reply_def set_ctx_verdict_def ac_verdict_def Let_def
        ngx_cp_async_free_modification_list_def)
  have w4: "x_calls w4 = x_calls w @ (if ?blocked \<and> modification_count reply > 0
                  then [(if v = TRAFFIC_VERDICT_DROP then CustomWebResponse else CustomResponse) (key a) (modify_data reply)] else [])"
    "ctx_buckets w4 = ctx_buckets w" "\<forall>b. b \<noteq> a \<longrightarrow> ctx_store w4 b = ctx_store w b"
    using id reply plain
    by (auto simp: w4_def take_page_def take_verdict_def set_ctx_verdict_def Let_def next_step_def nginx_call_def)
  have due: "remaining_messages (ac_session (ctx_store w4 a)) = 0
      \<or> was_request_fully_inspected (ac_session (ctx_store w4 a)) \<and> ac_stage (ctx_store w4 a) = STAGE_BODY"
    using last reply plain unfolding c4(2)
    by (auto simp: w4_def take_page_def take_verdict_def count_reply_def set_ctx_verdict_def Let_def is_verdict_final_def
        is_verdict_drop_or_custom_def ngx_cp_async_free_modification_list_def)
  have links4: "same_links w w4" by (rule same_links_at [OF w4(2,3)]) (use c4(7,8) id in simp_all)
  from completing_verdict [of w4 a] stage rep(3) c4 obtain w5 where
    moved: "ngx_cp_async_apply_verdict_for_stage a w4 = (NGX_OK, w5)" and
    c5: "ac_stage (ctx_store w5 a) = STAGE_COMPLETE" "ac_verdict (ctx_store w5 a) = v" "flow_error (ctx_store w5 a) = flow_error ?c"
      "ac_waiting (ctx_store w5 a) = ac_waiting ?c" "ev_data (agent_event (ctx_store w5 a)) = ev_data (agent_event ?c)"
      "ac_modifications (ctx_store w5 a) = []" "x_calls w5 = x_calls w4" and links: "same_links w4 w5"
    by (auto simp: ngx_cp_async_ctx_is_valid_def)
  obtain w' where w': "ngx_cp_async_event_handler os rounds (Suc n) a w5 = Some w'" "table_rep key w' (M(key a := None))"
    "x_calls w' = x_calls w5 @ (if ?blocked then [FinalizeRejected (key a)]
                                 else if ac_waiting ?c then [RunPhases (key a)] else [])"
  proof (rule event_handler_complete [OF table_rep_same_links [OF rep(1) same_links_trans [OF links4 links]] rep(2), of os rounds n])
  qed (use c5 c rep(3) stage in \<open>auto simp: is_verdict_drop_or_custom_def modifications_fit_def\<close>)
  have "ngx_cp_async_apply_verdict os rounds (Suc n) a p addr w = Some (NGX_OK, w')"
    using due moved w'(1) plain reply id rep(3)
    by (simp add: ngx_cp_async_apply_verdict_def Let_def w4_def take_injections_def ngx_cp_async_ctx_is_valid_def)
  moreover have "ngx_cp_async_find_ctx (key a) w' = Some None" using table_rep_find [OF w'(2)] by simp
  ultimately show ?thesis using w'(3) c5(7) w4(1) by simp
qed

section \<open>Senders\<close>

text \<open>The senders do not touch the contexts, whether they succeed or end the connection.\<close>

definition same_contexts :: "async_world \<Rightarrow> async_world \<Rightarrow> bool" where
  "same_contexts w w' =
     (ctx_store w' = ctx_store w \<and> ctx_buckets w' = ctx_buckets w \<and> x_calls w' = x_calls w \<and> fail_mode_open w' = fail_mode_open w)"

lemma same_contexts_trans: "same_contexts w1 w2 \<Longrightarrow> same_contexts w2 w3 \<Longrightarrow> same_contexts w1 w3"
  by (simp add: same_contexts_def)

lemma same_contexts_steps [simp]:
  "same_contexts v (next_step w) = same_contexts v w" "same_contexts v (ngx_disconnect_communication w) = same_contexts v w"
  "same_contexts v (ngx_cp_async_increment_pending_chunks w) = same_contexts v w"
  "same_contexts v (ngx_cp_async_post_backpressure_drain_event w) = same_contexts v w"
  "same_contexts v (w\<lparr>x_sent := sent\<rparr>) = same_contexts v w" "same_contexts v (w\<lparr>x_process := P, x_ipc := ipc\<rparr>) = same_contexts v w"
  by (simp_all add: same_contexts_def next_step_def ngx_disconnect_communication_def disable_ipc_verdict_event_handler_def
      ngx_cp_async_cleanup_def ngx_cp_async_reset_pending_chunks_def ngx_cp_async_increment_pending_chunks_def
      ngx_cp_async_post_backpressure_drain_event_def Let_def)

lemma signal_same_contexts:
  "ngx_http_cp_signal_to_service_with_timeout os rounds data w = Some (res, w') \<Longrightarrow> same_contexts v w \<Longrightarrow> same_contexts v w'"
proof (induction os rounds data w rule: ngx_http_cp_signal_to_service_with_timeout.induct)
  case (1 os rounds data w)
  show ?case
  proof (cases "data = [] \<or> rounds = 0")
    case True
    with "1.prems" show ?thesis
      by (auto simp: ngx_http_cp_signal_to_service_with_timeout.simps [of os rounds] split: if_splits)
  next
    case False
    then obtain n where n: "rounds = Suc n" "data \<noteq> []" by (cases rounds) auto
    note IH = "1.IH" [OF n(2) n(1) refl refl]
    from "1.prems" IH(1) IH(2) [OF _ _ _ refl refl] n(2) show ?thesis unfolding n(1)
      by (simp add: ngx_http_cp_signal_to_service_with_timeout.simps [of os "Suc n"] Let_def split: if_split_asm) auto
  qed
qed

lemma push_chunk_same_contexts: "push_chunk os fragments w = (res, w') \<Longrightarrow> same_contexts w w'"
proof -
  obtain r P ipc where "sendChunkedData_2 (xa_files os) (x_process w) (x_ipc w) fragments = (r, P, ipc)" by (metis prod_cases3)
  moreover assume "push_chunk os fragments w = (res, w')"
  ultimately have "w' = ngx_disconnect_communication (w\<lparr>x_process := P, x_ipc := ipc\<rparr>)
      \<or> w' = ngx_cp_async_increment_pending_chunks (w\<lparr>x_process := P, x_ipc := ipc\<rparr>)"
    by (auto simp: push_chunk_def ngx_push_fragments_def split: if_split_asm)
  moreover have "same_contexts w w" by (simp add: same_contexts_def)
  ultimately show ?thesis by auto
qed

lemma push_and_signal_same_contexts:
  assumes "push_and_signal os rounds session_id fragments w = Some (res, num, w')"
  shows "same_contexts w w'"
proof -
  obtain r w1 where w1: "push_chunk os fragments w = (r, w1)" by fastforce
  note same1 = push_chunk_same_contexts [OF w1]
  show ?thesis
  proof (cases "r = NGX_OK")
    case True
    with assms w1 obtain s w2 where w2: "ngx_http_cp_signal_to_service_with_timeout os rounds (le32 session_id) w1 = Some (s, w2)"
      "w' = w2 \<or> w' = ngx_cp_async_post_backpressure_drain_event w2"
      by (auto simp: push_and_signal_def signal_chunk_def bind_eq_Some_conv split: if_splits)
    from signal_same_contexts [OF w2(1) same1] w2(2) show ?thesis by auto
  qed (use assms w1 same1 in \<open>simp add: push_and_signal_def\<close>)
qed

text \<open>The messages on their way to the service, and the room for one more.\<close>

definition x_to_service :: "async_world \<Rightarrow> bytes list \<Rightarrow> bool" where
  "x_to_service w ms =
     (case Option.bind (x_ipc w) (\<lambda>i. map_option (\<lambda>q. (x_process w, global_data i, q)) (tx_queue_2 i)) of
        None \<Rightarrow> False | Some s \<Rightarrow> holds_2 s ms)"

definition x_room :: "async_world \<Rightarrow> bytes \<Rightarrow> bool" where
  "x_room w m =
     (case Option.bind (x_ipc w) (\<lambda>i. map_option (\<lambda>q. (x_process w, global_data i, q)) (tx_queue_2 i)) of
        None \<Rightarrow> False | Some s \<Rightarrow> room_2 s m)"

lemma push_chunk_appends:
  assumes "x_to_service w ms" "valid_msg (concat frags)" "x_room w (concat frags)"
  obtains w' where "push_chunk os frags w = (NGX_OK, w')" "x_to_service w' (ms @ [concat frags])" "x_steps w' = x_steps w"
proof -
  obtain i q where i: "x_ipc w = Some i" "tx_queue_2 i = Some q"
    and holds: "holds_2 (x_process w, global_data i, q) ms" "room_2 (x_process w, global_data i, q) (concat frags)"
    using assms(1,3) by (auto simp: x_to_service_def x_room_def split: option.splits bind_splits)
  from push_2_appends [OF holds(1) assms(2) holds(2), of "xa_files os"] obtain P gd q' where
    push: "push_2 (xa_files os) (x_process w, global_data i, q) frags = (0, P, gd, q')" "holds_2 (P, gd, q') (ms @ [concat frags])"
    by auto
  then have send: "sendChunkedData_2 (xa_files os) (x_process w) (Some i) frags = (0, P, Some (i\<lparr>tx_queue_2 := Some q'\<rparr>))"
    and gd: "gd = global_data i"
    using i(2) by (auto simp: sendChunkedData_2_def push_2_def split: prod.splits)
  let ?w = "ngx_cp_async_increment_pending_chunks (w\<lparr>x_process := P, x_ipc := Some (i\<lparr>tx_queue_2 := Some q'\<rparr>)\<rparr>)"
  have "push_chunk os frags w = (NGX_OK, ?w)" using send by (simp add: push_chunk_def ngx_push_fragments_def i(1))
  then show ?thesis
    by (rule that) (use push(2) gd in \<open>simp_all add: x_to_service_def ngx_cp_async_increment_pending_chunks_def Let_def\<close>)
qed

definition end_message :: "u32 \<Rightarrow> bytes" where
  "end_message session_id = le16 (data_type_code REQUEST_END) @ le32 session_id"

lemma end_fragments:
  "concat (set_fragments_identifiers [[], []] (data_type_code REQUEST_END) session_id) = end_message session_id"
  by (simp add: set_fragments_identifiers_def set_fragment_elem_def end_message_def le16_def le32_def)

lemma send_end_appends:
  assumes "x_to_service w ms" "x_room w (end_message (ac_session_id (ctx_store w a)))" "xa_write os (x_steps w) \<ge> 4"
  obtains w' where
    "ngx_cp_async_send_end_transaction_nonblocking os (Suc r) a w = Some (NGX_OK, 1, upd_ctx a (\<lambda>c. c\<lparr>end_transaction_sent := True\<rparr>) w')"
    "same_contexts w w'" "x_to_service w' (ms @ [end_message (ac_session_id (ctx_store w a))])"
proof -
  let ?sid = "ac_session_id (ctx_store w a)"
  let ?frags = "set_fragments_identifiers [[], []] (data_type_code REQUEST_END) ?sid"
  have "valid_msg (end_message ?sid)" by (simp add: valid_msg_def end_message_def le16_def le32_def max_write_size_def)
  with assms(1,2) obtain w1 where
    w1: "push_chunk os ?frags w = (NGX_OK, w1)" "x_to_service w1 (ms @ [end_message ?sid])" "x_steps w1 = x_steps w"
    by (metis push_chunk_appends end_fragments)
  let ?w2 = "(next_step w1)\<lparr>x_sent := x_sent (next_step w1) @ [(x_comm_socket (next_step w1), take (nat (xa_write os (x_steps w1))) (le32 ?sid))]\<rparr>"
  have "length (le32 ?sid) = 4" by (simp add: le32_def le16_def)
  then have "drop (nat (xa_write os (x_steps w1))) (le32 ?sid) = []" "le32 ?sid \<noteq> []"
    using assms(3) w1(3) by (auto simp: le32_def le16_def)
  then have "ngx_http_cp_signal_to_service_with_timeout os (Suc r) (le32 ?sid) w1 = Some (NGX_OK, ?w2)"
    using assms(3) w1(3)
    by (simp add: ngx_http_cp_signal_to_service_with_timeout.simps [of os "Suc r"]
        ngx_http_cp_signal_to_service_with_timeout.simps [of os r "[]"] Let_def)
  then have sent: "push_and_signal os (Suc r) ?sid ?frags w = Some (NGX_OK, 1, ?w2)"
    using w1(1) by (simp add: push_and_signal_def signal_chunk_def)
  show ?thesis
  proof (rule that)
    show "ngx_cp_async_send_end_transaction_nonblocking os (Suc r) a w
        = Some (NGX_OK, 1, upd_ctx a (\<lambda>c. c\<lparr>end_transaction_sent := True\<rparr>) ?w2)"
      using sent by (simp add: ngx_cp_async_send_end_transaction_nonblocking_def)
    show "same_contexts w ?w2" by (rule push_and_signal_same_contexts [OF sent])
    show "x_to_service ?w2 (ms @ [end_message ?sid])" using w1(2) by (simp add: x_to_service_def next_step_def)
  qed
qed

section \<open>Every call ends\<close>

text \<open>What POSIX says of a socket: a write that comes after a poll that found it writable does not block.\<close>

definition writes_go_on :: "ngx_answers \<Rightarrow> bool" where
  "writes_go_on os \<longleftrightarrow>
     (\<forall>k. xa_write os k < 0 \<and> would_block os k \<and> xa_poll os (Suc k) > 0
        \<longrightarrow> \<not> (xa_write os (Suc (Suc k)) < 0 \<and> would_block os (Suc (Suc k))))"

lemma async_signal_ends_from:
  assumes "writes_go_on os"
  shows "2 * length data \<le> rounds
      \<or> 2 * length data \<le> Suc rounds \<and> \<not> (xa_write os (x_steps w) < 0 \<and> would_block os (x_steps w))
    \<Longrightarrow> \<exists>res w'. ngx_http_cp_signal_to_service_with_timeout os rounds data w = Some (res, w')"
proof (induction rounds arbitrary: data w)
  case 0
  then have "data = []" by (cases data) auto
  then show ?case by (simp add: ngx_http_cp_signal_to_service_with_timeout.simps)
next
  case (Suc n)
  let ?k = "x_steps w"
  let ?taken = "(next_step w)\<lparr>x_sent := x_sent (next_step w) @ [(x_comm_socket (next_step w), take (nat (xa_write os ?k)) data)]\<rparr>"
  show ?case
  proof (cases "data = []")
    case False
    have shorter: "2 * length (drop (nat (xa_write os ?k)) data) \<le> n" if "xa_write os ?k > 0"
    proof -
      have "length (drop (nat (xa_write os ?k)) data) \<le> length data - 1" using that by simp
      then show ?thesis using Suc.prems False by (cases data) auto
    qed
    have later: "\<exists>res w'. ngx_http_cp_signal_to_service_with_timeout os n data (next_step (next_step w)) = Some (res, w')"
      if "xa_write os ?k < 0" "would_block os ?k" "xa_poll os (Suc ?k) > 0"
    proof (rule Suc.IH)
      show "2 * length data \<le> n \<or> 2 * length data \<le> Suc n
          \<and> \<not> (xa_write os (x_steps (next_step (next_step w))) < 0 \<and> would_block os (x_steps (next_step (next_step w))))"
        using Suc.prems that assms by (auto simp: writes_go_on_def next_step_def)
    qed
    have "\<exists>res w'. ngx_http_cp_signal_to_service_with_timeout os n (drop (nat (xa_write os ?k)) data) ?taken = Some (res, w')"
      if "xa_write os ?k > 0" using Suc.IH [of "drop (nat (xa_write os ?k)) data" ?taken] shorter [OF that] by simp
    with later False show ?thesis
      by (subst ngx_http_cp_signal_to_service_with_timeout.simps) (auto simp: Let_def next_step_def not_less)
  qed (simp add: ngx_http_cp_signal_to_service_with_timeout.simps)
qed

text \<open>Two rounds for each of the four bytes of a session id are enough.\<close>

lemma async_signal_ends:
  assumes "writes_go_on os" "8 \<le> rounds"
  obtains res w' where "ngx_http_cp_signal_to_service_with_timeout os rounds (le32 session_id) w = Some (res, w')" "same_contexts w w'"
proof -
  obtain res w' where sent: "ngx_http_cp_signal_to_service_with_timeout os rounds (le32 session_id) w = Some (res, w')"
    using async_signal_ends_from [OF assms(1), of "le32 session_id" rounds w] assms(2) by auto
  have "same_contexts w w" by (simp add: same_contexts_def)
  from that [OF sent signal_same_contexts [OF sent this]] show thesis .
qed

lemma push_and_signal_ends:
  assumes "writes_go_on os" "8 \<le> rounds"
  obtains res num w' where "push_and_signal os rounds session_id fragments w = Some (res, num, w')" "same_contexts w w'"
proof -
  obtain r w1 where w1: "push_chunk os fragments w = (r, w1)" by fastforce
  obtain s w2 where "ngx_http_cp_signal_to_service_with_timeout os rounds (le32 session_id) w1 = Some (s, w2)"
    using async_signal_ends [OF assms] .
  with w1 have "\<exists>res num w'. push_and_signal os rounds session_id fragments w = Some (res, num, w')"
    by (simp add: push_and_signal_def signal_chunk_def)
  with that push_and_signal_same_contexts show thesis by blast
qed

lemma async_header_loop_same_contexts:
  "async_header_loop os hs p w = (res, p', w') \<Longrightarrow> same_contexts v w \<Longrightarrow> same_contexts v w'"
proof (induction os hs p w rule: async_header_loop.induct)
  case (2 os h is_last_part hs p w)
  show ?case
    using "2.prems" "2.IH"
    by (auto simp: Let_def dest!: push_chunk_same_contexts [THEN same_contexts_trans [OF "2.prems"(2)]]
        split: if_splits prod.splits)
qed simp

text \<open>What the table and the handlers rely on is left alone.\<close>

definition ctx_kept :: "nat \<Rightarrow> async_world \<Rightarrow> async_world \<Rightarrow> bool" where
  "ctx_kept a w w' \<longleftrightarrow> same_links w w' \<and> ac_modifications (ctx_store w' a) = ac_modifications (ctx_store w a)"

lemma ctx_kept_trans: "ctx_kept a w1 w2 \<Longrightarrow> ctx_kept a w2 w3 \<Longrightarrow> ctx_kept a w1 w3"
  using same_links_trans by (auto simp: ctx_kept_def)

lemma ctx_kept_same_contexts: "same_contexts w w' \<Longrightarrow> ctx_kept a w w'"
  by (simp add: ctx_kept_def same_contexts_def same_links_def)

lemma ctx_kept_quiet: "quiet a w w' \<Longrightarrow> ctx_kept a w w'"
  by (simp add: ctx_kept_def quiet_def Let_def)

lemma ctx_kept_upd:
  assumes "ac_session_id (f (ctx_store w a)) = ac_session_id (ctx_store w a)" "map_next (f (ctx_store w a)) = map_next (ctx_store w a)"
    and "ac_modifications (f (ctx_store w a)) = ac_modifications (ctx_store w a)"
  shows "ctx_kept a w (upd_ctx a f w)"
  using assms by (simp add: ctx_kept_def same_links_def)

lemma senders_end:
  assumes "writes_go_on os" "8 \<le> rounds"
  shows "\<exists>rc num w'. ngx_cp_async_send_meta_data_nonblocking os rounds a w = Some (rc, num, w') \<and> ctx_kept a w w'"
    "\<exists>rc num w'. ngx_cp_async_send_headers_nonblocking os rounds a w = Some (rc, num, w') \<and> ctx_kept a w w'"
    "\<exists>rc num w'. ngx_cp_async_send_end_transaction_nonblocking os rounds a w = Some (rc, num, w') \<and> ctx_kept a w w'"
    "\<exists>rc num w'. ngx_cp_async_wait_signal_sender os rounds a w = Some (rc, num, w') \<and> ctx_kept a w w'"
proof -
  have refl: "same_contexts w w" by (simp add: same_contexts_def)
  show "\<exists>rc num w'. ngx_cp_async_send_meta_data_nonblocking os rounds a w = Some (rc, num, w') \<and> ctx_kept a w w'"
    using ctx_kept_same_contexts [OF refl]
    by (cases rule: push_and_signal_ends [OF assms, of "ac_session_id (ctx_store w a)"
          "ngx_metadata_fragments (ngx_meta_data (ac_request (ctx_store w a))) (ac_waf_tag (ctx_store w a)) (ac_session_id (ctx_store w a))" w])
      (auto simp: ngx_cp_async_send_meta_data_nonblocking_def Let_def dest: ctx_kept_same_contexts)
  obtain rc num w1 where "push_and_signal os rounds (ac_session_id (ctx_store w a))
      (set_fragments_identifiers [[], []] (data_type_code REQUEST_END) (ac_session_id (ctx_store w a))) w = Some (rc, num, w1)"
    "same_contexts w w1" using push_and_signal_ends [OF assms] .
  moreover have "ctx_kept a w (upd_ctx a (\<lambda>c. c\<lparr>end_transaction_sent := True\<rparr>) w1)" if "same_contexts w w1"
    by (rule ctx_kept_trans [OF ctx_kept_same_contexts [OF that] ctx_kept_upd]) simp_all
  ultimately show "\<exists>rc num w'. ngx_cp_async_send_end_transaction_nonblocking os rounds a w = Some (rc, num, w') \<and> ctx_kept a w w'"
    by (auto simp: ngx_cp_async_send_end_transaction_nonblocking_def Let_def ctx_kept_same_contexts)
  have chunk: "\<exists>rc num w'. signal_chunk os rounds session_id num0 v = Some (rc, num, w') \<and> same_contexts v w'" for session_id num0 v
    by (cases rule: async_signal_ends [OF assms, of session_id v]) (auto simp: signal_chunk_def)
  let ?id = "ac_session_id (ctx_store w a)"
  let ?p = "\<lparr>hp_fragments = set_fragments_identifiers (map (xa_stack os (x_steps w)) [0..<HEADER_DATA_COUNT * max_bulk_size + 4])
                 (data_type_code REQUEST_HEADER) ?id, hp_in_bulk = 0, hp_part_count = 0, hp_bulk_part_idx = 0, hp_bulks = 0\<rparr>"
  obtain r p w2 where loop: "async_header_loop os (header_marks (rq_headers (ac_request (ctx_store w a)))) ?p (next_step w) = (r, p, w2)"
    by (metis prod_cases3)
  have same2: "same_contexts w w2" using async_header_loop_same_contexts [OF loop, of w] refl by simp
  obtain r3 w3 where push: "push_chunk os (take (HEADER_DATA_COUNT * 1 + 4)
      (set_fragment_elem (set_fragment_elem (hp_fragments p) [1] 1 2) [0] 1 3)) w2 = (r3, w3)" by fastforce
  have same3: "same_contexts w w3" using same_contexts_trans [OF same2 push_chunk_same_contexts [OF push]] .
  show "\<exists>rc num w'. ngx_cp_async_send_headers_nonblocking os rounds a w = Some (rc, num, w') \<and> ctx_kept a w w'"
    using loop push same2 same3 chunk [of ?id 1 w3] chunk [of ?id "hp_bulks p" w2]
    by (auto simp: ngx_cp_async_send_headers_nonblocking_def Let_def ctx_kept_same_contexts
        intro: ctx_kept_same_contexts [OF same_contexts_trans [OF same2]] ctx_kept_same_contexts [OF same_contexts_trans [OF same3]])
  obtain r4 w4 where push4: "push_chunk os (set_fragments_identifiers [[], []] (data_type_code REQUEST_DELAYED_VERDICT) ?id) w = (r4, w4)"
    by fastforce
  obtain r5 w5 where "ngx_http_cp_signal_to_service_with_timeout os rounds (le32 ?id) w4 = Some (r5, w5)" "same_contexts w4 w5"
    using async_signal_ends [OF assms] .
  then show "\<exists>rc num w'. ngx_cp_async_wait_signal_sender os rounds a w = Some (rc, num, w') \<and> ctx_kept a w w'"
    using push4 push_chunk_same_contexts [OF push4] refl
    by (auto simp: ngx_cp_async_wait_signal_sender_def Let_def ctx_kept_same_contexts
        intro: ctx_kept_same_contexts [OF same_contexts_trans [OF push_chunk_same_contexts [OF push4]]])
qed

text \<open>The stages in which the event handler waits and calls itself.\<close>

definition waiting_stages :: "ngx_cp_async_stage set" where
  "waiting_stages = {STAGE_WAIT_HEADER_VERDICT, STAGE_WAIT_END_VERDICT, STAGE_WAIT_BODY_VERDICT}"

lemma complete_ends:
  assumes "ac_modifications (ctx_store w a) = []"
  shows "\<exists>rc w'. process_complete_stage os a w = Some (rc, w') \<and> ctx_kept a w w'"
proof -
  have "modifications_fit os (Suc (x_steps w)) (ctx_store w a)" using assms by (simp add: modifications_fit_def)
  from complete_stage_result [OF this] obtain w' where
    "process_complete_stage os a w = Some (complete_result (fail_mode_open w) (ac_verdict (ctx_store w a)), w')" "quiet a w w'"
    by blast
  then show ?thesis using ctx_kept_quiet by blast
qed

lemma complete_ends_from:
  assumes "ac_modifications (ctx_store w a) = []" "ctx_kept a w w1" "ctx_kept a w1 w2"
  shows "\<exists>rc w'. process_complete_stage os a w2 = Some (rc, w') \<and> ctx_kept a w w'"
  using complete_ends [of w2 a os] assms ctx_kept_trans by (metis ctx_kept_def)

lemma continue_ends:
  assumes "writes_go_on os" "8 \<le> rounds" "ac_modifications (ctx_store w a) = []" "ac_stage (ctx_store w a) \<notin> waiting_stages"
  shows "\<exists>rc w'. ngx_cp_async_continue_processing handler os rounds a w = Some (rc, w') \<and> ctx_kept a w w'"
proof -
  note send = senders_end [OF assms(1,2), of a w]
  have refl: "ctx_kept a w w" by (simp add: ctx_kept_def)
  have failed: "\<exists>rc w'. sending_failed os a w1 = Some (rc, w') \<and> ctx_kept a w w'" if "ctx_kept a w w1" for w1
    unfolding sending_failed_def by (rule complete_ends_from [OF assms(3) that ctx_kept_upd]) (simp_all add: set_ctx_verdict_def)
  have awaited: "ctx_kept a w (snd (await_replies a num sent w1))"
    if "ctx_kept a w w1" "\<And>c. ac_session_id (sent c) = ac_session_id c" "\<And>c. map_next (sent c) = map_next c"
      "\<And>c. ac_modifications (sent c) = ac_modifications c" for num sent w1
    by (rule ctx_kept_trans [OF that(1)]) (simp add: await_replies_def ctx_kept_def same_links_def that(2-4))
  have stage: "ctx_kept a w (upd_ctx a f w)" if "\<And>c. ac_session_id (f c) = ac_session_id c" "\<And>c. map_next (f c) = map_next c"
    "\<And>c. ac_modifications (f c) = ac_modifications c" for f
    by (rule ctx_kept_upd) (simp_all add: that)
  have complete: "\<exists>rc w'. process_complete_stage os a (upd_ctx a (ASYNC_STAGE_TRANSITION STAGE_COMPLETE) w) = Some (rc, w') \<and> ctx_kept a w w'"
    by (rule complete_ends_from [OF assms(3) refl ctx_kept_upd]) (simp_all add: ASYNC_STAGE_TRANSITION_def)
  show ?thesis
  proof (cases "flow_error (ctx_store w a)")
    case True
    then show ?thesis
      using stage [of "set_ctx_verdict (fail_verdict (fail_mode_open w))"]
      by (simp add: ngx_cp_async_continue_processing_def set_ctx_verdict_def)
  next
    case False
    then show ?thesis
    proof (cases "ac_stage (ctx_store w a)")
      case STAGE_META_DATA
      obtain rc num w1 where w1: "ngx_cp_async_send_meta_data_nonblocking os rounds a w = Some (rc, num, w1)" "ctx_kept a w w1"
        using send(1) by blast
      have "ctx_kept a w (upd_ctx a (set_ctx_verdict TRAFFIC_VERDICT_IRRELEVANT) w1)"
        by (rule ctx_kept_trans [OF w1(2) ctx_kept_upd]) (simp_all add: set_ctx_verdict_def)
      then show ?thesis
        using STAGE_META_DATA False w1(1) failed [OF w1(2)] refl
          awaited [OF w1(2), of "\<lambda>c. c\<lparr>meta_data_sent := True\<rparr>" num]
        by (simp add: ngx_cp_async_continue_processing_def Let_def) (auto simp: await_replies_def)
    next
      case STAGE_HEADERS
      obtain rc num w1 where w1: "ngx_cp_async_send_headers_nonblocking os rounds a w = Some (rc, num, w1)" "ctx_kept a w w1"
        using send(2) by blast
      then show ?thesis
        using STAGE_HEADERS False failed [OF w1(2)] refl awaited [OF w1(2), of "\<lambda>c. c\<lparr>headers_sent := True\<rparr>" num]
        by (simp add: ngx_cp_async_continue_processing_def Let_def) (auto simp: await_replies_def)
    next
      case STAGE_END_TRANSACTION
      obtain rc num w1 where w1: "ngx_cp_async_send_end_transaction_nonblocking os rounds a w = Some (rc, num, w1)" "ctx_kept a w w1"
        using send(3) by blast
      then show ?thesis
        using STAGE_END_TRANSACTION False failed [OF w1(2)] refl awaited [OF w1(2), of "\<lambda>c. c\<lparr>end_transaction_sent := True\<rparr>" num]
        by (simp add: ngx_cp_async_continue_processing_def Let_def) (auto simp: await_replies_def)
    next
      case STAGE_BODY
      then show ?thesis
        using False complete refl
        by (simp add: ngx_cp_async_continue_processing_def Let_def) (auto intro: ctx_kept_upd)
    next
      case STAGE_COMPLETE
      then show ?thesis using False complete_ends [OF assms(3)] by (simp add: ngx_cp_async_continue_processing_def)
    qed (use False assms(4) refl in \<open>simp_all add: ngx_cp_async_continue_processing_def waiting_stages_def\<close>)
  qed
qed

lemma destroy_ends:
  assumes "table_rep key w M"
  shows "\<exists>w'. ngx_cp_async_destroy_ctx a w = Some w'"
proof -
  have "table_rep key (upd_ctx a (\<lambda>c. ngx_cp_async_cancel_timers (ngx_cp_async_nullify_ctx_refs c)) w) M"
    by (rule table_rep_upd [OF assms])
      (simp_all add: ngx_cp_async_cancel_timers_def ngx_cp_async_cancel_deadline_timer_def ngx_cp_async_nullify_ctx_refs_def)
  then obtain T where "table_lists key (upd_ctx a (\<lambda>c. ngx_cp_async_cancel_timers (ngx_cp_async_nullify_ctx_refs c)) w) T"
    by (auto simp: table_rep_def)
  from table_lists_remove [OF this, of a] show ?thesis unfolding ngx_cp_async_destroy_ctx_def by blast
qed

lemma after_processing_ends:
  assumes "table_rep key w M"
  shows "\<exists>w'. after_processing stage a rc w = Some w'"
proof -
  have "table_rep key (upd_ctx a (\<lambda>c. c\<lparr>ac_request := (ac_request c)\<lparr>rq_keepalive := False\<rparr>\<rparr>) w) M"
    "table_rep key (upd_ctx a ngx_cp_async_cancel_deadline_timer w) M"
    by (rule table_rep_upd [OF assms], simp_all add: ngx_cp_async_cancel_deadline_timer_def)+
  from destroy_ends [OF this(1), of a] destroy_ends [OF this(2), of a] show ?thesis
    by (auto simp: after_processing_def Let_def)
qed

text \<open>Outside the stages that wait the handler does not call itself.\<close>

lemma flat_handler_ends:
  assumes "writes_go_on os" "8 \<le> rounds" "table_rep key w M" "ac_modifications (ctx_store w a) = []"
    and "ac_stage (ctx_store w a) \<notin> waiting_stages"
  shows "\<exists>w'. ngx_cp_async_event_handler os rounds (Suc n) a w = Some w'"
proof -
  obtain rc w1 where w1: "ngx_cp_async_continue_processing (ngx_cp_async_event_handler os rounds n a) os rounds a w = Some (rc, w1)"
    "ctx_kept a w w1" using continue_ends [OF assms(1,2,4,5)] by blast
  have "table_rep key w1 M" using table_rep_same_links [OF assms(3)] w1(2) by (simp add: ctx_kept_def)
  from after_processing_ends [OF this] w1(1) show ?thesis
    by (simp add: ngx_cp_async_event_handler.simps Let_def)
qed

text \<open>What the stages that wait call the handler with is in none of them.\<close>

lemma given_up:
  "ac_stage (ctx_store (give_up_waiting a w) a) \<notin> waiting_stages" "ctx_kept a w (give_up_waiting a w)"
proof -
  have "ctx_kept a w (count_metric HOLD_THREAD_TIMEOUT 1 w)" by (simp add: ctx_kept_def same_links_def count_metric_def)
  then show "ctx_kept a w (give_up_waiting a w)" unfolding give_up_waiting_def
    by (rule ctx_kept_trans [OF _ ctx_kept_upd])
      (simp_all add: ASYNC_STAGE_TRANSITION_def ngx_cp_async_cancel_timers_def ngx_cp_async_cancel_deadline_timer_def settle_session_def)
qed (simp add: give_up_waiting_def ASYNC_STAGE_TRANSITION_def waiting_stages_def)

lemma after_wait:
  assumes "ngx_cp_async_ctx_is_valid (ctx_store w a)" "\<not> flow_error (ctx_store w a)"
    and "ac_verdict (ctx_store w a) \<noteq> TRAFFIC_VERDICT_DELAYED"
  shows "ac_stage (ctx_store (upd_ctx a ngx_cp_async_transition_after_wait w) a) \<notin> waiting_stages"
  using assms by (simp add: ngx_cp_async_transition_after_wait_def ASYNC_STAGE_TRANSITION_def waiting_stages_def
      ngx_cp_async_ctx_get_flow_error_safe_def split: ngx_cp_async_stage.splits)

lemma after_wait_kept: "ctx_kept a w (upd_ctx a ngx_cp_async_transition_after_wait w)"
  by (rule ctx_kept_upd)
    (simp_all add: ngx_cp_async_transition_after_wait_def ASYNC_STAGE_TRANSITION_def split: ngx_cp_async_stage.splits)

lemma async_wait_ends:
  assumes "writes_go_on os" "8 \<le> rounds" "table_rep key w M" "ac_modifications (ctx_store w a) = []" "\<not> flow_error (ctx_store w a)"
  shows "\<exists>w'. ngx_cp_async_handle_wait_verdict (ngx_cp_async_event_handler os rounds (Suc n) a) os rounds a w = Some (NGX_AGAIN, w')
    \<or> ngx_cp_async_handle_wait_verdict (ngx_cp_async_event_handler os rounds (Suc n) a) os rounds a w = Some (NGX_ERROR, w)"
proof -
  have inner: "\<exists>w'. ngx_cp_async_event_handler os rounds (Suc n) a v = Some w'"
    if "ctx_kept a w v" "ac_stage (ctx_store v a) \<notin> waiting_stages" for v
  proof (rule flat_handler_ends [OF assms(1,2) _ _ that(2)])
    show "table_rep key v M" using table_rep_same_links [OF assms(3)] that(1) by (simp add: ctx_kept_def)
    show "ac_modifications (ctx_store v a) = []" using that(1) assms(4) by (simp add: ctx_kept_def)
  qed
  obtain rc num w1 where w1: "ngx_cp_async_wait_signal_sender os rounds a w = Some (rc, num, w1)" "ctx_kept a w w1"
    using senders_end(4) [OF assms(1,2)] by blast
  note moved = inner [OF after_wait_kept after_wait]
  note gave_up = inner [OF ctx_kept_trans [OF w1(2) given_up(2)] given_up(1)]
  show ?thesis
    using assms(5) w1(1) moved gave_up
    by (auto simp: ngx_cp_async_handle_wait_verdict_def Let_def ngx_cp_async_ctx_get_flow_error_safe_def)
qed

lemma handler_ends:
  assumes "writes_go_on os" "8 \<le> rounds" "table_rep key w M" "ac_modifications (ctx_store w a) = []"
  shows "\<exists>w'. ngx_cp_async_event_handler os rounds (n + 2) a w = Some w'"
proof (cases "ac_stage (ctx_store w a) \<in> waiting_stages \<and> \<not> flow_error (ctx_store w a)")
  case True
  then have "ngx_cp_async_continue_processing (ngx_cp_async_event_handler os rounds (Suc n) a) os rounds a w
      = ngx_cp_async_handle_wait_verdict (ngx_cp_async_event_handler os rounds (Suc n) a) os rounds a w"
    by (auto simp: ngx_cp_async_continue_processing_def waiting_stages_def Let_def)
  moreover have "after_processing stage a NGX_AGAIN v = Some v" for stage v by (simp add: after_processing_def Let_def)
  ultimately show ?thesis
    using async_wait_ends [OF assms, of n] True after_processing_ends [OF assms(3)]
    by (auto simp: numeral_2_eq_2 ngx_cp_async_event_handler.simps(2) [of _ _ "Suc n"] Let_def)
next
  case False
  show ?thesis
  proof (cases "ac_stage (ctx_store w a) \<in> waiting_stages")
    case True
    with False have "ngx_cp_async_continue_processing (ngx_cp_async_event_handler os rounds (Suc n) a) os rounds a w
        = Some (fail_result (fail_mode_open w), upd_ctx a (set_ctx_verdict (fail_verdict (fail_mode_open w))) w)"
      by (simp add: ngx_cp_async_continue_processing_def)
    moreover have "table_rep key (upd_ctx a (set_ctx_verdict (fail_verdict (fail_mode_open w))) w) M"
      by (rule table_rep_upd [OF assms(3)]) (simp_all add: set_ctx_verdict_def)
    ultimately show ?thesis
      using after_processing_ends by (auto simp: numeral_2_eq_2 ngx_cp_async_event_handler.simps(2) [of _ _ "Suc n"] Let_def)
  next
    case out: False
    with flat_handler_ends [OF assms out, of "Suc n"] show ?thesis by simp
  qed
qed

end
