(* ===== verification/Ngx_Async_Properties.thy ===== *)
theory Ngx_Async_Properties
  imports Ngx_Async_Lemmas Ipc_Properties
begin

text \<open>
  What the asynchronous inspection of the nginx module guarantees, and where it does not do what it
  means to, each with the concrete input it is applied to.
\<close>

section \<open>A sample worker\<close>

text \<open>A request that is held with its context, which is the only one of the table.\<close>

definition sample_request :: ngx_request where
  "sample_request =
     \<lparr>rq_protocol = [], rq_method = [], rq_host_variable = None, rq_host_header = None, rq_uri = [], rq_unparsed_uri = [],
      rq_listening_ip = [], rq_listening_port = 0, rq_client_ip = [], rq_client_port = 0, rq_headers = [[]], rq_has_body = True,
      rq_keepalive = True, rq_http2 = False, rq_main_count = 1, rq_length_cleared = False\<rparr>"

definition sample_session :: ngx_http_cp_session_data where
  "sample_session =
     \<lparr>ns_verdict = TRAFFIC_VERDICT_INSPECT, ns_start = \<lparr>tv_sec = 0, tv_nsec = 0\<rparr>, ns_req_time = 0, ns_res_time = 0,
      nsd_session_id = 5, remaining_messages = 1, was_request_fully_inspected = False, async_processing_needed = True,
      processed_req_body_size = 0, initial_async_mode = True\<rparr>"

definition sample_ctx :: "u32 \<Rightarrow> ngx_cp_async_stage \<Rightarrow> ngx_http_cp_async_ctx" where
  "sample_ctx session_id stage =
     \<lparr>ac_request = sample_request, ac_session = sample_session\<lparr>nsd_session_id := session_id\<rparr>, ac_session_id = session_id,
      ac_stage = stage, agent_event = fresh_event, deadline_event = fresh_event, cleanup_event = fresh_event,
      resume_event = fresh_event, ac_start_time = \<lparr>tv_sec = 0, tv_nsec = 0\<rparr>, ac_waf_tag = [], ac_modifications = [],
      ac_waiting = True, body_phase_started = False, ac_released = False, req_seen_last = False, req_seq = 0, ac_queue = [],
      meta_data_sent = True, headers_sent = False, end_transaction_sent = False, header_declined = False,
      first_wait_verdict_encountered = False, map_next = None, flow_error = False, request_ref_incremented = False\<rparr>"

definition sample_world :: "(nat \<Rightarrow> u32) \<Rightarrow> ngx_cp_async_stage \<Rightarrow> (nat \<Rightarrow> nat option) \<Rightarrow> async_world" where
  "sample_world ids stage buckets =
     \<lparr>x_process = \<lparr>p_effective_segment_size = 0, p_effective_size_initialized = False, p_environ = Map.empty\<rparr>,
      x_ipc = None, x_secondary_ipc = None, x_comm_socket = 3, x_secondary_socket = 4, x_registration = REGISTERED,
      x_conf = \<lparr>numerical_values = Map.empty, string_values = Map.empty, exclude_sources = []\<rparr>, x_async_mode = True,
      fail_mode_open = False, fail_mode_hold_open = False, x_failure = initial_failure ngx_reset_metric_data, x_sent = [],
      x_steps = 0, x_calls = [], ctx_store = (\<lambda>a. sample_ctx (ids a) stage), ctx_buckets = buckets, context_count = 1,
      pending_inspection_chunks = 1, backpressure_posted = False, async_cleanup_posted = False,
      backpressure_event_initialized = True, cleanup_event_initialized = True, ipc_verdict_conn = True,
      backpressure_epoll_fd = 7, backpressure_registered_socket = 3, should_register = False, is_initialized = True\<rparr>"

section \<open>The table of contexts\<close>

text \<open>
  C17. The table of contexts refines a map: after any sequence of contexts entered (with a free session id)
  and destroyed, from the empty table on, every lookup ends and finds exactly the context the map
  has for the session id, whatever ids share a bucket.
\<close>

theorem context_lookup_refines_map:
  assumes "\<forall>a. ac_session_id (ctx_store w a) = key a" "\<forall>b. ctx_buckets w b = None"
    and "run_map key ops Map.empty = Some M"
  shows "\<exists>w'. run_index ngx_cp_async_add_ctx ngx_cp_async_destroy_ctx ops w = Some w'
           \<and> (\<forall>session_id. ngx_cp_async_find_ctx session_id w' = Some (M session_id))"
proof -
  have "table_lists key w (\<lambda>_. [])" using assms(1,2) by (simp add: table_lists_def)
  then have "table_rep key w Map.empty" by (auto simp: table_rep_def)
  then show ?thesis by (rule contexts.run_lookup [OF _ assms(3)])
qed

text \<open>The session ids 5 and 2053 share a bucket.\<close>

theorem context_lookup_refines_map_witness:
  "let ids = (\<lambda>a. if a = 0 then 5 else 2053) :: nat \<Rightarrow> u32;
       w = sample_world ids STAGE_META_DATA (\<lambda>_. None)
   in cp_async_ctx_hash 5 = cp_async_ctx_hash 2053
      \<and> (\<exists>w'. run_index ngx_cp_async_add_ctx ngx_cp_async_destroy_ctx [Enter 0, Enter 1, Leave 0] w = Some w'
              \<and> ngx_cp_async_find_ctx 2053 w' = Some (Some 1) \<and> ngx_cp_async_find_ctx 5 w' = Some None)"
proof -
  let ?ids = "(\<lambda>a. if a = 0 then 5 else 2053) :: nat \<Rightarrow> u32"
  let ?w = "sample_world ?ids STAGE_META_DATA (\<lambda>_. None)"
  have "\<exists>w'. run_index ngx_cp_async_add_ctx ngx_cp_async_destroy_ctx [Enter 0, Enter 1, Leave 0] ?w = Some w'
          \<and> (\<forall>session_id. ngx_cp_async_find_ctx session_id w' = Some ([2053 \<mapsto> 1] session_id))"
    by (rule context_lookup_refines_map [where key = ?ids])
       (auto simp: sample_world_def sample_ctx_def fun_upd_def)
  moreover have "cp_async_ctx_hash 5 = cp_async_ctx_hash 2053"
    by (simp add: cp_async_ctx_hash_def ngx_CP_ASYNC_CTX_BUCKETS_def)
  ultimately show ?thesis by (auto simp: Let_def)
qed

section \<open>The event handler\<close>

text \<open>
  The event handler calls itself from within the wait stages only, and the stage it has then
  moved to is none of them: with more than two nested calls allowed the result is the same.
\<close>

lemma handler_nesting:
  "ngx_cp_async_event_handler os rounds (n + 2) a w = ngx_cp_async_event_handler os rounds 2 a w"
proof -
  let ?waits = "{STAGE_WAIT_HEADER_VERDICT, STAGE_WAIT_END_VERDICT, STAGE_WAIT_BODY_VERDICT}"
  have flat: "ngx_cp_async_event_handler os rounds (Suc k) a v = ngx_cp_async_event_handler os rounds (Suc j) a v"
    if "ac_stage (ctx_store v a) \<notin> ?waits" for v k j
    using that unfolding ngx_cp_async_event_handler.simps ngx_cp_async_continue_processing_def
    by (auto simp: Let_def split: ngx_cp_async_stage.splits intro!: Option.bind_cong)
  have moved: "ac_stage (ctx_store (upd_ctx a ngx_cp_async_transition_after_wait v) a) \<notin> ?waits"
    if "ngx_cp_async_ctx_is_valid (ctx_store v a)" "\<not> flow_error (ctx_store v a)"
      "ac_verdict (ctx_store v a) \<noteq> TRAFFIC_VERDICT_DELAYED" for v
    using that by (simp add: ngx_cp_async_transition_after_wait_def ASYNC_STAGE_TRANSITION_def
        ngx_cp_async_ctx_get_flow_error_safe_def split: ngx_cp_async_stage.splits)
  have gave_up: "ac_stage (ctx_store (give_up_waiting a v) a) \<notin> ?waits" for v
    by (simp add: give_up_waiting_def ASYNC_STAGE_TRANSITION_def)
  have "ngx_cp_async_handle_wait_verdict (ngx_cp_async_event_handler os rounds (Suc n) a) os rounds a w
      = ngx_cp_async_handle_wait_verdict (ngx_cp_async_event_handler os rounds (Suc 0) a) os rounds a w"
    if "\<not> flow_error (ctx_store w a)"
    using that flat [OF moved, of w n 0] flat [OF gave_up, of n _ 0]
    by (auto simp: ngx_cp_async_handle_wait_verdict_def Let_def ngx_cp_async_ctx_get_flow_error_safe_def
        intro!: Option.bind_cong split: prod.splits)
  then show ?thesis
    by (simp add: numeral_2_eq_2 ngx_cp_async_event_handler.simps ngx_cp_async_continue_processing_def Let_def
        cong: ngx_cp_async_stage.case_cong)
qed

text \<open>
  C20. The event handler ends, in every stage and with one result however many nested calls are allowed from two on:
  it calls itself at most once. The conditions: the table of contexts is sound, no modifications are pending in
  the context, and a write to the socket does not block after a poll that found the socket writable, so that eight
  rounds are enough for the four bytes of the signal.
\<close>

theorem handler_nesting_ends:
  assumes "writes_go_on os" "8 \<le> rounds" "table_rep key w M" "ac_modifications (ctx_store w a) = []"
  shows "\<exists>w'. \<forall>n. ngx_cp_async_event_handler os rounds (n + 2) a w = Some w'"
  using handler_ends [OF assms, of 0] handler_nesting [of os rounds _ a w] by simp

text \<open>
  C18. The deadline of a stage settles the request whatever the service does: when it fires for a context of
  the table in any other stage than the complete one, a request that is held is resumed if the failure mode is
  open and rejected if it is closed, by the mode for delayed verdicts in the wait stages and the
  ordinary one elsewhere, and the context leaves the table. The flow of the context is not in error and no
  modifications of an earlier reply are pending.
\<close>

theorem deadline_settles_request:
  assumes rep: "table_rep key w M" "M (key a) = Some a" "key a \<noteq> 0"
    and events: "ev_data (deadline_event (ctx_store w a))" "ev_data (agent_event (ctx_store w a))"
    and c: "ac_stage (ctx_store w a) \<noteq> STAGE_COMPLETE" "\<not> flow_error (ctx_store w a)" "ac_modifications (ctx_store w a) = []"
  shows "\<exists>w'. ngx_cp_async_deadline_handler os rounds (Suc n) a w = Some w'
           \<and> ngx_cp_async_find_ctx (key a) w' = Some None
           \<and> x_calls w' = x_calls w
               @ (if \<not> deadline_fail_mode (ac_stage (ctx_store w a)) w then [FinalizeRejected (key a)]
                  else if ac_waiting (ctx_store w a) then [RunPhases (key a)] else [])"
proof -
  let ?c = "ctx_store w a"
  define v where "v = fail_verdict (deadline_fail_mode (ac_stage ?c) w)"
  define w1 where "w1 = upd_ctx a (ASYNC_STAGE_TRANSITION STAGE_COMPLETE)
      (count_metric REQ_HEADER_THREAD_TIMEOUT 1 (upd_ctx a (settle_session v) w))"
  have id: "ac_session_id ?c = key a" using rep(1) by (auto simp: table_rep_def table_lists_def)
  have now: "ctx_store w1 a = ASYNC_STAGE_TRANSITION STAGE_COMPLETE (settle_session v ?c)" by (simp add: w1_def)
  have links: "same_links w w1"
    by (simp add: same_links_def w1_def settle_session_def ASYNC_STAGE_TRANSITION_def count_metric_def)
  have "\<exists>w'. ngx_cp_async_event_handler os rounds (Suc n) a w1 = Some w' \<and> table_rep key w' (M(key a := None))
      \<and> x_calls w' = x_calls w1 @ (if is_verdict_drop_or_custom (ac_verdict (ctx_store w1 a)) then [FinalizeRejected (key a)]
                                    else if ac_waiting (ctx_store w1 a) then [RunPhases (key a)] else [])"
    by (rule event_handler_complete [OF table_rep_same_links [OF rep(1) links] rep(2), of os rounds n])
       (use events c rep(3) in \<open>auto simp: now ASYNC_STAGE_TRANSITION_def settle_session_def ac_verdict_def v_def modifications_fit_def
          fail_verdict_def del_timer_def\<close>)
  then obtain w' where w': "ngx_cp_async_event_handler os rounds (Suc n) a w1 = Some w'" "table_rep key w' (M(key a := None))"
    "x_calls w' = x_calls w1 @ (if is_verdict_drop_or_custom (ac_verdict (ctx_store w1 a)) then [FinalizeRejected (key a)]
                                 else if ac_waiting (ctx_store w1 a) then [RunPhases (key a)] else [])" by blast
  have "ngx_cp_async_deadline_handler os rounds (Suc n) a w = Some w'"
    using w'(1) events(1) c id rep(3)
    by (simp add: ngx_cp_async_deadline_handler_def ngx_cp_async_ctx_is_valid_def ngx_cp_async_ctx_get_flow_error_safe_def
        w1_def v_def Let_def)
  moreover have "ngx_cp_async_find_ctx (key a) w' = Some None" using table_rep_find [OF w'(2)] by simp
  moreover have "is_verdict_drop_or_custom (ac_verdict (ctx_store w1 a)) = (\<not> deadline_fail_mode (ac_stage ?c) w)"
    by (simp add: now ASYNC_STAGE_TRANSITION_def settle_session_def ac_verdict_def v_def fail_verdict_def
        is_verdict_drop_or_custom_def)
  moreover have "ac_waiting (ctx_store w1 a) = ac_waiting ?c" "x_calls w1 = x_calls w"
    by (simp_all add: now ASYNC_STAGE_TRANSITION_def settle_session_def) (simp add: w1_def)
  ultimately show ?thesis using w'(3) by simp
qed

text \<open>A held request in the body stage, with a closed failure mode.\<close>

lemma sample_table: "table_rep (\<lambda>_. 5) (sample_world (\<lambda>_. 5) stage [cp_async_ctx_hash 5 \<mapsto> 0]) [5 \<mapsto> 0]"
proof -
  let ?T = "(\<lambda>b. if b = cp_async_ctx_hash 5 then [0] else []) :: nat \<Rightarrow> nat list"
  have "table_lists (\<lambda>_. 5) (sample_world (\<lambda>_. 5) stage [cp_async_ctx_hash 5 \<mapsto> 0]) ?T"
    by (simp add: table_lists_def sample_world_def sample_ctx_def)
  then show ?thesis by (auto simp: table_rep_def intro!: exI [of _ ?T])
qed

definition sample_answers :: ngx_answers where
  "sample_answers =
     \<lparr>xa_files = \<lparr>dual_docker_nginx_file = False, agent_metadata_stat = False, agent_metadata_lines = None\<rparr>, xa_write = (\<lambda>_. 4),
      would_block = (\<lambda>_. False), xa_poll = (\<lambda>_. 1), xa_alloc = (\<lambda>_ _. True),
      xa_lists = (\<lambda>_. \<lparr>ngx_list_push = (\<lambda>_ _. None), ngx_uninitialised = ([], []), ngx_alloc = (\<lambda>_. True)\<rparr>),
      xa_time = (\<lambda>_. \<lparr>tv_sec = 0, tv_nsec = 0\<rparr>), xa_inet_pton = (\<lambda>_ _. None), xa_next_filter = (\<lambda>_. NGX_OK),
      xa_rejected = (\<lambda>_. NGX_OK), xa_stack = (\<lambda>_ _. []), xa_nonblocking = (\<lambda>_. True), xa_connection = (\<lambda>_. True),
      xa_add_event = (\<lambda>_. True), xa_read = (\<lambda>_. -1), xa_epoll_ctl = (\<lambda>_. True), xa_epoll = (\<lambda>_. 0),
      xa_interrupted = (\<lambda>_. False)\<rparr>"

theorem deadline_settles_request_witness:
  "\<exists>w'. ngx_cp_async_deadline_handler sample_answers 4 1 0 (sample_world (\<lambda>_. 5) STAGE_BODY [cp_async_ctx_hash 5 \<mapsto> 0]) = Some w'
     \<and> ngx_cp_async_find_ctx 5 w' = Some None \<and> x_calls w' = [FinalizeRejected 5]"
  using deadline_settles_request [OF sample_table, where a = 0 and stage1 = STAGE_BODY and os = sample_answers and rounds = 4 and n = 0]
  by (simp add: sample_world_def sample_ctx_def fresh_event_def deadline_fail_mode_def)

section \<open>Replies\<close>

text \<open>
  C19. The last reply settles a request: a blocking verdict rejects it in the stages of the meta data, the headers, the
  body and the end of the request, also before the other replies have come when it brings a page or the body is being
  inspected; a verdict to inspect, to accept or of no relevance in the stage of the end of the request resumes
  it when it is held. In each case the context leaves the table, and the page of a blocking verdict, when it brings one, is set
  first. The conditions: the context is in the table, its flow is not in error and no modifications of an earlier reply
  are pending. In the stages that wait for a delayed verdict a reply only sets the timer again.
\<close>

theorem final_reply_settles:
  assumes rep: "table_rep key w M" "M (key a) = Some a" "key a \<noteq> 0"
    and c: "ev_data (agent_event (ctx_store w a))" "\<not> flow_error (ctx_store w a)" "ac_modifications (ctx_store w a) = []"
    and reply: "reply = read_reply p addr" "v = service_verdict (reply_verdict reply)"
    and stage: "is_verdict_drop_or_custom v
                  \<and> ac_stage (ctx_store w a) \<in> {STAGE_META_DATA, STAGE_HEADERS, STAGE_END_TRANSACTION, STAGE_BODY}
                \<or> v \<in> {TRAFFIC_VERDICT_INSPECT, TRAFFIC_VERDICT_ACCEPT, TRAFFIC_VERDICT_IRRELEVANT}
                  \<and> ac_stage (ctx_store w a) = STAGE_END_TRANSACTION"
    and last: "remaining_messages (ac_session (ctx_store w a)) \<le> 1
                \<or> is_verdict_drop_or_custom v \<and> (modification_count reply > 0 \<or> ac_stage (ctx_store w a) = STAGE_BODY)"
  shows "\<exists>w'. ngx_cp_async_apply_verdict os rounds (Suc n) a p addr w = Some (NGX_OK, w')
           \<and> ngx_cp_async_find_ctx (key a) w' = Some None
           \<and> x_calls w' = x_calls w
               @ (if is_verdict_drop_or_custom v \<and> modification_count reply > 0
                  then [(if v = TRAFFIC_VERDICT_DROP then CustomWebResponse else CustomResponse) (key a) (modify_data reply)] else [])
               @ (if is_verdict_drop_or_custom v then [FinalizeRejected (key a)]
                  else if ac_waiting (ctx_store w a) then [RunPhases (key a)] else [])"
  using final_reply [OF assms] .

text \<open>A reply as the service packs it: the verdict, the session id and the number of modifications.\<close>

definition packed_reply :: "u16 \<Rightarrow> u32 \<Rightarrow> u8 \<Rightarrow> memory" where
  "packed_reply verdict session_id count =
     (\<lambda>i. let bs = le16 verdict @ le32 session_id @ [count] in if i < length bs then bs ! i else 0)"

lemma read_sample_reply:
  "reply_verdict (read_reply (packed_reply v sid n) 0) = v" "modification_count (read_reply (packed_reply v sid n) 0) = n"
  "modify_data (read_reply (packed_reply v sid n) 0) = 7"
proof -
  have "bytes_at (packed_reply v sid n) 0 (le16 v)"
    by (simp add: bytes_at_def read_bytes_def packed_reply_def Let_def le16_def numeral_2_eq_2)
  then show "reply_verdict (read_reply (packed_reply v sid n) 0) = v" by (simp add: read_reply_def get16_at)
qed (simp_all add: read_reply_def packed_reply_def Let_def le16_def le32_def)

theorem final_reply_settles_witness:
  "\<exists>w'. ngx_cp_async_apply_verdict sample_answers 4 1 0 (packed_reply 2 5 1) 0
          (sample_world (\<lambda>_. 5) STAGE_BODY [cp_async_ctx_hash 5 \<mapsto> 0]) = Some (NGX_OK, w')
     \<and> ngx_cp_async_find_ctx 5 w' = Some None \<and> x_calls w' = [CustomWebResponse 5 7, FinalizeRejected 5]"
  using final_reply_settles [OF sample_table, where a = 0 and stage1 = STAGE_BODY and os = sample_answers and rounds = 4 and n = 0
      and p = "packed_reply 2 5 1" and addr = 0, OF _ _ _ _ _ refl refl]
  by (simp add: sample_world_def sample_ctx_def fresh_event_def read_sample_reply service_verdict_def
      is_verdict_drop_or_custom_def)

text \<open>
  C8. A request that waits for its last reply in the stage of the end of the request hangs when this reply is an
  injection and the failure mode is closed: the complete stage applies the modifications, knows no result for the
  verdict and answers forbidden, but the event handler rejects blocking verdicts only. The request is neither resumed
  nor rejected, all timers of the context are off, and the handlers of the deadline and of the clean-up ignore it. The
  conditions: the flow is not in error, no modifications of an earlier reply are pending, the reply brings injections,
  and these can be collected and are applied to the headers with success.
\<close>

theorem injection_hangs_request:
  assumes c: "ac_session_id (ctx_store w a) \<noteq> 0" "ev_data (agent_event (ctx_store w a))" "\<not> flow_error (ctx_store w a)"
      "ac_stage (ctx_store w a) = STAGE_END_TRANSACTION" "remaining_messages (ac_session (ctx_store w a)) \<le> 1"
      "ac_modifications (ctx_store w a) = []"
    and reply: "reply = read_reply p addr" "service_verdict (reply_verdict reply) = TRAFFIC_VERDICT_INJECT" "modification_count reply > 0"
    and mods: "collect_injections (xa_alloc os (x_steps w)) 0 p (modify_data reply) (unat (modification_count reply)) False []
                 = Some (True, ml)"
      "ngx_http_cp_header_modifier (xa_lists os (x_steps w + 2)) False ml (rq_headers (ac_request (ctx_store w a))) = Some (NGX_OK, hs)"
    and closed: "\<not> fail_mode_open w"
  shows "\<exists>w'. ngx_cp_async_apply_verdict os rounds (Suc n) a p addr w = Some (NGX_OK, w') \<and> x_calls w' = x_calls w
           \<and> \<not> timer_set (agent_event (ctx_store w' a)) \<and> \<not> timer_set (deadline_event (ctx_store w' a))
           \<and> \<not> timer_set (cleanup_event (ctx_store w' a))
           \<and> ngx_cp_async_deadline_handler os rounds (Suc n) a w' = Some w'
           \<and> ngx_cp_async_context_cleanup_handler os rounds (Suc n) a w' = Some w'"
proof -
  let ?c = "ctx_store w a"
  define w4 where "w4 = upd_ctx a count_reply (upd_ctx a (\<lambda>c. c\<lparr>ac_modifications := ml\<rparr>) (next_step (upd_ctx a (take_verdict reply) w)))"
  define w5 where "w5 = upd_session a (\<lambda>d. d\<lparr>async_processing_needed := False\<rparr>)
      (upd_ctx a (\<lambda>c. c\<lparr>header_declined := True\<rparr>) (upd_ctx a (ASYNC_STAGE_TRANSITION STAGE_COMPLETE) w4))"
  have c4: "ac_verdict (ctx_store w4 a) = TRAFFIC_VERDICT_INJECT" "ac_stage (ctx_store w4 a) = STAGE_END_TRANSACTION"
    "remaining_messages (ac_session (ctx_store w4 a)) = 0" "ac_session_id (ctx_store w4 a) \<noteq> 0"
    using c reply(2)
    by (simp_all add: w4_def take_verdict_def count_reply_def set_ctx_verdict_def ac_verdict_def Let_def is_verdict_final_def)
  have stage: "ngx_cp_async_apply_verdict_for_stage a w4 = (NGX_OK, w5)"
    using c4 by (simp add: ngx_cp_async_apply_verdict_for_stage_def w5_def Let_def ngx_cp_async_ctx_is_valid_def
        is_verdict_drop_or_custom_def)
  have c5: "ac_verdict (ctx_store w5 a) = TRAFFIC_VERDICT_INJECT" "ac_stage (ctx_store w5 a) = STAGE_COMPLETE"
    "\<not> flow_error (ctx_store w5 a)" "ac_session_id (ctx_store w5 a) \<noteq> 0" "ev_data (agent_event (ctx_store w5 a))"
    "\<not> timer_set (cleanup_event (ctx_store w5 a))" "x_calls w5 = x_calls w" "\<not> fail_mode_open w5"
    "ac_modifications (ctx_store w5 a) = ml" "x_steps w5 = Suc (x_steps w)" "ac_request (ctx_store w5 a) = ac_request ?c"
    using c c4 reply(2) closed
    by (simp_all add: w5_def w4_def ASYNC_STAGE_TRANSITION_def ac_verdict_def del_timer_def take_verdict_def count_reply_def
        set_ctx_verdict_def Let_def is_verdict_final_def next_step_def)
  have "modifications_fit os (Suc (x_steps w5)) (ctx_store w5 a)" using mods(2) by (auto simp: modifications_fit_def c5)
  from complete_stage_result [OF this] c5(1,8) obtain w' where
    w': "process_complete_stage os a w5 = Some (NGX_HTTP_FORBIDDEN, w')" "quiet a w5 w'" and
    timers: "\<not> timer_set (agent_event (ctx_store w' a))" "\<not> timer_set (deadline_event (ctx_store w' a))"
      "\<not> timer_set (cleanup_event (ctx_store w' a))"
    using c5(6) by (auto simp: complete_result_def is_verdict_drop_or_custom_def fail_result_def)
  from w'(2) have c': "ac_verdict (ctx_store w' a) = TRAFFIC_VERDICT_INJECT" "ac_stage (ctx_store w' a) = STAGE_COMPLETE" "x_calls w' = x_calls w"
    by (auto simp: quiet_def Let_def c5)
  have "ngx_cp_async_event_handler os rounds (Suc n) a w5 = Some w'"
    using w'(1) c5 c' by (simp add: ngx_cp_async_event_handler.simps ngx_cp_async_continue_processing_def after_processing_def
        ngx_cp_async_ctx_is_valid_def Let_def is_verdict_drop_or_custom_def)
  moreover have "ngx_cp_async_apply_verdict os rounds (Suc n) a p addr w
      = map_option (Pair NGX_OK) (ngx_cp_async_event_handler os rounds (Suc n) a w5)"
    using c c4(3) reply mods(1) stage
    by (simp add: ngx_cp_async_apply_verdict_def take_injections_def take_page_def Let_def w4_def ngx_cp_async_ctx_is_valid_def
        is_verdict_drop_or_custom_def take_verdict_def set_ctx_verdict_def is_verdict_final_def next_step_def)
  ultimately show ?thesis
    using timers c' by (simp add: ngx_cp_async_deadline_handler_def ngx_cp_async_context_cleanup_handler_def Let_def)
qed

lemma sample_world_fields [simp]:
  "ctx_store (sample_world ids stage buckets) a = sample_ctx (ids a) stage" "x_calls (sample_world ids stage buckets) = []"
  "x_steps (sample_world ids stage buckets) = 0" "fail_mode_open (sample_world ids stage buckets) = False"
  "fail_mode_hold_open (sample_world ids stage buckets) = False"
  by (simp_all add: sample_world_def)

lemma sample_ctx_fields [simp]:
  "ac_session_id (sample_ctx sid stage) = sid" "ac_stage (sample_ctx sid stage) = stage" "agent_event (sample_ctx sid stage) = fresh_event"
  "flow_error (sample_ctx sid stage) = False" "ac_modifications (sample_ctx sid stage) = []" "ac_waiting (sample_ctx sid stage) = True"
  "ac_session (sample_ctx sid stage) = sample_session\<lparr>nsd_session_id := sid\<rparr>" "ac_request (sample_ctx sid stage) = sample_request"
  by (simp_all add: sample_ctx_def)

theorem injection_hangs_request_witness:
  "\<exists>w'. ngx_cp_async_apply_verdict sample_answers 4 1 0 (packed_reply 3 5 1) 0
          (sample_world (\<lambda>_. 5) STAGE_END_TRANSACTION [cp_async_ctx_hash 5 \<mapsto> 0]) = Some (NGX_OK, w')
     \<and> x_calls w' = [] \<and> \<not> timer_set (deadline_event (ctx_store w' 0))"
proof -
  let ?p = "packed_reply 3 5 1" and ?w = "sample_world (\<lambda>_. 5) STAGE_END_TRANSACTION [cp_async_ctx_hash 5 \<mapsto> 0]"
  have zero: "?p (7 + i) = 0" for i by (simp add: packed_reply_def Let_def le16_def le32_def)
  have inject: "is_header (read_inject_data ?p 7) = 0" "injection_size (read_inject_data ?p 7) = 0"
    using zero [of 14] zero [of 12] zero [of 13] by (simp_all add: read_inject_data_def get16_def)
  let ?node = "\<lparr>modification = read_inject_data ?p 7, modification_buffer = []\<rparr>"
  have node: "create_modification_node (xa_alloc sample_answers 0) 0 ?p 7 = Some ?node"
    by (simp add: create_modification_node_def create_modification_buffer_def sample_answers_def inject read_bytes_def)
  have "\<exists>w'. ngx_cp_async_apply_verdict sample_answers 4 (Suc 0) 0 ?p 0 ?w = Some (NGX_OK, w') \<and> x_calls w' = x_calls ?w
           \<and> \<not> timer_set (agent_event (ctx_store w' 0)) \<and> \<not> timer_set (deadline_event (ctx_store w' 0))
           \<and> \<not> timer_set (cleanup_event (ctx_store w' 0))
           \<and> ngx_cp_async_deadline_handler sample_answers 4 (Suc 0) 0 w' = Some w'
           \<and> ngx_cp_async_context_cleanup_handler sample_answers 4 (Suc 0) 0 w' = Some w'"
    by (rule injection_hangs_request [where ml = "[?node]" and reply = "read_reply ?p 0"
          and hs = "\<lparr>hs_headers = [[]], hs_iterator = init_list_iterator, hs_length_cleared = False\<rparr>"])
       (simp_all add: read_sample_reply service_verdict_def fresh_event_def sample_session_def sample_request_def node
          ngx_http_cp_header_modifier_def header_modifier_loop.simps inject)
  then show ?thesis by auto
qed

text \<open>
  A second injection crashes the worker: when the list of modifications of a request is not empty, the
  next reply with modifications is appended through a pointer that was never set.
\<close>

theorem second_injection_faults:
  assumes "ac_session_id (ctx_store w a) \<noteq> 0" "ac_modifications (ctx_store w a) \<noteq> []"
    and "reply = read_reply p addr" "service_verdict (reply_verdict reply) = TRAFFIC_VERDICT_INJECT" "modification_count reply > 0"
    and "\<forall>i. xa_alloc os (x_steps w) i"
  shows "ngx_cp_async_apply_verdict os rounds depth a p addr w = None"
proof -
  let ?w = "upd_ctx a (take_verdict reply) w"
  have same: "ac_modifications (ctx_store ?w a) = ac_modifications (ctx_store w a)" "take_page reply a ?w = ?w"
    using assms(4) by (simp_all add: take_verdict_def set_ctx_verdict_def Let_def take_page_def is_verdict_drop_or_custom_def is_verdict_final_def)
  obtain n where n: "unat (modification_count reply) = Suc n"
    using assms(5) by (metis gr0_implies_Suc unat_gt_0 word_gt_0)
  obtain node where "create_modification_node (xa_alloc os (x_steps w)) 0 p (modify_data reply) = Some node"
    using assms(6) by (simp add: create_modification_node_def create_modification_buffer_def Let_def)
  then have "collect_injections (xa_alloc os (x_steps w)) 0 p (modify_data reply) (unat (modification_count reply)) False
      (ac_modifications (ctx_store w a)) = None"
    using assms(2) n by simp
  then have "take_injections (xa_alloc os (x_steps w)) p reply a (next_step ?w) = None"
    using assms(4,5) same(1) by (simp add: take_injections_def)
  then show ?thesis
    using assms(1,3,4) same(2) by (simp add: ngx_cp_async_apply_verdict_def Let_def ngx_cp_async_ctx_is_valid_def)
qed

theorem second_injection_faults_witness:
  "ngx_cp_async_apply_verdict sample_answers 4 1 0 (packed_reply 3 5 1) 0
     (upd_ctx 0 (\<lambda>c. c\<lparr>ac_modifications := [\<lparr>modification = read_inject_data (packed_reply 3 5 1) 7, modification_buffer = []\<rparr>]\<rparr>)
       (sample_world (\<lambda>_. 5) STAGE_BODY [cp_async_ctx_hash 5 \<mapsto> 0])) = None"
  by (rule second_injection_faults [OF _ _ refl]) (simp_all add: read_sample_reply service_verdict_def sample_answers_def)

section \<open>Delayed verdicts\<close>

text \<open>
  C29. A delayed verdict as the last awaited reply on the meta data is never resolved: the context, whose flow is not in
  error, goes to a stage no handler knows, and the verdict that follows, whether it inspects or accepts, leaves it there; nothing
  is sent or resumed, and the polling of the event handler does nothing.
\<close>

theorem delayed_meta_verdict_stuck:
  assumes c: "ac_session_id (ctx_store w a) \<noteq> 0" "ev_data (agent_event (ctx_store w a))" "\<not> flow_error (ctx_store w a)"
      "ac_stage (ctx_store w a) = STAGE_META_DATA" "remaining_messages (ac_session (ctx_store w a)) \<le> 1"
    and delayed: "service_verdict (reply_verdict (read_reply p addr)) = TRAFFIC_VERDICT_DELAYED"
    and resolved: "service_verdict (reply_verdict (read_reply p' addr')) \<in> {TRAFFIC_VERDICT_INSPECT, TRAFFIC_VERDICT_ACCEPT}"
  shows "\<exists>w1 w2. ngx_cp_async_apply_verdict os rounds (Suc n) a p addr w = Some (NGX_OK, w1)
           \<and> ngx_cp_async_apply_verdict os rounds (Suc n) a p' addr' w1 = Some (NGX_OK, w2)
           \<and> ac_stage (ctx_store w2 a) = STAGE_WAIT_META_VERDICT \<and> x_calls w2 = x_calls w \<and> x_ipc w2 = x_ipc w
           \<and> ngx_cp_async_event_handler os rounds (Suc n) a w2 = Some w2"
proof -
  define w1 where "w1 = upd_ctx a (ASYNC_STAGE_TRANSITION STAGE_WAIT_META_VERDICT) (replied (read_reply p addr) a w)"
  define w2 where "w2 = upd_ctx a (\<lambda>c. c\<lparr>agent_event := add_timer (agent_event c)\<rparr>) (replied (read_reply p' addr') a w1)"
  have idle: "ngx_cp_async_event_handler os rounds (Suc n) a v = Some v"
    if "ac_stage (ctx_store v a) = STAGE_WAIT_META_VERDICT" "\<not> flow_error (ctx_store v a)"
      "\<not> is_verdict_drop_or_custom (ac_verdict (ctx_store v a))" for v
    using that by (simp add: ngx_cp_async_event_handler.simps ngx_cp_async_continue_processing_def after_processing_def Let_def)
  have c1: "ac_stage (ctx_store w1 a) = STAGE_WAIT_META_VERDICT" "\<not> flow_error (ctx_store w1 a)" "ac_session_id (ctx_store w1 a) \<noteq> 0"
    "ac_verdict (ctx_store w1 a) = TRAFFIC_VERDICT_DELAYED" "remaining_messages (ac_session (ctx_store w1 a)) = 0"
    "x_calls w1 = x_calls w" "x_ipc w1 = x_ipc w"
    using c delayed replied_fields [of "read_reply p addr" a w] by (simp_all add: w1_def ASYNC_STAGE_TRANSITION_def ac_verdict_def)
  have c2: "ac_stage (ctx_store w2 a) = STAGE_WAIT_META_VERDICT" "\<not> flow_error (ctx_store w2 a)"
    "ac_verdict (ctx_store w2 a) = service_verdict (reply_verdict (read_reply p' addr'))" "x_calls w2 = x_calls w" "x_ipc w2 = x_ipc w"
    using c1 replied_fields [of "read_reply p' addr'" a w1] by (simp_all add: w2_def ac_verdict_def)
  have "ngx_cp_async_apply_verdict_for_stage a (replied (read_reply p addr) a w) = (NGX_OK, w1)"
    using c delayed replied_fields [of "read_reply p addr" a w]
    by (simp add: ngx_cp_async_apply_verdict_for_stage_def Let_def ngx_cp_async_ctx_is_valid_def is_verdict_drop_or_custom_def w1_def)
  then have first: "ngx_cp_async_apply_verdict os rounds (Suc n) a p addr w = Some (NGX_OK, w1)"
    using c delayed idle [OF c1(1,2)] c1(4) by (subst apply_plain_verdict [OF _ refl refl]) (simp_all add: is_verdict_drop_or_custom_def)
  have "ngx_cp_async_apply_verdict_for_stage a (replied (read_reply p' addr') a w1) = (NGX_AGAIN, w2)"
    using c1 replied_fields [of "read_reply p' addr'" a w1]
    by (simp add: ngx_cp_async_apply_verdict_for_stage_def Let_def ngx_cp_async_ctx_is_valid_def w2_def)
  then have second: "ngx_cp_async_apply_verdict os rounds (Suc n) a p' addr' w1 = Some (NGX_OK, w2)"
    using c1 resolved by (subst apply_plain_verdict [OF _ refl refl]) (auto simp: is_verdict_drop_or_custom_def)
  have "ngx_cp_async_event_handler os rounds (Suc n) a w2 = Some w2"
    using idle [OF c2(1,2)] c2(3) resolved by (auto simp: is_verdict_drop_or_custom_def)
  with first second c2 show ?thesis by blast
qed

theorem delayed_meta_verdict_stuck_witness:
  "\<exists>w1 w2. ngx_cp_async_apply_verdict sample_answers 4 1 0 (packed_reply 6 5 0) 0
         (sample_world (\<lambda>_. 5) STAGE_META_DATA [cp_async_ctx_hash 5 \<mapsto> 0]) = Some (NGX_OK, w1)
     \<and> ngx_cp_async_apply_verdict sample_answers 4 1 0 (packed_reply 1 5 0) 0 w1 = Some (NGX_OK, w2)
     \<and> ac_stage (ctx_store w2 0) = STAGE_WAIT_META_VERDICT \<and> x_calls w2 = []"
  using delayed_meta_verdict_stuck [where w = "sample_world (\<lambda>_. 5) STAGE_META_DATA [cp_async_ctx_hash 5 \<mapsto> 0]" and a = 0
      and os = sample_answers and rounds = 4 and n = 0 and p = "packed_reply 6 5 0" and addr = 0
      and p' = "packed_reply 1 5 0" and addr' = 0]
  by (auto simp: fresh_event_def sample_session_def read_sample_reply service_verdict_def)

text \<open>
  C7. The body of a request whose headers got a delayed verdict is not inspected. When the delayed verdict turns
  out as inspect, the next event sends the end of the request at once although a body is to come, and the reply to inspect
  resumes the held request and destroys the context, so that every part of the body passes unseen. The conditions: the context
  is in the table with no reply outstanding, its flow is not in error and no modifications are pending, the channel has room for
  the message and takes the four bytes of the signal in one write.
\<close>

theorem delayed_header_skips_body:
  assumes rep: "table_rep key w M" "M (key a) = Some a" "key a \<noteq> 0"
    and c: "ev_data (agent_event (ctx_store w a))" "\<not> flow_error (ctx_store w a)" "ac_modifications (ctx_store w a) = []"
      "ac_stage (ctx_store w a) = STAGE_WAIT_HEADER_VERDICT" "ac_verdict (ctx_store w a) = TRAFFIC_VERDICT_INSPECT"
      "remaining_messages (ac_session (ctx_store w a)) = 0" "ac_waiting (ctx_store w a)" "rq_has_body (ac_request (ctx_store w a))"
      "\<not> end_transaction_sent (ctx_store w a)"
    and channel: "x_to_service w ms" "x_room w (end_message (key a))" "xa_write os (x_steps w) \<ge> 4"
    and reply: "service_verdict (reply_verdict (read_reply p addr)) = TRAFFIC_VERDICT_INSPECT"
  shows "\<exists>w1 w2. ngx_cp_async_event_handler os (Suc r) 2 a w = Some w1 \<and> x_to_service w1 (ms @ [end_message (key a)])
           \<and> ngx_cp_async_apply_verdict os (Suc r) 1 a p addr w1 = Some (NGX_OK, w2)
           \<and> x_calls w2 = x_calls w @ [RunPhases (key a)]
           \<and> (\<forall>sd body. nsd_session_id sd = key a
                \<longrightarrow> ngx_http_cp_req_body_filter_async os (Suc r) sd body w2 = Some (next_body_filter os (key a) body w2))"
proof -
  have id: "ac_session_id (ctx_store w a) = key a" using rep(1) by (auto simp: table_rep_def table_lists_def)
  let ?w = "upd_ctx a ngx_cp_async_transition_after_wait w"
  have moved: "ngx_cp_async_transition_after_wait (ctx_store w a) = (ctx_store w a)\<lparr>ac_stage := STAGE_END_TRANSACTION\<rparr>"
    using c id rep(3) by (simp add: ngx_cp_async_transition_after_wait_def ngx_cp_async_ctx_is_valid_def
        ngx_cp_async_ctx_get_flow_error_safe_def ASYNC_STAGE_TRANSITION_def is_verdict_drop_or_custom_def)
  have "x_to_service ?w ms" "x_room ?w (end_message (ac_session_id (ctx_store ?w a)))" "xa_write os (x_steps ?w) \<ge> 4"
    using channel moved id by (simp_all add: x_to_service_def x_room_def upd_ctx_def)
  from send_end_appends [OF this] moved id obtain v where
    v: "ngx_cp_async_send_end_transaction_nonblocking os (Suc r) a ?w = Some (NGX_OK, 1, upd_ctx a (\<lambda>c. c\<lparr>end_transaction_sent := True\<rparr>) v)"
      "same_contexts ?w v" "x_to_service v (ms @ [end_message (key a)])" by auto
  let ?w1 = "snd (await_replies a 1 (\<lambda>c. c\<lparr>end_transaction_sent := True\<rparr>) (upd_ctx a (\<lambda>c. c\<lparr>end_transaction_sent := True\<rparr>) v))"
  have store: "ctx_store v = (ctx_store w)(a := (ctx_store w a)\<lparr>ac_stage := STAGE_END_TRANSACTION\<rparr>)"
    using v(2) moved by (auto simp: same_contexts_def upd_ctx_def)
  have frame: "ctx_buckets v = ctx_buckets w" "x_calls v = x_calls w" using v(2) by (simp_all add: same_contexts_def)
  have "ngx_cp_async_event_handler os (Suc r) 1 a ?w = Some ?w1"
    using c id rep(3) v(1) moved
    by (simp add: ngx_cp_async_event_handler.simps [of os _ 0] ngx_cp_async_continue_processing_def after_processing_def Let_def
        await_replies_def ngx_cp_async_ctx_is_valid_def)
  then have first: "ngx_cp_async_event_handler os (Suc r) 2 a w = Some ?w1"
    using c id rep(3) by (simp add: numeral_2_eq_2 ngx_cp_async_event_handler.simps [of os _ "Suc 0"]
        ngx_cp_async_continue_processing_def ngx_cp_async_handle_wait_verdict_def after_processing_def Let_def
        ngx_cp_async_ctx_is_valid_def ngx_cp_async_ctx_get_flow_error_safe_def)
  have "same_links w ?w1"
    by (simp add: same_links_def await_replies_def store frame)
  from final_reply [OF table_rep_same_links [OF rep(1) this] rep(2,3), of "read_reply p addr" p addr, OF _ _ _ refl refl, of os "Suc r" 0]
  obtain w2 where w2: "ngx_cp_async_apply_verdict os (Suc r) 1 a p addr ?w1 = Some (NGX_OK, w2)"
    "ngx_cp_async_find_ctx (key a) w2 = Some None" "x_calls w2 = x_calls w @ [RunPhases (key a)]"
    using c reply by (auto simp: await_replies_def is_verdict_drop_or_custom_def store frame)
  have "x_to_service ?w1 (ms @ [end_message (key a)])"
    using v(3) by (simp add: await_replies_def x_to_service_def upd_session_def upd_ctx_def)
  moreover have "ngx_http_cp_req_body_filter_async os (Suc r) sd body w2 = Some (next_body_filter os (key a) body w2)"
    if "nsd_session_id sd = key a" for sd body
    using that w2(2) by (simp add: ngx_http_cp_req_body_filter_async_def Let_def)
  ultimately show ?thesis using first w2(1,3) by blast
qed

text \<open>The sample request with an empty channel, which waits for the verdict on its headers.\<close>

definition sample_connected :: "ngx_cp_async_stage \<Rightarrow> ServiceVerdict \<Rightarrow> async_world" where
  "sample_connected stage v =
     (upd_session 0 (\<lambda>d. d\<lparr>ns_verdict := v, remaining_messages := 0\<rparr>)
       (sample_world (\<lambda>_. 5) stage [cp_async_ctx_hash 5 \<mapsto> 0]))
       \<lparr>x_ipc := Some sample_channel, x_secondary_ipc := Some sample_channel, x_process := sample_process\<rparr>"

lemma connected_table: "table_rep (\<lambda>_. 5) (sample_connected stage v) [5 \<mapsto> 0]"
  by (rule table_rep_same_links [OF sample_table [of stage]]) (simp add: same_links_def sample_connected_def)

lemma connected_ctx:
  "ctx_store (sample_connected stage v) 0
     = (sample_ctx 5 stage)\<lparr>ac_session := sample_session\<lparr>ns_verdict := v, remaining_messages := 0, nsd_session_id := 5\<rparr>\<rparr>"
  by (simp add: sample_connected_def sample_session_def)

text \<open>A socket on which every third call of the system is a write that would block.\<close>

definition hesitant :: "ngx_answers \<Rightarrow> ngx_answers" where
  "hesitant os = os\<lparr>xa_write := (\<lambda>k. if k mod 3 = 0 then -1 else 1), would_block := (\<lambda>_. True)\<rparr>"

theorem handler_nesting_ends_witness:
  "\<exists>w'. \<forall>n. ngx_cp_async_event_handler (hesitant sample_answers) 8 (n + 2) 0
     (sample_connected STAGE_WAIT_HEADER_VERDICT TRAFFIC_VERDICT_DELAYED) = Some w'"
proof (rule handler_nesting_ends [OF _ _ connected_table])
  have "\<not> (3 dvd k \<and> 3 dvd Suc (Suc k))" for k :: nat by presburger
  then show "writes_go_on (hesitant sample_answers)" by (auto simp: writes_go_on_def hesitant_def split: if_splits)
qed (simp_all add: connected_ctx sample_ctx_def)

theorem delayed_header_skips_body_witness:
  "\<exists>w1 w2. ngx_cp_async_event_handler sample_answers 4 2 0 (sample_connected STAGE_WAIT_HEADER_VERDICT TRAFFIC_VERDICT_INSPECT) = Some w1
     \<and> ngx_cp_async_apply_verdict sample_answers 4 1 0 (packed_reply 0 5 0) 0 w1 = Some (NGX_OK, w2) \<and> x_calls w2 = [RunPhases 5]
     \<and> ngx_http_cp_req_body_filter_async sample_answers 4 sample_session [Some ([1, 2], True)] w2
         = Some (next_body_filter sample_answers 5 [Some ([1, 2], True)] w2)"
proof -
  let ?w = "sample_connected STAGE_WAIT_HEADER_VERDICT TRAFFIC_VERDICT_INSPECT"
  have geom: "geometry_ok 1024 1024 4" by (simp add: geometry_ok_def ring_constants)
  have msg: "valid_msg (concat [end_message 5])" "nsegs 1024 (concat [end_message 5]) = 1"
    by (simp_all add: valid_msg_def max_write_size_def end_message_def le16_def le32_def getNumOfDataSegmentsNeeded_def)
  have "x_to_service ?w []"
    using sample_holds_2 [OF geom] by (simp add: x_to_service_def sample_connected_def sample_channel_def)
  moreover have "x_room ?w (end_message 5)"
    using room_before_end(1) [OF sample_rep_2 [OF geom] msg(1)] msg(2)
    by (simp add: x_room_def sample_connected_def sample_channel_def room_2_def sample_process_def)
  ultimately have "\<exists>w1 w2. ngx_cp_async_event_handler sample_answers (Suc 3) 2 0 ?w = Some w1 \<and> x_to_service w1 ([] @ [end_message 5])
           \<and> ngx_cp_async_apply_verdict sample_answers (Suc 3) 1 0 (packed_reply 0 5 0) 0 w1 = Some (NGX_OK, w2)
           \<and> x_calls w2 = x_calls ?w @ [RunPhases 5]
           \<and> (\<forall>sd body. nsd_session_id sd = 5
                \<longrightarrow> ngx_http_cp_req_body_filter_async sample_answers (Suc 3) sd body w2 = Some (next_body_filter sample_answers 5 body w2))"
    by (intro delayed_header_skips_body [OF connected_table, where a = 0])
       (simp_all add: connected_ctx fresh_event_def sample_session_def sample_request_def ac_verdict_def sample_ctx_def
          sample_answers_def read_sample_reply service_verdict_def)
  then show ?thesis by (auto simp: sample_session_def sample_connected_def)
qed

text \<open>
  A part of the body that arrives while the last verdict is an injection or a delayed one is refused: the
  filter destroys the context and answers forbidden, though the service has not blocked the request.
\<close>

theorem undecided_chunk_refused:
  assumes rep: "table_rep key w M" "M (key a) = Some a" "nsd_session_id sd = key a"
    and ready: "ngx_isIpcReady w" "x_async_mode w" "initial_async_mode sd" "async_processing_needed sd"
    and verdict: "ac_verdict (ctx_store w a) \<in> {TRAFFIC_VERDICT_INJECT, TRAFFIC_VERDICT_DELAYED}"
  shows "\<exists>w'. ngx_http_cp_req_body_filter_async os rounds sd body w = Some (NGX_HTTP_FORBIDDEN, w')
           \<and> ngx_cp_async_find_ctx (key a) w' = Some None \<and> x_calls w' = x_calls w"
proof -
  from destroy_frame [OF rep(1,2)] obtain w' where
    w': "ngx_cp_async_destroy_ctx a w = Some w'" "table_rep key w' (M(key a := None))" "x_calls w' = x_calls w" .
  have "ngx_http_cp_req_body_filter_async os rounds sd body w = Some (NGX_HTTP_FORBIDDEN, w')"
    using verdict ready rep(3) table_rep_find [OF rep(1), of "key a"] rep(2) w'(1)
    by (auto simp: ngx_http_cp_req_body_filter_async_def Let_def)
  with w' table_rep_find [OF w'(2), of "key a"] show ?thesis by simp
qed

theorem undecided_chunk_refused_witness:
  "\<exists>w'. ngx_http_cp_req_body_filter_async sample_answers 4 sample_session [Some ([1, 2], False)]
          (sample_connected STAGE_BODY TRAFFIC_VERDICT_INJECT) = Some (NGX_HTTP_FORBIDDEN, w')
     \<and> ngx_cp_async_find_ctx 5 w' = Some None \<and> x_calls w' = []"
  using undecided_chunk_refused [OF connected_table, where a = 0 and sd = sample_session and os = sample_answers and rounds = 4
      and stage1 = STAGE_BODY and v1 = TRAFFIC_VERDICT_INJECT and body = "[Some ([1, 2], False)]"]
  by (simp add: sample_session_def connected_ctx ac_verdict_def ngx_isIpcReady_def)
     (simp add: sample_connected_def sample_world_def upd_session_def upd_ctx_def)

end
