(* ===== verification/Ngx_Config.thy ===== *)
theory Ngx_Config
  imports Ngx_Async Ngx_Session_Rate
begin

text \<open>
  The variables of \<open>ngx_cp_utils.c\<close> that the configuration sets, and the answer pages: the block page, the
  redirect and the custom response, which are kept in static buffers until the request is rejected. A copy
  past the end of a buffer, like a read through \<open>NULL\<close>, has the result \<open>None\<close>.
\<close>

section \<open>State of a worker\<close>

record ngx_settings =
  st_updated :: bool
  st_config_version :: u64
  st_dbg_level :: int
  st_fail_open_timeout :: u32
  st_fail_open_hold_timeout :: u32
  st_hold_polling_time :: u32
  st_hold_retries :: u32
  st_inspection_mode :: u32
  st_req_max_ms :: u32
  st_res_max_ms :: u32
  st_registration_timeout :: u32
  st_req_header_timeout :: u32
  st_req_body_timeout :: u32
  st_res_header_timeout :: u32
  st_res_body_timeout :: u32
  st_wait_timeout :: u32
  st_min_retries :: u32
  st_max_retries :: u32
  st_body_size_trigger :: u32
  st_remove_server :: u32
  st_decompression_pool :: u32
  st_recompression_pool :: u32
  st_brotli :: u32
  st_num_ipc_elements :: u32
  st_keep_alive_interval :: u32
  st_paired_affinity :: u32
  st_toggled_on :: bool
  st_toggled_off :: bool
  st_static_path :: string

definition initial_settings :: ngx_settings where
  "initial_settings =
     \<lparr>st_updated = False, st_config_version = 0, st_dbg_level = 0, st_fail_open_timeout = 50, st_fail_open_hold_timeout = 150,
      st_hold_polling_time = 1, st_hold_retries = 3, st_inspection_mode = NON_BLOCKING_THREAD, st_req_max_ms = 3000,
      st_res_max_ms = 3000, st_registration_timeout = 100, st_req_header_timeout = 100, st_req_body_timeout = 150,
      st_res_header_timeout = 100, st_res_body_timeout = 150, st_wait_timeout = 150, st_min_retries = 3, st_max_retries = 15,
      st_body_size_trigger = 200000, st_remove_server = 0,
      st_decompression_pool = 262144, st_recompression_pool = 16384, st_brotli = 0, st_num_ipc_elements = 2000,
      st_keep_alive_interval = 300000, st_paired_affinity = 0, st_toggled_on = False,
      st_toggled_off = False, st_static_path = []\<rparr>"

text \<open>
  The static buffers have 64, 256, 64 and 512 bytes; a size says how many bytes of its buffer are in
  use. The body of a custom response has a length of its own and its data, \<open>None\<close> for \<open>NULL\<close>.
\<close>

record answer_pages =
  page_code :: u16
  page_parts :: "bytes list"
  title_size :: nat
  title_buf :: bytes
  body_size :: nat
  body_buf :: bytes
  uuid_size :: nat
  uuid_buf :: bytes
  redirect_size :: nat
  redirect_buf :: bytes
  add_event_id :: u8
  custom_code :: u16
  custom_headers :: "(bytes \<times> bytes) list"
  custom_len :: nat
  custom_data :: "bytes option"

definition initial_pages :: answer_pages where
  "initial_pages =
     \<lparr>page_code = 403, page_parts = replicate 4 [], title_size = 0, title_buf = replicate 64 0, body_size = 0,
      body_buf = replicate 256 0, uuid_size = 0, uuid_buf = replicate 64 0, redirect_size = 0, redirect_buf = replicate 512 0,
      add_event_id = 0, custom_code = 403, custom_headers = [], custom_len = 0, custom_data = None\<rparr>"

definition memcpy_into :: "bytes \<Rightarrow> bytes \<Rightarrow> bytes option" where
  "memcpy_into bs buf = (if length bs \<le> length buf then Some (bs @ drop (length bs) buf) else None)"

section \<open>The block page\<close>

text \<open>\<open>strstr\<close> as the position of the first occurrence.\<close>

fun strstr :: "bytes \<Rightarrow> bytes \<Rightarrow> nat option" where
  "strstr s pat =
     (if take (length pat) s = pat then Some 0
      else (case s of [] \<Rightarrow> None | _ # t \<Rightarrow> map_option Suc (strstr t pat)))"

declare strstr.simps [simp del]

definition USERCHECK_TITLE_START :: bytes where
  "USERCHECK_TITLE_START = map of_char ''<!-- CHECK_POINT_USERCHECK_TITLE_PLACEHOLDER-->''"

definition USERCHECK_BODY_START :: bytes where
  "USERCHECK_BODY_START = map of_char ''<!-- CHECK_POINT_USERCHECK_BODY_PLACEHOLDER-->''"

definition USERCHECK_UUID_START :: bytes where
  "USERCHECK_UUID_START = map of_char ''<!-- CHECK_POINT_USERCHECK_UUID_PLACEHOLDER-->''"

definition default_title :: bytes where
  "default_title = map of_char ''Attack blocked by web application protection''"

definition default_body :: bytes where
  "default_body = map of_char ''Check Point's <b>Application Security</b> has detected an attack and blocked it.''"

text \<open>The part of the text between two positions; the lengths of the code are differences of string lengths.\<close>

definition text_between :: "bytes \<Rightarrow> nat \<Rightarrow> nat \<Rightarrow> bytes option" where
  "text_between s i j = (if i \<le> j then Some (take (j - i) (drop i s)) else None)"

definition initialize_web_response_data :: "bytes \<Rightarrow> answer_pages \<Rightarrow> answer_pages option" where
  "initialize_web_response_data page_format pg =
     do {
       title_pos \<leftarrow> strstr page_format USERCHECK_TITLE_START;
       body_pos \<leftarrow> strstr page_format USERCHECK_BODY_START;
       uuid_pos \<leftarrow> strstr page_format USERCHECK_UUID_START;
       p0 \<leftarrow> text_between page_format 0 title_pos;
       tb \<leftarrow> memcpy_into default_title (title_buf pg);
       p1 \<leftarrow> text_between page_format (title_pos + length USERCHECK_TITLE_START) body_pos;
       bb \<leftarrow> memcpy_into default_body (body_buf pg);
       p2 \<leftarrow> text_between page_format (body_pos + length USERCHECK_BODY_START) uuid_pos;
       p3 \<leftarrow> text_between page_format (uuid_pos + length USERCHECK_UUID_START) (length page_format);
       Some (pg\<lparr>page_parts := [p0, p1, p2, p3], title_size := length default_title, title_buf := tb,
                body_size := length default_body, body_buf := bb, uuid_size := 0\<rparr>)
     }"

definition set_custom_response_block_page :: "bytes \<Rightarrow> bytes \<Rightarrow> bytes \<Rightarrow> u16 \<Rightarrow> answer_pages \<Rightarrow> answer_pages option" where
  "set_custom_response_block_page title body uuid response_code pg =
     do {
       let pg1 = pg\<lparr>page_code := response_code, title_size := length title, body_size := length body, uuid_size := length uuid\<rparr>;
       ub \<leftarrow> memcpy_into (uuid @ [0]) (uuid_buf pg1);
       let pg2 = pg1\<lparr>uuid_buf := ub\<rparr>;
       if title_size pg2 = 0 \<or> body_size pg2 = 0 then Some pg2
       else
         do {
           tb \<leftarrow> memcpy_into title (title_buf pg2);
           bb \<leftarrow> memcpy_into body (body_buf pg2);
           Some (pg2\<lparr>title_buf := tb, body_buf := bb\<rparr>)
         }
     }"

definition set_redirect_response :: "bytes \<Rightarrow> bytes \<Rightarrow> u8 \<Rightarrow> answer_pages \<Rightarrow> answer_pages option" where
  "set_redirect_response location uuid add_event_id_to_header pg =
     do {
       rb \<leftarrow> memcpy_into location (redirect_buf pg);
       let n = (if length uuid \<ge> 64 then 63 else length uuid);
       ub \<leftarrow> memcpy_into (take n uuid @ [0]) (uuid_buf pg);
       Some (pg\<lparr>page_code := 307, add_event_id := add_event_id_to_header, redirect_size := length location,
                redirect_buf := rb, uuid_size := n, uuid_buf := ub\<rparr>)
     }"

text \<open>
  The chain of the block page: parts of the text with title, body and incident id between them. There is none
  without a title or a body, or when one of the seven buffers is not allocated.
\<close>

definition get_block_page_response :: "(nat \<Rightarrow> bool) \<Rightarrow> answer_pages \<Rightarrow> bytes list option" where
  "get_block_page_response allocated pg =
     (if title_size pg = 0 \<or> body_size pg = 0 then None
      else if \<not> list_all allocated [0..<7] then None
      else Some [page_parts pg ! 0, take (title_size pg) (title_buf pg), page_parts pg ! 1, take (body_size pg) (body_buf pg),
                 page_parts pg ! 2, incident_prefix @ take (uuid_size pg) (uuid_buf pg), page_parts pg ! 3])"

definition get_response_page_length_web_page :: "answer_pages \<Rightarrow> nat" where
  "get_response_page_length_web_page pg =
     (if title_size pg = 0 \<or> body_size pg = 0 then 0
      else sum_list (map length (page_parts pg)) + title_size pg + body_size pg + length incident_prefix + uuid_size pg)"

section \<open>The custom response\<close>

text \<open>\<open>pool\<close> says whether the memory pool is there, \<open>allocated\<close> whether the copy of the body can be allocated.\<close>

definition set_custom_response ::
    "bool \<Rightarrow> bool \<Rightarrow> bytes \<Rightarrow> u16 \<Rightarrow> (bytes \<times> bytes) list \<Rightarrow> answer_pages \<Rightarrow> answer_pages" where
  "set_custom_response pool allocated body response_code headers pg =
     (let pg1 = pg\<lparr>custom_code := response_code, custom_headers := headers\<rparr>;
          pg2 = (if custom_data pg1 \<noteq> None \<and> pool then pg1\<lparr>custom_data := None, custom_len := 0\<rparr> else pg1)
      in if pool \<and> body \<noteq> []
         then pg2\<lparr>custom_len := length body, custom_data := (if allocated then Some body else None)\<rparr> else pg2)"

definition get_custom_response_page :: "bool \<Rightarrow> answer_pages \<Rightarrow> bytes option" where
  "get_custom_response_page allocated pg =
     (if \<not> allocated then None
      else if custom_data pg = None \<or> custom_len pg = 0 then None else custom_data pg)"

text \<open>The same packed structures as those the nano attachment reads.\<close>

definition ngx_handle_custom_web_response :: "memory \<Rightarrow> nat \<Rightarrow> answer_pages \<Rightarrow> answer_pages option" where
  "ngx_handle_custom_web_response p addr pg =
     (let uuid_len = unat (p (addr + 1)); data = addr + 6 in
      if p addr = 3 then
        let n = unat (get16 p (addr + 4))
        in set_redirect_response (read_bytes p data n) (read_bytes p (data + n) uuid_len) (p (addr + 3)) pg
      else
        let t = unat (p (addr + 4)); b = unat (p (addr + 5))
        in set_custom_response_block_page (read_bytes p data t) (read_bytes p (data + t) b) (read_bytes p (data + t + b) uuid_len)
             (get16 p (addr + 2)) pg)"

text \<open>Three allocations per header; when one fails the headers of the response before are dropped.\<close>

fun ngx_parse_headers ::
    "(nat \<Rightarrow> bool) \<Rightarrow> nat \<Rightarrow> memory \<Rightarrow> nat \<Rightarrow> nat \<Rightarrow> ((bytes \<times> bytes) list \<times> nat) option" where
  "ngx_parse_headers alloc k p data_ptr 0 = Some ([], data_ptr)"
| "ngx_parse_headers alloc k p data_ptr (Suc n) =
     (let key_size = unat (get16 p data_ptr); value_size = unat (get16 p (data_ptr + 2)); key_ptr = data_ptr + 4 in
      if \<not> alloc k \<or> \<not> alloc (k + 1) \<or> \<not> alloc (k + 2) then None
      else map_option
             (\<lambda>(hs, ptr). ((read_bytes p key_ptr key_size, read_bytes p (key_ptr + key_size) value_size) # hs, ptr))
             (ngx_parse_headers alloc (k + 3) p (key_ptr + key_size + value_size) n))"

definition ngx_handle_custom_response :: "bool \<Rightarrow> (nat \<Rightarrow> bool) \<Rightarrow> memory \<Rightarrow> nat \<Rightarrow> answer_pages \<Rightarrow> ngx_int \<times> answer_pages" where
  "ngx_handle_custom_response pool alloc p addr pg =
     (if \<not> pool then (NGX_ERROR, pg)
      else
        let headers_count = unat (p (addr + 4)) in
        (case ngx_parse_headers alloc 0 p (addr + 5) headers_count of
           None \<Rightarrow> (NGX_ERROR, pg\<lparr>custom_headers := []\<rparr>)
         | Some (headers, data_ptr) \<Rightarrow>
             (NGX_OK, set_custom_response pool (alloc (3 * headers_count))
                        (read_bytes p data_ptr (unat (get16 p (addr + 2)))) (get16 p addr) headers pg)))"

section \<open>Loading the configuration\<close>

text \<open>
  The state of a worker process: the part the asynchronous mode shares, the settings, the answer
  pages, the session limit, whether the memory pool is set, and the static variables of the hooks and
  of the senders: whether the worker is registered, how long it waits before it tries again, when
  metrics are due, whether failing state and metrics were reset, the next session number, the
  number of meta data messages that failed in a row; and those of the initialisation: the unique
  id, the path of the service, the container id once it was read, the metadata file, the
  names of the static resources once they were read, and the number of workers.
\<close>

record ngx_worker =
  wk :: async_world
  settings :: ngx_settings
  pages :: answer_pages
  rate :: session_rate
  memory_pool :: bool
  already_registered :: bool
  registration_duration :: u32
  registration_timeout :: timeval
  metric_timeout :: timeval
  failure_state_initialized :: bool
  metric_data_initialized :: bool
  next_session :: u32
  meta_failures :: nat
  wk_unique_id :: string
  wk_signal_path :: bytes
  wk_registration_socket :: int
  wk_docker_id :: "string option"
  wk_metadata_file :: "bytes option"
  wk_static_resources :: "bytes list option"
  workers_amount_to_send :: nat
  connection_attempts :: nat

text \<open>
  An empty path has no last character: the code reads the character before it, which is \<open>before\<close>.
  \<open>snprintf\<close> writes one character less than the size it is given.
\<close>

definition set_static_resources_path :: "char \<Rightarrow> string \<Rightarrow> string" where
  "set_static_resources_path before new_path =
     (let new_path_len = min (length new_path) 254;
          is_path_terminated_with_slash = ((if new_path_len = 0 then before else new_path ! (new_path_len - 1)) = CHR ''/'')
      in if is_path_terminated_with_slash then take new_path_len new_path
         else take (Suc new_path_len) (new_path @ ''/''))"

definition load_settings :: "char \<Rightarrow> HttpAttachmentConfiguration \<Rightarrow> bool \<Rightarrow> ngx_settings \<Rightarrow> ngx_settings" where
  "load_settings before c was_async st =
     (let num = getNumericalValue c; is_async = (num ''is_async_mode_enabled'' \<noteq> 0) in
      st\<lparr>st_dbg_level := sint (num ''dbg_level''),
         st_fail_open_timeout := num ''fail_open_timeout'',
         st_fail_open_hold_timeout := num ''fail_open_hold_timeout'',
         st_hold_polling_time := num ''hold_verdict_polling_time'',
         st_hold_retries := num ''hold_verdict_retries'',
         st_inspection_mode := num ''nginx_inspection_mode'',
         st_req_max_ms := num ''req_proccessing_timeout_msec'',
         st_res_max_ms := num ''res_proccessing_timeout_msec'',
         st_registration_timeout := num ''registration_thread_timeout_msec'',
         st_req_header_timeout := num ''req_header_thread_timeout_msec'',
         st_req_body_timeout := num ''req_body_thread_timeout_msec'',
         st_res_header_timeout := num ''res_header_thread_timeout_msec'',
         st_res_body_timeout := num ''res_body_thread_timeout_msec'',
         st_wait_timeout := num ''waiting_for_verdict_thread_timeout_msec'',
         st_min_retries := num ''min_retries_for_verdict'',
         st_max_retries := num ''max_retries_for_verdict'',
         st_body_size_trigger := num ''body_size_trigger'',
         st_remove_server := num ''remove_server_header'',
         st_decompression_pool := num ''decompression_pool_size'',
         st_recompression_pool := num ''recompression_pool_size'',
         st_brotli := num ''is_brotli_inspection_enabled'',
         st_num_ipc_elements := num ''num_of_nginx_ipc_elements'',
         st_keep_alive_interval := num ''keep_alive_interval_msec'',
         st_paired_affinity := num ''is_paired_affinity_enabled'',
         st_toggled_on := (if is_async \<noteq> was_async then is_async else st_toggled_on st),
         st_toggled_off := (if is_async \<noteq> was_async then was_async else st_toggled_off st),
         st_static_path := set_static_resources_path before (getStringValue c ''static_resources_path''),
         st_updated := True\<rparr>)"

definition init_general_config :: "bytes \<Rightarrow> char \<Rightarrow> conf_source \<Rightarrow> ngx_worker \<Rightarrow> (ngx_int \<times> ngx_worker) option" where
  "init_general_config page_format before cs k =
     (if \<not> cs_exists cs then Some (NGX_ERROR, k)
      else if st_updated (settings k) then Some (NGX_OK, k)
      else
        let (ok, c) = initAttachmentConfig (cs_environ cs) (cs_file cs) (x_conf (wk k));
            k1 = k\<lparr>wk := (wk k)\<lparr>x_conf := c\<rparr>\<rparr>
        in if \<not> ok then Some (NGX_ERROR, k1)
           else
             let num = getNumericalValue c in
             if sint (num ''dbg_level'') \<ge> sint DBG_LEVEL_COUNT
             then Some (NGX_ERROR, k1\<lparr>settings := (settings k1)\<lparr>st_updated := False\<rparr>\<rparr>)
             else
               do {
                 pg \<leftarrow> (if title_size (pages k1) = 0 \<or> body_size (pages k1) = 0
                        then initialize_web_response_data page_format (pages k1) else Some (pages k1));
                 Some (NGX_OK,
                   k1\<lparr>pages := pg,
                      settings := load_settings before c (x_async_mode (wk k1)) (settings k1),
                      rate := (rate k1)\<lparr>
                        session_rate.sessions_per_minute_limit_verdict :=
                          (if getStringValue c ''sessions_per_minute_limit_verdict'' = ''Accept''
                           then TRAFFIC_VERDICT_ACCEPT else TRAFFIC_VERDICT_DROP),
                        session_rate.max_sessions_per_minute := num ''max_sessions_per_minute''\<rparr>,
                      wk := (wk k1)\<lparr>
                        fail_mode_open := (num ''is_fail_open_mode_enabled'' = 1),
                        fail_mode_hold_open := (num ''is_fail_open_mode_hold_enabled'' = 1),
                        x_async_mode := (num ''is_async_mode_enabled'' \<noteq> 0)\<rparr>\<rparr>)
               })"

definition ngx_reset_attachment_config :: "bytes \<Rightarrow> char \<Rightarrow> conf_source \<Rightarrow> ngx_worker \<Rightarrow> (ngx_int \<times> ngx_worker) option" where
  "ngx_reset_attachment_config page_format before cs k =
     init_general_config page_format before cs
       (k\<lparr>settings := (settings k)\<lparr>st_updated := False, st_config_version := st_config_version (settings k) + 1\<rparr>\<rparr>)"

end
