(* ===== verification/Ngx_Io.thy ===== *)
theory Ngx_Io
  imports Ngx_Config
begin

text \<open>
  The synchronous exchange with the service (\<open>ngx_cp_io.c\<close>): signalling, sending and receiving over the
  channel of the filter mode, the replies of a session, and the senders. A loop over a socket takes
  a number of rounds; the result \<open>None\<close> is a loop that has not ended within them, or a fault.
\<close>

section \<open>Answers of the system\<close>

text \<open>
  By the number of the call: those the asynchronous mode needs too, what the service does to a channel
  while the worker waits, the answer of \<open>poll\<close> to a time-out with whether it reports a broken
  connection, of \<open>read\<close> (\<open>None\<close> is an error), whether the second of signalling is over, whether a failed
  write found the connection lost, the configuration file, the bytes of a read past an object.
\<close>

record sync_answers =
  sa_os :: ngx_answers
  sa_service :: "nat \<Rightarrow> SharedMemoryIPC_2 \<Rightarrow> SharedMemoryIPC_2"
  sa_poll :: "nat \<Rightarrow> u32 \<Rightarrow> int \<times> bool"
  sa_read :: "nat \<Rightarrow> bytes option"
  sa_timeout :: "nat \<Rightarrow> bool"
  sa_connection_lost :: "nat \<Rightarrow> bool"
  sa_conf :: "nat \<Rightarrow> conf_source"
  sa_page_format :: bytes
  sa_before :: char
  sa_garbage :: "nat \<Rightarrow> bool"

definition on_world :: "(async_world \<Rightarrow> async_world) \<Rightarrow> ngx_worker \<Rightarrow> ngx_worker" where
  "on_world f k = k\<lparr>wk := f (wk k)\<rparr>"

definition sync_step :: "ngx_worker \<Rightarrow> ngx_worker" where
  "sync_step = on_world next_step"

definition steps :: "ngx_worker \<Rightarrow> nat" where
  "steps k = x_steps (wk k)"

text \<open>The filter mode is true for \<open>ASYNC_FILTER\<close>, which uses the second channel.\<close>

definition get_ipc_for_mode :: "bool \<Rightarrow> ngx_worker \<Rightarrow> SharedMemoryIPC_2 option" where
  "get_ipc_for_mode filter_mode k = (if filter_mode then x_secondary_ipc (wk k) else x_ipc (wk k))"

definition put_ipc_for_mode :: "bool \<Rightarrow> ring_process \<Rightarrow> SharedMemoryIPC_2 option \<Rightarrow> ngx_worker \<Rightarrow> ngx_worker" where
  "put_ipc_for_mode filter_mode P ipc =
     on_world (\<lambda>w. if filter_mode then w\<lparr>x_process := P, x_secondary_ipc := ipc\<rparr> else w\<lparr>x_process := P, x_ipc := ipc\<rparr>)"

definition get_socket_for_mode :: "bool \<Rightarrow> ngx_worker \<Rightarrow> int" where
  "get_socket_for_mode filter_mode k = (if filter_mode then x_secondary_socket (wk k) else x_comm_socket (wk k))"

definition ngx_service_acts :: "sync_answers \<Rightarrow> ngx_worker \<Rightarrow> ngx_worker" where
  "ngx_service_acts os k =
     sync_step (on_world (\<lambda>w. w\<lparr>x_ipc := map_option (sa_service os (steps k)) (x_ipc w),
                                x_secondary_ipc := map_option (sa_service os (steps k)) (x_secondary_ipc w)\<rparr>) k)"

section \<open>Signalling\<close>

fun ngx_http_cp_signal_to_service ::
    "sync_answers \<Rightarrow> nat \<Rightarrow> bool \<Rightarrow> bytes \<Rightarrow> ngx_worker \<Rightarrow> (ngx_int \<times> ngx_worker) option" where
  "ngx_http_cp_signal_to_service os rounds filter_mode data k =
     (if data = [] then Some (NGX_OK, k)
      else
        (case rounds of
           0 \<Rightarrow> None
         | Suc n \<Rightarrow>
             let res = xa_write (sa_os os) (steps k); k1 = sync_step k in
             if res > 0 then
               ngx_http_cp_signal_to_service os n filter_mode (drop (nat res) data)
                 (on_world (\<lambda>w. w\<lparr>x_sent := x_sent w @ [(get_socket_for_mode filter_mode k, take (nat res) data)]\<rparr>) k1)
             else if res < 0 then
               Some (if filter_mode \<and> \<not> sa_connection_lost os (steps k) then (NGX_HTTP_REQUEST_TIME_OUT, k1)
                     else (NGX_ERROR, on_world ngx_disconnect_communication k1))
             else if st_inspection_mode (settings k) = NON_BLOCKING_THREAD \<and> sa_timeout os (steps k1)
             then Some (NGX_HTTP_REQUEST_TIME_OUT, sync_step k1)
             else ngx_http_cp_signal_to_service os n filter_mode data (sync_step k1)))"

declare ngx_http_cp_signal_to_service.simps [simp del]

text \<open>
  The acknowledgement, in up to \<open>retries\<close> polls; outside of the mode \<open>NON_BLOCKING_THREAD\<close> they are not counted.
  What was read of the four bytes is kept from poll to poll.
\<close>

fun await_ack ::
    "sync_answers \<Rightarrow> nat \<Rightarrow> u32 \<Rightarrow> bool \<Rightarrow> u32 \<Rightarrow> nat \<Rightarrow> bytes \<Rightarrow> ngx_worker \<Rightarrow> (ngx_int \<times> ngx_worker) option" where
  "await_ack os rounds timeout filter_mode cur_session_id retries got k =
     (if retries = 0 then Some (NGX_HTTP_REQUEST_TIME_OUT, k)
      else
        (case rounds of
           0 \<Rightarrow> None
         | Suc n \<Rightarrow>
             let is_fail_open_disabled = (st_inspection_mode (settings k) \<noteq> NON_BLOCKING_THREAD);
                 left = (if is_fail_open_disabled then retries else retries - 1);
                 (res, broken) = sa_poll os (steps k) (if is_fail_open_disabled then 150 else timeout);
                 k1 = ngx_service_acts os k
             in if res < 0 then Some (NGX_ERROR, k1)
                else if res = 0 then await_ack os n timeout filter_mode cur_session_id left got k1
                else if filter_mode \<and> broken then Some (NGX_ERROR, k1)
                else
                  (case sa_read os (steps k1) of
                     None \<Rightarrow> Some (NGX_ERROR, sync_step k1)
                   | Some bs \<Rightarrow>
                       if bs = [] then Some (NGX_ERROR, sync_step k1)
                       else
                         let got1 = got @ take (4 - length got) bs; k2 = sync_step k1 in
                         if length got1 \<noteq> 4 then await_ack os n timeout filter_mode cur_session_id left got1 k2
                         else
                           let reply_from_service = get32 (\<lambda>i. got1 ! i) 0 in
                           Some (if reply_from_service = cur_session_id then (NGX_OK, k2)
                                 else if reply_from_service = CORRUPTED_SESSION_ID then (NGX_ERROR, k2)
                                 else (NGX_AGAIN, k2)))))"

declare await_ack.simps [simp del]

text \<open>The senders pass the time-out of fail-open where a type of chunk is expected; it is compared as a number.\<close>

definition ngx_http_cp_wait_for_service ::
    "sync_answers \<Rightarrow> nat \<Rightarrow> u32 \<Rightarrow> u32 \<Rightarrow> u32 \<Rightarrow> bool \<Rightarrow> ngx_worker \<Rightarrow> (ngx_int \<times> ngx_worker) option" where
  "ngx_http_cp_wait_for_service os rounds cur_session_id chunk_type tout_retries filter_mode k =
     do {
       let timeout = (if chunk_type = ucast (data_type_code REQUEST_DELAYED_VERDICT)
                      then st_fail_open_hold_timeout (settings k) else st_fail_open_timeout (settings k));
       (res, k1) \<leftarrow> ngx_http_cp_signal_to_service os rounds filter_mode (le32 cur_session_id) k;
       if res \<noteq> NGX_OK then Some (res, k1)
       else await_ack os rounds timeout filter_mode cur_session_id (unat tout_retries) [] k1
     }"

section \<open>Sending and receiving\<close>

definition sync_push :: "sync_answers \<Rightarrow> bool \<Rightarrow> bytes list \<Rightarrow> ngx_worker \<Rightarrow> int \<times> ngx_worker" where
  "sync_push os filter_mode fragments k =
     (case sendChunkedData_2 (xa_files (sa_os os)) (x_process (wk k)) (get_ipc_for_mode filter_mode k) fragments of
        (err_code, P, ipc) \<Rightarrow> (err_code, put_ipc_for_mode filter_mode P ipc k))"

text \<open>
  Five attempts. The variable \<open>res\<close> keeps the result of the last wait, and a push that is accepted ends
  the loop only when that is \<open>NGX_OK\<close>. \<open>was_waiting\<close> is set with the first wait.
\<close>

fun sync_send_attempts ::
    "sync_answers \<Rightarrow> nat \<Rightarrow> bytes list \<Rightarrow> u32 \<Rightarrow> u32 \<Rightarrow> u32 \<Rightarrow> bool \<Rightarrow> nat \<Rightarrow> ngx_int \<Rightarrow> bool \<Rightarrow> ngx_worker
     \<Rightarrow> (ngx_int \<times> bool \<times> ngx_worker) option" where
  "sync_send_attempts os rounds fragments sid chunk_type retries filter_mode 0 res was_waiting k = Some (NGX_ERROR, was_waiting, k)"
| "sync_send_attempts os rounds fragments sid chunk_type retries filter_mode (Suc n) res was_waiting k =
     (let (err_code, k1) = sync_push os filter_mode fragments k in
      if res = NGX_OK \<and> err_code = 0 then Some (NGX_OK, was_waiting, k1)
      else
        do {
          (res2, k2) \<leftarrow> ngx_http_cp_wait_for_service os rounds sid chunk_type retries filter_mode k1;
          if res2 \<noteq> NGX_OK \<and> res2 \<noteq> NGX_AGAIN then Some (res2, True, k2)
          else sync_send_attempts os rounds fragments sid chunk_type retries filter_mode n res2 True k2
        })"

definition ngx_http_cp_send_data_to_service ::
    "sync_answers \<Rightarrow> nat \<Rightarrow> u32 \<Rightarrow> u32 \<Rightarrow> u32 \<Rightarrow> bool \<Rightarrow> bytes list \<Rightarrow> ngx_worker \<Rightarrow> (ngx_int \<times> bool \<times> ngx_worker) option" where
  "ngx_http_cp_send_data_to_service os rounds cur_session_id chunk_type tout_retries filter_mode fragments k =
     sync_send_attempts os rounds fragments cur_session_id chunk_type tout_retries filter_mode 5 NGX_OK False k"

fun ngx_http_cp_receive_data_from_service ::
    "sync_answers \<Rightarrow> nat \<Rightarrow> bool \<Rightarrow> ngx_worker \<Rightarrow> nat option \<times> ngx_worker" where
  "ngx_http_cp_receive_data_from_service os 0 filter_mode k = (None, k)"
| "ngx_http_cp_receive_data_from_service os (Suc n) filter_mode k =
     (let ipc = get_ipc_for_mode filter_mode k in
      if \<not> isDataAvailable_2 ipc then ngx_http_cp_receive_data_from_service os n filter_mode (ngx_service_acts os k)
      else
        (case receiveData_2 (xa_files (sa_os os)) (x_process (wk k)) ipc of
           None \<Rightarrow> ngx_http_cp_receive_data_from_service os n filter_mode (ngx_service_acts os k)
         | Some (res, reply_data, P, ipc1) \<Rightarrow>
             let k1 = put_ipc_for_mode filter_mode P ipc1 k in
             (case reply_data of
                None \<Rightarrow> ngx_http_cp_receive_data_from_service os n filter_mode (ngx_service_acts os k1)
              | Some (addr, reply_size) \<Rightarrow>
                  if res < 0 then ngx_http_cp_receive_data_from_service os n filter_mode (ngx_service_acts os k1)
                  else (Some addr, k1))))"

definition free_data_from_service :: "sync_answers \<Rightarrow> bool \<Rightarrow> ngx_worker \<Rightarrow> ngx_worker" where
  "free_data_from_service os filter_mode k =
     (let ipc = get_ipc_for_mode filter_mode k in
      if isDataAvailable_2 ipc then
        (case popData_2 (xa_files (sa_os os)) (x_process (wk k)) ipc of (_, P, ipc1) \<Rightarrow> put_ipc_for_mode filter_mode P ipc1 k)
      else k)"

text \<open>The bytes a reply points into.\<close>

definition sync_rx_memory :: "bool \<Rightarrow> ngx_worker \<Rightarrow> memory option" where
  "sync_rx_memory filter_mode k =
     do { ipc \<leftarrow> get_ipc_for_mode filter_mode k; q \<leftarrow> rx_queue_2 ipc; Some (payload q) }"

definition sync_reset_config :: "sync_answers \<Rightarrow> ngx_worker \<Rightarrow> ngx_worker option" where
  "sync_reset_config os k =
     map_option snd (ngx_reset_attachment_config (sa_page_format os) (sa_before os) (sa_conf os (steps k)) (sync_step k))"

definition ngx_http_cp_is_reconf_needed :: "sync_answers \<Rightarrow> ngx_worker \<Rightarrow> (ngx_int \<times> ngx_worker) option" where
  "ngx_http_cp_is_reconf_needed os k =
     (if x_ipc (wk k) = None then Some (NGX_ERROR, k)
      else
        do {
          (res, reply_data, P, ipc) \<leftarrow> receiveData_2 (xa_files (sa_os os)) (x_process (wk k)) (x_ipc (wk k));
          let k1 = put_ipc_for_mode False P ipc k;
          (case reply_data of
             None \<Rightarrow> Some (NGX_ERROR, k1)
           | Some (addr, reply_size) \<Rightarrow>
               if res < 0 then Some (NGX_ERROR, k1)
               else
                 do {
                   p \<leftarrow> sync_rx_memory False k1;
                   if service_verdict (reply_verdict (read_reply p addr)) = TRAFFIC_VERDICT_RECONF then
                     do { k2 \<leftarrow> sync_reset_config os k1; Some (NGX_OK, free_data_from_service os False k2) }
                   else Some (NGX_ERROR, k1)
                 })
        })"

section \<open>The replies of a session\<close>

record sync_session = ngx_http_cp_session_data +
  inspect_all_response_headers :: bool
  processed_res_body_size :: u64
  original_compression_type :: CompressionType
  new_compression_type :: CompressionType

definition set_sync_verdict :: "ServiceVerdict \<Rightarrow> sync_session \<Rightarrow> sync_session" where
  "set_sync_verdict v d = d\<lparr>ns_verdict := v\<rparr>"

text \<open>
  One reply, at an address of the receiving queue, to a session with its modifications: \<open>Inl\<close> ends the
  receiving, \<open>Inr\<close> goes on to the next reply. New modifications are hooked behind the last node of the
  list; when one of them cannot be made the list is freed and the reply stays in the queue.
\<close>

type_synonym sync_outcome = "ngx_int \<times> sync_session \<times> NanoHttpModification list \<times> ngx_worker"

definition ngx_handle_reply ::
    "sync_answers \<Rightarrow> bool \<Rightarrow> memory \<Rightarrow> nat \<Rightarrow> sync_session \<Rightarrow> NanoHttpModification list \<Rightarrow> ngx_worker
     \<Rightarrow> (sync_outcome + (sync_session \<times> NanoHttpModification list \<times> ngx_worker)) option" where
  "ngx_handle_reply os filter_mode p addr d ml k =
     (let reply = read_reply p addr; alloc = xa_alloc (sa_os os) (steps k);
          free = free_data_from_service os filter_mode;
          count = (\<lambda>t. on_world (Ngx_Async_Context.count_metric t 1));
          continue = (\<lambda>d ml k. Some (Inr (d, ml, free k)))
      in (case ns_verdict d of
            TRAFFIC_VERDICT_INJECT \<Rightarrow>
              do {
                let k1 = count INJECT_VERDICTS_COUNT (sync_step k);
                (made, ml1) \<leftarrow> collect_injections alloc 0 p (modify_data reply) (unat (modification_count reply)) True ml;
                if \<not> made then Some (Inl (NGX_ERROR, d, [], k1))
                else continue (set_sync_verdict TRAFFIC_VERDICT_INSPECT d) ml1 k1
              }
          | TRAFFIC_VERDICT_DROP \<Rightarrow>
              do {
                pg \<leftarrow> ngx_handle_custom_web_response p (modify_data reply) (pages k);
                Some (Inl (NGX_HTTP_FORBIDDEN, d\<lparr>remaining_messages := 0\<rparr>, [],
                           free ((count DROP_VERDICTS_COUNT k)\<lparr>pages := pg\<rparr>)))
              }
          | TRAFFIC_VERDICT_ACCEPT \<Rightarrow>
              Some (Inl (NGX_OK, d\<lparr>remaining_messages := 0\<rparr>, ml, free (count ACCEPT_VERDICTS_COUNT k)))
          | TRAFFIC_VERDICT_IRRELEVANT \<Rightarrow> continue d ml (count IRRELEVANT_VERDICTS_COUNT k)
          | TRAFFIC_VERDICT_RECONF \<Rightarrow>
              do { k1 \<leftarrow> sync_reset_config os (count RECONF_VERDICTS_COUNT k); continue d ml k1 }
          | TRAFFIC_VERDICT_INSPECT \<Rightarrow> continue d ml (count INSPECT_VERDICTS_COUNT k)
          | TRAFFIC_VERDICT_DELAYED \<Rightarrow> continue d ml (count HOLD_VERDICTS_COUNT k)
          | LIMIT_RESPONSE_HEADERS \<Rightarrow> continue (d\<lparr>inspect_all_response_headers := False\<rparr>) ml k
          | TRAFFIC_VERDICT_CUSTOM_RESPONSE \<Rightarrow>
              (case ngx_handle_custom_response (memory_pool k) alloc p (modify_data reply) (pages k) of
                 (_, pg) \<Rightarrow> Some (Inl (NGX_OK, d\<lparr>remaining_messages := 0\<rparr>, [], free ((sync_step k)\<lparr>pages := pg\<rparr>))))
          | _ \<Rightarrow> continue d ml k))"

text \<open>
  The loop over the expected replies. A reply to another session is dropped; a reconfiguration and
  the limit of response headers are taken whatever their session is, and do not count.
\<close>

definition uncounted_reply :: "ServiceVerdict \<Rightarrow> bool" where
  "uncounted_reply v \<longleftrightarrow> v = TRAFFIC_VERDICT_RECONF \<or> v = LIMIT_RESPONSE_HEADERS"

fun sync_receive_replies ::
    "sync_answers \<Rightarrow> nat \<Rightarrow> bool \<Rightarrow> sync_session \<Rightarrow> NanoHttpModification list \<Rightarrow> ngx_worker \<Rightarrow> sync_outcome option" where
  "sync_receive_replies os rounds filter_mode d ml k =
     (if remaining_messages d = 0 then Some (NGX_OK, d, ml, k)
      else
        (case rounds of
           0 \<Rightarrow> None
         | Suc n \<Rightarrow>
             (case ngx_http_cp_receive_data_from_service os 5 filter_mode k of
                (None, k1) \<Rightarrow> Some (NGX_ERROR, d, ml, k1)
              | (Some addr, k1) \<Rightarrow>
                  do {
                    p \<leftarrow> sync_rx_memory filter_mode k1;
                    let reply = read_reply p addr;
                    let v = service_verdict (reply_verdict reply);
                    if \<not> uncounted_reply v \<and> reply_session_id reply \<noteq> nsd_session_id d
                    then sync_receive_replies os n filter_mode d ml (free_data_from_service os filter_mode k1)
                    else
                      do {
                        outcome \<leftarrow> ngx_handle_reply os filter_mode p addr
                          (set_sync_verdict v
                            (if uncounted_reply v then d else d\<lparr>remaining_messages := remaining_messages d - 1\<rparr>)) ml k1;
                        (case outcome of
                           Inl ended \<Rightarrow> Some ended
                         | Inr (d2, ml2, k2) \<Rightarrow> sync_receive_replies os n filter_mode d2 ml2 k2)
                      }
                  })))"

declare sync_receive_replies.simps [simp del]

fun wait_until_answered ::
    "sync_answers \<Rightarrow> nat \<Rightarrow> u32 \<Rightarrow> AttachmentDataType \<Rightarrow> u32 \<Rightarrow> bool \<Rightarrow> ngx_worker \<Rightarrow> (ngx_int \<times> ngx_worker) option" where
  "wait_until_answered os 0 sid chunk_type retries filter_mode k = None"
| "wait_until_answered os (Suc n) sid chunk_type retries filter_mode k =
     do {
       (res, k1) \<leftarrow> ngx_http_cp_wait_for_service os n sid (ucast (data_type_code chunk_type)) retries filter_mode k;
       if res = NGX_AGAIN then wait_until_answered os n sid chunk_type retries filter_mode k1 else Some (res, k1)
     }"

definition ngx_http_cp_reply_receiver ::
    "sync_answers \<Rightarrow> nat \<Rightarrow> AttachmentDataType \<Rightarrow> u64 \<Rightarrow> bool \<Rightarrow> sync_session \<Rightarrow> NanoHttpModification list \<Rightarrow> ngx_worker
     \<Rightarrow> sync_outcome option" where
  "ngx_http_cp_reply_receiver os rounds chunk_type processed_body_size filter_mode d ml k =
     (if remaining_messages d = 0 then Some (NGX_OK, set_sync_verdict TRAFFIC_VERDICT_INSPECT d, ml, k)
      else
        do {
          let tout_retries = (if processed_body_size > ucast (st_body_size_trigger (settings k))
                              then st_max_retries (settings k) else st_min_retries (settings k));
          (res, k1) \<leftarrow> wait_until_answered os rounds (nsd_session_id d) chunk_type tout_retries filter_mode k;
          if res \<noteq> NGX_OK then Some (NGX_ERROR, d, ml, k1)
          else sync_receive_replies os rounds filter_mode d ml k1
        })"

section \<open>Senders\<close>

text \<open>The function all senders use, with the fail-open time-out in the place of the chunk type.\<close>

definition send_message ::
    "sync_answers \<Rightarrow> nat \<Rightarrow> u32 \<Rightarrow> bool \<Rightarrow> bytes list \<Rightarrow> ngx_worker \<Rightarrow> (ngx_int \<times> ngx_worker) option" where
  "send_message os rounds sid filter_mode fragments k =
     do {
       (res, _, k1) \<leftarrow> ngx_http_cp_send_data_to_service os rounds sid (st_fail_open_timeout (settings k))
                        (st_min_retries (settings k)) filter_mode fragments k;
       Some (res, k1)
     }"

text \<open>The client is told apart by its address; the host header is sent whether or not nginx has its variable \<open>host\<close>.\<close>

definition sync_meta_data :: "ngx_request \<Rightarrow> HttpMetaData" where
  "sync_meta_data r =
     (let maybe_host = (case rq_host_header r of Some h \<Rightarrow> h | None \<Rightarrow> []) in
      \<lparr>http_protocol = rq_protocol r, method_name = rq_method r, meta_host = maybe_host,
       listening_ip = rq_listening_ip r, listening_port = rq_listening_port r, meta_uri = rq_unparsed_uri r,
       client_ip = rq_client_ip r, client_port = rq_client_port r,
       parsed_host = (case rq_host_variable r of Some h \<Rightarrow> h | None \<Rightarrow> maybe_host),
       parsed_uri = (if rq_uri r \<noteq> [] then rq_uri r else rq_unparsed_uri r)\<rparr>)"

definition ngx_http_cp_meta_data_sender ::
    "sync_answers \<Rightarrow> nat \<Rightarrow> ngx_request \<Rightarrow> u32 \<Rightarrow> bytes \<Rightarrow> ngx_worker \<Rightarrow> (ngx_int \<times> nat \<times> ngx_worker) option" where
  "ngx_http_cp_meta_data_sender os rounds request cur_request_id waf_tag k =
     (if IsInspectionRequiredForSource (xa_inet_pton (sa_os os)) (x_conf (wk k)) (rq_client_ip request) = 0
      then Some (NGX_DECLINED, 0, k)
      else
        do {
          (res, k1) \<leftarrow> send_message os rounds cur_request_id False
                        (ngx_metadata_fragments (sync_meta_data request) waf_tag cur_request_id) k;
          Some (if res \<noteq> NGX_OK then
                  (res, 0,
                   if res \<noteq> NGX_ERROR then k1
                   else if meta_failures k1 = 5 then (on_world ngx_disconnect_communication k1)\<lparr>meta_failures := 0\<rparr>
                   else k1\<lparr>meta_failures := meta_failures k1 + 1\<rparr>)
                else (NGX_OK, 1, k1\<lparr>meta_failures := 0\<rparr>))
        })"

text \<open>A message of identifiers and data; any failure is reported as \<open>NGX_ERROR\<close>.\<close>

definition send_flag ::
    "sync_answers \<Rightarrow> nat \<Rightarrow> AttachmentDataType \<Rightarrow> bytes list \<Rightarrow> u32 \<Rightarrow> bool \<Rightarrow> ngx_worker \<Rightarrow> (ngx_int \<times> nat \<times> ngx_worker) option" where
  "send_flag os rounds t data sid filter_mode k =
     do {
       (res, k1) \<leftarrow> send_message os rounds sid filter_mode
                     (set_fragments_identifiers ([[], []] @ data) (data_type_code t) sid) k;
       Some (if res \<noteq> NGX_OK then (NGX_ERROR, 0, k1) else (NGX_OK, 1, k1))
     }"

definition ngx_http_cp_end_transaction_sender where
  "ngx_http_cp_end_transaction_sender os rounds end_transaction_type = send_flag os rounds end_transaction_type []"

definition ngx_http_cp_wait_sender where
  "ngx_http_cp_wait_sender os rounds = send_flag os rounds REQUEST_DELAYED_VERDICT []"

definition ngx_http_cp_res_code_sender ::
    "sync_answers \<Rightarrow> nat \<Rightarrow> u16 \<Rightarrow> u32 \<Rightarrow> bool \<Rightarrow> ngx_worker \<Rightarrow> (ngx_int \<times> nat \<times> ngx_worker) option" where
  "ngx_http_cp_res_code_sender os rounds response_code sid filter_mode k =
     do {
       (res, _, k1) \<leftarrow> ngx_http_cp_send_data_to_service os rounds sid (st_fail_open_hold_timeout (settings k))
                        (st_min_retries (settings k)) filter_mode
                        (set_fragments_identifiers [[], [], le16 response_code] (data_type_code RESPONSE_CODE) sid) k;
       Some (if res \<noteq> NGX_OK then (NGX_ERROR, 0, k1) else (NGX_OK, 1, k1))
     }"

definition ngx_http_cp_content_length_sender ::
    "sync_answers \<Rightarrow> nat \<Rightarrow> u64 \<Rightarrow> u32 \<Rightarrow> bool \<Rightarrow> ngx_worker \<Rightarrow> (ngx_int \<times> nat \<times> ngx_worker) option" where
  "ngx_http_cp_content_length_sender os rounds content_length_n = send_flag os rounds CONTENT_LENGTH [le64 content_length_n]"

subsection \<open>Headers\<close>

text \<open>The array holds what the stack held; four places are set before a bulk is sent.\<close>

definition sync_header_bulk ::
    "(bytes list \<Rightarrow> 'w \<Rightarrow> (ngx_int \<times> 'w) option) \<Rightarrow> bytes list \<Rightarrow> nat \<Rightarrow> bool \<Rightarrow> u8 \<Rightarrow> 'w \<Rightarrow> (ngx_int \<times> bytes list \<times> 'w) option" where
  "sync_header_bulk send data num_headers is_last_part bulk_part_index w =
     do {
       let data1 = set_fragment_elem (set_fragment_elem data [if is_last_part then 1 else 0] 1 2) [bulk_part_index] 1 3;
       (res, w1) \<leftarrow> send (take (HEADER_DATA_COUNT * num_headers + 4) data1) w;
       Some (if res \<noteq> NGX_OK then NGX_ERROR else NGX_OK, data1, w1)
     }"

fun sync_header_loop ::
    "(bytes list \<Rightarrow> 'w \<Rightarrow> (ngx_int \<times> 'w) option) \<Rightarrow> (ngx_header \<times> bool) list \<Rightarrow> header_progress \<Rightarrow> 'w
     \<Rightarrow> (ngx_int \<times> header_progress \<times> 'w) option" where
  "sync_header_loop send [] p w = Some (NGX_OK, p, w)"
| "sync_header_loop send ((h, is_last_part) # hs) p w =
     (let p1 = p\<lparr>hp_fragments := add_header_to_bulk (hp_fragments p) h (hp_in_bulk p),
                 hp_in_bulk := hp_in_bulk p + 1, hp_part_count := hp_part_count p + 1\<rparr> in
      if hp_in_bulk p1 < max_bulk_size \<and> \<not> is_last_part then sync_header_loop send hs p1 w
      else
        do {
          (res, data, w1) \<leftarrow> sync_header_bulk send (hp_fragments p1) (hp_in_bulk p1) is_last_part (hp_bulk_part_idx p1) w;
          if res \<noteq> NGX_OK then Some (NGX_ERROR, p1\<lparr>hp_fragments := data\<rparr>, w1)
          else
            let p2 = p1\<lparr>hp_fragments := data, hp_bulks := hp_bulks p1 + 1\<rparr> in
            if is_last_part then sync_header_loop send hs p2 w1
            else sync_header_loop send hs (p2\<lparr>hp_in_bulk := 0, hp_bulk_part_idx := hp_part_count p2\<rparr>) w1
        })"

definition sync_send_headers ::
    "(bytes list \<Rightarrow> 'w \<Rightarrow> (ngx_int \<times> 'w) option) \<Rightarrow> bytes list \<Rightarrow> ngx_headers \<Rightarrow> AttachmentDataType \<Rightarrow> u32 \<Rightarrow> 'w
     \<Rightarrow> (ngx_int \<times> nat \<times> 'w) option" where
  "sync_send_headers send stack headers_list header_type sid w =
     do {
       (res, p, w1) \<leftarrow> sync_header_loop send (header_marks headers_list)
                        \<lparr>hp_fragments = set_fragments_identifiers stack (data_type_code header_type) sid, hp_in_bulk = 0,
                         hp_part_count = 0, hp_bulk_part_idx = 0, hp_bulks = 0\<rparr> w;
       if res \<noteq> NGX_OK then Some (NGX_ERROR, 0, w1)
       else if hp_part_count p = 0 \<and> header_type = RESPONSE_HEADER then
         do {
           (res2, _, w2) \<leftarrow> sync_header_bulk send (add_header_to_bulk (hp_fragments p) ([], []) 0) 1 True 0 w1;
           Some (if res2 \<noteq> NGX_OK then (NGX_ERROR, 0, w2) else (NGX_OK, hp_bulks p + 1, w2))
         }
       else Some (NGX_OK, hp_bulks p, w1)
     }"

definition ngx_http_cp_header_sender ::
    "sync_answers \<Rightarrow> nat \<Rightarrow> ngx_headers \<Rightarrow> AttachmentDataType \<Rightarrow> u32 \<Rightarrow> bool \<Rightarrow> ngx_worker
     \<Rightarrow> (ngx_int \<times> nat \<times> ngx_worker) option" where
  "ngx_http_cp_header_sender os rounds headers_list header_type sid filter_mode k =
     sync_send_headers (send_message os rounds sid filter_mode)
       (map (xa_stack (sa_os os) (steps k)) [0..<HEADER_DATA_COUNT * max_bulk_size + 4]) headers_list header_type sid (sync_step k)"

subsection \<open>Body chunks\<close>

text \<open>
  The chunks of a chain, all of a request and one of a response per call. After a chunk that had to
  wait the loop is left before it moves on, so the chunk stays the next one to inspect. The results
  are the mark of the last chunk, the number of messages and the rest of the chain.
\<close>

record body_progress =
  bp_part_count :: u8
  bp_sent :: nat
  bp_last :: bool
  bp_retries :: u32

fun body_sender_loop ::
    "(u32 \<Rightarrow> bytes list \<Rightarrow> 'w \<Rightarrow> (ngx_int \<times> bool \<times> 'w) option) \<Rightarrow> AttachmentDataType \<Rightarrow> u64 \<Rightarrow> u32 \<Rightarrow> nat \<Rightarrow> ngx_chain \<Rightarrow> body_progress
     \<Rightarrow> sync_session \<Rightarrow> 'w \<Rightarrow> (ngx_int \<times> ngx_chain \<times> body_progress \<times> sync_session \<times> 'w) option" where
  "body_sender_loop send body_type trigger max_retries max_chunks [] p d w = Some (NGX_OK, [], p, d, w)"
| "body_sender_loop send body_type trigger max_retries max_chunks (link # links) p d w =
     (if \<not> bp_sent p < max_chunks then Some (NGX_OK, link # links, p, d, w)
      else
        (case link of
           None \<Rightarrow> None
         | Some (buf, is_last_chunk) \<Rightarrow>
             let p1 = p\<lparr>bp_last := is_last_chunk\<rparr> in
             if buf = [] \<and> \<not> is_last_chunk
             then body_sender_loop send body_type trigger max_retries max_chunks links (p1\<lparr>bp_part_count := bp_part_count p1 + 1\<rparr>) d w
             else
               do {
                 let n = of_nat (length buf);
                 let d1 = (if body_type = REQUEST_BODY then d\<lparr>processed_req_body_size := processed_req_body_size d + n\<rparr>
                           else if body_type = RESPONSE_BODY then d\<lparr>processed_res_body_size := processed_res_body_size d + n\<rparr> else d);
                 let processed = (if body_type = REQUEST_BODY then processed_req_body_size d1
                                  else if body_type = RESPONSE_BODY then processed_res_body_size d1 else 0);
                 let p2 = (if processed > trigger then p1\<lparr>bp_retries := max_retries\<rparr> else p1);
                 (res, was_waiting, w1) \<leftarrow> send (bp_retries p2)
                   (body_fragments body_type (nsd_session_id d) is_last_chunk (bp_part_count p2) buf) w;
                 let p3 = p2\<lparr>bp_sent := bp_sent p2 + 1, bp_part_count := bp_part_count p2 + 1\<rparr>;
                 if res \<noteq> NGX_OK then Some (NGX_ERROR, link # links, p2, d1, w1)
                 else if was_waiting then Some (NGX_OK, link # links, p3, d1, w1)
                 else body_sender_loop send body_type trigger max_retries max_chunks links p3 d1 w1
               }))"

definition ngx_http_cp_body_sender ::
    "sync_answers \<Rightarrow> nat \<Rightarrow> ngx_chain \<Rightarrow> AttachmentDataType \<Rightarrow> nat \<Rightarrow> bool \<Rightarrow> sync_session \<Rightarrow> ngx_worker
     \<Rightarrow> (ngx_int \<times> ngx_chain \<times> bool \<times> nat \<times> sync_session \<times> ngx_worker) option" where
  "ngx_http_cp_body_sender os rounds input body_type part_number filter_mode d k =
     do {
       (res, rest, p, d1, k1) \<leftarrow> body_sender_loop
          (\<lambda>retries. ngx_http_cp_send_data_to_service os rounds (nsd_session_id d) (st_fail_open_timeout (settings k)) retries filter_mode)
          body_type (ucast (st_body_size_trigger (settings k))) (st_max_retries (settings k))
          (if body_type = RESPONSE_BODY then 1 else 2 ^ 31 - 1) input
          \<lparr>bp_part_count = (if body_type = RESPONSE_BODY then of_nat part_number else 0), bp_sent = 0,
           bp_last = sa_garbage os (steps k), bp_retries = st_min_retries (settings k)\<rparr> d (sync_step k);
       Some (res, rest, bp_last p, bp_sent p, d1, k1)
     }"

definition ngx_http_cp_metric_data_sender :: "sync_answers \<Rightarrow> nat \<Rightarrow> ngx_worker \<Rightarrow> (ngx_int \<times> ngx_worker) option" where
  "ngx_http_cp_metric_data_sender os rounds k =
     do {
       (res, k1) \<leftarrow> send_message os rounds 0 False
                     [le16 (data_type_code METRIC_DATA_FROM_PLUGIN)
                      @ concat (map (\<lambda>t. le64 (ngx_metric_data (fs_metrics (x_failure (wk k))) t)) metric_types)] k;
       Some (res, on_world (\<lambda>w. w\<lparr>x_failure := (x_failure w)\<lparr>fs_metrics := ngx_reset_metric_data\<rparr>\<rparr>) k1)
     }"

end
