(* ===== verification/Ngx_Hook_Threads.thy ===== *)
theory Ngx_Hook_Threads
  imports Ngx_Io Nano_Sender
begin

text \<open>
  The routines the hooks of nginx run in threads (\<open>ngx_cp_hook_threads.c\<close>) and the function that runs
  them under a time-out (\<open>ngx_cp_thread.c\<close>). A routine acts on its context, which holds the session and the
  request, and on the worker. The result \<open>None\<close> is a routine that does not end, or a fault.
\<close>

section \<open>Contexts\<close>

text \<open>What the hooks read and change of a response: \<open>rs_server\<close> says whether its server header is set.\<close>

record ngx_response =
  rs_status :: u16
  rs_content_length :: "u64 option"
  rs_content_encoding :: "bytes option"
  rs_headers :: ngx_headers
  rs_length_cleared :: bool
  rs_server :: bool

record thread_ctx =
  tc_request :: ngx_request
  tc_response :: ngx_response
  tc_session :: sync_session
  tc_res :: ngx_int
  should_return :: bool
  should_return_next_filter :: bool
  chain_part_number :: nat
  tc_chain :: ngx_chain
  tc_modifications :: "NanoHttpModification list"
  tc_filter_mode :: bool
  tc_waf_tag :: bytes

definition sync_thread_ctx :: "ngx_request \<Rightarrow> ngx_response \<Rightarrow> sync_session \<Rightarrow> ngx_chain \<Rightarrow> thread_ctx" where
  "sync_thread_ctx request response session_data_p body =
     \<lparr>tc_request = request, tc_response = response, tc_session = session_data_p, tc_res = NGX_OK, should_return = False,
      should_return_next_filter = False, chain_part_number = 0, tc_chain = body, tc_modifications = [],
      tc_filter_mode = False, tc_waf_tag = []\<rparr>"

type_synonym hook_state = "thread_ctx \<times> ngx_worker"

text \<open>
  The answers of the system to the hooks: those to the exchange with the service, those to the calls of a
  thread, what a cancelled routine had done, what the readings of the processor and memory usage
  make of the metrics, and for the modification of a body the allocations and which nodes are
  really given back.
\<close>

record hook_answers =
  ha_io :: sync_answers
  ha_thread :: "nat \<Rightarrow> thread_calls"
  ha_partial :: "nat \<Rightarrow> hook_state \<Rightarrow> hook_state"
  ha_usage :: "nat \<Rightarrow> ngx_metrics \<Rightarrow> ngx_metrics"
  ha_body_alloc :: "nat \<Rightarrow> nat \<Rightarrow> nat \<Rightarrow> bool"
  ha_released :: "nat \<Rightarrow> nat \<Rightarrow> bool"

definition upd_tc_session :: "(sync_session \<Rightarrow> sync_session) \<Rightarrow> thread_ctx \<Rightarrow> thread_ctx" where
  "upd_tc_session f c = c\<lparr>tc_session := f (tc_session c)\<rparr>"

definition tc_verdict :: "thread_ctx \<Rightarrow> ServiceVerdict" where
  "tc_verdict c = ns_verdict (tc_session c)"

definition count_hook :: "AttachmentMetricType \<Rightarrow> u64 \<Rightarrow> ngx_worker \<Rightarrow> ngx_worker" where
  "count_hook t v = on_world (Ngx_Async_Context.count_metric t v)"

section \<open>Failures and successes\<close>

definition sync_now :: "hook_answers \<Rightarrow> ngx_worker \<Rightarrow> timespec" where
  "sync_now os k = xa_time (sa_os (ha_io os)) (steps k)"

definition sync_failure :: "hook_answers \<Rightarrow> int \<Rightarrow> bool \<Rightarrow> hook_state \<Rightarrow> hook_state option" where
  "sync_failure os weight fail_open s =
     (let (c, k) = s in
      do {
        (d, f) \<leftarrow> handle_inspection_failure (now_val (sa_os (ha_io os)) (steps k)) (sync_now os k) weight fail_open
                   (ngx_session.truncate (tc_session c)) (x_failure (wk k));
        Some (upd_tc_session (set_sync_verdict (ns_verdict d)) c, on_world (\<lambda>w. w\<lparr>x_failure := f\<rparr>) (sync_step k))
      })"

definition sync_success :: "hook_answers \<Rightarrow> hook_state \<Rightarrow> hook_state" where
  "sync_success os s =
     (let (c, k) = s in
      (c, on_world (\<lambda>w. w\<lparr>x_failure := handle_inspection_success (now_val (sa_os (ha_io os)) (steps k)) (sync_now os k)
                                       (ngx_session.truncate (tc_session c)) (x_failure w)\<rparr>) (sync_step k)))"

definition return_next_filter :: "hook_state \<Rightarrow> hook_state" where
  "return_next_filter s = (let (c, k) = s in (c\<lparr>should_return_next_filter := True\<rparr>, k))"

definition return_with :: "ngx_int \<Rightarrow> hook_state \<Rightarrow> hook_state" where
  "return_with res s = (let (c, k) = s in (c\<lparr>tc_res := res, should_return := True\<rparr>, k))"

text \<open>What most routines do when a message cannot be sent.\<close>

definition thread_failed :: "hook_answers \<Rightarrow> hook_state \<Rightarrow> hook_state option" where
  "thread_failed os s =
     map_option (\<lambda>s1. if fail_mode_open (wk (snd s1)) then return_next_filter s1 else return_with NGX_HTTP_FORBIDDEN s1)
       (sync_failure os 1 (fail_mode_open (wk (snd s))) s)"

definition fail_mode_verdict_of :: "ngx_worker \<Rightarrow> ngx_int" where
  "fail_mode_verdict_of k = (if fail_mode_open (wk k) then NGX_OK else NGX_HTTP_FORBIDDEN)"

definition count_messages :: "nat \<Rightarrow> thread_ctx \<Rightarrow> thread_ctx" where
  "count_messages n = upd_tc_session (\<lambda>d. d\<lparr>remaining_messages := remaining_messages d + n\<rparr>)"

definition fetch_replies ::
    "hook_answers \<Rightarrow> nat \<Rightarrow> AttachmentDataType \<Rightarrow> (sync_session \<Rightarrow> u64) \<Rightarrow> hook_state \<Rightarrow> hook_state option" where
  "fetch_replies os rounds chunk_type processed s =
     (let (c, k) = s in
      do {
        (res, d, ml, k1) \<leftarrow> ngx_http_cp_reply_receiver (ha_io os) rounds chunk_type (processed (tc_session c)) (tc_filter_mode c)
                             (tc_session c) (tc_modifications c) k;
        Some (c\<lparr>tc_res := res, tc_session := d, tc_modifications := ml\<rparr>, k1)
      })"

section \<open>Running a routine\<close>

definition ngx_thread_deadline :: "timespec \<Rightarrow> int \<Rightarrow> timespec" where
  "ngx_thread_deadline ts timeout_msecs =
     (let nsec = tv_nsec ts + (timeout_msecs smod 1000) * 1000000
      in \<lparr>tv_sec = tv_sec ts + (timeout_msecs sdiv 1000 + nsec sdiv 1000000000), tv_nsec = nsec smod 1000000000\<rparr>)"

definition ngx_cp_run_without_thread_timeout :: "(hook_state \<Rightarrow> hook_state option) \<Rightarrow> hook_state \<Rightarrow> (bool \<times> hook_state) option" where
  "ngx_cp_run_without_thread_timeout thread_func s = map_option (Pair True) (thread_func s)"

text \<open>The failure of a timed join is handled with what the routine had done to the session until it was cancelled.\<close>

definition ngx_cp_run_in_thread_timeout ::
    "hook_answers \<Rightarrow> (hook_state \<Rightarrow> hook_state option) \<Rightarrow> u32 \<Rightarrow> hook_state \<Rightarrow> (bool \<times> hook_state) option" where
  "ngx_cp_run_in_thread_timeout os thread_func timeout_msecs s =
     (let (c, k) = s; calls = ha_thread os (steps k); mode = st_inspection_mode (settings k);
          s0 = (c, sync_step k); partial = ha_partial os (steps k);
          count = (\<lambda>t (c, k). (c, count_hook t 1 k))
      in if mode = NO_THREAD then ngx_cp_run_without_thread_timeout thread_func s
         else if \<not> pthread_create_ok calls then Some (False, count THREAD_FAILURE s0)
         else if mode = BLOCKING_THREAD then map_option (Pair (blocking_join_status calls = 0)) (thread_func s0)
         else
           (case clock_deadline calls of
              None \<Rightarrow> Some (False, count THREAD_FAILURE (partial s0))
            | Some ts \<Rightarrow>
                let status = timedjoin_status calls (ngx_thread_deadline ts (sint timeout_msecs)) in
                if status \<noteq> 0 then
                  do {
                    s1 \<leftarrow> sync_failure os 1 (fail_mode_open (wk (snd (partial s0)))) (partial s0);
                    Some (if cancel_join_status calls \<noteq> 0 then (cancel_join_status calls \<noteq> 0, count THREAD_FAILURE s1)
                          else (status = 0, count (if joined_canceled calls then THREAD_TIMEOUT else THREAD_FAILURE) s1))
                  }
                else map_option (Pair (status = 0)) (thread_func s0)))"

section \<open>Routines for the request\<close>

definition end_req_header_handler :: "hook_answers \<Rightarrow> nat \<Rightarrow> hook_state \<Rightarrow> hook_state option" where
  "end_req_header_handler os rounds s =
     (let (c, k) = s in
      if rq_has_body (tc_request c) then fetch_replies os rounds REQUEST_END (\<lambda>_. 0) s
      else
        do {
          (res, n, k1) \<leftarrow> ngx_http_cp_end_transaction_sender (ha_io os) rounds REQUEST_END (nsd_session_id (tc_session c))
                           (tc_filter_mode c) k;
          if res \<noteq> NGX_OK then
            map_option (\<lambda>(c1, k2). (c1\<lparr>tc_res := fail_mode_verdict_of k2\<rparr>, k2))
              (sync_failure os 1 (fail_mode_open (wk k1)) (c, k1))
          else fetch_replies os rounds REQUEST_END (\<lambda>_. 0) (count_messages n c, k1)
        })"

text \<open>The metrics are sent when their time has come, whatever becomes of the message.\<close>

definition send_due_metrics :: "hook_answers \<Rightarrow> nat \<Rightarrow> ngx_worker \<Rightarrow> ngx_worker option" where
  "send_due_metrics os rounds k =
     (let io = sa_os (ha_io os) in
      if is_timeout_reached (now_val io (steps k)) (metric_timeout k) then
        do {
          let k1 = on_world (\<lambda>w. w\<lparr>x_failure := (x_failure w)\<lparr>fs_metrics := ha_usage os (steps k) (fs_metrics (x_failure w))\<rparr>\<rparr>)
                     (sync_step k);
          (_, k2) \<leftarrow> ngx_http_cp_metric_data_sender (ha_io os) rounds k1;
          Some ((sync_step k2)\<lparr>metric_timeout := get_timeout_val_sec (now_val io (steps k2)) 600\<rparr>)
        }
      else Some (sync_step k))"

definition ngx_http_cp_req_header_handler_thread :: "hook_answers \<Rightarrow> nat \<Rightarrow> hook_state \<Rightarrow> hook_state option" where
  "ngx_http_cp_req_header_handler_thread os rounds s =
     (let (c, k) = s; sid = nsd_session_id (tc_session c);
          failed = (\<lambda>c k. map_option (\<lambda>s1. return_with (fail_mode_verdict_of (snd s1)) s1)
                            (sync_failure os 1 (fail_mode_open (wk k)) (c, k)))
      in do {
           (res, n, k1) \<leftarrow> ngx_http_cp_meta_data_sender (ha_io os) rounds (tc_request c) sid (tc_waf_tag c) k;
           if res = NGX_DECLINED
           then Some (return_with NGX_OK (upd_tc_session (set_sync_verdict TRAFFIC_VERDICT_IRRELEVANT) c, k1))
           else if res \<noteq> NGX_OK then failed c k1
           else
             do {
               k2 \<leftarrow> send_due_metrics os rounds k1;
               let c1 = count_messages n c;
               (res2, n2, k3) \<leftarrow> ngx_http_cp_header_sender (ha_io os) rounds (rq_headers (tc_request c)) REQUEST_HEADER sid
                                  (tc_filter_mode c) k2;
               if res2 \<noteq> NGX_OK then failed c1 k3
               else end_req_header_handler os rounds (count_messages n2 c1, k3)
             }
         })"

definition ngx_http_cp_req_body_filter_thread :: "hook_answers \<Rightarrow> nat \<Rightarrow> hook_state \<Rightarrow> hook_state option" where
  "ngx_http_cp_req_body_filter_thread os rounds s =
     (let (c, k) = s in
      do {
        (res, rest, is_last_part, n, d, k1) \<leftarrow> ngx_http_cp_body_sender (ha_io os) rounds (tc_chain c) REQUEST_BODY 0
                                               (tc_filter_mode c) (tc_session c) k;
        let c1 = c\<lparr>tc_session := d\<rparr>;
        if res \<noteq> NGX_OK then thread_failed os (c1, k1)
        else
          do {
            (c2, k2) \<leftarrow> fetch_replies os rounds REQUEST_BODY processed_req_body_size (count_messages n (c1\<lparr>tc_chain := rest\<rparr>), k1);
            Some (if is_last_part then upd_tc_session (\<lambda>d. d\<lparr>was_request_fully_inspected := True\<rparr>) c2 else c2, k2)
          }
      })"

definition final_verdicts :: "ServiceVerdict set" where
  "final_verdicts = {TRAFFIC_VERDICT_ACCEPT, TRAFFIC_VERDICT_DROP, TRAFFIC_VERDICT_CUSTOM_RESPONSE}"

definition ngx_http_cp_req_end_transaction_thread :: "hook_answers \<Rightarrow> nat \<Rightarrow> hook_state \<Rightarrow> hook_state option" where
  "ngx_http_cp_req_end_transaction_thread os rounds s =
     (let (c, k) = s in
      do {
        (res, n, k1) \<leftarrow> ngx_http_cp_end_transaction_sender (ha_io os) rounds REQUEST_END (nsd_session_id (tc_session c))
                         (tc_filter_mode c) k;
        if res \<noteq> NGX_OK then thread_failed os (c, k1)
        else if tc_verdict c \<in> final_verdicts then Some (count_messages n c, k1)
        else fetch_replies os rounds REQUEST_END processed_req_body_size (count_messages n c, k1)
      })"

section \<open>Routines for the response\<close>

text \<open>An encoding that is not known is a failure.\<close>

definition ngx_set_response_content_encoding :: "bytes option \<Rightarrow> CompressionType option" where
  "ngx_set_response_content_encoding header =
     (case header of
        None \<Rightarrow> Some NO_COMPRESSION
      | Some v \<Rightarrow>
          if strcasecmp_equal v ''gzip'' then Some GZIP
          else if strcasecmp_equal v ''deflate'' then Some ZLIB
          else if strcasecmp_equal v ''br'' then Some BROTLI
          else if strcasecmp_equal v ''identity'' then Some NO_COMPRESSION
          else None)"

definition send_content_length :: "hook_answers \<Rightarrow> nat \<Rightarrow> hook_state \<Rightarrow> (ngx_int \<times> nat \<times> ngx_worker) option" where
  "send_content_length os rounds s =
     (let (c, k) = s in
      case rs_content_length (tc_response c) of
        None \<Rightarrow> Some (NGX_OK, 0, k)
      | Some n \<Rightarrow> ngx_http_cp_content_length_sender (ha_io os) rounds n (nsd_session_id (tc_session c)) (tc_filter_mode c) k)"

definition send_response_headers :: "hook_answers \<Rightarrow> nat \<Rightarrow> hook_state \<Rightarrow> (ngx_int \<times> nat \<times> ngx_worker) option" where
  "send_response_headers os rounds s =
     (let (c, k) = s in
      if inspect_all_response_headers (tc_session c)
      then ngx_http_cp_header_sender (ha_io os) rounds (rs_headers (tc_response c)) RESPONSE_HEADER
             (nsd_session_id (tc_session c)) (tc_filter_mode c) k
      else Some (NGX_OK, 0, k))"

definition ngx_http_cp_res_header_filter_thread :: "hook_answers \<Rightarrow> nat \<Rightarrow> hook_state \<Rightarrow> hook_state option" where
  "ngx_http_cp_res_header_filter_thread os rounds s =
     (let (c, k) = s in
      do {
        (res, n, k1) \<leftarrow> ngx_http_cp_res_code_sender (ha_io os) rounds (rs_status (tc_response c)) (nsd_session_id (tc_session c))
                         (tc_filter_mode c) k;
        if res \<noteq> NGX_OK then thread_failed os (c, k1)
        else
          do {
            let c1 = count_messages n c;
            (res2, n2, k2) \<leftarrow> send_content_length os rounds (c1, k1);
            if res2 \<noteq> NGX_OK then thread_failed os (c1, k2)
            else
              let c2 = count_messages n2 c1 in
              (case ngx_set_response_content_encoding (rs_content_encoding (tc_response c2)) of
                 None \<Rightarrow> thread_failed os (c2, k2)
               | Some enc \<Rightarrow>
                   do {
                     let c3 = upd_tc_session (\<lambda>d. d\<lparr>original_compression_type := enc, new_compression_type := enc\<rparr>) c2;
                     (res3, n3, k3) \<leftarrow> send_response_headers os rounds (c3, k2);
                     if res3 \<noteq> NGX_OK then thread_failed os (c3, k3)
                     else fetch_replies os rounds RESPONSE_HEADER (\<lambda>_. 0) (count_messages n3 c3, k3)
                   })
          }
      })"

section \<open>Delayed verdicts\<close>

text \<open>The result is set before the failure is handled, and set again when the failure mode is closed.\<close>

definition ngx_http_cp_hold_verdict_thread :: "hook_answers \<Rightarrow> nat \<Rightarrow> hook_state \<Rightarrow> hook_state option" where
  "ngx_http_cp_hold_verdict_thread os rounds s =
     (let (c, k) = s in
      do {
        (res, n, k1) \<leftarrow> ngx_http_cp_wait_sender (ha_io os) rounds (nsd_session_id (tc_session c)) (tc_filter_mode c) k;
        if res \<noteq> NGX_OK then
          let c1 = (if tc_filter_mode c then c\<lparr>tc_res := NGX_ERROR\<rparr> else c) in
          map_option (\<lambda>s1. if fail_mode_hold_open (wk (snd s1)) then return_next_filter s1 else return_with NGX_HTTP_FORBIDDEN s1)
            (sync_failure os 1 (fail_mode_hold_open (wk k1)) (c1, k1))
        else fetch_replies os rounds REQUEST_DELAYED_VERDICT (\<lambda>_. 0) (count_messages n c, k1)
      })"

definition hold_fail_verdict :: "ngx_worker \<Rightarrow> ServiceVerdict" where
  "hold_fail_verdict k = (if fail_mode_hold_open (wk k) then TRAFFIC_VERDICT_ACCEPT else TRAFFIC_VERDICT_DROP)"

fun hold_verdict_loop :: "hook_answers \<Rightarrow> nat \<Rightarrow> nat \<Rightarrow> hook_state \<Rightarrow> (bool \<times> hook_state) option" where
  "hold_verdict_loop os rounds 0 s =
     map_option (\<lambda>(c, k). (False, upd_tc_session (set_sync_verdict (hold_fail_verdict k)) c, k))
       (sync_failure os 1 (fail_mode_hold_open (wk (snd s))) s)"
| "hold_verdict_loop os rounds (Suc n) s =
     do {
       (ran, c, k) \<leftarrow> ngx_cp_run_in_thread_timeout os (ngx_http_cp_hold_verdict_thread os rounds)
                       (st_wait_timeout (settings (snd s))) (fst s, sync_step (snd s));
       if \<not> ran then (if tc_filter_mode c then hold_verdict_loop os rounds 0 (c, k) else hold_verdict_loop os rounds n (c, k))
       else if tc_verdict c \<noteq> TRAFFIC_VERDICT_DELAYED then Some (True, c, k)
       else if tc_filter_mode c \<and> tc_res c = NGX_ERROR then hold_verdict_loop os rounds 0 (c, k)
       else hold_verdict_loop os rounds n (c, k)
     }"

definition ngx_http_cp_hold_verdict :: "hook_answers \<Rightarrow> nat \<Rightarrow> hook_state \<Rightarrow> (bool \<times> hook_state) option" where
  "ngx_http_cp_hold_verdict os rounds s =
     (let st = settings (snd s) in
      hold_verdict_loop os rounds
        (if tc_filter_mode (fst s) then unat (st_res_body_timeout st div 50) else unat (st_hold_retries st)) s)"

text \<open>
  A chunk of a response. A delayed verdict is awaited inside of the routine; \<open>Inl\<close> is a context the routine ends
  with. When waiting fails the verdict is that of the hold mode, but the result follows the other mode.
\<close>

definition await_delayed :: "hook_answers \<Rightarrow> nat \<Rightarrow> hook_state \<Rightarrow> (hook_state + hook_state) option" where
  "await_delayed os rounds s =
     (if tc_verdict (fst s) \<noteq> TRAFFIC_VERDICT_DELAYED then Some (Inr s)
      else
        do {
          (held, c, k) \<leftarrow> ngx_http_cp_hold_verdict os rounds s;
          if held then Some (Inr (c, k))
          else map_option Inl
                 (thread_failed os (upd_tc_session (set_sync_verdict (hold_fail_verdict k)) c, count_hook HOLD_THREAD_TIMEOUT 1 k))
        })"

definition end_response :: "hook_answers \<Rightarrow> nat \<Rightarrow> hook_state \<Rightarrow> hook_state option" where
  "end_response os rounds s =
     (let (c, k) = s in
      do {
        (res, n, k1) \<leftarrow> ngx_http_cp_end_transaction_sender (ha_io os) rounds RESPONSE_END (nsd_session_id (tc_session c))
                         (tc_filter_mode c) k;
        if res \<noteq> NGX_OK then thread_failed os (c, k1)
        else if tc_verdict c \<in> {TRAFFIC_VERDICT_ACCEPT, TRAFFIC_VERDICT_DROP} then Some (c, k1)
        else
          do {
            s2 \<leftarrow> fetch_replies os rounds RESPONSE_END processed_res_body_size (count_messages n c, k1);
            r \<leftarrow> await_delayed os rounds s2;
            Some (case r of Inl s3 \<Rightarrow> s3 | Inr s3 \<Rightarrow> s3)
          }
      })"

definition ngx_http_cp_res_body_filter_thread :: "hook_answers \<Rightarrow> nat \<Rightarrow> hook_state \<Rightarrow> hook_state option" where
  "ngx_http_cp_res_body_filter_thread os rounds s =
     (let (c, k) = s in
      do {
        (res, rest, is_last_response_part, n, d, k1) \<leftarrow> ngx_http_cp_body_sender (ha_io os) rounds (tc_chain c) RESPONSE_BODY
                                                        (chain_part_number c) (tc_filter_mode c) (tc_session c) k;
        let c1 = c\<lparr>tc_session := d\<rparr>;
        if res \<noteq> NGX_OK then thread_failed os (c1, k1)
        else
          do {
            s2 \<leftarrow> fetch_replies os rounds RESPONSE_BODY processed_res_body_size (count_messages n (c1\<lparr>tc_chain := rest\<rparr>), k1);
            r \<leftarrow> await_delayed os rounds s2;
            (case r of
               Inl s3 \<Rightarrow> Some s3
             | Inr s3 \<Rightarrow> if is_last_response_part then end_response os rounds s3 else Some s3)
          }
      })"

end
