(* ===== verification/Ngx_Hooks.thy ===== *)
theory Ngx_Hooks
  imports Ngx_Hook_Threads
begin

text \<open>
  The filters of the synchronous mode (\<open>ngx_cp_hooks.c\<close>) for request bodies and for response headers, for one
  request with its session. All calls out of a hook stand in tail position, so the result of a
  hook says which function of nginx it hands the request to; \<open>Finalized\<close> has the code the request was
  finalized with and the code the hook returned.
\<close>

section \<open>Sessions\<close>

datatype hook_result =
    Code ngx_int
  | NextBodyFilter ngx_chain
  | NextHeaderFilter
  | RejectRequest
  | CustomResponsePage
  | Finalized ngx_int ngx_int

text \<open>
  A new session. \<open>initial_async_mode\<close> starts at -1, which counts as true; the handler of the request headers
  then stores the mode it runs in.
\<close>

definition init_cp_session_data :: "hook_answers \<Rightarrow> bool \<Rightarrow> ngx_worker \<Rightarrow> sync_session option \<times> ngx_worker" where
  "init_cp_session_data os allocated k =
     (if \<not> allocated then (None, k)
      else
        let io = sa_os (ha_io os) in
        (Some \<lparr>ns_verdict = TRAFFIC_VERDICT_INSPECT, ns_start = xa_time io (steps k), ns_req_time = 0, ns_res_time = 0,
               nsd_session_id = or (push_bit 1 (next_session k)) 1, remaining_messages = 0, was_request_fully_inspected = False,
               async_processing_needed = False, processed_req_body_size = 0, initial_async_mode = True,
               inspect_all_response_headers = True, processed_res_body_size = 0, original_compression_type = NO_COMPRESSION,
               new_compression_type = NO_COMPRESSION\<rparr>,
         (sync_step k)\<lparr>next_session := next_session k + 1,
           metric_timeout := (if fst (metric_timeout k) = 0 then get_timeout_val_sec (now_val io (steps k)) 600 else metric_timeout k)\<rparr>))"

text \<open>The times are whole microseconds, compared with the limits in milliseconds.\<close>

definition was_transaction_timedout :: "hook_answers \<Rightarrow> hook_state \<Rightarrow> (bool \<times> hook_state) option" where
  "was_transaction_timedout os s =
     (let (c, k) = s; st = settings k; d = tc_session c;
          failed = (\<lambda>t. map_option (Pair True) (sync_failure os 1 (fail_mode_open (wk k)) (c, count_hook t 1 k)))
      in if st_req_max_ms st \<noteq> 0 \<and> ns_req_time d \<ge> int (unat (st_req_max_ms st)) * 1000 then failed REQ_PROCCESSING_TIMEOUT
         else if st_res_max_ms st \<noteq> 0 \<and> ns_res_time d \<ge> int (unat (st_res_max_ms st)) * 1000 then failed RES_PROCCESSING_TIMEOUT
         else Some (False, s))"

definition add_request_time :: "hook_answers \<Rightarrow> timespec \<Rightarrow> hook_state \<Rightarrow> hook_state" where
  "add_request_time os begin_time s =
     (let (c, k) = s in
      (upd_tc_session (\<lambda>d. d\<lparr>ns_req_time := ns_req_time d + (usec (sync_now os k) - usec begin_time)\<rparr>) c, sync_step k))"

definition add_response_time :: "hook_answers \<Rightarrow> timespec \<Rightarrow> hook_state \<Rightarrow> hook_state" where
  "add_response_time os begin_time s =
     (let (c, k) = s in
      (upd_tc_session (\<lambda>d. d\<lparr>ns_res_time := ns_res_time d + (usec (sync_now os k) - usec begin_time)\<rparr>) c, sync_step k))"

definition fail_mode_verdict_service :: "ngx_worker \<Rightarrow> ServiceVerdict" where
  "fail_mode_verdict_service k = (if fail_mode_open (wk k) then TRAFFIC_VERDICT_ACCEPT else TRAFFIC_VERDICT_DROP)"

definition set_fail_verdict :: "hook_state \<Rightarrow> hook_state" where
  "set_fail_verdict s = (upd_tc_session (set_sync_verdict (fail_mode_verdict_service (snd s))) (fst s), snd s)"

definition hook_transparent :: "hook_answers \<Rightarrow> ngx_worker \<Rightarrow> (bool \<times> ngx_worker) option" where
  "hook_transparent os k =
     do {
       (b, f) \<leftarrow> is_in_transparent_mode (now_val (sa_os (ha_io os)) (steps k)) (x_failure (wk k));
       Some (b, on_world (\<lambda>w. w\<lparr>x_failure := f\<rparr>) (sync_step k))
     }"

section \<open>Request bodies\<close>

definition next_body :: "ngx_chain \<Rightarrow> hook_state \<Rightarrow> hook_result \<times> hook_state" where
  "next_body body s = (NextBodyFilter body, s)"

text \<open>What a failure of the inspection of a body answers, with the code for a closed mode.\<close>

definition body_failed :: "ngx_int \<Rightarrow> ngx_chain \<Rightarrow> hook_state \<Rightarrow> hook_result \<times> hook_state" where
  "body_failed closed body s = (if fail_mode_open (wk (snd s)) then NextBodyFilter body else Code closed, s)"

definition count_body_timeout :: "hook_state \<Rightarrow> hook_state" where
  "count_body_timeout s =
     (let (c, k) = s; n = processed_req_body_size (tc_session c) in
      (c, count_hook MIN_REQ_BODY_SIZE_UPON_TIMEOUT n (count_hook MAX_REQ_BODY_SIZE_UPON_TIMEOUT n
            (count_hook AVERAGE_REQ_BODY_SIZE_UPON_TIMEOUT n (count_hook REQ_BODY_THREAD_TIMEOUT 1 k)))))"

text \<open>A failure to get the delayed verdict of a body; \<open>set\<close> says whether the hook sets the verdict once more.\<close>

definition hold_failed :: "ngx_chain \<Rightarrow> hook_state \<Rightarrow> hook_result \<times> hook_state" where
  "hold_failed body s =
     (let (c, k) = s in
      (if fail_mode_hold_open (wk k) then NextBodyFilter body else Code NGX_HTTP_FORBIDDEN, c, count_hook HOLD_THREAD_TIMEOUT 1 k))"

text \<open>The end of a body that was inspected to its end: \<open>Inl\<close> is the answer of the hook.\<close>

definition end_request_body ::
    "hook_answers \<Rightarrow> nat \<Rightarrow> ngx_chain \<Rightarrow> hook_state \<Rightarrow> ((hook_result \<times> hook_state) + hook_state) option" where
  "end_request_body os rounds body s =
     do {
       (ran, s1) \<leftarrow> ngx_cp_run_in_thread_timeout os (ngx_http_cp_req_end_transaction_thread os rounds)
                     (st_req_body_timeout (settings (snd s))) s;
       if \<not> ran then
         Some (Inl (let (c, k) = set_fail_verdict s1 in body_failed NGX_HTTP_FORBIDDEN body (c, count_hook REQ_BODY_THREAD_TIMEOUT 1 k)))
       else if tc_verdict (fst s1) = TRAFFIC_VERDICT_CUSTOM_RESPONSE then Some (Inl (CustomResponsePage, s1))
       else if tc_verdict (fst s1) = TRAFFIC_VERDICT_DELAYED then
         do {
           (held, s2) \<leftarrow> ngx_http_cp_hold_verdict os rounds s1;
           Some (if held then Inr s2 else Inl (hold_failed body s2))
         }
       else Some (Inr s1)
     }"

text \<open>One round of the loop over the chain.\<close>

definition body_filter_round ::
    "hook_answers \<Rightarrow> nat \<Rightarrow> ngx_chain \<Rightarrow> hook_state \<Rightarrow> ((hook_result \<times> hook_state) + hook_state) option" where
  "body_filter_round os rounds body s =
     do {
       let begin_time = sync_now os (snd s);
       (ran, s1) \<leftarrow> ngx_cp_run_in_thread_timeout os (ngx_http_cp_req_body_filter_thread os rounds)
                     (st_req_body_timeout (settings (snd s))) (fst s, sync_step (snd s));
       if \<not> ran \<or> tc_res (fst s1) = NGX_ERROR then
         Some (Inl (body_failed NGX_HTTP_FORBIDDEN body (count_body_timeout (set_fail_verdict s1))))
       else
         do {
           (held, s2) \<leftarrow> (if tc_verdict (fst s1) = TRAFFIC_VERDICT_DELAYED then ngx_http_cp_hold_verdict os rounds s1
                          else Some (True, s1));
           if \<not> held then
             Some (Inl (hold_failed body (upd_tc_session (set_sync_verdict (hold_fail_verdict (snd s2))) (fst s2), snd s2)))
           else
             do {
               r \<leftarrow> (if was_request_fully_inspected (tc_session (fst s2)) then end_request_body os rounds body s2
                     else Some (Inr s2));
               (case r of
                  Inl answer \<Rightarrow> Some (Inl answer)
                | Inr s3 \<Rightarrow>
                    let s4 = add_request_time os begin_time s3 in
                    if should_return_next_filter (fst s4) then Some (Inl (next_body body s4))
                    else if should_return (fst s4)
                    then Some (Inl (Code (if tc_res (fst s4) = NGX_OK then NGX_DECLINED else tc_res (fst s4)), s4))
                    else
                      do {
                        (timed_out, s5) \<leftarrow> was_transaction_timedout os s4;
                        Some (if timed_out then Inl (next_body body (set_fail_verdict s5)) else Inr s5)
                      })
             }
         }
     }"

text \<open>The loop runs at most once for each link of the chain, and ends when nothing is left to inspect.\<close>

fun sync_body_rounds ::
    "hook_answers \<Rightarrow> nat \<Rightarrow> ngx_chain \<Rightarrow> ngx_chain \<Rightarrow> hook_state \<Rightarrow> ((hook_result \<times> hook_state) + hook_state) option" where
  "sync_body_rounds os rounds body [] s = Some (Inr s)"
| "sync_body_rounds os rounds body (_ # links) s =
     (if tc_chain (fst s) = [] then Some (Inr s)
      else
        do {
          r \<leftarrow> body_filter_round os rounds body s;
          (case r of Inl answer \<Rightarrow> Some (Inl answer) | Inr s1 \<Rightarrow> sync_body_rounds os rounds body links s1)
        })"

text \<open>
  The modifications of headers and body. Both functions get the whole list, from its first node: nodes the
  first one has freed are small blocks, which nginx keeps.
\<close>

definition finish_request_body ::
    "hook_answers \<Rightarrow> ngx_chain \<Rightarrow> hook_state \<Rightarrow> (hook_result \<times> hook_state) option" where
  "finish_request_body os body s =
     (let (c, k) = s; io = sa_os (ha_io os) in
      if tc_chain c \<noteq> [] then Some (body_failed NGX_HTTP_FORBIDDEN body (set_fail_verdict s))
      else if tc_res c = NGX_HTTP_FORBIDDEN then Some (RejectRequest, sync_success os s)
      else if tc_res c \<noteq> NGX_OK then
        map_option (body_failed NGX_ERROR body) (sync_failure os 1 (fail_mode_open (wk k)) s)
      else if tc_modifications c = [] then Some (next_body body (sync_success os s))
      else
        do {
          (res, hs) \<leftarrow> ngx_http_cp_header_modifier (xa_lists io (steps k)) False (tc_modifications c) (rq_headers (tc_request c));
          let c1 = c\<lparr>tc_request := (tc_request c)\<lparr>rq_headers := hs_headers hs,
                       rq_length_cleared := rq_length_cleared (tc_request c) \<or> hs_length_cleared hs\<rparr>\<rparr>;
          let k1 = sync_step k;
          if res \<noteq> NGX_OK then map_option (body_failed NGX_ERROR body) (sync_failure os 1 (fail_mode_open (wk k)) (c1, k1))
          else
            do {
              data \<leftarrow> those body;
              (res2, out) \<leftarrow> ngx_http_cp_body_modifier (ha_body_alloc os (steps k1)) (ha_released os (steps k1)) (map fst data)
                               (tc_modifications c);
              let body2 = map2 (\<lambda>bs l. Some (bs, snd l)) out data;
              let s2 = (c1, sync_step k1);
              if res2 \<noteq> NGX_OK then map_option (body_failed NGX_ERROR body2) (sync_failure os 1 (fail_mode_open (wk k)) s2)
              else Some (next_body body2 (sync_success os s2))
            }
        })"

text \<open>
  The filter. Without a session the body is handed on; \<open>is_async_enabled\<close> is the answer of
  \<open>is_ngx_cp_async_mode_enabled_for_request\<close>.
\<close>

definition ngx_http_cp_req_body_filter_sync ::
    "hook_answers \<Rightarrow> nat \<Rightarrow> bool \<Rightarrow> ngx_request \<Rightarrow> ngx_response \<Rightarrow> ngx_chain \<Rightarrow> sync_session \<Rightarrow> ngx_worker
     \<Rightarrow> (hook_result \<times> hook_state) option" where
  "ngx_http_cp_req_body_filter_sync os rounds is_async_enabled request response body d k =
     (let s = (sync_thread_ctx request response d body, k) in
      if initial_async_mode d \<or> is_async_enabled then Some (next_body body s)
      else if \<not> ngx_isIpcReady (wk k) then Some (body_failed NGX_HTTP_FORBIDDEN body (set_fail_verdict s))
      else
        do {
          (transparent, k1) \<leftarrow> hook_transparent os k;
          let s1 = (fst s, k1);
          if transparent then Some (body_failed NGX_HTTP_FORBIDDEN body (set_fail_verdict s1))
          else if ns_verdict d = TRAFFIC_VERDICT_DROP then Some (Code NGX_HTTP_FORBIDDEN, s1)
          else if ns_verdict d \<noteq> TRAFFIC_VERDICT_INSPECT then Some (next_body body s1)
          else if body = [] then Some (next_body body s1)
          else
            do {
              (timed_out, s2) \<leftarrow> was_transaction_timedout os s1;
              if timed_out then
                Some (if tc_verdict (fst s2) = TRAFFIC_VERDICT_DROP then (Code NGX_HTTP_FORBIDDEN, s2)
                      else next_body body (set_fail_verdict s2))
              else
                do {
                  r \<leftarrow> sync_body_rounds os rounds body body s2;
                  (case r of Inl answer \<Rightarrow> Some answer | Inr s3 \<Rightarrow> finish_request_body os body s3)
                }
            }
        })"

section \<open>Response headers\<close>

definition header_failed :: "hook_state \<Rightarrow> hook_result \<times> hook_state" where
  "header_failed s = (if fail_mode_open (wk (snd s)) then NextHeaderFilter else Code NGX_ERROR, s)"

text \<open>A server header of nginx's own is kept away by one that is not sent, a server header that is there stays.\<close>

definition remove_server_header :: "ngx_list_calls \<Rightarrow> ngx_response \<Rightarrow> ngx_response" where
  "remove_server_header ng r =
     (if rs_server r then r
      else
        (case ngx_list_push ng (map of_char ''Server'', []) (rs_headers r) of
           None \<Rightarrow> r
         | Some hs \<Rightarrow> r\<lparr>rs_headers := hs, rs_server := ngx_alloc ng 0\<rparr>))"

definition finish_response_headers :: "hook_answers \<Rightarrow> hook_state \<Rightarrow> (hook_result \<times> hook_state) option" where
  "finish_response_headers os s =
     (let (c, k) = s; failed = (\<lambda>s. map_option header_failed (sync_failure os 1 (fail_mode_open (wk (snd s))) s)) in
      if should_return_next_filter c then Some (NextHeaderFilter, s)
      else if tc_res c = NGX_HTTP_FORBIDDEN then Some (RejectRequest, sync_success os s)
      else if tc_res c \<noteq> NGX_OK then failed s
      else if tc_modifications c = [] then Some (NextHeaderFilter, sync_success os s)
      else
        do {
          (res, hs) \<leftarrow> ngx_http_cp_header_modifier (xa_lists (sa_os (ha_io os)) (steps k)) True (tc_modifications c)
                        (rs_headers (tc_response c));
          let s1 = (c\<lparr>tc_response := (tc_response c)\<lparr>rs_headers := hs_headers hs,
                       rs_length_cleared := rs_length_cleared (tc_response c) \<or> hs_length_cleared hs\<rparr>\<rparr>, sync_step k);
          if res \<noteq> NGX_OK then failed s1 else Some (NextHeaderFilter, sync_success os s1)
        })"

definition ngx_http_cp_res_header_filter_core ::
    "hook_answers \<Rightarrow> nat \<Rightarrow> bool \<Rightarrow> bool \<Rightarrow> ngx_request \<Rightarrow> ngx_response \<Rightarrow> sync_session \<Rightarrow> ngx_worker
     \<Rightarrow> (hook_result \<times> hook_state) option" where
  "ngx_http_cp_res_header_filter_core os rounds is_async_enabled filter_mode request response0 d k0 =
     (let begin_time = sync_now os k0; k = sync_step (sync_step k0);
          response = (if st_remove_server (settings k0) \<noteq> 0
                      then remove_server_header (xa_lists (sa_os (ha_io os)) (steps k0 + 1)) response0 else response0);
          c = sync_thread_ctx request response d []; s = (c, k);
          passes = (if filter_mode then \<not> initial_async_mode d \<or> \<not> x_async_mode (wk k) else initial_async_mode d \<or> is_async_enabled)
      in if passes then Some (NextHeaderFilter, s)
         else if \<not> ngx_isIpcReady (wk k) then Some (header_failed (set_fail_verdict s))
         else if filter_mode \<and> \<not> async_processing_needed d then Some (NextHeaderFilter, s)
         else
           do {
             (transparent, k1) \<leftarrow> hook_transparent os k;
             let s1 = (c, k1);
             if transparent then Some (header_failed (set_fail_verdict s1))
             else if ns_verdict d \<noteq> TRAFFIC_VERDICT_INSPECT then Some (NextHeaderFilter, s1)
             else
               do {
                 (timed_out, s2) \<leftarrow> was_transaction_timedout os s1;
                 if timed_out then
                   Some (if tc_verdict (fst s2) = TRAFFIC_VERDICT_DROP then (Code NGX_ERROR, s2)
                         else (NextHeaderFilter, set_fail_verdict s2))
                 else if \<not> filter_mode \<and> \<not> was_request_fully_inspected d then
                   do {
                     (c3, k3) \<leftarrow> sync_failure os 1 (fail_mode_open (wk (snd s2))) s2;
                     Some (NextHeaderFilter, upd_tc_session (set_sync_verdict TRAFFIC_VERDICT_ACCEPT) c3,
                           count_hook REQ_FAILED_TO_REACH_UPSTREAM 1 k3)
                   }
                 else
                   do {
                     (ran, s3) \<leftarrow> ngx_cp_run_in_thread_timeout os (ngx_http_cp_res_header_filter_thread os rounds)
                                   (st_res_header_timeout (settings (snd s2))) ((fst s2)\<lparr>tc_filter_mode := filter_mode\<rparr>, snd s2);
                     if \<not> ran then
                       Some (let (c4, k4) = set_fail_verdict s3 in header_failed (c4, count_hook RES_HEADER_THREAD_TIMEOUT 1 k4))
                     else finish_response_headers os (add_response_time os begin_time s3)
                   }
               }
           })"

end
