(* ===== verification/Ngx_Init.thy ===== *)
theory Ngx_Init
  imports Ngx_Io
begin

text \<open>
  The initialisation of a worker (\<open>ngx_cp_initializer.c\<close>): the identity of the worker, the registration with the
  attachments manager, the handshake with the service, the channels and the static resources. As in
  the modules below, \<open>None\<close> is a loop that has not ended within the rounds, or a fault.
\<close>

section \<open>Answers of the system\<close>

text \<open>
  By the number of the call. \<open>ia_readable\<close> says whether one of the three polls before a read finds data,
  \<open>ia_no_entry\<close> whether a failed connect found no such path, \<open>ia_cgroup\<close> the lines of \<open>/proc/self/cgroup\<close>,
  \<open>ia_static\<close> the names in the directory of static resources (\<open>None\<close> when it cannot be read).
\<close>

record ngx_init_answers =
  ia_sync :: sync_answers
  ia_write :: "nat \<Rightarrow> int"
  ia_read :: "nat \<Rightarrow> bytes option"
  ia_readable :: "nat \<Rightarrow> bool"
  ia_timeout :: "nat \<Rightarrow> bool"
  ia_socket :: "nat \<Rightarrow> int"
  ia_connect :: "nat \<Rightarrow> bytes \<Rightarrow> bool"
  ia_no_entry :: "nat \<Rightarrow> bool"
  ia_ipc :: "nat \<Rightarrow> ipc_calls_2"
  ia_log :: LoggingData
  ia_metadata :: "nat \<Rightarrow> metadata_calls"
  ia_access :: "nat \<Rightarrow> bool"
  ia_cgroup :: "nat \<Rightarrow> string list option"
  ia_static :: "nat \<Rightarrow> bytes list option"
  ia_hash_ok :: "nat \<Rightarrow> bool"
  ia_uid :: u32
  ia_gid :: u32
  ia_cores :: u32
  ia_worker :: nat
  ia_conf_workers :: "nat option"

section \<open>The metadata file\<close>

definition ngx_copy_attachment_metadata_file :: "ngx_init_answers \<Rightarrow> ngx_worker \<Rightarrow> ngx_int \<times> ngx_worker" where
  "ngx_copy_attachment_metadata_file os k =
     (let m = ia_metadata os (steps k); k1 = sync_step k in
      if \<not> md_src_stat m then
        (if \<not> md_dest_open m \<or> \<not> md_writes m 0 \<or> \<not> md_rename m then (NGX_ERROR, k1)
         else (NGX_OK, k1\<lparr>wk_metadata_file := Some compiled_metadata\<rparr>))
      else if \<not> md_src_open m \<or> \<not> md_dest_open m \<or> \<not> copy_chunks (md_writes m) 0 (md_chunks m) \<or> \<not> md_read_ok m \<or> \<not> md_rename m
      then (NGX_ERROR, k1)
      else (NGX_OK, k1\<lparr>wk_metadata_file := Some (concat (md_chunks m))\<rparr>))"

definition ngx_remove_attachment_metadata_file :: "ngx_init_answers \<Rightarrow> ngx_worker \<Rightarrow> ngx_worker" where
  "ngx_remove_attachment_metadata_file os k =
     (if wk_metadata_file k = None then k
      else if \<not> md_unlink (ia_metadata os (steps k)) then sync_step k
      else (sync_step k)\<lparr>wk_metadata_file := None\<rparr>)"

section \<open>Exchanging data\<close>

text \<open>
  Writing the bytes, as many as the socket takes at a time. The result is that of the last call: a
  time-out ends the loop with it, and so does a negative one. The socket is closed then, but not
  the variable of the caller.
\<close>

fun exchange_write :: "ngx_init_answers \<Rightarrow> nat \<Rightarrow> int \<Rightarrow> bytes \<Rightarrow> int \<Rightarrow> ngx_worker \<Rightarrow> (int \<times> ngx_worker) option" where
  "exchange_write os rounds sock data res k =
     (if data = [] then Some (res, k)
      else
        (case rounds of
           0 \<Rightarrow> None
         | Suc n \<Rightarrow>
             let r = ia_write os (steps k); k1 = sync_step k in
             if r < 0 then Some (r, k1)
             else
               let k2 = on_world (\<lambda>w. w\<lparr>x_sent := x_sent w @ [(sock, take (nat r) data)]\<rparr>) k1 in
               if ia_timeout os (steps k2) then Some (r, sync_step k2)
               else exchange_write os n sock (drop (nat r) data) r (sync_step k2)))"

declare exchange_write.simps [simp del]

fun exchange_read :: "ngx_init_answers \<Rightarrow> nat \<Rightarrow> nat \<Rightarrow> bytes \<Rightarrow> int \<Rightarrow> ngx_worker \<Rightarrow> (int \<times> bytes \<times> ngx_worker) option" where
  "exchange_read os rounds wanted got res k =
     (if wanted = 0 then Some (res, got, k)
      else
        (case rounds of
           0 \<Rightarrow> None
         | Suc n \<Rightarrow>
             if \<not> ia_readable os (steps k) then Some (-1, got, sync_step k)
             else
               let k1 = sync_step k in
               (case ia_read os (steps k1) of
                  None \<Rightarrow> Some (-1, got, sync_step k1)
                | Some bs \<Rightarrow>
                    let part = take wanted bs; k2 = sync_step k1 in
                    if ia_timeout os (steps k2) then Some (int (length part), got @ part, sync_step k2)
                    else exchange_read os n (wanted - length part) (got @ part) (int (length part)) (sync_step k2))))"

declare exchange_read.simps [simp del]

text \<open>Values one after the other; a result that is not positive ends the exchange.\<close>

fun exchange_fields :: "ngx_init_answers \<Rightarrow> nat \<Rightarrow> int \<Rightarrow> bytes list \<Rightarrow> ngx_worker \<Rightarrow> (bool \<times> ngx_worker) option" where
  "exchange_fields os rounds sock [] k = Some (True, k)"
| "exchange_fields os rounds sock (d # ds) k =
     do {
       (res, k1) \<leftarrow> exchange_write os rounds sock d 0 k;
       if res \<le> 0 then Some (False, k1) else exchange_fields os rounds sock ds k1
     }"

section \<open>The handshake with the service\<close>

definition hash_string :: "bytes \<Rightarrow> u32" where
  "hash_string s = foldl (\<lambda>h b. (h * 31 + ucast b) mod 10000) 0 s"

text \<open>The container's part of the unique id is what stands before the last underscore.\<close>

definition container_part :: "string \<Rightarrow> string" where
  "container_part s =
     (if CHR ''_'' \<in> set s then rev (tl (dropWhile (\<lambda>c. c \<noteq> CHR ''_'') (rev s))) else s)"

definition target_core :: "ngx_init_answers \<Rightarrow> ngx_worker \<Rightarrow> u32" where
  "target_core os k =
     (if st_paired_affinity (settings k) = 0 then -1
      else (of_nat (ia_worker os + 1) - 1 + hash_string (string_bytes (container_part (take 255 (wk_unique_id k))))) mod ia_cores os)"

definition handshake_fields :: "ngx_init_answers \<Rightarrow> ngx_worker \<Rightarrow> bytes list" where
  "handshake_fields os k =
     (let uid_size = (of_nat (length (wk_unique_id k)) :: u8)
      in [[uid_size], take (unat uid_size) (string_bytes (wk_unique_id k)), le32 (ia_uid os), le32 (ia_gid os), le32 (target_core os k)])"

definition set_comm_socket :: "int \<Rightarrow> ngx_worker \<Rightarrow> ngx_worker" where
  "set_comm_socket sock = on_world (\<lambda>w. w\<lparr>x_comm_socket := sock\<rparr>)"

definition set_secondary_socket :: "int \<Rightarrow> ngx_worker \<Rightarrow> ngx_worker" where
  "set_secondary_socket sock = on_world (\<lambda>w. w\<lparr>x_secondary_socket := sock\<rparr>)"

definition connect_secondary :: "ngx_init_answers \<Rightarrow> ngx_worker \<Rightarrow> ngx_int \<times> ngx_worker" where
  "connect_secondary os k =
     (let sock = ia_socket os (steps k); k1 = set_secondary_socket sock (sync_step k) in
      if sock < 0 then (NGX_ERROR, k1)
      else if \<not> ia_connect os (steps k1) (take 107 (sun_path (wk_signal_path k) @ string_bytes ''_secondary''))
      then (NGX_ERROR, set_secondary_socket (-1) (sync_step k1))
      else (NGX_OK, sync_step k1))"

definition ngx_init_signaling_socket :: "ngx_init_answers \<Rightarrow> nat \<Rightarrow> ngx_worker \<Rightarrow> (ngx_int \<times> ngx_worker) option" where
  "ngx_init_signaling_socket os rounds k =
     (let sock = ia_socket os (steps k); k1 = set_comm_socket sock (sync_step k) in
      if sock < 0 then Some (NGX_ERROR, k1)
      else if \<not> ia_connect os (steps k1) (sun_path (wk_signal_path k1))
      then Some (NGX_ERROR, set_comm_socket (-1) (sync_step k1))
      else
        do {
          (sent, k2) \<leftarrow> exchange_fields os rounds sock (handshake_fields os k1) (sync_step k1);
          if \<not> sent then Some (NGX_ERROR, k2)
          else
            do {
              (res, _, k3) \<leftarrow> exchange_read os rounds 1 [] 0 k2;
              Some (if res \<le> 0 then (NGX_ERROR, k3)
                    else if \<not> x_async_mode (wk k3) then (NGX_OK, k3) else connect_secondary os k3)
            }
        })"

section \<open>Identity\<close>

text \<open>The first line with one of the two prefixes decides; \<open>snprintf\<close> leaves 12 characters.\<close>

fun ngx_container_id :: "string list \<Rightarrow> string option" where
  "ngx_container_id [] = None"
| "ngx_container_id (line # lines) =
     (case after_first ''docker/'' line of
        Some s \<Rightarrow> Some (take 12 s)
      | None \<Rightarrow> (case after_first ''cri-containerd-'' line of Some s \<Rightarrow> Some (take 12 s) | None \<Rightarrow> ngx_container_id lines))"

definition get_docker_id :: "ngx_init_answers \<Rightarrow> ngx_worker \<Rightarrow> string option \<times> ngx_worker" where
  "get_docker_id os k =
     (case wk_docker_id k of
        Some s \<Rightarrow> (Some s, k)
      | None \<Rightarrow>
          (case ia_cgroup os (steps k) of
             None \<Rightarrow> (None, sync_step k)
           | Some lines \<Rightarrow>
               let s = (case ngx_container_id lines of None \<Rightarrow> [] | Some s \<Rightarrow> s)
               in (Some s, (sync_step k)\<lparr>wk_docker_id := Some s\<rparr>)))"

definition ngx_set_unique_id :: "ngx_init_answers \<Rightarrow> ngx_worker \<Rightarrow> ngx_int \<times> ngx_worker" where
  "ngx_set_unique_id os k =
     (if wk_unique_id k \<noteq> [] then (NGX_OK, k)
      else
        (case ia_cgroup os (steps k) of
           None \<Rightarrow> (NGX_ERROR, sync_step k)
         | Some lines \<Rightarrow>
             let number = show_nat (ia_worker os + 1)
             in (NGX_OK, (sync_step k)\<lparr>wk_unique_id :=
                   (case ngx_container_id lines of None \<Rightarrow> number | Some s \<Rightarrow> s @ ''_'' @ number)\<rparr>)))"

section \<open>Registration\<close>

definition get_num_of_workers :: "ngx_init_answers \<Rightarrow> ngx_worker \<Rightarrow> nat \<times> ngx_worker" where
  "get_num_of_workers os k =
     (if workers_amount_to_send k > 0 then (workers_amount_to_send k, k)
      else (case ia_conf_workers os of None \<Rightarrow> (0, k) | Some n \<Rightarrow> (n, k\<lparr>workers_amount_to_send := n\<rparr>)))"

definition SHARED_VERDICT_SIGNAL_PATH :: bytes where
  "SHARED_VERDICT_SIGNAL_PATH = string_bytes ''/dev/shm/check-point/cp-nano-http-transaction-handler''"

definition ngx_registration_fields :: "ngx_init_answers \<Rightarrow> nat \<Rightarrow> string \<Rightarrow> bytes list" where
  "ngx_registration_fields os workers family_name =
     (let family_name_size = (of_nat (length family_name) :: u8)
      in [[0], [of_nat (ia_worker os + 1)], [of_nat workers], [family_name_size]]
         @ (if family_name_size > 0 then [take (unat family_name_size) (string_bytes family_name)] else []))"

text \<open>
  The path of the service, into a buffer of 128 bytes. Its length is not checked; the last byte is
  written at the length that was announced, whatever was read.
\<close>

definition read_signal_path :: "ngx_init_answers \<Rightarrow> nat \<Rightarrow> ngx_worker \<Rightarrow> (ngx_int \<times> ngx_worker) option" where
  "read_signal_path os rounds k =
     do {
       (res, len, k1) \<leftarrow> exchange_read os rounds 1 [] 0 k;
       if res \<le> 0 then Some (NGX_ERROR, k1)
       else
         do {
           let path_length = unat (hd len);
           (res2, path, k2) \<leftarrow> exchange_read os rounds path_length [] 0 k1;
           if length path > 128 then None
           else
             let buf = store_bytes (wk_signal_path k2) 0 path in
             if res2 \<le> 0 then Some (NGX_ERROR, k2\<lparr>wk_signal_path := buf\<rparr>)
             else if path_length \<ge> 128 then None
             else Some (NGX_OK, k2\<lparr>wk_signal_path := buf[path_length := 0]\<rparr>)
         }
     }"

definition ngx_register_to_attachments_manager ::
    "ngx_init_answers \<Rightarrow> nat \<Rightarrow> nat \<Rightarrow> ngx_worker \<Rightarrow> (ngx_int \<times> ngx_worker) option" where
  "ngx_register_to_attachments_manager os rounds workers k0 =
     (case get_docker_id os k0 of
        (None, k) \<Rightarrow> Some (NGX_ERROR, k)
      | (Some family_name, k) \<Rightarrow>
          let sock = ia_socket os (steps k); k1 = (sync_step k)\<lparr>wk_registration_socket := sock\<rparr>;
              closed = (\<lambda>(res, k). (res, k\<lparr>wk_registration_socket := -1\<rparr>)) in
          if sock < 0 then Some (NGX_ERROR, k1)
          else if \<not> ia_connect os (steps k1) SHARED_REGISTRATION_SIGNAL_PATH then
            Some (closed (if ia_no_entry os (steps k1)
                          then (NGX_OK, (sync_step k1)\<lparr>wk_signal_path :=
                                  take 128 (SHARED_VERDICT_SIGNAL_PATH @ replicate 128 0)\<rparr>)
                          else (NGX_ERROR, sync_step k1)))
          else
            do {
              (sent, k2) \<leftarrow> exchange_fields os rounds sock (ngx_registration_fields os workers family_name) (sync_step k1);
              if \<not> sent then Some (closed (NGX_ERROR, k2)) else map_option closed (read_signal_path os rounds k2)
            })"

section \<open>Channels\<close>

definition ngx_init_channel ::
    "ngx_init_answers \<Rightarrow> string \<Rightarrow> u16 \<Rightarrow> ngx_worker \<Rightarrow> (SharedMemoryIPC_2 option \<times> ngx_worker) option" where
  "ngx_init_channel os name elements k =
     (case initIpc_2 (ia_ipc os (steps k)) (xa_files (sa_os (ia_sync os))) (x_process (wk k)) name False elements (ia_log os) of
        (InitFault_2, _) \<Rightarrow> None
      | (InitNull_2 _, P) \<Rightarrow> Some (None, on_world (\<lambda>w. w\<lparr>x_process := P\<rparr>) (sync_step k))
      | (InitOk_2 ipc, P) \<Rightarrow> Some (Some ipc, on_world (\<lambda>w. w\<lparr>x_process := P\<rparr>) (sync_step k)))"

definition init_primary_channel :: "ngx_init_answers \<Rightarrow> ngx_worker \<Rightarrow> ngx_worker option" where
  "init_primary_channel os k =
     do {
       (ipc, k1) \<leftarrow> ngx_init_channel os (wk_unique_id k) (ucast (st_num_ipc_elements (settings k))) k;
       Some (on_world (\<lambda>w. w\<lparr>x_ipc := ipc\<rparr>) k1)
     }"

definition init_secondary_channel :: "ngx_init_answers \<Rightarrow> ngx_worker \<Rightarrow> ngx_worker option" where
  "init_secondary_channel os k =
     do {
       (ipc, k1) \<leftarrow> ngx_init_channel os (cstr_trunc (MAX_NGINX_UID_LEN + 10) (wk_unique_id k @ ''_sync'')) 200 k;
       Some (on_world (\<lambda>w. w\<lparr>x_secondary_ipc := ipc\<rparr>) k1)
     }"

text \<open>The results of the code are 0, -1, -2 and -3.\<close>

definition ngx_restart_communication :: "ngx_init_answers \<Rightarrow> nat \<Rightarrow> ngx_worker \<Rightarrow> (int \<times> ngx_worker) option" where
  "ngx_restart_communication os rounds k0 =
     do {
       let k = on_world (\<lambda>w. w\<lparr>x_ipc := None, x_secondary_ipc := None\<rparr>) k0;
       (res, k1) \<leftarrow> ngx_init_signaling_socket os rounds k;
       (res2, k2) \<leftarrow> (if res = NGX_OK then Some (NGX_OK, k1)
                      else
                        (case get_num_of_workers os k1 of
                           (n, k2) \<Rightarrow>
                             do {
                               (r, k3) \<leftarrow> ngx_register_to_attachments_manager os rounds n k2;
                               if r = NGX_ERROR then Some (NGX_ERROR, k3) else ngx_init_signaling_socket os rounds k3
                             }));
       if res2 = NGX_ERROR then Some (-1, k2)
       else
         do {
           k3 \<leftarrow> init_primary_channel os k2;
           if x_ipc (wk k3) = None then Some (-2, k3)
           else if \<not> x_async_mode (wk k3) then Some (0, k3)
           else do { k4 \<leftarrow> init_secondary_channel os k3; Some (if x_secondary_ipc (wk k4) = None then -3 else 0, k4) }
         }
     }"

section \<open>Initialisation\<close>

text \<open>A step that does not answer \<open>NGX_OK\<close> ends the initialisation with its answer.\<close>

definition and_then ::
    "(ngx_int \<times> ngx_worker) option \<Rightarrow> (ngx_worker \<Rightarrow> (ngx_int \<times> ngx_worker) option) \<Rightarrow> (ngx_int \<times> ngx_worker) option" where
  "and_then step rest = do { (res, k) \<leftarrow> step; if res \<noteq> NGX_OK then Some (res, k) else rest k }"

definition load_config :: "ngx_init_answers \<Rightarrow> ngx_worker \<Rightarrow> (ngx_int \<times> ngx_worker) option" where
  "load_config os k =
     init_general_config (sa_page_format (ia_sync os)) (sa_before (ia_sync os)) (sa_conf (ia_sync os) (steps k)) (sync_step k)"

definition set_registration :: "nano_attachment_registration_state \<Rightarrow> ngx_worker \<Rightarrow> ngx_worker" where
  "set_registration r = on_world (\<lambda>w. w\<lparr>x_registration := r\<rparr>)"

definition ensure_identity :: "ngx_init_answers \<Rightarrow> ngx_worker \<Rightarrow> ngx_int \<times> ngx_worker" where
  "ensure_identity os k = (if wk_unique_id k = [] then ngx_set_unique_id os k else (NGX_OK, k))"

definition ensure_metadata :: "ngx_init_answers \<Rightarrow> ngx_worker \<Rightarrow> ngx_int \<times> ngx_worker" where
  "ensure_metadata os k = (if wk_metadata_file k = None then ngx_copy_attachment_metadata_file os k else (NGX_OK, k))"

definition ngx_ensure_registered :: "ngx_init_answers \<Rightarrow> nat \<Rightarrow> ngx_worker \<Rightarrow> (ngx_int \<times> ngx_worker) option" where
  "ngx_ensure_registered os rounds k =
     (if x_registration (wk k) = PENDING then Some (NGX_ERROR, k)
      else if x_registration (wk k) = NOT_REGISTERED then
        (case get_num_of_workers os k of
           (n, k1) \<Rightarrow>
             do {
               (res, k2) \<leftarrow> ngx_register_to_attachments_manager os rounds n k1;
               Some (if res = NGX_ERROR then (NGX_ERROR, k2) else (NGX_OK, set_registration REGISTERED k2))
             })
      else Some (NGX_OK, k))"

definition ensure_signaling :: "ngx_init_answers \<Rightarrow> nat \<Rightarrow> ngx_worker \<Rightarrow> (ngx_int \<times> ngx_worker) option" where
  "ensure_signaling os rounds k =
     (if x_comm_socket (wk k) < 0 \<or> (x_async_mode (wk k) \<and> x_secondary_socket (wk k) < 0)
         \<or> st_toggled_on (settings k) \<or> st_toggled_off (settings k) then
        do {
          (res, k1) \<leftarrow> ngx_init_signaling_socket os rounds k;
          Some (if res = NGX_ERROR
                then (NGX_ERROR, if x_registration (wk k1) \<noteq> PENDING then set_registration NOT_REGISTERED k1 else k1)
                else (NGX_OK, k1))
        }
      else Some (NGX_OK, k))"

text \<open>
  The counter of retries is a local variable that starts at 10, so the restart that belongs to its end is
  never reached.
\<close>

definition ensure_primary :: "ngx_init_answers \<Rightarrow> ngx_worker \<Rightarrow> (ngx_int \<times> ngx_worker) option" where
  "ensure_primary os k =
     (if x_ipc (wk k) \<noteq> None then Some (NGX_OK, k)
      else do { k1 \<leftarrow> init_primary_channel os k; Some (if x_ipc (wk k1) = None then NGX_ERROR else NGX_OK, k1) })"

definition ensure_secondary :: "ngx_init_answers \<Rightarrow> ngx_worker \<Rightarrow> (ngx_int \<times> ngx_worker) option" where
  "ensure_secondary os k =
     (if \<not> x_async_mode (wk k) \<or> x_secondary_ipc (wk k) \<noteq> None then Some (NGX_OK, k)
      else do { k1 \<leftarrow> init_secondary_channel os k; Some (if x_secondary_ipc (wk k1) = None then NGX_ERROR else NGX_OK, k1) })"

definition init_static_resources :: "ngx_init_answers \<Rightarrow> ngx_worker \<Rightarrow> ngx_int \<times> ngx_worker" where
  "init_static_resources os k =
     (case ia_static os (steps k) of
        None \<Rightarrow> (NGX_ERROR, sync_step k)
      | Some names \<Rightarrow>
          if names = [] then (NGX_OK, sync_step k)
          else if \<not> ia_hash_ok os (steps k) then (NGX_ERROR, sync_step k)
          else (NGX_OK, (sync_step k)\<lparr>wk_static_resources := Some names\<rparr>))"

definition ensure_static_resources :: "ngx_init_answers \<Rightarrow> ngx_worker \<Rightarrow> ngx_int \<times> ngx_worker" where
  "ensure_static_resources os k =
     (if wk_static_resources k \<noteq> None then (NGX_OK, k)
      else if \<not> memory_pool k then (NGX_ERROR, k)
      else init_static_resources os k)"

definition ngx_cp_attachment_init_process :: "ngx_init_answers \<Rightarrow> nat \<Rightarrow> ngx_worker \<Rightarrow> (ngx_int \<times> ngx_worker) option" where
  "ngx_cp_attachment_init_process os rounds k0 =
     do {
       (_, k) \<leftarrow> load_config os (k0\<lparr>connection_attempts := connection_attempts k0 + 1\<rparr>);
       if \<not> ia_access os (steps k) then Some (NGX_ABORT, sync_step k)
       else
         and_then (Some (ensure_identity os (sync_step k))) (\<lambda>k1.
         and_then (Some (ensure_metadata os k1)) (\<lambda>k2.
         and_then (ngx_ensure_registered os rounds k2) (\<lambda>k3.
         and_then (ensure_signaling os rounds k3) (\<lambda>k4.
         and_then (load_config os k4) (\<lambda>k5.
         and_then (ensure_primary os k5) (\<lambda>k6.
         and_then (ensure_secondary os k6) (\<lambda>k7.
         and_then (Some (ensure_static_resources os k7)) (\<lambda>k8.
           Some (NGX_OK, k8\<lparr>connection_attempts := 0\<rparr>)))))))))
     }"

end
