(* ===== verification/Ngx_Request_Handler.thy ===== *)
theory Ngx_Request_Handler
  imports Ngx_Hooks Ngx_Init
begin

text \<open>
  The handler of request headers in synchronous mode (\<open>ngx_http_cp_req_header_handler_sync\<close> of \<open>ngx_cp_hooks.c\<close>) with what it
  calls first: the registration of the worker (\<open>ngx_cp_hook_threads.c\<close>), the limit on sessions and the static
  resources (\<open>ngx_cp_static_content.c\<close>).
\<close>

section \<open>Registration\<close>

definition get_timeout_val_msec :: "timeval \<Rightarrow> u32 \<Rightarrow> timeval" where
  "get_timeout_val_msec now delta_time_in_msec =
     (let delta = sint delta_time_in_msec in (fst now + delta sdiv 1000, snd now + (delta smod 1000) * 1000))"

definition MIN_REGISTRATION_DURATION_MSEC :: u32 where "MIN_REGISTRATION_DURATION_MSEC = 100"
definition MAX_REGISTRATION_DURATION_MSEC :: u32 where "MAX_REGISTRATION_DURATION_MSEC = 3200"

definition reset_registration_timeout :: "timeval \<Rightarrow> ngx_worker \<Rightarrow> ngx_worker" where
  "reset_registration_timeout now k =
     k\<lparr>registration_timeout := get_timeout_val_msec now (registration_duration k),
       registration_duration := (if registration_duration k < MAX_REGISTRATION_DURATION_MSEC
                                 then registration_duration k * 2 else registration_duration k)\<rparr>"

definition reset_registration_timeout_duration :: "ngx_worker \<Rightarrow> ngx_worker" where
  "reset_registration_timeout_duration k = k\<lparr>registration_duration := MIN_REGISTRATION_DURATION_MSEC\<rparr>"

definition is_registration_timeout_reached :: "timeval \<Rightarrow> ngx_worker \<Rightarrow> bool" where
  "is_registration_timeout_reached now k = is_timeout_reached now (registration_timeout k)"

definition registration_failure_weight :: int where "registration_failure_weight = 2"

definition hook_reset_transparent :: "hook_answers \<Rightarrow> ngx_worker \<Rightarrow> ngx_worker option" where
  "hook_reset_transparent os k =
     do {
       f \<leftarrow> reset_transparent_mode (now_val (sa_os (ha_io os)) (steps k)) (x_failure (wk k));
       Some (on_world (\<lambda>w. w\<lparr>x_failure := f\<rparr>) (sync_step k))
     }"

text \<open>
  The routine of the registration thread. An abort of a registered worker is forgotten about at once, so it does
  not count as a failure.
\<close>

definition ngx_http_cp_registration_thread ::
    "hook_answers \<Rightarrow> ngx_init_answers \<Rightarrow> nat \<Rightarrow> hook_state \<Rightarrow> hook_state option" where
  "ngx_http_cp_registration_thread os ios rounds s =
     (let (c, k) = s in
      do {
        (res, k1) \<leftarrow> ngx_cp_attachment_init_process ios rounds k;
        k2 \<leftarrow> (if res = NGX_ABORT \<and> already_registered k1
               then hook_reset_transparent os (on_world ngx_disconnect_communication (k1\<lparr>already_registered := False\<rparr>))
               else Some k1);
        if res = NGX_OK then Some (c, k2)
        else if already_registered k2 then
          map_option (return_with NGX_OK) (sync_failure os registration_failure_weight (fail_mode_open (wk k2)) (c, k2))
        else Some (return_with NGX_OK (c, k2))
      })"

section \<open>Static resources\<close>

text \<open>What stands after the last slash of the path of a request.\<close>

definition get_static_resource_name :: "bytes \<Rightarrow> bytes option" where
  "get_static_resource_name uri =
     (if of_char (CHR ''/'') \<in> set uri
      then Some (rev (takeWhile (\<lambda>b. b \<noteq> of_char (CHR ''/'')) (rev uri))) else None)"

text \<open>
  The calls of nginx: whether the copy of the path can be allocated, how a name is found in the hash table
  made of a list of names, whether the path of the file can be made, the file opened and the headers sent,
  whether the file is empty and the request not the main one, and what sending the file answers.
\<close>

record static_calls =
  sc_copied :: bool
  sc_hash_find :: "bytes list \<Rightarrow> bytes \<Rightarrow> bool"
  sc_mapped :: bool
  sc_opened :: bool
  sc_headers_sent :: bool
  sc_empty_subrequest :: bool
  sc_sent :: ngx_int

text \<open>The root of the location and the path of the request are set for the call and restored, unless it ends early.\<close>

definition send_static_resource :: "static_calls \<Rightarrow> string \<Rightarrow> bytes \<Rightarrow> bytes \<times> bytes \<Rightarrow> ngx_int \<times> bytes \<times> bytes" where
  "send_static_resource sc static_path name location =
     (let replaced = (string_bytes static_path, name) in
      if \<not> sc_mapped sc \<or> \<not> sc_opened sc \<or> \<not> sc_headers_sent sc then (NGX_ERROR, replaced)
      else if sc_empty_subrequest sc then (NGX_OK, replaced)
      else (sc_sent sc, location))"

definition is_static_resource_request :: "static_calls \<Rightarrow> bytes \<Rightarrow> ngx_worker \<Rightarrow> bool" where
  "is_static_resource_request sc name k =
     (case wk_static_resources k of None \<Rightarrow> False | Some names \<Rightarrow> sc_hash_find sc names name)"

text \<open>The code a request is finalized with, \<open>None\<close> when it goes on.\<close>

definition finalize_static_resource_response :: "ngx_int \<Rightarrow> ngx_int option" where
  "finalize_static_resource_response res =
     (if res = NGX_DECLINED then None
      else Some (if res \<in> {NGX_OK, NGX_DONE, NGX_AGAIN} then res else NGX_HTTP_FORBIDDEN))"

text \<open>
  The answer of the handler, the code the request was finalized with and the verdict of the session, with
  the root of the location and the path of the request. \<open>NOT_A_STATIC_RESOURCE\<close> is \<open>NGX_DECLINED\<close>.
\<close>

definition handle_static_resource_request ::
    "static_calls \<Rightarrow> ngx_worker \<Rightarrow> bytes \<Rightarrow> bytes \<Rightarrow> ServiceVerdict
     \<Rightarrow> ngx_int \<times> ngx_int option \<times> ServiceVerdict \<times> bytes \<times> bytes" where
  "handle_static_resource_request sc k root uri verdict =
     (if \<not> sc_copied sc then (NGX_ERROR, finalize_static_resource_response NGX_ERROR, verdict, root, uri)
      else
        (case get_static_resource_name uri of
           None \<Rightarrow> (NGX_ERROR, finalize_static_resource_response NGX_ERROR, verdict, root, uri)
         | Some name \<Rightarrow>
             if \<not> is_static_resource_request sc name k
             then (NGX_DECLINED, finalize_static_resource_response NGX_DECLINED, verdict, root, uri)
             else
               (case send_static_resource sc (st_static_path (settings k)) name (root, uri) of
                  (res, root1, uri1) \<Rightarrow>
                    (NGX_DONE, finalize_static_resource_response res, TRAFFIC_VERDICT_IRRELEVANT, root1, uri1))))"

section \<open>The end of the headers\<close>

text \<open>A rejected request is handed to the block page.\<close>

definition finalize_request_headers_sync :: "hook_answers \<Rightarrow> hook_state \<Rightarrow> (hook_result \<times> hook_state) option" where
  "finalize_request_headers_sync os s =
     (let (c, k) = s;
          failed = (\<lambda>s. map_option (\<lambda>s1. (Code (fail_mode_verdict_of (snd s1)), s1))
                          (sync_failure os 1 (fail_mode_open (wk (snd s))) s));
          inspected = (\<lambda>c. if rq_has_body (tc_request c) then c
                           else upd_tc_session (\<lambda>d. d\<lparr>was_request_fully_inspected := True\<rparr>) c);
          finished = (\<lambda>s. let (c1, k1) = sync_success os s in Some (Code NGX_OK, inspected c1, k1))
      in if tc_res c = NGX_HTTP_FORBIDDEN then Some (RejectRequest, sync_success os s)
         else if tc_res c \<noteq> NGX_OK then failed s
         else if tc_modifications c = [] then finished s
         else
           do {
             (res, hs) \<leftarrow> ngx_http_cp_header_modifier (xa_lists (sa_os (ha_io os)) (steps k)) False (tc_modifications c)
                           (rq_headers (tc_request c));
             let s1 = (c\<lparr>tc_request := (tc_request c)\<lparr>rq_headers := hs_headers hs,
                          rq_length_cleared := rq_length_cleared (tc_request c) \<or> hs_length_cleared hs\<rparr>\<rparr>, sync_step k);
             if res \<noteq> NGX_OK then failed s1 else finished s1
           })"

definition declined_if_ok :: "hook_result \<Rightarrow> hook_result" where
  "declined_if_ok r = (if r = Code NGX_OK then Code NGX_DECLINED else r)"

section \<open>The handler\<close>

text \<open>
  The first request of a worker resets the failing state and the metrics.
\<close>

definition start_worker :: "hook_answers \<Rightarrow> ngx_worker \<Rightarrow> ngx_worker option" where
  "start_worker os k0 =
     do {
       k1 \<leftarrow> (if failure_state_initialized k0 then Some k0
              else map_option (\<lambda>k. k\<lparr>failure_state_initialized := True\<rparr>) (hook_reset_transparent os k0));
       Some (if metric_data_initialized k1 then k1
             else (on_world (\<lambda>w. w\<lparr>x_failure := (x_failure w)\<lparr>fs_metrics := ngx_reset_metric_data\<rparr>\<rparr>) k1)
                    \<lparr>metric_data_initialized := True\<rparr>)
     }"

definition limit_sessions :: "hook_answers \<Rightarrow> ngx_worker \<Rightarrow> ServiceVerdict \<times> ngx_worker" where
  "limit_sessions os k =
     (let conf = x_conf (wk k);
          (v, r) = enforce_sessions_rate
                     (getStringValue conf ''sessions_per_minute_limit_verdict'' = ''Accept'', getNumericalValue conf ''max_sessions_per_minute'')
                     (of_int (fst (now_val (sa_os (ha_io os)) (steps k)))) (rate k)
      in (v, (sync_step k)\<lparr>rate := r\<rparr>))"

text \<open>What a failure answers that lets the request pass without an inspection, or stops it.\<close>

definition failed_open_or_closed :: "hook_state \<Rightarrow> hook_result \<times> hook_state" where
  "failed_open_or_closed s =
     (Code (if fail_mode_open (wk (snd s)) then NGX_DECLINED else NGX_HTTP_FORBIDDEN), set_fail_verdict s)"

text \<open>
  Registration, when the worker is not registered or not connected; \<open>Inl\<close> is the answer of the hook. The
  routine answers a failed registration with \<open>NGX_OK\<close>, and the request is accepted.
\<close>

definition ensure_worker_registered ::
    "hook_answers \<Rightarrow> ngx_init_answers \<Rightarrow> nat \<Rightarrow> hook_state \<Rightarrow> ((hook_result \<times> hook_state) + hook_state) option" where
  "ensure_worker_registered os ios rounds s =
     (let (c, k) = s; now = now_val (sa_os (ha_io os)) (steps k) in
      if already_registered k \<and> ngx_isIpcReady (wk k) then Some (Inr s)
      else
        do {
          (ran, c1, k1) \<leftarrow> (if is_registration_timeout_reached now k
                             then ngx_cp_run_in_thread_timeout os (ngx_http_cp_registration_thread os ios rounds)
                                    (st_registration_timeout (settings k)) (c, reset_registration_timeout now (sync_step k))
                             else Some (False, c, sync_step k));
          Some (if \<not> ran then Inl (let (r, c2, k2) = failed_open_or_closed (c1, k1) in (r, c2, count_hook REG_THREAD_TIMEOUT 1 k2))
                else if should_return c1
                then Inl (Code (if tc_res c1 = NGX_OK then NGX_DECLINED else tc_res c1),
                          upd_tc_session (set_sync_verdict TRAFFIC_VERDICT_ACCEPT) c1, k1)
                else Inr (c1, k1))
        })"

text \<open>The inspection of the headers of a registered worker.\<close>

definition inspect_request_headers ::
    "hook_answers \<Rightarrow> nat \<Rightarrow> timespec \<Rightarrow> hook_state \<Rightarrow> (hook_result \<times> hook_state) option" where
  "inspect_request_headers os rounds begin_time s =
     do {
       (ran, s1) \<leftarrow> ngx_cp_run_in_thread_timeout os (ngx_http_cp_req_header_handler_thread os rounds)
                     (st_req_header_timeout (settings (snd s))) s;
       if \<not> ran then
         Some (let (r, c2, k2) = failed_open_or_closed s1 in (r, c2, count_hook REQ_HEADER_THREAD_TIMEOUT 1 k2))
       else
         do {
           (held, c2, k2) \<leftarrow> (if tc_verdict (fst s1) = TRAFFIC_VERDICT_DELAYED then ngx_http_cp_hold_verdict os rounds s1
                               else Some (True, s1));
           if \<not> held then
             Some (Code (if fail_mode_hold_open (wk k2) then NGX_DECLINED else NGX_HTTP_FORBIDDEN),
                   upd_tc_session (set_sync_verdict (hold_fail_verdict k2)) c2, count_hook HOLD_THREAD_TIMEOUT 1 k2)
           else if tc_verdict c2 = TRAFFIC_VERDICT_CUSTOM_RESPONSE then Some (CustomResponsePage, c2, k2)
           else
             let s3 = add_request_time os begin_time (c2, k2) in
             if should_return (fst s3) then Some (Code (if tc_res (fst s3) = NGX_OK then NGX_DECLINED else tc_res (fst s3)), s3)
             else map_option (map_prod declined_if_ok id) (finalize_request_headers_sync os s3)
         }
     }"

text \<open>
  The location of a request: whether it has a configuration, whether the attachment is enabled, its tag and
  its root. Without a session the hook has no state to answer with.
\<close>

record location_conf =
  lc_present :: bool
  lc_enable :: bool
  lc_waf_tag :: bytes
  lc_root :: bytes

text \<open>From the point on at which the worker is registered.\<close>

definition handle_registered ::
    "hook_answers \<Rightarrow> static_calls \<Rightarrow> nat \<Rightarrow> location_conf \<Rightarrow> timespec \<Rightarrow> hook_state
     \<Rightarrow> (hook_result \<times> location_conf \<times> hook_state) option" where
  "handle_registered os sc rounds loc begin_time s =
     (let (c, k) = s; k1 = reset_registration_timeout_duration (k\<lparr>already_registered := True\<rparr>) in
      do {
        (intact, w) \<leftarrow> ngx_handle_shmem_corruption (wk k1);
        let k2 = k1\<lparr>wk := w\<rparr>;
        if intact = NGX_ERROR then Some (let (r, s1) = failed_open_or_closed (c, k2) in (r, loc, s1))
        else
          (case handle_static_resource_request sc k2 (lc_root loc) (rq_uri (tc_request c)) (tc_verdict c) of
             (res, finalized, verdict, root, uri) \<Rightarrow>
               if res \<noteq> NGX_DECLINED then
                 Some (case finalized of None \<Rightarrow> Code res | Some code \<Rightarrow> Finalized code res, loc\<lparr>lc_root := root\<rparr>,
                       upd_tc_session (set_sync_verdict verdict) (c\<lparr>tc_request := (tc_request c)\<lparr>rq_uri := uri\<rparr>\<rparr>), k2)
               else map_option (\<lambda>(r, s1). (r, loc, s1)) (inspect_request_headers os rounds begin_time (c, k2)))
      })"

text \<open>\<open>Inl\<close> is an answer before there is a session.\<close>

definition ngx_http_cp_req_header_handler_sync ::
    "hook_answers \<Rightarrow> ngx_init_answers \<Rightarrow> static_calls \<Rightarrow> nat \<Rightarrow> bool \<Rightarrow> bool \<Rightarrow> location_conf \<Rightarrow> ngx_request \<Rightarrow> ngx_response \<Rightarrow> ngx_worker
     \<Rightarrow> ((ngx_int \<times> ngx_worker) + (hook_result \<times> location_conf \<times> hook_state)) option" where
  "ngx_http_cp_req_header_handler_sync os ios sc rounds allocated is_async_enabled loc request response k0 =
     do {
       let begin_time = sync_now os k0;
       k1 \<leftarrow> start_worker os (sync_step k0);
       (transparent, k2) \<leftarrow> hook_transparent os k1;
       if transparent then
         Some (Inl (if fail_mode_open (wk k2) then NGX_DECLINED else NGX_ERROR, count_hook TRANSPARENTS_COUNT 1 k2))
       else if \<not> lc_present loc \<or> \<not> lc_enable loc then Some (Inl (NGX_DECLINED, k2))
       else
         (case init_cp_session_data os allocated k2 of
            (None, k3) \<Rightarrow> Some (Inl (NGX_DECLINED, k3))
          | (Some d0, k3) \<Rightarrow>
              let d = d0\<lparr>initial_async_mode := False\<rparr>;
                  c = (sync_thread_ctx request response d [])\<lparr>tc_waf_tag := lc_waf_tag loc\<rparr> in
              if is_async_enabled then Some (Inr (Code NGX_DECLINED, loc, c, k3))
              else
                let (verdict, k4) = limit_sessions os k3 in
                if verdict \<noteq> TRAFFIC_VERDICT_INSPECT then
                  Some (Inr (Code (if verdict = TRAFFIC_VERDICT_ACCEPT then NGX_DECLINED else NGX_ERROR), loc,
                             upd_tc_session (set_sync_verdict verdict) c, k4))
                else
                  do {
                    r \<leftarrow> ensure_worker_registered os ios rounds (c, k4);
                    map_option Inr
                      (case r of
                         Inl (res, s) \<Rightarrow> Some (res, loc, s)
                       | Inr s \<Rightarrow> handle_registered os sc rounds loc begin_time s)
                  })
     }"

end
