(* ===== verification/Ngx_Custom_Response.thy ===== *)
theory Ngx_Custom_Response
  imports Ngx_Config
begin

text \<open>
  The answers to a rejected request (\<open>ngx_cp_custom_response.c\<close>): the redirect, the block page and the custom
  response. An answer is what was handed to nginx by the time the function returns; what nginx's own
  functions answer is a parameter.
\<close>

section \<open>Answers\<close>

definition NGX_HTTP_CLOSE :: int where "NGX_HTTP_CLOSE = 444"
definition NGX_HTTP_TEMPORARY_REDIRECT :: int where "NGX_HTTP_TEMPORARY_REDIRECT = 307"

text \<open>
  Status, headers and length of the answer, whether its headers were sent, the chain handed to the
  output filter, and the code the request is finalized with.
\<close>

record http_answer =
  an_keepalive :: bool
  an_status :: int
  an_headers :: ngx_headers
  an_length :: "nat option"
  an_header_sent :: bool
  an_body :: "bytes list option"
  an_finalized :: "int option"

text \<open>\<open>ngx_http_send_header\<close>, \<open>ngx_http_output_filter\<close>, the list functions and the allocation of buffers.\<close>

record answer_calls =
  send_header_rc :: int
  output_filter_rc :: int
  list_calls :: ngx_list_calls
  buf_alloc :: "nat \<Rightarrow> bool"

definition push_answer_header :: "ngx_list_calls \<Rightarrow> nat \<Rightarrow> bytes \<Rightarrow> bytes \<Rightarrow> ngx_headers \<Rightarrow> bool \<times> ngx_headers" where
  "push_answer_header ng k key value headers =
     (case ngx_list_push ng (ngx_uninitialised ng) headers of
        None \<Rightarrow> (False, headers)
      | Some garbled \<Rightarrow>
          let pushed = (\<lambda>h. case ngx_list_push ng h headers of None \<Rightarrow> garbled | Some l \<Rightarrow> l) in
          if \<not> ngx_alloc ng k then (False, garbled)
          else if \<not> ngx_alloc ng (k + 1) then (False, pushed (key, snd (ngx_uninitialised ng)))
          else (True, pushed (key, value)))"

definition delete_headers_list :: ngx_headers where
  "delete_headers_list = [[]]"

definition location_key :: bytes where "location_key = map of_char ''Location''"
definition uuid_key :: bytes where "uuid_key = map of_char ''X-Event-ID''"

definition ngx_add_event_id_to_header :: "ngx_list_calls \<Rightarrow> nat \<Rightarrow> answer_pages \<Rightarrow> ngx_headers \<Rightarrow> ngx_headers" where
  "ngx_add_event_id_to_header ng k pg headers =
     (if uuid_size pg = 0 \<or> uuid_buf pg ! 0 = 0 then headers
      else snd (push_answer_header ng k uuid_key (take (uuid_size pg) (uuid_buf pg)) headers))"

text \<open>\<open>a\<close> holds the headers the request had before.\<close>

definition finalize_with :: "int \<Rightarrow> http_answer \<Rightarrow> ngx_int \<times> http_answer" where
  "finalize_with rc a = (NGX_DONE, a\<lparr>an_finalized := Some rc\<rparr>)"

definition send_redirect :: "answer_calls \<Rightarrow> answer_pages \<Rightarrow> http_answer \<Rightarrow> ngx_int \<times> http_answer" where
  "send_redirect ng pg a =
     (case push_answer_header (list_calls ng) 0 location_key (take (redirect_size pg) (redirect_buf pg)) (an_headers a) of
        (pushed, hs) \<Rightarrow>
          if \<not> pushed then finalize_with NGX_HTTP_CLOSE (a\<lparr>an_headers := hs\<rparr>)
          else finalize_with NGX_HTTP_TEMPORARY_REDIRECT
                 (a\<lparr>an_headers := (if add_event_id pg \<noteq> 0 then ngx_add_event_id_to_header (list_calls ng) 2 pg hs else hs),
                    an_keepalive := True\<rparr>))"

definition send_block_page :: "answer_calls \<Rightarrow> answer_pages \<Rightarrow> http_answer \<Rightarrow> ngx_int \<times> http_answer" where
  "send_block_page ng pg a =
     (let page_length = get_response_page_length_web_page pg; rc = send_header_rc ng;
          a1 = a\<lparr>an_headers := ngx_add_event_id_to_header (list_calls ng) 0 pg (an_headers a), an_length := Some page_length\<rparr>
      in if rc = -1 \<or> rc > 0 then finalize_with rc a1
         else
           let a2 = a1\<lparr>an_header_sent := True\<rparr> in
           if page_length \<noteq> 0 then
             (case get_block_page_response (buf_alloc ng) pg of
                None \<Rightarrow> finalize_with rc a2
              | Some out_chain \<Rightarrow> finalize_with (output_filter_rc ng) (a2\<lparr>an_body := Some out_chain\<rparr>))
           else if \<not> buf_alloc ng 0 then (NGX_ERROR, a2)
           else finalize_with rc (a2\<lparr>an_body := Some [[]]\<rparr>))"

definition ngx_http_cp_finalize_rejected_request ::
    "answer_calls \<Rightarrow> bool \<Rightarrow> answer_pages \<Rightarrow> http_answer \<Rightarrow> ngx_int \<times> http_answer" where
  "ngx_http_cp_finalize_rejected_request ng is_response_phase pg a0 =
     (let http_res_code = int (unat (page_code pg)); a = a0\<lparr>an_keepalive := False, an_status := http_res_code\<rparr> in
      if http_res_code = 0 then finalize_with NGX_HTTP_CLOSE (a\<lparr>an_status := NGX_HTTP_CLOSE\<rparr>)
      else if is_response_phase then finalize_with NGX_HTTP_CLOSE a
      else
        let a1 = a\<lparr>an_headers := delete_headers_list\<rparr> in
        if http_res_code = NGX_HTTP_TEMPORARY_REDIRECT then send_redirect ng pg a1 else send_block_page ng pg a1)"

text \<open>The keys and values of the custom headers are not copied; a header that cannot be pushed ends the answer.\<close>

fun push_custom_headers :: "ngx_list_calls \<Rightarrow> (bytes \<times> bytes) list \<Rightarrow> ngx_headers \<Rightarrow> bool \<times> ngx_headers" where
  "push_custom_headers ng [] hs = (True, hs)"
| "push_custom_headers ng (h # rest) hs =
     (case ngx_list_push ng h hs of None \<Rightarrow> (False, hs) | Some hs1 \<Rightarrow> push_custom_headers ng rest hs1)"

definition ngx_http_cp_finalize_custom_response_request ::
    "answer_calls \<Rightarrow> answer_pages \<Rightarrow> http_answer \<Rightarrow> int \<times> http_answer" where
  "ngx_http_cp_finalize_custom_response_request ng pg a =
     (let out = (\<lambda>a. (NGX_HTTP_CLOSE, a\<lparr>an_finalized := Some NGX_HTTP_CLOSE\<rparr>)) in
      case get_custom_response_page (buf_alloc ng 0) pg of
        None \<Rightarrow> out a
      | Some page \<Rightarrow>
          let a1 = a\<lparr>an_keepalive := False, an_status := int (unat (custom_code pg))\<rparr> in
          (case push_custom_headers (list_calls ng) (custom_headers pg) delete_headers_list of
             (pushed, hs) \<Rightarrow>
               let a2 = a1\<lparr>an_headers := hs\<rparr> in
               if \<not> pushed then out a2
               else
                 let a3 = a2\<lparr>an_length := Some (custom_len pg)\<rparr>; rc = send_header_rc ng in
                 if rc = -1 \<or> rc > 0 then out a3
                 else out (a3\<lparr>an_header_sent := True, an_body := Some [page]\<rparr>)))"

section \<open>What the client receives\<close>

text \<open>A list of nginx that grows at its end, with memory for everything.\<close>

definition pushes_append :: "ngx_list_calls \<Rightarrow> bool" where
  "pushes_append ng \<longleftrightarrow>
     (\<forall>h hs. \<exists>hs'. ngx_list_push ng h hs = Some hs' \<and> concat hs' = concat hs @ [h]) \<and> (\<forall>k. ngx_alloc ng k)"

lemma push_answer_header_appends:
  assumes "pushes_append ng"
  shows "\<exists>hs'. push_answer_header ng k key value hs = (True, hs') \<and> concat hs' = concat hs @ [(key, value)]"
proof -
  obtain l1 l2 where "ngx_list_push ng (ngx_uninitialised ng) hs = Some l1"
    "ngx_list_push ng (key, value) hs = Some l2" "concat l2 = concat hs @ [(key, value)]"
    using assms unfolding pushes_append_def by meson
  then show ?thesis using assms by (simp add: push_answer_header_def pushes_append_def Let_def)
qed

lemma push_custom_headers_appends:
  assumes "pushes_append ng"
  shows "\<exists>hs'. push_custom_headers ng hdrs hs = (True, hs') \<and> concat hs' = concat hs @ hdrs"
proof (induction hdrs arbitrary: hs)
  case (Cons h hdrs)
  obtain hs1 where "ngx_list_push ng h hs = Some hs1" "concat hs1 = concat hs @ [h]"
    using assms unfolding pushes_append_def by meson
  with Cons.IH [of hs1] show ?case by auto
qed simp

lemma memcpy_into_prefix: "memcpy_into bs buf = Some b \<Longrightarrow> take (length bs) b = bs \<and> length b = length buf"
  by (auto simp: memcpy_into_def split: if_splits)

lemma memcpy_into_iff: "memcpy_into bs buf = None \<longleftrightarrow> length buf < length bs"
  by (auto simp: memcpy_into_def)

text \<open>The static buffers keep their sizes, and the incident id ends with a zero byte inside of its buffer.\<close>

definition pages_ok :: "answer_pages \<Rightarrow> bool" where
  "pages_ok pg \<longleftrightarrow>
     length (title_buf pg) = 64 \<and> length (body_buf pg) = 256 \<and> length (uuid_buf pg) = 64 \<and> length (redirect_buf pg) = 512
     \<and> length (page_parts pg) = 4 \<and> (title_size pg \<le> 64 \<or> body_size pg = 0) \<and> (body_size pg \<le> 256 \<or> title_size pg = 0)
     \<and> uuid_size pg < 64 \<and> redirect_size pg \<le> 512"

lemma strstr_occurs: "strstr s pat = Some i \<Longrightarrow> take (length pat) (drop i s) = pat \<and> i + length pat \<le> length s"
proof (induction s arbitrary: i)
  case Nil
  then show ?case by (auto simp: strstr.simps split: if_splits)
next
  case (Cons x s)
  show ?case
  proof (cases "take (length pat) (x # s) = pat")
    case True
    then have "length pat \<le> length (x # s)" by (metis length_take min.absorb_iff1 min.commute)
    with True Cons.prems show ?thesis by (simp add: strstr.simps)
  next
    case False
    with Cons.prems obtain j where "strstr s pat = Some j" "i = Suc j" by (auto simp: strstr.simps [of "x # s"])
    with Cons.IH show ?thesis by auto
  qed
qed

lemma placeholder_split:
  assumes "strstr s pat = Some i" "text_between s (i + length pat) j = Some p" "j \<le> length s"
  shows "drop i s = pat @ p @ drop j s"
proof -
  have occ: "take (length pat) (drop i s) = pat" "i + length pat \<le> length s" using strstr_occurs [OF assms(1)] by auto
  from assms(2) have p: "i + length pat \<le> j" "p = take (j - (i + length pat)) (drop (i + length pat) s)"
    by (auto simp: text_between_def split: if_splits)
  have "drop i s = pat @ drop (i + length pat) s"
    by (metis append_take_drop_id drop_drop add.commute occ(1))
  also have "drop (i + length pat) s = p @ drop j s"
    using p by (metis append_take_drop_id drop_drop le_add_diff_inverse2)
  finally show ?thesis .
qed

text \<open>The four parts are the text without its placeholders.\<close>

lemma page_parts_split:
  assumes "initialize_web_response_data fmt pg = Some pg'"
  shows "\<exists>p0 p1 p2 p3. page_parts pg' = [p0, p1, p2, p3]
    \<and> fmt = p0 @ USERCHECK_TITLE_START @ p1 @ USERCHECK_BODY_START @ p2 @ USERCHECK_UUID_START @ p3"
proof -
  from assms obtain t b u p0 p1 p2 p3 where
    pos: "strstr fmt USERCHECK_TITLE_START = Some t" "strstr fmt USERCHECK_BODY_START = Some b" "strstr fmt USERCHECK_UUID_START = Some u"
    and parts: "text_between fmt 0 t = Some p0" "text_between fmt (t + length USERCHECK_TITLE_START) b = Some p1"
      "text_between fmt (b + length USERCHECK_BODY_START) u = Some p2"
      "text_between fmt (u + length USERCHECK_UUID_START) (length fmt) = Some p3"
    and pg': "page_parts pg' = [p0, p1, p2, p3]"
    unfolding initialize_web_response_data_def
    by (auto simp: Option.bind_eq_Some_conv)
  have le: "b \<le> length fmt" "u \<le> length fmt" using strstr_occurs [OF pos(2)] strstr_occurs [OF pos(3)] by simp_all
  have "drop t fmt = USERCHECK_TITLE_START @ p1 @ USERCHECK_BODY_START @ p2 @ USERCHECK_UUID_START @ p3"
    using placeholder_split [OF pos(1) parts(2) le(1)] placeholder_split [OF pos(2) parts(3) le(2)]
      placeholder_split [OF pos(3) parts(4)] by simp
  moreover have "fmt = p0 @ drop t fmt" using parts(1) append_take_drop_id [of t fmt] by (simp add: text_between_def)
  ultimately show ?thesis using pg' by metis
qed

text \<open>The operations on the pages keep the invariant.\<close>

lemma initial_pages_ok: "pages_ok initial_pages"
  by (simp add: pages_ok_def initial_pages_def)

lemma initialize_web_response_data_ok:
  assumes "pages_ok pg" "initialize_web_response_data fmt pg = Some pg'"
  shows "pages_ok pg'"
proof -
  have "length default_title = 44" "length default_body = 80" by (simp_all add: default_title_def default_body_def)
  with assms show ?thesis
    by (auto simp: initialize_web_response_data_def pages_ok_def Option.bind_eq_Some_conv memcpy_into_def split: if_splits)
qed

lemma set_custom_response_block_page_ok:
  assumes "pages_ok pg" "set_custom_response_block_page title body uuid code pg = Some pg'"
  shows "pages_ok pg'"
  using assms
  by (auto simp: set_custom_response_block_page_def pages_ok_def Let_def Option.bind_eq_Some_conv memcpy_into_def split: if_splits)

lemma set_redirect_response_ok:
  assumes "pages_ok pg" "set_redirect_response location uuid add pg = Some pg'"
  shows "pages_ok pg'"
  using assms
  by (auto simp: set_redirect_response_def pages_ok_def Let_def Option.bind_eq_Some_conv memcpy_into_def split: if_splits)

lemma block_page_overrun:
  assumes "pages_ok pg"
  shows "set_custom_response_block_page title body uuid code pg = None
    \<longleftrightarrow> 64 \<le> length uuid \<or> (title \<noteq> [] \<and> body \<noteq> [] \<and> (64 < length title \<or> 256 < length body))"
  using assms
  by (auto simp: set_custom_response_block_page_def pages_ok_def Let_def bind_eq_None_conv memcpy_into_def split: if_splits)

lemma redirect_overrun:
  assumes "pages_ok pg"
  shows "set_redirect_response location uuid add pg = None \<longleftrightarrow> 512 < length location"
  using assms
  by (auto simp: set_redirect_response_def pages_ok_def Let_def bind_eq_None_conv memcpy_into_def min_def split: if_splits)

end
