(* ===== verification/Ngx_Io_Lemmas.thy ===== *)
theory Ngx_Io_Lemmas
  imports Ngx_Io Nano_Senders
begin

text \<open>
  What the senders of the synchronous mode hand to the service: the contract of the function that
  sends one message, the messages of headers and of a body, and that the exchange ends.
\<close>

section \<open>The queue of a channel\<close>

definition ngx_tx :: "bool \<Rightarrow> ngx_worker \<Rightarrow> (ring_process \<times> SharedRingGlobalData \<times> SharedRingQueue) option" where
  "ngx_tx filter_mode k =
     Option.bind (get_ipc_for_mode filter_mode k) (\<lambda>i. map_option (\<lambda>q. (x_process (wk k), global_data i, q)) (tx_queue_2 i))"

definition ngx_to_service :: "bool \<Rightarrow> ngx_worker \<Rightarrow> bytes list \<Rightarrow> bool" where
  "ngx_to_service filter_mode k ms = (case ngx_tx filter_mode k of None \<Rightarrow> False | Some s \<Rightarrow> holds_2 s ms)"

definition ngx_room :: "bool \<Rightarrow> ngx_worker \<Rightarrow> bytes \<Rightarrow> bool" where
  "ngx_room filter_mode k m = (case ngx_tx filter_mode k of None \<Rightarrow> False | Some s \<Rightarrow> room_2 s m)"

lemma queue_after_step [simp]:
  "ngx_to_service fm (sync_step k) ms = ngx_to_service fm k ms" "ngx_room fm (sync_step k) m = ngx_room fm k m"
  by (cases fm; simp add: ngx_to_service_def ngx_room_def ngx_tx_def get_ipc_for_mode_def sync_step_def on_world_def next_step_def)+

lemma sync_push_appends:
  assumes "ngx_to_service fm k ms" "valid_msg (concat frags)" "ngx_room fm k (concat frags)"
  obtains k' where "sync_push os fm frags k = (0, k')" "ngx_to_service fm k' (ms @ [concat frags])" "settings k' = settings k"
proof -
  obtain i q where i: "get_ipc_for_mode fm k = Some i" "tx_queue_2 i = Some q"
    and holds: "holds_2 (x_process (wk k), global_data i, q) ms" "room_2 (x_process (wk k), global_data i, q) (concat frags)"
    using assms(1,3) by (auto simp: ngx_to_service_def ngx_room_def ngx_tx_def split: option.splits bind_splits)
  from push_2_appends [OF holds(1) assms(2) holds(2), of "xa_files (sa_os os)"] obtain P gd q' where
    push: "push_2 (xa_files (sa_os os)) (x_process (wk k), global_data i, q) frags = (0, P, gd, q')"
      "holds_2 (P, gd, q') (ms @ [concat frags])"
    by auto
  then have send: "sendChunkedData_2 (xa_files (sa_os os)) (x_process (wk k)) (Some i) frags
      = (0, P, Some (i\<lparr>tx_queue_2 := Some q'\<rparr>))" and gd: "gd = global_data i"
    using i(2) by (auto simp: sendChunkedData_2_def push_2_def split: prod.splits)
  show ?thesis
  proof (rule that)
    show "sync_push os fm frags k = (0, put_ipc_for_mode fm P (Some (i\<lparr>tx_queue_2 := Some q'\<rparr>)) k)"
      using send by (simp add: sync_push_def i(1))
  qed (use push(2) gd in \<open>auto simp: ngx_to_service_def ngx_tx_def put_ipc_for_mode_def get_ipc_for_mode_def on_world_def\<close>)
qed

lemma send_data_appends:
  assumes "ngx_to_service fm k ms" "valid_msg (concat frags)" "ngx_room fm k (concat frags)"
  shows "\<exists>k'. ngx_http_cp_send_data_to_service os rounds sid ct retries fm frags k = Some (NGX_OK, False, k')
    \<and> ngx_to_service fm k' (ms @ [concat frags])"
proof -
  from sync_push_appends [OF assms, of os] obtain k' where "sync_push os fm frags k = (0, k')"
    "ngx_to_service fm k' (ms @ [concat frags])" by metis
  then show ?thesis by (simp add: ngx_http_cp_send_data_to_service_def eval_nat_numeral)
qed

section \<open>Bulks of headers\<close>

text \<open>
  The contract of the function that sends a message: one that finds room is accepted, and follows what is on
  its way to the service.
\<close>

locale ngx_message_sink =
  fixes holds :: "'w \<Rightarrow> bytes list \<Rightarrow> bool"
    and room :: "'w \<Rightarrow> bytes \<Rightarrow> bool"
    and send :: "bytes list \<Rightarrow> 'w \<Rightarrow> (ngx_int \<times> 'w) option"
  assumes accepts: "holds w ms \<Longrightarrow> valid_msg (concat m) \<Longrightarrow> room w (concat m) \<Longrightarrow>
      \<exists>w'. send m w = Some (NGX_OK, w') \<and> holds w' (ms @ [concat m])"
begin

lemma bulk_sent:
  assumes "holds w ms" "valid_msg (concat bulk)" "room w (concat bulk)" "4 \<le> length elems"
    and "bulk = [le16 (data_type_code t), le32 sid, [if final then 1 else 0], [i]] @ drop 4 (take (4 * n + 4) elems)"
    and "elems ! 0 = le16 (data_type_code t)" "elems ! 1 = le32 sid"
  shows "\<exists>w' elems'. sync_header_bulk send elems n final i w = Some (NGX_OK, elems', w') \<and> holds w' (ms @ [concat bulk])
    \<and> send bulk w = Some (NGX_OK, w') \<and> length elems' = length elems \<and> elems' ! 0 = elems ! 0 \<and> elems' ! 1 = elems ! 1"
proof -
  obtain a b c d es where elems: "elems = a # b # c # d # es"
    using assms(4) by (auto simp: Suc_le_length_iff eval_nat_numeral)
  let ?elems = "set_fragment_elem (set_fragment_elem elems [if final then 1 else 0] 1 2) [i] 1 3"
  have set: "?elems = a # b # [if final then 1 else 0] # [i] # es" by (simp add: set_byte elems small_numerals)
  have bulk: "take (4 * n + 4) ?elems = bulk" unfolding set using assms(5-7) by (simp add: elems small_numerals)
  obtain w' where "send bulk w = Some (NGX_OK, w')" "holds w' (ms @ [concat bulk])" using accepts assms(1-3) by blast
  then show ?thesis
    using bulk set by (simp add: sync_header_bulk_def HEADER_DATA_COUNT_def Let_def elems)
qed

text \<open>
  The loop with some headers in the array, up to the end of the list. The index of a bulk is the
  number of headers before it.
\<close>

lemma header_loop_sends:
  assumes "holds w ms" "length (hp_fragments p) = 44" "hp_in_bulk p = length done" "length done < 10"
    and "hp_fragments p ! 0 = le16 (data_type_code t)" "hp_fragments p ! 1 = le32 sid"
    and "drop 4 (take (4 * length done + 4) (hp_fragments p)) = concat (map header_fragments done)"
    and "hp_bulk_part_idx p = of_nat i" "hp_part_count p = of_nat (i + length done)"
    and "hs \<noteq> [] \<Longrightarrow> all_accepted room send w (header_bulks 10 t sid i (done @ hs))"
    and "hs = [] \<Longrightarrow> done = []"
  shows "\<exists>p' w'. sync_header_loop send (mark_last True hs) p w = Some (NGX_OK, p', w')
    \<and> hp_bulks p' = hp_bulks p + length (header_bulks 10 t sid i (done @ hs))
    \<and> hp_part_count p' = of_nat (i + length done + length hs)
    \<and> holds w' (ms @ map concat (header_bulks 10 t sid i (done @ hs)))"
  using assms
proof (induction hs arbitrary: w ms p "done" i)
  case Nil
  then show ?case by (simp add: header_bulks.simps)
next
  case (Cons h hs)
  let ?elems = "add_header_to_bulk (hp_fragments p) h (length done)"
  note filled = bulk_filled [OF Cons.prems(2,4,7), of h]
  have ids: "?elems ! 0 = le16 (data_type_code t)" "?elems ! 1 = le32 sid"
    using Cons.prems(5,6) by (simp_all add: add_header_to_bulk_def set_string_def set_fragment_elem_def Let_def)
  let ?p = "p\<lparr>hp_fragments := ?elems, hp_in_bulk := hp_in_bulk p + 1, hp_part_count := hp_part_count p + 1\<rparr>"
  show ?case
  proof (cases "length done + 1 < 10 \<and> hs \<noteq> []")
    case True
    have "\<exists>p' w'. sync_header_loop send (mark_last True hs) ?p w = Some (NGX_OK, p', w')
        \<and> hp_bulks p' = hp_bulks ?p + length (header_bulks 10 t sid i ((done @ [h]) @ hs))
        \<and> hp_part_count p' = of_nat (i + length (done @ [h]) + length hs)
        \<and> holds w' (ms @ map concat (header_bulks 10 t sid i ((done @ [h]) @ hs)))"
      using Cons.prems True ids filled by (intro Cons.IH) auto
    with True Cons.prems(3) show ?thesis
      by (cases hs) (auto simp: max_bulk_size_def Let_def)
  next
    case False
    let ?bulk = "bulk_fragments t sid (hs = []) i (done @ [h])"
    note bulks = header_bulks_split [OF Cons.prems(4) False, of 10 t sid i h]
    from Cons.prems(10) have bulk: "valid_msg (concat ?bulk)" "room w (concat ?bulk)" by (simp_all add: bulks)
    obtain w1 elems1 where w1: "sync_header_bulk send ?elems (length done + 1) (hs = []) (of_nat i) w = Some (NGX_OK, elems1, w1)"
      "holds w1 (ms @ [concat ?bulk])" "send ?bulk w = Some (NGX_OK, w1)" "length elems1 = 44"
      "elems1 ! 0 = le16 (data_type_code t)" "elems1 ! 1 = le32 sid"
      using bulk_sent [OF Cons.prems(1) bulk, of ?elems t sid "hs = []" "of_nat i" "length done + 1"] ids filled
      by (auto simp: bulk_fragments_def)
    show ?thesis
    proof (cases "hs = []")
      case True
      with w1 Cons.prems show ?thesis
        by (simp add: max_bulk_size_def Let_def bulks [unfolded True] header_bulks.simps [of _ _ _ _ "[]"])
    next
      case more: False
      with False Cons.prems(4) have len: "length done = 9" by auto
      let ?p2 = "?p\<lparr>hp_fragments := elems1, hp_bulks := hp_bulks p + 1, hp_in_bulk := 0, hp_bulk_part_idx := hp_part_count p + 1\<rparr>"
      have "all_accepted room send w1 (header_bulks 10 t sid (i + 10) hs)"
        using Cons.prems(10) w1(3) by (simp add: bulks)
      with w1 Cons.prems(9) len have "\<exists>p' w'. sync_header_loop send (mark_last True hs) ?p2 w1 = Some (NGX_OK, p', w')
          \<and> hp_bulks p' = hp_bulks ?p2 + length (header_bulks 10 t sid (i + 10) ([] @ hs))
          \<and> hp_part_count p' = of_nat (i + 10 + length ([] :: HttpHeaderData list) + length hs)
          \<and> holds w' ((ms @ [concat ?bulk]) @ map concat (header_bulks 10 t sid (i + 10) ([] @ hs)))"
        by (intro Cons.IH) (auto simp: algebra_simps)
      moreover obtain h' hs' where hs: "hs = h' # hs'" using more by (cases hs) auto
      ultimately show ?thesis
        using w1(1) Cons.prems(3,8) len more by (auto simp: hs max_bulk_size_def Let_def bulks [unfolded hs] algebra_simps)
    qed
  qed
qed

end

interpretation ngx_sink: ngx_message_sink
  "ngx_to_service filter_mode" "ngx_room filter_mode" "send_message os rounds sid filter_mode"
proof
  fix w ms m
  assume "ngx_to_service filter_mode w ms" "valid_msg (concat m)" "ngx_room filter_mode w (concat m)"
  from send_data_appends [OF this, of os rounds sid "st_fail_open_timeout (settings w)" "st_min_retries (settings w)"]
  show "\<exists>w'. send_message os rounds sid filter_mode m w = Some (NGX_OK, w') \<and> ngx_to_service filter_mode w' (ms @ [concat m])"
    by (auto simp: send_message_def)
qed

text \<open>The marks of the parts of a list are those of the joined list, when its last part is not empty.\<close>

lemma mark_last_unmarked: "mark_last False hs = map (\<lambda>h. (h, False)) hs"
  by (induction "False" hs rule: mark_last.induct) auto

lemma mark_last_append: "ys \<noteq> [] \<Longrightarrow> mark_last b (xs @ ys) = map (\<lambda>h. (h, False)) xs @ mark_last b ys"
proof (induction xs)
  case (Cons x xs)
  then show ?case by (cases "xs @ ys") auto
qed simp

lemma header_marks_concat: "parts \<noteq> [] \<Longrightarrow> last parts \<noteq> [] \<Longrightarrow> header_marks parts = mark_last True (concat parts)"
proof (induction parts rule: header_marks.induct)
  case (3 part part' parts)
  then have "concat (part' # parts) \<noteq> []" using last_in_set [of "part' # parts"] by (auto simp: concat_eq_Nil_conv)
  then have "mark_last True (concat (part # part' # parts)) = map (\<lambda>h. (h, False)) part @ mark_last True (concat (part' # parts))"
    by (metis concat.simps(2) mark_last_append)
  with 3 show ?case by (simp add: mark_last_unmarked)
qed auto

lemma sync_header_sender_sends:
  assumes "ngx_to_service fm k ms" "headers \<noteq> []" "last headers \<noteq> []"
    and "t = RESPONSE_HEADER \<longrightarrow> length (concat headers) mod 256 \<noteq> 0"
    and "all_accepted (ngx_room fm) (send_message os rounds sid fm) (sync_step k) (header_bulks 10 t sid 0 (concat headers))"
  shows "\<exists>k'. ngx_http_cp_header_sender os rounds headers t sid fm k
      = Some (NGX_OK, length (header_bulks 10 t sid 0 (concat headers)), k')
    \<and> ngx_to_service fm k' (ms @ map concat (header_bulks 10 t sid 0 (concat headers)))"
proof -
  let ?p = "\<lparr>hp_fragments = set_fragments_identifiers (map (xa_stack (sa_os os) (steps k)) [0..<HEADER_DATA_COUNT * max_bulk_size + 4])
      (data_type_code t) sid, hp_in_bulk = 0, hp_part_count = 0, hp_bulk_part_idx = 0, hp_bulks = 0\<rparr>"
  have step: "ngx_to_service fm (sync_step k) ms" using assms(1) by simp
  have nonempty: "concat headers \<noteq> []" using assms(2,3) last_in_set [of headers] by (auto simp: concat_eq_Nil_conv)
  obtain p' w' where loop: "sync_header_loop (send_message os rounds sid fm) (mark_last True (concat headers)) ?p (sync_step k) = Some (NGX_OK, p', w')"
    "hp_bulks p' = length (header_bulks 10 t sid 0 (concat headers))" "hp_part_count p' = of_nat (length (concat headers))"
    "ngx_to_service fm w' (ms @ map concat (header_bulks 10 t sid 0 (concat headers)))"
    using ngx_sink.header_loop_sends [OF step, of ?p "[]" t sid 0 "concat headers" os rounds sid] assms(5)
    by (auto simp: set_identifiers HEADER_DATA_COUNT_def max_bulk_size_def)
  have "t = RESPONSE_HEADER \<Longrightarrow> hp_part_count p' \<noteq> 0"
    using assms(4) by (simp add: loop(3) word_of_nat_eq_0_iff mod_eq_0_iff_dvd)
  with loop header_marks_concat [OF assms(2,3)] show ?thesis
    by (auto simp: ngx_http_cp_header_sender_def sync_send_headers_def)
qed

section \<open>Chunks of a body\<close>

text \<open>The messages of a chain: a link without bytes is left out unless it is the last one, but it counts.\<close>

fun chain_messages :: "AttachmentDataType \<Rightarrow> u32 \<Rightarrow> nat \<Rightarrow> (bytes \<times> bool) list \<Rightarrow> bytes list list" where
  "chain_messages t sid i [] = []"
| "chain_messages t sid i ((buf, is_last) # links) =
     (if buf = [] \<and> \<not> is_last then [] else [body_fragments t sid is_last (of_nat i) buf]) @ chain_messages t sid (Suc i) links"

lemma body_fragments_elems:
  "body_fragments t sid final i buf =
     [le16 (data_type_code t), le32 sid, [if final then 1 else 0], [i], take (length buf mod 65536) buf]"
proof -
  have "(replicate BODY_DATA_COUNT [] :: bytes list) = [[], [], [], [], []]"
    by (simp add: BODY_DATA_COUNT_def eval_nat_numeral)
  moreover have "set_fragment_elem es buf (of_nat (length buf)) 4 = es[4 := take (length buf mod 65536) buf]" for es
    by (simp only: set_fragment_elem_def unat_of_nat_16)
  ultimately show ?thesis
    unfolding body_fragments_def set_identifiers set_byte Let_def by (simp add: small_numerals)
qed

text \<open>The service gets the bytes of the body back by joining what stands behind the first eight bytes.\<close>

lemma chain_messages_payload:
  "list_all (\<lambda>l. length (fst l) < 65536) links \<Longrightarrow>
   concat (map (\<lambda>m. drop 8 (concat m)) (chain_messages t sid i links)) = concat (map fst links)"
  by (induction t sid i links rule: chain_messages.induct) (auto simp: body_fragments_elems)

lemma chain_messages_count:
  "length (chain_messages t sid i links) = length (filter (\<lambda>(buf, is_last). buf \<noteq> [] \<or> is_last) links)"
  by (induction t sid i links rule: chain_messages.induct) auto

definition sent_only :: "(ngx_int \<times> bool \<times> 'w) option \<Rightarrow> (ngx_int \<times> 'w) option" where
  "sent_only = map_option (\<lambda>(res, waited, w). (res, w))"

text \<open>
  The contract of sending a chunk: when it finds room it is accepted without a wait, whatever number of retries was
  allowed for it.
\<close>

locale ngx_chunk_sink =
  fixes holds :: "'w \<Rightarrow> bytes list \<Rightarrow> bool"
    and room :: "'w \<Rightarrow> bytes \<Rightarrow> bool"
    and transmit :: "u32 \<Rightarrow> bytes list \<Rightarrow> 'w \<Rightarrow> (ngx_int \<times> bool \<times> 'w) option"
  assumes chunk_accepted: "holds w ms \<Longrightarrow> valid_msg (concat m) \<Longrightarrow> room w (concat m) \<Longrightarrow>
      \<exists>w'. (\<forall>r. transmit r m w = Some (NGX_OK, False, w')) \<and> holds w' (ms @ [concat m])"
begin

lemma body_loop_sends:
  assumes "holds w ms" "bp_part_count p = of_nat i" "bp_sent p + length links \<le> max_chunks"
    and "all_accepted room (\<lambda>m w. sent_only (transmit 0 m w)) w (chain_messages t (nsd_session_id d) i links)"
  shows "\<exists>p' d' w'. body_sender_loop transmit t trigger max_retries max_chunks (map Some links) p d w = Some (NGX_OK, [], p', d', w')
    \<and> bp_sent p' = bp_sent p + length (chain_messages t (nsd_session_id d) i links)
    \<and> bp_last p' = (if links = [] then bp_last p else snd (last links))
    \<and> holds w' (ms @ map concat (chain_messages t (nsd_session_id d) i links))"
  using assms
proof (induction links arbitrary: w ms p d i)
  case Nil
  then show ?case by simp
next
  case (Cons l links)
  obtain buf is_last where l: "l = (buf, is_last)" by fastforce
  show ?case
  proof (cases "buf = [] \<and> \<not> is_last")
    case True
    let ?p = "p\<lparr>bp_last := is_last, bp_part_count := bp_part_count p + 1\<rparr>"
    have "\<exists>p' d' w'. body_sender_loop transmit t trigger max_retries max_chunks (map Some links) ?p d w = Some (NGX_OK, [], p', d', w')
        \<and> bp_sent p' = bp_sent ?p + length (chain_messages t (nsd_session_id d) (Suc i) links)
        \<and> bp_last p' = (if links = [] then bp_last ?p else snd (last links))
        \<and> holds w' (ms @ map concat (chain_messages t (nsd_session_id d) (Suc i) links))"
      using Cons.prems True l by (intro Cons.IH) auto
    with True l Cons.prems(3) show ?thesis by auto
  next
    case False
    let ?m = "body_fragments t (nsd_session_id d) is_last (of_nat i) buf"
    have more: "bp_sent p < max_chunks" using Cons.prems(3) by simp
    from Cons.prems(4) False l have "valid_msg (concat ?m)" "room w (concat ?m)" by (simp_all split: if_splits)
    from chunk_accepted [OF Cons.prems(1) this] obtain w1 where
      w1: "\<And>r. transmit r ?m w = Some (NGX_OK, False, w1)" "holds w1 (ms @ [concat ?m])" by blast
    define e where "e = (if t = REQUEST_BODY then d\<lparr>processed_req_body_size := processed_req_body_size d + of_nat (length buf)\<rparr>
      else if t = RESPONSE_BODY then d\<lparr>processed_res_body_size := processed_res_body_size d + of_nat (length buf)\<rparr> else d)"
    define processed where "processed = (if t = REQUEST_BODY then processed_req_body_size e
      else if t = RESPONSE_BODY then processed_res_body_size e else 0)"
    define p2 where "p2 = (let p1 = p\<lparr>bp_last := is_last\<rparr> in if processed > trigger then p1\<lparr>bp_retries := max_retries\<rparr> else p1)"
    define q where "q = p2\<lparr>bp_sent := bp_sent p2 + 1, bp_part_count := bp_part_count p2 + 1\<rparr>"
    have p2: "bp_part_count p2 = of_nat i" "bp_sent p2 = bp_sent p" "bp_last p2 = is_last"
      using Cons.prems(2) by (simp_all add: p2_def Let_def)
    have e: "nsd_session_id e = nsd_session_id d" by (simp add: e_def)
    have step: "body_sender_loop transmit t trigger max_retries max_chunks (map Some (l # links)) p d w
        = body_sender_loop transmit t trigger max_retries max_chunks (map Some links) q e w1"
      using False more Cons.prems(2) w1(1) by (auto simp: l Let_def e_def processed_def p2_def q_def)
    have "\<exists>p' d' w'. body_sender_loop transmit t trigger max_retries max_chunks (map Some links) q e w1 = Some (NGX_OK, [], p', d', w')
        \<and> bp_sent p' = bp_sent q + length (chain_messages t (nsd_session_id e) (Suc i) links)
        \<and> bp_last p' = (if links = [] then bp_last q else snd (last links))
        \<and> holds w' ((ms @ [concat ?m]) @ map concat (chain_messages t (nsd_session_id e) (Suc i) links))"
      using Cons.prems(3,4) False l w1 p2 e by (intro Cons.IH) (auto simp: sent_only_def q_def)
    then show ?thesis unfolding step using False p2 e by (auto simp: l q_def)
  qed
qed

end

interpretation ngx_chunks: ngx_chunk_sink
  "ngx_to_service filter_mode" "ngx_room filter_mode"
  "\<lambda>retries. ngx_http_cp_send_data_to_service os rounds sid chunk_type retries filter_mode"
proof
  fix w ms m
  assume "ngx_to_service filter_mode w ms" "valid_msg (concat m)" "ngx_room filter_mode w (concat m)"
  from sync_push_appends [OF this, of os] obtain k' where "sync_push os filter_mode m w = (0, k')"
    "ngx_to_service filter_mode k' (ms @ [concat m])" by metis
  then show "\<exists>w'. (\<forall>retries. ngx_http_cp_send_data_to_service os rounds sid chunk_type retries filter_mode m w = Some (NGX_OK, False, w'))
      \<and> ngx_to_service filter_mode w' (ms @ [concat m])"
    by (simp add: ngx_http_cp_send_data_to_service_def eval_nat_numeral)
qed

section \<open>The exchange ends\<close>

lemma settings_steps [simp]:
  "settings (on_world f k) = settings k" "settings (sync_step k) = settings k" "settings (ngx_service_acts os k) = settings k"
  "settings (put_ipc_for_mode fm P ipc k) = settings k"
  by (simp_all add: on_world_def sync_step_def ngx_service_acts_def put_ipc_for_mode_def)

lemma sync_push_settings: "sync_push os fm frags k = (err, k') \<Longrightarrow> settings k' = settings k"
  by (auto simp: sync_push_def split: prod.splits)

text \<open>Each write takes at least one byte or fails: one round per byte is enough.\<close>

lemma signal_ends:
  assumes "\<And>n. xa_write (sa_os os) n \<noteq> 0" "length data \<le> rounds"
  shows "\<exists>res k'. ngx_http_cp_signal_to_service os rounds fm data k = Some (res, k')
    \<and> res \<in> {NGX_OK, NGX_ERROR, NGX_HTTP_REQUEST_TIME_OUT} \<and> settings k' = settings k"
  using assms(2)
proof (induction rounds arbitrary: data k)
  case 0
  then show ?case by (simp add: ngx_http_cp_signal_to_service.simps)
next
  case (Suc rounds)
  let ?r = "xa_write (sa_os os) (steps k)"
  consider "data = []" | "data \<noteq> []" "?r > 0" | "data \<noteq> []" "?r < 0" using assms(1) [of "steps k"] by linarith
  then show ?case
  proof cases
    case 2
    then have "length (drop (nat ?r) data) \<le> rounds" using Suc.prems by (cases data) auto
    from Suc.IH [OF this, of "on_world (\<lambda>w. w\<lparr>x_sent := x_sent w @ [(get_socket_for_mode fm k, take (nat ?r) data)]\<rparr>) (sync_step k)"] 2
    show ?thesis by (subst ngx_http_cp_signal_to_service.simps) (simp add: Let_def)
  qed (auto simp: ngx_http_cp_signal_to_service.simps [of os "Suc rounds"] Let_def)
qed

text \<open>In the mode with a time-out every poll counts.\<close>

lemma ack_ends:
  assumes "st_inspection_mode (settings k) = NON_BLOCKING_THREAD" "retries \<le> rounds"
  shows "\<exists>res k'. await_ack os rounds timeout fm sid retries got k = Some (res, k')
    \<and> res \<in> {NGX_OK, NGX_ERROR, NGX_AGAIN, NGX_HTTP_REQUEST_TIME_OUT} \<and> settings k' = settings k"
  using assms
proof (induction rounds arbitrary: retries got k)
  case 0
  then show ?case by (simp add: await_ack.simps)
next
  case (Suc rounds)
  have less: "retries - 1 \<le> rounds" using Suc.prems(2) by simp
  let ?k = "ngx_service_acts os k"
  have k: "st_inspection_mode (settings ?k) = NON_BLOCKING_THREAD" "st_inspection_mode (settings (sync_step ?k)) = NON_BLOCKING_THREAD"
    using Suc.prems(1) by simp_all
  note IH = Suc.IH [OF k(1) less] Suc.IH [OF k(2) less]
  show ?case
    using IH(1) [of got] IH(2) [of "got @ take (4 - length got) bs" for bs] Suc.prems(1)
    by (subst await_ack.simps) (auto simp: Let_def split: prod.splits option.splits)
qed

lemma wait_ends:
  assumes "\<And>n. xa_write (sa_os os) n \<noteq> 0" "st_inspection_mode (settings k) = NON_BLOCKING_THREAD" "4 \<le> rounds" "unat retries \<le> rounds"
  shows "\<exists>res k'. ngx_http_cp_wait_for_service os rounds sid ct retries fm k = Some (res, k')
    \<and> res \<in> {NGX_OK, NGX_ERROR, NGX_AGAIN, NGX_HTTP_REQUEST_TIME_OUT} \<and> settings k' = settings k"
proof -
  have "length (le32 sid) \<le> rounds" using assms(3) by (simp add: le32_def le16_def)
  from signal_ends [OF assms(1) this, of fm k] obtain res k1 where
    k1: "ngx_http_cp_signal_to_service os rounds fm (le32 sid) k = Some (res, k1)"
      "res \<in> {NGX_OK, NGX_ERROR, NGX_HTTP_REQUEST_TIME_OUT}" "settings k1 = settings k" by blast
  with assms(2) have "st_inspection_mode (settings k1) = NON_BLOCKING_THREAD" by simp
  from ack_ends [OF this assms(4)] k1 show ?thesis
    by (auto simp: ngx_http_cp_wait_for_service_def Let_def)
qed

lemma attempts_end:
  assumes "\<And>n. xa_write (sa_os os) n \<noteq> 0" "st_inspection_mode (settings k) = NON_BLOCKING_THREAD" "4 \<le> rounds" "unat retries \<le> rounds"
  shows "\<exists>r waited k'. sync_send_attempts os rounds frags sid ct retries fm n res was_waiting k = Some (r, waited, k')
    \<and> r \<in> {NGX_OK, NGX_ERROR, NGX_HTTP_REQUEST_TIME_OUT} \<and> settings k' = settings k"
  using assms(2)
proof (induction n arbitrary: res was_waiting k)
  case 0
  then show ?case by simp
next
  case (Suc n)
  obtain err k1 where push: "sync_push os fm frags k = (err, k1)" by fastforce
  with Suc.prems have k1: "settings k1 = settings k" "st_inspection_mode (settings k1) = NON_BLOCKING_THREAD"
    using sync_push_settings by auto
  from wait_ends [OF assms(1) k1(2) assms(3,4), of sid ct fm] obtain r k2 where
    k2: "ngx_http_cp_wait_for_service os rounds sid ct retries fm k1 = Some (r, k2)"
      "r \<in> {NGX_OK, NGX_ERROR, NGX_AGAIN, NGX_HTTP_REQUEST_TIME_OUT}" "settings k2 = settings k" using k1(1) by auto
  with k1 have "st_inspection_mode (settings k2) = NON_BLOCKING_THREAD" by simp
  from Suc.IH [OF this] k1(1) k2 push show ?case by (auto simp: Let_def)
qed

end
