(* ===== verification/Ngx_Sync_Properties.thy ===== *)
theory Ngx_Sync_Properties
  imports Ngx_Request_Handler Ngx_Custom_Response Ngx_Io_Lemmas Ngx_Async_Properties Io_Properties
begin

text \<open>
  Properties of the synchronous mode of the nginx module, with the concrete requests, answers and pages of their
  witnesses.
\<close>

section \<open>Answer pages\<close>

text \<open>The pages a worker can have, from any number of configurations and replies.\<close>

inductive pages_reachable :: "answer_pages \<Rightarrow> bool" where
  start: "pages_reachable initial_pages"
| configured: "pages_reachable pg \<Longrightarrow> initialize_web_response_data fmt pg = Some pg' \<Longrightarrow> pages_reachable pg'"
| answered: "pages_reachable pg \<Longrightarrow> ngx_handle_custom_web_response p addr pg = Some pg' \<Longrightarrow> pages_reachable pg'"
| customised: "pages_reachable pg \<Longrightarrow> pages_reachable (snd (ngx_handle_custom_response pool alloc p addr pg))"

lemma handle_custom_web_response_ok:
  "pages_ok pg \<Longrightarrow> ngx_handle_custom_web_response p addr pg = Some pg' \<Longrightarrow> pages_ok pg'"
  by (auto simp: ngx_handle_custom_web_response_def Let_def
      intro: set_redirect_response_ok set_custom_response_block_page_ok split: if_splits)

lemma handle_custom_response_ok: "pages_ok pg \<Longrightarrow> pages_ok (snd (ngx_handle_custom_response pool alloc p addr pg))"
  by (auto simp: ngx_handle_custom_response_def set_custom_response_def pages_ok_def Let_def split: option.splits)

lemma reachable_pages_ok: "pages_reachable pg \<Longrightarrow> pages_ok pg"
  by (induction rule: pages_reachable.induct)
    (auto intro: initial_pages_ok initialize_web_response_data_ok handle_custom_web_response_ok handle_custom_response_ok)

text \<open>What the client is sent, for pages with a title and a body.\<close>

lemma block_page_answer:
  assumes init: "initialize_web_response_data fmt pg = Some pg1"
    and set: "set_custom_response_block_page title body uuid code pg1 = Some pg2"
    and texts: "title \<noteq> []" "body \<noteq> []"
  shows "\<exists>p0 p1 p2 p3 out. fmt = p0 @ USERCHECK_TITLE_START @ p1 @ USERCHECK_BODY_START @ p2 @ USERCHECK_UUID_START @ p3
    \<and> (\<forall>allocated. list_all allocated [0..<7] \<longrightarrow> get_block_page_response allocated pg2 = Some out)
    \<and> concat out = p0 @ title @ p1 @ body @ p2 @ incident_prefix @ uuid @ p3
    \<and> get_response_page_length_web_page pg2 = length (concat out) \<and> length (concat out) \<noteq> 0
    \<and> page_code pg2 = code \<and> uuid_size pg2 = length uuid \<and> take (length uuid) (uuid_buf pg2) = uuid
    \<and> (uuid \<noteq> [] \<longrightarrow> uuid_buf pg2 ! 0 = hd uuid)"
proof -
  obtain p0 p1 p2 p3 where parts: "page_parts pg1 = [p0, p1, p2, p3]"
    and fmt: "fmt = p0 @ USERCHECK_TITLE_START @ p1 @ USERCHECK_BODY_START @ p2 @ USERCHECK_UUID_START @ p3"
    using page_parts_split [OF init] by blast
  from set texts obtain ub tb bb where bufs: "memcpy_into (uuid @ [0]) (uuid_buf pg1) = Some ub"
    "memcpy_into title (title_buf pg1) = Some tb" "memcpy_into body (body_buf pg1) = Some bb"
    and pg2: "pg2 = pg1\<lparr>page_code := code, title_size := length title, body_size := length body, uuid_size := length uuid,
       uuid_buf := ub, title_buf := tb, body_buf := bb\<rparr>"
    by (auto simp: set_custom_response_block_page_def Let_def Option.bind_eq_Some_conv)
  have "take (length title) tb = title" "take (length body) bb = body"
    using memcpy_into_prefix bufs by blast+
  moreover have ub: "take (Suc (length uuid)) ub = uuid @ [0]" using memcpy_into_prefix [OF bufs(1)] by simp
  have "take (length uuid) ub = take (length uuid) (take (Suc (length uuid)) ub)" by (simp add: min_def)
  with ub have "take (length uuid) ub = uuid" by simp
  moreover from this have "uuid \<noteq> [] \<Longrightarrow> ub ! 0 = hd uuid" by (metis hd_conv_nth length_greater_0_conv nth_take)
  ultimately show ?thesis using parts fmt pg2 texts
    by (intro exI [of _ p0] exI [of _ p1] exI [of _ p2] exI [of _ p3] exI [of _ "[p0, title, p1, body, p2, incident_prefix @ uuid, p3]"])
      (auto simp: get_block_page_response_def get_response_page_length_web_page_def)
qed

text \<open>
  C28. The answer to a rejected request is the block page: the text of the page with title, body and
  incident id of the verdict in the place of its three placeholders, under the status of the verdict, with a
  content length that is the length of what is sent, and with the incident id as the only header.
\<close>

theorem block_page_delivered:
  assumes "initialize_web_response_data fmt pg = Some pg1"
    and "set_custom_response_block_page title body uuid code pg1 = Some pg2"
    and "title \<noteq> []" "body \<noteq> []" "code \<noteq> 0" "code \<noteq> 307"
    and "pushes_append (list_calls ng)" "list_all (buf_alloc ng) [0..<7]" "send_header_rc ng = 0"
  shows "\<exists>p0 p1 p2 p3 out a.
    fmt = p0 @ USERCHECK_TITLE_START @ p1 @ USERCHECK_BODY_START @ p2 @ USERCHECK_UUID_START @ p3
    \<and> ngx_http_cp_finalize_rejected_request ng False pg2 a0 = (NGX_DONE, a)
    \<and> an_status a = int (unat code) \<and> an_header_sent a \<and> an_finalized a = Some (output_filter_rc ng)
    \<and> concat (an_headers a) = (if uuid = [] \<or> hd uuid = 0 then [] else [(uuid_key, uuid)])
    \<and> an_body a = Some out \<and> concat out = p0 @ title @ p1 @ body @ p2 @ incident_prefix @ uuid @ p3
    \<and> an_length a = Some (length (concat out))"
proof -
  obtain p0 p1 p2 p3 out where
    fmt: "fmt = p0 @ USERCHECK_TITLE_START @ p1 @ USERCHECK_BODY_START @ p2 @ USERCHECK_UUID_START @ p3"
    and page: "get_block_page_response (buf_alloc ng) pg2 = Some out"
      "concat out = p0 @ title @ p1 @ body @ p2 @ incident_prefix @ uuid @ p3"
      "get_response_page_length_web_page pg2 = length (concat out)" "length (concat out) \<noteq> 0"
    and pg2: "page_code pg2 = code" "uuid_size pg2 = length uuid" "take (length uuid) (uuid_buf pg2) = uuid"
      "uuid \<noteq> [] \<longrightarrow> uuid_buf pg2 ! 0 = hd uuid"
    using block_page_answer [OF assms(1-4)] assms(8) by blast
  have code: "int (unat code) \<noteq> 0" "int (unat code) \<noteq> NGX_HTTP_TEMPORARY_REDIRECT"
  proof -
    show "int (unat code) \<noteq> 0" using assms(5) by (simp add: unsigned_eq_0_iff)
    have "unat code \<noteq> 307" using assms(6) unat_arith_simps(3) [of code 307] by simp
    then have "int (unat code) \<noteq> int 307" by (simp only: of_nat_eq_iff not_False_eq_True)
    then show "int (unat code) \<noteq> NGX_HTTP_TEMPORARY_REDIRECT" by (simp add: NGX_HTTP_TEMPORARY_REDIRECT_def)
  qed
  obtain hs where hs: "push_answer_header (list_calls ng) 0 uuid_key uuid delete_headers_list = (True, hs)"
    "concat hs = [(uuid_key, uuid)]"
    using push_answer_header_appends [OF assms(7), of 0 uuid_key uuid delete_headers_list] by (auto simp: delete_headers_list_def)
  have "concat (ngx_add_event_id_to_header (list_calls ng) 0 pg2 delete_headers_list)
      = (if uuid = [] \<or> hd uuid = 0 then [] else [(uuid_key, uuid)])"
    using pg2 hs by (auto simp: ngx_add_event_id_to_header_def delete_headers_list_def)
  with fmt page pg2 code assms(9) show ?thesis
    by (intro exI [of _ p0] exI [of _ p1] exI [of _ p2] exI [of _ p3] exI [of _ out])
      (simp add: ngx_http_cp_finalize_rejected_request_def send_block_page_def finalize_with_def Let_def)
qed

definition sample_format :: bytes where
  "sample_format = [60] @ USERCHECK_TITLE_START @ [61] @ USERCHECK_BODY_START @ [62] @ USERCHECK_UUID_START @ [63]"

definition sample_pages :: answer_pages where
  "sample_pages = initial_pages\<lparr>page_parts := [[60], [61], [62], [63]], title_size := 44, title_buf := default_title @ replicate 20 0,
     body_size := 80, body_buf := default_body @ replicate 176 0, uuid_size := 0\<rparr>"

lemma sample_format_parts: "initialize_web_response_data sample_format initial_pages = Some sample_pages"
  by code_simp

definition sample_answer_calls :: answer_calls where
  "sample_answer_calls = \<lparr>send_header_rc = 0, output_filter_rc = 0,
     list_calls = \<lparr>ngx_list_push = \<lambda>h hs. Some (hs @ [[h]]), ngx_uninitialised = ([], []), ngx_alloc = \<lambda>_. True\<rparr>, buf_alloc = \<lambda>_. True\<rparr>"

definition sample_block_pages :: answer_pages where
  "sample_block_pages = sample_pages\<lparr>page_code := 403, title_size := 1, title_buf := 65 # tl (title_buf sample_pages),
     body_size := 1, body_buf := 66 # tl (body_buf sample_pages), uuid_size := 1, uuid_buf := [67] @ replicate 63 0\<rparr>"

lemma sample_block_page: "set_custom_response_block_page [65] [66] [67] 403 sample_pages = Some sample_block_pages"
  by code_simp

definition sample_answer :: http_answer where
  "sample_answer = \<lparr>an_keepalive = True, an_status = 0, an_headers = [], an_length = None, an_header_sent = False, an_body = None,
     an_finalized = None\<rparr>"

theorem block_page_delivered_witness:
  "\<exists>p0 p1 p2 p3 out a.
    sample_format = p0 @ USERCHECK_TITLE_START @ p1 @ USERCHECK_BODY_START @ p2 @ USERCHECK_UUID_START @ p3
    \<and> ngx_http_cp_finalize_rejected_request sample_answer_calls False sample_block_pages sample_answer = (NGX_DONE, a)
    \<and> an_status a = 403 \<and> an_header_sent a \<and> an_finalized a = Some 0 \<and> concat (an_headers a) = [(uuid_key, [67])]
    \<and> an_body a = Some out \<and> concat out = p0 @ [65] @ p1 @ [66] @ p2 @ incident_prefix @ [67] @ p3
    \<and> an_length a = Some (length (concat out))"
  using block_page_delivered [OF sample_format_parts sample_block_page, of sample_answer_calls sample_answer]
  by (auto simp: sample_answer_calls_def pushes_append_def list_all_iff)

text \<open>
  C6. The page of a reply writes past a static buffer of the worker exactly when it is a redirection whose location is
  longer than 512 bytes, or a block page whose incident id is longer than 63 bytes, or whose title is longer than
  64 bytes and comes with a body: the code checks none of these lengths before it copies. This holds in every state
  of the pages that any number of configurations and replies can lead to.
\<close>

theorem reply_page_overruns_iff:
  assumes "pages_reachable pg"
  shows "ngx_handle_custom_web_response p addr pg = None \<longleftrightarrow>
    (if p addr = 3 then 512 < unat (get16 p (addr + 4))
     else 63 < unat (p (addr + 1)) \<or> 64 < unat (p (addr + 4)) \<and> 0 < unat (p (addr + 5)))"
proof -
  have "unat (p (addr + 5)) < 256" by (rule unat_u8_less)
  then show ?thesis
    using block_page_overrun [OF reachable_pages_ok [OF assms]] redirect_overrun [OF reachable_pages_ok [OF assms]]
    by (auto simp: ngx_handle_custom_web_response_def Let_def read_bytes_def)
qed

theorem reply_page_overruns_iff_witness:
  "pages_reachable sample_pages
   \<and> ngx_handle_custom_web_response (memory_of ([0, 0, 147, 1, 65, 1] @ replicate 66 65)) 0 sample_pages = None
   \<and> ngx_handle_custom_web_response (memory_of ([0, 0, 147, 1, 64, 1] @ replicate 65 65)) 0 sample_pages \<noteq> None"
proof -
  have "pages_reachable sample_pages" using configured [OF start sample_format_parts] .
  then show ?thesis by (simp add: reply_page_overruns_iff memory_of_def)
qed

section \<open>A sample worker\<close>

text \<open>A registered worker in synchronous mode, with an empty channel of four segments.\<close>

definition sample_worker :: ngx_worker where
  "sample_worker =
     \<lparr>wk = (sample_connected STAGE_BODY TRAFFIC_VERDICT_INSPECT)\<lparr>x_async_mode := False\<rparr>, settings = initial_settings, pages = initial_pages,
      rate = initial_rate, memory_pool = True, already_registered = True, registration_duration = 100, registration_timeout = (0, 0),
      metric_timeout = (0, 0), failure_state_initialized = True, metric_data_initialized = True, next_session = 1, meta_failures = 0,
      wk_unique_id = ''1'', wk_signal_path = replicate 128 0, wk_registration_socket = -1, wk_docker_id = None, wk_metadata_file = None,
      wk_static_resources = None, workers_amount_to_send = 1, connection_attempts = 0\<rparr>"

definition sample_sync_answers :: sync_answers where
  "sample_sync_answers =
     \<lparr>sa_os = sample_answers, sa_service = (\<lambda>_ ipc. ipc), sa_poll = (\<lambda>_ _. (0, False)), sa_read = (\<lambda>_. None), sa_timeout = (\<lambda>_. False),
      sa_connection_lost = (\<lambda>_. False), sa_conf = (\<lambda>_. \<lparr>cs_environ = Map.empty, cs_exists = False, cs_file = None\<rparr>), sa_page_format = [],
      sa_before = CHR ''/'', sa_garbage = (\<lambda>_. False)\<rparr>"

definition sample_sync_session :: sync_session where
  "sample_sync_session =
     ngx_http_cp_session_data.extend sample_session
       \<lparr>inspect_all_response_headers = True, processed_res_body_size = 0, original_compression_type = NO_COMPRESSION,
        new_compression_type = NO_COMPRESSION\<rparr>"

lemma sample_worker_empty: "ngx_to_service False sample_worker []"
  using sample_holds_2 [OF small_geometry]
  by (simp add: ngx_to_service_def ngx_tx_def get_ipc_for_mode_def sample_worker_def sample_connected_def sample_channel_def)

lemma sample_worker_room:
  assumes "0 < length m" "length m \<le> 1024"
  shows "valid_msg m" "ngx_room False sample_worker m"
proof -
  have "(length m + 1023) div 1024 = 1" using assms by (intro div_nat_eqI) (simp_all add: Suc_le_eq)
  then have m: "valid_msg (concat [m])" "nsegs 1024 (concat [m]) = 1"
    using assms by (simp_all add: valid_msg_def max_write_size_def getNumOfDataSegmentsNeeded_def)
  then show "valid_msg m" by simp
  show "ngx_room False sample_worker m"
    using room_before_end(1) [OF sample_rep_2 [OF small_geometry] m(1)] m(2)
    by (simp add: ngx_room_def ngx_tx_def get_ipc_for_mode_def sample_worker_def sample_connected_def sample_channel_def room_2_def
        sample_process_def)
qed

section \<open>What is sent\<close>

text \<open>
  C21. The headers of a request or response that find room are sent, in the order of the lists of nginx and without
  gaps, in bulks of at most ten, as many as there are tens of headers, rounded up, and the number of bulks is reported;
  the service gets exactly these headers back by reading the bulks one after the other.
\<close>

theorem sync_headers_delivered:
  assumes "ngx_to_service fm k ms" "headers \<noteq> []" "last headers \<noteq> []" "list_all header_fits (concat headers)"
    and "t = RESPONSE_HEADER \<longrightarrow> length (concat headers) mod 256 \<noteq> 0"
    and "all_accepted (ngx_room fm) (send_message os rounds sid fm) (sync_step k) (header_bulks 10 t sid 0 (concat headers))"
  shows "\<exists>k' bulks. ngx_http_cp_header_sender os rounds headers t sid fm k = Some (NGX_OK, length bulks, k')
    \<and> ngx_to_service fm k' (ms @ bulks) \<and> length bulks = (length (concat headers) + 9) div 10
    \<and> concat (map (\<lambda>m. read_headers (drop 8 m)) bulks) = concat headers"
proof -
  let ?bulks = "map concat (header_bulks 10 t sid 0 (concat headers))"
  obtain k' where "ngx_http_cp_header_sender os rounds headers t sid fm k = Some (NGX_OK, length ?bulks, k')"
    "ngx_to_service fm k' (ms @ ?bulks)"
    using sync_header_sender_sends [OF assms(1-3,5,6)] by auto
  then show ?thesis
    using read_header_bulks [OF assms(4), of 10 t sid 0]
    by (intro exI [of _ k'] exI [of _ ?bulks]) (simp add: header_bulks_count comp_def)
qed

theorem sync_headers_delivered_witness:
  "\<exists>k' m. ngx_http_cp_header_sender sample_sync_answers 9 [[([104], [1, 2])], [([], [3])]] RESPONSE_HEADER 7 False sample_worker
      = Some (NGX_OK, 1, k')
    \<and> ngx_to_service False k' [m] \<and> read_headers (drop 8 m) = [([104], [1, 2]), ([], [3])]"
proof -
  let ?hs = "[([104], [1, 2]), ([], [3])] :: HttpHeaderData list"
  have bulks: "header_bulks 10 RESPONSE_HEADER 7 0 ?hs = [bulk_fragments RESPONSE_HEADER 7 True 0 ?hs]"
    by (simp add: header_bulks.simps)
  have "0 < length (concat (bulk_fragments RESPONSE_HEADER 7 True 0 ?hs))"
    "length (concat (bulk_fragments RESPONSE_HEADER 7 True 0 ?hs)) \<le> 1024"
    by (simp_all add: bulk_fragments_def header_fragments_def sized_def)
  note room = sample_worker_room [OF this]
  with ngx_sink.accepts [of False "sync_step sample_worker" "[]" "bulk_fragments RESPONSE_HEADER 7 True 0 ?hs" sample_sync_answers 9 7]
    sample_worker_empty
  have "all_accepted (ngx_room False) (send_message sample_sync_answers 9 7 False) (sync_step sample_worker)
      (header_bulks 10 RESPONSE_HEADER 7 0 (concat [[([104], [1, 2])], [([], [3])]]))"
    by (auto simp: bulks)
  from sync_headers_delivered [OF sample_worker_empty _ _ _ _ this] show ?thesis
    by (auto simp: header_fits_def length_Suc_conv)
qed

text \<open>
  C22. The body of a request that finds room is sent completely: one message per link of the chain that has bytes or
  is the last one, none of the chain is left, the number of messages and the mark of the last link are reported, and the
  service gets the bytes of the body back, in their order, behind the eight bytes that head each message.
\<close>

theorem sync_body_delivered:
  assumes "ngx_to_service fm k ms" "length links < 2 ^ 31" "links \<noteq> []" "list_all (\<lambda>l. length (fst l) < 65536) links"
    and "all_accepted (ngx_room fm)
           (\<lambda>m w. sent_only (ngx_http_cp_send_data_to_service os rounds (nsd_session_id d) (st_fail_open_timeout (settings k)) 0 fm m w))
           (sync_step k) (chain_messages REQUEST_BODY (nsd_session_id d) 0 links)"
  shows "\<exists>d' k' msgs. ngx_http_cp_body_sender os rounds (map Some links) REQUEST_BODY part_number fm d k
      = Some (NGX_OK, [], snd (last links), length msgs, d', k')
    \<and> ngx_to_service fm k' (ms @ msgs) \<and> length msgs = length (filter (\<lambda>(buf, is_last). buf \<noteq> [] \<or> is_last) links)
    \<and> concat (map (drop 8) msgs) = concat (map fst links)"
proof -
  let ?msgs = "chain_messages REQUEST_BODY (nsd_session_id d) 0 links"
  have step: "ngx_to_service fm (sync_step k) ms" using assms(1) by simp
  let ?p = "\<lparr>bp_part_count = 0, bp_sent = 0, bp_last = sa_garbage os (steps k), bp_retries = st_min_retries (settings k)\<rparr>"
  have "length links \<le> 2 ^ 31 - 1" using assms(2) by simp
  then obtain p' d' k' where
    "body_sender_loop (\<lambda>retries. ngx_http_cp_send_data_to_service os rounds (nsd_session_id d) (st_fail_open_timeout (settings k)) retries fm)
       REQUEST_BODY (ucast (st_body_size_trigger (settings k))) (st_max_retries (settings k)) (2 ^ 31 - 1) (map Some links) ?p d (sync_step k)
       = Some (NGX_OK, [], p', d', k')" "bp_sent p' = length ?msgs" "bp_last p' = snd (last links)"
    and queue: "ngx_to_service fm k' (ms @ map concat ?msgs)"
    using ngx_chunks.body_loop_sends [OF step, of ?p 0 links "2 ^ 31 - 1" os rounds "nsd_session_id d" "st_fail_open_timeout (settings k)"
        REQUEST_BODY d "ucast (st_body_size_trigger (settings k))" "st_max_retries (settings k)"] assms(3,5)
    by auto
  then have "ngx_http_cp_body_sender os rounds (map Some links) REQUEST_BODY part_number fm d k
      = Some (NGX_OK, [], snd (last links), length ?msgs, d', k')"
    by (simp add: ngx_http_cp_body_sender_def)
  with queue show ?thesis
    using chain_messages_payload [OF assms(4), of REQUEST_BODY "nsd_session_id d" 0]
    by (intro exI [of _ d'] exI [of _ k'] exI [of _ "map concat ?msgs"]) (simp add: comp_def chain_messages_count)
qed

theorem sync_body_delivered_witness:
  "\<exists>d' k' m. ngx_http_cp_body_sender sample_sync_answers 9 [Some ([1, 2], True)] REQUEST_BODY 0 False sample_sync_session sample_worker
      = Some (NGX_OK, [], True, 1, d', k')
    \<and> ngx_to_service False k' [m] \<and> drop 8 m = [1, 2]"
proof -
  let ?d = sample_sync_session and ?t = "st_fail_open_timeout (settings sample_worker)"
  let ?m = "body_fragments REQUEST_BODY (nsd_session_id ?d) True 0 [1, 2]"
  have "0 < length (concat ?m)" "length (concat ?m) \<le> 1024" by (simp_all add: body_fragments_elems)
  note room = sample_worker_room [OF this]
  with ngx_chunks.chunk_accepted [of False "sync_step sample_worker" "[]" ?m sample_sync_answers 9 "nsd_session_id ?d" ?t] sample_worker_empty
  have "all_accepted (ngx_room False)
      (\<lambda>m w. sent_only (ngx_http_cp_send_data_to_service sample_sync_answers 9 (nsd_session_id ?d) ?t 0 False m w))
      (sync_step sample_worker) (chain_messages REQUEST_BODY (nsd_session_id ?d) 0 [([1, 2], True)])"
    by (auto simp: sent_only_def)
  from sync_body_delivered [where part_number = 0, OF sample_worker_empty _ _ _ this] show ?thesis
    by (auto simp: length_Suc_conv)
qed

text \<open>
  C27. Sending a message ends: in the mode with a time-out, when every write to the socket takes a byte or fails, as many
  rounds as there are polls allowed, and at least four, are enough, and the result is success, an error or a time-out.
\<close>

theorem sync_exchange_ends:
  assumes "\<forall>n. xa_write (sa_os os) n \<noteq> 0" "st_inspection_mode (settings k) = NON_BLOCKING_THREAD" "4 \<le> rounds" "unat retries \<le> rounds"
  shows "\<exists>res waited k'. ngx_http_cp_send_data_to_service os rounds sid ct retries fm frags k = Some (res, waited, k')
    \<and> res \<in> {NGX_OK, NGX_ERROR, NGX_HTTP_REQUEST_TIME_OUT}"
  using attempts_end [of os k rounds retries frags sid ct fm 5 NGX_OK False] assms
  unfolding ngx_http_cp_send_data_to_service_def by blast

theorem sync_exchange_ends_witness:
  "\<exists>res waited k'. ngx_http_cp_send_data_to_service sample_sync_answers 4 7 0 3 False [[1]] (sample_worker\<lparr>wk := (wk sample_worker)\<lparr>x_ipc := None\<rparr>\<rparr>)
      = Some (res, waited, k') \<and> res \<in> {NGX_OK, NGX_ERROR, NGX_HTTP_REQUEST_TIME_OUT}"
  by (rule sync_exchange_ends) (simp_all add: sample_sync_answers_def sample_answers_def sample_worker_def initial_settings_def)

end
