(* ===== verification/Ngx_Hook_Lemmas.thy ===== *)
theory Ngx_Hook_Lemmas
  imports Ngx_Request_Handler
begin

text \<open>
  What the hooks of the synchronous mode hand on: when the filter of request bodies forwards a body, and
  what a successful initialisation of a worker leaves.
\<close>

section \<open>Forwarded bodies\<close>

text \<open>The time limit of the request or of the response is over.\<close>

definition limit_reached :: "hook_state \<Rightarrow> bool" where
  "limit_reached s \<longleftrightarrow>
     (let (c, k) = s; st = settings k; d = tc_session c in
      st_req_max_ms st \<noteq> 0 \<and> ns_req_time d \<ge> int (unat (st_req_max_ms st)) * 1000
      \<or> st_res_max_ms st \<noteq> 0 \<and> ns_res_time d \<ge> int (unat (st_res_max_ms st)) * 1000)"

text \<open>One of the two failure modes lets traffic pass.\<close>

definition passes_on_failure :: "hook_state \<Rightarrow> bool" where
  "passes_on_failure s \<longleftrightarrow> fail_mode_open (wk (snd s)) \<or> fail_mode_hold_open (wk (snd s))"

lemma failure_modes_kept [simp]:
  "fail_mode_open (wk (count_hook t v k)) = fail_mode_open (wk k)"
  "fail_mode_hold_open (wk (count_hook t v k)) = fail_mode_hold_open (wk k)"
  "settings (count_hook t v k) = settings k"
  by (simp_all add: count_hook_def on_world_def Ngx_Async_Context.count_metric_def)

lemma limit_count_hook [simp]: "limit_reached (c, count_hook t v k) = limit_reached (c, k)"
  by (simp add: limit_reached_def)

lemma limit_set_fail_verdict [simp]: "limit_reached (set_fail_verdict s) = limit_reached s"
  by (simp add: limit_reached_def set_fail_verdict_def upd_tc_session_def set_sync_verdict_def Let_def split: prod.split)

lemma sync_failure_frame:
  assumes "sync_failure os weight b s = Some s'"
  shows "limit_reached s' = limit_reached s" "tc_res (fst s') = tc_res (fst s)" "tc_chain (fst s') = tc_chain (fst s)"
  using assms
  by (auto simp: sync_failure_def limit_reached_def Let_def upd_tc_session_def set_sync_verdict_def on_world_def sync_step_def next_step_def
      Option.bind_eq_Some_conv split: prod.splits)

lemma sync_success_frame [simp]: "fst (sync_success os s) = fst s"
  by (simp add: sync_success_def split: prod.splits)

lemma timedout_limit:
  assumes "was_transaction_timedout os s = Some (True, s')"
  shows "limit_reached s'"
proof -
  obtain c k where s: "s = (c, k)" by fastforce
  from assms obtain t where "limit_reached s" "sync_failure os 1 (fail_mode_open (wk k)) (c, count_hook t 1 k) = Some s'"
    by (auto simp: s was_transaction_timedout_def limit_reached_def Let_def split: if_splits)
  with sync_failure_frame(1) [OF this(2)] show ?thesis by (simp add: s)
qed

text \<open>The reasons for which the filter forwards a body it should inspect.\<close>

definition forward_allowed :: "hook_result \<times> hook_state \<Rightarrow> bool" where
  "forward_allowed a \<longleftrightarrow>
     (case fst a of
        NextBodyFilter _ \<Rightarrow> passes_on_failure (snd a) \<or> limit_reached (snd a) \<or> should_return_next_filter (fst (snd a))
          \<or> tc_chain (fst (snd a)) = [] \<and> tc_res (fst (snd a)) = NGX_OK
      | _ \<Rightarrow> True)"

lemma failures_allowed [simp]:
  "forward_allowed (body_failed closed body s)" "forward_allowed (hold_failed body s)"
  by (auto simp: body_failed_def hold_failed_def forward_allowed_def passes_on_failure_def split: prod.split)

lemma forward_next_body [simp]:
  "forward_allowed (next_body body s) \<longleftrightarrow> passes_on_failure s \<or> limit_reached s \<or> should_return_next_filter (fst s)
     \<or> tc_chain (fst s) = [] \<and> tc_res (fst s) = NGX_OK"
  by (simp add: forward_allowed_def next_body_def)

lemma forward_other [simp]: "forward_allowed (Code c, s)" "forward_allowed (CustomResponsePage, s)" "forward_allowed (RejectRequest, s)"
  by (simp_all add: forward_allowed_def)

lemma end_request_body_allowed: "end_request_body os rounds body s = Some (Inl a) \<Longrightarrow> forward_allowed a"
  by (auto simp: end_request_body_def Option.bind_eq_Some_conv split: if_splits prod.splits)

lemma body_filter_round_allowed:
  assumes "body_filter_round os rounds body s = Some (Inl a)"
  shows "forward_allowed a"
proof -
  define tail where "tail = (\<lambda>s4. if should_return_next_filter (fst s4) then Some (Inl (next_body body s4))
      else if should_return (fst s4) then Some (Inl (Code (if tc_res (fst s4) = NGX_OK then NGX_DECLINED else tc_res (fst s4)), s4))
      else do {
        (timed_out, s5) \<leftarrow> was_transaction_timedout os s4;
        Some (if timed_out then Inl (next_body body (set_fail_verdict s5)) else Inr s5)
      })"
  have tail: "tail s4 = Some (Inl a) \<Longrightarrow> forward_allowed a" for s4
    by (auto simp: tail_def Option.bind_eq_Some_conv dest: timedout_limit split: if_splits)
  have ended: "forward_allowed a"
    if "(if c then end_request_body os rounds body s2 else Some (Inr s2)) = Some r"
      and "(case r of Inl answer \<Rightarrow> Some (Inl answer) | Inr s3 \<Rightarrow> tail (add_request_time os t s3)) = Some (Inl a)" for c s2 r t
    using that by (cases r) (auto dest: end_request_body_allowed tail split: if_splits)
  from assms obtain ran s1 where
    run: "ngx_cp_run_in_thread_timeout os (ngx_http_cp_req_body_filter_thread os rounds) (st_req_body_timeout (settings (snd s)))
       (fst s, sync_step (snd s)) = Some (ran, s1)"
    by (auto simp: body_filter_round_def Option.bind_eq_Some_conv)
  show ?thesis
  proof (cases "\<not> ran \<or> tc_res (fst s1) = NGX_ERROR")
    case True
    with assms run show ?thesis by (auto simp: body_filter_round_def)
  next
    case False
    with assms run obtain held s2 where
      "(if \<not> held then Some (Inl (hold_failed body (upd_tc_session (set_sync_verdict (hold_fail_verdict (snd s2))) (fst s2), snd s2)))
        else do {
          r \<leftarrow> (if was_request_fully_inspected (tc_session (fst s2)) then end_request_body os rounds body s2 else Some (Inr s2));
          (case r of Inl answer \<Rightarrow> Some (Inl answer) | Inr s3 \<Rightarrow> tail (add_request_time os (sync_now os (snd s)) s3))
        }) = Some (Inl a)"
      unfolding body_filter_round_def tail_def Let_def by (auto simp: Option.bind_eq_Some_conv)
    then show ?thesis by (cases held) (auto simp: Option.bind_eq_Some_conv dest: ended)
  qed
qed

lemma body_rounds_allowed: "sync_body_rounds os rounds body links s = Some (Inl a) \<Longrightarrow> forward_allowed a"
proof (induction links arbitrary: s)
  case (Cons l links)
  then obtain r where r: "body_filter_round os rounds body s = Some r"
    by (auto simp: Option.bind_eq_Some_conv split: if_splits)
  with Cons show ?case
    by (cases r) (auto dest: body_filter_round_allowed split: if_splits)
qed simp

lemma finish_request_body_allowed: "finish_request_body os body s = Some a \<Longrightarrow> forward_allowed a"
  by (auto simp: finish_request_body_def Let_def Option.bind_eq_Some_conv split: if_splits prod.splits)

lemma body_filter_allowed:
  assumes "ngx_http_cp_req_body_filter_sync os rounds False request response body d k = Some a"
    and "\<not> initial_async_mode d" "ns_verdict d = TRAFFIC_VERDICT_INSPECT" "body \<noteq> []"
  shows "forward_allowed a"
proof -
  have rounds: "forward_allowed a"
    if "sync_body_rounds os rounds body body s = Some r"
      and "(case r of Inl answer \<Rightarrow> Some answer | Inr s3 \<Rightarrow> finish_request_body os body s3) = Some a" for s r
    using that by (cases r) (auto dest: body_rounds_allowed finish_request_body_allowed)
  show ?thesis
    using assms
    by (auto simp: ngx_http_cp_req_body_filter_sync_def Let_def Option.bind_eq_Some_conv
        dest: timedout_limit rounds split: if_splits)
qed

end
