(* ===== verification/Ngx_Init_Lemmas.thy ===== *)
theory Ngx_Init_Lemmas
  imports Ngx_Init
begin

text \<open>
  What the steps of the initialisation of a worker process of nginx keep, and what each of them establishes when
  it answers \<open>NGX_OK\<close>.
\<close>

section \<open>Steps that keep identity, registration and connection\<close>

definition connection_kept :: "ngx_worker \<Rightarrow> ngx_worker \<Rightarrow> bool" where
  "connection_kept k k' \<longleftrightarrow>
     wk_unique_id k' = wk_unique_id k \<and> x_registration (wk k') = x_registration (wk k) \<and> x_comm_socket (wk k') = x_comm_socket (wk k)"

lemmas step_simps = connection_kept_def on_world_def sync_step_def next_step_def Let_def

lemma kept_trans [trans]: "connection_kept a b \<Longrightarrow> connection_kept b c \<Longrightarrow> connection_kept a c"
  by (simp add: connection_kept_def)

lemma kept_step: "connection_kept k (sync_step k)"
  by (simp add: step_simps)

lemma exchange_write_kept: "exchange_write os rounds sock data res k = Some (r, k') \<Longrightarrow> connection_kept k k'"
proof (induction rounds arbitrary: data res k)
  case (Suc n)
  from Suc.prems show ?case
    by (subst (asm) exchange_write.simps) (auto simp: step_simps dest!: Suc.IH split: if_splits)
qed (subst (asm) exchange_write.simps, auto simp: step_simps split: if_splits)

lemma exchange_read_kept: "exchange_read os rounds wanted got res k = Some (r, bs, k') \<Longrightarrow> connection_kept k k'"
proof (induction rounds arbitrary: wanted got res k)
  case (Suc n)
  from Suc.prems show ?case
    by (subst (asm) exchange_read.simps) (auto simp: step_simps dest!: Suc.IH split: if_splits option.splits)
qed (subst (asm) exchange_read.simps, auto simp: step_simps split: if_splits)

lemma exchange_fields_kept: "exchange_fields os rounds sock ds k = Some (sent, k') \<Longrightarrow> connection_kept k k'"
proof (induction ds arbitrary: k)
  case (Cons d ds)
  then show ?case
    by (fastforce simp: Option.bind_eq_Some_conv dest!: exchange_write_kept intro: kept_trans split: if_splits)
qed (simp add: connection_kept_def)

lemma read_signal_path_kept: "read_signal_path os rounds k = Some (res, k') \<Longrightarrow> connection_kept k k'"
  by (auto simp: read_signal_path_def connection_kept_def Let_def Option.bind_eq_Some_conv dest!: exchange_read_kept split: if_splits)

lemma get_docker_id_kept: "get_docker_id os k = (r, k') \<Longrightarrow> connection_kept k k'"
  by (auto simp: get_docker_id_def step_simps split: option.splits)

lemma registration_kept:
  assumes "ngx_register_to_attachments_manager os rounds n k = Some (res, k')"
  shows "connection_kept k k'"
proof -
  obtain r k1 where "get_docker_id os k = (r, k1)" by fastforce
  with assms have "connection_kept k k1" "connection_kept k1 k'"
    by (auto simp: ngx_register_to_attachments_manager_def step_simps Option.bind_eq_Some_conv
        dest!: exchange_fields_kept read_signal_path_kept get_docker_id_kept split: if_splits option.splits)
  then show ?thesis by (rule kept_trans)
qed

lemma load_config_kept: "load_config os k = Some (res, k') \<Longrightarrow> connection_kept k k'"
  by (auto simp: load_config_def init_general_config_def step_simps Option.bind_eq_Some_conv split: if_splits prod.splits)

lemma init_channel_kept:
  "ngx_init_channel os name n k = Some (ipc, k') \<Longrightarrow>
   connection_kept k k' \<and> x_ipc (wk k') = x_ipc (wk k) \<and> x_async_mode (wk k') = x_async_mode (wk k)"
  by (auto simp: ngx_init_channel_def step_simps split: prod.splits init_result_2.splits)

section \<open>What each step establishes\<close>

lemma show_nat_nonempty: "show_nat n \<noteq> []"
  by (subst show_nat.simps) simp

lemma identity_done: "ensure_identity os k = (NGX_OK, k') \<Longrightarrow> wk_unique_id k' \<noteq> []"
  by (auto simp: ensure_identity_def ngx_set_unique_id_def Let_def show_nat_nonempty split: if_splits option.splits)

lemma metadata_done: "ensure_metadata os k = (NGX_OK, k') \<Longrightarrow> connection_kept k k'"
  by (auto simp: ensure_metadata_def ngx_copy_attachment_metadata_file_def step_simps split: if_splits)

lemma registered_done:
  assumes "ngx_ensure_registered os rounds k = Some (NGX_OK, k')"
  shows "wk_unique_id k' = wk_unique_id k" "x_registration (wk k') = REGISTERED"
  using assms
  by (cases "x_registration (wk k)";
      auto simp: ngx_ensure_registered_def get_num_of_workers_def set_registration_def step_simps Option.bind_eq_Some_conv
        dest!: registration_kept split: if_splits option.splits)+

lemma signaling_socket_done:
  assumes "ngx_init_signaling_socket os rounds k = Some (res, k')" "res \<noteq> NGX_ERROR"
  shows "wk_unique_id k' = wk_unique_id k \<and> x_registration (wk k') = x_registration (wk k) \<and> 0 \<le> x_comm_socket (wk k')"
  using assms
  by (auto simp: ngx_init_signaling_socket_def connect_secondary_def set_comm_socket_def set_secondary_socket_def step_simps
      Option.bind_eq_Some_conv dest!: exchange_fields_kept exchange_read_kept split: if_splits)

lemma signaling_done:
  assumes "ensure_signaling os rounds k = Some (NGX_OK, k')"
  shows "wk_unique_id k' = wk_unique_id k \<and> x_registration (wk k') = x_registration (wk k) \<and> 0 \<le> x_comm_socket (wk k')"
  using assms
  by (auto simp: ensure_signaling_def Option.bind_eq_Some_conv dest!: signaling_socket_done split: if_splits)

lemma primary_done:
  assumes "ensure_primary os k = Some (NGX_OK, k')"
  shows "connection_kept k k' \<and> x_ipc (wk k') \<noteq> None"
  using assms
  by (auto simp: ensure_primary_def init_primary_channel_def step_simps Option.bind_eq_Some_conv dest!: init_channel_kept split: if_splits)

lemma secondary_done:
  assumes "ensure_secondary os k = Some (NGX_OK, k')"
  shows "connection_kept k k' \<and> x_ipc (wk k') = x_ipc (wk k) \<and> (x_async_mode (wk k') \<longrightarrow> x_secondary_ipc (wk k') \<noteq> None)"
  using assms
  by (auto simp: ensure_secondary_def init_secondary_channel_def step_simps Option.bind_eq_Some_conv dest!: init_channel_kept split: if_splits)

lemma static_done:
  assumes "ensure_static_resources os k = (NGX_OK, k')"
  shows "connection_kept k k' \<and> x_ipc (wk k') = x_ipc (wk k) \<and> x_async_mode (wk k') = x_async_mode (wk k)
    \<and> x_secondary_ipc (wk k') = x_secondary_ipc (wk k)"
  using assms
  by (auto simp: ensure_static_resources_def init_static_resources_def step_simps split: if_splits option.splits)

lemma and_then_ok: "and_then step rest = Some (NGX_OK, k') \<Longrightarrow> \<exists>k. step = Some (NGX_OK, k) \<and> rest k = Some (NGX_OK, k')"
  by (auto simp: and_then_def Option.bind_eq_Some_conv split: if_splits)

text \<open>A worker that is connected to the service: identity, registration, socket and channels.\<close>

definition worker_connected :: "ngx_worker \<Rightarrow> bool" where
  "worker_connected k \<longleftrightarrow>
     wk_unique_id k \<noteq> [] \<and> x_registration (wk k) = REGISTERED \<and> 0 \<le> x_comm_socket (wk k) \<and> x_ipc (wk k) \<noteq> None
     \<and> (x_async_mode (wk k) \<longrightarrow> x_secondary_ipc (wk k) \<noteq> None) \<and> connection_attempts k = 0"

lemma init_process_connects:
  assumes "ngx_cp_attachment_init_process os rounds k = Some (NGX_OK, k')"
  shows "worker_connected k'"
proof -
  from assms obtain k0 k1 k2 k3 k4 k5 k6 k7 k8 where
    "ensure_identity os (sync_step k0) = (NGX_OK, k1)" "ensure_metadata os k1 = (NGX_OK, k2)"
    "ngx_ensure_registered os rounds k2 = Some (NGX_OK, k3)" "ensure_signaling os rounds k3 = Some (NGX_OK, k4)"
    "load_config os k4 = Some (NGX_OK, k5)" "ensure_primary os k5 = Some (NGX_OK, k6)" "ensure_secondary os k6 = Some (NGX_OK, k7)"
    "ensure_static_resources os k7 = (NGX_OK, k8)" "k' = k8\<lparr>connection_attempts := 0\<rparr>"
    by (auto simp: ngx_cp_attachment_init_process_def Option.bind_eq_Some_conv dest!: and_then_ok split: if_splits)
  note steps = identity_done [OF this(1)] metadata_done [OF this(2)] registered_done [OF this(3)] signaling_done [OF this(4)]
    load_config_kept [OF this(5)] primary_done [OF this(6)] secondary_done [OF this(7)] static_done [OF this(8)] this(9)
  from steps show ?thesis by (auto simp: worker_connected_def connection_kept_def)
qed

end
