(* ===== verification/Ngx_Hook_Properties.thy ===== *)
theory Ngx_Hook_Properties
  imports Ngx_Sync_Properties Ngx_Hook_Lemmas Ngx_Init_Lemmas
begin

text \<open>
  Properties of the hooks and of the initialisation of a worker process of nginx, with the concrete workers of
  their witnesses.
\<close>

section \<open>Samples\<close>

definition sample_shm :: shm_calls where
  "sample_shm =
     \<lparr>shm_open = (\<lambda>_ _. -1), fstat_size = None, pread_header = None, ftruncate = (\<lambda>_. False), mmap = (\<lambda>_. MAP_FAILED)\<rparr>"

definition sample_init_answers :: ngx_init_answers where
  "sample_init_answers =
     \<lparr>ia_sync = sample_sync_answers\<lparr>sa_conf := (\<lambda>_. \<lparr>cs_environ = Map.empty, cs_exists = True, cs_file = None\<rparr>)\<rparr>,
      ia_write = (\<lambda>_. 1), ia_read = (\<lambda>_. Some [1]), ia_readable = (\<lambda>_. True), ia_timeout = (\<lambda>_. False), ia_socket = (\<lambda>_. 9),
      ia_connect = (\<lambda>_ _. True), ia_no_entry = (\<lambda>_. False),
      ia_ipc = (\<lambda>_. \<lparr>malloc_ok = True, rx_calls = sample_shm, rx_chmod = True, tx_calls = sample_shm, tx_chmod = True, global_malloc_ok = True\<rparr>),
      ia_log = \<lparr>log_dbg_level = 0, log_worker_id = 0, log_fd = 0\<rparr>,
      ia_metadata = (\<lambda>_. \<lparr>md_src_stat = False, md_src_open = False, md_dest_open = True, md_chunks = [], md_read_ok = True,
                        md_writes = (\<lambda>_. True), md_rename = True, md_unlink = True\<rparr>),
      ia_access = (\<lambda>_. True), ia_cgroup = (\<lambda>_. Some []), ia_static = (\<lambda>_. Some []), ia_hash_ok = (\<lambda>_. True), ia_uid = 0, ia_gid = 0,
      ia_cores = 4, ia_worker = 0, ia_conf_workers = Some 2\<rparr>"

definition sample_hook_answers :: hook_answers where
  "sample_hook_answers =
     \<lparr>ha_io = sample_sync_answers\<lparr>sa_os := sample_answers\<lparr>xa_time := (\<lambda>_. \<lparr>tv_sec = 1, tv_nsec = 0\<rparr>)\<rparr>\<rparr>,
      ha_thread = (\<lambda>_. \<lparr>clock_begin = None, pthread_create_ok = True, blocking_join_status = 0, clock_deadline = None, timedjoin_status = (\<lambda>_. 0),
                      cancel_join_status = 0, joined_canceled = False, clock_end = \<lparr>tv_sec = 0, tv_nsec = 0\<rparr>\<rparr>),
      ha_partial = (\<lambda>_ s. s), ha_usage = (\<lambda>_ m. m), ha_body_alloc = (\<lambda>_ _ _. True),
      ha_released = (\<lambda>_ _. True)\<rparr>"

definition sample_response :: ngx_response where
  "sample_response =
     \<lparr>rs_status = 200, rs_content_length = None, rs_content_encoding = None, rs_headers = [[]], rs_length_cleared = False, rs_server = False\<rparr>"

text \<open>A worker that was not connected yet.\<close>

definition sample_unconnected :: ngx_worker where
  "sample_unconnected =
     sample_worker\<lparr>wk := (wk sample_worker)\<lparr>x_ipc := None\<rparr>, settings := initial_settings\<lparr>st_updated := True, st_inspection_mode := NO_THREAD\<rparr>,
       already_registered := False\<rparr>"

section \<open>Bodies\<close>

text \<open>
  C23. A body that was not inspected completely with success stays with the module: when both failure modes are closed,
  the time limits are not reached and no routine of the inspection asked for the next filter, the filter of
  request bodies does not hand on the body of a request that is under inspection, whatever the service, the channel and
  the threads do.
\<close>

theorem uninspected_body_kept:
  assumes "ngx_http_cp_req_body_filter_sync os rounds False request response body d k = Some (result, c, k')"
    and "\<not> initial_async_mode d" "ns_verdict d = TRAFFIC_VERDICT_INSPECT" "body \<noteq> []"
    and "\<not> fail_mode_open (wk k')" "\<not> fail_mode_hold_open (wk k')" "\<not> limit_reached (c, k')" "\<not> should_return_next_filter c"
    and "tc_chain c \<noteq> [] \<or> tc_res c \<noteq> NGX_OK"
  shows "result \<noteq> NextBodyFilter out"
  using body_filter_allowed [OF assms(1-4)] assms(5-9)
  by (auto simp: forward_allowed_def passes_on_failure_def)

theorem uninspected_body_kept_witness:
  "fst (the (ngx_http_cp_req_body_filter_sync sample_hook_answers 9 False sample_request sample_response [Some ([1], True)]
      (sample_sync_session\<lparr>initial_async_mode := False\<rparr>) sample_unconnected)) \<noteq> NextBodyFilter [Some ([1], True)]"
proof -
  let ?d = "sample_sync_session\<lparr>initial_async_mode := False\<rparr>"
  let ?c = "sync_thread_ctx sample_request sample_response (set_sync_verdict TRAFFIC_VERDICT_DROP ?d) [Some ([1], True)]"
  have "ngx_http_cp_req_body_filter_sync sample_hook_answers 9 False sample_request sample_response [Some ([1], True)] ?d sample_unconnected
      = Some (Code NGX_HTTP_FORBIDDEN, ?c, sample_unconnected)"
    by (simp add: ngx_http_cp_req_body_filter_sync_def Let_def sample_unconnected_def ngx_isIpcReady_def body_failed_def set_fail_verdict_def
        sample_worker_def sample_connected_def upd_session_def upd_ctx_def sample_world_def sync_thread_ctx_def upd_tc_session_def
        fail_mode_verdict_service_def)
  from uninspected_body_kept [OF this] this show ?thesis
    by (simp add: sample_sync_session_def sample_session_def sample_unconnected_def sample_worker_def sample_connected_def upd_session_def
        upd_ctx_def sample_world_def limit_reached_def initial_settings_def sync_thread_ctx_def set_sync_verdict_def
        ngx_http_cp_session_data.defs)
qed

section \<open>Registration\<close>

text \<open>
  A request that arrives while the worker cannot be registered is accepted without inspection, also when the failure
  mode is closed: without threads, a registration that does not succeed is answered with \<open>NGX_DECLINED\<close>, which lets nginx
  go on, and the verdict of the session is accept.
\<close>

theorem failed_registration_accepts:
  assumes "\<not> already_registered k" "is_registration_timeout_reached (now_val (sa_os (ha_io os)) (steps k)) k"
    and "st_inspection_mode (settings k) = NO_THREAD"
    and "ngx_cp_attachment_init_process ios rounds (reset_registration_timeout (now_val (sa_os (ha_io os)) (steps k)) (sync_step k))
      = Some (res, k')"
    and "res \<noteq> NGX_OK" "\<not> already_registered k'"
  shows "\<exists>c'. ensure_worker_registered os ios rounds (c, k) = Some (Inl (Code NGX_DECLINED, c', k')) \<and> tc_verdict c' = TRAFFIC_VERDICT_ACCEPT"
proof -
  have "settings (reset_registration_timeout (now_val (sa_os (ha_io os)) (steps k)) (sync_step k)) = settings k"
    by (simp add: reset_registration_timeout_def sync_step_def)
  with assms show ?thesis
    by (auto simp: ensure_worker_registered_def ngx_cp_run_in_thread_timeout_def ngx_cp_run_without_thread_timeout_def
        ngx_http_cp_registration_thread_def return_with_def Let_def tc_verdict_def upd_tc_session_def set_sync_verdict_def)
qed

theorem failed_registration_accepts_witness:
  "\<not> fail_mode_open (wk sample_unconnected)
   \<and> (\<exists>c' k'. ensure_worker_registered sample_hook_answers (sample_init_answers\<lparr>ia_access := \<lambda>_. False\<rparr>) 9
            (sync_thread_ctx sample_request sample_response sample_sync_session [], sample_unconnected)
          = Some (Inl (Code NGX_DECLINED, c', k')) \<and> tc_verdict c' = TRAFFIC_VERDICT_ACCEPT)"
proof -
  let ?ios = "sample_init_answers\<lparr>ia_access := \<lambda>_. False\<rparr>"
  let ?now = "now_val (sa_os (ha_io sample_hook_answers)) (steps sample_unconnected)"
  note sample = sample_unconnected_def sample_worker_def sample_connected_def upd_session_def upd_ctx_def sample_world_def
  have "\<exists>k'. ngx_cp_attachment_init_process ?ios 9 (reset_registration_timeout ?now (sync_step sample_unconnected)) = Some (NGX_ABORT, k')
      \<and> \<not> already_registered k'"
    by (simp add: sample ngx_cp_attachment_init_process_def load_config_def init_general_config_def sample_init_answers_def
        sample_sync_answers_def reset_registration_timeout_def sync_step_def next_step_def on_world_def Let_def initial_settings_def)
  then obtain k' where k': "ngx_cp_attachment_init_process ?ios 9 (reset_registration_timeout ?now (sync_step sample_unconnected))
      = Some (NGX_ABORT, k')" "\<not> already_registered k'" by blast
  have "\<not> fail_mode_open (wk sample_unconnected)" "\<not> already_registered sample_unconnected"
    "st_inspection_mode (settings sample_unconnected) = NO_THREAD" "is_registration_timeout_reached ?now sample_unconnected"
    by (simp_all add: sample initial_settings_def is_registration_timeout_reached_def is_timeout_reached_def timer_less_def now_val_def
        sample_hook_answers_def)
  with failed_registration_accepts [OF this(2,4,3) k'(1) _ k'(2)] show ?thesis by blast
qed

section \<open>Initialisation\<close>

text \<open>
  C26. When the initialisation of a worker answers \<open>NGX_OK\<close>, the worker has an identity, is registered, has its socket to the
  service and its channel, in asynchronous mode the second channel too, and its count of attempts starts again.
\<close>

theorem initialised_worker_connected:
  assumes "ngx_cp_attachment_init_process os rounds k = Some (NGX_OK, k')"
  shows "wk_unique_id k' \<noteq> [] \<and> x_registration (wk k') = REGISTERED \<and> 0 \<le> x_comm_socket (wk k') \<and> x_ipc (wk k') \<noteq> None
    \<and> (x_async_mode (wk k') \<longrightarrow> x_secondary_ipc (wk k') \<noteq> None) \<and> connection_attempts k' = 0"
  using init_process_connects [OF assms] by (simp add: worker_connected_def)

definition sample_unnamed :: ngx_worker where
  "sample_unnamed = sample_worker\<lparr>wk_unique_id := [], settings := initial_settings\<lparr>st_updated := True\<rparr>\<rparr>"

theorem initialised_worker_connected_witness:
  "\<exists>k'. ngx_cp_attachment_init_process sample_init_answers 9 sample_unnamed = Some (NGX_OK, k')
    \<and> wk_unique_id k' \<noteq> [] \<and> x_registration (wk k') = REGISTERED \<and> x_ipc (wk k') \<noteq> None"
proof -
  have "\<exists>k'. ngx_cp_attachment_init_process sample_init_answers 9 sample_unnamed = Some (NGX_OK, k')"
    by (simp add: ngx_cp_attachment_init_process_def load_config_def init_general_config_def sample_init_answers_def sample_unnamed_def
        sample_worker_def and_then_def ensure_identity_def ngx_set_unique_id_def ensure_metadata_def ngx_copy_attachment_metadata_file_def
        ngx_ensure_registered_def ensure_signaling_def ensure_primary_def ensure_secondary_def ensure_static_resources_def
        init_static_resources_def sample_connected_def sample_world_def upd_session_def upd_ctx_def initial_settings_def sync_step_def
        next_step_def Let_def sample_sync_answers_def on_world_def)
  then show ?thesis using initialised_worker_connected by blast
qed

section \<open>Session ids\<close>

text \<open>The ids of the next \<open>n\<close> sessions of a worker, when their data can be allocated.\<close>

fun next_session_ids :: "hook_answers \<Rightarrow> nat \<Rightarrow> ngx_worker \<Rightarrow> u32 list" where
  "next_session_ids os 0 k = []"
| "next_session_ids os (Suc n) k =
     (case init_cp_session_data os True k of
        (None, _) \<Rightarrow> []
      | (Some d, k') \<Rightarrow> nsd_session_id d # next_session_ids os n k')"

lemma next_session_ids_eq:
  "next_session_ids os n k = map (\<lambda>i. 2 * (next_session k + of_nat i) + 1) [0..<n]"
proof (induction n arbitrary: k)
  case (Suc n)
  have "[0..<Suc n] = 0 # map Suc [0..<n]" by (simp add: upt_conv_Cons map_Suc_upt)
  then show ?case
    by (simp add: init_cp_session_data_def Let_def Suc or_one_eq push_bit_eq_mult sync_step_def algebra_simps)
qed simp

text \<open>
  C30. Two sessions of a worker have the same id exactly when their numbers differ by a multiple of 2^31, since the id is the
  number of the session, shifted by one bit at its width of 32 bits, with the lowest bit set; all ids are odd.
\<close>

theorem session_ids_repeat:
  assumes "i < n" "j < n"
  shows "(next_session_ids os n k ! i = next_session_ids os n k ! j) = (i mod 2 ^ 31 = j mod 2 ^ 31)
    \<and> odd (next_session_ids os n k ! i)"
proof -
  let ?x = "next_session k"
  have "(2 * (?x + of_nat i) + 1 = 2 * (?x + of_nat j) + 1) = ((of_nat (2 * i) :: u32) = of_nat (2 * j))"
    by (simp add: algebra_simps)
  also have "\<dots> = (2 * i mod (2 * 2 ^ 31) = 2 * j mod (2 * 2 ^ 31))"
    by (simp only: word_unat_eq_iff unat_of_nat) simp
  also have "\<dots> = (i mod 2 ^ 31 = j mod 2 ^ 31)" by (simp only: mod_mult_mult1) simp
  finally show ?thesis using assms by (simp add: next_session_ids_eq)
qed

theorem session_ids_repeat_witness:
  "next_session_ids sample_hook_answers 5 sample_worker ! 1 \<noteq> next_session_ids sample_hook_answers 5 sample_worker ! 4
   \<and> odd (next_session_ids sample_hook_answers 5 sample_worker ! 1)"
  using session_ids_repeat [of 1 5 4 sample_hook_answers sample_worker] by simp

end
