(* ===== verification/Nano_Compression.thy ===== *)
theory Nano_Compression
  imports Nano_Common Attachment_Prelude
begin

text \<open>
  Compression and decompression of bodies for the users of the nano attachment library (\<open>nano_compression.c\<close>). What
  a stream of the compression library answers to each call is an argument; a part without output is \<open>None\<close>.
\<close>

section \<open>The library\<close>

record zip_result =
  zr_ok :: bool
  zr_output :: "bytes option"
  zr_last :: bool

text \<open>The streams of a session and the format of its bodies.\<close>

record response_streams =
  rs_compression_type :: CompressionType
  rs_compression_stream :: bool
  rs_decompression_stream :: bool

text \<open>The library takes lengths of 32 bits.\<close>

definition library_input :: "bytes \<Rightarrow> bytes" where
  "library_input d = take (length d mod 2 ^ 32) d"

section \<open>Bodies\<close>

text \<open>The parts from the one with the number \<open>i\<close> on; whether a call succeeded is not looked at.\<close>

fun compress_parts ::
    "(nat \<Rightarrow> CompressionType \<Rightarrow> bytes \<Rightarrow> bool \<Rightarrow> zip_result) \<Rightarrow> CompressionType \<Rightarrow> nat \<Rightarrow> bytes list \<Rightarrow> bytes option list" where
  "compress_parts squeeze t i [] = []"
| "compress_parts squeeze t i (d # ds) = zr_output (squeeze i t (library_input d) (ds = [])) # compress_parts squeeze t (Suc i) ds"

definition nano_compress_body ::
    "(nat \<Rightarrow> CompressionType \<Rightarrow> bytes \<Rightarrow> bool \<Rightarrow> zip_result) \<Rightarrow> bool \<Rightarrow> bool \<Rightarrow> bytes list \<Rightarrow> response_streams
     \<Rightarrow> bytes option list option \<times> response_streams" where
  "nano_compress_body squeeze body_malloc data_malloc bodies s =
     (if rs_compression_type s = NO_COMPRESSION then (None, s)
      else
        let s1 = s\<lparr>rs_compression_stream := True\<rparr> in
        if \<not> body_malloc \<or> \<not> data_malloc then (None, s1)
        else (Some (compress_parts squeeze (rs_compression_type s1) 0 bodies), s1))"

fun decompress_parts :: "(nat \<Rightarrow> bytes \<Rightarrow> zip_result) \<Rightarrow> nat \<Rightarrow> bytes list \<Rightarrow> bytes option list" where
  "decompress_parts expand i [] = []"
| "decompress_parts expand i (d # ds) = zr_output (expand i (library_input d)) # decompress_parts expand (Suc i) ds"

definition nano_decompress_body ::
    "(nat \<Rightarrow> bytes \<Rightarrow> zip_result) \<Rightarrow> bool \<Rightarrow> bool \<Rightarrow> bytes list \<Rightarrow> response_streams \<Rightarrow> bytes option list option \<times> response_streams" where
  "nano_decompress_body expand body_malloc data_malloc bodies s =
     (if rs_compression_type s = NO_COMPRESSION then (None, s)
      else
        let s1 = s\<lparr>rs_decompression_stream := True\<rparr> in
        if \<not> body_malloc \<or> \<not> data_malloc then (None, s1)
        else (Some (decompress_parts expand 0 bodies), s1))"

section \<open>Round trip\<close>

lemma compress_parts_nth:
  "j < length ds \<Longrightarrow> compress_parts squeeze t i ds ! j = zr_output (squeeze (i + j) t (library_input (ds ! j)) (Suc j = length ds))"
  by (induction squeeze t i ds arbitrary: j rule: compress_parts.induct) (auto simp: nth_Cons split: nat.splits)

lemma compress_parts_length [simp]: "length (compress_parts squeeze t i ds) = length ds"
  by (induction squeeze t i ds rule: compress_parts.induct) simp_all

text \<open>
  When the library decompresses each part of what it compressed to what it was made of, a body that was compressed
  part by part is decompressed to the same parts.
\<close>

lemma parts_round_trip:
  assumes "\<And>i d part. length d < 2 ^ 32 \<Longrightarrow> \<exists>out. zr_output (squeeze i t d part) = Some out \<and> zr_output (expand i (library_input out)) = Some d"
    and "list_all (\<lambda>d. length d < 2 ^ 32) ds"
  shows "decompress_parts expand i (map the (compress_parts squeeze t i ds)) = map Some ds"
  using assms(2)
proof (induction ds arbitrary: i)
  case (Cons d ds)
  then have "library_input d = d" by (simp add: library_input_def)
  moreover from Cons.prems assms(1) [of d i "ds = []"] obtain out where
    "zr_output (squeeze i t d (ds = [])) = Some out" "zr_output (expand i (library_input out)) = Some d" by auto
  ultimately show ?case using Cons by simp
qed simp

theorem nano_compression_round_trip:
  assumes "rs_compression_type s \<noteq> NO_COMPRESSION" "list_all (\<lambda>d. length d < 2 ^ 32) bodies"
    and "\<And>i d part. length d < 2 ^ 32 \<Longrightarrow> \<exists>out. zr_output (squeeze i (rs_compression_type s) d part) = Some out
      \<and> zr_output (expand i (library_input out)) = Some d"
  shows "\<exists>out s1 s2. nano_compress_body squeeze True True bodies s = (Some out, s1)
    \<and> nano_decompress_body expand True True (map the out) s1 = (Some (map Some bodies), s2)"
  using assms(1) parts_round_trip [of squeeze "rs_compression_type s" expand bodies 0] assms(2,3)
  by (simp add: nano_compress_body_def nano_decompress_body_def Let_def)

end
