(* ===== verification/Ngx_Compression.thy ===== *)
theory Ngx_Compression
  imports Ngx_Hooks Nano_Compression
begin

text \<open>
  Decompression and compression of the bodies of responses (\<open>ngx_cp_compression.c\<close>), and the functions of
  \<open>ngx_cp_hooks.c\<close> and \<open>ngx_cp_utils.c\<close> that copy between chains. A chain of nginx is a list of links that point
  to buffers, and both are changed in place while other pointers lead to them, so links and buffers are kept in a
  store by their addresses. The streams of the compression library, the allocations of nginx and what a
  freed link points to are arguments. A \<open>NULL\<close> that is dereferenced, and a chain longer than the rounds given, is
  \<open>None\<close>.
\<close>

section \<open>Links and buffers\<close>

type_synonym addr = nat

text \<open>The pool the bytes of a buffer are allocated from; bytes of nginx's own count as those of the request.\<close>

datatype buf_pool = REQUEST_POOL | DECOMPRESSION_POOL | RECOMPRESSION_POOL

text \<open>
  A buffer: its bytes from \<open>pos\<close> to \<open>last\<close>, the bytes from \<open>pos\<close> to \<open>end\<close> as a number, whether \<open>pos\<close> is \<open>NULL\<close>, and
  its flags.
\<close>

record ngx_buf =
  nb_data :: bytes
  nb_capacity :: nat
  nb_null :: bool
  nb_pool :: buf_pool
  nb_last_buf :: bool
  nb_flush :: bool
  nb_sync :: bool
  nb_memory :: bool
  nb_temporary :: bool
  nb_mmap :: bool
  nb_in_file :: bool

record ngx_link =
  lk_buf :: "addr option"
  lk_next :: "addr option"

record body_heap =
  bh_links :: "addr \<Rightarrow> ngx_link option"
  bh_bufs :: "addr \<Rightarrow> ngx_buf option"
  bh_calls :: nat

definition ngx_calloc_buf :: ngx_buf where
  "ngx_calloc_buf =
     \<lparr>nb_data = [], nb_capacity = 0, nb_null = True, nb_pool = REQUEST_POOL, nb_last_buf = False, nb_flush = False, nb_sync = False,
      nb_memory = False, nb_temporary = False, nb_mmap = False, nb_in_file = False\<rparr>"

definition ngx_buf_special :: "ngx_buf \<Rightarrow> bool" where
  "ngx_buf_special b =
     ((nb_flush b \<or> nb_last_buf b \<or> nb_sync b) \<and> \<not> (nb_temporary b \<or> nb_memory b \<or> nb_mmap b) \<and> \<not> nb_in_file b)"

definition next_call :: "body_heap \<Rightarrow> body_heap" where
  "next_call h = h\<lparr>bh_calls := bh_calls h + 1\<rparr>"

definition set_buf :: "addr \<Rightarrow> ngx_buf \<Rightarrow> body_heap \<Rightarrow> body_heap" where
  "set_buf a b h = h\<lparr>bh_bufs := (bh_bufs h)(a \<mapsto> b)\<rparr>"

definition set_link :: "addr \<Rightarrow> ngx_link \<Rightarrow> body_heap \<Rightarrow> body_heap" where
  "set_link a l h = h\<lparr>bh_links := (bh_links h)(a \<mapsto> l)\<rparr>"

text \<open>The buffer a link points to, with its address.\<close>

definition link_buf :: "body_heap \<Rightarrow> ngx_link \<Rightarrow> (addr \<times> ngx_buf) option" where
  "link_buf h l = do { b \<leftarrow> lk_buf l; buf \<leftarrow> bh_bufs h b; Some (b, buf) }"

text \<open>
  The answers to the calls: what the streams of the library make of some bytes, whether memory for their output
  can be had, and the addresses of new buffers and links and of what a freed link is chained to.
\<close>

record zip_answers =
  za_compress :: "nat \<Rightarrow> CompressionType \<Rightarrow> bytes \<Rightarrow> bool \<Rightarrow> zip_result"
  za_decompress :: "nat \<Rightarrow> bytes \<Rightarrow> zip_result"
  za_palloc :: "nat \<Rightarrow> bool"
  za_buf :: "nat \<Rightarrow> addr option"
  za_link :: "nat \<Rightarrow> addr option"
  za_freed_next :: "nat \<Rightarrow> addr option"
  za_pool :: "nat \<Rightarrow> bool"
  za_cleanup :: "nat \<Rightarrow> bool"

section \<open>One buffer\<close>

text \<open>
  The library gets the length as a number of 32 bits. The parameters of a compression are its format and whether
  this is the last part; a decompression says itself whether it was.
\<close>

definition compression_data_filter ::
    "zip_answers \<Rightarrow> bool \<Rightarrow> (CompressionType \<times> bool) option \<Rightarrow> bool \<Rightarrow> bytes \<Rightarrow> body_heap \<Rightarrow> ngx_int \<times> bytes \<times> bool \<times> body_heap" where
  "compression_data_filter za should_compress params is_last_decompressed input h =
     (if should_compress \<and> params = None then (NGX_ERROR, [], is_last_decompressed, h)
      else
        let data = library_input input; n = bh_calls h; h1 = next_call h;
            r = (case params of
                   Some (t, is_last_part) \<Rightarrow> if should_compress then za_compress za n t data is_last_part else za_decompress za n data
                 | None \<Rightarrow> za_decompress za n data);
            is_last = (if should_compress then is_last_decompressed else zr_last r)
        in if \<not> zr_ok r then (NGX_ERROR, [], is_last, h1)
           else
             (case zr_output r of
                None \<Rightarrow> (NGX_OK, [], is_last, h1)
              | Some out \<Rightarrow>
                  if za_palloc za (bh_calls h1) then (NGX_OK, out, is_last, next_call h1)
                  else (NGX_ERROR, [], is_last, next_call h1)))"

text \<open>
  The result has the output buffer and the source, which gets an empty text when it has none and is the last part.
\<close>

definition compression_buffer_filter ::
    "zip_answers \<Rightarrow> bool \<Rightarrow> buf_pool \<Rightarrow> (CompressionType \<times> bool) option \<Rightarrow> bool \<Rightarrow> ngx_buf \<Rightarrow> body_heap
     \<Rightarrow> ngx_int \<times> ngx_buf \<times> ngx_buf \<times> bool \<times> body_heap" where
  "compression_buffer_filter za should_compress pool params is_last_decompressed src h =
     (if nb_data src = [] \<and> \<not> should_compress then (NGX_ERROR, src, src, is_last_decompressed, h)
      else
        let params1 = map_option (\<lambda>(t, part). (t, part \<or> nb_last_buf src)) params;
            src1 = (case params1 of
                      Some (t, part) \<Rightarrow> if should_compress \<and> part \<and> nb_null src
                                        then src\<lparr>nb_null := False, nb_data := [], nb_capacity := 0\<rparr> else src
                    | None \<Rightarrow> src);
            (res, out, is_last, h1) = compression_data_filter za should_compress params1 is_last_decompressed (nb_data src1) h
        in if res \<noteq> NGX_OK then (NGX_ERROR, src1, src1, is_last, h1)
           else (NGX_OK, src1\<lparr>nb_data := out, nb_capacity := length out, nb_null := False, nb_pool := pool\<rparr>, src1, is_last, h1))"

section \<open>Chains\<close>

text \<open>Copying ends at the end of either chain and at a link without a buffer.\<close>

fun copy_chain_buffers :: "nat \<Rightarrow> addr option \<Rightarrow> addr option \<Rightarrow> body_heap \<Rightarrow> body_heap option" where
  "copy_chain_buffers rounds None src h = Some h"
| "copy_chain_buffers rounds (Some d) None h = Some h"
| "copy_chain_buffers 0 (Some d) (Some s) h = None"
| "copy_chain_buffers (Suc rounds) (Some d) (Some s) h =
     do {
       dl \<leftarrow> bh_links h d;
       sl \<leftarrow> bh_links h s;
       (case (lk_buf sl, lk_buf dl) of
          (Some sb, Some db) \<Rightarrow>
            do { b \<leftarrow> bh_bufs h sb; copy_chain_buffers rounds (lk_next dl) (lk_next sl) (set_buf db b h) }
        | _ \<Rightarrow> Some h)
     }"

text \<open>
  The link of the saved chain gets a copy of the buffer before it is overwritten. When more links follow, the saved
  chain is made as long; at the end it is cut. The result is the next link of the saved chain.
\<close>

definition save_original ::
    "zip_answers \<Rightarrow> addr \<Rightarrow> ngx_buf \<Rightarrow> bool \<Rightarrow> body_heap \<Rightarrow> (addr option \<times> body_heap) option" where
  "save_original za a src more_links h =
     do {
       l \<leftarrow> bh_links h a;
       (b, h1) \<leftarrow> (case lk_buf l of
                      Some b \<Rightarrow> Some (b, h)
                    | None \<Rightarrow> do { b \<leftarrow> za_buf za (bh_calls h); Some (b, next_call h) });
       let h2 = set_buf b src h1;
       let l1 = l\<lparr>lk_buf := Some b\<rparr>;
       if \<not> more_links then Some (Some a, set_link a (l1\<lparr>lk_next := None\<rparr>) h2)
       else
         (case lk_next l of
            Some n \<Rightarrow> Some (Some n, set_link a l1 h2)
          | None \<Rightarrow>
              (case za_link za (bh_calls h2) of
                 None \<Rightarrow> Some (None, set_link a l1 (next_call h2))
               | Some n \<Rightarrow>
                   Some (Some n, set_link n \<lparr>lk_buf = None, lk_next = None\<rparr> (set_link a (l1\<lparr>lk_next := Some n\<rparr>) (next_call h2)))))
     }"

text \<open>
  The loop over the chain, with the current links of the chain and of the saved one; \<open>bound\<close> bounds the copying back. On a failure the current
  link of the saved chain is freed, though it stays in that chain, and the saved buffers are copied back.
\<close>

fun compression_chain_loop ::
    "zip_answers \<Rightarrow> bool \<Rightarrow> buf_pool \<Rightarrow> (CompressionType \<times> bool) option \<Rightarrow> bool \<Rightarrow> nat \<Rightarrow> addr option \<Rightarrow> addr option
     \<Rightarrow> nat \<Rightarrow> addr option \<Rightarrow> addr option \<Rightarrow> bool \<Rightarrow> body_heap \<Rightarrow> (ngx_int \<times> bool \<times> body_heap) option" where
  "compression_chain_loop za should_compress pool params out_allocated bound body original rounds None orig is_last h = Some (NGX_OK, is_last, h)"
| "compression_chain_loop za should_compress pool params out_allocated bound body original 0 (Some a) orig is_last h = None"
| "compression_chain_loop za should_compress pool params out_allocated bound body original (Suc rounds) (Some a) orig is_last h =
     do {
       l \<leftarrow> bh_links h a;
       (b, src) \<leftarrow> link_buf h l;
       let (res, out, src1, is_last1, h1) =
         compression_buffer_filter za should_compress pool
           (map_option (\<lambda>(t, part). (t, part \<and> lk_next l = None)) params) is_last src h;
       let h2 = set_buf b src1 h1;
       if res \<noteq> NGX_OK then
         (case orig of
            None \<Rightarrow> Some (NGX_ERROR, is_last1, h2)
          | Some o1 \<Rightarrow>
              do {
                ol \<leftarrow> bh_links h2 o1;
                let h3 = set_link o1 (ol\<lparr>lk_next := za_freed_next za (bh_calls h2)\<rparr>) (next_call h2);
                h4 \<leftarrow> copy_chain_buffers bound body original h3;
                Some (NGX_ERROR, is_last1, h4)
              })
       else if \<not> out_allocated then None
       else
         do {
           (orig1, h3) \<leftarrow> (case orig of
                             None \<Rightarrow> Some (None, h2)
                           | Some o1 \<Rightarrow> save_original za o1 src1 (lk_next l \<noteq> None) h2);
           let h4 = set_buf b (if nb_data out = [] then out else out\<lparr>nb_memory := True\<rparr>) h3;
           l4 \<leftarrow> bh_links h4 a;
           compression_chain_loop za should_compress pool params out_allocated bound body original rounds (lk_next l4) orig1 is_last1 h4
         }
     }"

text \<open>
  \<open>original\<close> is the saved chain; \<open>None\<close> also stands for a caller that does not want one. The output buffer is used
  for every link and lives only in the function.
\<close>

definition compression_chain_filter ::
    "zip_answers \<Rightarrow> nat \<Rightarrow> bool \<Rightarrow> buf_pool \<Rightarrow> (CompressionType \<times> bool) option \<Rightarrow> bool \<Rightarrow> addr option \<Rightarrow> addr option \<Rightarrow> body_heap
     \<Rightarrow> (ngx_int \<times> bool \<times> body_heap) option" where
  "compression_chain_filter za rounds should_compress pool params is_last body original h =
     compression_chain_loop za should_compress pool params (za_buf za (bh_calls h) \<noteq> None) rounds body original rounds body original is_last
       (next_call h)"

text \<open>The head of the chain, its previous link that stays, and the current one.\<close>

fun remove_empty_chunks ::
    "zip_answers \<Rightarrow> nat \<Rightarrow> addr option \<Rightarrow> addr option \<Rightarrow> addr option \<Rightarrow> body_heap \<Rightarrow> (addr option \<times> body_heap) option" where
  "remove_empty_chunks za rounds head prev None h = Some (head, h)"
| "remove_empty_chunks za 0 head prev (Some a) h = None"
| "remove_empty_chunks za (Suc rounds) head prev (Some a) h =
     do {
       l \<leftarrow> bh_links h a;
       (_, b) \<leftarrow> link_buf h l;
       if ngx_buf_special b \<or> nb_data b \<noteq> [] then remove_empty_chunks za rounds head (Some a) (lk_next l) h
       else
         do {
           h1 \<leftarrow> (case prev of
                     None \<Rightarrow> Some h
                   | Some p \<Rightarrow> do { pl \<leftarrow> bh_links h p; Some (set_link p (pl\<lparr>lk_next := lk_next l\<rparr>) h) });
           let h2 = set_link a (l\<lparr>lk_next := za_freed_next za (bh_calls h1)\<rparr>) (next_call h1);
           remove_empty_chunks za rounds (if prev = None then lk_next l else head) prev (lk_next l) h2
         }
     }"

definition ngx_chain_remove_empty_chunks ::
    "zip_answers \<Rightarrow> nat \<Rightarrow> addr option \<Rightarrow> body_heap \<Rightarrow> (ngx_int \<times> addr option \<times> body_heap) option" where
  "ngx_chain_remove_empty_chunks za rounds body h =
     map_option (\<lambda>(head, h1). (if head = None then NGX_ERROR else NGX_OK, head, h1)) (remove_empty_chunks za rounds body None body h)"

definition compress_chain ::
    "zip_answers \<Rightarrow> nat \<Rightarrow> buf_pool \<Rightarrow> CompressionType \<Rightarrow> bool \<Rightarrow> addr option \<Rightarrow> addr option \<Rightarrow> body_heap
     \<Rightarrow> (ngx_int \<times> addr option \<times> body_heap) option" where
  "compress_chain za rounds pool t is_last_part body original h =
     do {
       (res, _, h1) \<leftarrow> compression_chain_filter za rounds True pool (Some (t, is_last_part)) False body original h;
       if res \<noteq> NGX_OK then Some (res, body, h1) else ngx_chain_remove_empty_chunks za rounds body h1
     }"

definition decompress_chain ::
    "zip_answers \<Rightarrow> nat \<Rightarrow> buf_pool \<Rightarrow> bool \<Rightarrow> addr option \<Rightarrow> addr option \<Rightarrow> body_heap \<Rightarrow> (ngx_int \<times> bool \<times> body_heap) option" where
  "decompress_chain za rounds pool is_last body original h =
     compression_chain_filter za rounds False pool None is_last body original h"

section \<open>Bodies\<close>

definition decompress_body ::
    "zip_answers \<Rightarrow> nat \<Rightarrow> AttachmentDataType \<Rightarrow> buf_pool \<Rightarrow> bool \<Rightarrow> addr option \<Rightarrow> addr option \<Rightarrow> body_heap \<times> ngx_worker
     \<Rightarrow> (ngx_int \<times> bool \<times> body_heap \<times> ngx_worker) option" where
  "decompress_body za rounds chunk_type pool is_last body original s =
     do {
       (res, is_last1, h) \<leftarrow> decompress_chain za rounds pool is_last body original (fst s);
       Some (if res \<noteq> NGX_OK
             then (NGX_ERROR, is_last1, h,
                   count_hook (if chunk_type = REQUEST_BODY then REQ_FAILED_DECOMPRESSION_COUNT else RES_FAILED_DECOMPRESSION_COUNT) 1 (snd s))
             else (NGX_OK, is_last1, h,
                   count_hook (if chunk_type = REQUEST_BODY then REQ_SUCCESSFUL_DECOMPRESSION_COUNT
                               else RES_SUCCESSFUL_DECOMPRESSION_COUNT) 1 (snd s)))
     }"

text \<open>The result has the head of the chain, which moves when the first links are removed.\<close>

definition compress_body ::
    "zip_answers \<Rightarrow> nat \<Rightarrow> CompressionType \<Rightarrow> AttachmentDataType \<Rightarrow> bool \<Rightarrow> buf_pool \<Rightarrow> addr option \<Rightarrow> addr option
     \<Rightarrow> body_heap \<times> ngx_worker \<Rightarrow> (ngx_int \<times> addr option \<times> body_heap \<times> ngx_worker) option" where
  "compress_body za rounds t chunk_type is_last_part pool body original s =
     (if t = NO_COMPRESSION then Some (NGX_ERROR, body, s)
      else
        do {
          (res, head, h) \<leftarrow> compress_chain za rounds pool t is_last_part body original (fst s);
          Some (if res \<noteq> NGX_OK
                then (NGX_ERROR, head, h,
                      count_hook (if chunk_type = REQUEST_BODY then REQ_FAILED_COMPRESSION_COUNT else RES_FAILED_COMPRESSION_COUNT) 1 (snd s))
                else (NGX_OK, head, h,
                      count_hook (if chunk_type = REQUEST_BODY then REQ_SUCCESSFUL_COMPRESSION_COUNT
                                  else RES_SUCCESSFUL_COMPRESSION_COUNT) 1 (snd s)))
        })"

section \<open>Copying the compressed data\<close>

text \<open>
  The bytes of the compressed chain into the buffers of the original one. The inner loop of the code runs once for a
  link with bytes: either they fit, or a new link is put in after the original one, the loop is left, and the bytes
  that did not fit are not copied; the new buffer stays empty.
\<close>

definition copy_into_buffer :: "ngx_buf \<Rightarrow> bytes \<Rightarrow> ngx_buf" where
  "copy_into_buffer b bytes =
     b\<lparr>nb_data := take (nb_capacity b) bytes, nb_memory := True, nb_temporary := True\<rparr>"

definition copy_link ::
    "zip_answers \<Rightarrow> bytes \<Rightarrow> addr \<Rightarrow> body_heap \<Rightarrow> (ngx_int \<times> addr option \<times> body_heap) option" where
  "copy_link za bytes a h =
     do {
       l \<leftarrow> bh_links h a;
       (b, buf) \<leftarrow> link_buf h l;
       let h1 = set_buf b (copy_into_buffer buf bytes) h;
       if length bytes \<le> nb_capacity buf then Some (NGX_OK, lk_next l, h1)
       else
         (case (za_link za (bh_calls h1), za_buf za (bh_calls h1 + 1)) of
            (None, _) \<Rightarrow> Some (NGX_ERROR, Some a, next_call h1)
          | (Some n, None) \<Rightarrow> Some (NGX_ERROR, Some a, next_call (next_call h1))
          | (Some n, Some nb) \<Rightarrow>
              Some (NGX_OK, lk_next l,
                set_link a (l\<lparr>lk_next := Some n\<rparr>)
                 (set_link n \<lparr>lk_buf = Some nb, lk_next = None\<rparr>
                   (set_buf nb (ngx_calloc_buf\<lparr>nb_memory := True, nb_temporary := True\<rparr>) (next_call (next_call h1))))))
     }"

fun copy_compressed_loop ::
    "zip_answers \<Rightarrow> nat \<Rightarrow> addr option \<Rightarrow> addr option \<Rightarrow> body_heap \<Rightarrow> (ngx_int \<times> body_heap) option" where
  "copy_compressed_loop za rounds orig None h = Some (NGX_OK, h)"
| "copy_compressed_loop za 0 orig (Some c) h = None"
| "copy_compressed_loop za (Suc rounds) orig (Some c) h =
     do {
       cl \<leftarrow> bh_links h c;
       (_, cbuf) \<leftarrow> link_buf h cl;
       (res, orig1, h1) \<leftarrow> (case orig of
                              None \<Rightarrow> Some (NGX_OK, None, h)
                            | Some a \<Rightarrow> if nb_data cbuf = [] then Some (NGX_OK, orig, h) else copy_link za (nb_data cbuf) a h);
       if res \<noteq> NGX_OK then Some (NGX_ERROR, h1)
       else do { cl1 \<leftarrow> bh_links h1 c; copy_compressed_loop za rounds orig1 (lk_next cl1) h1 }
     }"

definition copy_compressed_to_original_buffers ::
    "zip_answers \<Rightarrow> nat \<Rightarrow> addr option \<Rightarrow> addr option \<Rightarrow> body_heap \<Rightarrow> (ngx_int \<times> body_heap) option" where
  "copy_compressed_to_original_buffers za rounds original compressed h = copy_compressed_loop za rounds original compressed h"

fun is_body_chain_empty :: "nat \<Rightarrow> addr option \<Rightarrow> body_heap \<Rightarrow> bool option" where
  "is_body_chain_empty rounds None h = Some True"
| "is_body_chain_empty 0 (Some a) h = None"
| "is_body_chain_empty (Suc rounds) (Some a) h =
     do {
       l \<leftarrow> bh_links h a;
       (case lk_buf l of
          None \<Rightarrow> is_body_chain_empty rounds (lk_next l) h
        | Some b \<Rightarrow>
            do { buf \<leftarrow> bh_bufs h b; if \<not> nb_null buf then Some False else is_body_chain_empty rounds (lk_next l) h })
     }"

end
