(* ===== verification/Ngx_Response_Body.thy ===== *)
theory Ngx_Response_Body
  imports Ngx_Compression
begin

text \<open>
  The filter of response bodies (\<open>ngx_cp_hooks.c\<close>, \<open>async/ngx_cp_async_body.c\<close>) for one call with a chain of nginx:
  decompression, inspection, modification and compression, for a request with its session. The pool of a request and
  its log are taken to exist, as they do in nginx.
\<close>

section \<open>State\<close>

text \<open>
  What a session keeps between the chains of one response: whether the data could be processed, whether a chain was
  inspected, the number of chains, the saved compressed chain, and which streams and pools exist.
\<close>

record response_body_state =
  rb_status_ok :: bool
  rb_inspected :: bool
  rb_chunks :: u32
  rb_original :: "addr option"
  rb_compression_stream :: bool
  rb_decompression_stream :: bool
  rb_decompression_pool :: bool
  rb_recompression_pool :: bool

record response_filter =
  rf_ctx :: thread_ctx
  rf_worker :: ngx_worker
  rf_data :: response_body_state
  rf_heap :: body_heap

datatype response_result =
    NextResponseBody "addr option"
  | FilterFinalized ngx_int
  | ResponseCode ngx_int

definition rf_hook :: "response_filter \<Rightarrow> hook_state" where
  "rf_hook s = (rf_ctx s, rf_worker s)"

definition put_hook :: "hook_state \<Rightarrow> response_filter \<Rightarrow> response_filter" where
  "put_hook hs s = s\<lparr>rf_ctx := fst hs, rf_worker := snd hs\<rparr>"

definition on_data :: "(response_body_state \<Rightarrow> response_body_state) \<Rightarrow> response_filter \<Rightarrow> response_filter" where
  "on_data f s = s\<lparr>rf_data := f (rf_data s)\<rparr>"

definition rf_session :: "response_filter \<Rightarrow> sync_session" where
  "rf_session s = tc_session (rf_ctx s)"

definition rf_verdict :: "response_filter \<Rightarrow> ServiceVerdict" where
  "rf_verdict s = ns_verdict (rf_session s)"

definition set_rf_verdict :: "ServiceVerdict \<Rightarrow> response_filter \<Rightarrow> response_filter" where
  "set_rf_verdict v s = s\<lparr>rf_ctx := upd_tc_session (set_sync_verdict v) (rf_ctx s)\<rparr>"

definition count_response :: "AttachmentMetricType \<Rightarrow> u64 \<Rightarrow> response_filter \<Rightarrow> response_filter" where
  "count_response t n s = s\<lparr>rf_worker := count_hook t n (rf_worker s)\<rparr>"

definition is_brotli_inspection_enabled :: "response_filter \<Rightarrow> bool" where
  "is_brotli_inspection_enabled s = (st_brotli (settings (rf_worker s)) \<noteq> 0)"

text \<open>The keep-alive of the connection of the request is switched off.\<close>

definition no_keepalive :: "response_filter \<Rightarrow> response_filter" where
  "no_keepalive s = s\<lparr>rf_ctx := (rf_ctx s)\<lparr>tc_request := (tc_request (rf_ctx s))\<lparr>rq_keepalive := False\<rparr>\<rparr>\<rparr>"

definition fini_cp_session_data :: "response_body_state \<Rightarrow> response_body_state" where
  "fini_cp_session_data d =
     d\<lparr>rb_compression_stream := False, rb_decompression_stream := False, rb_decompression_pool := False, rb_recompression_pool := False\<rparr>"

definition rf_fail_verdict :: "response_filter \<Rightarrow> response_filter" where
  "rf_fail_verdict s = put_hook (set_fail_verdict (rf_hook s)) s"

section \<open>Failures\<close>

definition response_failed :: "addr option \<Rightarrow> response_filter \<Rightarrow> response_result \<times> response_filter" where
  "response_failed body s =
     (if fail_mode_open (wk (rf_worker s)) then NextResponseBody body else FilterFinalized NGX_HTTP_FORBIDDEN, s)"

definition response_inspection_failure :: "hook_answers \<Rightarrow> response_filter \<Rightarrow> response_filter option" where
  "response_inspection_failure os s =
     map_option (\<lambda>hs. put_hook hs s) (sync_failure os 1 (fail_mode_open (wk (rf_worker s))) (rf_hook s))"

text \<open>A failure of the compression ends the processing of the response: the next chains skip it.\<close>

definition response_corrupted ::
    "hook_answers \<Rightarrow> addr option \<Rightarrow> response_filter \<Rightarrow> (response_result \<times> response_filter) option" where
  "response_corrupted os body s =
     do {
       s1 \<leftarrow> response_inspection_failure os s;
       Some (response_failed body (on_data (\<lambda>d. (fini_cp_session_data d)\<lparr>rb_status_ok := False\<rparr>) s1))
     }"

definition response_dropped :: "addr option \<Rightarrow> response_filter \<Rightarrow> response_result \<times> response_filter" where
  "response_dropped body s =
     (let s1 = (if rf_verdict s = TRAFFIC_VERDICT_DROP then no_keepalive s else s) in
      if rf_verdict s1 = TRAFFIC_VERDICT_DROP \<and> rb_inspected (rf_data s1) then (FilterFinalized NGX_HTTP_FORBIDDEN, s1)
      else (NextResponseBody body, s1))"

section \<open>Decompression\<close>

text \<open>Room for the saved chain, made for the first chain of the response.\<close>

definition init_cp_session_original_body :: "zip_answers \<Rightarrow> response_filter \<Rightarrow> ngx_int \<times> response_filter" where
  "init_cp_session_original_body za s =
     (if rb_original (rf_data s) \<noteq> None then (NGX_OK, s)
      else
        let h = rf_heap s; h1 = next_call h in
        (case za_link za (bh_calls h) of
           None \<Rightarrow> (NGX_ERROR, s\<lparr>rf_heap := h1\<rparr>)
         | Some a \<Rightarrow>
             (if za_cleanup za (bh_calls h1) then NGX_OK else NGX_ERROR,
              on_data (\<lambda>d. d\<lparr>rb_original := Some a\<rparr>)
                (s\<lparr>rf_heap := next_call (set_link a \<lparr>lk_buf = None, lk_next = None\<rparr> h1)\<rparr>))))"

definition prepare_decompression :: "zip_answers \<Rightarrow> response_filter \<Rightarrow> bool \<times> response_filter" where
  "prepare_decompression za s =
     (let (res, s1) = (if rb_chunks (rf_data s) = 1 then init_cp_session_original_body za s else (NGX_OK, s)) in
      if res \<noteq> NGX_OK then (False, s1)
      else
        let s2 = on_data (\<lambda>d. d\<lparr>rb_decompression_stream := True\<rparr>) s1 in
        if rb_decompression_pool (rf_data s2) then (True, s2)
        else
          let made = za_pool za (bh_calls (rf_heap s2)) in
          (made, on_data (\<lambda>d. d\<lparr>rb_decompression_pool := made\<rparr>) (s2\<lparr>rf_heap := next_call (rf_heap s2)\<rparr>)))"

definition chain_compressed :: "response_filter \<Rightarrow> addr \<Rightarrow> bool option" where
  "chain_compressed s a =
     do {
       l \<leftarrow> bh_links (rf_heap s) a;
       let t = new_compression_type (rf_session s);
       (case lk_buf l of
          None \<Rightarrow> Some False
        | Some b \<Rightarrow>
            do {
              buf \<leftarrow> bh_bufs (rf_heap s) b;
              Some (\<not> nb_null buf \<and> t \<noteq> NO_COMPRESSION \<and> (t \<noteq> BROTLI \<or> is_brotli_inspection_enabled s))
            })
     }"

text \<open>The saved chain loses its first buffer at the end of a chain that holds nothing but the mark of the end.\<close>

definition reset_original :: "addr \<Rightarrow> response_filter \<Rightarrow> response_filter option" where
  "reset_original a s =
     do {
       l \<leftarrow> bh_links (rf_heap s) a;
       (case (lk_buf l, rb_original (rf_data s)) of
          (Some b, Some ocb) \<Rightarrow>
            do {
              buf \<leftarrow> bh_bufs (rf_heap s) b;
              ol \<leftarrow> bh_links (rf_heap s) ocb;
              Some (if nb_last_buf buf then s\<lparr>rf_heap := set_link ocb (ol\<lparr>lk_buf := None\<rparr>) (rf_heap s)\<rparr> else s)
            }
        | _ \<Rightarrow> Some s)
     }"

text \<open>\<open>Inl\<close> is the answer of the filter, \<open>Inr\<close> goes on and says whether the last part was decompressed.\<close>

definition decompress_response ::
    "hook_answers \<Rightarrow> zip_answers \<Rightarrow> nat \<Rightarrow> addr \<Rightarrow> response_filter
     \<Rightarrow> ((response_result \<times> response_filter) + (bool \<times> response_filter)) option" where
  "decompress_response os za rounds a s =
     do {
       compressed \<leftarrow> chain_compressed s a;
       if \<not> compressed then map_option (\<lambda>s1. Inr (False, s1)) (reset_original a s)
       else
         let (ready, s1) = prepare_decompression za s in
         if \<not> ready then map_option Inl (response_corrupted os (Some a) s1)
         else
           do {
             let ocb = (if rf_verdict s1 = TRAFFIC_VERDICT_ACCEPT \<and> rb_chunks (rf_data s1) > 1 then None else rb_original (rf_data s1));
             (res, is_last, h, k) \<leftarrow> decompress_body za rounds RESPONSE_BODY DECOMPRESSION_POOL False (Some a) ocb (rf_heap s1, rf_worker s1);
             let s2 = s1\<lparr>rf_heap := h, rf_worker := k\<rparr>;
             if res \<noteq> NGX_OK then map_option Inl (response_corrupted os (Some a) s2) else Some (Inr (is_last, s2))
           }
     }"

section \<open>Accepted responses\<close>

text \<open>
  The chains after a verdict to accept are compressed again. The pool of the compression is emptied or made; the
  one of the decompression is destroyed at the end.
\<close>

definition recompress_accepted ::
    "hook_answers \<Rightarrow> zip_answers \<Rightarrow> nat \<Rightarrow> addr \<Rightarrow> bool \<Rightarrow> response_filter \<Rightarrow> (response_result \<times> response_filter) option" where
  "recompress_accepted os za rounds a is_last s =
     (let s1 = on_data (\<lambda>d. d\<lparr>rb_compression_stream := True\<rparr>) s;
          made = rb_recompression_pool (rf_data s1) \<or> za_pool za (bh_calls (rf_heap s1));
          s2 = (if rb_recompression_pool (rf_data s1) then s1
                else on_data (\<lambda>d. d\<lparr>rb_recompression_pool := made\<rparr>) (s1\<lparr>rf_heap := next_call (rf_heap s1)\<rparr>))
      in if \<not> made then response_corrupted os (Some a) s2
         else
           do {
             (res, head, h, k) \<leftarrow> compress_body za rounds (new_compression_type (rf_session s2)) RESPONSE_BODY is_last RECOMPRESSION_POOL
                                    (Some a) None (rf_heap s2, rf_worker s2);
             let s3 = s2\<lparr>rf_heap := h, rf_worker := k\<rparr>;
             if res \<noteq> NGX_OK then response_corrupted os head s3
             else
               do {
                 (res2, h2) \<leftarrow> copy_compressed_to_original_buffers za rounds (Some a) head (rf_heap s3);
                 let s4 = s3\<lparr>rf_heap := h2\<rparr>;
                 if res2 \<noteq> NGX_OK then response_corrupted os head s4
                 else Some (NextResponseBody (Some a), on_data (\<lambda>d. d\<lparr>rb_decompression_pool := False\<rparr>) s4)
               }
           })"

section \<open>Inspection\<close>

text \<open>The buffers of a chain as the senders read them.\<close>

fun chain_view :: "nat \<Rightarrow> body_heap \<Rightarrow> addr option \<Rightarrow> ngx_chain option" where
  "chain_view rounds h None = Some []"
| "chain_view 0 h (Some a) = None"
| "chain_view (Suc rounds) h (Some a) =
     do {
       l \<leftarrow> bh_links h a;
       rest \<leftarrow> chain_view rounds h (lk_next l);
       (case lk_buf l of
          None \<Rightarrow> Some (None # rest)
        | Some b \<Rightarrow> do { buf \<leftarrow> bh_bufs h b; Some (Some (nb_data buf, nb_last_buf buf) # rest) })
     }"

definition inspected_chain :: "addr \<Rightarrow> response_filter \<Rightarrow> addr option option" where
  "inspected_chain a s =
     (case rb_original (rf_data s) of
        None \<Rightarrow> Some (Some a)
      | Some ocb \<Rightarrow> do { l \<leftarrow> bh_links (rf_heap s) ocb; Some (if lk_buf l = None then Some a else Some ocb) })"

definition count_response_timeout :: "response_filter \<Rightarrow> response_filter" where
  "count_response_timeout s =
     (let n = processed_res_body_size (rf_session s) in
      count_response MIN_RES_BODY_SIZE_UPON_TIMEOUT n (count_response MAX_RES_BODY_SIZE_UPON_TIMEOUT n
        (count_response AVERAGE_RES_BODY_SIZE_UPON_TIMEOUT n (count_response RES_BODY_THREAD_TIMEOUT 1 s))))"

definition response_filter_round ::
    "hook_answers \<Rightarrow> nat \<Rightarrow> addr option \<Rightarrow> response_filter \<Rightarrow> ((response_result \<times> response_filter) + response_filter) option" where
  "response_filter_round os rounds body s =
     do {
       let begin_time = sync_now os (rf_worker s);
       (ran, hs) \<leftarrow> ngx_cp_run_in_thread_timeout os (ngx_http_cp_res_body_filter_thread os rounds)
                     (st_res_body_timeout (settings (rf_worker s))) (rf_ctx s, sync_step (rf_worker s));
       let s1 = put_hook hs s;
       if \<not> ran then
         (let s2 = rf_fail_verdict s1;
              s3 = (if tc_filter_mode (rf_ctx s2) then on_data fini_cp_session_data (no_keepalive s2) else s2)
          in Some (Inl (response_failed body (count_response_timeout s3))))
       else
         let s2 = put_hook (add_response_time os begin_time (rf_hook s1)) s1; c = rf_ctx s2 in
         if should_return c then Some (Inl (ResponseCode (if tc_res c = NGX_OK then NGX_DECLINED else tc_res c), s2))
         else if should_return_next_filter c then Some (Inl (NextResponseBody body, s2))
         else
           do {
             (timed_out, hs2) \<leftarrow> was_transaction_timedout os (rf_hook s2);
             let s3 = put_hook hs2 s2;
             Some (if timed_out then Inl (NextResponseBody body, on_data fini_cp_session_data (rf_fail_verdict s3))
                   else Inr (s3\<lparr>rf_ctx := (rf_ctx s3)\<lparr>chain_part_number := chain_part_number (rf_ctx s3) + 1\<rparr>\<rparr>))
           }
     }"

fun response_rounds ::
    "hook_answers \<Rightarrow> nat \<Rightarrow> addr option \<Rightarrow> ngx_chain \<Rightarrow> response_filter
     \<Rightarrow> ((response_result \<times> response_filter) + response_filter) option" where
  "response_rounds os rounds body [] s = Some (Inr s)"
| "response_rounds os rounds body (_ # links) s =
     (if tc_chain (rf_ctx s) = [] then Some (Inr s)
      else
        do {
          r \<leftarrow> response_filter_round os rounds body s;
          (case r of Inl answer \<Rightarrow> Some (Inl answer) | Inr s1 \<Rightarrow> response_rounds os rounds body links s1)
        })"

section \<open>After the inspection\<close>

text \<open>The bytes of the buffers of a chain are replaced; a buffer that changes gets memory of its own.\<close>

fun write_chain :: "addr option \<Rightarrow> bytes list \<Rightarrow> body_heap \<Rightarrow> body_heap option" where
  "write_chain a [] h = Some h"
| "write_chain None (bs # rest) h = None"
| "write_chain (Some a) (bs # rest) h =
     do {
       l \<leftarrow> bh_links h a;
       (b, buf) \<leftarrow> link_buf h l;
       write_chain (lk_next l) rest
         (if nb_data buf = bs then h
          else set_buf b (buf\<lparr>nb_data := bs, nb_capacity := length bs, nb_null := False, nb_pool := REQUEST_POOL\<rparr>) h)
     }"

text \<open>The modifications, when the format is one the module handles; the list stays in the context.\<close>

definition modify_response ::
    "hook_answers \<Rightarrow> nat \<Rightarrow> addr option \<Rightarrow> response_filter \<Rightarrow> (ngx_int \<times> response_filter) option" where
  "modify_response os rounds body s =
     (let mods = tc_modifications (rf_ctx s) in
      if mods = [] \<or> (new_compression_type (rf_session s) = BROTLI \<and> \<not> is_brotli_inspection_enabled s) then Some (NGX_OK, s)
      else
        do {
          view \<leftarrow> chain_view rounds (rf_heap s) body;
          data \<leftarrow> those view;
          let k = rf_worker s;
          (res, out) \<leftarrow> ngx_http_cp_body_modifier (ha_body_alloc os (steps k)) (ha_released os (steps k)) (map fst data) mods;
          h \<leftarrow> write_chain body out (rf_heap s);
          Some (res, s\<lparr>rf_heap := h, rf_worker := sync_step k\<rparr>)
        })"

definition drop_unused_modifications :: "response_filter \<Rightarrow> response_filter" where
  "drop_unused_modifications s =
     (if new_compression_type (rf_session s) = BROTLI \<and> \<not> is_brotli_inspection_enabled s
      then s\<lparr>rf_ctx := (rf_ctx s)\<lparr>tc_modifications := []\<rparr>\<rparr> else s)"

definition stream_response :: "addr option \<Rightarrow> response_filter \<Rightarrow> response_result \<times> response_filter" where
  "stream_response body s =
     (if rf_verdict s = TRAFFIC_VERDICT_DROP then FilterFinalized NGX_HTTP_FORBIDDEN else NextResponseBody body, s)"

text \<open>A chain that was decompressed is compressed again, into the memory of the request; not in the format Brotli.\<close>

definition recompress_inspected ::
    "hook_answers \<Rightarrow> zip_answers \<Rightarrow> nat \<Rightarrow> addr option \<Rightarrow> bool \<Rightarrow> response_filter \<Rightarrow> (response_result \<times> response_filter) option" where
  "recompress_inspected os za rounds body is_last s =
     (let t = new_compression_type (rf_session s) in
      if t = NO_COMPRESSION \<or> t = BROTLI then Some (stream_response body s)
      else
        do {
          let s1 = on_data (\<lambda>d. d\<lparr>rb_compression_stream := True\<rparr>) s;
          empty \<leftarrow> is_body_chain_empty rounds body (rf_heap s1);
          if empty then
            do {
              h \<leftarrow> copy_chain_buffers rounds body (rb_original (rf_data s1)) (rf_heap s1);
              Some (stream_response body (s1\<lparr>rf_heap := h\<rparr>))
            }
          else
            do {
              (res, head, h, k) \<leftarrow> compress_body za rounds t RESPONSE_BODY is_last REQUEST_POOL body None (rf_heap s1, rf_worker s1);
              let s2 = s1\<lparr>rf_heap := h, rf_worker := k\<rparr>;
              if res \<noteq> NGX_OK then response_corrupted os head s2 else Some (stream_response head s2)
            }
        })"

definition finish_response_body ::
    "hook_answers \<Rightarrow> zip_answers \<Rightarrow> nat \<Rightarrow> addr option \<Rightarrow> bool \<Rightarrow> response_filter \<Rightarrow> (response_result \<times> response_filter) option" where
  "finish_response_body os za rounds body is_last s =
     (let c = rf_ctx s in
      if tc_chain c \<noteq> [] then Some (response_failed body (on_data fini_cp_session_data (rf_fail_verdict s)))
      else if tc_res c = NGX_HTTP_FORBIDDEN then Some (FilterFinalized NGX_HTTP_FORBIDDEN, put_hook (sync_success os (rf_hook s)) s)
      else if tc_res c \<noteq> NGX_OK then map_option (response_failed body) (response_inspection_failure os s)
      else
        do {
          (res, s1) \<leftarrow> modify_response os rounds body s;
          if res \<noteq> NGX_OK then map_option (response_failed body) (response_inspection_failure os s1)
          else
            let s2 = drop_unused_modifications s1 in
            if rf_verdict s2 = TRAFFIC_VERDICT_ACCEPT \<and> rb_chunks (rf_data s2) = 1 \<and> tc_modifications (rf_ctx s2) = [] then
              do {
                h \<leftarrow> copy_chain_buffers rounds body (rb_original (rf_data s2)) (rf_heap s2);
                Some (NextResponseBody body,
                  s2\<lparr>rf_heap := h, rf_ctx := upd_tc_session (\<lambda>d. d\<lparr>new_compression_type := NO_COMPRESSION\<rparr>) (rf_ctx s2)\<rparr>)
              }
            else recompress_inspected os za rounds body is_last s2
        })"

definition inspect_response ::
    "hook_answers \<Rightarrow> zip_answers \<Rightarrow> nat \<Rightarrow> bool \<Rightarrow> addr \<Rightarrow> bool \<Rightarrow> response_filter \<Rightarrow> (response_result \<times> response_filter) option" where
  "inspect_response os za rounds filter_mode a is_last s =
     do {
       (timed_out, hs) \<leftarrow> was_transaction_timedout os (rf_hook s);
       let s1 = put_hook hs s;
       if timed_out then
         Some (if rf_verdict s1 = TRAFFIC_VERDICT_DROP then (FilterFinalized NGX_HTTP_FORBIDDEN, s1)
               else (NextResponseBody (Some a), on_data fini_cp_session_data (rf_fail_verdict s1)))
       else
         do {
           (transparent, k) \<leftarrow> hook_transparent os (rf_worker s1);
           let s2 = s1\<lparr>rf_worker := k\<rparr>;
           if transparent then Some (response_failed (Some a) (on_data fini_cp_session_data (rf_fail_verdict s2)))
           else if \<not> filter_mode \<and> \<not> was_request_fully_inspected (rf_session s2) then
             do {
               s3 \<leftarrow> response_inspection_failure os s2;
               Some (NextResponseBody (Some a),
                 on_data fini_cp_session_data (set_rf_verdict TRAFFIC_VERDICT_ACCEPT (count_response REQ_FAILED_TO_REACH_UPSTREAM 1 s3)))
             }
           else
             do {
               start \<leftarrow> inspected_chain a s2;
               view \<leftarrow> chain_view rounds (rf_heap s2) start;
               let c = rf_ctx s2;
               let s3 = s2\<lparr>rf_ctx := (sync_thread_ctx (tc_request c) (tc_response c) (tc_session c) view)\<lparr>tc_filter_mode := filter_mode\<rparr>\<rparr>;
               r \<leftarrow> response_rounds os rounds (Some a) view s3;
               (case r of
                  Inl answer \<Rightarrow> Some answer
                | Inr s4 \<Rightarrow> finish_response_body os za rounds (Some a) is_last s4)
             }
         }
     }"

section \<open>The filters\<close>

text \<open>
  \<open>is_async_enabled\<close> is the answer of \<open>is_ngx_cp_async_mode_enabled_for_request\<close>; without a session the chain is handed on.
\<close>

definition skips_inspection :: "response_filter \<Rightarrow> bool" where
  "skips_inspection s =
     (let v = rf_verdict s; t = new_compression_type (rf_session s) in
      v \<noteq> TRAFFIC_VERDICT_INSPECT \<and> v \<noteq> TRAFFIC_VERDICT_DELAYED
      \<and> (v \<noteq> TRAFFIC_VERDICT_ACCEPT \<or> t = NO_COMPRESSION \<or> (\<not> is_brotli_inspection_enabled s \<and> t = BROTLI) \<or> rb_chunks (rf_data s) = 0))"

definition ngx_http_cp_res_body_filter_core ::
    "hook_answers \<Rightarrow> zip_answers \<Rightarrow> nat \<Rightarrow> bool \<Rightarrow> bool \<Rightarrow> addr option \<Rightarrow> response_filter
     \<Rightarrow> (response_result \<times> response_filter) option" where
  "ngx_http_cp_res_body_filter_core os za rounds is_async_enabled filter_mode body s =
     (let d = rf_session s;
          passes = (if filter_mode then \<not> initial_async_mode d \<or> \<not> x_async_mode (wk (rf_worker s))
                    else initial_async_mode d \<or> is_async_enabled)
      in if passes then Some (NextResponseBody body, s)
         else if \<not> ngx_isIpcReady (wk (rf_worker s)) then
           Some (if fail_mode_open (wk (rf_worker s)) then NextResponseBody body else ResponseCode NGX_ERROR,
                 on_data fini_cp_session_data (rf_fail_verdict s))
         else if filter_mode \<and> \<not> async_processing_needed d then Some (NextResponseBody body, s)
         else if \<not> rb_status_ok (rf_data s) then
           Some (response_dropped body (count_response CORRUPTED_ZIP_SKIPPED_SESSION_COUNT 1 s))
         else if skips_inspection s then Some (response_dropped body s)
         else
           let s1 = on_data (\<lambda>d. d\<lparr>rb_inspected := True, rb_chunks := rb_chunks d + 1\<rparr>) s in
           (case body of
              None \<Rightarrow> Some (NextResponseBody None, s1)
            | Some a \<Rightarrow>
                do {
                  r \<leftarrow> decompress_response os za rounds a s1;
                  (case r of
                     Inl answer \<Rightarrow> Some answer
                   | Inr (is_last, s2) \<Rightarrow>
                       if rf_verdict s2 = TRAFFIC_VERDICT_ACCEPT then recompress_accepted os za rounds a is_last s2
                       else inspect_response os za rounds filter_mode a is_last s2)
                }))"

definition ngx_http_cp_res_body_filter_sync ::
    "hook_answers \<Rightarrow> zip_answers \<Rightarrow> nat \<Rightarrow> bool \<Rightarrow> addr option \<Rightarrow> response_filter \<Rightarrow> (response_result \<times> response_filter) option" where
  "ngx_http_cp_res_body_filter_sync os za rounds is_async_enabled body s =
     ngx_http_cp_res_body_filter_core os za rounds is_async_enabled False body s"

definition ngx_http_cp_res_body_filter_async ::
    "hook_answers \<Rightarrow> zip_answers \<Rightarrow> nat \<Rightarrow> bool \<Rightarrow> addr option \<Rightarrow> response_filter \<Rightarrow> (response_result \<times> response_filter) option" where
  "ngx_http_cp_res_body_filter_async os za rounds is_async_enabled body s =
     (if rf_verdict s \<noteq> TRAFFIC_VERDICT_INSPECT then Some (response_dropped body s)
      else ngx_http_cp_res_body_filter_core os za rounds is_async_enabled True body s)"

text \<open>
  The dispatch to the two modes. A change of the mode in the last configuration is followed here, after a chain of a
  response.
\<close>

definition follow_mode_change :: "hook_answers \<Rightarrow> ngx_worker \<Rightarrow> ngx_worker" where
  "follow_mode_change os k =
     (let reset = (\<lambda>k. k\<lparr>settings := (settings k)\<lparr>st_toggled_on := False, st_toggled_off := False\<rparr>\<rparr>);
          k1 = (if st_toggled_off (settings k) then reset (on_world disable_ipc_verdict_event_handler k) else k)
      in if st_toggled_on (settings k1) then reset (on_world (enable_ipc_verdict_event_handler (sa_os (ha_io os))) k1) else k1)"

definition ngx_http_cp_res_body_filter ::
    "hook_answers \<Rightarrow> zip_answers \<Rightarrow> nat \<Rightarrow> bool \<Rightarrow> addr option \<Rightarrow> response_filter \<Rightarrow> (response_result \<times> response_filter) option" where
  "ngx_http_cp_res_body_filter os za rounds is_async_enabled body s =
     map_option (\<lambda>(res, s1). (res, s1\<lparr>rf_worker := follow_mode_change os (rf_worker s1)\<rparr>))
       (if is_async_enabled then ngx_http_cp_res_body_filter_async os za rounds is_async_enabled body s
        else ngx_http_cp_res_body_filter_sync os za rounds is_async_enabled body s)"

text \<open>In asynchronous mode the server header is taken away before the common part, which does it again.\<close>

definition ngx_http_cp_res_header_filter ::
    "hook_answers \<Rightarrow> nat \<Rightarrow> bool \<Rightarrow> ngx_request \<Rightarrow> ngx_response \<Rightarrow> sync_session \<Rightarrow> ngx_worker
     \<Rightarrow> (hook_result \<times> hook_state) option" where
  "ngx_http_cp_res_header_filter os rounds is_async_enabled request response d k =
     (if is_async_enabled then
        ngx_http_cp_res_header_filter_core os rounds is_async_enabled True request
          (if st_remove_server (settings k) \<noteq> 0 then remove_server_header (xa_lists (sa_os (ha_io os)) (steps k)) response else response)
          d (sync_step k)
      else ngx_http_cp_res_header_filter_core os rounds is_async_enabled False request response d k)"

end
