(* ===== verification/Ngx_Response_Lemmas.thy ===== *)
theory Ngx_Response_Lemmas
  imports Ngx_Response_Body Ngx_Hook_Lemmas
begin

text \<open>
  When the filter of response bodies hands a chain on, and what decompression and compression make of a chain.
\<close>

section \<open>Forwarded responses\<close>

definition response_allowed :: "response_result \<times> response_filter \<Rightarrow> bool" where
  "response_allowed a \<longleftrightarrow>
     (case fst a of
        NextResponseBody _ \<Rightarrow> fail_mode_open (wk (rf_worker (snd a))) \<or> limit_reached (rf_hook (snd a))
          \<or> should_return_next_filter (rf_ctx (snd a))
          \<or> tc_chain (rf_ctx (snd a)) = [] \<and> tc_res (rf_ctx (snd a)) = NGX_OK \<and> rf_verdict (snd a) \<noteq> TRAFFIC_VERDICT_DROP
      | _ \<Rightarrow> True)"

lemma rf_hook_frame [simp]:
  "rf_hook (on_data f s) = rf_hook s" "rf_ctx (on_data f s) = rf_ctx s" "rf_worker (on_data f s) = rf_worker s"
  "rf_hook (put_hook hs s) = hs" "rf_ctx (put_hook hs s) = fst hs" "rf_worker (put_hook hs s) = snd hs"
  "rf_data (put_hook hs s) = rf_data s" "rf_heap (put_hook hs s) = rf_heap s" "rf_heap (on_data f s) = rf_heap s"
  "rf_data (on_data f s) = f (rf_data s)"
  by (simp_all add: rf_hook_def on_data_def put_hook_def)

lemma rf_session_frame [simp]:
  "rf_session (on_data f s) = rf_session s" "rf_verdict (on_data f s) = rf_verdict s"
  by (simp_all add: rf_session_def rf_verdict_def)

lemma limit_rf_fail_verdict [simp]: "limit_reached (rf_hook (rf_fail_verdict s)) = limit_reached (rf_hook s)"
  by (simp add: rf_fail_verdict_def)

lemma response_failed_allowed [simp]: "response_allowed (response_failed body s)"
  by (simp add: response_failed_def response_allowed_def)

lemma response_other_allowed [simp]: "response_allowed (FilterFinalized n, s)" "response_allowed (ResponseCode n, s)"
  by (simp_all add: response_allowed_def)

lemma response_next_allowed [simp]:
  "response_allowed (NextResponseBody body, s) \<longleftrightarrow> fail_mode_open (wk (rf_worker s)) \<or> limit_reached (rf_hook s)
     \<or> should_return_next_filter (rf_ctx s) \<or> tc_chain (rf_ctx s) = [] \<and> tc_res (rf_ctx s) = NGX_OK \<and> rf_verdict s \<noteq> TRAFFIC_VERDICT_DROP"
  by (simp add: response_allowed_def)

lemma corrupted_allowed: "response_corrupted os body s = Some a \<Longrightarrow> response_allowed a"
  by (auto simp: response_corrupted_def Option.bind_eq_Some_conv)

lemma stream_allowed: "tc_chain (rf_ctx s) = [] \<Longrightarrow> tc_res (rf_ctx s) = NGX_OK \<Longrightarrow> response_allowed (stream_response body s)"
  by (simp add: stream_response_def)

lemma response_round_allowed:
  assumes "response_filter_round os rounds body s = Some (Inl a)"
  shows "response_allowed a"
  using assms
  by (auto simp: response_filter_round_def Let_def Option.bind_eq_Some_conv dest: timedout_limit split: if_splits)

lemma response_rounds_allowed: "response_rounds os rounds body links s = Some (Inl a) \<Longrightarrow> response_allowed a"
proof (induction links arbitrary: s)
  case (Cons l links)
  then obtain r where r: "response_filter_round os rounds body s = Some r"
    by (auto simp: Option.bind_eq_Some_conv split: if_splits)
  with Cons show ?case
    by (cases r) (auto dest: response_round_allowed split: if_splits)
qed simp

text \<open>What the modifications and the compression leave of the context.\<close>

lemma modify_response_ctx: "modify_response os rounds body s = Some (res, s') \<Longrightarrow> rf_ctx s' = rf_ctx s \<and> rf_data s' = rf_data s"
  by (auto simp: modify_response_def Let_def Option.bind_eq_Some_conv split: if_splits)

lemma drop_unused_ctx [simp]:
  "tc_chain (rf_ctx (drop_unused_modifications s)) = tc_chain (rf_ctx s)"
  "tc_res (rf_ctx (drop_unused_modifications s)) = tc_res (rf_ctx s)"
  "rf_session (drop_unused_modifications s) = rf_session s"
  by (simp_all add: drop_unused_modifications_def rf_session_def)

lemma recompress_inspected_allowed:
  assumes "recompress_inspected os za rounds body is_last s = Some a" "tc_chain (rf_ctx s) = []" "tc_res (rf_ctx s) = NGX_OK"
  shows "response_allowed a"
  using assms
  by (auto simp: recompress_inspected_def Let_def Option.bind_eq_Some_conv intro!: stream_allowed dest: corrupted_allowed
      split: if_splits)

lemma finish_response_body_allowed:
  assumes "finish_response_body os za rounds body is_last s = Some a"
  shows "response_allowed a"
  using assms
  by (auto simp: finish_response_body_def Let_def Option.bind_eq_Some_conv rf_verdict_def rf_session_def upd_tc_session_def
      dest!: modify_response_ctx recompress_inspected_allowed split: if_splits)

lemma inspect_response_allowed:
  assumes "inspect_response os za rounds False a is_last s = Some r" "was_request_fully_inspected (rf_session s)"
  shows "response_allowed r"
proof -
  have rounds: "response_allowed r"
    if "response_rounds os rounds (Some a) view s = Some x"
      and "(case x of Inl answer \<Rightarrow> Some answer | Inr s4 \<Rightarrow> finish_response_body os za rounds (Some a) is_last s4) = Some r" for view s x
    using that by (cases x) (auto dest: response_rounds_allowed finish_response_body_allowed)
  from assms(1) obtain timed_out hs where w: "was_transaction_timedout os (rf_hook s) = Some (timed_out, hs)"
    by (auto simp: inspect_response_def Option.bind_eq_Some_conv)
  show ?thesis
  proof (cases timed_out)
    case True
    with assms w timedout_limit [of os "rf_hook s" hs] show ?thesis
      by (auto simp: inspect_response_def Let_def split: if_splits)
  next
    case False
    with w have "was_request_fully_inspected (rf_session (put_hook hs s))"
      using assms(2) by (auto simp: was_transaction_timedout_def rf_hook_def rf_session_def Let_def split: if_splits)
    moreover from assms(1) False w obtain transparent k where h: "hook_transparent os (snd hs) = Some (transparent, k)"
      by (auto simp: inspect_response_def Option.bind_eq_Some_conv)
    ultimately show ?thesis
      using assms(1) False w
      by (cases transparent) (auto simp: inspect_response_def Let_def Option.bind_eq_Some_conv rf_session_def intro: rounds)
  qed
qed

text \<open>The decompression keeps the context.\<close>

lemma prepare_decompression_ctx: "prepare_decompression za s = (ready, s') \<Longrightarrow> rf_ctx s' = rf_ctx s"
  by (auto simp: prepare_decompression_def init_cp_session_original_body_def Let_def split: if_splits option.splits prod.splits)

lemma reset_original_ctx:
  assumes "reset_original a s = Some s'"
  shows "rf_ctx s' = rf_ctx s"
proof -
  from assms obtain l where "bh_links (rf_heap s) a = Some l" by (auto simp: reset_original_def Option.bind_eq_Some_conv)
  with assms show ?thesis
    by (cases "lk_buf l"; cases "rb_original (rf_data s)") (auto simp: reset_original_def Option.bind_eq_Some_conv split: if_splits)
qed

lemma decompress_response_ctx: "decompress_response os za rounds a s = Some (Inr (is_last, s')) \<Longrightarrow> rf_ctx s' = rf_ctx s"
  by (auto simp: decompress_response_def Let_def Option.bind_eq_Some_conv dest: prepare_decompression_ctx reset_original_ctx
      split: if_splits prod.splits)

lemma decompress_response_allowed: "decompress_response os za rounds a s = Some (Inl r) \<Longrightarrow> response_allowed r"
  by (auto simp: decompress_response_def Let_def Option.bind_eq_Some_conv dest: corrupted_allowed
      split: if_splits option.splits prod.splits)

lemma response_filter_allowed:
  assumes "ngx_http_cp_res_body_filter_sync os za rounds False (Some a) s = Some r"
    and "\<not> initial_async_mode (rf_session s)" "rf_verdict s = TRAFFIC_VERDICT_INSPECT" "rb_status_ok (rf_data s)"
    and "was_request_fully_inspected (rf_session s)"
  shows "response_allowed r"
proof (cases "ngx_isIpcReady (wk (rf_worker s))")
  case False
  with assms show ?thesis
    by (auto simp: ngx_http_cp_res_body_filter_sync_def ngx_http_cp_res_body_filter_core_def rf_fail_verdict_def set_fail_verdict_def
        rf_hook_def)
next
  case True
  let ?s = "on_data (\<lambda>d. d\<lparr>rb_inspected := True, rb_chunks := rb_chunks d + 1\<rparr>) s"
  from True assms obtain x where x: "decompress_response os za rounds a ?s = Some x"
    "(case x of Inl answer \<Rightarrow> Some answer
      | Inr (is_last, s2) \<Rightarrow>
          if rf_verdict s2 = TRAFFIC_VERDICT_ACCEPT then recompress_accepted os za rounds a is_last s2
          else inspect_response os za rounds False a is_last s2) = Some r"
    unfolding ngx_http_cp_res_body_filter_sync_def ngx_http_cp_res_body_filter_core_def skips_inspection_def Let_def
    by (simp add: Option.bind_eq_Some_conv) blast
  show ?thesis
  proof (cases x)
    case (Inl y)
    with x show ?thesis by (auto dest: decompress_response_allowed)
  next
    case (Inr y)
    obtain is_last s2 where y: "y = (is_last, s2)" by fastforce
    with x(1) Inr have "rf_ctx s2 = rf_ctx s" using decompress_response_ctx by fastforce
    with x(2) Inr y assms(3,5) show ?thesis
      using inspect_response_allowed [of os za rounds a is_last s2 r] by (simp add: rf_verdict_def rf_session_def)
  qed
qed

end
