(* ===== verification/Ngx_Compression_Lemmas.thy ===== *)
theory Ngx_Compression_Lemmas
  imports Ngx_Response_Body
begin

text \<open>
  What decompression and compression make of the chain of a response: links and flags stay, and the bytes of each
  buffer are replaced by what the library answers.
\<close>

section \<open>Chains in the store\<close>

text \<open>The links of a chain, each with its address and that of its buffer, and the buffers.\<close>

type_synonym chain_item = "addr \<times> addr \<times> ngx_buf"

fun chain_at :: "body_heap \<Rightarrow> addr option \<Rightarrow> chain_item list \<Rightarrow> bool" where
  "chain_at h a [] \<longleftrightarrow> a = None"
| "chain_at h a ((la, ba, b) # items) \<longleftrightarrow>
     a = Some la \<and> (\<exists>l. bh_links h la = Some l \<and> lk_buf l = Some ba \<and> bh_bufs h ba = Some b \<and> chain_at h (lk_next l) items)"

definition item_bufs :: "chain_item list \<Rightarrow> addr list" where
  "item_bufs items = map (\<lambda>(la, ba, b). ba) items"

lemma item_bufs_simps [simp]: "item_bufs [] = []" "item_bufs ((la, ba, b) # items) = ba # item_bufs items"
  by (simp_all add: item_bufs_def)

lemma heap_frame [simp]:
  "bh_links (next_call h) = bh_links h" "bh_bufs (next_call h) = bh_bufs h" "bh_links (set_buf a b h) = bh_links h"
  "bh_bufs (set_buf a b h) = (bh_bufs h)(a \<mapsto> b)" "bh_calls (set_buf a b h) = bh_calls h"
  by (simp_all add: next_call_def set_buf_def)

text \<open>A chain does not see changes of other buffers.\<close>

lemma chain_at_cong:
  assumes "chain_at h a items" "bh_links h' = bh_links h" "\<forall>x \<in> set (item_bufs items). bh_bufs h' x = bh_bufs h x"
  shows "chain_at h' a items"
  using assms
proof (induction items arbitrary: a)
  case (Cons i items)
  obtain la ba b where "i = (la, ba, b)" by (cases i) auto
  with Cons show ?case by auto
qed simp

section \<open>One buffer\<close>

definition recoded_buf :: "buf_pool \<Rightarrow> bytes \<Rightarrow> ngx_buf \<Rightarrow> ngx_buf" where
  "recoded_buf pool out b =
     b\<lparr>nb_data := out, nb_capacity := length out, nb_null := False, nb_pool := pool, nb_memory := nb_memory b \<or> out \<noteq> []\<rparr>"

lemma recoded_buf_sel [simp]:
  "nb_data (recoded_buf pool out b) = out" "nb_capacity (recoded_buf pool out b) = length out" "\<not> nb_null (recoded_buf pool out b)"
  "nb_pool (recoded_buf pool out b) = pool" "nb_last_buf (recoded_buf pool out b) = nb_last_buf b"
  "nb_flush (recoded_buf pool out b) = nb_flush b" "nb_sync (recoded_buf pool out b) = nb_sync b"
  by (simp_all add: recoded_buf_def)

text \<open>The library and the allocations answer every call with success and some output.\<close>

definition library_works :: "zip_answers \<Rightarrow> bool" where
  "library_works za \<longleftrightarrow>
     (\<forall>n. za_palloc za n \<and> za_buf za n \<noteq> None \<and> za_pool za n)
     \<and> (\<forall>n d. zr_ok (za_decompress za n d) \<and> zr_output (za_decompress za n d) \<noteq> None)
     \<and> (\<forall>n t d part. zr_ok (za_compress za n t d part) \<and> zr_output (za_compress za n t d part) \<noteq> None
          \<and> zr_output (za_compress za n t d part) \<noteq> Some [])"

text \<open>
  What became of a buffer: the answer of the library to some call with its bytes. \<open>is_last\<close> is what the
  decompression said of the end of its stream; a compression is told to end it for the part that is the last one and
  for a buffer that is marked as the last one.
\<close>

definition decompressed :: "zip_answers \<Rightarrow> buf_pool \<Rightarrow> bool \<Rightarrow> ngx_buf \<Rightarrow> ngx_buf \<Rightarrow> bool" where
  "decompressed za pool is_last b b' \<longleftrightarrow>
     (\<exists>n out. b' = recoded_buf pool out b \<and> zr_output (za_decompress za n (library_input (nb_data b))) = Some out
        \<and> zr_last (za_decompress za n (library_input (nb_data b))) = is_last)"

definition compressed :: "zip_answers \<Rightarrow> buf_pool \<Rightarrow> CompressionType \<Rightarrow> bool \<Rightarrow> ngx_buf \<Rightarrow> ngx_buf \<Rightarrow> bool" where
  "compressed za pool t part b b' \<longleftrightarrow>
     (\<exists>n out. b' = recoded_buf pool out b \<and> out \<noteq> []
        \<and> zr_output (za_compress za n t (library_input (nb_data b)) (part \<or> nb_last_buf b)) = Some out)"

lemma recoded_full:
  "decompressed za pool is_last b b' \<Longrightarrow> \<not> nb_null b'"
  "compressed za pool t part b b' \<Longrightarrow> nb_data b' \<noteq> [] \<and> nb_capacity b' = length (nb_data b')"
  by (auto simp: decompressed_def compressed_def)

text \<open>Two chains with the same links and buffers, whose buffers are related; the relation is told which link is the last.\<close>

fun items_related :: "(bool \<Rightarrow> ngx_buf \<Rightarrow> ngx_buf \<Rightarrow> bool) \<Rightarrow> chain_item list \<Rightarrow> chain_item list \<Rightarrow> bool" where
  "items_related R [] items' \<longleftrightarrow> items' = []"
| "items_related R ((la, ba, b) # items) items' \<longleftrightarrow>
     (\<exists>b' rest. items' = (la, ba, b') # rest \<and> R (items = []) b b' \<and> items_related R items rest)"

lemma items_related_bufs: "items_related R items items' \<Longrightarrow> item_bufs items' = item_bufs items"
  by (induction R items items' rule: items_related.induct) auto

lemma items_related_length: "items_related R items items' \<Longrightarrow> length items' = length items"
  by (induction R items items' rule: items_related.induct) auto

lemma items_related_all:
  "items_related R items items' \<Longrightarrow> (\<And>at_end b b'. R at_end b b' \<Longrightarrow> P b') \<Longrightarrow> list_all (\<lambda>(la, ba, b). P b) items'"
  by (induction R items items' rule: items_related.induct) auto

lemma items_related_mono:
  "items_related R items items' \<Longrightarrow> (\<And>at_end b b'. R at_end b b' \<Longrightarrow> S at_end b b') \<Longrightarrow> items_related S items items'"
  by (induction R items items' rule: items_related.induct) fastforce+

lemma items_related_trans:
  "items_related R items items' \<Longrightarrow> items_related S items' items''
   \<Longrightarrow> items_related (\<lambda>at_end b b''. \<exists>b'. R at_end b b' \<and> S at_end b' b'') items items''"
proof (induction R items items' arbitrary: items'' rule: items_related.induct)
  case (2 R la ba b items items')
  from "2.prems"(1) obtain b' rest where rest: "items' = (la, ba, b') # rest" "R (items = []) b b'" "items_related R items rest"
    by auto
  moreover have "(rest = []) = (items = [])" using items_related_length [OF rest(3)] by auto
  ultimately show ?case using "2.prems"(2) "2.IH" [OF rest(3)] by auto
qed simp

lemma decompressed_buffer:
  assumes "library_works za" "nb_data b \<noteq> []"
  shows "\<exists>out is_last' h'. compression_buffer_filter za False pool None is_last b h
      = (NGX_OK, b\<lparr>nb_data := out, nb_capacity := length out, nb_null := False, nb_pool := pool\<rparr>, b, is_last', h')
    \<and> decompressed za pool is_last' b (recoded_buf pool out b) \<and> bh_links h' = bh_links h \<and> bh_bufs h' = bh_bufs h"
proof -
  let ?n = "bh_calls h" and ?d = "library_input (nb_data b)"
  from assms(1) obtain out where out: "zr_output (za_decompress za ?n ?d) = Some out"
    unfolding library_works_def by (metis not_None_eq)
  with assms show ?thesis
    by (intro exI [of _ out] exI [of _ "zr_last (za_decompress za ?n ?d)"])
      (auto simp: compression_buffer_filter_def compression_data_filter_def library_works_def Let_def decompressed_def)
qed

lemma compressed_buffer:
  assumes "library_works za" "\<not> nb_null b"
  shows "\<exists>out h'. compression_buffer_filter za True pool (Some (t, part)) is_last b h
      = (NGX_OK, b\<lparr>nb_data := out, nb_capacity := length out, nb_null := False, nb_pool := pool\<rparr>, b, is_last, h')
    \<and> compressed za pool t part b (recoded_buf pool out b) \<and> bh_links h' = bh_links h \<and> bh_bufs h' = bh_bufs h"
proof -
  let ?n = "bh_calls h" and ?d = "library_input (nb_data b)" and ?part = "part \<or> nb_last_buf b"
  from assms(1) obtain out where out: "zr_output (za_compress za ?n t ?d ?part) = Some out" "out \<noteq> []"
    unfolding library_works_def by (metis not_None_eq)
  with assms show ?thesis
    by (intro exI [of _ out])
      (auto simp: compression_buffer_filter_def compression_data_filter_def library_works_def Let_def compressed_def)
qed

section \<open>The loop over a chain\<close>

text \<open>The contract of recoding one buffer, for decompression and compression alike.\<close>

locale buffer_recoding =
  fixes za :: zip_answers and should_compress :: bool and pool :: buf_pool and params :: "(CompressionType \<times> bool) option"
    and accepts :: "ngx_buf \<Rightarrow> bool"
    and result :: "bool \<Rightarrow> bool \<Rightarrow> ngx_buf \<Rightarrow> ngx_buf \<Rightarrow> bool"
  assumes recodes: "accepts b \<Longrightarrow> \<exists>out is_last' h'.
      compression_buffer_filter za should_compress pool (map_option (\<lambda>(t, part). (t, part \<and> at_end)) params) is_last b h
      = (NGX_OK, b\<lparr>nb_data := out, nb_capacity := length out, nb_null := False, nb_pool := pool\<rparr>, b, is_last', h')
    \<and> result at_end is_last' b (recoded_buf pool out b) \<and> bh_links h' = bh_links h \<and> bh_bufs h' = bh_bufs h"
begin

text \<open>
  Without a saved chain, every buffer is recoded in its place, and no other buffer and no link changes. What the call
  for the last link said of the end of the stream is the answer of the loop.
\<close>

definition loop_result :: "bool \<Rightarrow> bool \<Rightarrow> ngx_buf \<Rightarrow> ngx_buf \<Rightarrow> bool" where
  "loop_result is_last at_end b b' \<longleftrightarrow> (\<exists>il. result at_end il b b' \<and> (at_end \<longrightarrow> il = is_last))"

lemma loop_recodes:
  assumes "chain_at h a items" "distinct (item_bufs items)" "list_all (\<lambda>(la, ba, b). accepts b) items" "length items \<le> rounds"
  shows "\<exists>is_last' h' items'.
      compression_chain_loop za should_compress pool params True bound body original rounds a None is_last h = Some (NGX_OK, is_last', h')
    \<and> chain_at h' a items' \<and> items_related (loop_result is_last') items items' \<and> bh_links h' = bh_links h
    \<and> (\<forall>x. x \<notin> set (item_bufs items) \<longrightarrow> bh_bufs h' x = bh_bufs h x)"
  using assms
proof (induction items arbitrary: h a rounds is_last)
  case (Cons i items)
  obtain la ba b where i: "i = (la, ba, b)" by (cases i) auto
  from Cons.prems(4) obtain n where n: "rounds = Suc n" "length items \<le> n" by (cases rounds) auto
  from Cons.prems(1) i obtain l where l: "a = Some la" "bh_links h la = Some l" "lk_buf l = Some ba" "bh_bufs h ba = Some b"
    "chain_at h (lk_next l) items" by auto
  from Cons.prems(3) i have "accepts b" by simp
  from recodes [OF this, of "lk_next l = None" is_last h] obtain out is_last' h1 where
    r: "compression_buffer_filter za should_compress pool (map_option (\<lambda>(t, part). (t, part \<and> lk_next l = None)) params) is_last b h
        = (NGX_OK, b\<lparr>nb_data := out, nb_capacity := length out, nb_null := False, nb_pool := pool\<rparr>, b, is_last', h1)"
      "result (lk_next l = None) is_last' b (recoded_buf pool out b)" "bh_links h1 = bh_links h" "bh_bufs h1 = bh_bufs h" by blast
  let ?h = "set_buf ba (recoded_buf pool out b) (set_buf ba b h1)"
  have "chain_at ?h (lk_next l) items"
    using l(5) r Cons.prems(2) i by (intro chain_at_cong [OF l(5)]) auto
  with Cons.IH [of ?h "lk_next l" n is_last'] Cons.prems(2,3) i n obtain is_last2 h' items' where
    IH: "compression_chain_loop za should_compress pool params True bound body original n (lk_next l) None is_last' ?h
        = Some (NGX_OK, is_last2, h')" "chain_at h' (lk_next l) items'" "items_related (loop_result is_last2) items items'" "bh_links h' = bh_links ?h"
      "\<forall>x. x \<notin> set (item_bufs items) \<longrightarrow> bh_bufs h' x = bh_bufs ?h x" by auto
  have "compression_chain_loop za should_compress pool params True bound body original rounds a None is_last h = Some (NGX_OK, is_last2, h')"
    using l r IH(1) n by (cases "out = []") (simp_all add: link_buf_def recoded_buf_def)
  moreover have "bh_bufs h' ba = Some (recoded_buf pool out b)" using IH(5) Cons.prems(2) i by auto
  moreover have last: "items = [] \<longleftrightarrow> lk_next l = None" using l(5) by (cases items) auto
  moreover have "is_last2 = is_last'" if "items = []" using IH(1) last that by simp
  then have "loop_result is_last2 (items = []) b (recoded_buf pool out b)" using r(2) last by (auto simp: loop_result_def)
  ultimately show ?case
    using l r IH Cons.prems(2) i
    by (intro exI [of _ is_last2] exI [of _ h'] exI [of _ "(la, ba, recoded_buf pool out b) # items'"]) auto
qed simp

end

interpretation decompressing: buffer_recoding za False pool None "\<lambda>b. library_works za \<and> nb_data b \<noteq> []" "\<lambda>_. decompressed za pool"
  by unfold_locales (use decompressed_buffer in fastforce)

interpretation compressing: buffer_recoding za True pool "Some (t, part)" "\<lambda>b. library_works za \<and> \<not> nb_null b"
    "\<lambda>at_end _. compressed za pool t (part \<and> at_end)"
  by unfold_locales (use compressed_buffer in fastforce)

text \<open>A chain after the decompression, whose last call answered \<open>is_last\<close>, and one after the compression.\<close>

definition decompressed_link :: "zip_answers \<Rightarrow> buf_pool \<Rightarrow> bool \<Rightarrow> bool \<Rightarrow> ngx_buf \<Rightarrow> ngx_buf \<Rightarrow> bool" where
  "decompressed_link za pool is_last at_end b b' \<longleftrightarrow> (\<exists>il. decompressed za pool il b b' \<and> (at_end \<longrightarrow> il = is_last))"

lemma loop_results:
  "buffer_recoding.loop_result (\<lambda>_. decompressed za pool) = decompressed_link za pool"
  "buffer_recoding.loop_result (\<lambda>at_end _. compressed za pool t (part \<and> at_end)) is_last = (\<lambda>at_end. compressed za pool t (part \<and> at_end))"
  by (auto simp: fun_eq_iff decompressing.loop_result_def compressing.loop_result_def decompressed_link_def)

section \<open>Bodies\<close>

lemma nothing_to_remove:
  "chain_at h a items \<Longrightarrow> list_all (\<lambda>(la, ba, b). nb_data b \<noteq> []) items \<Longrightarrow> length items \<le> rounds
   \<Longrightarrow> remove_empty_chunks za rounds head prev a h = Some (head, h)"
proof (induction items arbitrary: a prev rounds)
  case (Cons i items)
  obtain la ba b where i: "i = (la, ba, b)" by (cases i) auto
  from Cons.prems(3) obtain n where "rounds = Suc n" "length items \<le> n" by (cases rounds) auto
  with Cons i show ?case by (auto simp: link_buf_def)
qed simp

text \<open>Copying a chain of full buffers over itself only sets two flags of its buffers.\<close>

definition flagged_buf :: "ngx_buf \<Rightarrow> ngx_buf" where
  "flagged_buf b = b\<lparr>nb_memory := True, nb_temporary := True\<rparr>"

lemma flagged_buf_sel [simp]:
  "nb_data (flagged_buf b) = nb_data b" "nb_last_buf (flagged_buf b) = nb_last_buf b" "nb_pool (flagged_buf b) = nb_pool b"
  by (simp_all add: flagged_buf_def)

lemma copy_over_itself:
  "chain_at h a items \<Longrightarrow> distinct (item_bufs items)
   \<Longrightarrow> list_all (\<lambda>(la, ba, b). nb_data b \<noteq> [] \<and> nb_capacity b = length (nb_data b)) items \<Longrightarrow> length items \<le> rounds
   \<Longrightarrow> \<exists>h' items'. copy_compressed_loop za rounds a a h = Some (NGX_OK, h') \<and> chain_at h' a items'
     \<and> items_related (\<lambda>_ b b'. b' = flagged_buf b) items items' \<and> bh_links h' = bh_links h
     \<and> (\<forall>x. x \<notin> set (item_bufs items) \<longrightarrow> bh_bufs h' x = bh_bufs h x)"
proof (induction items arbitrary: h a rounds)
  case (Cons i items)
  obtain la ba b where i: "i = (la, ba, b)" by (cases i) auto
  from Cons.prems(4) obtain n where n: "rounds = Suc n" "length items \<le> n" by (cases rounds) auto
  from Cons.prems(1) i obtain l where l: "a = Some la" "bh_links h la = Some l" "lk_buf l = Some ba" "bh_bufs h ba = Some b"
    "chain_at h (lk_next l) items" by auto
  from Cons.prems(3) i have full: "nb_data b \<noteq> []" "nb_capacity b = length (nb_data b)" by auto
  have copied: "copy_into_buffer b (nb_data b) = flagged_buf b" using full by (simp add: copy_into_buffer_def flagged_buf_def)
  let ?h = "set_buf ba (flagged_buf b) h"
  have "chain_at ?h (lk_next l) items"
    using l(5) Cons.prems(2) i by (intro chain_at_cong [OF l(5)]) auto
  with Cons.IH [of ?h "lk_next l" n] Cons.prems(2,3) i n obtain h' items' where
    IH: "copy_compressed_loop za n (lk_next l) (lk_next l) ?h = Some (NGX_OK, h')" "chain_at h' (lk_next l) items'"
      "items_related (\<lambda>_ b b'. b' = flagged_buf b) items items'" "bh_links h' = bh_links ?h"
      "\<forall>x. x \<notin> set (item_bufs items) \<longrightarrow> bh_bufs h' x = bh_bufs ?h x" by auto
  have "copy_compressed_loop za rounds a a h = Some (NGX_OK, h')"
    using l full IH(1) n by (simp add: link_buf_def copy_link_def copied)
  moreover have "bh_bufs h' ba = Some (flagged_buf b)" using IH(5) Cons.prems(2) i by auto
  ultimately show ?case
    using l IH Cons.prems(2) i by (intro exI [of _ h'] exI [of _ "(la, ba, flagged_buf b) # items'"]) auto
qed simp

lemma decompress_body_recodes:
  assumes "library_works za" "chain_at h a items" "distinct (item_bufs items)" "length items \<le> rounds"
    and "list_all (\<lambda>(la, ba, b). nb_data b \<noteq> []) items"
  shows "\<exists>is_last' h' items' k'. decompress_body za rounds chunk_type pool is_last a None (h, k) = Some (NGX_OK, is_last', h', k')
    \<and> chain_at h' a items' \<and> items_related (decompressed_link za pool is_last') items items' \<and> bh_links h' = bh_links h"
proof -
  have "chain_at (next_call h) a items" using assms(2) by (rule chain_at_cong) simp_all
  moreover have "list_all (\<lambda>(la, ba, b). library_works za \<and> nb_data b \<noteq> []) items"
    using assms(1,5) by (auto simp: list_all_iff)
  moreover have "za_buf za (bh_calls h) \<noteq> None" using assms(1) unfolding library_works_def by blast
  ultimately show ?thesis
    using decompressing.loop_recodes [of "next_call h" a items za rounds pool rounds a None is_last] assms(3,4)
    by (auto simp: decompress_body_def decompress_chain_def compression_chain_filter_def loop_results)
qed

lemma compress_body_recodes:
  assumes "library_works za" "chain_at h (Some a) items" "distinct (item_bufs items)" "length items \<le> rounds" "t \<noteq> NO_COMPRESSION"
    and "list_all (\<lambda>(la, ba, b). \<not> nb_null b) items"
  shows "\<exists>h' items' k'. compress_body za rounds t chunk_type part pool (Some a) None (h, k) = Some (NGX_OK, Some a, h', k')
    \<and> chain_at h' (Some a) items' \<and> items_related (\<lambda>at_end. compressed za pool t (part \<and> at_end)) items items'
    \<and> bh_links h' = bh_links h"
proof -
  have "chain_at (next_call h) (Some a) items" using assms(2) by (rule chain_at_cong) simp_all
  moreover have "list_all (\<lambda>(la, ba, b). library_works za \<and> \<not> nb_null b) items"
    using assms(1,6) by (auto simp: list_all_iff)
  moreover have "za_buf za (bh_calls h) \<noteq> None" using assms(1) unfolding library_works_def by blast
  ultimately obtain is_last' h' items' where
    loop: "compression_chain_filter za rounds True pool (Some (t, part)) False (Some a) None h = Some (NGX_OK, is_last', h')"
      "chain_at h' (Some a) items'" "items_related (\<lambda>at_end. compressed za pool t (part \<and> at_end)) items items'"
      "bh_links h' = bh_links h"
    using compressing.loop_recodes [of "next_call h" "Some a" items za rounds pool t part rounds "Some a" None False] assms(3,4)
    by (auto simp: compression_chain_filter_def loop_results)
  have "list_all (\<lambda>(la, ba, b). nb_data b \<noteq> []) items'"
    by (rule items_related_all [OF loop(3)]) (simp add: recoded_full)
  moreover have "length items' = length items" by (rule items_related_length [OF loop(3)])
  ultimately show ?thesis using loop nothing_to_remove [OF loop(2), of rounds za "Some a" None] assms(4,5)
    by (auto simp: compress_body_def compress_chain_def ngx_chain_remove_empty_chunks_def)
qed

section \<open>The steps of the filter\<close>

text \<open>No chain is saved for an accepted response after its first chain, or when the first chain had no bytes.\<close>

lemma decompress_unsaved:
  assumes "library_works za" "chain_at (rf_heap s) (Some a) items" "distinct (item_bufs items)" "length items \<le> rounds"
    and "list_all (\<lambda>(la, ba, b). nb_data b \<noteq> [] \<and> \<not> nb_null b) items"
    and "new_compression_type (rf_session s) \<in> {GZIP, ZLIB}" "1 < rb_chunks (rf_data s)"
    and "rf_verdict s = TRAFFIC_VERDICT_ACCEPT \<or> rb_original (rf_data s) = None"
  shows "\<exists>is_last s' items'. decompress_response os za rounds a s = Some (Inr (is_last, s')) \<and> rf_ctx s' = rf_ctx s
    \<and> rf_worker s' = count_hook RES_SUCCESSFUL_DECOMPRESSION_COUNT 1 (rf_worker s)
    \<and> chain_at (rf_heap s') (Some a) items' \<and> items_related (decompressed_link za DECOMPRESSION_POOL is_last) items items'"
proof -
  obtain la ba b rest where items: "items = (la, ba, b) # rest" using assms(2) by (cases items) auto
  with assms(2,5,6) have compressed: "chain_compressed s a = Some True" by (auto simp: chain_compressed_def)
  let ?s = "on_data (\<lambda>d. d\<lparr>rb_decompression_stream := True\<rparr>) s"
  define s1 where "s1 = (if rb_decompression_pool (rf_data ?s) then ?s
    else on_data (\<lambda>d. d\<lparr>rb_decompression_pool := True\<rparr>) (?s\<lparr>rf_heap := next_call (rf_heap ?s)\<rparr>))"
  have "za_pool za n" for n using assms(1) unfolding library_works_def by blast
  with assms(7) have ready: "prepare_decompression za s = (True, s1)" "rf_ctx s1 = rf_ctx s"
    "rf_heap s1 = rf_heap s \<or> rf_heap s1 = next_call (rf_heap s)" "rb_chunks (rf_data s1) = rb_chunks (rf_data s)"
    "rb_original (rf_data s1) = rb_original (rf_data s)" "rf_worker s1 = rf_worker s"
    by (auto simp: prepare_decompression_def s1_def Let_def on_data_def)
  have "chain_at (rf_heap s1) (Some a) items"
    using ready(3) by (intro chain_at_cong [OF assms(2)]) auto
  moreover have "list_all (\<lambda>(la, ba, b). nb_data b \<noteq> []) items" using assms(5) by (auto simp: list_all_iff)
  ultimately obtain is_last' h' items' k' where
    d: "decompress_body za rounds RESPONSE_BODY DECOMPRESSION_POOL False (Some a) None (rf_heap s1, rf_worker s1)
        = Some (NGX_OK, is_last', h', k')" "chain_at h' (Some a) items'" "items_related (decompressed_link za DECOMPRESSION_POOL is_last') items items'"
    using decompress_body_recodes [OF assms(1) _ assms(3,4), of "rf_heap s1" "Some a" RESPONSE_BODY DECOMPRESSION_POOL False "rf_worker s1"]
    by blast
  then have "k' = count_hook RES_SUCCESSFUL_DECOMPRESSION_COUNT 1 (rf_worker s)"
    using ready(6) by (auto simp: decompress_body_def Option.bind_eq_Some_conv split: if_splits)
  moreover have "rf_verdict s1 = rf_verdict s" using ready(2) by (simp add: rf_verdict_def rf_session_def)
  ultimately show ?thesis
    using compressed ready assms(7,8) d
    by (intro exI [of _ is_last'] exI [of _ "s1\<lparr>rf_heap := h', rf_worker := k'\<rparr>"] exI [of _ items']) (auto simp: decompress_response_def)
qed

lemma recompress_recodes:
  assumes "library_works za" "chain_at (rf_heap s) (Some a) items" "distinct (item_bufs items)" "length items \<le> rounds"
    and "list_all (\<lambda>(la, ba, b). \<not> nb_null b) items" "new_compression_type (rf_session s) \<noteq> NO_COMPRESSION"
  shows "\<exists>s' items'. recompress_accepted os za rounds a is_last s = Some (NextResponseBody (Some a), s')
    \<and> chain_at (rf_heap s') (Some a) items'
    \<and> items_related (\<lambda>at_end b b'. \<exists>b1. compressed za RECOMPRESSION_POOL (new_compression_type (rf_session s)) (is_last \<and> at_end) b b1
        \<and> b' = flagged_buf b1) items items'
    \<and> \<not> rb_decompression_pool (rf_data s')"
proof -
  let ?t = "new_compression_type (rf_session s)"
  let ?s1 = "on_data (\<lambda>d. d\<lparr>rb_compression_stream := True\<rparr>) s"
  define s2 where "s2 = (if rb_recompression_pool (rf_data ?s1) then ?s1
    else on_data (\<lambda>d. d\<lparr>rb_recompression_pool := True\<rparr>) (?s1\<lparr>rf_heap := next_call (rf_heap ?s1)\<rparr>))"
  have made: "za_pool za n" for n using assms(1) unfolding library_works_def by blast
  have s2: "rf_session s2 = rf_session s" "rf_heap s2 = rf_heap s \<or> rf_heap s2 = next_call (rf_heap s)"
    by (auto simp: s2_def on_data_def rf_session_def)
  have "chain_at (rf_heap s2) (Some a) items" using s2(2) by (intro chain_at_cong [OF assms(2)]) auto
  from compress_body_recodes [OF assms(1) this assms(3,4,6,5), of RESPONSE_BODY is_last RECOMPRESSION_POOL "rf_worker s2"]
  obtain h' items1 k' where
    c: "compress_body za rounds ?t RESPONSE_BODY is_last RECOMPRESSION_POOL (Some a) None (rf_heap s2, rf_worker s2)
        = Some (NGX_OK, Some a, h', k')" "chain_at h' (Some a) items1"
      "items_related (\<lambda>at_end. compressed za RECOMPRESSION_POOL ?t (is_last \<and> at_end)) items items1" by blast
  have full: "list_all (\<lambda>(la, ba, b). nb_data b \<noteq> [] \<and> nb_capacity b = length (nb_data b)) items1"
    by (rule items_related_all [OF c(3)]) (auto dest: recoded_full)
  with copy_over_itself [OF c(2), of rounds za] assms(3,4) items_related_bufs [OF c(3)] items_related_length [OF c(3)] obtain h2 items2 where
    copied: "copy_compressed_loop za rounds (Some a) (Some a) h' = Some (NGX_OK, h2)" "chain_at h2 (Some a) items2"
      "items_related (\<lambda>_ b b'. b' = flagged_buf b) items1 items2" by auto
  have "recompress_accepted os za rounds a is_last s = Some (NextResponseBody (Some a),
      on_data (\<lambda>d. d\<lparr>rb_decompression_pool := False\<rparr>) (s2\<lparr>rf_heap := h2, rf_worker := k'\<rparr>))"
    using c(1) copied(1) made s2(1)
    by (simp add: recompress_accepted_def Let_def s2_def [symmetric] copy_compressed_to_original_buffers_def) (simp add: on_data_def)
  moreover have "items_related (\<lambda>at_end b b'. \<exists>b1. compressed za RECOMPRESSION_POOL ?t (is_last \<and> at_end) b b1 \<and> b' = flagged_buf b1) items items2"
    using items_related_trans [OF c(3) copied(3)] by (rule items_related_mono) auto
  ultimately show ?thesis using copied(2) by (auto simp: on_data_def)
qed

end
