(* ===== verification/Ngx_Response_Properties.thy ===== *)
theory Ngx_Response_Properties
  imports Ngx_Hook_Properties Ngx_Response_Lemmas Ngx_Compression_Lemmas
begin

text \<open>
  Properties of the filter of response bodies, with the concrete chains of their witnesses.
\<close>

section \<open>Samples\<close>

definition sample_zip :: zip_answers where
  "sample_zip =
     \<lparr>za_compress = (\<lambda>_ _ d _. \<lparr>zr_ok = True, zr_output = Some (0 # d), zr_last = False\<rparr>),
      za_decompress = (\<lambda>_ d. \<lparr>zr_ok = True, zr_output = Some (tl d), zr_last = False\<rparr>), za_palloc = (\<lambda>_. True),
      za_buf = (\<lambda>n. Some (100 + n)), za_link = (\<lambda>n. Some (100 + n)), za_freed_next = (\<lambda>_. None), za_pool = (\<lambda>_. True),
      za_cleanup = (\<lambda>_. True)\<rparr>"

lemma sample_library_works: "library_works sample_zip"
  by (simp add: library_works_def sample_zip_def)

definition sample_buf :: "bytes \<Rightarrow> bool \<Rightarrow> ngx_buf" where
  "sample_buf data is_last =
     \<lparr>nb_data = data, nb_capacity = length data, nb_null = False, nb_pool = REQUEST_POOL, nb_last_buf = is_last, nb_flush = False,
      nb_sync = False, nb_memory = True, nb_temporary = False, nb_mmap = False, nb_in_file = False\<rparr>"

text \<open>Two links, at the addresses 1 and 2, with buffers at 11 and 12.\<close>

definition sample_heap :: body_heap where
  "sample_heap =
     \<lparr>bh_links = [1 \<mapsto> \<lparr>lk_buf = Some 11, lk_next = Some 2\<rparr>, 2 \<mapsto> \<lparr>lk_buf = Some 12, lk_next = None\<rparr>],
      bh_bufs = [11 \<mapsto> sample_buf [0, 7] False, 12 \<mapsto> sample_buf [0, 8] True], bh_calls = 0\<rparr>"

definition sample_items :: "chain_item list" where
  "sample_items = [(1, 11, sample_buf [0, 7] False), (2, 12, sample_buf [0, 8] True)]"

lemma sample_chain: "chain_at sample_heap (Some 1) sample_items"
  by (simp add: sample_items_def sample_heap_def)

definition sample_filter :: "ServiceVerdict \<Rightarrow> ngx_worker \<Rightarrow> response_filter" where
  "sample_filter v k =
     \<lparr>rf_ctx = sync_thread_ctx sample_request sample_response
        (sample_sync_session\<lparr>ns_verdict := v, initial_async_mode := False, was_request_fully_inspected := True,
           new_compression_type := GZIP\<rparr>) [Some ([0], False)],
      rf_worker = k,
      rf_data = \<lparr>rb_status_ok = True, rb_inspected = True, rb_chunks = 1, rb_original = None, rb_compression_stream = False,
        rb_decompression_stream = False, rb_decompression_pool = False, rb_recompression_pool = False\<rparr>,
      rf_heap = sample_heap\<rparr>"

section \<open>Inspected responses\<close>

text \<open>
  C24. A chain of a response under inspection that was not inspected with success, or whose verdict is drop, is not
  sent on: in the synchronous mode, for a response that came with an inspected status and an undecided verdict and whose
  request was inspected completely, the filter of response bodies does not hand on the chain when on return the
  failure mode is closed, the time limits are not reached, no routine asked for the next filter, and the
  inspection routine did not run, did not answer with success or left the verdict drop. The service, the
  compression library, the channel and the threads may do anything. Without the conditions on entry the claim is
  false: the filter passes on the chains of a session whose request was not inspected completely.
\<close>

theorem uninspected_response_kept:
  assumes "ngx_http_cp_res_body_filter_sync os za rounds False (Some a) s = Some (result, s')"
    and "\<not> initial_async_mode (rf_session s)" "rf_verdict s = TRAFFIC_VERDICT_INSPECT" "rb_status_ok (rf_data s)"
    and "was_request_fully_inspected (rf_session s)"
    and "\<not> fail_mode_open (wk (rf_worker s'))" "\<not> limit_reached (rf_hook s')" "\<not> should_return_next_filter (rf_ctx s')"
    and "tc_chain (rf_ctx s') \<noteq> [] \<or> tc_res (rf_ctx s') \<noteq> NGX_OK \<or> rf_verdict s' = TRAFFIC_VERDICT_DROP"
  shows "result \<noteq> NextResponseBody body"
  using response_filter_allowed [OF assms(1-5)] assms(6-9) by (auto simp: response_allowed_def)

theorem uninspected_response_kept_witness:
  "fst (the (ngx_http_cp_res_body_filter_sync sample_hook_answers sample_zip 9 False (Some 1)
      (sample_filter TRAFFIC_VERDICT_INSPECT sample_unconnected))) \<noteq> NextResponseBody (Some 1)"
proof -
  let ?s = "sample_filter TRAFFIC_VERDICT_INSPECT sample_unconnected"
  have "ngx_http_cp_res_body_filter_sync sample_hook_answers sample_zip 9 False (Some 1) ?s
      = Some (ResponseCode NGX_ERROR, on_data fini_cp_session_data (rf_fail_verdict ?s))"
    by (simp add: ngx_http_cp_res_body_filter_sync_def ngx_http_cp_res_body_filter_core_def Let_def sample_filter_def rf_session_def
        sync_thread_ctx_def sample_unconnected_def ngx_isIpcReady_def sample_worker_def sample_connected_def upd_session_def upd_ctx_def
        sample_world_def)
  from uninspected_response_kept [OF this] this show ?thesis
    by (simp add: sample_filter_def rf_session_def rf_verdict_def rf_hook_def rf_fail_verdict_def set_fail_verdict_def put_hook_def
        upd_tc_session_def set_sync_verdict_def fail_mode_verdict_service_def limit_reached_def
        sample_sync_session_def sample_session_def sample_unconnected_def sample_worker_def sample_connected_def upd_session_def
        upd_ctx_def sample_world_def initial_settings_def sync_thread_ctx_def ngx_http_cp_session_data.defs)
qed

section \<open>Accepted responses\<close>

text \<open>
  C25. A chain that arrives after the verdict to accept is decompressed and compressed again in its place: the same links and
  buffers, in the same order and with the same end marks, hold what the library compresses from what it decompressed
  from their bytes; the library is told to end the stream exactly for a link marked as the last buffer and for the last link of
  the chain when the decompression of this link met the end of its stream. The chain is handed on, and the
  pool of the decompression is gone. This holds in the synchronous mode with the channel ready, for a
  response with an inspected status, compressed as GZIP or ZLIB, after its first chain, when every link of the chain
  has bytes and the library works: each allocation and each call succeeds with output, and no compression is empty. A
  link without bytes, such as a bare end mark, is outside: its decompression fails.
\<close>

theorem accepted_response_recompressed:
  assumes "library_works za" "chain_at (rf_heap s) (Some a) items" "distinct (item_bufs items)" "length items \<le> rounds"
    and "list_all (\<lambda>(la, ba, b). nb_data b \<noteq> [] \<and> \<not> nb_null b) items"
    and "\<not> initial_async_mode (rf_session s)" "ngx_isIpcReady (wk (rf_worker s))" "rb_status_ok (rf_data s)"
    and "rf_verdict s = TRAFFIC_VERDICT_ACCEPT" "new_compression_type (rf_session s) \<in> {GZIP, ZLIB}"
    and "0 < rb_chunks (rf_data s)" "rb_chunks (rf_data s) < 2 ^ 32 - 1"
  shows "\<exists>s' items'. ngx_http_cp_res_body_filter_sync os za rounds False (Some a) s = Some (NextResponseBody (Some a), s')
    \<and> chain_at (rf_heap s') (Some a) items'
    \<and> items_related (\<lambda>at_end b b'. nb_last_buf b' = nb_last_buf b
         \<and> (\<exists>n m out. zr_output (za_decompress za n (library_input (nb_data b))) = Some out
              \<and> zr_output (za_compress za m (new_compression_type (rf_session s)) (library_input out)
                    (at_end \<and> zr_last (za_decompress za n (library_input (nb_data b))) \<or> nb_last_buf b)) = Some (nb_data b'))) items items'
    \<and> \<not> rb_decompression_pool (rf_data s')"
proof -
  let ?t = "new_compression_type (rf_session s)"
  let ?s = "on_data (\<lambda>d. d\<lparr>rb_inspected := True, rb_chunks := rb_chunks d + 1\<rparr>) s"
  have chunks: "1 < rb_chunks (rf_data ?s)" using assms(11,12) by (simp add: word_less_nat_alt unat_word_ariths)
  obtain is_last s1 items1 where
    d: "decompress_response os za rounds a ?s = Some (Inr (is_last, s1))" "rf_ctx s1 = rf_ctx s" "chain_at (rf_heap s1) (Some a) items1"
      "items_related (decompressed_link za DECOMPRESSION_POOL is_last) items items1"
    using decompress_unsaved [of za ?s a items rounds os] assms(1-5,9,10) chunks by auto
  have kept: "rf_session s1 = rf_session s" using d(2) by (simp add: rf_session_def)
  have "list_all (\<lambda>(la, ba, b). \<not> nb_null b) items1"
    by (rule items_related_all [OF d(4)]) (auto simp: decompressed_link_def dest: recoded_full)
  then obtain s2 items2 where
    c: "recompress_accepted os za rounds a is_last s1 = Some (NextResponseBody (Some a), s2)" "chain_at (rf_heap s2) (Some a) items2"
      "items_related (\<lambda>at_end b b'. \<exists>b1. compressed za RECOMPRESSION_POOL ?t (is_last \<and> at_end) b b1 \<and> b' = flagged_buf b1) items1 items2"
      "\<not> rb_decompression_pool (rf_data s2)"
    using recompress_recodes [OF assms(1) d(3), of rounds os is_last] assms(3,4,10) items_related_bufs [OF d(4)]
      items_related_length [OF d(4)] by (auto simp: kept)
  have "ngx_http_cp_res_body_filter_sync os za rounds False (Some a) s = Some (NextResponseBody (Some a), s2)"
    using assms(6-11) d(1) c(1) kept
    by (auto simp: ngx_http_cp_res_body_filter_sync_def ngx_http_cp_res_body_filter_core_def skips_inspection_def Let_def rf_verdict_def)
  moreover have "items_related (\<lambda>at_end b b'. nb_last_buf b' = nb_last_buf b
       \<and> (\<exists>n m out. zr_output (za_decompress za n (library_input (nb_data b))) = Some out
            \<and> zr_output (za_compress za m ?t (library_input out)
                  (at_end \<and> zr_last (za_decompress za n (library_input (nb_data b))) \<or> nb_last_buf b)) = Some (nb_data b'))) items items2"
    using items_related_trans [OF d(4) c(3)]
    by (rule items_related_mono) (fastforce simp: decompressed_link_def decompressed_def compressed_def)
  ultimately show ?thesis using c(2,4) by blast
qed

theorem accepted_response_recompressed_witness:
  "\<exists>s' items'. ngx_http_cp_res_body_filter_sync sample_hook_answers sample_zip 9 False (Some 1) (sample_filter TRAFFIC_VERDICT_ACCEPT sample_worker)
      = Some (NextResponseBody (Some 1), s')
    \<and> chain_at (rf_heap s') (Some 1) items' \<and> map (\<lambda>(la, ba, b). (la, ba, nb_last_buf b, nb_data b)) items'
      = [(1, 11, False, [0, 7]), (2, 12, True, [0, 8])]"
proof -
  let ?s = "sample_filter TRAFFIC_VERDICT_ACCEPT sample_worker"
  have "rf_heap ?s = sample_heap" "rb_status_ok (rf_data ?s)" "rf_verdict ?s = TRAFFIC_VERDICT_ACCEPT"
    "new_compression_type (rf_session ?s) = GZIP" "\<not> initial_async_mode (rf_session ?s)" "rb_chunks (rf_data ?s) = 1"
    "ngx_isIpcReady (wk (rf_worker ?s))"
    by (simp_all add: sample_filter_def rf_session_def rf_verdict_def sync_thread_ctx_def sample_worker_def sample_connected_def
        upd_session_def upd_ctx_def sample_world_def ngx_isIpcReady_def)
  with accepted_response_recompressed [OF sample_library_works, of ?s 1 sample_items 9 sample_hook_answers] sample_chain
  show ?thesis
    by (fastforce simp: sample_items_def sample_buf_def sample_zip_def library_input_def)
qed

section \<open>Time limits\<close>

text \<open>
  A chain that was decompressed when the time limit is found to be over is handed on decompressed, in buffers
  whose memory was given back with the pool of the decompression.
\<close>

theorem timed_out_response_dangling:
  assumes "library_works za" "chain_at (rf_heap s) (Some a) items" "distinct (item_bufs items)" "length items \<le> rounds"
    and "list_all (\<lambda>(la, ba, b). nb_data b \<noteq> [] \<and> \<not> nb_null b) items"
    and "\<not> initial_async_mode (rf_session s)" "ngx_isIpcReady (wk (rf_worker s))" "rb_status_ok (rf_data s)"
    and "rf_verdict s = TRAFFIC_VERDICT_INSPECT" "new_compression_type (rf_session s) \<in> {GZIP, ZLIB}"
    and "0 < rb_chunks (rf_data s)" "rb_chunks (rf_data s) < 2 ^ 32 - 1" "rb_original (rf_data s) = None"
    and "was_transaction_timedout os (rf_ctx s, count_hook RES_SUCCESSFUL_DECOMPRESSION_COUNT 1 (rf_worker s)) = Some (True, hs)"
    and "tc_verdict (fst hs) \<noteq> TRAFFIC_VERDICT_DROP"
  shows "\<exists>s' items'. ngx_http_cp_res_body_filter_sync os za rounds False (Some a) s = Some (NextResponseBody (Some a), s')
    \<and> chain_at (rf_heap s') (Some a) items'
    \<and> items_related (\<lambda>_ b b'. nb_pool b' = DECOMPRESSION_POOL
         \<and> (\<exists>n. zr_output (za_decompress za n (library_input (nb_data b))) = Some (nb_data b'))) items items'
    \<and> \<not> rb_decompression_pool (rf_data s')"
proof -
  let ?s = "on_data (\<lambda>d. d\<lparr>rb_inspected := True, rb_chunks := rb_chunks d + 1\<rparr>) s"
  have chunks: "1 < rb_chunks (rf_data ?s)" using assms(11,12) by (simp add: word_less_nat_alt unat_word_ariths)
  obtain is_last s1 items1 where
    d: "decompress_response os za rounds a ?s = Some (Inr (is_last, s1))" "rf_ctx s1 = rf_ctx s"
      "rf_worker s1 = count_hook RES_SUCCESSFUL_DECOMPRESSION_COUNT 1 (rf_worker s)" "chain_at (rf_heap s1) (Some a) items1"
      "items_related (decompressed_link za DECOMPRESSION_POOL is_last) items items1"
    using decompress_unsaved [of za ?s a items rounds os] assms(1-5,10,13) chunks by auto
  let ?s2 = "on_data fini_cp_session_data (rf_fail_verdict (put_hook hs s1))"
  have "rf_verdict s1 = TRAFFIC_VERDICT_INSPECT" using assms(9) d(2) by (simp add: rf_verdict_def rf_session_def)
  moreover have "inspect_response os za rounds False a is_last s1 = Some (NextResponseBody (Some a), ?s2)"
    using assms(14,15) d(2,3) by (simp add: inspect_response_def rf_hook_def rf_verdict_def rf_session_def tc_verdict_def)
  ultimately have "ngx_http_cp_res_body_filter_sync os za rounds False (Some a) s = Some (NextResponseBody (Some a), ?s2)"
    using assms(6-9) d(1)
    by (simp add: ngx_http_cp_res_body_filter_sync_def ngx_http_cp_res_body_filter_core_def skips_inspection_def)
  moreover have "chain_at (rf_heap ?s2) (Some a) items1" using d(4) by (simp add: rf_fail_verdict_def)
  moreover have "items_related (\<lambda>_ b b'. nb_pool b' = DECOMPRESSION_POOL
       \<and> (\<exists>n. zr_output (za_decompress za n (library_input (nb_data b))) = Some (nb_data b'))) items items1"
    using d(5) by (rule items_related_mono) (auto simp: decompressed_link_def decompressed_def)
  moreover have "\<not> rb_decompression_pool (rf_data ?s2)" by (simp add: fini_cp_session_data_def)
  ultimately show ?thesis by blast
qed

end
