(* ===== verification/Spec2Isabelle.thy ===== *)
theory Spec2Isabelle
  imports Ipc_Properties Nano_Properties Comm_Properties Io_Properties Ngx_Properties Ngx_Async_Properties Ngx_Sync_Properties Ngx_Hook_Properties
    Ngx_Response_Properties
begin

text \<open>
  A verification of the open-appsec attachment: the code that sits in a web server (nginx, Kong,
  Envoy, Traefik), hands the parts of each HTTP transaction to the inspection service over
  shared memory and applies the verdict that comes back.

  \<^bold>\<open>The program.\<close> Two processes share a pair of one-way queues, one per direction. A queue is a
  POSIX shared-memory object: a packed header, one management segment (an array of 16-bit marks,
  one per data segment) and the data segments. A message takes a run of consecutive segments; the
  first mark holds its length, the others are skip marks. Positions wrap to segment 0, and a
  writer that does not fit before the end skips to the start. \<open>core/shmem_ipc\<close> (built and
  installed for other programs) and \<open>core/shmem_ipc_2\<close> (used by the nano attachment library and the nginx module)
  are two versions of this queue and of the channel built from two of them. The library \<open>attachments/nano_attachment\<close> sends
  transactions through a channel, runs each step under a time-out, decodes the replies of the
  service into verdicts and keeps metrics, a configuration and, in asynchronous mode, a table of
  verdicts and a queue of sessions that failed. The nginx module has its own code for the same exchange. It passes
  requests without inspection for a while after too many failures, limits the sessions per minute, applies the
  modifications the service asks for to headers and bodies and, in asynchronous mode, holds each request in a
  context that moves through stages as replies, timers and parts of the body arrive.

  \<^bold>\<open>Theories, in the order they build on each other.\<close>
  \<^item> \<open>Attachment_Prelude\<close>: C integers as words, the bytes of a mapping as a function of offsets,
    little-endian accesses, \<open>memcpy\<close>, C strings and \<open>atoi\<close>; the fact collections.
  \<^item> \<open>Ring_Core\<close>: the queue structure, the loops over the marks, the free-space check and what push,
    peek, pop and reset do once the positions are checked (both \<open>shared_ring_queue.c\<close> files).
  \<^item> \<open>Ring_Fifo\<close>: the representation invariant \<open>ring_rep\<close> (linear or wrapped run of stored messages,
    all other marks empty or skip) and that the core operations keep it and act on the list of
    messages as append, head and tail.
  \<^item> \<open>Message_Queue\<close>: the contract of a queue as the locale \<open>message_queue\<close>, with the client lemmas
    (draining yields what was pushed). \<open>Param_Table\<close>: the contract of a bounded table.
  \<^item> \<open>Segment_Size\<close>: the static variables of \<open>shmem_ipc/shared_ring_queue.c\<close>: negotiation of the segment
    size from environment, marker file and metadata file, and the table of queue parameters,
    which interprets \<open>param_table\<close>.
  \<^item> \<open>Shared_Ring_Queue\<close>: creation, attachment, destruction, reset, push, peek, pop and corruption
    test of the first library over that state; interprets \<open>message_queue\<close>.
  \<^item> \<open>Shmem_Ipc\<close>: the channel of the first library (\<open>shmem_ipc/shmem_ipc.c\<close>).
  \<^item> \<open>Shared_Ring_Queue_2\<close>, \<open>Shmem_Ipc_2\<close>: the same for the second library (names with suffix \<open>_2\<close>), where
    a record per channel replaces the table; interprets \<open>message_queue\<close> too.
  \<^item> \<open>Nano_Common\<close>: enumerations and structures of \<open>nano_attachment_common.h\<close> and \<open>nano_initializer.h\<close>.
  \<^item> \<open>Nano_Metric\<close> (\<open>nano_attachment_metric.c\<close>), \<open>Nano_Bucket\<close> (\<open>nano_attachment_bucket.c\<close>, with the locale
    \<open>bounded_fifo\<close> and its interpretation on the failed-session queue), \<open>Nano_Thread\<close>
    (\<open>nano_attachment_thread.c\<close>), \<open>Nano_Configuration\<close> (\<open>http_configuration.cc\<close>, \<open>nano_configuration.c\<close> and
    the source filter of \<open>nano_attachment_util.cc\<close>), \<open>Nano_Reply\<close> (the reply decoding of
    \<open>nano_attachment_io.c\<close>), \<open>Nano_Verdict\<close> (the verdict functions of \<open>nano_attachment_sender.c\<close>).
  \<^item> \<open>Nano_Comm\<close> (\<open>nano_initializer.c\<close> and the connections of \<open>nano_attachment_io.c\<close>): the state of the attachment
    process, the metadata file, sockets, registration, container and unique id, the channels, their restart
    and corruption test, and the initialisation.
  \<^item> \<open>Nano_Io\<close> (\<open>nano_attachment_io.c\<close>): signalling and acknowledgement, sending with retries, receiving, and
    the replies of a session, with their refinement of a list of replies (\<open>settle\<close>).
  \<^item> \<open>Nano_Senders\<close> (\<open>nano_attachment_io.c\<close>): the fragments of each part of a transaction and the loops over
    headers and body chunks, clients of the locale \<open>message_sink\<close>, which the sending of \<open>Nano_Io\<close> interprets.
  \<^item> \<open>Nano_Sender\<close> (\<open>nano_attachment_sender_thread.c\<close>, \<open>nano_attachment_sender.c\<close>, \<open>nano_attachment_sender_async.c\<close>): the
    thread routines, the inspections under a time-out, and the asynchronous ones.
  \<^item> \<open>Nano_Interface\<close> (\<open>nano_attachment.c\<close> and the log file): creation of attachments and sessions, dispatch,
    asynchronous verdicts, keep-alive, readers.
  \<^item> \<open>Ngx_Metric\<close> (\<open>ngx_cp_metric.c\<close>) and \<open>Ngx_Failing_State\<close> (\<open>ngx_cp_failing_state.c\<close>): the metrics of the nginx
    module, and its transparent mode as a step relation with reachable states.
  \<^item> \<open>Ngx_Common\<close> (lists of nginx and the iterator of \<open>ngx_cp_utils.c\<close>), \<open>Ngx_Session_Rate\<close> (\<open>enforce_sessions_rate\<close> of
    \<open>ngx_cp_hooks.c\<close>, with the sliding window it refines), \<open>Ngx_Modification\<close> (the modifications of
    \<open>ngx_cp_custom_response.c\<close>; sorting and copying against splicing).
  \<^item> \<open>Ngx_Async_Context\<close> (\<open>async/ngx_cp_async_core.c\<close>): the worker, the contexts and their hash table of pointer
    chains, which interprets the locale \<open>object_index\<close>. \<open>Ngx_Async_Sender\<close> (\<open>async/ngx_cp_async_sender.c\<close>): sending
    without blocking. \<open>Ngx_Async\<close> (the rest of \<open>async/ngx_cp_async_core.c\<close>, \<open>async/ngx_cp_async_headers.c\<close>,
    \<open>async/ngx_cp_async_body.c\<close>): stages, verdicts, deadlines, queues and clean-up. \<open>Ngx_Async_Lemmas\<close>: what the
    handlers keep of the table and the channel.
  \<^item> \<open>Ngx_Config\<close> (\<open>ngx_cp_utils.c\<close>): the settings and the pages of a worker process of nginx, and its state as a
    record. \<open>Ngx_Io\<close> (\<open>ngx_cp_io.c\<close>): the synchronous exchange with the service; \<open>Ngx_Io_Lemmas\<close>: what it hands to
    the service, with the locale \<open>ngx_message_sink\<close>. \<open>Ngx_Custom_Response\<close> (\<open>ngx_cp_custom_response.c\<close>): block page,
    redirect and custom response. \<open>Ngx_Hook_Threads\<close> (\<open>ngx_cp_hook_threads.c\<close>, \<open>ngx_cp_thread.c\<close>,
    \<open>ngx_cp_http_parser.c\<close>): the routines of the hooks under a time-out. \<open>Ngx_Hooks\<close> (\<open>ngx_cp_hooks.c\<close>): the filters of
    request bodies and response headers. \<open>Ngx_Init\<close> (\<open>ngx_cp_initializer.c\<close>): identity, registration, handshake and
    channels of a worker; \<open>Ngx_Init_Lemmas\<close>: what each of its steps establishes. \<open>Ngx_Request_Handler\<close>
    (\<open>ngx_cp_hooks.c\<close>, \<open>ngx_cp_static_content.c\<close>): the handler of request headers. \<open>Ngx_Hook_Lemmas\<close>: when the filter of
    request bodies forwards a body.
  \<^item> \<open>Nano_Compression\<close> (\<open>nano_compression.c\<close>), \<open>Ngx_Compression\<close> (\<open>ngx_cp_compression.c\<close>): compression of bodies, in the
    nginx module in place in a store of links and buffers. \<open>Ngx_Response_Body\<close> (\<open>ngx_cp_hooks.c\<close>): the filter of response
    bodies. \<open>Ngx_Compression_Lemmas\<close>: what both make of a chain, with the locale \<open>buffer_recoding\<close>, which decompression
    and compression interpret. \<open>Ngx_Response_Lemmas\<close>: when the filter sends a chain on.
  \<^item> \<open>Ipc_Properties\<close>, \<open>Nano_Properties\<close>, \<open>Comm_Properties\<close>, \<open>Io_Properties\<close>, \<open>Ngx_Properties\<close>,
    \<open>Ngx_Async_Properties\<close>, \<open>Ngx_Sync_Properties\<close>, \<open>Ngx_Hook_Properties\<close>,
    \<open>Ngx_Response_Properties\<close>: the properties, each with the concrete input it is applied to.

  \<^bold>\<open>Correspondence of state.\<close> Structs are records with the source's field names; static variables
  are a record that each operation takes and returns; a mapped queue is a record whose \<open>payload\<close> is the
  memory from the management segment on, so that marks and data can overlap as they do in the
  mapping. Positions and sizes keep their width and wrap. System calls and allocations are
  arguments that hold their answers (\<open>shm_calls\<close>, \<open>ipc_calls\<close>, \<open>thread_calls\<close>, \<open>alloc\<close>); the process of the
  attachment (\<open>comm_world\<close>) counts its calls, and \<open>os_answers\<close> holds the answer of each, with what the
  service does to the queues while the attachment waits; what is written to sockets is kept in order.
  A write through \<open>MAP_FAILED\<close> or past a buffer is a result of its own (\<open>CreateFault\<close>, \<open>Overrun\<close>), a \<open>NULL\<close>
  dereference is \<open>None\<close>. Code outside the repository is a parameter: the JSON reader (\<open>json_conf\<close>), \<open>inet_pton\<close>,
  and the progress of a cancelled thread.

  \<^bold>\<open>What is shown.\<close> Both queues refine a list of messages (C1, C3), across processes that negotiate
  different sizes (C2), through the channel (C9); pushes report errors exactly, and on a queue with sound sizes they stay in the
  mapping (C4, C5). Headers and body chunks arrive complete and in order (C10, C11), the replies settle a
  session (C12), and the end of a request is answered with the verdict the service gave, a block with its page (C13). An
  initialised attachment is ready, apart from a socket with the number 0 (C14), its registration is sent in full (C15), and an
  asynchronous verdict is delivered once (C16). In the nginx module the table of contexts is a map (C17), every request is
  settled by its deadline (C18), by a blocking reply or by the last reply to its end (C19), and the event handler ends (C20). In
  its synchronous mode headers and bodies arrive complete and in order (C21, C22), a body or a response under inspection that
  was not inspected to its end is not handed on (C23, C24), an accepted response is compressed again in its place, with the end of
  its stream (C25), an initialised worker is connected (C26), sending ends (C27), the block page is the one the verdict asks for
  (C28), and the ids of sessions repeat after 2^31 of them only (C30). Custom responses survive their
  encoding (C31), the transparent mode stays within its table except where C33 says, a failed initialisation leaves
  nothing behind (C34), the session limit is a sliding window (C35), and modifications do what they ask for (C36, C37). The
  remaining properties state what the code does where it does not do what it means to: the pages of replies that write
  past their buffers (C6), a request whose body passes without inspection (C7), requests that hang on an injection (C8) or a
  delayed verdict (C29), a transparent mode that is not entered (C32), messages lost by an accepted push (C38) and by marks in the
  data (C39), and a loop that does not end (C40). Theorems without a number complete the components, among them those on
  configuration, the source filter, metrics, threads, the corruption test, the queue table and the failed-session
  queue, and more on what goes wrong: a message that was not sent and is reported as inspected, two channels on one
  object, a request that is refused, a failed registration that accepts a request, and a response that is sent from memory
  that was given back.

  \<^bold>\<open>What the statements suppose.\<close> Each property names its conditions in the text before it. The verdicts of the nano library
  (C12, C13, C16) cover accepts, drops with their pages and the verdicts that leave the session open; injections, custom
  responses with headers and reconfigurations are modelled, but their replies are not part of these statements. C24 is about
  responses that come with an undecided verdict after a completely inspected request, since the code sends on the others. C25
  supposes a compression library whose calls succeed with output. The contexts of C18 to C20 hold no modifications of an earlier
  reply: a second reply with injections dereferences \<open>NULL\<close> (\<open>second_injection_faults\<close>).

  \<^bold>\<open>The precondition of the refinement.\<close> A push refines append when the free-space check accepts it and,
  if the writer is behind the reader, it ends before the last segment (\<open>room_for\<close>); C38 shows that the
  second condition is needed. \<open>geometry_ok\<close> asks that the entry size is at least 1024 and at most the
  segment size and that the marks fit into the management segment; C39 and \<open>variable_splits_sizes\<close> show what happens
  otherwise.

  \<^bold>\<open>Rounds.\<close> The loops of the queues, the decoding and the senders of headers are structural recursions or have a
  measure. Loops the code bounds only by the behaviour of the system (writes, reads, signals, replies,
  delayed verdicts, body chunks) take a number of rounds and answer \<open>None\<close> when it is used up; the theorems say
  how many are enough (one per byte or reply, one per chunk, one per link of a chain), C40 that none is. The event handler of the nginx
  module takes a bound on its nesting; C20 shows that it ends with two, and with eight rounds for the four bytes of its signal, when a
  write does not block after a poll that found the socket writable (\<open>writes_go_on\<close>).

  \<^bold>\<open>Not modelled.\<close> Logging and the dump functions (they only print); concurrent execution inside an
  operation (each operation is one step; the code has one reader and one writer per queue and
  no locks; what the service does happens where the attachment waits); closing of descriptors and freeing of
  memory, except where a bad \<open>free\<close> is a fault; the compression library
  (streams over third-party code, whose answers are arguments); the registration of the nginx
  module with nginx; the Kong, Envoy and Traefik
  bindings.
\<close>

end
